(* ===== verification/Prelude.thy ===== *)
theory Prelude
  imports Main "HOL-Library.Word" "HOL-Library.Char_ord" "HOL-Library.List_Lexorder"
begin

text \<open>
  Shared vocabulary of the development: the Go types every package uses (uuid, time, duration,
  error chains), the string functions of the standard library the source calls, and generic
  lemmas on results, lists and maps.

  Errors.  The source never inspects an error's text: callers match sentinels with
  \<open>errors.Is\<close>, which walks the chain built by \<open>fmt.Errorf("...%w")\<close>.  An error is
  therefore the list of sentinels in its chain, in wrapping order; an error with no sentinel is
  the empty list.  \<open>GoPanic\<close> stands for a panic that unwinds the handler.
\<close>

named_theorems domain_defs \<open>definitions of the domain operations\<close>
named_theorems guards \<open>inversion rules for successful operations\<close>

section \<open>Go base types\<close>

type_synonym uuid = "128 word"        \<comment> \<open>uuid.UUID is [16]byte; uuid.Nil is the zero array\<close>
type_synonym time = int               \<comment> \<open>time.Time as nanoseconds since the zero Time\<close>
type_synonym duration = int           \<comment> \<open>time.Duration in nanoseconds\<close>
type_synonym bytes = string           \<comment> \<open>[]byte and string hold the same bytes\<close>

definition uuid_Nil :: uuid where
  "uuid_Nil = 0"

definition time_IsZero :: "time \<Rightarrow> bool" where
  "time_IsZero t \<longleftrightarrow> t = 0"

definition Second :: duration where
  "Second = 1000000000"

definition Minute :: duration where
  "Minute = 60 * Second"

definition Hour :: duration where
  "Hour = 60 * Minute"

lemmas duration_defs = Second_def Minute_def Hour_def

section \<open>Error chains\<close>

datatype (plugins only: code) sentinel =
    ErrNotFound | ErrConflict | ErrUnauthorized | ErrForbidden | ErrBadRequest | ErrTooManyRequests
  | ErrValidatorAlreadyApproved | ErrConsensusKeyAlreadyUsed | ErrSubmissionCapReached
  | ErrChallengeMismatch | ErrLaunchNotGenesisReady | ErrJoinRequestNotApproved
  | ErrReadinessAlreadyConfirmed
  | ErrAccountIDEmpty | ErrAccountIDInvalid | ErrNotAccountAddress
  | ErrInvalidStatusTransition | ErrGenesisHashRequired | ErrInsufficientValidators
  | ErrDominantVotingPower | ErrCommitteeMemberNotFound | ErrCommitteeMemberExists
  | ErrInvalidCommitteeChange | ErrWindowNotOpen | ErrMembersNotEditable | ErrNotAMember
  | ErrLeadNotFirstMember | ErrGenesisStale | ErrGenesisHashMismatch | ErrGenesisPublishInProgress
  | ErrRehearsalGateUnsatisfied | ErrRehearsalGateNoService
  | ErrChainIDRequired | ErrBech32PrefixRequired | ErrBinaryNameRequired | ErrDenomRequired
  | ErrMinValidatorCountTooLow | ErrGentxDeadlineRequired | ErrCommissionChangeExceedsMax
  | ErrInvalidRepoURL | ErrInvalidBinarySHA256 | ErrInvalidMinSelfDelegation | ErrInvalidTotalSupply
  | ErrCommitteeThresholdRange | ErrCommitteeSizeMismatch
  | ErrUnknownAllocationType | ErrAllocationEmptyHash | ErrAllocationLocked | ErrAllocationNotFound
  | ErrAllocationStaleHash
  | ErrAttemptLeased
  | ErrProposalPayloadRequired | ErrProposalNotPending | ErrProposalTTLExpired | ErrMemberAlreadySigned
  | ErrInvalidJoinRequestStatus
  | GentxInvalidError "(string \<times> bool \<times> string) list"   \<comment> \<open>invariant, whether it holds, and why not\<close>
  | RehearsalLeasedError string time time                     \<comment> \<open>the runner, since when and until when\<close>
  | GoPanic

type_synonym goerror = "sentinel list"
type_synonym 'a result = "goerror + 'a"

definition errors_Is :: "goerror \<Rightarrow> sentinel \<Rightarrow> bool" where
  "errors_Is e s \<longleftrightarrow> s \<in> set e"

text \<open>\<open>if err != nil \<longlonglongrightarrow> return\<close>: the first error wins, the rest of the body is the continuation.\<close>

definition and_then :: "'e + 'a \<Rightarrow> ('a \<Rightarrow> 'e + 'b) \<Rightarrow> 'e + 'b" where
  "and_then r f = (case r of Inl e \<Rightarrow> Inl e | Inr x \<Rightarrow> f x)"

definition require :: "bool \<Rightarrow> 'e \<Rightarrow> 'e + unit" where
  "require b e = (if b then Inr () else Inl e)"

definition wrap_err :: "goerror \<Rightarrow> 'a result \<Rightarrow> 'a result" where
  \<comment> \<open>\<open>fmt.Errorf("...: %w: %w", err, sentinel)\<close>\<close>
  "wrap_err s r = (case r of Inl e \<Rightarrow> Inl (e @ s) | Inr x \<Rightarrow> Inr x)"

lemma and_then_simps [simp]:
  "and_then (Inl e) f = Inl e"
  "and_then (Inr x) f = f x"
  by (simp_all add: and_then_def)

lemma and_then_Inr_iff: "and_then r f = Inr y \<longleftrightarrow> (\<exists>x. r = Inr x \<and> f x = Inr y)"
  by (cases r) auto

lemma require_simps [simp]:
  "require b e = Inr u \<longleftrightarrow> b"
  "require b e = Inl e' \<longleftrightarrow> \<not> b \<and> e' = e"
  by (auto simp: require_def)

lemma wrap_err_simps [simp]:
  "wrap_err s (Inl e) = Inl (e @ s)"
  "wrap_err s (Inr x) = Inr x"
  "wrap_err s r = Inr x \<longleftrightarrow> r = Inr x"
  by (cases r; simp add: wrap_err_def)+

lemmas result_simps = and_then_Inr_iff require_simps wrap_err_simps

section \<open>Go strings\<close>

definition is_space :: "char \<Rightarrow> bool" where
  \<comment> \<open>the ASCII members of unicode.IsSpace\<close>
  "is_space c \<longleftrightarrow> c = CHR '' '' \<or> (9 \<le> (of_char c :: nat) \<and> (of_char c :: nat) \<le> 13)"

definition TrimSpace :: "string \<Rightarrow> string" where
  "TrimSpace s = rev (dropWhile is_space (rev (dropWhile is_space s)))"

definition ToLower :: "string \<Rightarrow> string" where
  "ToLower s = map (\<lambda>c. if (65::nat) \<le> of_char c \<and> (of_char c :: nat) \<le> 90
                         then char_of (of_char c + 32 :: nat) else c) s"

definition HasSuffix :: "string \<Rightarrow> string \<Rightarrow> bool" where
  "HasSuffix s t \<longleftrightarrow> length t \<le> length s \<and> drop (length s - length t) s = t"

definition is_digit :: "char \<Rightarrow> bool" where
  "is_digit c \<longleftrightarrow> (48::nat) \<le> of_char c \<and> (of_char c :: nat) \<le> 57"

definition digit_val :: "char \<Rightarrow> nat" where
  "digit_val c = of_char c - 48"

definition is_hex_lower :: "char \<Rightarrow> bool" where
  "is_hex_lower c \<longleftrightarrow> is_digit c \<or> ((97::nat) \<le> of_char c \<and> (of_char c :: nat) \<le> 102)"

text \<open>\<open>strings.SplitN(s, sep, 2)\<close> for a one-byte separator: None when it does not occur.\<close>

fun split_at :: "char \<Rightarrow> string \<Rightarrow> (string \<times> string) option" where
  "split_at c [] = None"
| "split_at c (x # xs) =
     (if x = c then Some ([], xs)
      else map_option (\<lambda>(a, b). (x # a, b)) (split_at c xs))"

lemma split_at_Some: "split_at c s = Some (a, b) \<longleftrightarrow> s = a @ c # b \<and> c \<notin> set a"
  by (induction s arbitrary: a b) (auto simp: Cons_eq_append_conv)

lemma split_at_None: "split_at c s = None \<longleftrightarrow> c \<notin> set s"
  by (induction s) auto

section \<open>Lists\<close>

text \<open>Update of the first element that satisfies a predicate, the shape of the source's
  \<open>for i := range xs { if p(xs[i]) { ...; return } }\<close> loops.\<close>

fun find_index :: "('a \<Rightarrow> bool) \<Rightarrow> 'a list \<Rightarrow> nat option" where
  "find_index p [] = None"
| "find_index p (x # xs) = (if p x then Some 0 else map_option Suc (find_index p xs))"

lemma find_index_None: "find_index p xs = None \<longleftrightarrow> (\<forall>x \<in> set xs. \<not> p x)"
  by (induction xs) auto

lemma find_index_Some:
  "find_index p xs = Some i \<longleftrightarrow> i < length xs \<and> p (xs ! i) \<and> (\<forall>j < i. \<not> p (xs ! j))"
proof (induction xs arbitrary: i)
  case Nil
  then show ?case by simp
next
  case (Cons x xs)
  show ?case
    by (cases i) (auto simp: Cons.IH nth_Cons less_Suc_eq_0_disj)
qed

lemma find_index_length: "find_index p xs = Some i \<Longrightarrow> i < length xs"
  by (simp add: find_index_Some)

lemma find_index_nth: "find_index p xs = Some i \<Longrightarrow> p (xs ! i)"
  by (simp add: find_index_Some)

definition remove_nth :: "nat \<Rightarrow> 'a list \<Rightarrow> 'a list" where
  \<comment> \<open>\<open>append(xs[:i], xs[i+1:]...)\<close>\<close>
  "remove_nth i xs = take i xs @ drop (Suc i) xs"

lemma length_remove_nth: "i < length xs \<Longrightarrow> length (remove_nth i xs) = length xs - 1"
  by (simp add: remove_nth_def)

lemma set_remove_nth_subset: "set (remove_nth i xs) \<subseteq> set xs"
  by (auto simp: remove_nth_def dest: in_set_takeD in_set_dropD)

lemma remove_nth_0 [simp]: "remove_nth 0 xs = tl xs"
  by (cases xs) (simp_all add: remove_nth_def)

lemma nth_0_remove_nth: "0 < i \<Longrightarrow> i < length xs \<Longrightarrow> remove_nth i xs ! 0 = xs ! 0"
  by (simp add: remove_nth_def nth_append)

lemma distinct_remove_nth: "distinct xs \<Longrightarrow> distinct (remove_nth i xs)"
proof -
  assume "distinct xs"
  then have "distinct (take i xs @ drop i xs)" by simp
  moreover have "set (drop (Suc i) xs) \<subseteq> set (drop i xs)"
    by (simp add: set_drop_subset_set_drop)
  ultimately show ?thesis
    by (auto simp: remove_nth_def distinct_drop \<open>distinct xs\<close> simp del: append_take_drop_id)
qed

lemma map_remove_nth: "map f (remove_nth i xs) = remove_nth i (map f xs)"
  by (simp add: remove_nth_def take_map drop_map)

section \<open>Association lists\<close>

text \<open>A database table is a list of rows in insertion order, keyed by a primary key.\<close>

definition row_of :: "('r \<Rightarrow> 'k) \<Rightarrow> 'k \<Rightarrow> 'r list \<Rightarrow> 'r option" where
  "row_of key k rows = find (\<lambda>r. key r = k) rows"

fun upsert :: "('r \<Rightarrow> 'k) \<Rightarrow> ('r \<Rightarrow> 'r \<Rightarrow> 'r) \<Rightarrow> 'r \<Rightarrow> 'r list \<Rightarrow> 'r list" where
  \<comment> \<open>\<open>INSERT ... ON CONFLICT(key) DO UPDATE\<close>: merge old new replaces the conflicting row\<close>
  "upsert key mrg r [] = [r]"
| "upsert key mrg r (x # xs) = (if key x = key r then mrg x r # xs else x # upsert key mrg r xs)"

lemma row_of_Some: "row_of key k rows = Some r \<Longrightarrow> r \<in> set rows \<and> key r = k"
  by (auto simp: row_of_def find_Some_iff)

lemma row_of_None: "row_of key k rows = None \<longleftrightarrow> (\<forall>r \<in> set rows. key r \<noteq> k)"
  by (auto simp: row_of_def find_None_iff)

lemma row_of_upsert:
  assumes "\<And>x. key x = key r \<Longrightarrow> key (mrg x r) = key r"
  shows "row_of key k (upsert key mrg r rows) =
    (if k = key r then Some (case row_of key k rows of None \<Rightarrow> r | Some x \<Rightarrow> mrg x r)
     else row_of key k rows)"
  using assms by (induction rows) (auto simp: row_of_def)

lemma set_upsert: "set (upsert key mrg r rows) \<subseteq> set rows \<union> {r} \<union> (\<lambda>x. mrg x r) ` set rows"
  by (induction rows) auto

lemma keys_upsert:
  assumes "\<And>x. key x = key r \<Longrightarrow> key (mrg x r) = key r"
  shows "map key (upsert key mrg r rows) =
    (if key r \<in> key ` set rows then map key rows else map key rows @ [key r])"
  using assms by (induction rows) auto

lemma distinct_keys_upsert:
  assumes "\<And>x. key x = key r \<Longrightarrow> key (mrg x r) = key r" "distinct (map key rows)"
  shows "distinct (map key (upsert key mrg r rows))"
  using assms by (auto simp: keys_upsert)

lemma row_of_in_set:
  "distinct (map key rows) \<Longrightarrow> r \<in> set rows \<Longrightarrow> row_of key (key r) rows = Some r"
  by (induction rows) (auto simp: row_of_def image_iff)

end
