(* ===== verification/Encoding.thy ===== *)
theory Encoding
  imports Prelude Complex_Main
begin

text \<open>
  The encodings of the standard library the value objects are validated with: \<open>encoding/hex\<close>,
  \<open>encoding/base64\<close> (StdEncoding), \<open>strconv.Atoi\<close> and \<open>net.SplitHostPort\<close>, all as
  executable functions on bytes.
\<close>

section \<open>Hex\<close>

definition hex_char :: "nat \<Rightarrow> char" where
  "hex_char n = (if n < 10 then char_of (48 + n) else char_of (87 + n))"

definition hex_EncodeToString :: "nat list \<Rightarrow> string" where
  "hex_EncodeToString bs = concat (map (\<lambda>b. [hex_char (b div 16), hex_char (b mod 16)]) bs)"

definition from_hex_char :: "char \<Rightarrow> nat option" where
  "from_hex_char c = (let n = of_char c :: nat in
     if 48 \<le> n \<and> n \<le> 57 then Some (n - 48)
     else if 97 \<le> n \<and> n \<le> 102 then Some (n - 87)
     else if 65 \<le> n \<and> n \<le> 70 then Some (n - 55) else None)"

fun hex_DecodeString :: "string \<Rightarrow> nat list option" where
  "hex_DecodeString [] = Some []"
| "hex_DecodeString [c] = None"
| "hex_DecodeString (a # b # s) = (case (from_hex_char a, from_hex_char b) of
     (Some x, Some y) \<Rightarrow> map_option (Cons (16 * x + y)) (hex_DecodeString s)
   | _ \<Rightarrow> None)"

lemma of_char_hex_char:
  "n < 16 \<Longrightarrow> of_char (hex_char n) = (if n < 10 then 48 + n else 87 + n)"
  by (simp add: hex_char_def)

lemma from_hex_char_hex_char: "n < 16 \<Longrightarrow> from_hex_char (hex_char n) = Some n"
  by (simp add: from_hex_char_def Let_def of_char_hex_char)

lemma is_hex_lower_hex_char: "n < 16 \<Longrightarrow> is_hex_lower (hex_char n)"
  by (simp add: is_hex_lower_def is_digit_def of_char_hex_char)

lemma hex_decode_encode:
  "\<forall>b \<in> set bs. b < 256 \<Longrightarrow> hex_DecodeString (hex_EncodeToString bs) = Some bs"
proof (induction bs)
  case (Cons b bs)
  then have "b div 16 < 16" "b mod 16 < 16" by auto
  with Cons show ?case
    by (simp add: hex_EncodeToString_def from_hex_char_hex_char)
qed (simp add: hex_EncodeToString_def)

lemma hex_encode_inj:
  assumes "\<forall>b \<in> set bs. b < 256" "\<forall>b \<in> set cs. b < 256"
    "hex_EncodeToString bs = hex_EncodeToString cs"
  shows "bs = cs"
  using assms hex_decode_encode by (metis option.inject)

section \<open>Base64\<close>

definition b64_val :: "char \<Rightarrow> nat option" where
  "b64_val c = (let n = of_char c :: nat in
     if 65 \<le> n \<and> n \<le> 90 then Some (n - 65)
     else if 97 \<le> n \<and> n \<le> 122 then Some (n - 71)
     else if 48 \<le> n \<and> n \<le> 57 then Some (n + 4)
     else if n = 43 then Some 62 else if n = 47 then Some 63 else None)"

text \<open>Quads of the input; only the last may be padded.\<close>

fun b64_quads :: "string \<Rightarrow> nat list option" where
  "b64_quads [] = Some []"
| "b64_quads (a # b # c # d # r) =
     (case (b64_val a, b64_val b) of
        (Some x, Some y) \<Rightarrow>
          (if c = CHR ''='' \<and> d = CHR ''='' \<and> r = [] then Some [4 * x + y div 16]
           else (case b64_val c of
             None \<Rightarrow> None
           | Some z \<Rightarrow>
             (if d = CHR ''='' \<and> r = [] then Some [4 * x + y div 16, 16 * (y mod 16) + z div 4]
              else (case b64_val d of
                None \<Rightarrow> None
              | Some w \<Rightarrow> map_option (\<lambda>t. (4 * x + y div 16) # (16 * (y mod 16) + z div 4)
                                         # (64 * (z mod 4) + w) # t) (b64_quads r)))))
      | _ \<Rightarrow> None)"
| "b64_quads _ = None"

definition base64_DecodeString :: "string \<Rightarrow> nat list option" where
  \<comment> \<open>the decoder skips line breaks\<close>
  "base64_DecodeString s = b64_quads (filter (\<lambda>c. c \<noteq> CHR 0x0A \<and> c \<noteq> CHR 0x0D) s)"

section \<open>strconv.Atoi and net.SplitHostPort\<close>

definition decimal :: "string \<Rightarrow> nat" where
  "decimal ds = fold (\<lambda>c n. n * 10 + digit_val c) ds 0"

definition Atoi :: "string \<Rightarrow> int option" where
  "Atoi s =
     (let (neg, ds) = (case s of
          c # r \<Rightarrow> if c = CHR ''-'' then (True, r) else if c = CHR ''+'' then (False, r) else (False, s)
        | [] \<Rightarrow> (False, s)) in
      if ds = [] \<or> \<not> list_all is_digit ds then None
      else let n = int (decimal ds); i = (if neg then - n else n) in
        if - (2 ^ 63) \<le> i \<and> i < 2 ^ 63 then Some i else None)"

text \<open>\<open>big.Int.SetString(s, 10)\<close>: an optional sign and decimal digits, unbounded.\<close>

definition bigint_SetString :: "string \<Rightarrow> int option" where
  "bigint_SetString s =
     (let (neg, ds) = (case s of
          c # r \<Rightarrow> if c = CHR ''-'' then (True, r) else if c = CHR ''+'' then (False, r) else (False, s)
        | [] \<Rightarrow> (False, s)) in
      if ds = [] \<or> \<not> list_all is_digit ds then None
      else Some (if neg then - int (decimal ds) else int (decimal ds)))"

definition split_last_colon :: "string \<Rightarrow> (string \<times> string) option" where
  "split_last_colon s = map_option (\<lambda>(a, b). (rev b, rev a)) (split_at (CHR '':'') (rev s))"

definition SplitHostPort :: "string \<Rightarrow> (string \<times> string) option" where
  "SplitHostPort s = (case split_last_colon s of
     None \<Rightarrow> None
   | Some (h, port) \<Rightarrow>
     (if s \<noteq> [] \<and> hd s = CHR ''['' then
        (case split_at (CHR '']'') s of
           None \<Rightarrow> None
         | Some (a, b) \<Rightarrow>
             if b \<noteq> [] \<and> hd b = CHR '':'' \<and> tl b = port \<and> CHR ''['' \<notin> set (tl a @ b)
                \<and> CHR '']'' \<notin> set b
             then Some (tl a, port) else None)
      else if CHR '':'' \<in> set h then None
      else if CHR ''['' \<in> set s \<or> CHR '']'' \<in> set s then None
      else Some (h, port)))"

end
