(* ===== verification/Json.thy ===== *)
theory Json
  imports Prelude
begin

text \<open>
  What the source uses of \<open>encoding/json\<close>: the decoder's grammar (a byte-level parser to a
  value tree) and the way a tree is stored into the fields of a struct.  Bytes outside ASCII are
  kept as they are; the replacement of invalid UTF-8 by U+FFFD and the two non-ASCII case folds of
  the key matcher are not modelled.
\<close>

section \<open>Values and parser\<close>

datatype json =
    JNull
  | JBool bool
  | JNum string
  | JStr string
  | JArr "json list"
  | JObj "(string \<times> json) list"

definition json_ws :: "char \<Rightarrow> bool" where
  "json_ws c \<longleftrightarrow> c = CHR '' '' \<or> c = CHR 0x09 \<or> c = CHR 0x0A \<or> c = CHR 0x0D"

definition skip_ws :: "string \<Rightarrow> string" where
  "skip_ws s = dropWhile json_ws s"

definition hex_digit :: "char \<Rightarrow> nat option" where
  "hex_digit c = (let n = of_char c :: nat in
     if 48 \<le> n \<and> n \<le> 57 then Some (n - 48)
     else if 97 \<le> n \<and> n \<le> 102 then Some (n - 87)
     else if 65 \<le> n \<and> n \<le> 70 then Some (n - 55) else None)"

text \<open>A string literal is read as a list of units: raw bytes and the code units of \<open>\u\<close> escapes.\<close>

datatype str_unit = Raw char | Unit nat

definition hex4 :: "char \<Rightarrow> char \<Rightarrow> char \<Rightarrow> char \<Rightarrow> nat option" where
  "hex4 a b c d = (case (hex_digit a, hex_digit b, hex_digit c, hex_digit d) of
     (Some w, Some x, Some y, Some z) \<Rightarrow> Some (((w * 16 + x) * 16 + y) * 16 + z)
   | _ \<Rightarrow> None)"

definition simple_escape :: "char \<Rightarrow> char option" where
  "simple_escape c =
     (if c = CHR 0x22 \<or> c = CHR 0x5C \<or> c = CHR ''/'' then Some c
      else if c = CHR ''b'' then Some (CHR 0x08) else if c = CHR ''f'' then Some (CHR 0x0C)
      else if c = CHR ''n'' then Some (CHR 0x0A) else if c = CHR ''r'' then Some (CHR 0x0D)
      else if c = CHR ''t'' then Some (CHR 0x09) else None)"

definition json_char :: "string \<Rightarrow> (str_unit \<times> string) option" where
  \<comment> \<open>one unit of a string body\<close>
  "json_char s = (case s of
     [] \<Rightarrow> None
   | c # s0 \<Rightarrow>
     (if c = CHR 0x5C then
        (case s0 of
           [] \<Rightarrow> None
         | e # s1 \<Rightarrow>
           (if e = CHR ''u'' then
              (case s1 of
                 x # y # z # w # s2 \<Rightarrow> map_option (\<lambda>u. (Unit u, s2)) (hex4 x y z w)
               | _ \<Rightarrow> None)
            else map_option (\<lambda>b. (Raw b, s1)) (simple_escape e)))
      else if (of_char c :: nat) < 32 then None
      else Some (Raw c, s0)))"

fun json_string :: "nat \<Rightarrow> string \<Rightarrow> (str_unit list \<times> string) option" where
  \<comment> \<open>the body of a string literal and its closing quote\<close>
  "json_string 0 s = None"
| "json_string (Suc n) s =
     (if s \<noteq> [] \<and> hd s = CHR 0x22 then Some ([], tl s)
      else (case json_char s of
              None \<Rightarrow> None
            | Some (u, r) \<Rightarrow> map_option (\<lambda>(us, t). (u # us, t)) (json_string n r)))"

definition utf8 :: "nat \<Rightarrow> string" where
  "utf8 u =
     (if u < 128 then [char_of u]
      else if u < 2048 then [char_of (192 + u div 64), char_of (128 + u mod 64)]
      else if u < 65536 then
        [char_of (224 + u div 4096), char_of (128 + (u div 64) mod 64), char_of (128 + u mod 64)]
      else [char_of (240 + u div 262144), char_of (128 + (u div 4096) mod 64),
            char_of (128 + (u div 64) mod 64), char_of (128 + u mod 64)])"

fun units_bytes :: "str_unit list \<Rightarrow> string" where
  "units_bytes [] = []"
| "units_bytes (Raw c # us) = c # units_bytes us"
| "units_bytes (Unit h # Unit l # us) =
     (if 55296 \<le> h \<and> h < 56320 \<and> 56320 \<le> l \<and> l < 57344
      then utf8 (65536 + (h - 55296) * 1024 + (l - 56320)) @ units_bytes us
      else utf8 (if 55296 \<le> h \<and> h < 57344 then 65533 else h) @ units_bytes (Unit l # us))"
| "units_bytes (Unit h # us) =
     utf8 (if 55296 \<le> h \<and> h < 57344 then 65533 else h) @ units_bytes us"

definition digits_of :: "string \<Rightarrow> string \<times> string" where
  "digits_of s = (takeWhile is_digit s, dropWhile is_digit s)"

definition json_int :: "string \<Rightarrow> (string \<times> string) option" where
  "json_int s = (let (ds, r) = digits_of s in
     if ds = [] then None
     else if hd ds = CHR ''0'' then Some ([CHR ''0''], tl s) else Some (ds, r))"

definition json_frac :: "string \<Rightarrow> (string \<times> string) option" where
  "json_frac s = (case s of
     c # r \<Rightarrow> if c = CHR ''.'' then
                (let (ds, r') = digits_of r in if ds = [] then None else Some (c # ds, r'))
              else Some ([], s)
   | [] \<Rightarrow> Some ([], s))"

definition json_exp :: "string \<Rightarrow> (string \<times> string) option" where
  "json_exp s = (case s of
     e # r \<Rightarrow> if e = CHR ''e'' \<or> e = CHR ''E'' then
       (let (sg, r1) = (case r of c # r1 \<Rightarrow> if c = CHR ''+'' \<or> c = CHR ''-'' then ([c], r1) else ([], r)
                               | [] \<Rightarrow> ([], r));
            (ds, r2) = digits_of r1
        in if ds = [] then None else Some (e # sg @ ds, r2))
       else Some ([], s)
   | [] \<Rightarrow> Some ([], s))"

definition json_number :: "string \<Rightarrow> (json \<times> string) option" where
  "json_number s =
     (let (sg, s0) = (case s of c # r \<Rightarrow> if c = CHR ''-'' then ([c], r) else ([], s) | [] \<Rightarrow> ([], s)) in
      case json_int s0 of None \<Rightarrow> None | Some (i, s1) \<Rightarrow>
      (case json_frac s1 of None \<Rightarrow> None | Some (f, s2) \<Rightarrow>
      (case json_exp s2 of None \<Rightarrow> None | Some (e, s3) \<Rightarrow>
         Some (JNum (sg @ i @ f @ e), s3))))"

definition eat :: "string \<Rightarrow> string \<Rightarrow> string option" where
  "eat w s = (if take (length w) s = w then Some (drop (length w) s) else None)"

definition json_key :: "string \<Rightarrow> (string \<times> string) option" where
  \<comment> \<open>an object key and the colon after it\<close>
  "json_key s = (case skip_ws s of
     [] \<Rightarrow> None
   | q # r0 \<Rightarrow> if q \<noteq> CHR 0x22 then None else
       (case json_string (Suc (length r0)) r0 of
          None \<Rightarrow> None
        | Some (us, r1) \<Rightarrow> (case skip_ws r1 of
            [] \<Rightarrow> None
          | col # r2 \<Rightarrow> if col = CHR '':'' then Some (units_bytes us, r2) else None)))"

definition json_scalar :: "string \<Rightarrow> (json \<times> string) option" where
  "json_scalar s = (case s of
     [] \<Rightarrow> None
   | c # r \<Rightarrow>
     (if c = CHR 0x22 then
        map_option (\<lambda>(us, t). (JStr (units_bytes us), t)) (json_string (Suc (length r)) r)
      else (case eat ''true'' s of
              Some t \<Rightarrow> Some (JBool True, t)
            | None \<Rightarrow> (case eat ''false'' s of
                Some t \<Rightarrow> Some (JBool False, t)
              | None \<Rightarrow> (case eat ''null'' s of
                  Some t \<Rightarrow> Some (JNull, t)
                | None \<Rightarrow> json_number s)))))"

definition json_close :: "char \<Rightarrow> string \<Rightarrow> string option" where
  "json_close c s = (case skip_ws s of [] \<Rightarrow> None | d # t \<Rightarrow> if d = c then Some t else None)"

text \<open>The value parser spends one unit of fuel per nested value or element.\<close>

fun json_value :: "nat \<Rightarrow> string \<Rightarrow> (json \<times> string) option"
  and json_elems :: "nat \<Rightarrow> string \<Rightarrow> (json list \<times> string) option"
  and json_members :: "nat \<Rightarrow> string \<Rightarrow> ((string \<times> json) list \<times> string) option"
where
  "json_value 0 s = None"
| "json_value (Suc n) s =
     (case json_close (CHR ''{'') s of
        Some r \<Rightarrow> (case json_close (CHR ''}'') r of
            Some t \<Rightarrow> Some (JObj [], t)
          | None \<Rightarrow> map_option (\<lambda>(ms, u). (JObj ms, u)) (json_members n r))
      | None \<Rightarrow>
     (case json_close (CHR ''['') s of
        Some r \<Rightarrow> (case json_close (CHR '']'') r of
            Some t \<Rightarrow> Some (JArr [], t)
          | None \<Rightarrow> map_option (\<lambda>(vs, u). (JArr vs, u)) (json_elems n r))
      | None \<Rightarrow> json_scalar (skip_ws s)))"
| "json_elems 0 s = None"
| "json_elems (Suc n) s = (case json_value n s of
     None \<Rightarrow> None
   | Some (v, r) \<Rightarrow> (case json_close (CHR '']'') r of
       Some t \<Rightarrow> Some ([v], t)
     | None \<Rightarrow> (case json_close (CHR '','') r of
         Some t \<Rightarrow> map_option (\<lambda>(vs, u). (v # vs, u)) (json_elems n t)
       | None \<Rightarrow> None)))"
| "json_members 0 s = None"
| "json_members (Suc n) s = (case json_key s of
     None \<Rightarrow> None
   | Some (k, s1) \<Rightarrow> (case json_value n s1 of
       None \<Rightarrow> None
     | Some (v, r) \<Rightarrow> (case json_close (CHR ''}'') r of
         Some t \<Rightarrow> Some ([(k, v)], t)
       | None \<Rightarrow> (case json_close (CHR '','') r of
           Some t \<Rightarrow> map_option (\<lambda>(ms, u). ((k, v) # ms, u)) (json_members n t)
         | None \<Rightarrow> None))))"

text \<open>An array element is read without consuming input first, so twice the length is enough fuel.\<close>

definition json_parse :: "bytes \<Rightarrow> json option" where
  "json_parse s = (case json_value (Suc (2 * length s)) s of
     None \<Rightarrow> None
   | Some (v, r) \<Rightarrow> if skip_ws r = [] then Some v else None)"

subsection \<open>The fuel is enough\<close>

lemma length_skip_ws: "length (skip_ws s) \<le> length s"
  by (simp add: skip_ws_def length_dropWhile_le)

lemma skip_ws_Cons: "skip_ws s = c # r \<Longrightarrow> length r < length s"
  using length_skip_ws [of s] by simp

lemma json_char_length: "json_char s = Some (u, r) \<Longrightarrow> length r < length s"
  by (auto simp: json_char_def split: list.splits if_splits)

lemma json_string_length: "json_string n s = Some (us, r) \<Longrightarrow> length r < length s"
proof (induction n arbitrary: s us r)
  case (Suc n)
  show ?case
  proof (cases "s \<noteq> [] \<and> hd s = CHR 0x22")
    case True
    with Suc.prems show ?thesis by (cases s) auto
  next
    case False
    with Suc.prems obtain u t vs where "json_char s = Some (u, t)" "json_string n t = Some (vs, r)"
      by (auto split: option.splits)
    then show ?thesis
      using Suc.IH json_char_length less_trans by blast
  qed
qed simp

lemma json_string_fuel: "length s < n \<Longrightarrow> json_string (Suc n) s = json_string n s"
proof (induction n arbitrary: s)
  case (Suc n)
  have "json_string (Suc n) r = json_string n r" if "json_char s = Some (u, r)" for u r
    using Suc json_char_length [OF that] by simp
  then show ?case
    by (subst (1 2) json_string.simps(2)) (auto split: option.split)
qed simp

declare json_string.simps [simp del]

lemma eat_length: "w \<noteq> [] \<Longrightarrow> eat w s = Some r \<Longrightarrow> length r < length s"
  by (auto simp: eat_def split: if_splits)
    (metis diff_less length_greater_0_conv list.size(3) take_eq_Nil)

lemma digits_of_length: "digits_of s = (ds, r) \<Longrightarrow> length r + length ds = length s"
  by (auto simp: digits_of_def) (metis add.commute length_append takeWhile_dropWhile_id)

lemma json_int_length: "json_int s = Some (i, r) \<Longrightarrow> length r < length s"
  by (cases s) (auto simp: json_int_def digits_of_def split: if_splits prod.splits
      intro: le_imp_less_Suc [OF length_dropWhile_le])

lemma json_frac_length: "json_frac s = Some (i, r) \<Longrightarrow> length r \<le> length s"
  by (auto simp: json_frac_def digits_of_def le_SucI [OF length_dropWhile_le]
      split: if_splits prod.splits list.splits)

lemma json_exp_length: "json_exp s = Some (i, r) \<Longrightarrow> length r \<le> length s"
  by (auto simp: json_exp_def digits_of_def le_SucI [OF length_dropWhile_le] length_dropWhile_le
      intro: le_SucI split: if_splits prod.splits list.splits)

lemma json_number_length: "json_number s = Some (v, r) \<Longrightarrow> length r < length s"
  by (auto simp: json_number_def Let_def split: list.splits if_splits option.splits
      dest!: json_int_length json_frac_length json_exp_length)

lemma json_close_length: "json_close c s = Some r \<Longrightarrow> length r < length s"
  by (auto simp: json_close_def split: list.splits if_splits dest: skip_ws_Cons)

lemma json_key_length: "json_key s = Some (k, r) \<Longrightarrow> length r < length s"
  by (auto simp: json_key_def split: list.splits if_splits option.splits
      dest!: skip_ws_Cons json_string_length)

lemma json_scalar_length: "json_scalar s = Some (v, r) \<Longrightarrow> length r < length s"
  by (auto simp: json_scalar_def split: list.splits if_splits option.splits
      dest!: json_string_length eat_length [rotated] json_number_length)

lemma json_parser_length:
  "json_value n s = Some (v, r) \<Longrightarrow> length r < length s"
  "json_elems n s = Some (vs, r) \<Longrightarrow> length r < length s"
  "json_members n s = Some (ms, r) \<Longrightarrow> length r < length s"
proof (induction n s and n s and n s arbitrary: v r and vs r and ms r
    rule: json_value_json_elems_json_members.induct)
  case (2 n s)
  then show ?case
    by (fastforce split: option.splits dest: json_close_length json_scalar_length
        dest: order.strict_trans2 [OF _ length_skip_ws])
next
  case (4 n s)
  then show ?case
    by (fastforce split: option.splits dest: json_close_length)
next
  case (6 n s)
  then show ?case
    by (fastforce split: option.splits dest: json_close_length json_key_length)
qed auto

lemma json_parser_fuel:
  "2 * length s < n \<Longrightarrow> json_value (Suc n) s = json_value n s"
  "2 * length s + 1 < n \<Longrightarrow> json_elems (Suc n) s = json_elems n s"
  "2 * length s + 1 < n \<Longrightarrow> json_members (Suc n) s = json_members n s"
proof (induction n s and n s and n s rule: json_value_json_elems_json_members.induct)
  case (2 n s)
  have len: "2 * length r + 1 < n" if "json_close c s = Some r" for c r
    using json_close_length [OF that] "2.prems" by simp
  show ?case
    by (subst (1 2) json_value.simps(2)) (use "2.IH" len in \<open>auto split: option.split\<close>)
next
  case (4 n s)
  have len: "2 * length t + 1 < n"
    if "json_value n s = Some (v, r)" "json_close c r = Some t" for v r c t
    using json_parser_length(1) [OF that(1)] json_close_length [OF that(2)] "4.prems" by simp
  have "json_value (Suc n) s = json_value n s"
    using "4.IH"(1) "4.prems" by simp
  then show ?case
    by (subst (1 2) json_elems.simps(2)) (use "4.IH"(2) len in \<open>auto split: option.split\<close>)
next
  case (6 n s)
  have len1: "2 * length s1 < n" if "json_key s = Some (k, s1)" for k s1
    using json_key_length [OF that] "6.prems" by simp
  have len2: "2 * length t + 1 < n"
    if "json_key s = Some (k, s1)" "json_value n s1 = Some (v, r)" "json_close c r = Some t"
    for k s1 v r c t
    using json_key_length [OF that(1)] json_parser_length(1) [OF that(2)]
      json_close_length [OF that(3)] "6.prems" by simp
  show ?case
    by (subst (1 2) json_members.simps(2)) (use "6.IH" len1 len2 in \<open>auto split: option.split\<close>)
qed simp_all

lemma json_value_enough: "2 * length s < n \<Longrightarrow> json_value (n + k) s = json_value n s"
  by (induction k) (simp_all add: json_parser_fuel(1) del: json_value.simps)

section \<open>Storing a value tree into struct fields\<close>

text \<open>
  Object keys are processed in order; a key selects the field with that name up to ASCII case, so a
  later duplicate overwrites an earlier one.  \<open>null\<close> leaves a non-pointer field unchanged.  A
  value of the wrong type makes \<open>Unmarshal\<close> return an error.
\<close>

definition json_object :: "json \<Rightarrow> (string \<times> json) list result" where
  "json_object v = (case v of JObj kvs \<Rightarrow> Inr kvs | JNull \<Rightarrow> Inr [] | _ \<Rightarrow> Inl [])"

definition field_values :: "string \<Rightarrow> (string \<times> json) list \<Rightarrow> json list" where
  "field_values name kvs = map snd (filter (\<lambda>(k, _). ToLower k = ToLower name) kvs)"

fun store :: "('a \<Rightarrow> json \<Rightarrow> 'a result) \<Rightarrow> 'a \<Rightarrow> json list \<Rightarrow> 'a result" where
  "store dec x [] = Inr x"
| "store dec x (v # vs) = and_then (dec x v) (\<lambda>y. store dec y vs)"

definition dec_string :: "string \<Rightarrow> json \<Rightarrow> string result" where
  "dec_string old v = (case v of JStr s \<Rightarrow> Inr s | JNull \<Rightarrow> Inr old | _ \<Rightarrow> Inl [])"

text \<open>The literal of an \<open>int\<close> field must be an integer within 64 bits.\<close>

definition nat_of_digits :: "string \<Rightarrow> nat" where
  "nat_of_digits ds = fold (\<lambda>c n. n * 10 + digit_val c) ds 0"

definition int_of_literal :: "string \<Rightarrow> int option" where
  "int_of_literal s =
     (let (neg, ds) = (case s of c # r \<Rightarrow> if c = CHR ''-'' then (True, r) else (False, s) | [] \<Rightarrow> (False, s)) in
      if ds = [] \<or> \<not> list_all is_digit ds then None
      else let n = int (nat_of_digits ds); i = (if neg then - n else n) in
        if - (2 ^ 63) \<le> i \<and> i < 2 ^ 63 then Some i else None)"

definition dec_int_ptr :: "int option \<Rightarrow> json \<Rightarrow> int option result" where
  "dec_int_ptr old v = (case v of
     JNum s \<Rightarrow> (case int_of_literal s of None \<Rightarrow> Inl [] | Some i \<Rightarrow> Inr (Some i))
   | JNull \<Rightarrow> Inr None
   | _ \<Rightarrow> Inl [])"

definition dec_text :: "(string \<Rightarrow> 'a option) \<Rightarrow> 'a \<Rightarrow> json \<Rightarrow> 'a result" where
  \<comment> \<open>a field type with its own text or JSON unmarshaller (uuid.UUID, time.Time)\<close>
  "dec_text parse old v = (case v of
     JStr s \<Rightarrow> (case parse s of None \<Rightarrow> Inl [] | Some x \<Rightarrow> Inr x)
   | JNull \<Rightarrow> Inr old
   | _ \<Rightarrow> Inl [])"

definition dec_array :: "json list \<Rightarrow> json \<Rightarrow> json list result" where
  "dec_array old v = (case v of JArr vs \<Rightarrow> Inr vs | JNull \<Rightarrow> Inr [] | _ \<Rightarrow> Inl [])"

definition Unmarshal_object :: "bytes \<Rightarrow> (string \<times> json) list result" where
  "Unmarshal_object s = (case json_parse s of None \<Rightarrow> Inl [] | Some v \<Rightarrow> json_object v)"

definition string_field :: "string \<Rightarrow> (string \<times> json) list \<Rightarrow> string result" where
  "string_field name kvs = store dec_string [] (field_values name kvs)"

definition struct_field :: "string \<Rightarrow> (string \<times> json) list \<Rightarrow> (string \<times> json) list result" where
  \<comment> \<open>a nested struct: every occurrence of the key is stored into the same struct\<close>
  "struct_field name kvs =
     store (\<lambda>acc v. and_then (json_object v) (\<lambda>k. Inr (acc @ k))) [] (field_values name kvs)"

definition array_field :: "string \<Rightarrow> (string \<times> json) list \<Rightarrow> json list result" where
  "array_field name kvs = store dec_array [] (field_values name kvs)"

definition map_key :: "string \<Rightarrow> (string \<times> json) list \<Rightarrow> json option" where
  \<comment> \<open>lookup in a \<open>map[string]json.RawMessage\<close>: exact keys, the last duplicate wins\<close>
  "map_key name kvs = map_of (rev kvs) name"

end
