(* ===== verification/Values.thy ===== *)
theory Values
  imports Encoding Json "HOL-Library.Finite_Map"
begin

text \<open>
  The value objects of internal/domain/launch/values.go: account identities, validated strings
  (genesis hash, peer address, RPC endpoint, signature, commission rate) and the members list.

  Code outside the repository is a parameter: a record \<open>env\<close> holds the bech32 codec
  (cosmos/btcutil), the uuid text form (google/uuid), canonical JSON (seedward-libs), the
  cryptographic primitives, and the text parsers for URLs, decimals and RFC 3339 times.  Every
  theorem holds for every environment unless it names a law of it.
\<close>

section \<open>The environment\<close>

datatype flt = Fin rat | NaN | PosInf | NegInf   \<comment> \<open>a float64 value\<close>

fun flt_less :: "flt \<Rightarrow> flt \<Rightarrow> bool" where
  "flt_less (Fin x) (Fin y) = (x < y)"
| "flt_less NegInf (Fin _) = True"
| "flt_less (Fin _) PosInf = True"
| "flt_less NegInf PosInf = True"
| "flt_less _ _ = False"

fun flt_le :: "flt \<Rightarrow> flt \<Rightarrow> bool" where
  "flt_le NaN _ = False"
| "flt_le _ NaN = False"
| "flt_le x y = (x = y \<or> flt_less x y)"

record env =
  bech32_Decode :: "string \<Rightarrow> nat \<Rightarrow> (string \<times> nat list) option"
  bech32_ConvertBits :: "nat list \<Rightarrow> nat \<Rightarrow> nat \<Rightarrow> bool \<Rightarrow> nat list option"
  bech32_Encode :: "string \<Rightarrow> nat list \<Rightarrow> string option"
  uuid_Parse :: "string \<Rightarrow> uuid option"
  uuid_String :: "uuid \<Rightarrow> string"
  url_Parse :: "string \<Rightarrow> (string \<times> string) option"            \<comment> \<open>scheme and host\<close>
  url_ParseRequestURI :: "string \<Rightarrow> (string \<times> string) option"
  ParseFloat :: "string \<Rightarrow> flt option"
  time_ParseRFC3339 :: "string \<Rightarrow> time option"
  time_FormatRFC3339 :: "time \<Rightarrow> string"
  time_FormatRFC3339Nano :: "time \<Rightarrow> string"
  canonicaljson_Marshal :: "bytes \<Rightarrow> bytes option"
  canonicaljson_MarshalForSigning :: "json \<Rightarrow> bytes option"
  sha256hex :: "bytes \<Rightarrow> string"                                \<comment> \<open>hex of the SHA-256 digest\<close>

section \<open>AccountID\<close>

record AccountID =
  acct :: string     \<comment> \<open>lowercase hex of the decoded account bytes\<close>
  orig :: string     \<comment> \<open>the bech32 as provided\<close>

definition NewAccountID :: "env \<Rightarrow> string \<Rightarrow> AccountID result" where
  "NewAccountID E s0 =
     (let s = TrimSpace s0 in
      if s = [] then Inl [ErrAccountIDEmpty]
      else case bech32_Decode E s 1023 of
        None \<Rightarrow> Inl [ErrAccountIDInvalid]
      | Some (hrp, data5) \<Rightarrow>
        if hrp = [] then Inl [ErrAccountIDInvalid]
        else if HasSuffix hrp ''valoper'' \<or> HasSuffix hrp ''valcons'' then Inl [ErrNotAccountAddress]
        else case bech32_ConvertBits E data5 5 8 False of
          None \<Rightarrow> Inl [ErrAccountIDInvalid]
        | Some acctBytes \<Rightarrow> Inr \<lparr>acct = hex_EncodeToString acctBytes, orig = s\<rparr>)"

definition AccountID_String :: "AccountID \<Rightarrow> string" where
  "AccountID_String a = (if orig a \<noteq> [] then orig a else acct a)"

definition Hex :: "AccountID \<Rightarrow> string" where
  "Hex a = acct a"

definition AccountID_Equal :: "AccountID \<Rightarrow> AccountID \<Rightarrow> bool" where
  "AccountID_Equal a b \<longleftrightarrow> acct a = acct b"

definition AccountID_IsZero :: "AccountID \<Rightarrow> bool" where
  "AccountID_IsZero a \<longleftrightarrow> acct a = []"

definition Bech32 :: "env \<Rightarrow> AccountID \<Rightarrow> string \<Rightarrow> string result" where
  "Bech32 E a hrp = (case hex_DecodeString (acct a) of
     None \<Rightarrow> Inl []
   | Some b \<Rightarrow> (case bech32_ConvertBits E b 8 5 True of
       None \<Rightarrow> Inl []
     | Some data5 \<Rightarrow> (case bech32_Encode E hrp data5 of None \<Rightarrow> Inl [] | Some s \<Rightarrow> Inr s)))"

lemmas account_defs = Hex_def AccountID_Equal_def AccountID_IsZero_def AccountID_String_def

section \<open>Validated strings\<close>

definition sha256HexLen :: nat where
  "sha256HexLen = 64"

definition secp256k1SigLen :: nat where
  "secp256k1SigLen = 64"

record GenesisHash = gh_value :: string

definition NewGenesisHash :: "string \<Rightarrow> GenesisHash result" where
  "NewGenesisHash s0 =
     (let s = ToLower (TrimSpace s0) in
      if length s \<noteq> sha256HexLen then Inl []
      else case hex_DecodeString s of None \<Rightarrow> Inl [] | Some _ \<Rightarrow> Inr \<lparr>gh_value = s\<rparr>)"

definition GenesisHash_Equal :: "GenesisHash \<Rightarrow> GenesisHash \<Rightarrow> bool" where
  "GenesisHash_Equal h k \<longleftrightarrow> gh_value h = gh_value k"

record PeerAddress = pa_value :: string

definition nodeIDPattern :: "string \<Rightarrow> bool" where
  \<comment> \<open>the regular expression \<open>^[a-f0-9]{40}$\<close>\<close>
  "nodeIDPattern s \<longleftrightarrow> length s = 40 \<and> list_all is_hex_lower s"

definition NewPeerAddress :: "string \<Rightarrow> PeerAddress result" where
  "NewPeerAddress s = (case split_at (CHR ''@'') s of
     None \<Rightarrow> Inl []
   | Some (nodeID, hostPort) \<Rightarrow>
     if \<not> nodeIDPattern nodeID then Inl []
     else case SplitHostPort hostPort of
       None \<Rightarrow> Inl []
     | Some (host, portStr) \<Rightarrow>
       if host = [] then Inl []
       else case Atoi portStr of
         None \<Rightarrow> Inl []
       | Some port \<Rightarrow> if port < 1 \<or> port > 65535 then Inl [] else Inr \<lparr>pa_value = s\<rparr>)"

record RPCEndpoint = rpc_value :: string

definition NewRPCEndpoint :: "env \<Rightarrow> string \<Rightarrow> RPCEndpoint result" where
  "NewRPCEndpoint E s =
     (if s = [] then Inl []
      else case url_ParseRequestURI E s of
        None \<Rightarrow> Inl []
      | Some (scheme, host) \<Rightarrow>
        if scheme \<noteq> ''http'' \<and> scheme \<noteq> ''https'' then Inl []
        else if host = [] then Inl []
        else Inr \<lparr>rpc_value = s\<rparr>)"

record Signature = sig_value :: string

definition NewSignature :: "string \<Rightarrow> Signature result" where
  "NewSignature s =
     (if s = [] then Inl []
      else case base64_DecodeString s of
        None \<Rightarrow> Inl []
      | Some b \<Rightarrow> if length b \<noteq> secp256k1SigLen then Inl [] else Inr \<lparr>sig_value = s\<rparr>)"

record CommissionRate =
  cr_value :: string
  cr_f :: flt

definition NewCommissionRate :: "env \<Rightarrow> string \<Rightarrow> CommissionRate result" where
  "NewCommissionRate E s = (case ParseFloat E s of
     None \<Rightarrow> Inl []
   | Some f \<Rightarrow>
     if flt_less f (Fin 0) \<or> flt_less (Fin 1) f then Inl []
     else Inr \<lparr>cr_value = s, cr_f = f\<rparr>)"

definition CommissionRate_LessThanOrEqual :: "CommissionRate \<Rightarrow> CommissionRate \<Rightarrow> bool" where
  "CommissionRate_LessThanOrEqual c d = flt_le (cr_f c) (cr_f d)"

section \<open>The members list\<close>

record Member =
  mem_Address :: AccountID
  mem_Label :: string
  mem_AddedBy :: string
  mem_AddedAt :: time

record memberMeta =
  mm_display :: string
  mm_label :: string
  mm_addedBy :: string
  mm_addedAt :: time

record Allowlist = al_members :: "(string, memberMeta) fmap"   \<comment> \<open>account hex to metadata\<close>

definition meta_of :: "Member \<Rightarrow> memberMeta" where
  "meta_of m = \<lparr>mm_display = AccountID_String (mem_Address m), mm_label = mem_Label m,
                mm_addedBy = mem_AddedBy m, mm_addedAt = mem_AddedAt m\<rparr>"

definition bare_member :: "AccountID \<Rightarrow> Member" where
  "bare_member a = \<lparr>mem_Address = a, mem_Label = [], mem_AddedBy = [], mem_AddedAt = 0\<rparr>"

definition Allowlist_zero :: Allowlist where
  "Allowlist_zero = \<lparr>al_members = fmempty\<rparr>"

definition NewAllowlistFromMembers :: "Member list \<Rightarrow> Allowlist" where
  "NewAllowlistFromMembers ms =
     \<lparr>al_members = fold (\<lambda>m. fmupd (Hex (mem_Address m)) (meta_of m)) ms fmempty\<rparr>"

definition NewAllowlist :: "AccountID list \<Rightarrow> Allowlist" where
  "NewAllowlist addresses =
     \<lparr>al_members = fold (\<lambda>a. fmupd (Hex a) (meta_of (bare_member a))) addresses fmempty\<rparr>"

definition Contains :: "Allowlist \<Rightarrow> AccountID \<Rightarrow> bool" where
  "Contains al addr \<longleftrightarrow> fmlookup (al_members al) (Hex addr) \<noteq> None"

definition Label :: "Allowlist \<Rightarrow> AccountID \<Rightarrow> string" where
  "Label al addr = (case fmlookup (al_members al) (Hex addr) of None \<Rightarrow> [] | Some m \<Rightarrow> mm_label m)"

definition Allowlist_AddMember :: "Allowlist \<Rightarrow> Member \<Rightarrow> Allowlist" where
  "Allowlist_AddMember al m = \<lparr>al_members = fmupd (Hex (mem_Address m)) (meta_of m) (al_members al)\<rparr>"

definition Allowlist_Add :: "Allowlist \<Rightarrow> AccountID \<Rightarrow> Allowlist" where
  "Allowlist_Add al addr = Allowlist_AddMember al (bare_member addr)"

definition Allowlist_Remove :: "Allowlist \<Rightarrow> AccountID \<Rightarrow> Allowlist" where
  "Allowlist_Remove al addr = \<lparr>al_members = fmdrop (Hex addr) (al_members al)\<rparr>"

definition Addresses :: "Allowlist \<Rightarrow> AccountID list" where
  \<comment> \<open>sorted by account\<close>
  "Addresses al = map (\<lambda>(k, v). \<lparr>acct = k, orig = mm_display v\<rparr>) (sorted_list_of_fmap (al_members al))"

definition Members :: "Allowlist \<Rightarrow> Member list" where
  "Members al = map (\<lambda>(k, v). \<lparr>mem_Address = \<lparr>acct = k, orig = mm_display v\<rparr>, mem_Label = mm_label v,
                       mem_AddedBy = mm_addedBy v, mem_AddedAt = mm_addedAt v\<rparr>)
                    (sorted_list_of_fmap (al_members al))"

definition Allowlist_Len :: "Allowlist \<Rightarrow> nat" where
  "Allowlist_Len al = fcard (fmdom (al_members al))"

lemmas allowlist_defs = Allowlist_AddMember_def Allowlist_Add_def Allowlist_Remove_def Contains_def
  Label_def NewAllowlist_def NewAllowlistFromMembers_def Allowlist_zero_def

section \<open>Directories of accounts\<close>

text \<open>
  The contract of a set of accounts with display metadata: membership is decided by the account
  alone, so the same account under another bech32 prefix is the same entry.  The members list of a
  launch and the coordinator allowlist both provide it.
\<close>

lemma AccountID_Equal_refl [simp]: "AccountID_Equal a a"
  by (simp add: account_defs)

lemma AccountID_Equal_sym: "AccountID_Equal a b = AccountID_Equal b a"
  by (auto simp: account_defs)

locale member_directory =
  fixes contains :: "'d \<Rightarrow> AccountID \<Rightarrow> bool"
    and add :: "'d \<Rightarrow> AccountID \<Rightarrow> 'd"
    and remove :: "'d \<Rightarrow> AccountID \<Rightarrow> 'd"
  assumes contains_Equal: "AccountID_Equal a b \<Longrightarrow> contains d a = contains d b"
    and contains_add: "contains (add d a) b \<longleftrightarrow> AccountID_Equal a b \<or> contains d b"
    and contains_remove: "contains (remove d a) b \<longleftrightarrow> \<not> AccountID_Equal a b \<and> contains d b"
begin

lemma contains_add_list:
  "contains (foldl add d as) b \<longleftrightarrow> list_ex (\<lambda>a. AccountID_Equal a b) as \<or> contains d b"
  by (induction as arbitrary: d) (auto simp: contains_add)

lemma contains_remove_list:
  "contains (foldl remove d as) b \<longleftrightarrow> \<not> list_ex (\<lambda>a. AccountID_Equal a b) as \<and> contains d b"
  by (induction as arbitrary: d) (auto simp: contains_remove)

lemma remove_add: "\<not> contains d a \<Longrightarrow> contains (remove (add d a) a) b = contains d b"
  by (metis contains_Equal contains_add contains_remove AccountID_Equal_sym)

end

lemma Contains_AddMember [simp]:
  "Contains (Allowlist_AddMember al m) b \<longleftrightarrow> AccountID_Equal (mem_Address m) b \<or> Contains al b"
  by (auto simp: allowlist_defs account_defs)

lemma Contains_Remove [simp]:
  "Contains (Allowlist_Remove al a) b \<longleftrightarrow> \<not> AccountID_Equal a b \<and> Contains al b"
  by (auto simp: allowlist_defs account_defs)

interpretation members_list: member_directory Contains Allowlist_Add Allowlist_Remove
proof
  show "Contains (Allowlist_Add d a) b \<longleftrightarrow> AccountID_Equal a b \<or> Contains d b" for d a b
    by (simp add: Allowlist_Add_def bare_member_def)
qed (simp_all, simp add: Contains_def account_defs)

text \<open>A copy rebuilt from the exported members is the list itself.\<close>

lemma fmlookup_fold_fmupd:
  "distinct (map fst kvs) \<Longrightarrow> fmlookup (fold (\<lambda>(k, v). fmupd k v) kvs m) x =
     (case map_of kvs x of None \<Rightarrow> fmlookup m x | Some v \<Rightarrow> Some v)"
proof (induction kvs arbitrary: m)
  case (Cons kv kvs)
  obtain k v where kv: "kv = (k, v)" by force
  with Cons.prems have fresh: "map_of kvs k = None" by (simp add: map_of_eq_None_iff)
  have "fmlookup (fold (\<lambda>(k, v). fmupd k v) kvs (fmupd k v m)) x =
      (case map_of kvs x of None \<Rightarrow> fmlookup (fmupd k v m) x | Some v \<Rightarrow> Some v)"
    using Cons.prems by (intro Cons.IH) simp
  with fresh show ?case by (auto simp: kv split: option.splits)
qed simp

lemma distinct_keys_sorted_list_of_fmap: "distinct (map fst (sorted_list_of_fmap m))"
  by (simp add: sorted_list_of_fmap_def comp_def sorted_list_of_fset.rep_eq)

definition allowlist_ok :: "Allowlist \<Rightarrow> bool" where
  \<comment> \<open>every entry keeps a display form\<close>
  "allowlist_ok al \<longleftrightarrow> fmpred (\<lambda>_ m. mm_display m \<noteq> []) (al_members al)"

lemma NewAllowlistFromMembers_Members:
  assumes "allowlist_ok al"
  shows "NewAllowlistFromMembers (Members al) = al"
proof -
  let ?kvs = "sorted_list_of_fmap (al_members al)"
  have "fold (\<lambda>m. fmupd (Hex (mem_Address m)) (meta_of m)) (Members al) fmempty =
      fold (\<lambda>(k, v). fmupd k v) ?kvs fmempty"
    unfolding Members_def fold_map
  proof (rule fold_cong [OF refl refl])
    fix kv assume "kv \<in> set ?kvs"
    then have "fmlookup (al_members al) (fst kv) = Some (snd kv)"
      by (metis distinct_keys_sorted_list_of_fmap map_of_sorted_list map_of_eq_Some_iff prod.collapse)
    then have "mm_display (snd kv) \<noteq> []"
      using assms by (auto simp: allowlist_ok_def)
    then show "((\<lambda>m. fmupd (Hex (mem_Address m)) (meta_of m)) \<circ>
        (\<lambda>(k, v). \<lparr>mem_Address = \<lparr>acct = k, orig = mm_display v\<rparr>, mem_Label = mm_label v,
           mem_AddedBy = mm_addedBy v, mem_AddedAt = mm_addedAt v\<rparr>)) kv = (\<lambda>(k, v). fmupd k v) kv"
      by (cases kv, cases "snd kv") (simp add: meta_of_def account_defs)
  qed
  moreover have "fold (\<lambda>(k, v). fmupd k v) ?kvs fmempty = al_members al"
    by (rule fmap_ext) (simp add: fmlookup_fold_fmupd distinct_keys_sorted_list_of_fmap split: option.splits)
  ultimately show ?thesis by (simp add: NewAllowlistFromMembers_def)
qed

end
