(* ===== verification/LaunchModel.thy ===== *)
theory LaunchModel
  imports Values
begin

text \<open>
  The Launch aggregate of internal/domain/launch: its data (launch.go, allocation.go), the
  validation of a chain record, the constructor, and the members list with the visibility rule.
  Field names carry the prefix of their struct; Go's \<open>int\<close> counters are \<open>int\<close>, the voting powers
  keep their 64 bits.  Every operation that reads the clock takes the reading \<open>now\<close> as an argument.
\<close>

section \<open>Data\<close>

datatype Status =
    StatusDraft | StatusPublished | StatusWindowOpen | StatusWindowClosed | StatusGenesisReady
  | StatusLaunched | StatusCancelled

datatype LaunchType =
    LaunchTypeTestnet | LaunchTypeIncentivizedTestnet | LaunchTypeMainnet | LaunchTypePermissioned
  | LaunchTypeOther string

record CommitteeMember =
  cm_Address :: AccountID
  cm_Moniker :: string

record Committee =
  c_ID :: uuid
  c_Members :: "CommitteeMember list"
  c_ThresholdM :: int
  c_TotalN :: int
  c_LeadAddress :: AccountID
  c_CreatedAt :: time

definition HasMember :: "Committee \<Rightarrow> AccountID \<Rightarrow> bool" where
  "HasMember c addr = list_ex (\<lambda>m. AccountID_Equal (cm_Address m) addr) (c_Members c)"

record ChainRecord =
  r_ChainID :: string
  r_ChainName :: string
  r_Bech32Prefix :: string
  r_BinaryName :: string
  r_BinaryVersion :: string
  r_BinarySHA256 :: string
  r_RepoURL :: string
  r_RepoCommit :: string
  r_GenesisTime :: "time option"
  r_Denom :: string
  r_MinSelfDelegation :: string
  r_TotalSupply :: string
  r_MaxCommissionRate :: CommissionRate
  r_MaxCommissionChangeRate :: CommissionRate
  r_GentxDeadline :: time
  r_MinValidatorCount :: int

type_synonym AllocationType = string

definition AllocationAccounts :: AllocationType where "AllocationAccounts = ''accounts''"
definition AllocationClaims :: AllocationType where "AllocationClaims = ''claims''"
definition AllocationGrants :: AllocationType where "AllocationGrants = ''grants''"
definition AllocationAuthz :: AllocationType where "AllocationAuthz = ''authz''"
definition AllocationFeegrant :: AllocationType where "AllocationFeegrant = ''feegrant''"

definition ValidAllocationType :: "AllocationType \<Rightarrow> bool" where
  "ValidAllocationType t \<longleftrightarrow> t \<in> {AllocationAccounts, AllocationClaims, AllocationGrants,
     AllocationAuthz, AllocationFeegrant}"

datatype AllocationFileStatus = AllocationPending | AllocationApproved | AllocationRejected

record AllocationFile =
  af_Type :: AllocationType
  af_SHA256 :: string
  af_Status :: AllocationFileStatus
  af_ApprovedByProposal :: "uuid option"
  af_UploadedAt :: time

record Launch =
  l_ID :: uuid
  l_Record :: ChainRecord
  l_LaunchType :: LaunchType
  l_Allowlist :: Allowlist
  l_Status :: Status
  l_Committee :: Committee
  l_InitialGenesisSHA256 :: string
  l_FinalGenesisSHA256 :: string
  l_FinalGenesisInputSetHash :: string
  l_AllocationFiles :: "AllocationFile list"
  l_MonitorRPCURL :: string
  l_RehearsalServicePubKey :: string
  l_RehearsalEndpoint :: string
  l_CreatedAt :: time
  l_UpdatedAt :: time
  l_Version :: int
  l_approvedVotingPower :: "(string, 64 word) fmap"

definition touch :: "time \<Rightarrow> Launch \<Rightarrow> Launch" where
  "touch now l = l\<lparr>l_UpdatedAt := now\<rparr>"

lemma touch_simps [simp]:
  "l_ID (touch now l) = l_ID l" "l_Record (touch now l) = l_Record l"
  "l_Status (touch now l) = l_Status l" "l_Committee (touch now l) = l_Committee l"
  "l_Allowlist (touch now l) = l_Allowlist l"
  "l_InitialGenesisSHA256 (touch now l) = l_InitialGenesisSHA256 l"
  "l_FinalGenesisSHA256 (touch now l) = l_FinalGenesisSHA256 l"
  "l_FinalGenesisInputSetHash (touch now l) = l_FinalGenesisInputSetHash l"
  "l_AllocationFiles (touch now l) = l_AllocationFiles l"
  "l_approvedVotingPower (touch now l) = l_approvedVotingPower l"
  "l_RehearsalServicePubKey (touch now l) = l_RehearsalServicePubKey l"
  "l_MonitorRPCURL (touch now l) = l_MonitorRPCURL l"
  "l_RehearsalEndpoint (touch now l) = l_RehearsalEndpoint l"
  "l_LaunchType (touch now l) = l_LaunchType l"
  "l_CreatedAt (touch now l) = l_CreatedAt l"
  "l_Version (touch now l) = l_Version l"
  "l_UpdatedAt (touch now l) = now"
  by (simp_all add: touch_def)

section \<open>Validation and construction\<close>

definition IsValidHTTPURL :: "env \<Rightarrow> string \<Rightarrow> bool" where
  "IsValidHTTPURL E s = (case url_Parse E s of
     None \<Rightarrow> False
   | Some (scheme, host) \<Rightarrow> (scheme = ''http'' \<or> scheme = ''https'') \<and> host \<noteq> [])"

definition isSHA256HexLower :: "string \<Rightarrow> bool" where
  "isSHA256HexLower s \<longleftrightarrow> length s = sha256HexLen \<and> list_all is_hex_lower s"

definition non_negative_amount :: "string \<Rightarrow> bool" where
  \<comment> \<open>\<open>n, ok := new(big.Int).SetString(s, 10)\<close> with \<open>ok \<and> n.Sign() >= 0\<close>\<close>
  "non_negative_amount s = (case bigint_SetString s of None \<Rightarrow> False | Some n \<Rightarrow> 0 \<le> n)"

definition validateChainRecord :: "env \<Rightarrow> ChainRecord \<Rightarrow> unit result" where
  "validateChainRecord E r =
     (if r_ChainID r = [] then Inl [ErrChainIDRequired]
      else if r_Bech32Prefix r = [] then Inl [ErrBech32PrefixRequired]
      else if r_BinaryName r = [] then Inl [ErrBinaryNameRequired]
      else if r_Denom r = [] then Inl [ErrDenomRequired]
      else if r_MinValidatorCount r < 1 then Inl [ErrMinValidatorCountTooLow]
      else if time_IsZero (r_GentxDeadline r) then Inl [ErrGentxDeadlineRequired]
      else if \<not> CommissionRate_LessThanOrEqual (r_MaxCommissionChangeRate r) (r_MaxCommissionRate r)
        then Inl [ErrCommissionChangeExceedsMax]
      else if r_RepoURL r \<noteq> [] \<and> \<not> IsValidHTTPURL E (r_RepoURL r) then Inl [ErrInvalidRepoURL]
      else if r_BinarySHA256 r \<noteq> [] \<and> \<not> isSHA256HexLower (r_BinarySHA256 r)
        then Inl [ErrInvalidBinarySHA256]
      else if r_MinSelfDelegation r \<noteq> [] \<and> \<not> non_negative_amount (r_MinSelfDelegation r)
        then Inl [ErrInvalidMinSelfDelegation]
      else if r_TotalSupply r \<noteq> [] \<and> \<not> non_negative_amount (r_TotalSupply r)
        then Inl [ErrInvalidTotalSupply]
      else Inr ())"

definition launch_New ::
  "env \<Rightarrow> time \<Rightarrow> uuid \<Rightarrow> ChainRecord \<Rightarrow> LaunchType \<Rightarrow> Committee \<Rightarrow> Launch result" where
  "launch_New E now lid r lt c =
     and_then (validateChainRecord E r) (\<lambda>_.
       if c_ThresholdM c < 1 \<or> c_ThresholdM c > c_TotalN c then Inl [ErrCommitteeThresholdRange]
       else if int (length (c_Members c)) \<noteq> c_TotalN c then Inl [ErrCommitteeSizeMismatch]
       else if \<not> AccountID_Equal (cm_Address (c_Members c ! 0)) (c_LeadAddress c)
         then Inl [ErrLeadNotFirstMember]
       else Inr \<lparr>l_ID = lid, l_Record = r, l_LaunchType = lt, l_Allowlist = Allowlist_zero,
                 l_Status = StatusDraft, l_Committee = c, l_InitialGenesisSHA256 = [],
                 l_FinalGenesisSHA256 = [], l_FinalGenesisInputSetHash = [],
                 l_AllocationFiles = [], l_MonitorRPCURL = [], l_RehearsalServicePubKey = [],
                 l_RehearsalEndpoint = [], l_CreatedAt = now, l_UpdatedAt = now, l_Version = 0,
                 l_approvedVotingPower = fmempty\<rparr>)"

section \<open>Visibility and the members list\<close>

definition IsVisibleToAddr :: "Launch \<Rightarrow> AccountID \<Rightarrow> bool" where
  "IsVisibleToAddr l addr \<longleftrightarrow> HasMember (l_Committee l) addr \<or> Contains (l_Allowlist l) addr"

definition IsVisibleTo :: "env \<Rightarrow> Launch \<Rightarrow> string \<Rightarrow> bool" where
  "IsVisibleTo E l addr =
     (if addr = [] then False
      else case NewAccountID E addr of Inl _ \<Rightarrow> False | Inr a \<Rightarrow> IsVisibleToAddr l a)"

definition EnsureOpenForApplications :: "Launch \<Rightarrow> unit result" where
  "EnsureOpenForApplications l = require (l_Status l = StatusWindowOpen) [ErrWindowNotOpen]"

fun membersEditable_status :: "Status \<Rightarrow> bool" where
  "membersEditable_status StatusDraft = True"
| "membersEditable_status StatusPublished = True"
| "membersEditable_status StatusWindowOpen = True"
| "membersEditable_status _ = False"

definition membersEditable :: "Launch \<Rightarrow> bool" where
  "membersEditable l = membersEditable_status (l_Status l)"

definition AddMember :: "Launch \<Rightarrow> Member \<Rightarrow> Launch result" where
  "AddMember l m =
     (if \<not> membersEditable l then Inl [ErrMembersNotEditable]
      else Inr (l\<lparr>l_Allowlist := Allowlist_AddMember (l_Allowlist l) m\<rparr>))"

definition RemoveMember :: "Launch \<Rightarrow> AccountID \<Rightarrow> Launch result" where
  "RemoveMember l addr =
     (if \<not> membersEditable l then Inl [ErrMembersNotEditable]
      else if \<not> Contains (l_Allowlist l) addr then Inl [ErrNotAMember]
      else Inr (l\<lparr>l_Allowlist := Allowlist_Remove (l_Allowlist l) addr\<rparr>))"

lemma HasMember_iff: "HasMember c a \<longleftrightarrow> (\<exists>m \<in> set (c_Members c). acct (cm_Address m) = acct a)"
  by (simp add: HasMember_def list_ex_iff account_defs)

lemma HasMember_Equal: "AccountID_Equal a b \<Longrightarrow> HasMember c a = HasMember c b"
  by (simp add: HasMember_iff account_defs)

lemma IsVisibleToAddr_Equal: "AccountID_Equal a b \<Longrightarrow> IsVisibleToAddr l a = IsVisibleToAddr l b"
  by (simp add: IsVisibleToAddr_def HasMember_Equal members_list.contains_Equal)

lemma AddMember_Inr [guards]:
  "AddMember l m = Inr l' \<longleftrightarrow>
     membersEditable l \<and> l' = l\<lparr>l_Allowlist := Allowlist_AddMember (l_Allowlist l) m\<rparr>"
  by (auto simp: AddMember_def)

lemma RemoveMember_Inr [guards]:
  "RemoveMember l a = Inr l' \<longleftrightarrow> membersEditable l \<and> Contains (l_Allowlist l) a \<and>
     l' = l\<lparr>l_Allowlist := Allowlist_Remove (l_Allowlist l) a\<rparr>"
  by (auto simp: RemoveMember_def)

lemma validateChainRecord_Inr:
  "validateChainRecord E r = Inr u \<Longrightarrow>
     r_ChainID r \<noteq> [] \<and> r_Bech32Prefix r \<noteq> [] \<and> r_BinaryName r \<noteq> [] \<and> r_Denom r \<noteq> [] \<and>
     1 \<le> r_MinValidatorCount r \<and> r_GentxDeadline r \<noteq> 0 \<and>
     CommissionRate_LessThanOrEqual (r_MaxCommissionChangeRate r) (r_MaxCommissionRate r) \<and>
     (r_BinarySHA256 r \<noteq> [] \<longrightarrow> isSHA256HexLower (r_BinarySHA256 r)) \<and>
     (r_MinSelfDelegation r \<noteq> [] \<longrightarrow> non_negative_amount (r_MinSelfDelegation r)) \<and>
     (r_TotalSupply r \<noteq> [] \<longrightarrow> non_negative_amount (r_TotalSupply r))"
  by (auto simp: validateChainRecord_def time_IsZero_def split: if_splits)

end
