(* ===== verification/Rounding.thy ===== *)
theory Rounding
  imports Complex_Main
begin

text \<open>
  Rounding of \<open>math/big.Float\<close> and \<open>float64\<close>: round to nearest, ties to even, at a given
  precision, on exact rationals.  The range of exponents is not bounded (the percentages it is used
  for lie between 0 and 100).  The lemmas say that rounding is monotone and how far it can move a
  value.
\<close>

definition rne :: "rat \<Rightarrow> int" where
  \<comment> \<open>nearest integer, ties to even\<close>
  "rne x = (let f = \<lfloor>x\<rfloor>; d = x - of_int f in
     if d < 1/2 then f else if d > 1/2 then f + 1 else if even f then f else f + 1)"

function bit_len :: "int \<Rightarrow> nat" where
  \<comment> \<open>the length of a magnitude in bits, \<open>big.Int.BitLen\<close>\<close>
  "bit_len n = (if n \<le> 0 then 0 else Suc (bit_len (n div 2)))"
  by auto
termination by (relation "measure nat") auto

declare bit_len.simps [simp del]

lemma bit_len_bounds: "0 < n \<Longrightarrow> 2 ^ (bit_len n - 1) \<le> n \<and> n < 2 ^ bit_len n"
proof (induction n rule: bit_len.induct)
  case (1 n)
  show ?case
  proof (cases "n div 2 = 0")
    case True
    with "1.prems" have "n = 1" by linarith
    then show ?thesis by (simp add: bit_len.simps)
  next
    case False
    with "1.prems" have half: "0 < n div 2" by linarith
    then have IH: "2 ^ (bit_len (n div 2) - 1) \<le> n div 2 \<and> n div 2 < 2 ^ bit_len (n div 2)"
      using "1.IH" "1.prems" by simp
    have pos: "0 < bit_len (n div 2)"
      using half by (subst bit_len.simps) simp
    have "2 ^ bit_len (n div 2) = 2 * (2::int) ^ (bit_len (n div 2) - 1)"
      using pos by (metis Suc_diff_1 power_Suc)
    moreover have "2 * (n div 2) \<le> n" "n < 2 * (n div 2) + 2" by linarith+
    ultimately have "2 ^ bit_len (n div 2) \<le> n \<and> n < 2 * 2 ^ bit_len (n div 2)"
      using IH by linarith
    then show ?thesis using "1.prems" by (subst (1 2) bit_len.simps) simp
  qed
qed

lemma bit_len_pos: "0 < n \<Longrightarrow> 0 < bit_len n"
  by (subst bit_len.simps) simp

text \<open>The exponent of the leading bit of a positive rational.\<close>

definition bin_exp :: "rat \<Rightarrow> int" where
  "bin_exp x = (let (a, b) = quotient_of x;
                    e = int (bit_len a) - int (bit_len b)
                in if 2 powi e \<le> x then e else e - 1)"

lemma quotient_bounds:
  fixes a b :: int and n m :: nat
  assumes "0 < a" "0 < b" "2 ^ (n - 1) \<le> a \<and> a < 2 ^ n" "2 ^ (m - 1) \<le> b \<and> b < 2 ^ m"
    "0 < n" "0 < m"
  shows "(2::rat) powi (int n - int m - 1) \<le> of_int a / of_int b"
    and "(of_int a / of_int b :: rat) < 2 powi (int n - int m + 1)"
proof -
  have Ar: "(2::rat) ^ (n - 1) \<le> of_int a" "of_int a < (2::rat) ^ n"
    using assms(3) by (metis of_int_le_iff of_int_numeral of_int_power,
        metis of_int_less_iff of_int_numeral of_int_power)
  have Br: "(2::rat) ^ (m - 1) \<le> of_int b" "of_int b < (2::rat) ^ m"
    using assms(4) by (metis of_int_le_iff of_int_numeral of_int_power,
        metis of_int_less_iff of_int_numeral of_int_power)
  have bpos: "(0::rat) < of_int b" using assms(2) by simp
  have "(2::rat) ^ (n - 1) / 2 ^ m \<le> of_int a / of_int b"
    using Ar(1) Br(2) bpos assms(1) by (intro frac_le) auto
  moreover have "(2::rat) powi (int n - int m - 1) = 2 ^ (n - 1) / 2 ^ m"
  proof -
    have e: "int n - int m - 1 = int (n - 1) - int m" using assms(5) by simp
    show ?thesis unfolding e using power_int_diff [of "2::rat" "int (n - 1)" "int m"] by simp
  qed
  ultimately show "(2::rat) powi (int n - int m - 1) \<le> of_int a / of_int b" by simp
  have "of_int a / of_int b < (2::rat) ^ n / 2 ^ (m - 1)"
    using Ar(2) Br(1) bpos assms(1) by (intro frac_less) auto
  moreover have "(2::rat) powi (int n - int m + 1) = 2 ^ n / 2 ^ (m - 1)"
  proof -
    have e: "int n - int m + 1 = int n - int (m - 1)" using assms(6) by simp
    show ?thesis unfolding e using power_int_diff [of "2::rat" "int n" "int (m - 1)"] by simp
  qed
  ultimately show "(of_int a / of_int b :: rat) < 2 powi (int n - int m + 1)" by simp
qed

lemma bin_exp_bounds:
  assumes "0 < x"
  shows "2 powi bin_exp x \<le> x" "x < 2 powi (bin_exp x + 1)"
proof -
  obtain a b where q: "quotient_of x = (a, b)" by force
  have b: "0 < b" using q by (rule quotient_of_denom_pos)
  have x: "x = of_int a / of_int b" using q by (rule quotient_of_div)
  then have a: "0 < a" using assms b by (simp add: zero_less_divide_iff)
  let ?n = "bit_len a" and ?m = "bit_len b"
  note B = quotient_bounds [OF a b bit_len_bounds [OF a] bit_len_bounds [OF b]
      bit_len_pos [OF a] bit_len_pos [OF b]]
  have lo: "(2::rat) powi (int ?n - int ?m - 1) \<le> x" and hi: "x < 2 powi (int ?n - int ?m + 1)"
    using B unfolding x .
  show "2 powi bin_exp x \<le> x"
    using lo by (simp add: bin_exp_def q Let_def)
  show "x < 2 powi (bin_exp x + 1)"
    using hi by (simp add: bin_exp_def q Let_def)
qed

lemma bin_exp_mono:
  assumes "0 < x" "x \<le> y"
  shows "bin_exp x \<le> bin_exp y"
proof (rule ccontr)
  assume "\<not> bin_exp x \<le> bin_exp y"
  then have "(2::rat) powi (bin_exp y + 1) \<le> 2 powi bin_exp x"
    by (intro power_int_increasing) auto
  then have "y < x"
    using bin_exp_bounds(1) [of x] bin_exp_bounds(2) [of y] assms by linarith
  then show False using assms(2) by simp
qed

definition fround_pos :: "nat \<Rightarrow> rat \<Rightarrow> rat" where
  "fround_pos p x = (let e = bin_exp x - int p + 1 in of_int (rne (x / 2 powi e)) * 2 powi e)"

definition fround :: "nat \<Rightarrow> rat \<Rightarrow> rat" where
  \<comment> \<open>x rounded to p significant bits\<close>
  "fround p x = (if x = 0 then 0 else if x < 0 then - fround_pos p (- x) else fround_pos p x)"

section \<open>Accuracy and monotonicity\<close>

lemma rne_error: "\<bar>of_int (rne x) - x\<bar> \<le> 1/2"
proof -
  have "0 \<le> x - of_int \<lfloor>x\<rfloor>" "x - of_int \<lfloor>x\<rfloor> < 1" by linarith+
  then show ?thesis unfolding rne_def Let_def abs_if by (simp; linarith)
qed

lemma rne_mono: "x \<le> y \<Longrightarrow> rne x \<le> rne y"
proof (cases "\<lfloor>x\<rfloor> = \<lfloor>y\<rfloor>")
  case True
  assume "x \<le> y"
  with True show ?thesis by (auto simp: rne_def Let_def)
next
  case False
  assume "x \<le> y"
  then have "\<lfloor>x\<rfloor> \<le> \<lfloor>y\<rfloor>" by (rule floor_mono)
  with False have lt: "\<lfloor>x\<rfloor> + 1 \<le> \<lfloor>y\<rfloor>" by simp
  have "rne x \<le> \<lfloor>x\<rfloor> + 1" "\<lfloor>y\<rfloor> \<le> rne y" by (auto simp: rne_def Let_def)
  with lt show ?thesis by linarith
qed

lemma rne_of_int [simp]: "rne (of_int n) = n"
  by (simp add: rne_def)

lemma pow_split: "(2::rat) powi bin_exp x = 2 ^ (p - 1) * 2 powi (bin_exp x - int p + 1)" if "0 < p"
proof -
  have "bin_exp x = int (p - 1) + (bin_exp x - int p + 1)" using that by simp
  then show ?thesis by (metis power_int_add power_int_of_nat zero_neq_numeral)
qed

lemma fround_pos_lower:
  assumes "0 < x" "0 < p"
  shows "x - x / 2 ^ p \<le> fround_pos p x"
proof -
  let ?u = "(2::rat) powi (bin_exp x - int p + 1)"
  have u: "0 < ?u" by simp
  have "of_int (rne (x / ?u)) \<ge> x / ?u - 1/2"
    using rne_error [of "x / ?u"] by linarith
  then have "fround_pos p x \<ge> (x / ?u - 1/2) * ?u"
    unfolding fround_pos_def Let_def using u by (intro mult_right_mono) auto
  also have "(x / ?u - 1/2) * ?u = x - ?u / 2" using u by (simp add: field_simps)
  finally have lo: "x - ?u / 2 \<le> fround_pos p x" .
  have "2 ^ (p - 1) * ?u \<le> x"
    using bin_exp_bounds(1) [OF assms(1)] pow_split [OF assms(2), of x] by simp
  moreover have "(2::rat) ^ p = 2 * 2 ^ (p - 1)" using assms(2) by (metis Suc_diff_1 power_Suc)
  ultimately have "?u / 2 \<le> x / 2 ^ p" by (simp add: field_simps)
  with lo show ?thesis by linarith
qed

lemma fround_pos_upper:
  assumes "0 < x" "0 < p"
  shows "fround_pos p x \<le> x + x / 2 ^ p"
proof -
  let ?u = "(2::rat) powi (bin_exp x - int p + 1)"
  have u: "0 < ?u" by simp
  have "of_int (rne (x / ?u)) \<le> x / ?u + 1/2"
    using rne_error [of "x / ?u"] by linarith
  then have "fround_pos p x \<le> (x / ?u + 1/2) * ?u"
    unfolding fround_pos_def Let_def using u by (intro mult_right_mono) auto
  also have "(x / ?u + 1/2) * ?u = x + ?u / 2" using u by (simp add: field_simps)
  finally have lo: "fround_pos p x \<le> x + ?u / 2" .
  have "2 ^ (p - 1) * ?u \<le> x"
    using bin_exp_bounds(1) [OF assms(1)] pow_split [OF assms(2), of x] by simp
  moreover have "(2::rat) ^ p = 2 * 2 ^ (p - 1)" using assms(2) by (metis Suc_diff_1 power_Suc)
  ultimately have "?u / 2 \<le> x / 2 ^ p" by (simp add: field_simps)
  with lo show ?thesis by linarith
qed

lemma fround_pos_mono:
  assumes "0 < x" "x \<le> y" "0 < p"
  shows "fround_pos p x \<le> fround_pos p y"
proof (cases "bin_exp x = bin_exp y")
  case True
  have "rne (x / 2 powi (bin_exp y - int p + 1)) \<le> rne (y / 2 powi (bin_exp y - int p + 1))"
    using assms(2) by (intro rne_mono divide_right_mono) auto
  with True show ?thesis
    unfolding fround_pos_def Let_def by (simp add: mult_right_mono)
next
  case False
  with bin_exp_mono [OF assms(1,2)] have lt: "bin_exp x + 1 \<le> bin_exp y" by simp
  let ?ux = "(2::rat) powi (bin_exp x - int p + 1)" and ?uy = "(2::rat) powi (bin_exp y - int p + 1)"
  have y: "0 < y" using assms by simp
  have "x < 2 * 2 powi bin_exp x"
    using bin_exp_bounds(2) [OF assms(1)] by (simp add: power_int_add)
  then have "x / ?ux \<le> of_int (2 * 2 ^ (p - 1))"
    unfolding pow_split [OF assms(3), of x] by (simp add: field_simps)
  then have "rne (x / ?ux) \<le> 2 * 2 ^ (p - 1)" by (metis rne_mono rne_of_int)
  then have "of_int (rne (x / ?ux)) \<le> (2 * 2 ^ (p - 1) :: rat)"
    by (metis (mono_tags) of_int_le_iff of_int_mult of_int_numeral of_int_power)
  then have "fround_pos p x \<le> 2 * 2 ^ (p - 1) * ?ux"
    unfolding fround_pos_def Let_def by (intro mult_right_mono) auto
  also have "\<dots> = 2 powi (bin_exp x + 1)"
    using pow_split [OF assms(3), of x] by (simp add: power_int_add)
  also have "\<dots> \<le> 2 powi bin_exp y" using lt by (intro power_int_increasing) auto
  also have "\<dots> \<le> fround_pos p y"
  proof -
    have "of_int (2 ^ (p - 1)) \<le> y / ?uy"
      using bin_exp_bounds(1) [OF y] unfolding pow_split [OF assms(3), of y] by (simp add: field_simps)
    then have "2 ^ (p - 1) \<le> rne (y / ?uy)" by (metis rne_mono rne_of_int)
    then have "(2 ^ (p - 1) :: rat) \<le> of_int (rne (y / ?uy))"
      by (metis (mono_tags) of_int_le_iff of_int_numeral of_int_power)
    then show ?thesis
      unfolding fround_pos_def Let_def pow_split [OF assms(3), of y] by (intro mult_right_mono) auto
  qed
  finally show ?thesis .
qed

lemma fround_mono_pos: "0 < x \<Longrightarrow> x \<le> y \<Longrightarrow> 0 < p \<Longrightarrow> fround p x \<le> fround p y"
  by (simp add: fround_def fround_pos_mono)

lemma fround_lower: "0 < x \<Longrightarrow> 0 < p \<Longrightarrow> x - x / 2 ^ p \<le> fround p x"
  by (simp add: fround_def fround_pos_lower)

lemma fround_upper: "0 < x \<Longrightarrow> 0 < p \<Longrightarrow> fround p x \<le> x + x / 2 ^ p"
  by (simp add: fround_def fround_pos_upper)

lemma fround_64_pos: "0 < x \<Longrightarrow> 64 \<le> p \<Longrightarrow> 0 < fround p x"
proof -
  assume x: "0 < x" and p: "64 \<le> p"
  have "(2::rat) ^ 1 \<le> 2 ^ p" using p by (intro power_increasing) auto
  then have "x / 2 ^ p \<le> x / 2" using x by (intro divide_left_mono) auto
  then have "0 < x - x / 2 ^ p" using x by linarith
  then show ?thesis using fround_lower [OF x, of p] p by linarith
qed

end
