(* ===== verification/VotingPower.thy ===== *)
theory VotingPower
  imports LaunchModel Rounding
begin

text \<open>
  The committed voting power of a launch (launch.go): one 64-bit self-delegation per account, the
  share of the largest holder computed with \<open>math/big\<close> and rounded to float64, and the one-third
  threshold it is compared with.  The lemmas show that the rounded comparison never lets a holder
  of one third or more pass, and when it is exact.
\<close>

section \<open>Operations\<close>

definition pctScaleFactor :: rat where
  "pctScaleFactor = 100"

definition bftSafetyThreshold :: rat where
  \<comment> \<open>the constant 100.0 / 3.0, converted to float64\<close>
  "bftSafetyThreshold = fround 53 (100 / 3)"

definition power_entries :: "Launch \<Rightarrow> (string \<times> int) list" where
  \<comment> \<open>the map's entries as big.Int values; Go visits them in an unspecified order\<close>
  "power_entries l = map (\<lambda>(a, p). (a, sint p)) (sorted_list_of_fmap (l_approvedVotingPower l))"

definition total_power :: "Launch \<Rightarrow> int" where
  "total_power l = sum_list (map snd (power_entries l))"

definition dominant_entry :: "(string \<times> int) list \<Rightarrow> string \<times> int" where
  "dominant_entry es = foldl (\<lambda>best e. if snd e > snd best then e else best) ([], 0) es"

definition float_prec :: "int \<Rightarrow> nat" where
  \<comment> \<open>precision of \<open>new(big.Float).SetInt(x)\<close>\<close>
  "float_prec x = max 64 (bit_len \<bar>x\<bar>)"

definition pct_of :: "int \<Rightarrow> int \<Rightarrow> rat" where
  \<comment> \<open>\<open>Quo(Mul(dominantPower, 100), total)\<close> then \<open>Float64()\<close>\<close>
  "pct_of d t =
     (let pm = max (float_prec d) 53; m = fround pm (of_int d * pctScaleFactor);
          pq = max pm (float_prec t) in fround 53 (fround pq (m / of_int t)))"

definition dominantVotingPowerPct :: "Launch \<Rightarrow> string \<times> rat" where
  "dominantVotingPowerPct l =
     (let t = total_power l in
      if t = 0 then ([], 0)
      else let (a, d) = dominant_entry (power_entries l) in (a, pct_of d t))"

definition displayAccount :: "env \<Rightarrow> Launch \<Rightarrow> string \<Rightarrow> string" where
  "displayAccount E l accountHex =
     (case Bech32 E \<lparr>acct = accountHex, orig = []\<rparr> (r_Bech32Prefix (l_Record l)) of
        Inl _ \<Rightarrow> accountHex | Inr s \<Rightarrow> s)"

definition RecordValidatorApproval ::
  "env \<Rightarrow> Launch \<Rightarrow> AccountID \<Rightarrow> 64 word \<Rightarrow> Launch \<times> (string \<times> rat) option" where
  \<comment> \<open>the second component is the warning: the operator it names and the share it prints\<close>
  "RecordValidatorApproval E l operatorAddr selfDelegation =
     (let l' = l\<lparr>l_approvedVotingPower := fmupd (Hex operatorAddr) selfDelegation (l_approvedVotingPower l)\<rparr>;
          (dominant, pct) = dominantVotingPowerPct l'
      in (l', if pct \<ge> bftSafetyThreshold then Some (displayAccount E l' dominant, pct) else None))"

definition RemoveValidatorApproval :: "Launch \<Rightarrow> AccountID \<Rightarrow> Launch" where
  "RemoveValidatorApproval l operatorAddr =
     l\<lparr>l_approvedVotingPower := fmdrop (Hex operatorAddr) (l_approvedVotingPower l)\<rparr>"

definition ApprovedVotingPowerOf :: "Launch \<Rightarrow> AccountID \<Rightarrow> 64 word" where
  "ApprovedVotingPowerOf l operatorAddr =
     (case fmlookup (l_approvedVotingPower l) (Hex operatorAddr) of None \<Rightarrow> 0 | Some p \<Rightarrow> p)"

definition InitVotingPower :: "Launch \<Rightarrow> (string, 64 word) fmap \<Rightarrow> Launch" where
  "InitVotingPower l powers = l\<lparr>l_approvedVotingPower := powers\<rparr>"

lemma RecordValidatorApproval_fst [simp]:
  "fst (RecordValidatorApproval E l a p) =
     l\<lparr>l_approvedVotingPower := fmupd (Hex a) p (l_approvedVotingPower l)\<rparr>"
  by (simp add: RecordValidatorApproval_def Let_def split: prod.splits)

section \<open>The dominant entry is a maximum\<close>

lemma foldl_max_entry:
  fixes b :: "string \<times> int"
  shows "snd (foldl (\<lambda>best e. if snd e > snd best then e else best) b es) = Max (insert (snd b) (snd ` set es))"
proof (induction es arbitrary: b)
  case (Cons e es)
  have *: "Max (insert (snd (if snd e > snd b then e else b)) (snd ` set es)) =
      Max (insert (snd b) (insert (snd e) (snd ` set es)))"
  proof (cases "es = []")
    case False
    then show ?thesis by (simp add: Max_insert max_def)
  qed (simp add: max_def)
  then show ?case by (simp add: Cons.IH del: Max_insert)
qed simp

lemma dominant_entry_max:
  "snd (dominant_entry es) = Max (insert 0 (snd ` set es))"
  by (simp only: dominant_entry_def foldl_max_entry snd_conv)

lemma set_power_entries:
  "set (power_entries l) = {(a, sint p) | a p. fmlookup (l_approvedVotingPower l) a = Some p}"
proof -
  have "set (sorted_list_of_fmap m) = {(a, p). fmlookup m a = Some p}" for m :: "(string, 64 word) fmap"
    using distinct_keys_sorted_list_of_fmap [of m]
    by (auto simp flip: map_of_sorted_list simp: map_of_eq_Some_iff)
  then show ?thesis by (auto simp: power_entries_def image_iff)
qed

lemma power_le_dominant:
  assumes "fmlookup (l_approvedVotingPower l) a = Some p"
  shows "sint p \<le> snd (dominant_entry (power_entries l))"
proof -
  have "(a, sint p) \<in> set (power_entries l)" using assms by (auto simp: set_power_entries)
  then have "sint p \<in> insert 0 (snd ` set (power_entries l))" by force
  then show ?thesis unfolding dominant_entry_max by (intro Max_ge) simp_all
qed

section \<open>The rounded share against the threshold\<close>

lemma threshold_evaluates:
  "fround 53 (100 / 3 - 1 / 2 ^ 57) = bftSafetyThreshold"
  "fround 53 (100 / 3 - 1 / 2 ^ 46) < bftSafetyThreshold"
  by code_simp+

lemma float_prec_64: "64 \<le> float_prec x"
  by (simp add: float_prec_def)

lemma small_pow: "64 \<le> p \<Longrightarrow> (1::rat) / 2 ^ p \<le> 1 / 2 ^ 64"
  by (intro divide_left_mono power_increasing) auto

lemma round_twice:
  fixes d t :: int
  assumes "0 < d" "0 < t" "64 \<le> p" "64 \<le> q"
  defines "x \<equiv> (of_int d * 100 / of_int t :: rat)" and "m \<equiv> fround p (of_int d * pctScaleFactor)"
  shows "x - x / 2 ^ 63 \<le> fround q (m / of_int t)"
    and "fround q (m / of_int t) \<le> x + x / 2 ^ 62"
    and "0 < x" and "0 < fround q (m / of_int t)"
proof -
  let ?c = "of_int d * 100 :: rat" and ?t = "of_int t :: rat" and ?e = "1 / 2 ^ 64 :: rat"
  have c: "0 < ?c" "0 < ?t" "0 < p" "0 < q" using assms by auto
  show x: "0 < x" using c by (simp add: x_def)
  have m0: "0 < m" using fround_64_pos [OF c(1) assms(3)] by (simp add: m_def pctScaleFactor_def)
  have m1: "?c - ?c * ?e \<le> m" "m \<le> ?c + ?c * ?e"
    using fround_lower [OF c(1,3)] fround_upper [OF c(1,3)]
      mult_left_mono [OF small_pow [OF assms(3)], of ?c] c(1)
    unfolding m_def pctScaleFactor_def by auto
  have y: "x - x * ?e \<le> m / ?t" "m / ?t \<le> x + x * ?e"
    using divide_right_mono [OF m1(1), of ?t] divide_right_mono [OF m1(2), of ?t] c(2)
    by (simp_all add: x_def diff_divide_distrib add_divide_distrib)
  have y0: "0 < m / ?t" using m0 c(2) by simp
  show "0 < fround q (m / ?t)" using y0 assms(4) by (rule fround_64_pos)
  have z: "m / ?t - m / ?t * ?e \<le> fround q (m / ?t)" "fround q (m / ?t) \<le> m / ?t + m / ?t * ?e"
    using fround_lower [OF y0 c(4)] fround_upper [OF y0 c(4)]
      mult_left_mono [OF small_pow [OF assms(4)], of "m / ?t"] y0 by auto
  show "x - x / 2 ^ 63 \<le> fround q (m / ?t)" "fround q (m / ?t) \<le> x + x / 2 ^ 62"
    using y z x by (simp_all add: field_simps)
qed

lemma pct_of_round_twice:
  "\<exists>p q. 64 \<le> p \<and> 64 \<le> q \<and> pct_of d t = fround 53 (fround q (fround p (of_int d * pctScaleFactor) / of_int t))"
proof -
  have "64 \<le> max (float_prec d) 53" "64 \<le> max (max (float_prec d) 53) (float_prec t)"
    using float_prec_64 [of d] by auto
  then show ?thesis unfolding pct_of_def Let_def by blast
qed

theorem pct_of_one_third:
  assumes "0 < t" "t \<le> 3 * d"
  shows "bftSafetyThreshold \<le> pct_of d t"
proof -
  have d: "0 < d" using assms by linarith
  obtain p q where pq: "64 \<le> p" "64 \<le> q"
    and pct: "pct_of d t = fround 53 (fround q (fround p (of_int d * pctScaleFactor) / of_int t))"
    using pct_of_round_twice by blast
  define x :: rat where "x = of_int d * 100 / of_int t"
  note R = round_twice [OF d assms(1) pq, folded x_def]
  have "(of_int t :: rat) \<le> of_int (3 * d)" using assms(2) by (simp only: of_int_le_iff)
  then have "100 / 3 \<le> x" using assms(1) by (simp add: x_def field_simps)
  then have "100 / 3 - 1 / 2 ^ 57 \<le> fround q (fround p (of_int d * pctScaleFactor) / of_int t)"
    using R(1) by (simp add: field_simps)
  then have "fround 53 (100 / 3 - 1 / 2 ^ 57) \<le> pct_of d t"
    unfolding pct by (intro fround_mono_pos) simp_all
  then show ?thesis by (simp only: threshold_evaluates)
qed

theorem pct_of_below_one_third:
  assumes "0 < t" "t \<le> 2 ^ 50" "0 < d" "3 * d < t"
  shows "pct_of d t < bftSafetyThreshold"
proof -
  obtain p q where pq: "64 \<le> p" "64 \<le> q"
    and pct: "pct_of d t = fround 53 (fround q (fround p (of_int d * pctScaleFactor) / of_int t))"
    using pct_of_round_twice by blast
  define x :: rat where "x = of_int d * 100 / of_int t"
  note R = round_twice [OF assms(3,1) pq, folded x_def]
  have "(of_int (3 * d + 1) :: rat) \<le> of_int t" "(of_int t :: rat) \<le> of_int (2 ^ 50)"
    using assms(2,4) by (simp_all only: of_int_le_iff)
  then have "x \<le> 100 / 3 - 100 / 3 / 2 ^ 50" using assms(1) by (simp add: x_def field_simps)
  then have "fround q (fround p (of_int d * pctScaleFactor) / of_int t) \<le> 100 / 3 - 1 / 2 ^ 46"
    using R(2,3) by (simp add: field_simps)
  then have "pct_of d t \<le> fround 53 (100 / 3 - 1 / 2 ^ 46)"
    unfolding pct using R(4) by (intro fround_mono_pos) simp_all
  then show ?thesis using threshold_evaluates(2) by linarith
qed

end
