(* ===== verification/Committee.thy ===== *)
theory Committee
  imports LaunchModel
begin

text \<open>
  Rotation and resizing of the M-of-N committee (launch.go) and the invariant every operation
  keeps: the threshold is between 1 and the number of members, \<open>TotalN\<close> counts the members, and the
  lead is the first member.
\<close>

section \<open>Operations\<close>

definition with_committee :: "time \<Rightarrow> Launch \<Rightarrow> Committee \<Rightarrow> Launch" where
  "with_committee now l c = touch now (l\<lparr>l_Committee := c\<rparr>)"

definition ReplaceCommitteeMember ::
  "time \<Rightarrow> Launch \<Rightarrow> AccountID \<Rightarrow> CommitteeMember \<Rightarrow> Launch result" where
  "ReplaceCommitteeMember now l oldAddr newMember =
     (let c = l_Committee l in
      case find_index (\<lambda>m. AccountID_Equal (cm_Address m) oldAddr) (c_Members c) of
        None \<Rightarrow> Inl [ErrCommitteeMemberNotFound]
      | Some i \<Rightarrow> Inr (with_committee now l (c\<lparr>c_Members := (c_Members c)[i := newMember],
          c_LeadAddress := (if AccountID_Equal (c_LeadAddress c) oldAddr then cm_Address newMember
                            else c_LeadAddress c)\<rparr>)))"

definition ExpandCommittee :: "time \<Rightarrow> Launch \<Rightarrow> CommitteeMember \<Rightarrow> int \<Rightarrow> Launch result" where
  "ExpandCommittee now l newMember newThresholdM =
     (let c = l_Committee l; newN = int (length (c_Members c)) + 1 in
      if list_ex (\<lambda>m. AccountID_Equal (cm_Address m) (cm_Address newMember)) (c_Members c)
        then Inl [ErrCommitteeMemberExists]
      else if newThresholdM < 1 then Inl [ErrInvalidCommitteeChange]
      else if newThresholdM \<ge> newN then Inl [ErrInvalidCommitteeChange]
      else Inr (with_committee now l (c\<lparr>c_Members := c_Members c @ [newMember], c_TotalN := newN,
                                        c_ThresholdM := newThresholdM\<rparr>)))"

definition ShrinkCommittee :: "time \<Rightarrow> Launch \<Rightarrow> AccountID \<Rightarrow> int \<Rightarrow> Launch result" where
  "ShrinkCommittee now l removeAddr newThresholdM =
     (let c = l_Committee l in
      case find_index (\<lambda>m. AccountID_Equal (cm_Address m) removeAddr) (c_Members c) of
        None \<Rightarrow> Inl [ErrCommitteeMemberNotFound]
      | Some idx \<Rightarrow>
        let newN = int (length (c_Members c)) - 1 in
        if newN < 1 then Inl [ErrInvalidCommitteeChange]
        else if newThresholdM < 1 then Inl [ErrInvalidCommitteeChange]
        else if newThresholdM \<ge> newN then Inl [ErrInvalidCommitteeChange]
        else let ms = remove_nth idx (c_Members c) in
          Inr (with_committee now l (c\<lparr>c_Members := ms, c_TotalN := newN, c_ThresholdM := newThresholdM,
            c_LeadAddress := (if AccountID_Equal (c_LeadAddress c) removeAddr then cm_Address (ms ! 0)
                              else c_LeadAddress c)\<rparr>)))"

section \<open>The committee invariant\<close>

definition committee_ok :: "Committee \<Rightarrow> bool" where
  "committee_ok c \<longleftrightarrow> 1 \<le> c_ThresholdM c \<and> c_ThresholdM c \<le> c_TotalN c \<and>
     c_TotalN c = int (length (c_Members c)) \<and>
     AccountID_Equal (cm_Address (c_Members c ! 0)) (c_LeadAddress c)"

definition seats :: "Committee \<Rightarrow> string list" where
  \<comment> \<open>the accounts seated on the committee\<close>
  "seats c = map (acct \<circ> cm_Address) (c_Members c)"

definition live :: "Committee \<Rightarrow> bool" where
  \<comment> \<open>quorum survives the absence of one member\<close>
  "live c \<longleftrightarrow> c_ThresholdM c < c_TotalN c"

lemma committee_ok_nonempty: "committee_ok c \<Longrightarrow> c_Members c \<noteq> []"
  by (auto simp: committee_ok_def)

lemma HasMember_seats: "HasMember c a \<longleftrightarrow> acct a \<in> set (seats c)"
  by (auto simp: HasMember_iff seats_def image_iff) metis+

lemma launch_New_committee_ok:
  "launch_New E now lid r lt c = Inr l \<Longrightarrow> committee_ok (l_Committee l)"
  by (auto simp: launch_New_def result_simps committee_ok_def split: if_splits)

lemma find_seat:
  "find_index (\<lambda>m. AccountID_Equal (cm_Address m) a) ms = Some i \<Longrightarrow>
     i < length ms \<and> acct (cm_Address (ms ! i)) = acct a \<and> (\<forall>j < i. acct (cm_Address (ms ! j)) \<noteq> acct a)"
  by (simp add: find_index_Some account_defs)

lemma ReplaceCommitteeMember_ok:
  assumes "ReplaceCommitteeMember now l a m = Inr l'" "committee_ok (l_Committee l)"
  shows "committee_ok (l_Committee l')"
proof -
  obtain i where i: "find_index (\<lambda>m. AccountID_Equal (cm_Address m) a) (c_Members (l_Committee l)) = Some i"
    using assms(1) by (auto simp: ReplaceCommitteeMember_def Let_def split: option.splits)
  show ?thesis
    using assms find_seat [OF i] i
    by (cases i) (auto simp: ReplaceCommitteeMember_def Let_def with_committee_def committee_ok_def
        account_defs)
qed

lemma ExpandCommittee_ok:
  assumes "ExpandCommittee now l m k = Inr l'" "committee_ok (l_Committee l)"
  shows "committee_ok (l_Committee l') \<and> live (l_Committee l')"
  using assms committee_ok_nonempty [OF assms(2)]
  by (auto simp: ExpandCommittee_def Let_def with_committee_def committee_ok_def live_def nth_append
      split: if_splits)

lemma ShrinkCommittee_ok:
  assumes "ShrinkCommittee now l a k = Inr l'" "committee_ok (l_Committee l)"
  shows "committee_ok (l_Committee l') \<and> live (l_Committee l') \<and> 2 \<le> c_TotalN (l_Committee l')"
proof -
  let ?ms = "c_Members (l_Committee l)"
  obtain i where i: "find_index (\<lambda>m. AccountID_Equal (cm_Address m) a) ?ms = Some i"
    using assms(1) by (auto simp: ShrinkCommittee_def Let_def split: option.splits)
  note S = find_seat [OF i]
  have len: "length (remove_nth i ?ms) = length ?ms - 1" using S by (simp add: length_remove_nth)
  have "0 < i \<Longrightarrow> remove_nth i ?ms ! 0 = ?ms ! 0" using S by (simp add: nth_0_remove_nth)
  moreover have "\<not> AccountID_Equal (c_LeadAddress (l_Committee l)) a \<Longrightarrow> 0 < i"
    using S assms(2) by (cases i) (auto simp: committee_ok_def account_defs)
  ultimately show ?thesis
    using assms i len S
    by (auto simp: ShrinkCommittee_def Let_def with_committee_def committee_ok_def live_def account_defs
        split: if_splits)
qed

lemma distinct_seats_Expand:
  "ExpandCommittee now l m k = Inr l' \<Longrightarrow> distinct (seats (l_Committee l)) \<Longrightarrow>
     distinct (seats (l_Committee l'))"
  by (fastforce simp: ExpandCommittee_def Let_def with_committee_def seats_def list_ex_iff account_defs
      split: if_splits)

lemma distinct_seats_Shrink:
  assumes "ShrinkCommittee now l a k = Inr l'" "distinct (seats (l_Committee l))"
  shows "distinct (seats (l_Committee l'))"
proof -
  obtain i where "c_Members (l_Committee l') = remove_nth i (c_Members (l_Committee l))"
    using assms(1)
    by (auto simp: ShrinkCommittee_def Let_def with_committee_def split: option.splits if_splits)
  then show ?thesis using assms(2) by (simp add: seats_def map_remove_nth distinct_remove_nth)
qed

end
