(* ===== verification/Allocation.thy ===== *)
theory Allocation
  imports LaunchModel
begin

text \<open>
  Governance of the allocation files (launch.go, allocation.go): at most one file per type, approval
  bound to the content hash, and the freeze once the genesis is ready or the launch is over.
\<close>

section \<open>Operations\<close>

definition allocationLocked :: "Launch \<Rightarrow> bool" where
  "allocationLocked l \<longleftrightarrow>
     l_Status l = StatusGenesisReady \<or> l_Status l = StatusLaunched \<or> l_Status l = StatusCancelled"

definition AllocationFileOf :: "Launch \<Rightarrow> AllocationType \<Rightarrow> AllocationFile option" where
  "AllocationFileOf l t = find (\<lambda>f. af_Type f = t) (l_AllocationFiles l)"

definition update_file :: "time \<Rightarrow> Launch \<Rightarrow> nat \<Rightarrow> (AllocationFile \<Rightarrow> AllocationFile) \<Rightarrow> Launch" where
  "update_file now l i f = touch now (l\<lparr>l_AllocationFiles := (l_AllocationFiles l)[i := f (l_AllocationFiles l ! i)]\<rparr>)"

definition UploadAllocationFile :: "time \<Rightarrow> Launch \<Rightarrow> AllocationType \<Rightarrow> string \<Rightarrow> Launch result" where
  "UploadAllocationFile now l t sha =
     (if allocationLocked l then Inl [ErrAllocationLocked]
      else if \<not> ValidAllocationType t then Inl [ErrUnknownAllocationType]
      else if \<not> isSHA256HexLower sha then Inl [ErrAllocationEmptyHash]
      else case find_index (\<lambda>f. af_Type f = t) (l_AllocationFiles l) of
        Some i \<Rightarrow> Inr (update_file now l i (\<lambda>f. f\<lparr>af_SHA256 := sha, af_Status := AllocationPending,
                          af_ApprovedByProposal := None, af_UploadedAt := now\<rparr>))
      | None \<Rightarrow> Inr (touch now (l\<lparr>l_AllocationFiles := l_AllocationFiles l @
                 [\<lparr>af_Type = t, af_SHA256 = sha, af_Status = AllocationPending,
                   af_ApprovedByProposal = None, af_UploadedAt = now\<rparr>]\<rparr>)))"

definition ApproveAllocationFile ::
  "time \<Rightarrow> Launch \<Rightarrow> AllocationType \<Rightarrow> string \<Rightarrow> uuid \<Rightarrow> Launch result" where
  "ApproveAllocationFile now l t hash proposalID =
     (if allocationLocked l then Inl [ErrAllocationLocked]
      else case find_index (\<lambda>f. af_Type f = t) (l_AllocationFiles l) of
        None \<Rightarrow> Inl [ErrAllocationNotFound]
      | Some i \<Rightarrow>
        if af_SHA256 (l_AllocationFiles l ! i) \<noteq> hash then Inl [ErrAllocationStaleHash]
        else Inr (update_file now l i (\<lambda>f. f\<lparr>af_Status := AllocationApproved,
                     af_ApprovedByProposal := Some proposalID\<rparr>)))"

definition RejectAllocationFile :: "time \<Rightarrow> Launch \<Rightarrow> AllocationType \<Rightarrow> string \<Rightarrow> Launch \<times> bool" where
  "RejectAllocationFile now l t hash =
     (case find_index (\<lambda>f. af_Type f = t) (l_AllocationFiles l) of
        None \<Rightarrow> (l, False)
      | Some i \<Rightarrow>
        if af_SHA256 (l_AllocationFiles l ! i) \<noteq> hash then (l, False)
        else (update_file now l i (\<lambda>f. f\<lparr>af_Status := AllocationRejected,
                 af_ApprovedByProposal := None\<rparr>), True))"

section \<open>Invariant\<close>

definition file_ok :: "AllocationFile \<Rightarrow> bool" where
  "file_ok f \<longleftrightarrow> ValidAllocationType (af_Type f) \<and> isSHA256HexLower (af_SHA256 f) \<and>
     (af_Status f = AllocationApproved \<longleftrightarrow> af_ApprovedByProposal f \<noteq> None)"

definition allocations_ok :: "Launch \<Rightarrow> bool" where
  "allocations_ok l \<longleftrightarrow> distinct (map af_Type (l_AllocationFiles l)) \<and> list_all file_ok (l_AllocationFiles l)"

lemma update_file_ok:
  assumes "allocations_ok l" "i < length (l_AllocationFiles l)"
    "af_Type (f (l_AllocationFiles l ! i)) = af_Type (l_AllocationFiles l ! i)"
    "file_ok (f (l_AllocationFiles l ! i))"
  shows "allocations_ok (update_file now l i f)"
proof -
  have "map af_Type ((l_AllocationFiles l)[i := f (l_AllocationFiles l ! i)]) = map af_Type (l_AllocationFiles l)"
    using assms(2,3) by (simp add: map_update) (metis list_update_id nth_map)
  then show ?thesis
    using assms by (auto simp: allocations_ok_def update_file_def list_all_iff dest!: set_update_subset_insert [THEN subsetD])
qed

lemma nth_file_ok: "allocations_ok l \<Longrightarrow> i < length (l_AllocationFiles l) \<Longrightarrow> file_ok (l_AllocationFiles l ! i)"
  by (simp add: allocations_ok_def list_all_iff)

lemma found_file:
  "find_index p (l_AllocationFiles l) = Some i \<Longrightarrow> allocations_ok l \<Longrightarrow>
     i < length (l_AllocationFiles l) \<and> file_ok (l_AllocationFiles l ! i)"
  by (simp add: find_index_length nth_file_ok)

lemma UploadAllocationFile_ok:
  assumes "UploadAllocationFile now l t sha = Inr l'" "allocations_ok l"
  shows "allocations_ok l'"
proof (cases "find_index (\<lambda>f. af_Type f = t) (l_AllocationFiles l)")
  case None
  then have "\<forall>f \<in> set (l_AllocationFiles l). af_Type f \<noteq> t" by (simp add: find_index_None)
  with None show ?thesis
    using assms by (auto simp: UploadAllocationFile_def allocations_ok_def file_ok_def split: if_splits)
next
  case (Some i)
  then show ?thesis
    using assms find_index_length [OF Some] nth_file_ok [OF assms(2), of i]
    by (auto simp: UploadAllocationFile_def file_ok_def split: if_splits intro!: update_file_ok)
qed

lemma ApproveAllocationFile_ok:
  "ApproveAllocationFile now l t hash pid = Inr l' \<Longrightarrow> allocations_ok l \<Longrightarrow> allocations_ok l'"
  by (auto simp: ApproveAllocationFile_def file_ok_def dest!: found_file
      split: if_splits option.splits intro!: update_file_ok)

lemma RejectAllocationFile_ok:
  "allocations_ok l \<Longrightarrow> allocations_ok (fst (RejectAllocationFile now l t hash))"
  by (auto simp: RejectAllocationFile_def file_ok_def dest: found_file
      split: option.splits intro!: update_file_ok)

lemma AllocationFileOf_update:
  assumes "find_index (\<lambda>f. af_Type f = t) (l_AllocationFiles l) = Some i"
    "\<And>f. af_Type (g f) = af_Type f"
  shows "AllocationFileOf (update_file now l i g) u =
    (if u = t then Some (g (l_AllocationFiles l ! i)) else AllocationFileOf l u)"
proof -
  have "find_index (\<lambda>f. af_Type f = t) fs = Some i \<Longrightarrow>
      find (\<lambda>f. af_Type f = u) (fs[i := g (fs ! i)]) =
        (if u = t then Some (g (fs ! i)) else find (\<lambda>f. af_Type f = u) fs)" for fs
    by (induction fs arbitrary: i) (auto simp: assms(2) split: if_splits nat.splits)
  then show ?thesis using assms(1) by (simp add: AllocationFileOf_def update_file_def)
qed

lemma AllocationFileOf_find_index:
  "find_index (\<lambda>f. af_Type f = t) (l_AllocationFiles l) = Some i \<Longrightarrow>
     AllocationFileOf l t = Some (l_AllocationFiles l ! i)"
proof -
  have "find_index P fs = Some i \<Longrightarrow> find P fs = Some (fs ! i)" for P and fs :: "AllocationFile list"
    by (induction fs arbitrary: i) (auto split: if_splits)
  then show "find_index (\<lambda>f. af_Type f = t) (l_AllocationFiles l) = Some i \<Longrightarrow>
     AllocationFileOf l t = Some (l_AllocationFiles l ! i)"
    by (simp add: AllocationFileOf_def)
qed

lemma AllocationFileOf_None:
  "AllocationFileOf l t = None \<longleftrightarrow> find_index (\<lambda>f. af_Type f = t) (l_AllocationFiles l) = None"
  by (auto simp: AllocationFileOf_def find_index_None find_None_iff)

text \<open>What each operation does to the file of every type.\<close>

lemma UploadAllocationFile_lookup:
  assumes "UploadAllocationFile now l t sha = Inr l'"
  shows "AllocationFileOf l' u = (if u = t then Some \<lparr>af_Type = t, af_SHA256 = sha,
      af_Status = AllocationPending, af_ApprovedByProposal = None, af_UploadedAt = now\<rparr>
    else AllocationFileOf l u)"
proof (cases "find_index (\<lambda>f. af_Type f = t) (l_AllocationFiles l)")
  case None
  have "find P (fs @ [x]) = (case find P fs of Some y \<Rightarrow> Some y | None \<Rightarrow> if P x then Some x else None)"
    for P fs and x :: AllocationFile
    by (induction fs) auto
  moreover have "AllocationFileOf l t = None" using None by (simp add: AllocationFileOf_None)
  ultimately show ?thesis
    using None assms
    by (auto simp: UploadAllocationFile_def AllocationFileOf_def split: if_splits option.splits)
next
  case (Some i)
  then have "af_Type (l_AllocationFiles l ! i) = t" by (rule find_index_nth)
  with Some assms AllocationFileOf_update [OF Some] show ?thesis
    by (cases "l_AllocationFiles l ! i") (auto simp: UploadAllocationFile_def split: if_splits)
qed

lemma ApproveAllocationFile_lookup:
  assumes "ApproveAllocationFile now l t hash pid = Inr l'"
  shows "\<exists>f. AllocationFileOf l t = Some f \<and> af_SHA256 f = hash \<and> \<not> allocationLocked l \<and>
    (\<forall>u. AllocationFileOf l' u = (if u = t then Some (f\<lparr>af_Status := AllocationApproved,
      af_ApprovedByProposal := Some pid\<rparr>) else AllocationFileOf l u))"
  using assms
  by (auto simp: ApproveAllocationFile_def AllocationFileOf_find_index AllocationFileOf_update
      split: if_splits option.splits)

end
