(* ===== verification/Lifecycle.thy ===== *)
theory Lifecycle
  imports VotingPower Committee Allocation
begin

text \<open>
  The launch state machine (launch.go).  The seven transitions are functions; \<open>launch_step\<close> collects
  every change the program makes to a launch, the aggregate's own operations and the direct
  assignments of the services, as the contract the service theories refine.  Rule induction gives
  the invariant of every reachable launch.
\<close>

section \<open>Transitions\<close>

definition Publish :: "time \<Rightarrow> Launch \<Rightarrow> string \<Rightarrow> Launch result" where
  "Publish now l initialGenesisSHA256 =
     (if l_Status l \<noteq> StatusDraft then Inl [ErrInvalidStatusTransition]
      else if \<not> isSHA256HexLower initialGenesisSHA256 then Inl [ErrGenesisHashRequired]
      else Inr (touch now (l\<lparr>l_InitialGenesisSHA256 := initialGenesisSHA256, l_Status := StatusPublished\<rparr>)))"

definition OpenWindow :: "time \<Rightarrow> Launch \<Rightarrow> Launch result" where
  "OpenWindow now l =
     (if l_Status l \<noteq> StatusPublished then Inl [ErrInvalidStatusTransition]
      else Inr (touch now (l\<lparr>l_Status := StatusWindowOpen\<rparr>)))"

definition CloseWindow :: "time \<Rightarrow> Launch \<Rightarrow> int \<Rightarrow> Launch result" where
  "CloseWindow now l approvedCount =
     (if l_Status l \<noteq> StatusWindowOpen then Inl [ErrInvalidStatusTransition]
      else if approvedCount < r_MinValidatorCount (l_Record l) then Inl [ErrInsufficientValidators]
      else if snd (dominantVotingPowerPct l) \<ge> bftSafetyThreshold then Inl [ErrDominantVotingPower]
      else Inr (touch now (l\<lparr>l_Status := StatusWindowClosed\<rparr>)))"

definition PublishGenesis :: "time \<Rightarrow> Launch \<Rightarrow> string \<Rightarrow> Launch result" where
  "PublishGenesis now l finalGenesisSHA256 =
     (if l_Status l \<noteq> StatusWindowClosed then Inl [ErrInvalidStatusTransition]
      else if \<not> isSHA256HexLower finalGenesisSHA256 then Inl [ErrGenesisHashRequired]
      else Inr (touch now (l\<lparr>l_FinalGenesisSHA256 := finalGenesisSHA256, l_Status := StatusGenesisReady\<rparr>)))"

definition Cancel :: "time \<Rightarrow> Launch \<Rightarrow> Launch result" where
  "Cancel now l =
     (if l_Status l = StatusCancelled then Inl [ErrInvalidStatusTransition]
      else if l_Status l = StatusLaunched then Inl [ErrInvalidStatusTransition]
      else Inr (touch now (l\<lparr>l_Status := StatusCancelled\<rparr>)))"

definition ReopenForRevision :: "time \<Rightarrow> Launch \<Rightarrow> Launch result" where
  "ReopenForRevision now l =
     (if l_Status l \<noteq> StatusGenesisReady then Inl [ErrInvalidStatusTransition]
      else Inr (touch now (l\<lparr>l_FinalGenesisSHA256 := [], l_Status := StatusWindowClosed\<rparr>)))"

definition MarkLaunched :: "time \<Rightarrow> Launch \<Rightarrow> Launch result" where
  "MarkLaunched now l =
     (if l_Status l \<noteq> StatusGenesisReady then Inl [ErrInvalidStatusTransition]
      else Inr (touch now (l\<lparr>l_Status := StatusLaunched\<rparr>)))"

lemmas transition_defs [domain_defs] = Publish_def OpenWindow_def CloseWindow_def PublishGenesis_def
  Cancel_def ReopenForRevision_def MarkLaunched_def

section \<open>The contract of the launch lifecycle\<close>

inductive launch_step :: "env \<Rightarrow> Launch \<Rightarrow> Launch \<Rightarrow> bool" for E where
  publish: "Publish now l h = Inr l' \<Longrightarrow> launch_step E l l'"
| open_window: "OpenWindow now l = Inr l' \<Longrightarrow> launch_step E l l'"
| close_window: "CloseWindow now l n = Inr l' \<Longrightarrow> launch_step E l l'"
| publish_genesis: "PublishGenesis now l h = Inr l' \<Longrightarrow> launch_step E l l'"
| cancel: "Cancel now l = Inr l' \<Longrightarrow> launch_step E l l'"
| reopen: "ReopenForRevision now l = Inr l' \<Longrightarrow> launch_step E l l'"
| mark_launched: "MarkLaunched now l = Inr l' \<Longrightarrow> launch_step E l l'"
| add_member: "AddMember l m = Inr l' \<Longrightarrow> launch_step E l l'"
| remove_member: "RemoveMember l a = Inr l' \<Longrightarrow> launch_step E l l'"
| replace_seat: "ReplaceCommitteeMember now l a m = Inr l' \<Longrightarrow> launch_step E l l'"
| expand: "ExpandCommittee now l m k = Inr l' \<Longrightarrow> launch_step E l l'"
| shrink: "ShrinkCommittee now l a k = Inr l' \<Longrightarrow> launch_step E l l'"
| upload_alloc: "UploadAllocationFile now l t h = Inr l' \<Longrightarrow> launch_step E l l'"
| approve_alloc: "ApproveAllocationFile now l t h pid = Inr l' \<Longrightarrow> launch_step E l l'"
| reject_alloc: "launch_step E l (fst (RejectAllocationFile now l t h))"
| record_power: "launch_step E l (fst (RecordValidatorApproval E l a p))"
| remove_power: "launch_step E l (RemoveValidatorApproval l a)"
| set_committee: "l_Status l = StatusDraft \<Longrightarrow> committee_ok c \<Longrightarrow> launch_step E l (l\<lparr>l_Committee := c\<rparr>)"
| edit_draft: "l_Status l = StatusDraft \<Longrightarrow> validateChainRecord E r = Inr u \<Longrightarrow>
    r_ChainID r = r_ChainID (l_Record l) \<Longrightarrow>
    launch_step E l (l\<lparr>l_Record := r, l_Allowlist := al\<rparr>)"
| upload_initial: "l_Status l = StatusDraft \<Longrightarrow> isSHA256HexLower h \<Longrightarrow>
    launch_step E l (l\<lparr>l_InitialGenesisSHA256 := h\<rparr>)"
| upload_final: "l_Status l = StatusWindowClosed \<Longrightarrow> isSHA256HexLower h \<Longrightarrow>
    launch_step E l (l\<lparr>l_FinalGenesisSHA256 := h, l_FinalGenesisInputSetHash := ish,
      l_Record := (l_Record l)\<lparr>r_GenesisTime := Some t\<rparr>\<rparr>)"
| genesis_time: "launch_step E l (l\<lparr>l_Record := (l_Record l)\<lparr>r_GenesisTime := t\<rparr>\<rparr>)"
| config: "launch_step E l (l\<lparr>l_MonitorRPCURL := u, l_RehearsalServicePubKey := k, l_RehearsalEndpoint := e\<rparr>)"
| versioned: "launch_step E l (l\<lparr>l_Version := v\<rparr>)"

inductive launch_reachable :: "env \<Rightarrow> Launch \<Rightarrow> bool" for E where
  created: "launch_New E now lid r lt c = Inr l \<Longrightarrow> launch_reachable E (l\<lparr>l_Allowlist := al\<rparr>)"
| step: "launch_reachable E l \<Longrightarrow> launch_step E l l' \<Longrightarrow> launch_reachable E l'"

fun status_edge :: "Status \<Rightarrow> Status \<Rightarrow> bool" where
  \<comment> \<open>the edges of the lifecycle\<close>
  "status_edge StatusDraft s = (s \<in> {StatusPublished, StatusCancelled})"
| "status_edge StatusPublished s = (s \<in> {StatusWindowOpen, StatusCancelled})"
| "status_edge StatusWindowOpen s = (s \<in> {StatusWindowClosed, StatusCancelled})"
| "status_edge StatusWindowClosed s = (s \<in> {StatusGenesisReady, StatusCancelled})"
| "status_edge StatusGenesisReady s = (s \<in> {StatusLaunched, StatusWindowClosed, StatusCancelled})"
| "status_edge StatusLaunched s = False"
| "status_edge StatusCancelled s = False"

definition launch_ok :: "env \<Rightarrow> Launch \<Rightarrow> bool" where
  "launch_ok E l \<longleftrightarrow>
     committee_ok (l_Committee l) \<and> allocations_ok l \<and> validateChainRecord E (l_Record l) = Inr () \<and>
     (l_Status l \<notin> {StatusDraft, StatusCancelled} \<longrightarrow> isSHA256HexLower (l_InitialGenesisSHA256 l)) \<and>
     (l_Status l \<in> {StatusGenesisReady, StatusLaunched} \<longrightarrow> isSHA256HexLower (l_FinalGenesisSHA256 l)) \<and>
     (l_Status l \<in> {StatusDraft, StatusPublished, StatusWindowOpen} \<longrightarrow> l_FinalGenesisSHA256 l = [])"

lemma validateChainRecord_GenesisTime [simp]:
  "validateChainRecord E (r\<lparr>r_GenesisTime := t\<rparr>) = validateChainRecord E r"
  by (simp add: validateChainRecord_def)

lemma allocations_ok_cong: "l_AllocationFiles l = l_AllocationFiles l' \<Longrightarrow> allocations_ok l = allocations_ok l'"
  by (simp add: allocations_ok_def)

lemma with_committee_simps [simp]:
  "l_Committee (with_committee now l c) = c" "l_Status (with_committee now l c) = l_Status l"
  "l_ID (with_committee now l c) = l_ID l" "l_Record (with_committee now l c) = l_Record l"
  "l_AllocationFiles (with_committee now l c) = l_AllocationFiles l"
  "l_InitialGenesisSHA256 (with_committee now l c) = l_InitialGenesisSHA256 l"
  "l_FinalGenesisSHA256 (with_committee now l c) = l_FinalGenesisSHA256 l"
  "l_CreatedAt (with_committee now l c) = l_CreatedAt l"
  by (simp_all add: with_committee_def)

lemma committee_change_frame:
  "ReplaceCommitteeMember now l a m = Inr l' \<Longrightarrow> l' = with_committee now l (l_Committee l')"
  "ExpandCommittee now l m k = Inr l' \<Longrightarrow> l' = with_committee now l (l_Committee l')"
  "ShrinkCommittee now l a k = Inr l' \<Longrightarrow> l' = with_committee now l (l_Committee l')"
  by (auto simp: ReplaceCommitteeMember_def ExpandCommittee_def ShrinkCommittee_def Let_def
      split: option.splits if_splits)

definition with_files :: "Launch \<Rightarrow> Launch \<Rightarrow> bool" where
  \<comment> \<open>two launches that differ at most in their allocation files and update time\<close>
  "with_files l l' \<longleftrightarrow> l_Committee l' = l_Committee l \<and> l_Status l' = l_Status l \<and> l_ID l' = l_ID l \<and>
     l_Record l' = l_Record l \<and> l_InitialGenesisSHA256 l' = l_InitialGenesisSHA256 l \<and>
     l_FinalGenesisSHA256 l' = l_FinalGenesisSHA256 l \<and> l_CreatedAt l' = l_CreatedAt l"

lemma with_files_update [simp]: "with_files l (update_file now l i f)"
  by (simp add: with_files_def update_file_def)

lemma allocation_change_frame:
  "UploadAllocationFile now l t h = Inr l' \<Longrightarrow> with_files l l'"
  "ApproveAllocationFile now l t h pid = Inr l' \<Longrightarrow> with_files l l'"
  "with_files l (fst (RejectAllocationFile now l t h))"
  by (auto simp: UploadAllocationFile_def ApproveAllocationFile_def RejectAllocationFile_def
      split: option.splits if_splits) (simp_all add: with_files_def)

lemma launch_ok_with_committee:
  "launch_ok E l \<Longrightarrow> committee_ok c \<Longrightarrow> launch_ok E (with_committee now l c)"
  by (simp add: launch_ok_def allocations_ok_def)

lemma launch_ok_with_files:
  "launch_ok E l \<Longrightarrow> with_files l l' \<Longrightarrow> allocations_ok l' \<Longrightarrow> launch_ok E l'"
  by (simp add: launch_ok_def with_files_def)

lemma launch_ok_committee: "launch_ok E l \<Longrightarrow> committee_ok (l_Committee l)"
  and launch_ok_allocations: "launch_ok E l \<Longrightarrow> allocations_ok l"
  by (simp_all add: launch_ok_def)

lemma launch_step_ok:
  assumes "launch_step E l l'" "launch_ok E l"
  shows "launch_ok E l'"
  using assms
proof (induction rule: launch_step.induct)
  case (replace_seat now l a m l')
  show ?case
    using committee_change_frame(1) [OF replace_seat(1)] ReplaceCommitteeMember_ok [OF replace_seat(1)]
    by (metis launch_ok_committee launch_ok_with_committee replace_seat(2))
next
  case (expand now l m k l')
  show ?case
    using committee_change_frame(2) [OF expand(1)] ExpandCommittee_ok [OF expand(1)]
    by (metis launch_ok_committee launch_ok_with_committee expand(2))
next
  case (shrink now l a k l')
  show ?case
    using committee_change_frame(3) [OF shrink(1)] ShrinkCommittee_ok [OF shrink(1)]
    by (metis launch_ok_committee launch_ok_with_committee shrink(2))
next
  case (upload_alloc now l t h l')
  then show ?case
    by (metis allocation_change_frame(1) UploadAllocationFile_ok launch_ok_allocations launch_ok_with_files)
next
  case (approve_alloc now l t h pid l')
  then show ?case
    by (metis allocation_change_frame(2) ApproveAllocationFile_ok launch_ok_allocations launch_ok_with_files)
next
  case (reject_alloc l now t h)
  then show ?case
    by (metis allocation_change_frame(3) RejectAllocationFile_ok launch_ok_allocations launch_ok_with_files)
qed (auto simp: launch_ok_def transition_defs guards allocations_ok_def RemoveValidatorApproval_def
    split: if_splits)

lemma launch_New_ok: "launch_New E now lid r lt c = Inr l \<Longrightarrow> launch_ok E l"
  using launch_New_committee_ok [of E now lid r lt c l]
  by (auto simp: launch_ok_def launch_New_def result_simps allocations_ok_def split: if_splits)

lemma launch_reachable_ok: "launch_reachable E l \<Longrightarrow> launch_ok E l"
proof (induction rule: launch_reachable.induct)
  case (created now lid r lt c l al)
  then have "launch_ok E l" by (rule launch_New_ok)
  then show ?case by (simp add: launch_ok_def allocations_ok_def)
qed (rule launch_step_ok)

lemma committee_change_identity:
  assumes "l' = with_committee now l (l_Committee l')"
  shows "l_Status l' = l_Status l \<and> l_ID l' = l_ID l \<and> l_Record l' = l_Record l \<and> l_CreatedAt l' = l_CreatedAt l"
  by (subst (1 2 3 4) assms) simp

lemmas change_frames = committee_change_frame [THEN committee_change_identity]
  allocation_change_frame [unfolded with_files_def]

lemma launch_step_status:
  assumes "launch_step E l l'"
  shows "l_Status l' = l_Status l \<or> status_edge (l_Status l) (l_Status l')"
  using assms
proof (induction rule: launch_step.induct)
  case (cancel now l l')
  then show ?case by (cases "l_Status l") (auto simp: Cancel_def)
qed (auto simp: transition_defs guards RemoveValidatorApproval_def change_frames split: if_splits)

lemma launch_step_identity:
  assumes "launch_step E l l'"
  shows "l_ID l' = l_ID l \<and> r_ChainID (l_Record l') = r_ChainID (l_Record l) \<and> l_CreatedAt l' = l_CreatedAt l"
  using assms
  by (induction rule: launch_step.induct)
    (auto simp: transition_defs guards RemoveValidatorApproval_def change_frames split: if_splits)

end
