(* ===== verification/LaunchProperties.thy ===== *)
theory LaunchProperties
  imports Lifecycle
begin

text \<open>
  The properties of the launch aggregate, over the lemmas of its parts, with concrete instances.
\<close>

section \<open>A concrete environment\<close>

text \<open>
  Instances need values for the functions of other packages.  The bech32 of this environment writes
  a prefix, the separator and the bytes as characters; the digest of every input is a fixed string.
\<close>

definition example_env :: env where
  "example_env = \<lparr>
     bech32_Decode = (\<lambda>s n. map_option (\<lambda>(h, d). (h, map of_char d)) (split_at CHR ''1'' s)),
     bech32_ConvertBits = (\<lambda>d _ _ _. Some d),
     bech32_Encode = (\<lambda>h d. if CHR ''1'' \<in> set h then None else Some (h @ CHR ''1'' # map char_of d)),
     uuid_Parse = (\<lambda>s. None), uuid_String = (\<lambda>u. ''uuid''),
     url_Parse = (\<lambda>s. None), url_ParseRequestURI = (\<lambda>s. None), ParseFloat = (\<lambda>s. Some (Fin 0)),
     time_ParseRFC3339 = (\<lambda>s. None), time_FormatRFC3339 = (\<lambda>t. ''time''),
     time_FormatRFC3339Nano = (\<lambda>t. replicate (nat t) CHR ''9''),
     canonicaljson_Marshal = Some, canonicaljson_MarshalForSigning = (\<lambda>j. Some []),
     sha256hex = (\<lambda>b. replicate 64 CHR ''a'')\<rparr>"

definition example_record :: ChainRecord where
  "example_record = \<lparr>r_ChainID = ''chain-1'', r_ChainName = ''Chain'', r_Bech32Prefix = ''cosmos'',
     r_BinaryName = ''chaind'', r_BinaryVersion = [], r_BinarySHA256 = [], r_RepoURL = [],
     r_RepoCommit = [], r_GenesisTime = None, r_Denom = ''utok'', r_MinSelfDelegation = [],
     r_TotalSupply = [], r_MaxCommissionRate = \<lparr>cr_value = ''0.2'', cr_f = Fin (1/5)\<rparr>,
     r_MaxCommissionChangeRate = \<lparr>cr_value = ''0.1'', cr_f = Fin (1/10)\<rparr>,
     r_GentxDeadline = 1, r_MinValidatorCount = 1\<rparr>"

definition example_account :: "string \<Rightarrow> AccountID" where
  "example_account a = \<lparr>acct = a, orig = ''cosmos1'' @ a\<rparr>"

definition example_member :: "string \<Rightarrow> CommitteeMember" where
  "example_member a = \<lparr>cm_Address = example_account a, cm_Moniker = a\<rparr>"

definition example_committee :: Committee where
  "example_committee = \<lparr>c_ID = 1, c_Members = map example_member [''aa'', ''bb'', ''cc''],
     c_ThresholdM = 2, c_TotalN = 3, c_LeadAddress = example_account ''aa'', c_CreatedAt = 0\<rparr>"

definition example_launch :: Launch where
  "example_launch = \<lparr>l_ID = 7, l_Record = example_record, l_LaunchType = LaunchTypeTestnet,
     l_Allowlist = Allowlist_zero, l_Status = StatusDraft, l_Committee = example_committee,
     l_InitialGenesisSHA256 = [], l_FinalGenesisSHA256 = [], l_FinalGenesisInputSetHash = [],
     l_AllocationFiles = [], l_MonitorRPCURL = [], l_RehearsalServicePubKey = [],
     l_RehearsalEndpoint = [], l_CreatedAt = 5, l_UpdatedAt = 5, l_Version = 0,
     l_approvedVotingPower = fmempty\<rparr>"

lemmas example_defs = example_launch_def example_committee_def example_member_def
  example_account_def example_record_def

lemma example_launch_New:
  "launch_New example_env 5 7 example_record LaunchTypeTestnet example_committee = Inr example_launch"
  by (simp add: launch_New_def validateChainRecord_def example_defs CommissionRate_LessThanOrEqual_def
      time_IsZero_def account_defs)

lemma example_launch_reachable: "launch_reachable example_env example_launch"
proof -
  have "launch_reachable example_env (example_launch\<lparr>l_Allowlist := Allowlist_zero\<rparr>)"
    by (rule launch_reachable.created [OF example_launch_New])
  moreover have "example_launch\<lparr>l_Allowlist := Allowlist_zero\<rparr> = example_launch"
    by (simp add: example_launch_def)
  ultimately show ?thesis by simp
qed

section \<open>The state machine\<close>



text \<open>
  C2. A change of status follows an edge of the lifecycle (DRAFT, PUBLISHED, WINDOW_OPEN,
  WINDOW_CLOSED, GENESIS_READY, LAUNCHED, with cancellation before LAUNCHED and revision back from
  GENESIS_READY): LAUNCHED and CANCELED are never left again, and the id and chain id of a launch
  never change.
\<close>

theorem lifecycle_edges_and_terminals:
  assumes "(launch_step E)\<^sup>*\<^sup>* l l'"
  shows "(\<lambda>x y. x = y \<or> status_edge x y)\<^sup>*\<^sup>* (l_Status l) (l_Status l') \<and>
    (l_Status l \<in> {StatusLaunched, StatusCancelled} \<longrightarrow> l_Status l' = l_Status l) \<and>
    l_ID l' = l_ID l \<and> r_ChainID (l_Record l') = r_ChainID (l_Record l)"
  using assms
proof (induction rule: rtranclp_induct)
  case (step y z)
  have "l_Status y = l_Status z \<or> status_edge (l_Status y) (l_Status z)"
    using launch_step_status [OF step(2)] by auto
  with step launch_step_identity [OF step(2)] show ?case
    by (auto intro: rtranclp.rtrancl_into_rtrancl)
qed simp

definition example_cancelled :: Launch where
  "example_cancelled = touch 9 (example_launch\<lparr>l_Status := StatusCancelled\<rparr>)"

theorem lifecycle_edges_and_terminals_witness:
  "(launch_step example_env)\<^sup>*\<^sup>* example_launch example_cancelled \<and> l_ID example_cancelled = 7"
proof -
  have "Cancel 9 example_launch = Inr example_cancelled"
    by (simp add: Cancel_def example_cancelled_def example_launch_def)
  then have "(launch_step example_env)\<^sup>*\<^sup>* example_launch example_cancelled"
    by (intro r_into_rtranclp launch_step.cancel)
  then show ?thesis
    using lifecycle_edges_and_terminals [of example_env example_launch example_cancelled]
    by (simp add: example_launch_def)
qed

section \<open>Voting power\<close>

lemma dominantVotingPowerPct_snd:
  "snd (dominantVotingPowerPct l) =
     (if total_power l = 0 then 0 else pct_of (snd (dominant_entry (power_entries l))) (total_power l))"
  by (simp add: dominantVotingPowerPct_def Let_def split_beta)

lemma dominant_entry_holder:
  assumes "0 < snd (dominant_entry (power_entries l))"
  obtains a p where "fmlookup (l_approvedVotingPower l) a = Some p"
    "sint p = snd (dominant_entry (power_entries l))"
proof -
  have "snd (dominant_entry (power_entries l)) \<in> insert 0 (snd ` set (power_entries l))"
    unfolding dominant_entry_max by (rule Max_in) auto
  with assms that show ?thesis by (auto simp: set_power_entries)
qed


definition example_open :: Launch where
  "example_open = example_launch\<lparr>l_Status := StatusWindowOpen, l_approvedVotingPower :=
     fmap_of_list [(''aa'', 10), (''bb'', 12), (''cc'', 9), (''dd'', 11)]\<rparr>"

lemma example_open_share: "snd (dominantVotingPowerPct example_open) < bftSafetyThreshold"
  by code_simp

lemma example_open_total: "total_power example_open = 42"
  by code_simp

lemma example_open_closes:
  "CloseWindow 9 example_open 4 = Inr (touch 9 (example_open\<lparr>l_Status := StatusWindowClosed\<rparr>))"
  using example_open_share by (simp add: CloseWindow_def example_open_def example_defs not_le)


text \<open>
  C4. The gate is exact for supplies up to 2^50 base units: with the other preconditions met,
  \<open>CloseWindow\<close> succeeds exactly when nothing is committed or every account
  holds less than one third.
\<close>

theorem CloseWindow_exact:
  assumes "l_Status l = StatusWindowOpen" "r_MinValidatorCount (l_Record l) \<le> n"
    and "0 \<le> total_power l" "total_power l \<le> 2 ^ 50"
  shows "(\<exists>l'. CloseWindow now l n = Inr l') \<longleftrightarrow>
    total_power l = 0 \<or> (\<forall>a p. fmlookup (l_approvedVotingPower l) a = Some p \<longrightarrow> 3 * sint p < total_power l)"
    (is "?ok \<longleftrightarrow> ?t = 0 \<or> ?safe")
proof (cases "?t = 0")
  case True
  have "(0::rat) < bftSafetyThreshold" by code_simp
  with True assms(1,2) show ?thesis by (simp add: CloseWindow_def dominantVotingPowerPct_snd)
next
  case False
  with assms(3) have t: "0 < ?t" by simp
  let ?d = "snd (dominant_entry (power_entries l))"
  have d0: "0 \<le> ?d" unfolding dominant_entry_max by (simp add: Max_ge)
  have pct: "?ok \<longleftrightarrow> pct_of ?d ?t < bftSafetyThreshold"
    using assms(1,2) False by (auto simp: CloseWindow_def dominantVotingPowerPct_snd)
  show ?thesis
  proof
    assume ?ok
    then have "\<not> ?t \<le> 3 * ?d" using pct pct_of_one_third [OF t, of ?d] by (metis leD)
    then show "?t = 0 \<or> ?safe" using power_le_dominant by fastforce
  next
    assume "?t = 0 \<or> ?safe"
    with False have safe: ?safe by simp
    have "pct_of ?d ?t < bftSafetyThreshold"
    proof (cases "?d = 0")
      case True
      have "(0::rat) < bftSafetyThreshold" by code_simp
      then show ?thesis by (simp add: True pct_of_def fround_def Let_def)
    next
      case False
      with d0 have d: "0 < ?d" by simp
      obtain a p where "fmlookup (l_approvedVotingPower l) a = Some p" "sint p = ?d"
        by (rule dominant_entry_holder [OF d])
      with safe have "3 * ?d < ?t" by metis
      with pct_of_below_one_third [OF t assms(4) d] show ?thesis by simp
    qed
    with pct show ?ok by simp
  qed
qed

theorem CloseWindow_exact_witness:
  "(\<exists>l'. CloseWindow 9 example_open 4 = Inr l') \<longleftrightarrow> total_power example_open = 0 \<or>
    (\<forall>a p. fmlookup (l_approvedVotingPower example_open) a = Some p \<longrightarrow> 3 * sint p < total_power example_open)"
  by (rule CloseWindow_exact) (simp_all add: example_open_total, simp_all add: example_open_def example_defs)

end
