(* ===== verification/JoinRequest.thy ===== *)
theory JoinRequest
  imports LaunchModel
begin

text \<open>
  The JoinRequest aggregate (internal/domain/joinrequest/joinrequest.go): a validator's application,
  its lifecycle, and the accessors that read the stored gentx.  The self-delegation is accumulated in
  a 64-bit integer that wraps.
\<close>

section \<open>Data and lifecycle\<close>

datatype JRStatus = JRPending | JRApproved | JRRejected | JRExpired

record JoinRequest =
  jr_ID :: uuid
  jr_LaunchID :: uuid
  jr_OperatorAddress :: AccountID
  jr_SubmitterAddress :: AccountID
  jr_ConsensusPubKey :: string
  jr_GentxJSON :: bytes
  jr_PeerAddress :: PeerAddress
  jr_RPCEndpoint :: RPCEndpoint
  jr_Memo :: string
  jr_SubmittedAt :: time
  jr_OperatorSignature :: Signature
  jr_Status :: JRStatus
  jr_RejectionReason :: string
  jr_ApprovedByProposal :: "uuid option"

definition joinrequest_New ::
  "uuid \<Rightarrow> uuid \<Rightarrow> AccountID \<Rightarrow> AccountID \<Rightarrow> bytes \<Rightarrow> PeerAddress \<Rightarrow> RPCEndpoint \<Rightarrow> string \<Rightarrow>
   Signature \<Rightarrow> string \<Rightarrow> time \<Rightarrow> JoinRequest" where
  "joinrequest_New jid launchID operatorAddr submitterAddr gentxJSON peerAddr rpcEndpoint memo sig
     consensusPubKeyB64 now =
     \<lparr>jr_ID = jid, jr_LaunchID = launchID, jr_OperatorAddress = operatorAddr,
      jr_SubmitterAddress = submitterAddr, jr_ConsensusPubKey = consensusPubKeyB64,
      jr_GentxJSON = gentxJSON, jr_PeerAddress = peerAddr, jr_RPCEndpoint = rpcEndpoint,
      jr_Memo = memo, jr_SubmittedAt = now, jr_OperatorSignature = sig, jr_Status = JRPending,
      jr_RejectionReason = [], jr_ApprovedByProposal = None\<rparr>"

definition Approve :: "JoinRequest \<Rightarrow> uuid \<Rightarrow> JoinRequest result" where
  "Approve jr proposalID =
     (if jr_Status jr \<noteq> JRPending then Inl [ErrInvalidJoinRequestStatus]
      else Inr (jr\<lparr>jr_Status := JRApproved, jr_ApprovedByProposal := Some proposalID\<rparr>))"

definition Reject :: "JoinRequest \<Rightarrow> string \<Rightarrow> JoinRequest result" where
  "Reject jr reason =
     (if jr_Status jr \<noteq> JRPending then Inl [ErrInvalidJoinRequestStatus]
      else Inr (jr\<lparr>jr_Status := JRRejected, jr_RejectionReason := reason\<rparr>))"

definition Expire :: "JoinRequest \<Rightarrow> JoinRequest result" where
  "Expire jr =
     (if jr_Status jr \<noteq> JRPending then Inl [ErrInvalidJoinRequestStatus]
      else Inr (jr\<lparr>jr_Status := JRExpired\<rparr>))"

definition Revoke :: "JoinRequest \<Rightarrow> string \<Rightarrow> JoinRequest result" where
  "Revoke jr reason =
     (if jr_Status jr \<noteq> JRApproved then Inl [ErrInvalidJoinRequestStatus]
      else Inr (jr\<lparr>jr_Status := JRRejected, jr_RejectionReason := reason, jr_ApprovedByProposal := None\<rparr>))"

lemmas joinrequest_defs [domain_defs] = Approve_def Reject_def Expire_def Revoke_def

section \<open>Reading the gentx\<close>

text \<open>The loop over the characters of the amount, on 64-bit integers.\<close>

fun amount_loop :: "64 word \<Rightarrow> string \<Rightarrow> 64 word" where
  "amount_loop n [] = n"
| "amount_loop n (c # s) =
     (if is_digit c then amount_loop (n * 10 + of_nat (digit_val c)) s else n)"

definition parseAmountString :: "string \<Rightarrow> 64 word" where
  "parseAmountString s = amount_loop 0 s"

definition first_message :: "bytes \<Rightarrow> (string \<times> json) list result option result" where
  \<comment> \<open>\<open>raw["body"].messages[0]\<close>: an error for a gentx that is not an object, None when there is no
     message, and otherwise the fields of the message or the error of decoding it\<close>
  "first_message gentxJSON = and_then (Unmarshal_object gentxJSON) (\<lambda>raw.
     Inr (case map_key ''body'' raw of
       None \<Rightarrow> None
     | Some b \<Rightarrow> (case and_then (json_object b) (array_field ''messages'') of
         Inl _ \<Rightarrow> None
       | Inr [] \<Rightarrow> None
       | Inr (m # _) \<Rightarrow> Some (json_object m))))"

definition extractGentxFields :: "bytes \<Rightarrow> (64 word \<times> string) result" where
  "extractGentxFields gentxJSON = and_then (first_message gentxJSON) (\<lambda>m.
     Inr (case m of
       None \<Rightarrow> (0, [])
     | Some r \<Rightarrow>
       (case and_then r (\<lambda>msg. and_then (struct_field ''value'' msg) (\<lambda>v.
          and_then (string_field ''amount'' v) (\<lambda>a.
            and_then (string_field ''denom'' v) (\<lambda>d. Inr (a, d))))) of
          Inl _ \<Rightarrow> (0, [])
        | Inr (a, d) \<Rightarrow> (parseAmountString a, d))))"

definition extractGentxMoniker :: "bytes \<Rightarrow> string" where
  "extractGentxMoniker gentxJSON = (case first_message gentxJSON of
     Inr (Some r) \<Rightarrow>
       (case and_then r (\<lambda>msg. and_then (struct_field ''description'' msg) (string_field ''moniker'')) of
          Inl _ \<Rightarrow> [] | Inr s \<Rightarrow> s)
   | _ \<Rightarrow> [])"

definition SelfDelegationAmount :: "JoinRequest \<Rightarrow> 64 word" where
  "SelfDelegationAmount jr =
     (case extractGentxFields (jr_GentxJSON jr) of Inl _ \<Rightarrow> 0 | Inr (amount, _) \<Rightarrow> amount)"

definition Moniker :: "JoinRequest \<Rightarrow> string" where
  "Moniker jr = extractGentxMoniker (jr_GentxJSON jr)"

section \<open>The amount is the leading number modulo 2 to the 64\<close>

lemma amount_loop_value:
  "amount_loop (of_nat k) s = of_nat (fold (\<lambda>c n. n * 10 + digit_val c) (takeWhile is_digit s) k)"
proof (induction s arbitrary: k)
  case (Cons c s)
  have "of_nat k * 10 + of_nat (digit_val c) = (of_nat (k * 10 + digit_val c) :: 64 word)" by simp
  then show ?case by (simp only: amount_loop.simps Cons.IH takeWhile.simps fold_simps) simp
qed simp

lemma parseAmountString_value: "parseAmountString s = of_nat (nat_of_digits (takeWhile is_digit s))"
  using amount_loop_value [of 0 s] by (simp add: parseAmountString_def nat_of_digits_def)

lemma parseAmountString_exact:
  assumes "nat_of_digits (takeWhile is_digit s) < 2 ^ 63"
  shows "sint (parseAmountString s) = int (nat_of_digits (takeWhile is_digit s))"
proof -
  let ?n = "nat_of_digits (takeWhile is_digit s)"
  have "sint (word_of_nat ?n :: 64 word) = signed_take_bit 63 (int ?n)"
    by (simp add: signed_of_nat)
  moreover have "signed_take_bit 63 (int ?n) = int ?n"
    using assms by (simp add: signed_take_bit_int_eq_self)
  ultimately show ?thesis unfolding parseAmountString_value by simp
qed

end
