(* ===== verification/Payload.thy ===== *)
theory Payload
  imports LaunchModel
begin

text \<open>
  The proposal payloads of internal/domain/proposal/payload.go: one record per action, decoded from
  JSON with the struct-field rules of encoding/json, the validation at creation time, and the
  extraction helpers that panic on a payload that no longer decodes.
\<close>

datatype ActionType =
    ActionApproveValidator | ActionRejectValidator | ActionRemoveApprovedValidator
  | ActionApproveAllocationFile | ActionPublishChainRecord | ActionCloseApplicationWindow
  | ActionPublishGenesis | ActionUpdateGenesisTime | ActionReplaceCommitteeMember
  | ActionReviseGenesis | ActionExpandCommittee | ActionShrinkCommittee | ActionCancelLaunch
  | ActionUnknown string

fun action_string :: "ActionType \<Rightarrow> string" where
  "action_string ActionApproveValidator = ''APPROVE_VALIDATOR''"
| "action_string ActionRejectValidator = ''REJECT_VALIDATOR''"
| "action_string ActionRemoveApprovedValidator = ''REMOVE_APPROVED_VALIDATOR''"
| "action_string ActionApproveAllocationFile = ''APPROVE_ALLOCATION_FILE''"
| "action_string ActionPublishChainRecord = ''PUBLISH_CHAIN_RECORD''"
| "action_string ActionCloseApplicationWindow = ''CLOSE_APPLICATION_WINDOW''"
| "action_string ActionPublishGenesis = ''PUBLISH_GENESIS''"
| "action_string ActionUpdateGenesisTime = ''UPDATE_GENESIS_TIME''"
| "action_string ActionReplaceCommitteeMember = ''REPLACE_COMMITTEE_MEMBER''"
| "action_string ActionReviseGenesis = ''REVISE_GENESIS''"
| "action_string ActionExpandCommittee = ''EXPAND_COMMITTEE''"
| "action_string ActionShrinkCommittee = ''SHRINK_COMMITTEE''"
| "action_string ActionCancelLaunch = ''CANCEL_LAUNCH''"
| "action_string (ActionUnknown s) = s"

section \<open>Decoding\<close>

definition uuid_field :: "env \<Rightarrow> string \<Rightarrow> (string \<times> json) list \<Rightarrow> uuid result" where
  "uuid_field E name kvs = store (dec_text (uuid_Parse E)) uuid_Nil (field_values name kvs)"

definition time_field :: "env \<Rightarrow> string \<Rightarrow> (string \<times> json) list \<Rightarrow> time result" where
  "time_field E name kvs = store (dec_text (time_ParseRFC3339 E)) 0 (field_values name kvs)"

definition int_ptr_field :: "string \<Rightarrow> (string \<times> json) list \<Rightarrow> int option result" where
  "int_ptr_field name kvs = store dec_int_ptr None (field_values name kvs)"

record ValidatorPayload =
  \<comment> \<open>ApproveValidatorPayload, RejectValidatorPayload and RemoveApprovedValidatorPayload; the first has
     no reason\<close>
  vp_JoinRequestID :: uuid
  vp_OperatorAddress :: string
  vp_Reason :: string

definition decode_approve_validator :: "env \<Rightarrow> bytes \<Rightarrow> ValidatorPayload result" where
  "decode_approve_validator E payload = and_then (Unmarshal_object payload) (\<lambda>kvs.
     and_then (uuid_field E ''join_request_id'' kvs) (\<lambda>j.
     and_then (string_field ''operator_address'' kvs) (\<lambda>a.
     Inr \<lparr>vp_JoinRequestID = j, vp_OperatorAddress = a, vp_Reason = []\<rparr>)))"

definition decode_reject_validator :: "env \<Rightarrow> bytes \<Rightarrow> ValidatorPayload result" where
  "decode_reject_validator E payload = and_then (Unmarshal_object payload) (\<lambda>kvs.
     and_then (uuid_field E ''join_request_id'' kvs) (\<lambda>j.
     and_then (string_field ''operator_address'' kvs) (\<lambda>a.
     and_then (string_field ''reason'' kvs) (\<lambda>r.
     Inr \<lparr>vp_JoinRequestID = j, vp_OperatorAddress = a, vp_Reason = r\<rparr>))))"

definition decode_allocation :: "bytes \<Rightarrow> (string \<times> string) result" where
  "decode_allocation payload = and_then (Unmarshal_object payload) (\<lambda>kvs.
     and_then (string_field ''type'' kvs) (\<lambda>t. and_then (string_field ''hash'' kvs) (\<lambda>h. Inr (t, h))))"

definition decode_publish_chain_record :: "bytes \<Rightarrow> string result" where
  "decode_publish_chain_record payload =
     and_then (Unmarshal_object payload) (string_field ''initial_genesis_sha256'')"

definition decode_publish_genesis :: "bytes \<Rightarrow> string result" where
  "decode_publish_genesis payload = and_then (Unmarshal_object payload) (string_field ''genesis_hash'')"

definition decode_update_genesis_time :: "env \<Rightarrow> bytes \<Rightarrow> (time \<times> time) result" where
  "decode_update_genesis_time E payload = and_then (Unmarshal_object payload) (\<lambda>kvs.
     and_then (time_field E ''new_genesis_time'' kvs) (\<lambda>n.
     and_then (time_field E ''prev_genesis_time'' kvs) (\<lambda>p. Inr (n, p))))"

record ReplaceCommitteeMemberPayload =
  rp_OldAddress :: string
  rp_NewAddress :: string
  rp_NewMoniker :: string

definition decode_replace_member :: "bytes \<Rightarrow> ReplaceCommitteeMemberPayload result" where
  "decode_replace_member payload = and_then (Unmarshal_object payload) (\<lambda>kvs.
     and_then (string_field ''old_address'' kvs) (\<lambda>old.
     and_then (string_field ''new_address'' kvs) (\<lambda>new.
     and_then (string_field ''new_moniker'' kvs) (\<lambda>m.
     Inr \<lparr>rp_OldAddress = old, rp_NewAddress = new, rp_NewMoniker = m\<rparr>))))"

record ExpandCommitteePayload =
  ep_Address :: string
  ep_Moniker :: string
  ep_NewThresholdM :: "int option"

definition decode_expand :: "bytes \<Rightarrow> ExpandCommitteePayload result" where
  "decode_expand payload = and_then (Unmarshal_object payload) (\<lambda>kvs.
     and_then (struct_field ''new_member'' kvs) (\<lambda>m.
     and_then (string_field ''address'' m) (\<lambda>a.
     and_then (string_field ''moniker'' m) (\<lambda>mk.
     and_then (int_ptr_field ''new_threshold_m'' kvs) (\<lambda>t.
     Inr \<lparr>ep_Address = a, ep_Moniker = mk, ep_NewThresholdM = t\<rparr>)))))"

record ShrinkCommitteePayload =
  sp_RemoveAddress :: string
  sp_NewThresholdM :: "int option"

definition decode_shrink :: "bytes \<Rightarrow> ShrinkCommitteePayload result" where
  "decode_shrink payload = and_then (Unmarshal_object payload) (\<lambda>kvs.
     and_then (string_field ''remove_address'' kvs) (\<lambda>a.
     and_then (int_ptr_field ''new_threshold_m'' kvs) (\<lambda>t.
     Inr \<lparr>sp_RemoveAddress = a, sp_NewThresholdM = t\<rparr>)))"

section \<open>Validation\<close>

definition validateApproveValidatorPayload :: "env \<Rightarrow> bytes \<Rightarrow> unit result" where
  "validateApproveValidatorPayload E payload = and_then (decode_approve_validator E payload) (\<lambda>p.
     and_then (require (vp_JoinRequestID p \<noteq> uuid_Nil) []) (\<lambda>_.
     require (vp_OperatorAddress p \<noteq> []) []))"

definition validateRejectValidatorPayload :: "env \<Rightarrow> bytes \<Rightarrow> unit result" where
  "validateRejectValidatorPayload E payload = and_then (decode_reject_validator E payload) (\<lambda>p.
     require (vp_JoinRequestID p \<noteq> uuid_Nil) [])"

definition validatePublishGenesisPayload :: "bytes \<Rightarrow> unit result" where
  "validatePublishGenesisPayload payload = and_then (decode_publish_genesis payload) (\<lambda>h.
     require (h \<noteq> []) [])"

definition validateUpdateGenesisTimePayload :: "env \<Rightarrow> bytes \<Rightarrow> unit result" where
  "validateUpdateGenesisTimePayload E payload = and_then (decode_update_genesis_time E payload) (\<lambda>(n, p).
     require (\<not> time_IsZero n) [])"

definition validateApproveAllocationFilePayload :: "bytes \<Rightarrow> unit result" where
  "validateApproveAllocationFilePayload payload = and_then (decode_allocation payload) (\<lambda>(t, h).
     and_then (require (ValidAllocationType t) []) (\<lambda>_. require (h \<noteq> []) []))"

definition validateReplaceCommitteeMemberPayload :: "bytes \<Rightarrow> unit result" where
  "validateReplaceCommitteeMemberPayload payload = and_then (decode_replace_member payload) (\<lambda>p.
     require (\<not> (rp_OldAddress p = [] \<or> rp_NewAddress p = [])) [])"

definition validatePublishChainRecordPayload :: "bytes \<Rightarrow> unit result" where
  "validatePublishChainRecordPayload payload = and_then (decode_publish_chain_record payload) (\<lambda>h.
     require (h \<noteq> []) [])"

definition validateExpandCommitteePayload :: "bytes \<Rightarrow> unit result" where
  "validateExpandCommitteePayload payload = and_then (decode_expand payload) (\<lambda>p.
     and_then (require (ep_Address p \<noteq> []) []) (\<lambda>_. require (ep_Moniker p \<noteq> []) []))"

definition validateShrinkCommitteePayload :: "bytes \<Rightarrow> unit result" where
  "validateShrinkCommitteePayload payload = and_then (decode_shrink payload) (\<lambda>p.
     require (sp_RemoveAddress p \<noteq> []) [])"

fun ValidatePayload :: "env \<Rightarrow> ActionType \<Rightarrow> bytes \<Rightarrow> unit result" where
  "ValidatePayload E ActionApproveValidator payload = validateApproveValidatorPayload E payload"
| "ValidatePayload E ActionRejectValidator payload = validateRejectValidatorPayload E payload"
| "ValidatePayload E ActionRemoveApprovedValidator payload = validateRejectValidatorPayload E payload"
| "ValidatePayload E ActionPublishGenesis payload = validatePublishGenesisPayload payload"
| "ValidatePayload E ActionUpdateGenesisTime payload = validateUpdateGenesisTimePayload E payload"
| "ValidatePayload E ActionApproveAllocationFile payload = validateApproveAllocationFilePayload payload"
| "ValidatePayload E ActionReplaceCommitteeMember payload = validateReplaceCommitteeMemberPayload payload"
| "ValidatePayload E ActionPublishChainRecord payload = validatePublishChainRecordPayload payload"
| "ValidatePayload E ActionExpandCommittee payload = validateExpandCommitteePayload payload"
| "ValidatePayload E ActionShrinkCommittee payload = validateShrinkCommitteePayload payload"
| "ValidatePayload E ActionCloseApplicationWindow payload = Inr ()"
| "ValidatePayload E ActionReviseGenesis payload = Inr ()"
| "ValidatePayload E ActionCancelLaunch payload = Inr ()"
| "ValidatePayload E (ActionUnknown s) payload = Inl []"

lemmas validate_payload_defs = validateApproveValidatorPayload_def validateRejectValidatorPayload_def
  validatePublishGenesisPayload_def validateUpdateGenesisTimePayload_def
  validateApproveAllocationFilePayload_def validateReplaceCommitteeMemberPayload_def
  validatePublishChainRecordPayload_def validateExpandCommitteePayload_def
  validateShrinkCommitteePayload_def

section \<open>Extraction\<close>

definition must :: "'a result \<Rightarrow> 'a result" where
  \<comment> \<open>\<open>if err != nil { panic(...) }\<close>\<close>
  "must r = (case r of Inl _ \<Rightarrow> Inl [GoPanic] | Inr x \<Rightarrow> Inr x)"

lemma must_Inr [simp]: "must (Inr x) = Inr x"
  by (simp add: must_def)

definition extractValidatorFields :: "env \<Rightarrow> bytes \<Rightarrow> (uuid \<times> string) result" where
  "extractValidatorFields E payload = and_then (must (decode_approve_validator E payload))
     (\<lambda>p. Inr (vp_JoinRequestID p, vp_OperatorAddress p))"

definition extractValidatorRejectFields :: "env \<Rightarrow> bytes \<Rightarrow> (uuid \<times> string) result" where
  "extractValidatorRejectFields E payload = and_then (must (decode_reject_validator E payload))
     (\<lambda>p. Inr (vp_JoinRequestID p, vp_Reason p))"

definition extractInitialGenesisHash :: "bytes \<Rightarrow> string result" where
  "extractInitialGenesisHash payload = must (decode_publish_chain_record payload)"

definition extractGenesisHash :: "bytes \<Rightarrow> string result" where
  "extractGenesisHash payload = must (decode_publish_genesis payload)"

definition extractGenesisTimes :: "env \<Rightarrow> bytes \<Rightarrow> (time \<times> time) result" where
  "extractGenesisTimes E payload = must (decode_update_genesis_time E payload)"

definition extractAllocationFields :: "bytes \<Rightarrow> (string \<times> string) result" where
  "extractAllocationFields payload = must (decode_allocation payload)"

lemmas extract_defs = extractValidatorFields_def extractValidatorRejectFields_def
  extractInitialGenesisHash_def extractGenesisHash_def extractGenesisTimes_def extractAllocationFields_def

end
