(* ===== verification/Events.thy ===== *)
theory Events
  imports LaunchModel
begin

text \<open>
  The domain events of internal/domain/events.go.  An event carries the time set by \<open>WithTime\<close>; the
  zero time stands for an event stamped when it is written.  The abort reason, an error text in the
  source, is the error chain.
\<close>

datatype (plugins only: code) DomainEvent =
    ValidatorApproved uuid uuid string
  | ValidatorRejected uuid uuid string
  | ValidatorRemoved uuid uuid string
  | GenesisPublished uuid string
  | RehearsalGateNotSatisfied uuid string
  | GenesisTimeUpdated uuid time time
  | WindowClosed uuid
  | ChainRecordPublished uuid string
  | LaunchCancelled uuid
  | GenesisRevisionApproved uuid
  | LaunchCreated uuid string LaunchType string
  | WindowOpened uuid
  | InitialGenesisUploaded uuid string
  | FinalGenesisUploaded uuid string
  | AllocationFileUploaded uuid string string
  | AllocationFileApproved uuid string string
  | AllocationFileRejected uuid string string
  | LaunchDetected uuid int string
  | RehearsalResultRecorded uuid uuid string string bool
  | RehearsalAttemptReset uuid uuid string
  | RehearsalRunClaimed uuid uuid string
  | ProposalExpired uuid uuid string
  | LaunchMemberAdded uuid string string string
  | LaunchMemberRemoved uuid string string
  | CommitteeSet uuid "string list" int int string string
  | LaunchPatched uuid string "(string \<times> string \<times> string) list"
  | CommitteeMemberReplaced uuid string string "string list" "string list" int int
  | CommitteeExpanded uuid string "string list" "string list" int int
  | CommitteeShrunk uuid string "string list" "string list" int int
  | CoordinatorAdded string string
  | CoordinatorRemoved string string
  | SessionsRevoked string string
  | ProposalExecuting uuid uuid string
  | ProposalExecutionAborted uuid uuid string goerror
  | JoinRequestSubmitted uuid uuid string string
  | ReadinessConfirmed uuid string

fun GetLaunchID :: "DomainEvent \<Rightarrow> uuid" where
  "GetLaunchID (ValidatorApproved l _ _) = l"
| "GetLaunchID (ValidatorRejected l _ _) = l"
| "GetLaunchID (ValidatorRemoved l _ _) = l"
| "GetLaunchID (GenesisPublished l _) = l"
| "GetLaunchID (RehearsalGateNotSatisfied l _) = l"
| "GetLaunchID (GenesisTimeUpdated l _ _) = l"
| "GetLaunchID (WindowClosed l) = l"
| "GetLaunchID (ChainRecordPublished l _) = l"
| "GetLaunchID (LaunchCancelled l) = l"
| "GetLaunchID (GenesisRevisionApproved l) = l"
| "GetLaunchID (LaunchCreated l _ _ _) = l"
| "GetLaunchID (WindowOpened l) = l"
| "GetLaunchID (InitialGenesisUploaded l _) = l"
| "GetLaunchID (FinalGenesisUploaded l _) = l"
| "GetLaunchID (AllocationFileUploaded l _ _) = l"
| "GetLaunchID (AllocationFileApproved l _ _) = l"
| "GetLaunchID (AllocationFileRejected l _ _) = l"
| "GetLaunchID (LaunchDetected l _ _) = l"
| "GetLaunchID (RehearsalResultRecorded l _ _ _ _) = l"
| "GetLaunchID (RehearsalAttemptReset l _ _) = l"
| "GetLaunchID (RehearsalRunClaimed l _ _) = l"
| "GetLaunchID (ProposalExpired l _ _) = l"
| "GetLaunchID (LaunchMemberAdded l _ _ _) = l"
| "GetLaunchID (LaunchMemberRemoved l _ _) = l"
| "GetLaunchID (CommitteeSet l _ _ _ _ _) = l"
| "GetLaunchID (LaunchPatched l _ _) = l"
| "GetLaunchID (CommitteeMemberReplaced l _ _ _ _ _ _) = l"
| "GetLaunchID (CommitteeExpanded l _ _ _ _ _) = l"
| "GetLaunchID (CommitteeShrunk l _ _ _ _ _) = l"
| "GetLaunchID (CoordinatorAdded _ _) = uuid_Nil"
| "GetLaunchID (CoordinatorRemoved _ _) = uuid_Nil"
| "GetLaunchID (SessionsRevoked _ _) = uuid_Nil"
| "GetLaunchID (ProposalExecuting l _ _) = l"
| "GetLaunchID (ProposalExecutionAborted l _ _ _) = l"
| "GetLaunchID (JoinRequestSubmitted l _ _ _) = l"
| "GetLaunchID (ReadinessConfirmed l _) = l"

record event =
  occurredAt :: time
  body :: DomainEvent

definition bare :: "DomainEvent \<Rightarrow> event" where
  "bare e = \<lparr>occurredAt = 0, body = e\<rparr>"

definition WithTime :: "DomainEvent \<Rightarrow> time \<Rightarrow> event" where
  "WithTime e t = \<lparr>occurredAt = t, body = e\<rparr>"

end
