(* ===== verification/Proposal.thy ===== *)
theory Proposal
  imports Payload Events
begin

text \<open>
  The Proposal aggregate (internal/domain/proposal/proposal.go): it collects the committee's decisions
  and is executed by the decision that completes the quorum.
\<close>

section \<open>Data\<close>

datatype PStatus = PStatusPendingSignatures | PStatusExecuted | PStatusVetoed | PStatusExpired

datatype Decision = DecisionSign | DecisionVeto | DecisionOther string

record SignatureEntry =
  se_MemberAddress :: AccountID
  se_Decision :: Decision
  se_Timestamp :: time
  se_Signature :: Signature

record Proposal =
  p_ID :: uuid
  p_LaunchID :: uuid
  p_ActionType :: ActionType
  p_Payload :: bytes
  p_ProposedBy :: AccountID
  p_ProposedAt :: time
  p_TTLExpires :: time
  p_Status :: PStatus
  p_ExecutedAt :: "time option"
  p_Signatures :: "SignatureEntry list"
  p_events :: "event list"

section \<open>Operations\<close>

definition proposal_New ::
  "env \<Rightarrow> uuid \<Rightarrow> uuid \<Rightarrow> ActionType \<Rightarrow> bytes \<Rightarrow> AccountID \<Rightarrow> Signature \<Rightarrow> duration \<Rightarrow> time \<Rightarrow>
   Proposal result" where
  \<comment> \<open>the empty byte string stands for a nil payload: no JSON value is empty\<close>
  "proposal_New E pid launchID actionType payload proposedBy proposerSig ttl now =
     (if payload = [] then Inl [ErrProposalPayloadRequired]
      else and_then (ValidatePayload E actionType payload) (\<lambda>_.
        Inr \<lparr>p_ID = pid, p_LaunchID = launchID, p_ActionType = actionType, p_Payload = payload,
             p_ProposedBy = proposedBy, p_ProposedAt = now, p_TTLExpires = now + ttl,
             p_Status = PStatusPendingSignatures, p_ExecutedAt = None,
             p_Signatures = [\<lparr>se_MemberAddress = proposedBy, se_Decision = DecisionSign,
                              se_Timestamp = now, se_Signature = proposerSig\<rparr>],
             p_events = []\<rparr>))"

definition SignCount :: "Proposal \<Rightarrow> int" where
  "SignCount p = int (length (filter (\<lambda>s. se_Decision s = DecisionSign) (p_Signatures p)))"

definition execution_event :: "env \<Rightarrow> Proposal \<Rightarrow> DomainEvent option result" where
  \<comment> \<open>the event of the executed action; the committee actions have none here\<close>
  "execution_event E p = (let l = p_LaunchID p; pl = p_Payload p in
     case p_ActionType p of
       ActionApproveValidator \<Rightarrow>
         and_then (extractValidatorFields E pl) (\<lambda>(j, a). Inr (Some (ValidatorApproved l j a)))
     | ActionRejectValidator \<Rightarrow>
         and_then (extractValidatorRejectFields E pl) (\<lambda>(j, r). Inr (Some (ValidatorRejected l j r)))
     | ActionRemoveApprovedValidator \<Rightarrow>
         and_then (extractValidatorRejectFields E pl) (\<lambda>(j, r). Inr (Some (ValidatorRemoved l j r)))
     | ActionPublishChainRecord \<Rightarrow>
         and_then (extractInitialGenesisHash pl) (\<lambda>h. Inr (Some (ChainRecordPublished l h)))
     | ActionCloseApplicationWindow \<Rightarrow> Inr (Some (WindowClosed l))
     | ActionPublishGenesis \<Rightarrow>
         and_then (extractGenesisHash pl) (\<lambda>h. Inr (Some (GenesisPublished l h)))
     | ActionUpdateGenesisTime \<Rightarrow>
         and_then (extractGenesisTimes E pl) (\<lambda>(n, o'). Inr (Some (GenesisTimeUpdated l n o')))
     | ActionReviseGenesis \<Rightarrow> Inr (Some (GenesisRevisionApproved l))
     | ActionApproveAllocationFile \<Rightarrow>
         and_then (extractAllocationFields pl) (\<lambda>(t, h). Inr (Some (AllocationFileApproved l t h)))
     | ActionCancelLaunch \<Rightarrow> Inr (Some (LaunchCancelled l))
     | _ \<Rightarrow> Inr None)"

definition emitExecutionEvents :: "env \<Rightarrow> Proposal \<Rightarrow> time \<Rightarrow> Proposal result" where
  "emitExecutionEvents E p now = and_then (execution_event E p) (\<lambda>e.
     Inr (case e of None \<Rightarrow> p | Some ev \<Rightarrow> p\<lparr>p_events := p_events p @ [WithTime ev now]\<rparr>))"

definition execute_at_quorum :: "env \<Rightarrow> Proposal \<Rightarrow> int \<Rightarrow> time \<Rightarrow> Proposal result" where
  \<comment> \<open>the threshold check shared by Sign and CheckQuorum\<close>
  "execute_at_quorum E p thresholdM now =
     (if SignCount p \<ge> thresholdM
      then emitExecutionEvents E (p\<lparr>p_Status := PStatusExecuted, p_ExecutedAt := Some now\<rparr>) now
      else Inr p)"

definition Sign ::
  "env \<Rightarrow> Proposal \<Rightarrow> AccountID \<Rightarrow> Decision \<Rightarrow> Signature \<Rightarrow> int \<Rightarrow> time \<Rightarrow> Proposal result" where
  "Sign E p memberAddr decision sig thresholdM now =
     (if p_Status p \<noteq> PStatusPendingSignatures then Inl [ErrProposalNotPending]
      else if p_TTLExpires p < now then Inl [ErrProposalTTLExpired]
      else if list_ex (\<lambda>s. AccountID_Equal (se_MemberAddress s) memberAddr) (p_Signatures p)
        then Inl [ErrMemberAlreadySigned]
      else let p' = p\<lparr>p_Signatures := p_Signatures p @
                  [\<lparr>se_MemberAddress = memberAddr, se_Decision = decision, se_Timestamp = now,
                    se_Signature = sig\<rparr>]\<rparr> in
        if decision = DecisionVeto then Inr (p'\<lparr>p_Status := PStatusVetoed\<rparr>)
        else execute_at_quorum E p' thresholdM now)"

definition CheckQuorum :: "env \<Rightarrow> Proposal \<Rightarrow> int \<Rightarrow> time \<Rightarrow> Proposal result" where
  "CheckQuorum E p thresholdM now =
     (if p_Status p \<noteq> PStatusPendingSignatures then Inr p else execute_at_quorum E p thresholdM now)"

definition ExpireIfStale :: "Proposal \<Rightarrow> time \<Rightarrow> Proposal \<times> bool" where
  "ExpireIfStale p now =
     (if p_Status p = PStatusPendingSignatures \<and> p_TTLExpires p < now
      then (p\<lparr>p_Status := PStatusExpired\<rparr>, True) else (p, False))"

definition PopEvents :: "Proposal \<Rightarrow> event list \<times> Proposal" where
  "PopEvents p = (p_events p, p\<lparr>p_events := []\<rparr>)"

definition RecordEvent :: "Proposal \<Rightarrow> event \<Rightarrow> Proposal" where
  "RecordEvent p ev = p\<lparr>p_events := p_events p @ [ev]\<rparr>"

section \<open>Well-formed proposals\<close>

definition signers :: "Proposal \<Rightarrow> string list" where
  "signers p = map (acct \<circ> se_MemberAddress) (p_Signatures p)"

definition approvers :: "Proposal \<Rightarrow> string list" where
  \<comment> \<open>the accounts whose decision is SIGN\<close>
  "approvers p = map (acct \<circ> se_MemberAddress) (filter (\<lambda>s. se_Decision s = DecisionSign) (p_Signatures p))"

definition proposal_ok :: "env \<Rightarrow> Proposal \<Rightarrow> bool" where
  "proposal_ok E p \<longleftrightarrow>
     distinct (signers p) \<and> ValidatePayload E (p_ActionType p) (p_Payload p) = Inr () \<and>
     ((\<exists>s \<in> set (p_Signatures p). se_Decision s = DecisionVeto) \<longleftrightarrow> p_Status p = PStatusVetoed) \<and>
     (p_Status p = PStatusExecuted \<longleftrightarrow> p_ExecutedAt p \<noteq> None)"

lemma SignCount_approvers: "SignCount p = int (length (approvers p))"
  by (simp add: SignCount_def approvers_def)

lemma set_approvers: "set (approvers p) \<subseteq> set (signers p)"
  by (auto simp: approvers_def signers_def)

lemma distinct_approvers: "distinct (signers p) \<Longrightarrow> distinct (approvers p)"
  unfolding approvers_def signers_def by (rule distinct_map_filter)

lemma execution_event_valid:
  "ValidatePayload E (p_ActionType p) (p_Payload p) = Inr u \<Longrightarrow> \<exists>e. execution_event E p = Inr e"
  by (cases "p_ActionType p")
    (auto simp: execution_event_def validate_payload_defs extract_defs result_simps Let_def
      split: prod.splits)

lemma emitExecutionEvents_cases:
  assumes "emitExecutionEvents E p now = Inr p'"
  shows "\<exists>es. p' = p\<lparr>p_events := p_events p @ es\<rparr> \<and> length es \<le> 1"
  using assms by (auto simp: emitExecutionEvents_def result_simps split: option.splits intro: exI [of _ "[]"])

lemma execute_at_quorum_total:
  "ValidatePayload E (p_ActionType p) (p_Payload p) = Inr u \<Longrightarrow> \<exists>p'. execute_at_quorum E p m now = Inr p'"
  using execution_event_valid [of E "p\<lparr>p_Status := PStatusExecuted, p_ExecutedAt := Some now\<rparr>" u]
  by (auto simp: execute_at_quorum_def emitExecutionEvents_def)

lemma execute_at_quorum_Inr:
  assumes "execute_at_quorum E p m now = Inr p'"
  shows "p_Signatures p' = p_Signatures p \<and> p_LaunchID p' = p_LaunchID p \<and> p_ID p' = p_ID p \<and>
    p_ActionType p' = p_ActionType p \<and> p_Payload p' = p_Payload p \<and> p_TTLExpires p' = p_TTLExpires p \<and>
    (if m \<le> SignCount p then p_Status p' = PStatusExecuted \<and> p_ExecutedAt p' = Some now else p' = p)"
  using assms emitExecutionEvents_cases [of E "p\<lparr>p_Status := PStatusExecuted, p_ExecutedAt := Some now\<rparr>" now p']
  by (auto simp: execute_at_quorum_def split: if_splits)

lemma signers_append: "signers (p\<lparr>p_Signatures := p_Signatures p @ [s]\<rparr>) = signers p @ [acct (se_MemberAddress s)]"
  by (simp add: signers_def)

lemma Sign_ok:
  assumes "Sign E p a d sig m now = Inr p'" "proposal_ok E p"
  shows "proposal_ok E p'"
proof -
  have pend: "p_Status p = PStatusPendingSignatures" and fresh: "acct a \<notin> set (signers p)"
    using assms(1) by (auto simp: Sign_def list_ex_iff signers_def account_defs split: if_splits)
  from assms(2) pend have noveto: "\<forall>s \<in> set (p_Signatures p). se_Decision s \<noteq> DecisionVeto"
    and notyet: "p_ExecutedAt p = None" by (auto simp: proposal_ok_def)
  let ?s = "\<lparr>se_MemberAddress = a, se_Decision = d, se_Timestamp = now, se_Signature = sig\<rparr>"
  let ?p = "p\<lparr>p_Signatures := p_Signatures p @ [?s]\<rparr>"
  have d: "distinct (signers ?p)" using fresh assms(2) by (simp add: signers_def proposal_ok_def)
  show ?thesis
  proof (cases "d = DecisionVeto")
    case True
    with assms(1) have "p' = ?p\<lparr>p_Status := PStatusVetoed\<rparr>" by (auto simp: Sign_def Let_def split: if_splits)
    then show ?thesis using d assms(2) notyet True by (auto simp: proposal_ok_def signers_def)
  next
    case False
    with assms(1) have "execute_at_quorum E ?p m now = Inr p'" by (auto simp: Sign_def Let_def split: if_splits)
    from execute_at_quorum_Inr [OF this] show ?thesis
      using d assms(2) notyet noveto pend False by (auto simp: proposal_ok_def signers_def split: if_splits)
  qed
qed

lemma proposal_New_ok:
  "proposal_New E pid lid act pl by' sig ttl now = Inr p \<Longrightarrow>
     proposal_ok E p \<and> p_Status p = PStatusPendingSignatures"
  by (auto simp: proposal_New_def result_simps proposal_ok_def signers_def split: if_splits)

lemma CheckQuorum_ok:
  assumes "CheckQuorum E p m now = Inr p'" "proposal_ok E p"
  shows "proposal_ok E p'"
proof (cases "p_Status p = PStatusPendingSignatures")
  case True
  with assms(1) have "execute_at_quorum E p m now = Inr p'" by (simp add: CheckQuorum_def)
  from execute_at_quorum_Inr [OF this] show ?thesis
    using assms(2) True by (auto simp: proposal_ok_def signers_def split: if_splits)
qed (use assms in \<open>simp add: CheckQuorum_def\<close>)

lemma ExpireIfStale_ok: "proposal_ok E p \<Longrightarrow> proposal_ok E (fst (ExpireIfStale p now))"
  by (auto simp: ExpireIfStale_def proposal_ok_def signers_def)

end
