(* ===== verification/Rehearsal.thy ===== *)
theory Rehearsal
  imports LaunchModel
begin

text \<open>
  Rehearsal attempts and results (internal/domain/launch/rehearsal.go) and readiness confirmations
  (readiness.go): the single-writer run lease, the gate policy, and the validity flag.
\<close>

section \<open>The run lease\<close>

datatype AttemptStatus = AttemptOpen | AttemptRunning | AttemptDone

record RehearsalAttempt =
  ra_ID :: uuid
  ra_LaunchID :: uuid
  ra_InputSetHash :: string
  ra_IssuedAt :: time
  ra_Status :: AttemptStatus
  ra_ClaimedAt :: "time option"
  ra_LeaseExpiresAt :: "time option"
  ra_RunnerID :: string

definition IsLeased :: "RehearsalAttempt \<Rightarrow> time \<Rightarrow> bool" where
  "IsLeased a now \<longleftrightarrow> ra_Status a = AttemptRunning \<and>
     (case ra_LeaseExpiresAt a of None \<Rightarrow> False | Some e \<Rightarrow> now < e)"

definition Claim :: "RehearsalAttempt \<Rightarrow> string \<Rightarrow> time \<Rightarrow> time \<Rightarrow> RehearsalAttempt result" where
  "Claim a runnerID now leaseExpiry =
     (if IsLeased a now then
        if ra_RunnerID a \<noteq> runnerID then Inl [ErrAttemptLeased] else Inr a
      else Inr (a\<lparr>ra_Status := AttemptRunning, ra_ClaimedAt := Some now,
                 ra_LeaseExpiresAt := Some leaseExpiry, ra_RunnerID := runnerID\<rparr>))"

definition Release :: "RehearsalAttempt \<Rightarrow> RehearsalAttempt" where
  "Release a = a\<lparr>ra_Status := AttemptDone, ra_LeaseExpiresAt := None\<rparr>"

definition Reset :: "RehearsalAttempt \<Rightarrow> RehearsalAttempt" where
  "Reset a = a\<lparr>ra_Status := AttemptOpen, ra_ClaimedAt := None, ra_LeaseExpiresAt := None, ra_RunnerID := []\<rparr>"

section \<open>Results and the gate\<close>

datatype RehearsalOutcome = OutcomePass | OutcomeFail | OutcomeError | OutcomeSkipped | OutcomeOther string

fun IsValidRehearsalOutcome :: "RehearsalOutcome \<Rightarrow> bool" where
  "IsValidRehearsalOutcome (OutcomeOther s) = False"
| "IsValidRehearsalOutcome _ = True"

definition parse_outcome :: "string \<Rightarrow> RehearsalOutcome" where
  \<comment> \<open>the conversion \<open>RehearsalOutcome(s)\<close>\<close>
  "parse_outcome s = (if s = ''PASS'' then OutcomePass else if s = ''FAIL'' then OutcomeFail
     else if s = ''ERROR'' then OutcomeError else if s = ''SKIPPED'' then OutcomeSkipped
     else OutcomeOther s)"

record RehearsalResultStep =
  rs_Name :: string
  rs_Status :: string
  rs_Detail :: string

record RehearsalResult =
  rr_ID :: uuid
  rr_AttemptID :: uuid
  rr_LaunchID :: uuid
  rr_InputSetHash :: string
  rr_Outcome :: RehearsalOutcome
  rr_FailedStep :: string
  rr_Summary :: string
  rr_Steps :: "RehearsalResultStep list"
  rr_EngineVersion :: string
  rr_BinaryName :: string
  rr_BinaryVersion :: string
  rr_BinarySHA256 :: string
  rr_Validators :: int
  rr_BlocksAdvanced :: int
  rr_StartedAt :: time
  rr_FinishedAt :: time
  rr_ServicePubKey :: string
  rr_Signature :: string
  rr_Stale :: bool
  rr_RecordedAt :: time

datatype RehearsalGateMode = RehearsalGateOff | RehearsalGateAdvisory | RehearsalGateRequired

definition ParseRehearsalGateMode :: "string \<Rightarrow> RehearsalGateMode result" where
  "ParseRehearsalGateMode s =
     (if s = ''off'' \<or> s = [] then Inr RehearsalGateOff
      else if s = ''advisory'' then Inr RehearsalGateAdvisory
      else if s = ''required'' then Inr RehearsalGateRequired
      else Inl [])"

datatype GateReason = NoRehearsal | OutcomeIs RehearsalOutcome | StaleRehearsal
  \<comment> \<open>the reasons of a negative evaluation, a text in the source\<close>

definition EvaluateRehearsalReady :: "RehearsalResult option \<Rightarrow> string \<Rightarrow> GateReason option" where
  \<comment> \<open>None is \<open>ok\<close>\<close>
  "EvaluateRehearsalReady latest currentHash = (case latest of
     None \<Rightarrow> Some NoRehearsal
   | Some r \<Rightarrow>
     if rr_Outcome r \<noteq> OutcomePass then Some (OutcomeIs (rr_Outcome r))
     else if rr_InputSetHash r \<noteq> currentHash then Some StaleRehearsal
     else None)"

section \<open>Readiness confirmations\<close>

record ReadinessConfirmation =
  rc_ID :: uuid
  rc_LaunchID :: uuid
  rc_JoinRequestID :: uuid
  rc_OperatorAddress :: AccountID
  rc_GenesisHashConfirmed :: string
  rc_BinaryHashConfirmed :: string
  rc_ConfirmedAt :: time
  rc_OperatorSignature :: Signature
  rc_InvalidatedAt :: "time option"

definition IsValid :: "ReadinessConfirmation \<Rightarrow> bool" where
  "IsValid r \<longleftrightarrow> rc_InvalidatedAt r = None"

definition Invalidate :: "ReadinessConfirmation \<Rightarrow> time \<Rightarrow> ReadinessConfirmation" where
  "Invalidate r t = r\<lparr>rc_InvalidatedAt := Some t\<rparr>"

section \<open>The lease is held by one runner and always runs out\<close>

text \<open>Runners take turns: an event is a claim with its time, a release or a reset.\<close>

datatype lease_event = ClaimEv string time | ReleaseEv | ResetEv

fun lease_run :: "duration \<Rightarrow> RehearsalAttempt \<Rightarrow> lease_event list \<Rightarrow> RehearsalAttempt" where
  "lease_run ttl a [] = a"
| "lease_run ttl a (ClaimEv r now # evs) =
     lease_run ttl (case Claim a r now (now + ttl) of Inl _ \<Rightarrow> a | Inr a' \<Rightarrow> a') evs"
| "lease_run ttl a (ReleaseEv # evs) = lease_run ttl (Release a) evs"
| "lease_run ttl a (ResetEv # evs) = lease_run ttl (Reset a) evs"

definition lease_ok :: "duration \<Rightarrow> RehearsalAttempt \<Rightarrow> bool" where
  "lease_ok ttl a \<longleftrightarrow> ra_Status a = AttemptRunning \<longrightarrow>
     (\<exists>c. ra_ClaimedAt a = Some c \<and> ra_LeaseExpiresAt a = Some (c + ttl))"

lemma Claim_ok: "Claim a r now (now + ttl) = Inr a' \<Longrightarrow> lease_ok ttl a \<Longrightarrow> lease_ok ttl a'"
  by (auto simp: Claim_def lease_ok_def split: if_splits)

lemma lease_run_ok: "lease_ok ttl a \<Longrightarrow> lease_ok ttl (lease_run ttl a evs)"
proof (induction ttl a evs rule: lease_run.induct)
  case (2 ttl a r now evs)
  have "lease_ok ttl (case Claim a r now (now + ttl) of Inl _ \<Rightarrow> a | Inr a' \<Rightarrow> a')"
    using "2.prems" Claim_ok [of a r now ttl] by (auto split: sum.splits)
  with "2.IH" show ?case by simp
qed (auto simp: lease_ok_def Release_def Reset_def)

lemma Claim_same_runner_keeps_deadline:
  "IsLeased a now \<Longrightarrow> Claim a r now e = Inr a' \<Longrightarrow> a' = a \<and> ra_RunnerID a = r"
  by (auto simp: Claim_def split: if_splits)

text \<open>
  Whatever the other runners and the holder do, a live lease keeps its holder and its deadline until
  a release or a reset, and at its deadline it is free.
\<close>

lemma lease_run_claims_keep_lease:
  assumes "ra_Status a = AttemptRunning" "ra_LeaseExpiresAt a = Some e"
    and "\<forall>ev \<in> set evs. \<exists>r t. ev = ClaimEv r t \<and> t < e"
  shows "lease_run ttl a evs = a"
  using assms
proof (induction evs)
  case (Cons ev evs)
  then obtain r t where ev: "ev = ClaimEv r t" "t < e" by auto
  with Cons.prems have "IsLeased a t" by (simp add: IsLeased_def)
  then have "(case Claim a r t (t + ttl) of Inl _ \<Rightarrow> a | Inr a' \<Rightarrow> a') = a" by (simp add: Claim_def)
  with ev Cons show ?case by simp
qed simp

end
