(* ===== verification/Store.thy ===== *)
theory Store
  imports JoinRequest Proposal Rehearsal VotingPower
begin

text \<open>
  The world the services act on, and the repositories (internal/infrastructure/storage/sqlite).

  The database is a record of tables, each a list of rows in rowid order.  Columns keep their typed
  values; what the text columns add, the order of formatted times and the rendering of addresses under
  the launch's prefix, is modelled where a query depends on it; the tables of text columns are related
  to these in SqlRefinement.  The audit trail, the published events
  and the stored files lie outside the database, so a rollback does not touch them.

  Every statement sent to the database and every audit write may fail: \<open>w_faults\<close> is the schedule of
  failures, one entry per attempt, and the theorems hold for every schedule.
\<close>

section \<open>The world\<close>

record auth_tables =
  at_challenges :: "(string \<times> string \<times> time) list"     \<comment> \<open>account, challenge and expiry\<close>
  at_rate :: "(string \<times> time) list"                     \<comment> \<open>account and time of a challenge request\<close>
  at_revocations :: "(string \<times> time) list"              \<comment> \<open>account and the fence, to the second\<close>
  at_coordinators :: "(string \<times> string \<times> time) list"   \<comment> \<open>account, who added it and when\<close>

definition auth_keys :: "auth_tables \<Rightarrow> bool" where
  "auth_keys a \<longleftrightarrow> distinct (map fst (at_challenges a)) \<and> distinct (map fst (at_revocations a)) \<and>
     distinct (map fst (at_coordinators a))"

record db =
  db_launches :: "Launch list"                     \<comment> \<open>the launches, allowlist and allocation-file rows\<close>
  db_committees :: "(uuid \<times> Committee) list"        \<comment> \<open>launch id and committee, with its member rows\<close>
  db_joinrequests :: "JoinRequest list"
  db_proposals :: "Proposal list"
  db_readiness :: "ReadinessConfirmation list"
  db_attempts :: "RehearsalAttempt list"
  db_results :: "RehearsalResult list"
  db_nonces :: "((string \<times> string) \<times> time) list"   \<comment> \<open>(operator_address, nonce) and expiry\<close>
  db_auth :: auth_tables

datatype stored_file = FileBytes bytes | FileRef string string   \<comment> \<open>raw bytes, or the url and sha256 of a sidecar\<close>

record world =
  w_db :: db
  w_audit :: "(string \<times> event) list"     \<comment> \<open>scope and event, oldest first\<close>
  w_published :: "event list"
  w_exited :: bool                        \<comment> \<open>\<open>os.Exit\<close> was called\<close>
  w_faults :: "bool list"
  w_files :: "(string \<times> string, stored_file) fmap"   \<comment> \<open>launch directory and file name\<close>

type_synonym 'a io = "world \<Rightarrow> 'a result \<times> world"

definition ret :: "'a \<Rightarrow> 'a io" where
  "ret x w = (Inr x, w)"

definition fail :: "goerror \<Rightarrow> 'a io" where
  "fail e w = (Inl e, w)"

definition lift :: "'a result \<Rightarrow> 'a io" where
  "lift r w = (r, w)"

definition bnd :: "'a io \<Rightarrow> ('a \<Rightarrow> 'b io) \<Rightarrow> 'b io" where
  \<comment> \<open>\<open>x, err := m(); if err != nil { return err }\<close>\<close>
  "bnd m f w = (case m w of (Inl e, w') \<Rightarrow> (Inl e, w') | (Inr x, w') \<Rightarrow> f x w')"

definition wrapping :: "goerror \<Rightarrow> 'a io \<Rightarrow> 'a io" where
  \<comment> \<open>the same, adding sentinels to the error\<close>
  "wrapping s m w = (case m w of (r, w') \<Rightarrow> (wrap_err s r, w'))"

definition ensure :: "bool \<Rightarrow> goerror \<Rightarrow> unit io" where
  "ensure b e = lift (require b e)"

definition reads :: "(db \<Rightarrow> 'a result) \<Rightarrow> 'a io" where
  \<comment> \<open>a query: it may fail, and changes nothing\<close>
  "reads q w = (case w_faults w of
     True # fs \<Rightarrow> (Inl [], w\<lparr>w_faults := fs\<rparr>)
   | False # fs \<Rightarrow> (q (w_db w), w\<lparr>w_faults := fs\<rparr>)
   | [] \<Rightarrow> (q (w_db w), w))"

definition execs :: "(db \<Rightarrow> ('a \<times> db) result) \<Rightarrow> 'a io" where
  \<comment> \<open>a statement: it may fail, for a fault or for a constraint, and then changes nothing\<close>
  "execs f w = (case w_faults w of
     True # fs \<Rightarrow> (Inl [], w\<lparr>w_faults := fs\<rparr>)
   | _ \<Rightarrow> (let w' = w\<lparr>w_faults := tl (w_faults w)\<rparr> in
       case f (w_db w) of Inl e \<Rightarrow> (Inl e, w') | Inr (x, d) \<Rightarrow> (Inr x, w'\<lparr>w_db := d\<rparr>)))"

definition stmt :: "(db \<Rightarrow> db) \<Rightarrow> unit io" where
  "stmt f = execs (\<lambda>d. Inr ((), f d))"

definition tx_begin :: "unit io" where
  \<comment> \<open>a \<open>BeginTx\<close> or \<open>Commit\<close>: it may fail\<close>
  "tx_begin = reads (\<lambda>d. Inr ())"

definition with_rollback :: "db \<Rightarrow> 'a io \<Rightarrow> 'a io" where
  "with_rollback d m w = (case m w of
     (Inl e, w') \<Rightarrow> (Inl e, w'\<lparr>w_db := d\<rparr>)
   | (Inr x, w') \<Rightarrow> (Inr x, w'))"

definition InTransaction :: "'a io \<Rightarrow> 'a io" where
  \<comment> \<open>Begin, run, commit, and roll the database back unless the commit succeeds\<close>
  "InTransaction m w =
     bnd tx_begin (\<lambda>_. with_rollback (w_db w) (bnd m (\<lambda>x. bnd tx_begin (\<lambda>_. ret x)))) w"

fun each :: "('a \<Rightarrow> unit io) \<Rightarrow> 'a list \<Rightarrow> unit io" where
  "each f [] = ret ()"
| "each f (x # xs) = bnd (f x) (\<lambda>_. each f xs)"

lemmas io_defs = ret_def fail_def lift_def bnd_def wrapping_def ensure_def

lemma bnd_Inr:
  "bnd m f w = (Inr y, w') \<longleftrightarrow> (\<exists>x w1. m w = (Inr x, w1) \<and> f x w1 = (Inr y, w'))"
  by (auto simp: bnd_def split: prod.splits sum.splits)

lemma bnd_Inl:
  "bnd m f w = (Inl e, w') \<longleftrightarrow> m w = (Inl e, w') \<or> (\<exists>x w1. m w = (Inr x, w1) \<and> f x w1 = (Inl e, w'))"
  by (auto simp: bnd_def split: prod.splits sum.splits)

lemma wrapping_Inr [simp]: "wrapping s m w = (Inr x, w') \<longleftrightarrow> m w = (Inr x, w')"
  by (auto simp: wrapping_def split: prod.splits)

lemma wrapping_Inl: "wrapping s m w = (Inl e, w') \<longleftrightarrow> (\<exists>e'. m w = (Inl e', w') \<and> e = e' @ s)"
  by (auto simp: wrapping_def wrap_err_def split: prod.splits sum.splits)

lemma ret_simps [simp]: "ret x w = (Inr y, w') \<longleftrightarrow> y = x \<and> w' = w" "ret x w \<noteq> (Inl e, w')"
  by (auto simp: ret_def)

lemma fail_simps [simp]: "fail e w = (Inl e', w') \<longleftrightarrow> e' = e \<and> w' = w" "fail e w \<noteq> (Inr x, w')"
  by (auto simp: fail_def)

lemma lift_simps [simp]: "lift r w = (r', w') \<longleftrightarrow> r = r' \<and> w' = w"
  by (auto simp: lift_def)

lemma ensure_simps [simp]:
  "ensure b e w = (Inr u, w') \<longleftrightarrow> b \<and> w' = w" "ensure b e w = (Inl e', w') \<longleftrightarrow> \<not> b \<and> e' = e \<and> w' = w"
  by (auto simp: ensure_def)

section \<open>What an operation leaves alone\<close>

text \<open>
  A world differs from another only in its fault schedule, or only in its database and fault schedule.
\<close>

definition same_but_faults :: "world \<Rightarrow> world \<Rightarrow> bool" where
  "same_but_faults w w' \<longleftrightarrow> (\<exists>fs. w' = w\<lparr>w_faults := fs\<rparr>)"

definition same_but_db :: "world \<Rightarrow> world \<Rightarrow> bool" where
  "same_but_db w w' \<longleftrightarrow> (\<exists>fs d. w' = w\<lparr>w_faults := fs, w_db := d\<rparr>)"

definition read_only :: "'a io \<Rightarrow> bool" where
  "read_only m \<longleftrightarrow> (\<forall>w r w'. m w = (r, w') \<longrightarrow> same_but_faults w w')"

definition db_only :: "'a io \<Rightarrow> bool" where
  "db_only m \<longleftrightarrow> (\<forall>w r w'. m w = (r, w') \<longrightarrow> same_but_db w w')"

lemma same_but_faults_refl [simp]: "same_but_faults w w"
  unfolding same_but_faults_def by (rule exI [of _ "w_faults w"]) simp

lemma same_but_db_refl [simp]: "same_but_db w w"
  unfolding same_but_db_def by (rule exI [of _ "w_faults w"], rule exI [of _ "w_db w"]) simp

lemma same_but_faults_trans: "same_but_faults w w1 \<Longrightarrow> same_but_faults w1 w2 \<Longrightarrow> same_but_faults w w2"
  by (auto simp: same_but_faults_def)

lemma same_but_db_trans: "same_but_db w w1 \<Longrightarrow> same_but_db w1 w2 \<Longrightarrow> same_but_db w w2"
proof -
  assume "same_but_db w w1" "same_but_db w1 w2"
  then obtain fs d fs' d' where "w1 = w\<lparr>w_faults := fs, w_db := d\<rparr>" "w2 = w1\<lparr>w_faults := fs', w_db := d'\<rparr>"
    by (auto simp: same_but_db_def)
  then have "w2 = w\<lparr>w_faults := fs', w_db := d'\<rparr>" by simp
  then show ?thesis by (auto simp: same_but_db_def)
qed

lemma same_but_faults_simps:
  assumes "same_but_faults w w'"
  shows "w_db w' = w_db w" "w_audit w' = w_audit w" "w_published w' = w_published w" "w_exited w' = w_exited w"
    "w_files w' = w_files w"
  using assms by (auto simp: same_but_faults_def)

lemma same_but_db_simps:
  assumes "same_but_db w w'"
  shows "w_audit w' = w_audit w" "w_published w' = w_published w" "w_exited w' = w_exited w"
    "w_files w' = w_files w"
  using assms by (auto simp: same_but_db_def)

lemma read_only_db_only: "read_only m \<Longrightarrow> db_only m"
  unfolding read_only_def db_only_def same_but_faults_def same_but_db_def
  by (metis world.surjective world.update_convs(1) world.update_convs(5))

named_theorems frame_intros \<open>which operations are read-only and which touch the database only\<close>

lemma read_only_basic [frame_intros]:
  "read_only (ret x)" "read_only (fail e)" "read_only (lift r)" "read_only (ensure b e)"
  by (auto simp: read_only_def io_defs)

lemma read_only_reads [frame_intros]: "read_only (reads q)"
  by (auto simp: read_only_def reads_def same_but_faults_def split: list.splits bool.splits
      intro: exI [of _ "[]"])

lemma read_only_bnd [frame_intros]: "read_only m \<Longrightarrow> (\<And>x. read_only (f x)) \<Longrightarrow> read_only (bnd m f)"
  unfolding read_only_def bnd_def
  by (fastforce split: prod.splits sum.splits intro: same_but_faults_trans)

lemma read_only_wrapping [frame_intros]: "read_only m \<Longrightarrow> read_only (wrapping s m)"
  by (auto simp: read_only_def wrapping_def split: prod.splits)

lemma db_only_execs [frame_intros]: "db_only (execs f)"
proof -
  have "same_but_db w (snd (execs f w))" for w
  proof (cases "w_faults w")
    case Nil
    then show ?thesis by (auto simp: execs_def Let_def same_but_db_def split: sum.splits) (metis world.surjective world.update_convs(1,5))+
  next
    case (Cons b fs)
    then show ?thesis by (cases b) (auto simp: execs_def Let_def same_but_db_def split: sum.splits, (metis world.surjective world.update_convs(1,5))+)
  qed
  then show ?thesis by (auto simp: db_only_def) (metis snd_conv)
qed

lemma db_only_stmt [frame_intros]: "db_only (stmt f)"
  by (simp add: stmt_def db_only_execs)

lemma db_only_bnd [frame_intros]: "db_only m \<Longrightarrow> (\<And>x. db_only (f x)) \<Longrightarrow> db_only (bnd m f)"
  unfolding db_only_def bnd_def
  by (fastforce split: prod.splits sum.splits intro: same_but_db_trans)

lemma db_only_wrapping [frame_intros]: "db_only m \<Longrightarrow> db_only (wrapping s m)"
  by (auto simp: db_only_def wrapping_def split: prod.splits)

lemma db_only_basic [frame_intros]:
  "db_only (ret x)" "db_only (fail e)" "db_only (lift r)" "db_only (ensure b e)" "db_only (reads q)"
  by (intro read_only_db_only frame_intros)+

lemma db_only_each [frame_intros]: "(\<And>x. db_only (f x)) \<Longrightarrow> db_only (each f xs)"
  by (induction xs) (auto intro: frame_intros)

section \<open>Statements and transactions\<close>

lemma execs_Inr:
  "execs f w = (Inr x, w') \<Longrightarrow> \<exists>fs d. f (w_db w) = Inr (x, d) \<and> w' = w\<lparr>w_faults := fs, w_db := d\<rparr>"
  by (auto simp: execs_def Let_def split: list.splits bool.splits sum.splits)

lemma stmt_Inr: "stmt f w = (Inr x, w') \<Longrightarrow> \<exists>fs. w' = w\<lparr>w_faults := fs, w_db := f (w_db w)\<rparr>"
  unfolding stmt_def by (drule execs_Inr) auto

lemma reads_Inr:
  "reads q w = (Inr x, w') \<Longrightarrow> q (w_db w) = Inr x \<and> same_but_faults w w'"
  using read_only_reads [of q] by (auto simp: read_only_def reads_def split: list.splits bool.splits)

lemma execs_Inl_db: "execs f w = (Inl e, w') \<Longrightarrow> w_db w' = w_db w"
  by (auto simp: execs_def Let_def split: list.splits bool.splits sum.splits)

lemma with_rollback_simps:
  "with_rollback d m w = (Inr x, w') \<longleftrightarrow> m w = (Inr x, w')"
  "with_rollback d m w = (Inl e, w') \<longleftrightarrow> (\<exists>w1. m w = (Inl e, w1) \<and> w' = w1\<lparr>w_db := d\<rparr>)"
  by (auto simp: with_rollback_def split: prod.splits sum.splits)

lemma db_only_with_rollback [frame_intros]: "db_only m \<Longrightarrow> db_only (with_rollback d m)"
proof -
  assume m: "db_only m"
  have restore: "same_but_db w1 (w2\<lparr>w_db := d\<rparr>)" if "same_but_db w1 w2" for w1 w2
  proof -
    from that obtain fs d' where "w2 = w1\<lparr>w_faults := fs, w_db := d'\<rparr>" by (auto simp: same_but_db_def)
    then have "w2\<lparr>w_db := d\<rparr> = w1\<lparr>w_faults := fs, w_db := d\<rparr>" by simp
    then show ?thesis unfolding same_but_db_def by blast
  qed
  show ?thesis
    using m restore unfolding db_only_def with_rollback_def by (fastforce split: prod.splits sum.splits)
qed

lemma read_only_tx_begin [frame_intros]: "read_only tx_begin"
  by (simp add: tx_begin_def frame_intros)

lemma db_only_InTransaction [frame_intros]:
  assumes "db_only m"
  shows "db_only (InTransaction m)"
proof -
  have "db_only (bnd tx_begin (\<lambda>_. with_rollback d (bnd m (\<lambda>x. bnd tx_begin (\<lambda>_. ret x)))))" for d
    by (intro frame_intros assms read_only_db_only)
  then show ?thesis unfolding db_only_def InTransaction_def by blast
qed

text \<open>A transaction takes effect as a whole or not at all, whatever fails inside it.\<close>

lemma InTransaction_Inl: "InTransaction m w = (Inl e, w') \<Longrightarrow> w_db w' = w_db w"
  using read_only_tx_begin
  by (auto simp: InTransaction_def bnd_Inl [of tx_begin] with_rollback_simps read_only_def
      dest: same_but_faults_simps)

lemma InTransaction_Inr:
  assumes "InTransaction m w = (Inr x, w')"
  shows "\<exists>w1 w2. same_but_faults w w1 \<and> m w1 = (Inr x, w2) \<and> same_but_faults w2 w'"
  using assms read_only_tx_begin
  by (auto simp: InTransaction_def bnd_Inr with_rollback_simps read_only_def) blast

end
