(* ===== verification/Repositories.thy ===== *)
theory Repositories
  imports Store
begin

text \<open>
  The SQLite repositories (internal/infrastructure/storage/sqlite): each query and each statement of
  the source is one \<open>reads\<close>, \<open>execs\<close> or \<open>stmt\<close>.  Stored addresses are rendered under the launch's
  prefix; the account they denote is kept beside the rendering.
\<close>

section \<open>Helpers\<close>

definition timeToStr :: "env \<Rightarrow> time \<Rightarrow> string" where
  "timeToStr E t = time_FormatRFC3339Nano E t"

definition underPrefix :: "env \<Rightarrow> AccountID \<Rightarrow> string \<Rightarrow> string" where
  "underPrefix E a prefix =
     (if prefix \<noteq> [] then (case Bech32 E a prefix of Inr s \<Rightarrow> s | Inl _ \<Rightarrow> AccountID_String a)
      else AccountID_String a)"

definition stored_account :: "env \<Rightarrow> string \<Rightarrow> AccountID \<Rightarrow> AccountID" where
  "stored_account E prefix a = \<lparr>acct = acct a, orig = underPrefix E a prefix\<rparr>"

lemma stored_account_acct [simp]: "acct (stored_account E prefix a) = acct a"
  by (simp add: stored_account_def)

definition row_result :: "'a option \<Rightarrow> 'a result" where
  \<comment> \<open>\<open>sql.ErrNoRows\<close> becomes \<open>ports.ErrNotFound\<close>\<close>
  "row_result r = (case r of None \<Rightarrow> Inl [ErrNotFound] | Some x \<Rightarrow> Inr x)"

lemma row_result_Inr [simp]: "row_result r = Inr x \<longleftrightarrow> r = Some x"
  by (cases r) (auto simp: row_result_def)

definition page_of :: "int \<Rightarrow> int \<Rightarrow> 'a list \<Rightarrow> 'a list" where
  \<comment> \<open>\<open>LIMIT perPage OFFSET (page - 1) * perPage\<close>, the offset in int64; SQLite reads a negative limit
     as none and a negative offset as zero\<close>
  "page_of page perPage xs =
     (let ys = drop (nat (signed_take_bit 63 ((page - 1) * perPage))) xs in if perPage < 0 then ys else take (nat perPage) ys)"

section \<open>Launches\<close>

definition committee_zero :: Committee where
  "committee_zero = \<lparr>c_ID = uuid_Nil, c_Members = [], c_ThresholdM = 0, c_TotalN = 0,
     c_LeadAddress = \<lparr>acct = [], orig = []\<rparr>, c_CreatedAt = 0\<rparr>"

definition launch_columns :: "Launch \<Rightarrow> Launch" where
  \<comment> \<open>the columns of the launches table: the committee and the voting power are not among them\<close>
  "launch_columns l = l\<lparr>l_Committee := committee_zero, l_approvedVotingPower := fmempty\<rparr>"

definition launches_update :: "Launch \<Rightarrow> db \<Rightarrow> (nat \<times> db) result" where
  \<comment> \<open>\<open>UPDATE launches ... WHERE id=? AND version=?\<close>, and the number of rows affected\<close>
  "launches_update l d =
     (let rows = db_launches d in
      case find_index (\<lambda>r. l_ID r = l_ID l \<and> l_Version r = l_Version l) rows of
        None \<Rightarrow> Inr (0, d)
      | Some i \<Rightarrow>
        if list_ex (\<lambda>r. l_ID r \<noteq> l_ID l \<and> r_ChainID (l_Record r) = r_ChainID (l_Record l)) rows then Inl []
        else Inr (1, d\<lparr>db_launches := rows[i := (launch_columns l)\<lparr>l_Version := l_Version l + 1,
               l_CreatedAt := l_CreatedAt (rows ! i), l_Allowlist := l_Allowlist (rows ! i),
               l_AllocationFiles := l_AllocationFiles (rows ! i)\<rparr>]\<rparr>))"

definition launches_insert :: "Launch \<Rightarrow> db \<Rightarrow> (unit \<times> db) result" where
  "launches_insert l d =
     (if list_ex (\<lambda>r. l_ID r = l_ID l \<or> r_ChainID (l_Record r) = r_ChainID (l_Record l)) (db_launches d)
      then Inl []
      else Inr ((), d\<lparr>db_launches := db_launches d @ [(launch_columns l)\<lparr>l_Version := 0,
              l_Allowlist := Allowlist_zero, l_AllocationFiles := []\<rparr>]\<rparr>))"

definition on_launch :: "uuid \<Rightarrow> (Launch \<Rightarrow> Launch) \<Rightarrow> db \<Rightarrow> db" where
  "on_launch lid f d = d\<lparr>db_launches := map (\<lambda>r. if l_ID r = lid then f r else r) (db_launches d)\<rparr>"

definition on_committee :: "uuid \<Rightarrow> (Committee \<Rightarrow> Committee) \<Rightarrow> db \<Rightarrow> db" where
  "on_committee cid f d = d\<lparr>db_committees :=
     map (\<lambda>(lid, c). if c_ID c = cid then (lid, f c) else (lid, c)) (db_committees d)\<rparr>"

definition replace_committee :: "env \<Rightarrow> Launch \<Rightarrow> db \<Rightarrow> db" where
  \<comment> \<open>\<open>INSERT OR REPLACE INTO committees\<close>: the row with that id is deleted and the new one gets the
     largest rowid; the member rows stay\<close>
  "replace_committee E l d =
     (let c = l_Committee l;
          members = (case find (\<lambda>(_, o'). c_ID o' = c_ID c) (db_committees d) of
                       None \<Rightarrow> [] | Some (_, o') \<Rightarrow> c_Members o')
      in d\<lparr>db_committees := filter (\<lambda>(_, o'). c_ID o' \<noteq> c_ID c) (db_committees d) @
           [(l_ID l, c\<lparr>c_Members := members,
              c_LeadAddress := stored_account E (r_Bech32Prefix (l_Record l)) (c_LeadAddress c)\<rparr>)]\<rparr>)"

definition saveCommittee :: "env \<Rightarrow> Launch \<Rightarrow> unit io" where
  "saveCommittee E l =
     (let c = l_Committee l in
      bnd (stmt (replace_committee E l)) (\<lambda>_.
      bnd (stmt (on_committee (c_ID c) (\<lambda>o'. o'\<lparr>c_Members := []\<rparr>))) (\<lambda>_.
      each (\<lambda>m. stmt (on_committee (c_ID c) (\<lambda>o'. o'\<lparr>c_Members := c_Members o' @
               [m\<lparr>cm_Address := stored_account E (r_Bech32Prefix (l_Record l)) (cm_Address m)\<rparr>]\<rparr>)))
           (c_Members c))))"

definition saveAllowlist :: "env \<Rightarrow> Launch \<Rightarrow> unit io" where
  "saveAllowlist E l =
     bnd (stmt (on_launch (l_ID l) (\<lambda>r. r\<lparr>l_Allowlist := Allowlist_zero\<rparr>))) (\<lambda>_.
     each (\<lambda>m. stmt (on_launch (l_ID l) (\<lambda>r. r\<lparr>l_Allowlist := Allowlist_AddMember (l_Allowlist r)
              (m\<lparr>mem_Address := stored_account E (r_Bech32Prefix (l_Record l)) (mem_Address m)\<rparr>)\<rparr>)))
          (Members (l_Allowlist l)))"

definition saveAllocationFiles :: "Launch \<Rightarrow> unit io" where
  "saveAllocationFiles l =
     bnd (stmt (on_launch (l_ID l) (\<lambda>r. r\<lparr>l_AllocationFiles := []\<rparr>))) (\<lambda>_.
     each (\<lambda>f. stmt (on_launch (l_ID l) (\<lambda>r. r\<lparr>l_AllocationFiles := l_AllocationFiles r @ [f]\<rparr>)))
          (l_AllocationFiles l))"

definition launches_Save :: "env \<Rightarrow> Launch \<Rightarrow> unit io" where
  "launches_Save E l =
     bnd (execs (launches_update l)) (\<lambda>n.
     bnd (if n = 0
          then (\<lambda>w. case execs (launches_insert l) w of
                  (Inl _, w') \<Rightarrow> (Inl [ErrConflict], w') | (Inr u, w') \<Rightarrow> (Inr u, w'))
          else ret ()) (\<lambda>_.
     bnd (saveCommittee E l) (\<lambda>_.
     bnd (saveAllowlist E l) (\<lambda>_.
     saveAllocationFiles l))))"

definition loadCommittee :: "Launch \<Rightarrow> Launch io" where
  \<comment> \<open>the first row the scan of \<open>WHERE launch_id=?\<close> meets\<close>
  "loadCommittee l = reads (\<lambda>d. Inr (case find (\<lambda>(lid, _). lid = l_ID l) (db_committees d) of
     None \<Rightarrow> l | Some (_, c) \<Rightarrow> l\<lparr>l_Committee := c\<rparr>))"

definition voting_powers :: "uuid \<Rightarrow> JoinRequest list \<Rightarrow> (string, 64 word) fmap" where
  "voting_powers lid jrs = fold (\<lambda>j. fmupd (Hex (jr_OperatorAddress j)) (SelfDelegationAmount j))
     (filter (\<lambda>j. jr_LaunchID j = lid \<and> jr_Status j = JRApproved) jrs) fmempty"

definition loadVotingPower :: "Launch \<Rightarrow> Launch io" where
  "loadVotingPower l = reads (\<lambda>d. Inr (InitVotingPower l (voting_powers (l_ID l) (db_joinrequests d))))"

definition loadAllowlist :: "Launch \<Rightarrow> Launch io" where
  \<comment> \<open>the allowlist rows are part of the launch row\<close>
  "loadAllowlist l = reads (\<lambda>d. Inr l)"

definition loadAllocationFiles :: "Launch \<Rightarrow> Launch io" where
  \<comment> \<open>\<open>ORDER BY alloc_type\<close>\<close>
  "loadAllocationFiles l = reads (\<lambda>d. Inr (l\<lparr>l_AllocationFiles := sort_key af_Type (l_AllocationFiles l)\<rparr>))"

definition hydrate :: "Launch \<Rightarrow> Launch io" where
  "hydrate l = bnd (loadCommittee l) (\<lambda>l1. bnd (loadAllowlist l1) (\<lambda>l2. bnd (loadVotingPower l2) loadAllocationFiles))"

definition launches_FindByID :: "uuid \<Rightarrow> Launch io" where
  "launches_FindByID lid =
     bnd (reads (\<lambda>d. row_result (find (\<lambda>r. l_ID r = lid) (db_launches d)))) hydrate"

definition launches_FindByChainID :: "string \<Rightarrow> Launch io" where
  "launches_FindByChainID chainID =
     bnd (reads (\<lambda>d. row_result (find (\<lambda>r. r_ChainID (l_Record r) = chainID) (db_launches d)))) hydrate"

definition launches_FindByStatus :: "env \<Rightarrow> Status \<Rightarrow> Launch list io" where
  "launches_FindByStatus E st =
     bnd (reads (\<lambda>d. Inr (sort_key (\<lambda>r. timeToStr E (l_CreatedAt r))
            (filter (\<lambda>r. l_Status r = st) (db_launches d))))) (\<lambda>rows.
     foldr (\<lambda>r rest. bnd (hydrate r) (\<lambda>l. bnd rest (\<lambda>ls. ret (l # ls)))) rows (ret []))"

section \<open>Join requests\<close>

fun jr_active :: "JRStatus \<Rightarrow> bool" where
  "jr_active JRPending = True" | "jr_active JRApproved = True" | "jr_active _ = False"

definition jr_conflict :: "JoinRequest \<Rightarrow> JoinRequest \<Rightarrow> bool" where
  \<comment> \<open>the partial unique indexes idx_jr_active_validator and idx_jr_consensus_pubkey\<close>
  "jr_conflict a b \<longleftrightarrow> jr_ID a \<noteq> jr_ID b \<and> jr_LaunchID a = jr_LaunchID b \<and>
     jr_active (jr_Status a) \<and> jr_active (jr_Status b) \<and>
     (AccountID_String (jr_OperatorAddress a) = AccountID_String (jr_OperatorAddress b) \<or>
      jr_ConsensusPubKey a = jr_ConsensusPubKey b)"

definition jr_merge :: "JoinRequest \<Rightarrow> JoinRequest \<Rightarrow> JoinRequest" where
  \<comment> \<open>\<open>ON CONFLICT(id) DO UPDATE SET status, rejection_reason, approved_by_proposal\<close>\<close>
  "jr_merge old new = old\<lparr>jr_Status := jr_Status new, jr_RejectionReason := jr_RejectionReason new,
     jr_ApprovedByProposal := jr_ApprovedByProposal new\<rparr>"

definition launchPrefix :: "db \<Rightarrow> uuid \<Rightarrow> string" where
  "launchPrefix d lid = (case find (\<lambda>r. l_ID r = lid) (db_launches d) of
     None \<Rightarrow> [] | Some r \<Rightarrow> r_Bech32Prefix (l_Record r))"

definition jr_row :: "env \<Rightarrow> db \<Rightarrow> JoinRequest \<Rightarrow> JoinRequest" where
  "jr_row E d jr = jr\<lparr>jr_SubmitterAddress :=
     stored_account E (launchPrefix d (jr_LaunchID jr)) (jr_SubmitterAddress jr)\<rparr>"

definition joinrequests_upsert :: "env \<Rightarrow> JoinRequest \<Rightarrow> db \<Rightarrow> (unit \<times> db) result" where
  "joinrequests_upsert E jr d =
     (let rows = upsert jr_ID jr_merge (jr_row E d jr) (db_joinrequests d) in
      case row_of jr_ID (jr_ID jr) rows of
        None \<Rightarrow> Inl []
      | Some r \<Rightarrow> if list_ex (jr_conflict r) rows then Inl [ErrConflict]
                  else Inr ((), d\<lparr>db_joinrequests := rows\<rparr>))"

definition joinrequests_Save :: "env \<Rightarrow> JoinRequest \<Rightarrow> unit io" where
  "joinrequests_Save E jr = execs (joinrequests_upsert E jr)"

definition joinrequests_FindByID :: "uuid \<Rightarrow> JoinRequest io" where
  "joinrequests_FindByID jid = reads (\<lambda>d. row_result (row_of jr_ID jid (db_joinrequests d)))"

definition by_submitted :: "env \<Rightarrow> JoinRequest list \<Rightarrow> JoinRequest list" where
  "by_submitted E = sort_key (\<lambda>j. timeToStr E (jr_SubmittedAt j))"

definition joinrequests_FindByLaunch ::
  "env \<Rightarrow> uuid \<Rightarrow> JRStatus option \<Rightarrow> int \<Rightarrow> int \<Rightarrow> (JoinRequest list \<times> int) io" where
  "joinrequests_FindByLaunch E lid st page perPage =
     bnd (reads (\<lambda>d. Inr (rev (by_submitted E (filter (\<lambda>j. jr_LaunchID j = lid \<and>
            (case st of None \<Rightarrow> True | Some s \<Rightarrow> jr_Status j = s)) (db_joinrequests d)))))) (\<lambda>rows.
     bnd (reads (\<lambda>d. Inr (int (length rows)))) (\<lambda>total.
     ret (page_of page perPage rows, total)))"

definition joinrequests_FindApprovedByLaunch :: "env \<Rightarrow> uuid \<Rightarrow> JoinRequest list io" where
  "joinrequests_FindApprovedByLaunch E lid = reads (\<lambda>d. Inr (by_submitted E
     (filter (\<lambda>j. jr_LaunchID j = lid \<and> jr_Status j = JRApproved) (db_joinrequests d))))"

definition joinrequests_AllByLaunch :: "env \<Rightarrow> uuid \<Rightarrow> JoinRequest list io" where
  "joinrequests_AllByLaunch E lid =
     reads (\<lambda>d. Inr (by_submitted E (filter (\<lambda>j. jr_LaunchID j = lid) (db_joinrequests d))))"

definition joinrequests_FindByOperator :: "env \<Rightarrow> uuid \<Rightarrow> string \<Rightarrow> JoinRequest io" where
  "joinrequests_FindByOperator E lid operatorAddr = reads (\<lambda>d. row_result (find (\<lambda>_. True)
     (rev (by_submitted E (filter (\<lambda>j. jr_LaunchID j = lid \<and>
        AccountID_String (jr_OperatorAddress j) = operatorAddr) (db_joinrequests d))))))"

definition joinrequests_FindActiveByValidator :: "env \<Rightarrow> uuid \<Rightarrow> string \<Rightarrow> JoinRequest io" where
  "joinrequests_FindActiveByValidator E lid validatorAddr = reads (\<lambda>d. row_result (find (\<lambda>_. True)
     (rev (by_submitted E (filter (\<lambda>j. jr_LaunchID j = lid \<and>
        AccountID_String (jr_OperatorAddress j) = validatorAddr \<and> jr_active (jr_Status j))
        (db_joinrequests d))))))"

definition joinrequests_CountBySubmitter :: "env \<Rightarrow> uuid \<Rightarrow> string \<Rightarrow> int io" where
  "joinrequests_CountBySubmitter E lid submitterAddr =
     bnd (lift (NewAccountID E submitterAddr)) (\<lambda>a.
     reads (\<lambda>d. Inr (int (length (filter (\<lambda>j. jr_LaunchID j = lid \<and>
        AccountID_String (jr_SubmitterAddress j) = underPrefix E a (launchPrefix d lid)) (db_joinrequests d))))))"

definition joinrequests_CountByConsensusPubKey :: "uuid \<Rightarrow> string \<Rightarrow> int io" where
  "joinrequests_CountByConsensusPubKey lid key = reads (\<lambda>d. Inr (int (length (filter (\<lambda>j.
     jr_LaunchID j = lid \<and> jr_ConsensusPubKey j = key \<and> jr_active (jr_Status j)) (db_joinrequests d)))))"

section \<open>Proposals\<close>

definition p_merge :: "Proposal \<Rightarrow> Proposal \<Rightarrow> Proposal" where
  "p_merge old new = old\<lparr>p_Status := p_Status new, p_ExecutedAt := p_ExecutedAt new\<rparr>"

definition add_signature :: "uuid \<Rightarrow> SignatureEntry \<Rightarrow> db \<Rightarrow> db" where
  \<comment> \<open>\<open>INSERT OR IGNORE\<close> on the key (proposal_id, member_address)\<close>
  "add_signature pid s d = d\<lparr>db_proposals := map (\<lambda>p.
     if p_ID p = pid \<and> \<not> list_ex (\<lambda>o'. AccountID_String (se_MemberAddress o') =
          AccountID_String (se_MemberAddress s)) (p_Signatures p)
     then p\<lparr>p_Signatures := p_Signatures p @ [s]\<rparr> else p) (db_proposals d)\<rparr>"

definition proposals_Save :: "Proposal \<Rightarrow> unit io" where
  "proposals_Save p =
     bnd (stmt (\<lambda>d. d\<lparr>db_proposals := upsert p_ID p_merge (p\<lparr>p_Signatures := [], p_events := []\<rparr>) (db_proposals d)\<rparr>)) (\<lambda>_.
     each (\<lambda>s. stmt (add_signature (p_ID p) s)) (p_Signatures p))"

definition loadSignatures :: "env \<Rightarrow> Proposal \<Rightarrow> Proposal io" where
  \<comment> \<open>\<open>ORDER BY signed_at\<close>\<close>
  "loadSignatures E p = reads (\<lambda>d. Inr (p\<lparr>p_Signatures :=
     sort_key (\<lambda>s. timeToStr E (se_Timestamp s)) (p_Signatures p)\<rparr>))"

definition proposals_FindByID :: "env \<Rightarrow> uuid \<Rightarrow> Proposal io" where
  "proposals_FindByID E pid =
     bnd (reads (\<lambda>d. row_result (row_of p_ID pid (db_proposals d)))) (loadSignatures E)"

definition load_proposals :: "env \<Rightarrow> Proposal list \<Rightarrow> Proposal list io" where
  "load_proposals E rows =
     foldr (\<lambda>p rest. bnd (loadSignatures E p) (\<lambda>q. bnd rest (\<lambda>qs. ret (q # qs)))) rows (ret [])"

definition proposals_FindPending :: "env \<Rightarrow> Proposal list io" where
  "proposals_FindPending E =
     bnd (reads (\<lambda>d. Inr (sort_key (\<lambda>p. timeToStr E (p_ProposedAt p))
            (filter (\<lambda>p. p_Status p = PStatusPendingSignatures) (db_proposals d))))) (load_proposals E)"

definition proposals_FindByLaunch :: "env \<Rightarrow> uuid \<Rightarrow> int \<Rightarrow> int \<Rightarrow> (Proposal list \<times> int) io" where
  "proposals_FindByLaunch E lid page perPage =
     bnd (reads (\<lambda>d. Inr (page_of page perPage (rev (sort_key (\<lambda>p. timeToStr E (p_ProposedAt p))
            (filter (\<lambda>p. p_LaunchID p = lid) (db_proposals d))))))) (\<lambda>rows.
     bnd (load_proposals E rows) (\<lambda>ps.
     bnd (reads (\<lambda>d. Inr (int (length (filter (\<lambda>p. p_LaunchID p = lid) (db_proposals d)))))) (\<lambda>total.
     ret (ps, total))))"

definition expire_pending :: "uuid \<Rightarrow> Proposal \<Rightarrow> Proposal" where
  "expire_pending lid p = (if p_LaunchID p = lid \<and> p_Status p = PStatusPendingSignatures
     then p\<lparr>p_Status := PStatusExpired\<rparr> else p)"

definition ExpireAllPending :: "uuid \<Rightarrow> unit io" where
  "ExpireAllPending lid = stmt (\<lambda>d. d\<lparr>db_proposals := map (expire_pending lid) (db_proposals d)\<rparr>)"

section \<open>Readiness and nonces\<close>

definition rc_merge :: "ReadinessConfirmation \<Rightarrow> ReadinessConfirmation \<Rightarrow> ReadinessConfirmation" where
  "rc_merge old new = old\<lparr>rc_InvalidatedAt := rc_InvalidatedAt new\<rparr>"

definition readiness_Save :: "ReadinessConfirmation \<Rightarrow> unit io" where
  "readiness_Save rc = stmt (\<lambda>d. d\<lparr>db_readiness := upsert rc_ID rc_merge rc (db_readiness d)\<rparr>)"

definition readiness_FindByLaunch :: "env \<Rightarrow> uuid \<Rightarrow> ReadinessConfirmation list io" where
  "readiness_FindByLaunch E lid = reads (\<lambda>d. Inr (sort_key (\<lambda>r. timeToStr E (rc_ConfirmedAt r))
     (filter (\<lambda>r. rc_LaunchID r = lid) (db_readiness d))))"

definition readiness_FindByOperator :: "env \<Rightarrow> uuid \<Rightarrow> string \<Rightarrow> ReadinessConfirmation io" where
  "readiness_FindByOperator E lid operatorAddr = reads (\<lambda>d. row_result (find (\<lambda>_. True)
     (rev (sort_key (\<lambda>r. timeToStr E (rc_ConfirmedAt r)) (filter (\<lambda>r. rc_LaunchID r = lid \<and>
        AccountID_String (rc_OperatorAddress r) = operatorAddr) (db_readiness d))))))"

definition InvalidateByLaunch :: "time \<Rightarrow> uuid \<Rightarrow> unit io" where
  "InvalidateByLaunch now lid = stmt (\<lambda>d. d\<lparr>db_readiness := map (\<lambda>r.
     if rc_LaunchID r = lid \<and> rc_InvalidatedAt r = None then Invalidate r now else r) (db_readiness d)\<rparr>)"

definition nonceTTL :: duration where
  "nonceTTL = 10 * Minute"

definition Consume :: "env \<Rightarrow> time \<Rightarrow> string \<Rightarrow> string \<Rightarrow> unit io" where
  "Consume E now operatorAddr nonce =
     bnd (\<lambda>w. case execs (\<lambda>d. if (operatorAddr, nonce) \<in> fst ` set (db_nonces d) then Inl []
                  else Inr ((), d\<lparr>db_nonces := db_nonces d @ [((operatorAddr, nonce), now + nonceTTL)]\<rparr>)) w of
              (Inl _, w') \<Rightarrow> (Inl [ErrConflict], w') | (Inr u, w') \<Rightarrow> (Inr u, w')) (\<lambda>_ w.
     (Inr (), snd (stmt (\<lambda>d. d\<lparr>db_nonces :=
        filter (\<lambda>(_, e). \<not> timeToStr E e < timeToStr E now) (db_nonces d)\<rparr>) w)))"

section \<open>Frames\<close>

lemma each_stmt_Inr:
  "each (\<lambda>x. stmt (f x)) xs w = (Inr u, w') \<Longrightarrow> \<exists>fs. w' = w\<lparr>w_faults := fs, w_db := fold f xs (w_db w)\<rparr>"
proof (induction xs arbitrary: w)
  case Nil
  then show ?case by (auto intro: exI [of _ "w_faults w"])
next
  case (Cons x xs)
  then obtain v w1 where "stmt (f x) w = (Inr v, w1)" "each (\<lambda>x. stmt (f x)) xs w1 = (Inr u, w')"
    by (auto simp: bnd_Inr)
  with stmt_Inr [OF this(1)] Cons.IH [OF this(2)] show ?case by auto
qed

lemma read_only_foldr [frame_intros]:
  "(\<And>x. read_only (f x)) \<Longrightarrow> read_only (foldr (\<lambda>p rest. bnd (f p) (\<lambda>q. bnd rest (\<lambda>qs. ret (q # qs)))) xs (ret []))"
  by (induction xs) (auto intro: frame_intros)

lemma read_only_repositories [frame_intros]:
  "read_only (launches_FindByID lid)" "read_only (launches_FindByStatus E st)" "read_only (hydrate l)"
  "read_only (joinrequests_FindByID jid)" "read_only (joinrequests_FindByLaunch E lid s pg pp)"
  "read_only (joinrequests_FindApprovedByLaunch E lid)" "read_only (joinrequests_AllByLaunch E lid)"
  "read_only (joinrequests_FindByOperator E lid a)" "read_only (joinrequests_FindActiveByValidator E lid a)"
  "read_only (joinrequests_CountBySubmitter E lid a)" "read_only (joinrequests_CountByConsensusPubKey lid k)"
  "read_only (proposals_FindByID E pid)" "read_only (proposals_FindPending E)"
  "read_only (proposals_FindByLaunch E lid pg pp)"
  "read_only (readiness_FindByLaunch E lid)" "read_only (readiness_FindByOperator E lid a)"
  unfolding launches_FindByID_def launches_FindByStatus_def hydrate_def loadCommittee_def loadAllowlist_def
    loadVotingPower_def loadAllocationFiles_def joinrequests_FindByID_def joinrequests_FindByLaunch_def
    joinrequests_FindApprovedByLaunch_def joinrequests_AllByLaunch_def joinrequests_FindByOperator_def
    joinrequests_FindActiveByValidator_def joinrequests_CountBySubmitter_def
    joinrequests_CountByConsensusPubKey_def proposals_FindByID_def proposals_FindPending_def
    proposals_FindByLaunch_def load_proposals_def loadSignatures_def readiness_FindByLaunch_def
    readiness_FindByOperator_def
  by (intro frame_intros)+

lemma db_only_handler [frame_intros]:
  "db_only m \<Longrightarrow> db_only (\<lambda>w. case m w of (Inl _, w') \<Rightarrow> (Inl e, w') | (Inr u, w') \<Rightarrow> (Inr u, w'))"
  by (fastforce simp: db_only_def split: prod.splits sum.splits)

lemma db_only_repositories [frame_intros]:
  "db_only (saveCommittee E l)" "db_only (saveAllowlist E l)" "db_only (saveAllocationFiles l)"
  "db_only (joinrequests_Save E jr)" "db_only (proposals_Save p)" "db_only (ExpireAllPending lid)"
  "db_only (readiness_Save rc)" "db_only (InvalidateByLaunch now lid)"
  unfolding saveCommittee_def saveAllowlist_def saveAllocationFiles_def joinrequests_Save_def
    proposals_Save_def ExpireAllPending_def readiness_Save_def InvalidateByLaunch_def Let_def
  by (intro frame_intros)+

lemma db_only_launches_Save [frame_intros]: "db_only (launches_Save E l)"
  unfolding launches_Save_def by (intro frame_intros) (auto intro: frame_intros)

lemma db_only_Consume [frame_intros]: "db_only (Consume E now a n)"
proof -
  have "db_only (\<lambda>w. (Inr (), snd (stmt f w)))" for f
    using db_only_stmt [of f] by (auto simp: db_only_def) (metis prod.collapse)
  then show ?thesis unfolding Consume_def by (intro frame_intros)
qed

end
