(* ===== verification/ServiceBase.thy ===== *)
theory ServiceBase
  imports Repositories Allocation
begin

text \<open>
  What the services share: the timestamp window and signature decoding (services/helpers.go), the
  writing of events to the audit trail (services/audit.go), and the fingerprint of the approved input
  set (services/input_set_hash.go).
\<close>

section \<open>Timestamps and signatures\<close>

definition signedPayloadMaxAge :: duration where
  "signedPayloadMaxAge = 5 * Minute"

definition maxDuration :: duration where "maxDuration = 2 ^ 63 - 1"
definition minDuration :: duration where "minDuration = - (2 ^ 63)"

definition time_Sub :: "time \<Rightarrow> time \<Rightarrow> duration" where
  \<comment> \<open>\<open>t.Sub(u)\<close> saturates at the ends of int64\<close>
  "time_Sub t u = (if t - u > maxDuration then maxDuration
                   else if t - u < minDuration then minDuration else t - u)"

definition neg_duration :: "duration \<Rightarrow> duration" where
  \<comment> \<open>\<open>-d\<close> on int64: the smallest duration is its own negation\<close>
  "neg_duration d = (if d = minDuration then minDuration else - d)"

definition validateTimestamp :: "env \<Rightarrow> time \<Rightarrow> string \<Rightarrow> unit result" where
  "validateTimestamp E now ts =
     (if ts = [] then Inl [ErrUnauthorized]
      else case time_ParseRFC3339 E ts of
        None \<Rightarrow> Inl [ErrUnauthorized]
      | Some t \<Rightarrow>
        let diff = time_Sub now t; diff' = (if diff < 0 then neg_duration diff else diff) in
        if diff' > signedPayloadMaxAge then Inl [ErrUnauthorized] else Inr ())"

definition decodeBase64Sig :: "string \<Rightarrow> nat list result" where
  "decodeBase64Sig s = (case base64_DecodeString s of None \<Rightarrow> Inl [ErrBadRequest] | Some b \<Rightarrow> Inr b)"

lemma validateTimestamp_window:
  assumes "validateTimestamp E now ts = Inr ()" "time_ParseRFC3339 E ts = Some t" "t - now < 2 ^ 63"
  shows "\<bar>now - t\<bar> \<le> signedPayloadMaxAge"
proof -
  have "signedPayloadMaxAge < maxDuration"
    by (simp add: signedPayloadMaxAge_def maxDuration_def duration_defs)
  with assms show ?thesis
    by (auto simp: validateTimestamp_def time_Sub_def neg_duration_def Let_def maxDuration_def minDuration_def
        split: if_splits)
qed

section \<open>Audit trail\<close>

definition audit_Append :: "string \<Rightarrow> event \<Rightarrow> unit io" where
  \<comment> \<open>one attempt to append: the write of the line may fail, and so may the saving of the new chain
     tip, after the line is on disk (auditlog/jsonl.go, \<open>Append\<close>)\<close>
  "audit_Append scope ev w = (case w_faults w of
     True # fs \<Rightarrow> (Inl [], w\<lparr>w_faults := fs\<rparr>)
   | _ \<Rightarrow>
     (let w1 = w\<lparr>w_faults := tl (w_faults w), w_audit := w_audit w @ [(scope, ev)]\<rparr> in
      case w_faults w1 of
        True # fs \<Rightarrow> (Inl [], w1\<lparr>w_faults := fs\<rparr>)
      | _ \<Rightarrow> (Inr (), w1\<lparr>w_faults := tl (w_faults w1)\<rparr>)))"

definition writeAuditEvent :: "time \<Rightarrow> string \<Rightarrow> event \<Rightarrow> unit io" where
  "writeAuditEvent now scope ev =
     audit_Append scope (ev\<lparr>occurredAt := if time_IsZero (occurredAt ev) then now else occurredAt ev\<rparr>)"

definition recordAudit :: "time \<Rightarrow> string \<Rightarrow> event \<Rightarrow> unit io" where
  \<comment> \<open>a failed write is logged, the operation goes on\<close>
  "recordAudit now scope ev w = (Inr (), snd (writeAuditEvent now scope ev w))"

definition events_Publish :: "event \<Rightarrow> unit io" where
  "events_Publish ev w = (Inr (), w\<lparr>w_published := w_published w @ [ev]\<rparr>)"

definition emit :: "time \<Rightarrow> string \<Rightarrow> DomainEvent \<Rightarrow> unit io" where
  "emit now scope ev = bnd (recordAudit now scope (bare ev)) (\<lambda>_. events_Publish (bare ev))"

lemma audit_Append_db:
  "audit_Append scope ev w = (r, w') \<Longrightarrow>
     w_db w' = w_db w \<and> w_exited w' = w_exited w \<and> w_published w' = w_published w \<and>
     (case r of Inl _ \<Rightarrow> w_audit w' = w_audit w \<or> w_audit w' = w_audit w @ [(scope, ev)]
              | Inr _ \<Rightarrow> w_audit w' = w_audit w @ [(scope, ev)])"
  by (auto simp: audit_Append_def Let_def split: list.splits bool.splits)

lemma emit_eq:
  "emit now scope ev w =
     (Inr (), (snd (audit_Append scope \<lparr>occurredAt = now, body = ev\<rparr> w))
        \<lparr>w_published := w_published (snd (audit_Append scope \<lparr>occurredAt = now, body = ev\<rparr> w)) @ [bare ev]\<rparr>)"
  by (simp add: emit_def recordAudit_def writeAuditEvent_def events_Publish_def bnd_def bare_def time_IsZero_def)

lemma emit_result:
  assumes "emit now scope ev w = (r, w')"
  shows "r = Inr () \<and> w_db w' = w_db w \<and> w_exited w' = w_exited w \<and> (\<exists>es. w_audit w' = w_audit w @ es)"
proof -
  obtain r1 w1 where a: "audit_Append scope \<lparr>occurredAt = now, body = ev\<rparr> w = (r1, w1)" by force
  from audit_Append_db [OF a] have "w_db w1 = w_db w \<and> w_exited w1 = w_exited w \<and> (\<exists>es. w_audit w1 = w_audit w @ es)"
    by (cases r1) auto
  with assms a show ?thesis by (auto simp: emit_eq)
qed

section \<open>The input-set hash\<close>

fun nat_digits :: "nat \<Rightarrow> string" where
  "nat_digits n = (if n < 10 then [char_of (48 + n)] else nat_digits (n div 10) @ [char_of (48 + n mod 10)])"

definition Itoa :: "int \<Rightarrow> string" where
  "Itoa i = (if i < 0 then CHR ''-'' # nat_digits (nat (- i)) else nat_digits (nat i))"

record RehearsalChain =
  ch_ChainID :: string
  ch_Bech32Prefix :: string
  ch_Denom :: string
  ch_TotalSupply :: string
  ch_MinSelfDelegation :: string
  ch_MaxCommissionRate :: string
  ch_MaxCommissionChangeRate :: string
  ch_MinValidatorCount :: int
  ch_GenesisTime :: "time option"
  ch_BinaryName :: string
  ch_BinaryVersion :: string
  ch_BinarySHA256 :: string
  ch_RepoURL :: string
  ch_RepoCommit :: string

record RehearsalGentx =
  rg_OperatorAddress :: string
  rg_ConsensusPubKey :: string
  rg_Moniker :: string
  rg_SelfDelegation :: string
  rg_GentxJSON :: bytes

record RehearsalAllocation =
  al_Type :: string
  al_SHA256 :: string
  al_ApprovedByProposal :: string

record RehearsalInput =
  ri_LaunchID :: uuid
  ri_AttemptID :: uuid
  ri_GeneratedAt :: time
  ri_Status :: Status
  ri_Chain :: RehearsalChain
  ri_Gentxs :: "RehearsalGentx list"
  ri_Allocations :: "RehearsalAllocation list"
  ri_InputSetHash :: string

definition rfc3339OrNil :: "env \<Rightarrow> time option \<Rightarrow> json" where
  "rfc3339OrNil E t = (case t of None \<Rightarrow> JNull | Some x \<Rightarrow> JStr (time_FormatRFC3339 E x))"

definition file_sha :: "string \<Rightarrow> RehearsalAllocation list \<Rightarrow> json" where
  \<comment> \<open>the last file of that type, or null\<close>
  "file_sha t allocs = (case find (\<lambda>a. al_Type a = t) (rev allocs) of None \<Rightarrow> JNull | Some a \<Rightarrow> JStr (al_SHA256 a))"

definition hash_input :: "env \<Rightarrow> RehearsalChain \<Rightarrow> RehearsalGentx list \<Rightarrow> RehearsalAllocation list \<Rightarrow> json" where
  "hash_input E chain gentxs allocs = JObj [
     (''chain'', JObj [
        (''chain_id'', JStr (ch_ChainID chain)), (''bech32_prefix'', JStr (ch_Bech32Prefix chain)),
        (''denom'', JStr (ch_Denom chain)), (''total_supply'', JStr (ch_TotalSupply chain)),
        (''min_self_delegation'', JStr (ch_MinSelfDelegation chain)),
        (''max_commission_rate'', JStr (ch_MaxCommissionRate chain)),
        (''max_commission_change_rate'', JStr (ch_MaxCommissionChangeRate chain)),
        (''min_validator_count'', JNum (Itoa (ch_MinValidatorCount chain))),
        (''genesis_time'', rfc3339OrNil E (ch_GenesisTime chain)),
        (''binary'', JObj [
           (''name'', JStr (ch_BinaryName chain)), (''version'', JStr (ch_BinaryVersion chain)),
           (''sha256'', JStr (ch_BinarySHA256 chain)), (''repo_url'', JStr (ch_RepoURL chain)),
           (''repo_commit'', JStr (ch_RepoCommit chain))])]),
     (''gentxs'', JArr (map (\<lambda>g. JObj [
        (''operator_address'', JStr (rg_OperatorAddress g)),
        (''consensus_pubkey'', JStr (rg_ConsensusPubKey g)),
        (''gentx_sha256'', JStr (sha256hex E (rg_GentxJSON g)))]) gentxs)),
     (''files'', JObj [
        (''accounts_sha256'', file_sha AllocationAccounts allocs),
        (''claims_sha256'', file_sha AllocationClaims allocs),
        (''grants_sha256'', file_sha AllocationGrants allocs),
        (''authz_sha256'', file_sha AllocationAuthz allocs),
        (''feegrant_sha256'', file_sha AllocationFeegrant allocs)])]"

definition computeInputSetHash ::
  "env \<Rightarrow> RehearsalChain \<Rightarrow> RehearsalGentx list \<Rightarrow> RehearsalAllocation list \<Rightarrow> string result" where
  "computeInputSetHash E chain gentxs allocs =
     (case canonicaljson_MarshalForSigning E (hash_input E chain gentxs allocs) of
        None \<Rightarrow> Inl [] | Some msg \<Rightarrow> Inr (sha256hex E msg))"

definition gentx_of :: "JoinRequest \<Rightarrow> RehearsalGentx" where
  "gentx_of jr = \<lparr>rg_OperatorAddress = AccountID_String (jr_OperatorAddress jr),
     rg_ConsensusPubKey = jr_ConsensusPubKey jr, rg_Moniker = Moniker jr,
     rg_SelfDelegation = Itoa (sint (SelfDelegationAmount jr)), rg_GentxJSON = jr_GentxJSON jr\<rparr>"

definition allocations_of :: "env \<Rightarrow> Launch \<Rightarrow> RehearsalAllocation list" where
  "allocations_of E l = sort_key al_Type (map (\<lambda>f. \<lparr>al_Type = af_Type f, al_SHA256 = af_SHA256 f,
       al_ApprovedByProposal = (case af_ApprovedByProposal f of None \<Rightarrow> [] | Some u \<Rightarrow> uuid_String E u)\<rparr>)
     (filter (\<lambda>f. af_Status f = AllocationApproved) (l_AllocationFiles l)))"

definition chain_of :: "Launch \<Rightarrow> RehearsalChain" where
  "chain_of l = (let r = l_Record l in
     \<lparr>ch_ChainID = r_ChainID r, ch_Bech32Prefix = r_Bech32Prefix r, ch_Denom = r_Denom r,
      ch_TotalSupply = r_TotalSupply r, ch_MinSelfDelegation = r_MinSelfDelegation r,
      ch_MaxCommissionRate = cr_value (r_MaxCommissionRate r),
      ch_MaxCommissionChangeRate = cr_value (r_MaxCommissionChangeRate r),
      ch_MinValidatorCount = r_MinValidatorCount r, ch_GenesisTime = r_GenesisTime r,
      ch_BinaryName = r_BinaryName r, ch_BinaryVersion = r_BinaryVersion r,
      ch_BinarySHA256 = r_BinarySHA256 r, ch_RepoURL = r_RepoURL r, ch_RepoCommit = r_RepoCommit r\<rparr>)"

definition Assemble :: "env \<Rightarrow> time \<Rightarrow> Launch \<Rightarrow> RehearsalInput io" where
  "Assemble E now l =
     bnd (joinrequests_FindApprovedByLaunch E (l_ID l)) (\<lambda>approved.
     let gentxs = sort_key rg_OperatorAddress (map gentx_of approved);
         allocs = allocations_of E l; chain = chain_of l in
     bnd (lift (computeInputSetHash E chain gentxs allocs)) (\<lambda>hash.
     ret \<lparr>ri_LaunchID = l_ID l, ri_AttemptID = uuid_Nil, ri_GeneratedAt = now, ri_Status = l_Status l,
          ri_Chain = chain, ri_Gentxs = gentxs, ri_Allocations = allocs, ri_InputSetHash = hash\<rparr>))"

definition Current :: "env \<Rightarrow> Launch \<Rightarrow> string io" where
  "Current E l = bnd (Assemble E 0 l) (\<lambda>i. ret (ri_InputSetHash i))"

definition input_set_hash :: "env \<Rightarrow> db \<Rightarrow> Launch \<Rightarrow> string result" where
  \<comment> \<open>the hash of a launch against a database, without the query\<close>
  "input_set_hash E d l = computeInputSetHash E (chain_of l)
     (sort_key rg_OperatorAddress (map gentx_of (by_submitted E
        (filter (\<lambda>j. jr_LaunchID j = l_ID l \<and> jr_Status j = JRApproved) (db_joinrequests d)))))
     (allocations_of E l)"

lemma Current_Inr: "Current E l w = (Inr h, w') \<Longrightarrow> input_set_hash E (w_db w) l = Inr h \<and> same_but_faults w w'"
  by (auto simp: Current_def Assemble_def bnd_Inr Let_def input_set_hash_def
      joinrequests_FindApprovedByLaunch_def dest!: reads_Inr)

lemma read_only_Current [frame_intros]: "read_only (Current E l)" "read_only (Assemble E now l)"
  unfolding Current_def Assemble_def Let_def by (intro frame_intros)+

end
