(* ===== verification/RehearsalRepository.thy ===== *)
theory RehearsalRepository
  imports Repositories
begin

text \<open>
  The rehearsal attempts and results of internal/infrastructure/storage/sqlite/rehearsal.go: one
  attempt per (launch, input set), one result per signature.
\<close>

definition attempts_insert :: "uuid \<Rightarrow> uuid \<Rightarrow> string \<Rightarrow> time \<Rightarrow> db \<Rightarrow> db" where
  \<comment> \<open>\<open>ON CONFLICT(launch_id, input_set_hash) DO NOTHING\<close>\<close>
  "attempts_insert aid lid hash issuedAt d =
     (if list_ex (\<lambda>a. ra_LaunchID a = lid \<and> ra_InputSetHash a = hash) (db_attempts d) then d
      else d\<lparr>db_attempts := db_attempts d @ [\<lparr>ra_ID = aid, ra_LaunchID = lid, ra_InputSetHash = hash,
              ra_IssuedAt = issuedAt, ra_Status = AttemptOpen, ra_ClaimedAt = None,
              ra_LeaseExpiresAt = None, ra_RunnerID = []\<rparr>]\<rparr>)"

definition GetOrCreate :: "uuid \<Rightarrow> uuid \<Rightarrow> string \<Rightarrow> time \<Rightarrow> RehearsalAttempt io" where
  "GetOrCreate aid lid hash issuedAt =
     bnd (stmt (attempts_insert aid lid hash issuedAt)) (\<lambda>_.
     reads (\<lambda>d. case find (\<lambda>a. ra_LaunchID a = lid \<and> ra_InputSetHash a = hash) (db_attempts d) of
              None \<Rightarrow> Inl [] | Some a \<Rightarrow> Inr a))"

definition attempts_FindByID :: "uuid \<Rightarrow> RehearsalAttempt io" where
  "attempts_FindByID aid = reads (\<lambda>d. row_result (row_of ra_ID aid (db_attempts d)))"

definition attempts_update :: "RehearsalAttempt \<Rightarrow> db \<Rightarrow> db" where
  "attempts_update a d = d\<lparr>db_attempts := map (\<lambda>r. if ra_ID r = ra_ID a
     then r\<lparr>ra_Status := ra_Status a, ra_ClaimedAt := ra_ClaimedAt a,
            ra_LeaseExpiresAt := ra_LeaseExpiresAt a, ra_RunnerID := ra_RunnerID a\<rparr> else r) (db_attempts d)\<rparr>"

definition attempts_Save :: "RehearsalAttempt \<Rightarrow> unit io" where
  "attempts_Save a = stmt (attempts_update a)"

definition results_insert :: "RehearsalResult \<Rightarrow> db \<Rightarrow> db" where
  \<comment> \<open>\<open>ON CONFLICT(signature) DO NOTHING\<close>\<close>
  "results_insert r d =
     (if list_ex (\<lambda>o'. rr_Signature o' = rr_Signature r) (db_results d) then d
      else d\<lparr>db_results := db_results d @ [r]\<rparr>)"

definition results_Save :: "RehearsalResult \<Rightarrow> unit io" where
  "results_Save r = stmt (results_insert r)"

definition results_FindByLaunch :: "env \<Rightarrow> uuid \<Rightarrow> RehearsalResult list io" where
  "results_FindByLaunch E lid = reads (\<lambda>d. Inr (rev (sort_key (\<lambda>r. timeToStr E (rr_RecordedAt r))
     (filter (\<lambda>r. rr_LaunchID r = lid) (db_results d)))))"

lemma rehearsal_frames [frame_intros]:
  "db_only (GetOrCreate aid lid hash t)" "read_only (attempts_FindByID aid)" "db_only (attempts_Save a)"
  "db_only (results_Save r)" "read_only (results_FindByLaunch E lid)"
  unfolding GetOrCreate_def attempts_FindByID_def attempts_Save_def results_Save_def results_FindByLaunch_def
  by (intro frame_intros)+

text \<open>At most one attempt per launch and input set, and one result per signature.\<close>

definition rehearsal_keys_ok :: "db \<Rightarrow> bool" where
  "rehearsal_keys_ok d \<longleftrightarrow> distinct (map (\<lambda>a. (ra_LaunchID a, ra_InputSetHash a)) (db_attempts d)) \<and>
     distinct (map rr_Signature (db_results d))"

lemma rehearsal_keys_insert:
  "rehearsal_keys_ok d \<Longrightarrow> rehearsal_keys_ok (attempts_insert aid lid hash t d)"
  "rehearsal_keys_ok d \<Longrightarrow> rehearsal_keys_ok (results_insert r d)"
  by (auto simp: rehearsal_keys_ok_def attempts_insert_def results_insert_def list_ex_iff)

lemma rehearsal_keys_update: "rehearsal_keys_ok d \<Longrightarrow> rehearsal_keys_ok (attempts_update a d)"
proof -
  have "map (\<lambda>a. (ra_LaunchID a, ra_InputSetHash a)) (db_attempts (attempts_update a d)) =
      map (\<lambda>a. (ra_LaunchID a, ra_InputSetHash a)) (db_attempts d)"
    by (simp add: attempts_update_def)
  moreover have "db_results (attempts_update a d) = db_results d" by (simp add: attempts_update_def)
  ultimately show "rehearsal_keys_ok d \<Longrightarrow> rehearsal_keys_ok (attempts_update a d)"
    by (simp add: rehearsal_keys_ok_def)
qed

end
