(* ===== verification/ProposalService.thy ===== *)
theory ProposalService
  imports ServiceBase RehearsalRepository Lifecycle
begin

text \<open>
  The proposal service (services/proposal.go): raising and signing proposals, the guards of a raise,
  the side effects of an executed proposal inside one transaction, and the two-phase audit around it.
  A handler takes its clock reading and the identifiers it generates as arguments.
\<close>

section \<open>Configuration and inputs\<close>

record proposal_cfg =
  pc_Verify :: "string \<Rightarrow> string \<Rightarrow> bytes \<Rightarrow> nat list \<Rightarrow> bool"   \<comment> \<open>address, pubkey, message, signature\<close>
  pc_rehearsalGate :: RehearsalGateMode
  pc_results :: bool                                           \<comment> \<open>a result repository is configured\<close>

record RaiseInput =
  rin_ActionType :: ActionType
  rin_Payload :: bytes
  rin_MemberAddr :: string
  rin_Nonce :: string
  rin_Timestamp :: string
  rin_Signature :: string
  rin_PubKeyB64 :: string

record SignInput =
  sin_MemberAddr :: string
  sin_Decision :: Decision
  sin_Nonce :: string
  sin_Timestamp :: string
  sin_Signature :: string
  sin_PubKeyB64 :: string

fun decision_string :: "Decision \<Rightarrow> string" where
  "decision_string DecisionSign = ''SIGN''"
| "decision_string DecisionVeto = ''VETO''"
| "decision_string (DecisionOther s) = s"

definition raise_json :: "RaiseInput \<Rightarrow> json" where
  "raise_json i = JObj [(''action_type'', JStr (action_string (rin_ActionType i))),
     (''payload'', case json_parse (rin_Payload i) of None \<Rightarrow> JNull | Some v \<Rightarrow> v),
     (''member_address'', JStr (rin_MemberAddr i)), (''nonce'', JStr (rin_Nonce i)),
     (''timestamp'', JStr (rin_Timestamp i)), (''signature'', JStr (rin_Signature i)),
     (''pubkey_b64'', JStr (rin_PubKeyB64 i))]"

definition sign_json :: "SignInput \<Rightarrow> json" where
  "sign_json i = JObj [(''member_address'', JStr (sin_MemberAddr i)),
     (''decision'', JStr (decision_string (sin_Decision i))), (''nonce'', JStr (sin_Nonce i)),
     (''timestamp'', JStr (sin_Timestamp i)), (''signature'', JStr (sin_Signature i)),
     (''pubkey_b64'', JStr (sin_PubKeyB64 i))]"

definition defaultProposalTTL :: duration where
  "defaultProposalTTL = 48 * Hour"

definition pendingJRLimit :: int where
  "pendingJRLimit = 1000"

definition signing_bytes :: "env \<Rightarrow> json \<Rightarrow> bytes result" where
  "signing_bytes E v = (case canonicaljson_MarshalForSigning E v of None \<Rightarrow> Inl [] | Some m \<Rightarrow> Inr m)"

definition verifyMemberSig :: "proposal_cfg \<Rightarrow> string \<Rightarrow> string \<Rightarrow> bytes \<Rightarrow> nat list \<Rightarrow> unit result" where
  "verifyMemberSig cfg memberAddr pubKeyB64 message sigBytes =
     (if pubKeyB64 = [] then Inl [ErrBadRequest]
      else if \<not> pc_Verify cfg memberAddr pubKeyB64 message sigBytes then Inl [ErrUnauthorized]
      else Inr ())"

section \<open>Error mapping\<close>

definition mapLaunchDomainErr :: "goerror \<Rightarrow> goerror" where
  "mapLaunchDomainErr e =
     (if list_ex (errors_Is e) [ErrInvalidStatusTransition, ErrCommitteeMemberExists,
          ErrInsufficientValidators, ErrMembersNotEditable, ErrDominantVotingPower] then e @ [ErrConflict]
      else if errors_Is e ErrNotAMember then e @ [ErrNotFound]
      else if list_ex (errors_Is e) [ErrGenesisHashRequired, ErrCommitteeMemberNotFound,
          ErrInvalidCommitteeChange] then e @ [ErrBadRequest]
      else e)"

definition mapAllocationDomainErr :: "goerror \<Rightarrow> goerror" where
  "mapAllocationDomainErr e =
     (if errors_Is e ErrAllocationLocked \<or> errors_Is e ErrAllocationStaleHash then e @ [ErrConflict]
      else if errors_Is e ErrAllocationNotFound then e @ [ErrNotFound]
      else if errors_Is e ErrUnknownAllocationType \<or> errors_Is e ErrAllocationEmptyHash then e @ [ErrBadRequest]
      else e)"

definition mapJoinRequestDomainErr :: "goerror \<Rightarrow> goerror" where
  "mapJoinRequestDomainErr e = (if errors_Is e ErrInvalidJoinRequestStatus then e @ [ErrConflict] else e)"

definition mapProposalDomainErr :: "goerror \<Rightarrow> goerror" where
  "mapProposalDomainErr e = (if list_ex (errors_Is e) [ErrProposalNotPending, ErrProposalTTLExpired,
     ErrMemberAlreadySigned] then e @ [ErrConflict] else e)"

definition lift_map :: "(goerror \<Rightarrow> goerror) \<Rightarrow> 'a result \<Rightarrow> 'a io" where
  "lift_map f r = lift (case r of Inl e \<Rightarrow> Inl (f e) | Inr x \<Rightarrow> Inr x)"

lemma lift_map_Inr [simp]: "lift_map f r w = (Inr x, w') \<longleftrightarrow> r = Inr x \<and> w' = w"
  by (auto simp: lift_map_def split: sum.splits)

lemma read_only_lift_map [frame_intros]: "read_only (lift_map f r)"
  by (simp add: lift_map_def frame_intros)

lemma db_only_lift_map [frame_intros]: "db_only (lift_map f r)"
  by (simp add: lift_map_def frame_intros)

section \<open>Guards of a raise\<close>

definition hasPending :: "env \<Rightarrow> uuid \<Rightarrow> ActionType list \<Rightarrow> bool io" where
  "hasPending E lid actions = bnd (proposals_FindPending E) (\<lambda>pending.
     ret (list_ex (\<lambda>p. p_LaunchID p = lid \<and> p_ActionType p \<in> set actions) pending))"

definition checkGenesisFresh :: "env \<Rightarrow> Launch \<Rightarrow> unit io" where
  "checkGenesisFresh E l =
     bnd (ensure (l_FinalGenesisInputSetHash l \<noteq> []) [ErrGenesisStale, ErrConflict]) (\<lambda>_.
     bnd (Current E l) (\<lambda>current.
     ensure (current = l_FinalGenesisInputSetHash l) [ErrGenesisStale, ErrConflict]))"

definition latestRehearsal :: "env \<Rightarrow> proposal_cfg \<Rightarrow> uuid \<Rightarrow> RehearsalResult option io" where
  "latestRehearsal E cfg lid =
     (if \<not> pc_results cfg then ret None
      else bnd (results_FindByLaunch E lid) (\<lambda>rs. ret (case rs of [] \<Rightarrow> None | r # _ \<Rightarrow> Some r)))"

definition gate_reason_text :: "GateReason \<Rightarrow> string" where
  "gate_reason_text r = (case r of NoRehearsal \<Rightarrow> ''no rehearsal result recorded''
     | OutcomeIs _ \<Rightarrow> ''latest rehearsal outcome'' | StaleRehearsal \<Rightarrow> ''rehearsal is stale'')"

definition gateRehearsal :: "env \<Rightarrow> proposal_cfg \<Rightarrow> time \<Rightarrow> Launch \<Rightarrow> unit io" where
  "gateRehearsal E cfg now l =
     (if pc_rehearsalGate cfg = RehearsalGateOff then ret ()
      else if pc_rehearsalGate cfg = RehearsalGateRequired \<and> l_RehearsalServicePubKey l = []
        then fail [ErrRehearsalGateNoService, ErrConflict]
      else bnd (latestRehearsal E cfg (l_ID l)) (\<lambda>latest.
        bnd (Current E l) (\<lambda>current.
        case EvaluateRehearsalReady latest current of
          None \<Rightarrow> ret ()
        | Some reason \<Rightarrow>
          if pc_rehearsalGate cfg = RehearsalGateRequired then fail [ErrRehearsalGateUnsatisfied, ErrConflict]
          else emit now (uuid_String E (l_ID l))
                 (RehearsalGateNotSatisfied (l_ID l) (gate_reason_text reason)))))"

definition guardFinalizationRaise :: "env \<Rightarrow> proposal_cfg \<Rightarrow> time \<Rightarrow> Launch \<Rightarrow> ActionType \<Rightarrow> unit io" where
  "guardFinalizationRaise E cfg now l action =
     (if action = ActionPublishGenesis then
        bnd (checkGenesisFresh E l) (\<lambda>_.
        bnd (hasPending E (l_ID l) [ActionApproveValidator, ActionRemoveApprovedValidator]) (\<lambda>pending.
        bnd (ensure (\<not> pending) [ErrGenesisPublishInProgress, ErrConflict]) (\<lambda>_.
        gateRehearsal E cfg now l)))
      else if action = ActionApproveValidator \<or> action = ActionRemoveApprovedValidator then
        bnd (hasPending E (l_ID l) [ActionPublishGenesis]) (\<lambda>pending.
        ensure (\<not> pending) [ErrGenesisPublishInProgress, ErrConflict])
      else ret ())"

definition guardCancelLaunchRaise :: "ActionType \<Rightarrow> Status \<Rightarrow> unit result" where
  "guardCancelLaunchRaise action status =
     (if action \<noteq> ActionCancelLaunch then Inr ()
      else require (\<not> (status = StatusLaunched \<or> status = StatusCancelled)) [ErrConflict])"

definition extractJoinRequestID :: "bytes \<Rightarrow> string" where
  "extractJoinRequestID payload =
     (case and_then (Unmarshal_object payload) (string_field ''join_request_id'') of Inl _ \<Rightarrow> [] | Inr s \<Rightarrow> s)"

definition canonicalPayload :: "env \<Rightarrow> bytes \<Rightarrow> bytes" where
  "canonicalPayload E raw = (case canonicaljson_Marshal E raw of None \<Rightarrow> raw | Some c \<Rightarrow> c)"

definition conflictKey :: "env \<Rightarrow> ActionType \<Rightarrow> bytes \<Rightarrow> string" where
  "conflictKey E action payload =
     (if action \<in> {ActionApproveValidator, ActionRejectValidator, ActionRemoveApprovedValidator} \<and>
         extractJoinRequestID payload \<noteq> []
      then ''validator:'' @ extractJoinRequestID payload
      else action_string action @ '':'' @ canonicalPayload E payload)"

definition rejectConflictingPending :: "env \<Rightarrow> uuid \<Rightarrow> ActionType \<Rightarrow> bytes \<Rightarrow> unit io" where
  "rejectConflictingPending E lid action payload = bnd (proposals_FindPending E) (\<lambda>pending.
     ensure (\<not> list_ex (\<lambda>ex. p_LaunchID ex = lid \<and>
       conflictKey E (p_ActionType ex) (p_Payload ex) = conflictKey E action payload) pending) [ErrConflict])"

section \<open>Side effects of an executed proposal\<close>

definition committeeMemberAddrs :: "Committee \<Rightarrow> string list" where
  "committeeMemberAddrs c = map (AccountID_String \<circ> cm_Address) (c_Members c)"

definition ResolveThreshold :: "int \<Rightarrow> int \<Rightarrow> int option \<Rightarrow> int" where
  "ResolveThreshold currentM newN override = (case override of
     Some m \<Rightarrow> m
   | None \<Rightarrow> let m = (if currentM \<ge> newN then newN - 1 else currentM) in if m < 1 then 1 else m)"

definition saveLaunchAndProposal :: "env \<Rightarrow> Launch \<Rightarrow> Proposal \<Rightarrow> Proposal io" where
  "saveLaunchAndProposal E l p =
     bnd (launches_Save E l) (\<lambda>_. bnd (proposals_Save p) (\<lambda>_. ret p))"

definition applyApproveValidator :: "env \<Rightarrow> Launch \<Rightarrow> Proposal \<Rightarrow> Proposal io" where
  "applyApproveValidator E l p =
     bnd (lift (decode_approve_validator E (p_Payload p))) (\<lambda>pl.
     bnd (joinrequests_FindByID (vp_JoinRequestID pl)) (\<lambda>jr.
     bnd (lift_map mapJoinRequestDomainErr (Approve jr (p_ID p))) (\<lambda>jr'.
     bnd (lift (NewAccountID E (vp_OperatorAddress pl))) (\<lambda>operatorAddr.
     let l' = fst (RecordValidatorApproval E l operatorAddr (SelfDelegationAmount jr')) in
     bnd (joinrequests_Save E jr') (\<lambda>_.
     saveLaunchAndProposal E l' p)))))"

definition applyRejectValidator :: "env \<Rightarrow> Proposal \<Rightarrow> Proposal io" where
  "applyRejectValidator E p =
     bnd (lift (decode_reject_validator E (p_Payload p))) (\<lambda>pl.
     bnd (joinrequests_FindByID (vp_JoinRequestID pl)) (\<lambda>jr.
     bnd (lift_map mapJoinRequestDomainErr (Reject jr (vp_Reason pl))) (\<lambda>jr'.
     bnd (joinrequests_Save E jr') (\<lambda>_.
     bnd (proposals_Save p) (\<lambda>_. ret p)))))"

definition applyRemoveValidator :: "env \<Rightarrow> Launch \<Rightarrow> Proposal \<Rightarrow> Proposal io" where
  "applyRemoveValidator E l p =
     bnd (ensure (\<not> (l_Status l \<noteq> StatusWindowOpen \<and> l_Status l \<noteq> StatusWindowClosed)) [ErrBadRequest]) (\<lambda>_.
     bnd (lift (decode_reject_validator E (p_Payload p))) (\<lambda>pl.
     bnd (joinrequests_FindByID (vp_JoinRequestID pl)) (\<lambda>jr.
     bnd (lift_map mapJoinRequestDomainErr (Revoke jr (vp_Reason pl))) (\<lambda>jr'.
     bnd (lift (NewAccountID E (vp_OperatorAddress pl))) (\<lambda>operatorAddr.
     bnd (joinrequests_Save E jr') (\<lambda>_.
     saveLaunchAndProposal E (RemoveValidatorApproval l operatorAddr) p))))))"

definition applyPublishChainRecord :: "env \<Rightarrow> time \<Rightarrow> Launch \<Rightarrow> Proposal \<Rightarrow> Proposal io" where
  "applyPublishChainRecord E now l p =
     bnd (lift (decode_publish_chain_record (p_Payload p))) (\<lambda>h.
     bnd (ensure (l_InitialGenesisSHA256 l \<noteq> []) [ErrConflict]) (\<lambda>_.
     bnd (ensure (h = l_InitialGenesisSHA256 l) [ErrBadRequest]) (\<lambda>_.
     bnd (lift_map mapLaunchDomainErr (Publish now l h)) (\<lambda>l'.
     saveLaunchAndProposal E l' p))))"

definition expire_join_request :: "env \<Rightarrow> JoinRequest \<Rightarrow> unit io" where
  \<comment> \<open>a request that does not expire is logged and skipped\<close>
  "expire_join_request E jr = (case Expire jr of Inl _ \<Rightarrow> ret () | Inr jr' \<Rightarrow> joinrequests_Save E jr')"

definition applyCloseWindow :: "env \<Rightarrow> time \<Rightarrow> Launch \<Rightarrow> Proposal \<Rightarrow> Proposal io" where
  "applyCloseWindow E now l p =
     bnd (joinrequests_FindApprovedByLaunch E (l_ID l)) (\<lambda>approved.
     bnd (lift_map mapLaunchDomainErr (CloseWindow now l (int (length approved)))) (\<lambda>l'.
     bnd (joinrequests_FindByLaunch E (l_ID l') (Some JRPending) 1 pendingJRLimit) (\<lambda>(pending, _).
     bnd (each (expire_join_request E) pending) (\<lambda>_.
     saveLaunchAndProposal E l' p))))"

definition applyPublishGenesis :: "env \<Rightarrow> proposal_cfg \<Rightarrow> time \<Rightarrow> Launch \<Rightarrow> Proposal \<Rightarrow> Proposal io" where
  "applyPublishGenesis E cfg now l p =
     bnd (lift (decode_publish_genesis (p_Payload p))) (\<lambda>h.
     bnd (ensure (h = l_FinalGenesisSHA256 l) [ErrGenesisHashMismatch, ErrConflict]) (\<lambda>_.
     bnd (checkGenesisFresh E l) (\<lambda>_.
     bnd (if pc_rehearsalGate cfg = RehearsalGateRequired then gateRehearsal E cfg now l else ret ()) (\<lambda>_.
     bnd (lift_map mapLaunchDomainErr (PublishGenesis now l h)) (\<lambda>l'.
     saveLaunchAndProposal E l' p)))))"

definition applyUpdateGenesisTime :: "env \<Rightarrow> time \<Rightarrow> Launch \<Rightarrow> Proposal \<Rightarrow> Proposal io" where
  "applyUpdateGenesisTime E now l p =
     bnd (ensure (\<not> (l_Status l = StatusLaunched \<or> l_Status l = StatusCancelled)) [ErrBadRequest]) (\<lambda>_.
     bnd (lift (decode_update_genesis_time E (p_Payload p))) (\<lambda>(newTime, _).
     let l' = l\<lparr>l_Record := (l_Record l)\<lparr>r_GenesisTime := Some newTime\<rparr>\<rparr> in
     bnd (InvalidateByLaunch now (l_ID l')) (\<lambda>_. saveLaunchAndProposal E l' p)))"

definition applyApproveAllocationFile :: "env \<Rightarrow> time \<Rightarrow> Launch \<Rightarrow> Proposal \<Rightarrow> Proposal io" where
  "applyApproveAllocationFile E now l p =
     bnd (lift (decode_allocation (p_Payload p))) (\<lambda>(t, h).
     bnd (lift_map mapAllocationDomainErr (ApproveAllocationFile now l t h (p_ID p))) (\<lambda>l'.
     saveLaunchAndProposal E l' p))"

definition applyReplaceCommitteeMember :: "env \<Rightarrow> time \<Rightarrow> Launch \<Rightarrow> Proposal \<Rightarrow> Proposal io" where
  "applyReplaceCommitteeMember E now l p =
     bnd (lift (decode_replace_member (p_Payload p))) (\<lambda>pl.
     bnd (lift (NewAccountID E (rp_OldAddress pl))) (\<lambda>oldAddr.
     bnd (lift (NewAccountID E (rp_NewAddress pl))) (\<lambda>newAddr.
     bnd (lift_map mapLaunchDomainErr
            (ReplaceCommitteeMember now l oldAddr \<lparr>cm_Address = newAddr, cm_Moniker = rp_NewMoniker pl\<rparr>)) (\<lambda>l'.
     saveLaunchAndProposal E l' (RecordEvent p (bare (CommitteeMemberReplaced (l_ID l)
       (AccountID_String oldAddr) (AccountID_String newAddr)
       (committeeMemberAddrs (l_Committee l)) (committeeMemberAddrs (l_Committee l'))
       (c_ThresholdM (l_Committee l)) (c_ThresholdM (l_Committee l')))))))))"

definition applyReviseGenesis :: "env \<Rightarrow> time \<Rightarrow> Launch \<Rightarrow> Proposal \<Rightarrow> Proposal io" where
  "applyReviseGenesis E now l p =
     bnd (lift_map mapLaunchDomainErr (ReopenForRevision now l)) (\<lambda>l'.
     bnd (InvalidateByLaunch now (l_ID l')) (\<lambda>_. saveLaunchAndProposal E l' p))"

definition applyCancelLaunch :: "env \<Rightarrow> time \<Rightarrow> Launch \<Rightarrow> Proposal \<Rightarrow> Proposal io" where
  "applyCancelLaunch E now l p =
     bnd (lift_map mapLaunchDomainErr (Cancel now l)) (\<lambda>l'.
     bnd (if l_Status l = StatusGenesisReady then InvalidateByLaunch now (l_ID l') else ret ()) (\<lambda>_.
     saveLaunchAndProposal E l' p))"

definition applyExpandCommittee :: "env \<Rightarrow> time \<Rightarrow> Launch \<Rightarrow> Proposal \<Rightarrow> Proposal io" where
  "applyExpandCommittee E now l p =
     bnd (lift (decode_expand (p_Payload p))) (\<lambda>pl.
     bnd (lift (NewAccountID E (ep_Address pl))) (\<lambda>newAddr.
     let effectiveM = ResolveThreshold (c_ThresholdM (l_Committee l)) (c_TotalN (l_Committee l) + 1)
                        (ep_NewThresholdM pl) in
     bnd (ExpireAllPending (l_ID l)) (\<lambda>_.
     bnd (lift_map mapLaunchDomainErr
            (ExpandCommittee now l \<lparr>cm_Address = newAddr, cm_Moniker = ep_Moniker pl\<rparr> effectiveM)) (\<lambda>l'.
     saveLaunchAndProposal E l' (RecordEvent p (bare (CommitteeExpanded (l_ID l) (AccountID_String newAddr)
       (committeeMemberAddrs (l_Committee l)) (committeeMemberAddrs (l_Committee l'))
       (c_ThresholdM (l_Committee l)) (c_ThresholdM (l_Committee l')))))))))"

definition applyShrinkCommittee :: "env \<Rightarrow> time \<Rightarrow> Launch \<Rightarrow> Proposal \<Rightarrow> Proposal io" where
  "applyShrinkCommittee E now l p =
     bnd (lift (decode_shrink (p_Payload p))) (\<lambda>pl.
     bnd (lift (NewAccountID E (sp_RemoveAddress pl))) (\<lambda>removeAddr.
     let effectiveM = ResolveThreshold (c_ThresholdM (l_Committee l)) (c_TotalN (l_Committee l) - 1)
                        (sp_NewThresholdM pl) in
     bnd (ExpireAllPending (l_ID l)) (\<lambda>_.
     bnd (lift_map mapLaunchDomainErr (ShrinkCommittee now l removeAddr effectiveM)) (\<lambda>l'.
     saveLaunchAndProposal E l' (RecordEvent p (bare (CommitteeShrunk (l_ID l) (AccountID_String removeAddr)
       (committeeMemberAddrs (l_Committee l)) (committeeMemberAddrs (l_Committee l'))
       (c_ThresholdM (l_Committee l)) (c_ThresholdM (l_Committee l')))))))))"

definition applyProposal :: "env \<Rightarrow> proposal_cfg \<Rightarrow> time \<Rightarrow> Launch \<Rightarrow> Proposal \<Rightarrow> Proposal io" where
  "applyProposal E cfg now l p = (case p_ActionType p of
     ActionApproveValidator \<Rightarrow> applyApproveValidator E l p
   | ActionRejectValidator \<Rightarrow> applyRejectValidator E p
   | ActionRemoveApprovedValidator \<Rightarrow> applyRemoveValidator E l p
   | ActionPublishChainRecord \<Rightarrow> applyPublishChainRecord E now l p
   | ActionCloseApplicationWindow \<Rightarrow> applyCloseWindow E now l p
   | ActionPublishGenesis \<Rightarrow> applyPublishGenesis E cfg now l p
   | ActionUpdateGenesisTime \<Rightarrow> applyUpdateGenesisTime E now l p
   | ActionApproveAllocationFile \<Rightarrow> applyApproveAllocationFile E now l p
   | ActionReplaceCommitteeMember \<Rightarrow> applyReplaceCommitteeMember E now l p
   | ActionReviseGenesis \<Rightarrow> applyReviseGenesis E now l p
   | ActionExpandCommittee \<Rightarrow> applyExpandCommittee E now l p
   | ActionShrinkCommittee \<Rightarrow> applyShrinkCommittee E now l p
   | ActionCancelLaunch \<Rightarrow> applyCancelLaunch E now l p
   | ActionUnknown s \<Rightarrow> fail [])"

section \<open>Execution with the two-phase audit\<close>

fun dispatchEvents :: "time \<Rightarrow> string \<Rightarrow> event list \<Rightarrow> unit io" where
  "dispatchEvents now scope [] = ret ()"
| "dispatchEvents now scope (ev # evs) = bnd (events_Publish ev) (\<lambda>_ w.
     case writeAuditEvent now scope ev w of
       (Inl _, w') \<Rightarrow> (Inr (), w'\<lparr>w_exited := True\<rparr>)
     | (Inr _, w') \<Rightarrow> dispatchEvents now scope evs w')"

definition commit_execution :: "env \<Rightarrow> proposal_cfg \<Rightarrow> time \<Rightarrow> Launch \<Rightarrow> Proposal \<Rightarrow> Proposal io" where
  \<comment> \<open>the transaction, and the abort marker or the events after it\<close>
  "commit_execution E cfg now l p w =
     (let scope = uuid_String E (p_LaunchID p); act = action_string (p_ActionType p) in
      case InTransaction (applyProposal E cfg now l p) w of
        (Inl e, w1) \<Rightarrow> bnd (emit now scope (ProposalExecutionAborted (p_LaunchID p) (p_ID p) act e)) (\<lambda>_. fail e) w1
      | (Inr p', w1) \<Rightarrow> bnd (dispatchEvents now scope (fst (PopEvents p'))) (\<lambda>_. ret (snd (PopEvents p'))) w1)"

definition applyAndSave :: "env \<Rightarrow> proposal_cfg \<Rightarrow> time \<Rightarrow> Launch \<Rightarrow> Proposal \<Rightarrow> Proposal io" where
  \<comment> \<open>the intent is written first: without it nothing is executed\<close>
  "applyAndSave E cfg now l p =
     bnd (writeAuditEvent now (uuid_String E (p_LaunchID p))
            (bare (ProposalExecuting (p_LaunchID p) (p_ID p) (action_string (p_ActionType p))))) (\<lambda>_.
     commit_execution E cfg now l p)"

definition applyAllocationVeto :: "env \<Rightarrow> time \<Rightarrow> Launch \<Rightarrow> Proposal \<Rightarrow> Proposal io" where
  "applyAllocationVeto E now l p =
     bnd (lift (decode_allocation (p_Payload p))) (\<lambda>(t, h).
     case RejectAllocationFile now l t h of
       (_, False) \<Rightarrow> bnd (proposals_Save p) (\<lambda>_. ret p)
     | (l', True) \<Rightarrow>
       bnd (InTransaction (saveLaunchAndProposal E l' p)) (\<lambda>_.
       let p' = RecordEvent p (bare (AllocationFileRejected (l_ID l') t h)) in
       bnd (dispatchEvents now (uuid_String E (p_LaunchID p')) (fst (PopEvents p'))) (\<lambda>_.
       ret (snd (PopEvents p')))))"

section \<open>Handlers\<close>

definition Raise :: "env \<Rightarrow> proposal_cfg \<Rightarrow> time \<Rightarrow> uuid \<Rightarrow> uuid \<Rightarrow> RaiseInput \<Rightarrow> Proposal io" where
  "Raise E cfg now pid launchID input =
     bnd (Consume E now (rin_MemberAddr input) (rin_Nonce input)) (\<lambda>_.
     bnd (lift (validateTimestamp E now (rin_Timestamp input))) (\<lambda>_.
     bnd (lift (signing_bytes E (raise_json input))) (\<lambda>message.
     bnd (lift (decodeBase64Sig (rin_Signature input))) (\<lambda>sigBytes.
     bnd (launches_FindByID launchID) (\<lambda>l.
     bnd (wrapping [ErrBadRequest] (lift (NewAccountID E (rin_MemberAddr input)))) (\<lambda>memberAddr.
     bnd (ensure (HasMember (l_Committee l) memberAddr) [ErrForbidden]) (\<lambda>_.
     bnd (lift (verifyMemberSig cfg (rin_MemberAddr input) (rin_PubKeyB64 input) message sigBytes)) (\<lambda>_.
     bnd (guardFinalizationRaise E cfg now l (rin_ActionType input)) (\<lambda>_.
     bnd (lift (guardCancelLaunchRaise (rin_ActionType input) (l_Status l))) (\<lambda>_.
     bnd (rejectConflictingPending E launchID (rin_ActionType input) (rin_Payload input)) (\<lambda>_.
     bnd (wrapping [ErrBadRequest] (lift (NewSignature (rin_Signature input)))) (\<lambda>sig.
     bnd (wrapping [ErrBadRequest] (lift (proposal_New E pid launchID (rin_ActionType input)
            (rin_Payload input) memberAddr sig defaultProposalTTL now))) (\<lambda>p0.
     bnd (lift (CheckQuorum E p0 (c_ThresholdM (l_Committee l)) now)) (\<lambda>p.
     if p_Status p = PStatusExecuted then applyAndSave E cfg now l p
     else bnd (proposals_Save p) (\<lambda>_. ret p)))))))))))))))"

definition SignProposal :: "env \<Rightarrow> proposal_cfg \<Rightarrow> time \<Rightarrow> uuid \<Rightarrow> uuid \<Rightarrow> SignInput \<Rightarrow> Proposal io" where
  "SignProposal E cfg now launchID proposalID input =
     bnd (Consume E now (sin_MemberAddr input) (sin_Nonce input)) (\<lambda>_.
     bnd (lift (validateTimestamp E now (sin_Timestamp input))) (\<lambda>_.
     bnd (lift (signing_bytes E (sign_json input))) (\<lambda>message.
     bnd (lift (decodeBase64Sig (sin_Signature input))) (\<lambda>sigBytes.
     bnd (launches_FindByID launchID) (\<lambda>l.
     bnd (wrapping [ErrBadRequest] (lift (NewAccountID E (sin_MemberAddr input)))) (\<lambda>memberAddr.
     bnd (ensure (HasMember (l_Committee l) memberAddr) [ErrForbidden]) (\<lambda>_.
     bnd (lift (verifyMemberSig cfg (sin_MemberAddr input) (sin_PubKeyB64 input) message sigBytes)) (\<lambda>_.
     bnd (proposals_FindByID E proposalID) (\<lambda>p0.
     bnd (ensure (p_LaunchID p0 = launchID) [ErrNotFound]) (\<lambda>_.
     bnd (ensure (p_Status p0 = PStatusPendingSignatures) [ErrConflict]) (\<lambda>_.
     bnd (wrapping [ErrBadRequest] (lift (NewSignature (sin_Signature input)))) (\<lambda>sig.
     bnd (lift_map mapProposalDomainErr (Sign E p0 memberAddr (sin_Decision input) sig
            (c_ThresholdM (l_Committee l)) now)) (\<lambda>p.
     if p_Status p = PStatusExecuted then applyAndSave E cfg now l p
     else if p_Status p = PStatusVetoed \<and> p_ActionType p = ActionApproveAllocationFile
       then applyAllocationVeto E now l p
     else bnd (proposals_Save p) (\<lambda>_. ret p))))))))))))))"

fun expire_each :: "env \<Rightarrow> time \<Rightarrow> Proposal list \<Rightarrow> unit io" where
  "expire_each E now [] = ret ()"
| "expire_each E now (p # ps) =
     (case ExpireIfStale p now of
        (p', True) \<Rightarrow> bnd (proposals_Save p') (\<lambda>_. bnd (emit now (uuid_String E (p_LaunchID p'))
             (ProposalExpired (p_LaunchID p') (p_ID p') (action_string (p_ActionType p')))) (\<lambda>_. expire_each E now ps))
      | (_, False) \<Rightarrow> expire_each E now ps)"

definition ExpireStale :: "env \<Rightarrow> time \<Rightarrow> unit io" where
  "ExpireStale E now = bnd (proposals_FindPending E) (expire_each E now)"

definition GetProposalByID :: "env \<Rightarrow> uuid \<Rightarrow> uuid \<Rightarrow> Proposal io" where
  "GetProposalByID E launchID proposalID = bnd (proposals_FindByID E proposalID) (\<lambda>p.
     if p_LaunchID p \<noteq> launchID then fail [ErrNotFound] else ret p)"

end
