(* ===== verification/WorldInvariants.thy ===== *)
theory WorldInvariants
  imports ProposalService
begin

text \<open>
  Invariants of the world under every handler and every schedule of failures.  \<open>keeps I m\<close> says that
  \<open>m\<close> preserves \<open>I\<close> whether it succeeds or fails.  The locale \<open>world_invariant\<close> is the contract of an
  invariant with the single statements of the repositories; its lemmas lift it to the services.
\<close>

definition keeps :: "(world \<Rightarrow> bool) \<Rightarrow> 'a io \<Rightarrow> bool" where
  "keeps I m \<longleftrightarrow> (\<forall>w r w'. I w \<longrightarrow> m w = (r, w') \<longrightarrow> I w')"

named_theorems keeps_intros \<open>compositional rules for keeps\<close>

lemma keepsD: "keeps I m \<Longrightarrow> m w = (r, w') \<Longrightarrow> I w \<Longrightarrow> I w'"
  by (auto simp: keeps_def)

lemma keeps_basic [keeps_intros]:
  "keeps I (ret x)" "keeps I (fail e)" "keeps I (lift r)" "keeps I (ensure b e)" "keeps I (lift_map f r)"
  by (auto simp: keeps_def io_defs lift_map_def)

lemma keeps_bnd [keeps_intros]: "keeps I m \<Longrightarrow> (\<And>x. keeps I (f x)) \<Longrightarrow> keeps I (bnd m f)"
proof -
  assume m: "keeps I m" and f: "\<And>x. keeps I (f x)"
  have "I w'" if "I w" "bnd m f w = (r, w')" for w r w'
  proof (cases r)
    case (Inl e)
    with that(2) consider "m w = (Inl e, w')" | x w1 where "m w = (Inr x, w1)" "f x w1 = (Inl e, w')"
      by (auto simp: bnd_Inl)
    then show ?thesis using m f that(1) by cases (auto dest: keepsD)
  next
    case (Inr y)
    with that(2) obtain x w1 where "m w = (Inr x, w1)" "f x w1 = (Inr y, w')" by (auto simp: bnd_Inr)
    then show ?thesis using m f that(1) by (auto dest: keepsD)
  qed
  then show ?thesis by (auto simp: keeps_def)
qed

lemma keeps_wrapping [keeps_intros]: "keeps I m \<Longrightarrow> keeps I (wrapping s m)"
  by (auto simp: keeps_def wrapping_def split: prod.splits)

lemma keeps_if [keeps_intros]: "(b \<Longrightarrow> keeps I m) \<Longrightarrow> (\<not> b \<Longrightarrow> keeps I n) \<Longrightarrow> keeps I (if b then m else n)"
  by simp

lemma keeps_case_prod [keeps_intros]: "(\<And>x y. keeps I (f x y)) \<Longrightarrow> keeps I (case z of (x, y) \<Rightarrow> f x y)"
  by (cases z) simp

lemma keeps_case_bool [keeps_intros]: "keeps I m \<Longrightarrow> keeps I n \<Longrightarrow> keeps I (case b of True \<Rightarrow> m | False \<Rightarrow> n)"
  by (cases b) simp_all

lemma keeps_case_option [keeps_intros]:
  "keeps I n \<Longrightarrow> (\<And>x. keeps I (f x)) \<Longrightarrow> keeps I (case z of None \<Rightarrow> n | Some x \<Rightarrow> f x)"
  by (cases z) simp_all

lemma keeps_case_sum [keeps_intros]:
  "(\<And>x. keeps I (f x)) \<Longrightarrow> (\<And>x. keeps I (g x)) \<Longrightarrow> keeps I (case z of Inl x \<Rightarrow> f x | Inr x \<Rightarrow> g x)"
  by (cases z) simp_all

lemma keeps_each [keeps_intros]: "(\<And>x. keeps I (f x)) \<Longrightarrow> keeps I (each f xs)"
  by (induction xs) (auto intro: keeps_intros)

lemma keeps_handler [keeps_intros]:
  "keeps I m \<Longrightarrow> keeps I (\<lambda>w. case m w of (Inl _, w') \<Rightarrow> (Inl e, w') | (Inr u, w') \<Rightarrow> (Inr u, w'))"
  by (fastforce simp: keeps_def split: prod.splits sum.splits)

lemma keeps_ignore: "keeps I m \<Longrightarrow> keeps I (\<lambda>w. (Inr (), snd (m w)))"
proof -
  assume m: "keeps I m"
  have "I (snd (m w))" if "I w" for w
    using keepsD [OF m prod.collapse [symmetric] that] .
  then show ?thesis by (auto simp: keeps_def)
qed

locale world_invariant =
  fixes I :: "world \<Rightarrow> bool" and ok :: "Proposal \<Rightarrow> bool"
  assumes I_faults: "I w \<Longrightarrow> I (w\<lparr>w_faults := fs\<rparr>)"
    and I_audit: "I w \<Longrightarrow> I (w\<lparr>w_audit := w_audit w @ [e]\<rparr>)"
    and I_published: "I w \<Longrightarrow> I (w\<lparr>w_published := es\<rparr>)"
    and I_exited: "I w \<Longrightarrow> I (w\<lparr>w_exited := b\<rparr>)"
    and I_stored_files: "I w \<Longrightarrow> I (w\<lparr>w_files := sf\<rparr>)"
    and I_launch_row: "I w \<Longrightarrow> launches_update l (w_db w) = Inr (n, d) \<Longrightarrow> I (w\<lparr>w_db := d\<rparr>)"
    and I_launch_new: "I w \<Longrightarrow> launches_insert l (w_db w) = Inr (u, d) \<Longrightarrow> I (w\<lparr>w_db := d\<rparr>)"
    and I_allowlist: "I w \<Longrightarrow> I (w\<lparr>w_db := on_launch lid (\<lambda>r. r\<lparr>l_Allowlist := al r\<rparr>) (w_db w)\<rparr>)"
    and I_files: "I w \<Longrightarrow> I (w\<lparr>w_db := on_launch lid (\<lambda>r. r\<lparr>l_AllocationFiles := fls r\<rparr>) (w_db w)\<rparr>)"
    and I_committee: "I w \<Longrightarrow> I (w\<lparr>w_db := replace_committee E l (w_db w)\<rparr>)"
    and I_members: "I w \<Longrightarrow> I (w\<lparr>w_db := on_committee cid (\<lambda>c. c\<lparr>c_Members := ms c\<rparr>) (w_db w)\<rparr>)"
    and I_joinrequest: "I w \<Longrightarrow> joinrequests_upsert E jr (w_db w) = Inr (u, d) \<Longrightarrow> I (w\<lparr>w_db := d\<rparr>)"
    and I_proposal: "I w \<Longrightarrow> ok p \<Longrightarrow> I (w\<lparr>w_db := (w_db w)\<lparr>db_proposals :=
          upsert p_ID p_merge (p\<lparr>p_Signatures := [], p_events := []\<rparr>) (db_proposals (w_db w))\<rparr>\<rparr>)"
    and I_signature: "I w \<Longrightarrow> I (w\<lparr>w_db := add_signature pid s (w_db w)\<rparr>)"
    and I_expire: "I w \<Longrightarrow> I (w\<lparr>w_db := (w_db w)\<lparr>db_proposals := map (expire_pending lid) (db_proposals (w_db w))\<rparr>\<rparr>)"
    and I_readiness: "I w \<Longrightarrow> I (w\<lparr>w_db := (w_db w)\<lparr>db_readiness := upsert rc_ID rc_merge rc (db_readiness (w_db w))\<rparr>\<rparr>)"
    and I_invalidate: "I w \<Longrightarrow> I (w\<lparr>w_db := (w_db w)\<lparr>db_readiness := map (\<lambda>r.
          if rc_LaunchID r = lid \<and> rc_InvalidatedAt r = None then Invalidate r now else r) (db_readiness (w_db w))\<rparr>\<rparr>)"
    and I_nonce: "I w \<Longrightarrow> k \<notin> fst ` set (db_nonces (w_db w)) \<Longrightarrow>
          I (w\<lparr>w_db := (w_db w)\<lparr>db_nonces := db_nonces (w_db w) @ [(k, e')]\<rparr>\<rparr>)"
    and I_nonce_purge: "I w \<Longrightarrow> I (w\<lparr>w_db := (w_db w)\<lparr>db_nonces := filter keep (db_nonces (w_db w))\<rparr>\<rparr>)"
    and I_attempt: "I w \<Longrightarrow> I (w\<lparr>w_db := attempts_insert aid lid h now (w_db w)\<rparr>)"
    and I_attempt_row: "I w \<Longrightarrow> I (w\<lparr>w_db := attempts_update a (w_db w)\<rparr>)"
    and I_result: "I w \<Longrightarrow> I (w\<lparr>w_db := results_insert res (w_db w)\<rparr>)"
    and I_auth: "I w \<Longrightarrow> (auth_keys (db_auth (w_db w)) \<longrightarrow> auth_keys a') \<Longrightarrow> I (w\<lparr>w_db := (w_db w)\<lparr>db_auth := a'\<rparr>\<rparr>)"
    and ok_unexecuted: "p_Status p \<noteq> PStatusExecuted \<Longrightarrow> ok p"
    and ok_events: "ok p \<Longrightarrow> ok (RecordEvent p ev)"
begin

lemma keeps_reads [keeps_intros]: "keeps I (reads q)"
  by (auto simp: keeps_def reads_def I_faults split: list.splits bool.splits)

lemma keeps_read_only: "read_only m \<Longrightarrow> keeps I m"
  unfolding keeps_def read_only_def same_but_faults_def using I_faults by blast

lemma keeps_execs:
  assumes "\<And>w x d. I w \<Longrightarrow> f (w_db w) = Inr (x, d) \<Longrightarrow> I (w\<lparr>w_db := d\<rparr>)"
  shows "keeps I (execs f)"
proof -
  have "I (w\<lparr>w_faults := fs, w_db := d\<rparr>)" if "I w" "f (w_db w) = Inr (x, d)" for w fs x d
    using assms [of "w\<lparr>w_faults := fs\<rparr>" x d] I_faults [OF that(1), of fs] that(2) by simp
  note upd = this
  have "I (snd (execs f w))" if "I w" for w
  proof (cases "f (w_db w)")
    case (Inl e)
    then show ?thesis using I_faults [OF that] by (simp add: execs_def Let_def split: list.split bool.split)
  next
    case (Inr xd)
    obtain x d where xd: "xd = (x, d)" by force
    show ?thesis
      using I_faults [OF that] upd [OF that, of x d] Inr xd
      by (simp add: execs_def Let_def split: list.split bool.split)
  qed
  then show ?thesis unfolding keeps_def by (metis snd_conv)
qed

lemma keeps_stmt: "(\<And>w. I w \<Longrightarrow> I (w\<lparr>w_db := f (w_db w)\<rparr>)) \<Longrightarrow> keeps I (stmt f)"
  unfolding stmt_def by (rule keeps_execs) auto

lemma keeps_audit [keeps_intros]:
  "keeps I (audit_Append scope ev)" "keeps I (writeAuditEvent now scope ev)"
proof -
  have "I (w\<lparr>w_audit := w_audit w @ [e], w_faults := fs\<rparr>)" if "I w" for w fs e
    using I_faults [OF I_audit [OF that, of e], of fs] by simp
  then show *: "keeps I (audit_Append scope ev)" for scope ev
    by (auto simp: keeps_def audit_Append_def Let_def I_faults split: list.splits bool.splits)
  show "keeps I (writeAuditEvent now scope ev)"
    by (simp add: writeAuditEvent_def *)
qed

lemma keeps_emit [keeps_intros]: "keeps I (emit now scope ev)"
  using keepsD [OF keeps_audit(1)] by (auto simp: keeps_def emit_eq I_published) (metis prod.collapse I_published)

lemma keeps_dispatch [keeps_intros]: "keeps I (dispatchEvents now scope evs)"
proof (induction evs)
  case (Cons ev evs)
  have "keeps I (events_Publish ev)" by (auto simp: keeps_def events_Publish_def I_published)
  moreover have "keeps I (\<lambda>w. case writeAuditEvent now scope ev w of
       (Inl _, w') \<Rightarrow> (Inr (), w'\<lparr>w_exited := True\<rparr>)
     | (Inr _, w') \<Rightarrow> dispatchEvents now scope evs w')"
    unfolding keeps_def
  proof (intro allI impI)
    fix w r w'
    assume I: "I w" and run: "(case writeAuditEvent now scope ev w of
       (Inl _, w') \<Rightarrow> (Inr (), w'\<lparr>w_exited := True\<rparr>)
     | (Inr _, w') \<Rightarrow> dispatchEvents now scope evs w') = (r, w')"
    obtain a w1 where a: "writeAuditEvent now scope ev w = (a, w1)" by force
    have "I w1" using keepsD [OF keeps_audit(2) a I] .
    then show "I w'" using run a Cons.IH I_exited [of w1 True] by (cases a) (auto dest: keepsD)
  qed
  ultimately show ?case unfolding dispatchEvents.simps by (rule keeps_bnd)
qed (simp add: keeps_intros)

lemma keeps_launch_save [keeps_intros]: "keeps I (launches_Save E l)"
  unfolding launches_Save_def saveCommittee_def saveAllowlist_def saveAllocationFiles_def Let_def
  by (intro keeps_intros keeps_execs keeps_stmt)
    (auto intro: I_launch_row I_launch_new I_committee I_members I_allowlist I_files)

lemma keeps_joinrequest_save [keeps_intros]: "keeps I (joinrequests_Save E jr)"
  unfolding joinrequests_Save_def by (rule keeps_execs) (rule I_joinrequest)

lemma keeps_proposal_save [keeps_intros]: "ok p \<Longrightarrow> keeps I (proposals_Save p)"
  unfolding proposals_Save_def by (intro keeps_intros keeps_stmt) (auto intro: I_proposal I_signature)

lemma keeps_expire_all [keeps_intros]: "keeps I (ExpireAllPending lid)"
  unfolding ExpireAllPending_def by (rule keeps_stmt) (rule I_expire)

lemma keeps_readiness [keeps_intros]: "keeps I (InvalidateByLaunch now lid)" "keeps I (readiness_Save rc)"
  unfolding InvalidateByLaunch_def readiness_Save_def by (rule keeps_stmt, erule I_invalidate I_readiness)+

lemma keeps_rehearsal_rows [keeps_intros]:
  "keeps I (GetOrCreate aid lid h now)" "keeps I (attempts_Save a)" "keeps I (results_Save res)"
  unfolding GetOrCreate_def attempts_Save_def results_Save_def
  by (intro keeps_intros keeps_stmt I_attempt I_attempt_row I_result, assumption)+

lemma keeps_consume [keeps_intros]: "keeps I (Consume E now a n)"
proof -
  have "keeps I (stmt (\<lambda>d. d\<lparr>db_nonces := filter P (db_nonces d)\<rparr>))" for P
    by (rule keeps_stmt) (rule I_nonce_purge)
  then have "keeps I (\<lambda>w. (Inr (), snd (stmt (\<lambda>d. d\<lparr>db_nonces := filter P (db_nonces d)\<rparr>) w)))" for P
    by (rule keeps_ignore)
  moreover have "keeps I (execs (\<lambda>d. if (a, n) \<in> fst ` set (db_nonces d) then Inl []
      else Inr ((), d\<lparr>db_nonces := db_nonces d @ [((a, n), now + nonceTTL)]\<rparr>)))"
    by (rule keeps_execs) (auto split: if_splits intro: I_nonce)
  ultimately show ?thesis unfolding Consume_def by (intro keeps_intros)
qed

lemma keeps_finds [keeps_intros]:
  "keeps I (launches_FindByID lid)" "keeps I (joinrequests_FindByID jid)"
  "keeps I (joinrequests_FindApprovedByLaunch E lid)" "keeps I (joinrequests_FindByLaunch E lid s pg pp)"
  "keeps I (proposals_FindByID E pid)" "keeps I (proposals_FindPending E)" "keeps I (Current E l)"
  "keeps I (results_FindByLaunch E lid)" "keeps I tx_begin" "keeps I (launches_FindByStatus E st)"
  "keeps I (joinrequests_AllByLaunch E lid)" "keeps I (joinrequests_FindByOperator E lid addr)"
  "keeps I (joinrequests_FindActiveByValidator E lid addr)" "keeps I (joinrequests_CountBySubmitter E lid addr)"
  "keeps I (joinrequests_CountByConsensusPubKey lid key)" "keeps I (readiness_FindByOperator E lid addr)"
  "keeps I (attempts_FindByID aid)" "keeps I (Assemble E now l)"
  by (intro keeps_read_only frame_intros)+

lemma keeps_save_both [keeps_intros]: "ok p \<Longrightarrow> keeps I (saveLaunchAndProposal E l p)"
  unfolding saveLaunchAndProposal_def by (intro keeps_intros)

lemma keeps_guards [keeps_intros]:
  "keeps I (checkGenesisFresh E l)" "keeps I (hasPending E lid acts)" "keeps I (latestRehearsal E cfg lid)"
  "keeps I (rejectConflictingPending E lid act pl)"
  unfolding checkGenesisFresh_def hasPending_def latestRehearsal_def rejectConflictingPending_def
  by (intro keeps_intros)+

lemma keeps_gate [keeps_intros]: "keeps I (gateRehearsal E cfg now l)"
  unfolding gateRehearsal_def by (intro keeps_intros)

lemma keeps_finalization [keeps_intros]: "keeps I (guardFinalizationRaise E cfg now l act)"
  unfolding guardFinalizationRaise_def by (intro keeps_intros)

lemma keeps_expire_join_request [keeps_intros]: "keeps I (expire_join_request E jr)"
  unfolding expire_join_request_def by (intro keeps_intros)

lemma keeps_applyProposal [keeps_intros]: "ok p \<Longrightarrow> keeps I (applyProposal E cfg now l p)"
  unfolding applyProposal_def applyApproveValidator_def applyRejectValidator_def applyRemoveValidator_def
    applyPublishChainRecord_def applyCloseWindow_def applyPublishGenesis_def applyUpdateGenesisTime_def
    applyApproveAllocationFile_def applyReplaceCommitteeMember_def applyReviseGenesis_def
    applyExpandCommittee_def applyShrinkCommittee_def applyCancelLaunch_def Let_def
  by (cases "p_ActionType p") (auto intro!: keeps_intros ok_events)

lemma keeps_InTransaction:
  assumes "db_only m" "keeps I m"
  shows "keeps I (InTransaction m)"
  unfolding keeps_def
proof (intro allI impI)
  fix w r w'
  assume I: "I w" and run: "InTransaction m w = (r, w')"
  show "I w'"
  proof (cases r)
    case (Inl e)
    have "same_but_db w w'" using run db_only_InTransaction [OF assms(1)] by (auto simp: db_only_def)
    then obtain fs d where w': "w' = w\<lparr>w_faults := fs, w_db := d\<rparr>" by (auto simp: same_but_db_def)
    moreover have "w_db w' = w_db w" using run Inl InTransaction_Inl by blast
    ultimately have "w' = w\<lparr>w_faults := fs\<rparr>" by simp
    then show ?thesis using I_faults [OF I] by simp
  next
    case (Inr x)
    then obtain fs w2 fs' where m: "m (w\<lparr>w_faults := fs\<rparr>) = (Inr x, w2)" and w': "w' = w2\<lparr>w_faults := fs'\<rparr>"
      using run InTransaction_Inr [of m w x w'] unfolding same_but_faults_def by blast
    have "I w2" using keepsD [OF assms(2) m I_faults [OF I]] .
    then show ?thesis unfolding w' by (rule I_faults)
  qed
qed

end

section \<open>Transactions of the proposal service touch the database only\<close>

lemma db_only_cases [frame_intros]:
  "(b \<Longrightarrow> db_only m) \<Longrightarrow> (\<not> b \<Longrightarrow> db_only n) \<Longrightarrow> db_only (if b then m else n)"
  "(\<And>x y. db_only (f x y)) \<Longrightarrow> db_only (case z of (x, y) \<Rightarrow> f x y)"
  by (auto split: prod.splits)

lemma db_only_finds [frame_intros]:
  "db_only (launches_FindByID lid)" "db_only (joinrequests_FindByID jid)"
  "db_only (joinrequests_FindApprovedByLaunch E lid)" "db_only (joinrequests_FindByLaunch E lid s pg pp)"
  "db_only (proposals_FindByID E pid)" "db_only (proposals_FindPending E)" "db_only (Current E l)"
  "db_only (results_FindByLaunch E lid)"
  by (intro read_only_db_only frame_intros)+

lemma db_only_expire_join_request [frame_intros]: "db_only (expire_join_request E jr)"
  by (auto simp: expire_join_request_def split: sum.splits intro: frame_intros)

lemma db_only_fresh [frame_intros]: "db_only (checkGenesisFresh E l)" "db_only (saveLaunchAndProposal E l p)"
  "db_only (latestRehearsal E cfg lid)"
  unfolding checkGenesisFresh_def saveLaunchAndProposal_def latestRehearsal_def by (intro frame_intros)+

lemma db_only_required_gate [frame_intros]:
  "pc_rehearsalGate cfg = RehearsalGateRequired \<Longrightarrow> db_only (gateRehearsal E cfg now l)"
  unfolding gateRehearsal_def
  by (auto intro!: frame_intros split: option.split)

lemma db_only_applyProposal [frame_intros]: "db_only (applyProposal E cfg now l p)"
  unfolding applyProposal_def applyApproveValidator_def applyRejectValidator_def applyRemoveValidator_def
    applyPublishChainRecord_def applyCloseWindow_def applyPublishGenesis_def applyUpdateGenesisTime_def
    applyApproveAllocationFile_def applyReplaceCommitteeMember_def applyReviseGenesis_def
    applyExpandCommittee_def applyShrinkCommittee_def applyCancelLaunch_def Let_def
  by (cases "p_ActionType p") (auto intro!: frame_intros)

context world_invariant
begin

lemma keeps_commit_execution: "ok p \<Longrightarrow> keeps I (commit_execution E cfg now l p)"
proof -
  assume "ok p"
  then have t: "keeps I (InTransaction (applyProposal E cfg now l p))"
    by (intro keeps_InTransaction frame_intros keeps_intros)
  show ?thesis
    unfolding keeps_def
  proof (intro allI impI)
    fix w r w'
    assume I: "I w" and run: "commit_execution E cfg now l p w = (r, w')"
    obtain a w1 where a: "InTransaction (applyProposal E cfg now l p) w = (a, w1)" by force
    have w1: "I w1" using keepsD [OF t a I] .
    have k: "keeps I (bnd (emit now sc ab) (\<lambda>_. fail e) :: Proposal io)"
        "keeps I (bnd (dispatchEvents now sc (fst (PopEvents p'))) (\<lambda>_. ret (snd (PopEvents p'))))" for sc ab e p'
      by (intro keeps_intros)+
    show "I w'"
    proof (cases a)
      case (Inl e)
      then show ?thesis using run a keepsD [OF k(1) _ w1] by (simp add: commit_execution_def Let_def)
    next
      case (Inr p')
      then show ?thesis using run a keepsD [OF k(2) _ w1] by (simp add: commit_execution_def Let_def)
    qed
  qed
qed

lemma keeps_applyAndSave_ok: "ok p \<Longrightarrow> keeps I (applyAndSave E cfg now l p)"
  unfolding applyAndSave_def by (intro keeps_intros keeps_commit_execution)

end

text \<open>
  A governed invariant is also kept by the execution of a proposal that has just reached its quorum;
  then every handler of the proposal service keeps it.
\<close>

locale governed_invariant = world_invariant +
  assumes I_execute: "keeps I (applyAndSave E cfg now l p)"
begin

lemma keeps_veto: "p_Status p = PStatusVetoed \<Longrightarrow> keeps I (applyAllocationVeto E now l p)"
proof -
  assume "p_Status p = PStatusVetoed"
  then have okp: "ok p" by (intro ok_unexecuted) simp
  have t: "keeps I (InTransaction (saveLaunchAndProposal E l' p))" for l'
    by (intro keeps_InTransaction frame_intros keeps_intros okp)
  show ?thesis unfolding applyAllocationVeto_def Let_def by (intro keeps_intros t okp)
qed

lemma keeps_Raise: "keeps I (Raise E cfg now pid lid input)"
  unfolding Raise_def by (intro keeps_intros I_execute ok_unexecuted)

lemma keeps_SignProposal: "keeps I (SignProposal E cfg now lid pid input)"
  unfolding SignProposal_def by (intro keeps_intros I_execute keeps_veto ok_unexecuted) simp_all

lemma keeps_expire_each: "keeps I (expire_each E now ps)"
proof (induction ps)
  case (Cons p ps)
  have "ok (fst (ExpireIfStale p now))" if "snd (ExpireIfStale p now)"
    using that by (intro ok_unexecuted) (auto simp: ExpireIfStale_def split: if_splits)
  then show ?case
    by (cases "ExpireIfStale p now"; cases "snd (ExpireIfStale p now)") (auto intro!: keeps_intros Cons)
qed (simp add: keeps_intros)

lemma keeps_ExpireStale: "keeps I (ExpireStale E now)"
  unfolding ExpireStale_def by (intro keeps_intros keeps_expire_each)

end

end
