(* ===== verification/FileStore.thy ===== *)
theory FileStore
  imports Store
begin

text \<open>
  The file stores (internal/infrastructure/storage/fs): raw bytes in host mode, a sidecar with a URL
  and a digest in attestor mode.  A lookup prefers the sidecar.  A failed write leaves the file as it
  was.
\<close>

definition write_file :: "string \<Rightarrow> string \<Rightarrow> stored_file \<Rightarrow> unit io" where
  "write_file launchID filename f w = (case w_faults w of
     True # fs \<Rightarrow> (Inl [], w\<lparr>w_faults := fs\<rparr>)
   | _ \<Rightarrow> (Inr (), w\<lparr>w_faults := tl (w_faults w), w_files := fmupd (launchID, filename) f (w_files w)\<rparr>))"

definition writeBytes :: "string \<Rightarrow> string \<Rightarrow> bytes \<Rightarrow> unit io" where
  "writeBytes launchID filename data = write_file launchID filename (FileBytes data)"

definition writeRef :: "string \<Rightarrow> string \<Rightarrow> string \<Rightarrow> string \<Rightarrow> unit io" where
  "writeRef launchID filename url sha = write_file launchID filename (FileRef url sha)"

datatype StoredFileRef = External string string | LocalPath string string
  \<comment> \<open>\<open>ExternalURL\<close> with its \<open>SHA256\<close>, or the path of a local file\<close>

definition stored_ref :: "(string \<times> string, stored_file) fmap \<Rightarrow> string \<Rightarrow> string \<Rightarrow> string \<Rightarrow> StoredFileRef result" where
  "stored_ref files launchID refName fileName = (case fmlookup files (launchID, refName) of
     Some (FileRef url sha) \<Rightarrow> Inr (External url sha)
   | Some (FileBytes _) \<Rightarrow> Inl []
   | None \<Rightarrow> (case fmlookup files (launchID, fileName) of
       None \<Rightarrow> Inl [ErrNotFound] | Some _ \<Rightarrow> Inr (LocalPath launchID fileName)))"

definition getRef :: "string \<Rightarrow> string \<Rightarrow> string \<Rightarrow> StoredFileRef io" where
  "getRef launchID refName fileName w = (case w_faults w of
     True # fs \<Rightarrow> (Inl [], w\<lparr>w_faults := fs\<rparr>)
   | _ \<Rightarrow> (stored_ref (w_files w) launchID refName fileName, w\<lparr>w_faults := tl (w_faults w)\<rparr>))"

definition SaveInitial :: "string \<Rightarrow> bytes \<Rightarrow> unit io" where
  "SaveInitial launchID data = writeBytes launchID ''initial.json'' data"

definition SaveFinal :: "string \<Rightarrow> bytes \<Rightarrow> unit io" where
  "SaveFinal launchID data = writeBytes launchID ''final.json'' data"

definition SaveInitialRef :: "string \<Rightarrow> string \<Rightarrow> string \<Rightarrow> unit io" where
  "SaveInitialRef launchID url sha = writeRef launchID ''initial.ref'' url sha"

definition SaveFinalRef :: "string \<Rightarrow> string \<Rightarrow> string \<Rightarrow> unit io" where
  "SaveFinalRef launchID url sha = writeRef launchID ''final.ref'' url sha"

definition GetInitialRef :: "string \<Rightarrow> StoredFileRef io" where
  "GetInitialRef launchID = getRef launchID ''initial.ref'' ''initial.json''"

definition GetFinalRef :: "string \<Rightarrow> StoredFileRef io" where
  "GetFinalRef launchID = getRef launchID ''final.ref'' ''final.json''"

definition allocation_Save :: "string \<Rightarrow> string \<Rightarrow> bytes \<Rightarrow> unit io" where
  "allocation_Save launchID allocType data = writeBytes launchID (''alloc-'' @ allocType @ ''.data'') data"

definition allocation_SaveRef :: "string \<Rightarrow> string \<Rightarrow> string \<Rightarrow> string \<Rightarrow> unit io" where
  "allocation_SaveRef launchID allocType url sha = writeRef launchID (''alloc-'' @ allocType @ ''.ref'') url sha"

definition allocation_GetRef :: "string \<Rightarrow> string \<Rightarrow> StoredFileRef io" where
  "allocation_GetRef launchID allocType =
     getRef launchID (''alloc-'' @ allocType @ ''.ref'') (''alloc-'' @ allocType @ ''.data'')"

lemma write_file_result:
  "write_file lid n f w = (r, w') \<Longrightarrow> w_db w' = w_db w \<and> w_audit w' = w_audit w \<and>
     w_files w' = (case r of Inl _ \<Rightarrow> w_files w | Inr _ \<Rightarrow> fmupd (lid, n) f (w_files w))"
  by (auto simp: write_file_def split: list.splits bool.splits)

end
