(* ===== verification/LaunchService.thy ===== *)
theory LaunchService
  imports WorldInvariants FileStore
begin

text \<open>
  The launch service (services/launch.go): creation, genesis and allocation uploads, patching, the
  members list, the committee, opening and cancelling, and the visibility-gated reads.
\<close>

section \<open>Checks on uploaded genesis files\<close>

definition validateGenesisStructure :: "bytes \<Rightarrow> string \<Rightarrow> unit result" where
  "validateGenesisStructure data expectedChainID =
     and_then (Unmarshal_object data) (\<lambda>kvs.
     and_then (string_field ''chain_id'' kvs) (\<lambda>chainID.
     if chainID = [] then Inl []
     else if chainID \<noteq> expectedChainID then Inl []
     else Inr ()))"

fun all_results :: "('a \<Rightarrow> 'b result) \<Rightarrow> 'a list \<Rightarrow> 'b list result" where
  "all_results f [] = Inr []"
| "all_results f (x # xs) = and_then (f x) (\<lambda>y. and_then (all_results f xs) (\<lambda>ys. Inr (y # ys)))"

lemma all_results_length: "all_results f xs = Inr ys \<Longrightarrow> length ys = length xs"
  by (induction xs arbitrary: ys) (auto simp: result_simps)

definition nested_key :: "string \<Rightarrow> json \<Rightarrow> string result" where
  \<comment> \<open>the field \<open>key\<close> of a struct field of an array element\<close>
  "nested_key name v = and_then (json_object v) (\<lambda>kvs.
     and_then (struct_field name kvs) (string_field ''key''))"

definition extractGenTxPubKey :: "json \<Rightarrow> string result" where
  "extractGenTxPubKey tx =
     and_then (json_object tx) (\<lambda>kvs.
     and_then (struct_field ''body'' kvs) (\<lambda>body'.
     and_then (array_field ''messages'' body') (\<lambda>ms.
     and_then (all_results (nested_key ''pubkey'') ms) (\<lambda>keys.
     case keys of [] \<Rightarrow> Inl [] | k # _ \<Rightarrow> if k = [] then Inl [] else Inr k))))"

definition exactly_approved :: "string list \<Rightarrow> JoinRequest list \<Rightarrow> unit result" where
  \<comment> \<open>no duplicate key, as many keys as approved validators, and every approved key among them\<close>
  "exactly_approved keys approved =
     and_then (require (distinct keys) []) (\<lambda>_.
     and_then (require (length keys = length approved) []) (\<lambda>_.
     require (list_all (\<lambda>jr. jr_ConsensusPubKey jr \<in> set keys) approved) []))"

definition validateFinalGenesis :: "env \<Rightarrow> time \<Rightarrow> bytes \<Rightarrow> JoinRequest list \<Rightarrow> time result" where
  "validateFinalGenesis E now data approved =
     and_then (Unmarshal_object data) (\<lambda>g.
     and_then (time_field E ''genesis_time'' g) (\<lambda>genesisTime.
     and_then (struct_field ''app_state'' g) (\<lambda>app.
     and_then (and_then (struct_field ''genutil'' app) (array_field ''gen_txs'')) (\<lambda>genTxs.
     and_then (and_then (struct_field ''staking'' app) (array_field ''validators'')) (\<lambda>vs.
     and_then (all_results (nested_key ''consensus_pubkey'') vs) (\<lambda>stakingKeys.
     if time_IsZero genesisTime then Inl []
     else if \<not> genesisTime > now then Inl []
     else if genTxs = [] \<and> approved \<noteq> [] then
       and_then (require ([] \<notin> set stakingKeys) []) (\<lambda>_.
       and_then (exactly_approved stakingKeys approved) (\<lambda>_. Inr genesisTime))
     else if length genTxs \<noteq> length approved then Inl []
     else and_then (all_results extractGenTxPubKey genTxs) (\<lambda>keys.
       and_then (exactly_approved keys approved) (\<lambda>_. Inr genesisTime))))))))"

section \<open>Inputs\<close>

record launch_cfg =
  lc_urlValidator :: "string \<Rightarrow> bool"

record CreateLaunchInput =
  cl_Record :: ChainRecord
  cl_LaunchType :: LaunchType
  cl_Allowlist :: "AccountID list"
  cl_Committee :: Committee

record PatchLaunchInput =
  pt_ChainName :: "string option"
  pt_BinaryVersion :: "string option"
  pt_BinarySHA256 :: "string option"
  pt_RepoURL :: "string option"
  pt_RepoCommit :: "string option"
  pt_GenesisTime :: "time option"
  pt_MinValidatorCount :: "int option"
  pt_TotalSupply :: "string option"
  pt_Allowlist :: "AccountID list option"
  pt_MonitorRPCURL :: "string option"
  pt_RehearsalServicePubKey :: "string option"
  pt_RehearsalEndpoint :: "string option"

section \<open>Shared steps\<close>

definition is_committee_caller :: "env \<Rightarrow> Launch \<Rightarrow> string \<Rightarrow> bool" where
  \<comment> \<open>\<open>callerOp, err := NewAccountID(callerAddr); err == nil && HasMember(callerOp)\<close>\<close>
  "is_committee_caller E l callerAddr =
     (case NewAccountID E callerAddr of Inl _ \<Rightarrow> False | Inr a \<Rightarrow> HasMember (l_Committee l) a)"

definition is_lead_caller :: "env \<Rightarrow> Launch \<Rightarrow> string \<Rightarrow> bool" where
  "is_lead_caller E l callerAddr =
     (case NewAccountID E callerAddr of Inl _ \<Rightarrow> False | Inr a \<Rightarrow> AccountID_Equal (c_LeadAddress (l_Committee l)) a)"

definition requireCommittee :: "env \<Rightarrow> uuid \<Rightarrow> string \<Rightarrow> Launch io" where
  "requireCommittee E launchID callerAddr =
     bnd (launches_FindByID launchID) (\<lambda>l.
     bnd (ensure (is_committee_caller E l callerAddr) [ErrForbidden]) (\<lambda>_. ret l))"

definition validateEd25519PubKeyB64 :: "string \<Rightarrow> unit result" where
  "validateEd25519PubKeyB64 s =
     (if s = [] then Inr ()
      else case base64_DecodeString s of
        None \<Rightarrow> Inl [] | Some raw \<Rightarrow> if length raw \<noteq> 32 then Inl [] else Inr ())"

section \<open>Creation and uploads\<close>

definition CreateLaunch :: "env \<Rightarrow> time \<Rightarrow> uuid \<Rightarrow> CreateLaunchInput \<Rightarrow> Launch io" where
  "CreateLaunch E now lid input =
     bnd (wrapping [ErrBadRequest] (lift (launch_New E now lid (cl_Record input) (cl_LaunchType input)
            (cl_Committee input)))) (\<lambda>l0.
     let l = l0\<lparr>l_Allowlist := NewAllowlist (cl_Allowlist input)\<rparr> in
     bnd (launches_Save E l) (\<lambda>_.
     bnd (emit now (uuid_String E (l_ID l)) (LaunchCreated (l_ID l) (r_ChainID (l_Record l)) (l_LaunchType l)
            (AccountID_String (c_LeadAddress (l_Committee l))))) (\<lambda>_. ret l)))"

definition UploadInitialGenesis :: "env \<Rightarrow> time \<Rightarrow> uuid \<Rightarrow> bytes \<Rightarrow> string \<Rightarrow> string io" where
  "UploadInitialGenesis E now launchID genesisData callerAddr =
     bnd (requireCommittee E launchID callerAddr) (\<lambda>l.
     bnd (ensure (l_Status l = StatusDraft) [ErrConflict]) (\<lambda>_.
     bnd (wrapping [ErrBadRequest] (lift (validateGenesisStructure genesisData (r_ChainID (l_Record l))))) (\<lambda>_.
     let hash = sha256hex E genesisData in
     bnd (SaveInitial (uuid_String E launchID) genesisData) (\<lambda>_.
     bnd (launches_Save E (l\<lparr>l_InitialGenesisSHA256 := hash\<rparr>)) (\<lambda>_.
     bnd (emit now (uuid_String E launchID) (InitialGenesisUploaded launchID hash)) (\<lambda>_. ret hash))))))"

definition UploadFinalGenesis :: "env \<Rightarrow> time \<Rightarrow> uuid \<Rightarrow> bytes \<Rightarrow> string \<Rightarrow> string io" where
  "UploadFinalGenesis E now launchID genesisData callerAddr =
     bnd (requireCommittee E launchID callerAddr) (\<lambda>l.
     bnd (ensure (l_Status l = StatusWindowClosed) [ErrConflict]) (\<lambda>_.
     bnd (wrapping [ErrBadRequest] (lift (validateGenesisStructure genesisData (r_ChainID (l_Record l))))) (\<lambda>_.
     bnd (joinrequests_FindApprovedByLaunch E launchID) (\<lambda>approved.
     bnd (wrapping [ErrBadRequest] (lift (validateFinalGenesis E now genesisData approved))) (\<lambda>genesisTime.
     let hash = sha256hex E genesisData;
         l1 = l\<lparr>l_Record := (l_Record l)\<lparr>r_GenesisTime := Some genesisTime\<rparr>\<rparr> in
     bnd (SaveFinal (uuid_String E launchID) genesisData) (\<lambda>_.
     let l2 = l1\<lparr>l_FinalGenesisSHA256 := hash\<rparr> in
     bnd (Current E l2) (\<lambda>inputSetHash.
     bnd (launches_Save E (l2\<lparr>l_FinalGenesisInputSetHash := inputSetHash\<rparr>)) (\<lambda>_.
     bnd (emit now (uuid_String E launchID) (FinalGenesisUploaded launchID hash)) (\<lambda>_. ret hash)))))))))"

definition uploadGenesisRef ::
  "env \<Rightarrow> launch_cfg \<Rightarrow> Status \<Rightarrow> uuid \<Rightarrow> string \<Rightarrow> string \<Rightarrow> string \<Rightarrow>
   (string \<Rightarrow> string \<Rightarrow> string \<Rightarrow> unit io) \<Rightarrow> (Launch \<Rightarrow> string \<Rightarrow> Launch io) \<Rightarrow> unit io" where
  "uploadGenesisRef E cfg requiredStatus launchID genesisURL sha callerAddr saveFn setHashFn =
     bnd (requireCommittee E launchID callerAddr) (\<lambda>l.
     bnd (ensure (l_Status l = requiredStatus) [ErrConflict]) (\<lambda>_.
     bnd (ensure (lc_urlValidator cfg genesisURL) [ErrBadRequest]) (\<lambda>_.
     bnd (ensure (isSHA256HexLower sha) [ErrBadRequest]) (\<lambda>_.
     bnd (saveFn (uuid_String E launchID) genesisURL sha) (\<lambda>_.
     bnd (setHashFn l sha) (\<lambda>l'.
     launches_Save E l'))))))"

definition UploadInitialGenesisRef :: "env \<Rightarrow> launch_cfg \<Rightarrow> time \<Rightarrow> uuid \<Rightarrow> string \<Rightarrow> string \<Rightarrow> string \<Rightarrow> unit io" where
  "UploadInitialGenesisRef E cfg now launchID genesisURL sha callerAddr =
     bnd (uploadGenesisRef E cfg StatusDraft launchID genesisURL sha callerAddr SaveInitialRef
            (\<lambda>l hash. ret (l\<lparr>l_InitialGenesisSHA256 := hash\<rparr>))) (\<lambda>_.
     emit now (uuid_String E launchID) (InitialGenesisUploaded launchID sha))"

definition UploadFinalGenesisRef ::
  "env \<Rightarrow> launch_cfg \<Rightarrow> time \<Rightarrow> uuid \<Rightarrow> string \<Rightarrow> string \<Rightarrow> time \<Rightarrow> string \<Rightarrow> unit io" where
  "UploadFinalGenesisRef E cfg now launchID genesisURL sha genesisTime callerAddr =
     bnd (ensure (\<not> time_IsZero genesisTime) [ErrBadRequest]) (\<lambda>_.
     bnd (ensure (genesisTime > now) [ErrBadRequest]) (\<lambda>_.
     bnd (uploadGenesisRef E cfg StatusWindowClosed launchID genesisURL sha callerAddr SaveFinalRef
            (\<lambda>l hash. let l' = l\<lparr>l_FinalGenesisSHA256 := hash,
                              l_Record := (l_Record l)\<lparr>r_GenesisTime := Some genesisTime\<rparr>\<rparr> in
              bnd (Current E l') (\<lambda>inputSetHash. ret (l'\<lparr>l_FinalGenesisInputSetHash := inputSetHash\<rparr>)))) (\<lambda>_.
     emit now (uuid_String E launchID) (FinalGenesisUploaded launchID sha))))"

definition UploadAllocationFileBytes :: "env \<Rightarrow> time \<Rightarrow> uuid \<Rightarrow> string \<Rightarrow> bytes \<Rightarrow> string \<Rightarrow> string io" where
  "UploadAllocationFileBytes E now launchID allocType data callerAddr =
     bnd (ensure (ValidAllocationType allocType) [ErrBadRequest]) (\<lambda>_.
     bnd (requireCommittee E launchID callerAddr) (\<lambda>l.
     let hash = sha256hex E data in
     bnd (lift_map mapAllocationDomainErr (UploadAllocationFile now l allocType hash)) (\<lambda>l'.
     bnd (allocation_Save (uuid_String E launchID) allocType data) (\<lambda>_.
     bnd (launches_Save E l') (\<lambda>_.
     bnd (emit now (uuid_String E launchID) (AllocationFileUploaded launchID allocType hash)) (\<lambda>_. ret hash))))))"

definition UploadAllocationFileRef ::
  "env \<Rightarrow> launch_cfg \<Rightarrow> time \<Rightarrow> uuid \<Rightarrow> string \<Rightarrow> string \<Rightarrow> string \<Rightarrow> string \<Rightarrow> unit io" where
  "UploadAllocationFileRef E cfg now launchID allocType fileURL sha callerAddr =
     bnd (ensure (ValidAllocationType allocType) [ErrBadRequest]) (\<lambda>_.
     bnd (requireCommittee E launchID callerAddr) (\<lambda>l.
     bnd (ensure (lc_urlValidator cfg fileURL) [ErrBadRequest]) (\<lambda>_.
     bnd (ensure (isSHA256HexLower sha) [ErrBadRequest]) (\<lambda>_.
     bnd (lift_map mapAllocationDomainErr (UploadAllocationFile now l allocType sha)) (\<lambda>l'.
     bnd (allocation_SaveRef (uuid_String E launchID) allocType fileURL sha) (\<lambda>_.
     bnd (launches_Save E l') (\<lambda>_.
     emit now (uuid_String E launchID) (AllocationFileUploaded launchID allocType sha))))))))"

section \<open>Patching\<close>

definition hasDraftFields :: "PatchLaunchInput \<Rightarrow> bool" where
  "hasDraftFields i \<longleftrightarrow> pt_ChainName i \<noteq> None \<or> pt_BinaryVersion i \<noteq> None \<or> pt_BinarySHA256 i \<noteq> None \<or>
     pt_RepoURL i \<noteq> None \<or> pt_RepoCommit i \<noteq> None \<or> pt_GenesisTime i \<noteq> None \<or>
     pt_MinValidatorCount i \<noteq> None \<or> pt_TotalSupply i \<noteq> None \<or> pt_Allowlist i \<noteq> None"

definition formatTimePtr :: "env \<Rightarrow> time option \<Rightarrow> string" where
  "formatTimePtr E t = (case t of None \<Rightarrow> [] | Some x \<Rightarrow> time_FormatRFC3339 E x)"

fun join_comma :: "string list \<Rightarrow> string" where
  "join_comma [] = []" | "join_comma [s] = s" | "join_comma (s # ss) = s @ '','' @ join_comma ss"

definition formatAccountIDs :: "AccountID list \<Rightarrow> string" where
  "formatAccountIDs ids = join_comma (sort (map AccountID_String ids))"

definition change :: "string \<Rightarrow> string \<Rightarrow> string \<Rightarrow> (string \<times> string \<times> string) list" where
  \<comment> \<open>the \<open>record\<close> closure: a change is listed when the value differs\<close>
  "change field old new = (if old \<noteq> new then [(field, old, new)] else [])"

definition changed :: "'a option \<Rightarrow> string \<Rightarrow> ('a \<Rightarrow> string) \<Rightarrow> string \<Rightarrow> (string \<times> string \<times> string) list" where
  "changed v field show_new old = (case v of None \<Rightarrow> [] | Some x \<Rightarrow> change field old (show_new x))"

definition patch :: "'a option \<Rightarrow> 'a \<Rightarrow> 'a" where
  "patch v old = (case v of None \<Rightarrow> old | Some x \<Rightarrow> x)"

definition draft_record :: "ChainRecord \<Rightarrow> PatchLaunchInput \<Rightarrow> ChainRecord" where
  "draft_record r i = r\<lparr>r_ChainName := patch (pt_ChainName i) (r_ChainName r),
     r_BinaryVersion := patch (pt_BinaryVersion i) (r_BinaryVersion r),
     r_BinarySHA256 := patch (pt_BinarySHA256 i) (r_BinarySHA256 r),
     r_RepoURL := patch (pt_RepoURL i) (r_RepoURL r),
     r_RepoCommit := patch (pt_RepoCommit i) (r_RepoCommit r),
     r_GenesisTime := (case pt_GenesisTime i of None \<Rightarrow> r_GenesisTime r | Some t \<Rightarrow> Some t),
     r_MinValidatorCount := patch (pt_MinValidatorCount i) (r_MinValidatorCount r),
     r_TotalSupply := patch (pt_TotalSupply i) (r_TotalSupply r)\<rparr>"

definition applyDraftFields ::
  "env \<Rightarrow> Launch \<Rightarrow> PatchLaunchInput \<Rightarrow> Launch \<times> (string \<times> string \<times> string) list" where
  "applyDraftFields E l i = (let r = l_Record l in
     (l\<lparr>l_Record := draft_record r i,
        l_Allowlist := (case pt_Allowlist i of None \<Rightarrow> l_Allowlist l | Some as \<Rightarrow> NewAllowlist as)\<rparr>,
      changed (pt_ChainName i) ''chain_name'' id (r_ChainName r) @
      changed (pt_BinaryVersion i) ''binary_version'' id (r_BinaryVersion r) @
      changed (pt_BinarySHA256 i) ''binary_sha256'' id (r_BinarySHA256 r) @
      changed (pt_RepoURL i) ''repo_url'' id (r_RepoURL r) @
      changed (pt_RepoCommit i) ''repo_commit'' id (r_RepoCommit r) @
      changed (pt_GenesisTime i) ''genesis_time'' (\<lambda>t. formatTimePtr E (Some t)) (formatTimePtr E (r_GenesisTime r)) @
      changed (pt_MinValidatorCount i) ''min_validator_count'' Itoa (Itoa (r_MinValidatorCount r)) @
      changed (pt_TotalSupply i) ''total_supply'' id (r_TotalSupply r) @
      changed (pt_Allowlist i) ''allowlist'' formatAccountIDs (formatAccountIDs (Addresses (l_Allowlist l)))))"

definition PatchLaunch :: "env \<Rightarrow> launch_cfg \<Rightarrow> time \<Rightarrow> uuid \<Rightarrow> PatchLaunchInput \<Rightarrow> string \<Rightarrow> Launch io" where
  "PatchLaunch E cfg now launchID i callerAddr =
     bnd (requireCommittee E launchID callerAddr) (\<lambda>l.
     bnd (ensure (case pt_MonitorRPCURL i of None \<Rightarrow> True | Some u \<Rightarrow> lc_urlValidator cfg u) [ErrBadRequest]) (\<lambda>_.
     bnd (ensure (case pt_RehearsalEndpoint i of None \<Rightarrow> True | Some u \<Rightarrow> u = [] \<or> IsValidHTTPURL E u) [ErrBadRequest]) (\<lambda>_.
     bnd (case pt_RehearsalServicePubKey i of None \<Rightarrow> ret ()
          | Some k \<Rightarrow> wrapping [ErrBadRequest] (lift (validateEd25519PubKeyB64 k))) (\<lambda>_.
     let l1 = l\<lparr>l_MonitorRPCURL := patch (pt_MonitorRPCURL i) (l_MonitorRPCURL l),
                l_RehearsalEndpoint := patch (pt_RehearsalEndpoint i) (l_RehearsalEndpoint l),
                l_RehearsalServicePubKey := patch (pt_RehearsalServicePubKey i) (l_RehearsalServicePubKey l)\<rparr>;
         changes1 = changed (pt_MonitorRPCURL i) ''monitor_rpc_url'' id (l_MonitorRPCURL l) @
                    changed (pt_RehearsalEndpoint i) ''rehearsal_endpoint'' id (l_RehearsalEndpoint l) @
                    changed (pt_RehearsalServicePubKey i) ''rehearsal_service_pubkey'' id (l_RehearsalServicePubKey l) in
     bnd (if hasDraftFields i then
            bnd (ensure (l_Status l1 = StatusDraft) [ErrConflict]) (\<lambda>_.
            let (l2, changes2) = applyDraftFields E l1 i in
            bnd (wrapping [ErrBadRequest] (lift (validateChainRecord E (l_Record l2)))) (\<lambda>_.
            ret (l2, changes1 @ changes2)))
          else ret (l1, changes1)) (\<lambda>(l3, changes).
     bnd (launches_Save E l3) (\<lambda>_.
     bnd (if changes \<noteq> [] then emit now (uuid_String E (l_ID l3)) (LaunchPatched (l_ID l3) callerAddr changes)
          else ret ()) (\<lambda>_. ret l3)))))))"

section \<open>Members and committee\<close>

definition maxMemberLabelLen :: nat where
  "maxMemberLabelLen = 128"

definition AddMemberToLaunch :: "env \<Rightarrow> time \<Rightarrow> uuid \<Rightarrow> string \<Rightarrow> string \<Rightarrow> string \<Rightarrow> Member io" where
  "AddMemberToLaunch E now launchID address label callerAddr =
     bnd (requireCommittee E launchID callerAddr) (\<lambda>l.
     bnd (ensure (\<not> length label > maxMemberLabelLen) [ErrBadRequest]) (\<lambda>_.
     bnd (wrapping [ErrBadRequest] (lift (NewAccountID E address))) (\<lambda>addr.
     let m = \<lparr>mem_Address = addr, mem_Label = label, mem_AddedBy = callerAddr, mem_AddedAt = now\<rparr> in
     bnd (lift_map mapLaunchDomainErr (AddMember l m)) (\<lambda>l'.
     bnd (launches_Save E l') (\<lambda>_.
     bnd (emit now (uuid_String E (l_ID l')) (LaunchMemberAdded (l_ID l') (AccountID_String addr) label callerAddr)) (\<lambda>_.
     ret m))))))"

definition RemoveMemberFromLaunch :: "env \<Rightarrow> time \<Rightarrow> uuid \<Rightarrow> string \<Rightarrow> string \<Rightarrow> unit io" where
  "RemoveMemberFromLaunch E now launchID address callerAddr =
     bnd (requireCommittee E launchID callerAddr) (\<lambda>l.
     bnd (wrapping [ErrBadRequest] (lift (NewAccountID E address))) (\<lambda>addr.
     bnd (lift_map mapLaunchDomainErr (RemoveMember l addr)) (\<lambda>l'.
     bnd (launches_Save E l') (\<lambda>_.
     emit now (uuid_String E (l_ID l')) (LaunchMemberRemoved (l_ID l') (AccountID_String addr) callerAddr)))))"

definition ListMembers :: "env \<Rightarrow> uuid \<Rightarrow> string \<Rightarrow> Member list io" where
  "ListMembers E launchID callerAddr =
     bnd (requireCommittee E launchID callerAddr) (\<lambda>l. ret (Members (l_Allowlist l)))"

definition SetCommittee :: "env \<Rightarrow> time \<Rightarrow> uuid \<Rightarrow> Committee \<Rightarrow> string \<Rightarrow> unit io" where
  "SetCommittee E now launchID c callerAddr =
     bnd (launches_FindByID launchID) (\<lambda>l.
     bnd (ensure (is_lead_caller E l callerAddr) [ErrForbidden]) (\<lambda>_.
     bnd (ensure (l_Status l = StatusDraft) [ErrConflict]) (\<lambda>_.
     bnd (ensure (\<not> (c_ThresholdM c < 1 \<or> c_ThresholdM c > c_TotalN c)) [ErrBadRequest]) (\<lambda>_.
     bnd (ensure (int (length (c_Members c)) = c_TotalN c) [ErrBadRequest]) (\<lambda>_.
     bnd (ensure (AccountID_Equal (cm_Address (c_Members c ! 0)) (c_LeadAddress c)) [ErrLeadNotFirstMember, ErrBadRequest]) (\<lambda>_.
     let l' = l\<lparr>l_Committee := c\<rparr> in
     bnd (launches_Save E l') (\<lambda>_.
     emit now (uuid_String E (l_ID l')) (CommitteeSet (l_ID l') (committeeMemberAddrs c) (c_ThresholdM c) (c_TotalN c)
       (AccountID_String (c_LeadAddress c)) callerAddr))))))))"

definition IsCommitteeMember :: "env \<Rightarrow> uuid \<Rightarrow> string \<Rightarrow> bool io" where
  "IsCommitteeMember E launchID callerAddr =
     bnd (launches_FindByID launchID) (\<lambda>l. ret (is_committee_caller E l callerAddr))"

section \<open>Reads gated by visibility\<close>

definition GetLaunch :: "env \<Rightarrow> uuid \<Rightarrow> string \<Rightarrow> Launch io" where
  "GetLaunch E lid callerAddr =
     bnd (launches_FindByID lid) (\<lambda>l.
     if \<not> IsVisibleTo E l callerAddr then fail [ErrNotFound] else ret l)"

definition GetCommittee :: "env \<Rightarrow> uuid \<Rightarrow> string \<Rightarrow> Committee io" where
  "GetCommittee E lid callerAddr = bnd (GetLaunch E lid callerAddr) (\<lambda>l. ret (l_Committee l))"

record ChainHintOutput =
  h_ChainID :: string
  h_ChainName :: string
  h_Bech32Prefix :: string
  h_Denom :: string

definition GetChainHint :: "env \<Rightarrow> uuid \<Rightarrow> string \<Rightarrow> ChainHintOutput io" where
  "GetChainHint E lid callerAddr =
     bnd (launches_FindByID lid) (\<lambda>l.
     if \<not> IsVisibleTo E l callerAddr then fail [ErrNotFound]
     else ret \<lparr>h_ChainID = r_ChainID (l_Record l), h_ChainName = r_ChainName (l_Record l),
               h_Bech32Prefix = r_Bech32Prefix (l_Record l), h_Denom = r_Denom (l_Record l)\<rparr>)"

record LaunchDashboard =
  d_LaunchID :: uuid
  d_ChainID :: string
  d_Status :: Status
  d_GenesisTime :: "time option"
  d_Countdown :: "duration option"
  d_FinalGenesisSHA256 :: string
  d_InitialGenesisSHA256 :: string

definition GetDashboard :: "env \<Rightarrow> time \<Rightarrow> uuid \<Rightarrow> string \<Rightarrow> LaunchDashboard io" where
  "GetDashboard E now lid callerAddr =
     bnd (GetLaunch E lid callerAddr) (\<lambda>l.
     ret \<lparr>d_LaunchID = l_ID l, d_ChainID = r_ChainID (l_Record l), d_Status = l_Status l,
          d_GenesisTime = r_GenesisTime (l_Record l),
          d_Countdown = map_option (\<lambda>t. time_Sub t now) (r_GenesisTime (l_Record l)),
          d_FinalGenesisSHA256 = l_FinalGenesisSHA256 l, d_InitialGenesisSHA256 = l_InitialGenesisSHA256 l\<rparr>)"

definition in_membership_filter :: "string \<Rightarrow> db \<Rightarrow> Launch \<Rightarrow> bool" where
  \<comment> \<open>the joins of \<open>membershipFilterFrom\<close>: on the allowlist, or on any committee row of the launch\<close>
  "in_membership_filter account d r \<longleftrightarrow>
     fmlookup (al_members (l_Allowlist r)) account \<noteq> None \<or>
     list_ex (\<lambda>(lid, c). lid = l_ID r \<and> list_ex (\<lambda>m. acct (cm_Address m) = account) (c_Members c)) (db_committees d)"

definition launches_FindAll :: "env \<Rightarrow> string \<Rightarrow> int \<Rightarrow> int \<Rightarrow> (Launch list \<times> int) io" where
  "launches_FindAll E operatorAddr page perPage =
     (case NewAccountID E operatorAddr of
        Inl _ \<Rightarrow> ret ([], 0)
      | Inr a \<Rightarrow>
        bnd (reads (\<lambda>d. Inr (page_of page perPage (rev (sort_key (\<lambda>r. timeToStr E (l_CreatedAt r))
               (filter (in_membership_filter (Hex a) d) (db_launches d))))))) (\<lambda>rows.
        bnd (foldr (\<lambda>r rest. bnd (hydrate r) (\<lambda>l. bnd rest (\<lambda>ls. ret (l # ls)))) rows (ret [])) (\<lambda>ls.
        bnd (reads (\<lambda>d. Inr (int (length (filter (in_membership_filter (Hex a) d) (db_launches d)))))) (\<lambda>total.
        ret (ls, total)))))"

section \<open>Opening and cancelling\<close>

definition OpenWindowService :: "env \<Rightarrow> time \<Rightarrow> uuid \<Rightarrow> string \<Rightarrow> unit io" where
  "OpenWindowService E now launchID callerAddr =
     bnd (requireCommittee E launchID callerAddr) (\<lambda>l.
     bnd (if l_Status l = StatusDraft then
            bnd (ensure (l_InitialGenesisSHA256 l \<noteq> []) [ErrConflict]) (\<lambda>_.
            wrapping [ErrConflict] (lift (Publish now l (l_InitialGenesisSHA256 l))))
          else ret l) (\<lambda>l1.
     bnd (wrapping [ErrConflict] (lift (OpenWindow now l1))) (\<lambda>l2.
     bnd (launches_Save E l2) (\<lambda>_.
     emit now (uuid_String E (l_ID l2)) (WindowOpened (l_ID l2))))))"

definition CancelLaunch :: "env \<Rightarrow> time \<Rightarrow> uuid \<Rightarrow> string \<Rightarrow> unit io" where
  "CancelLaunch E now launchID callerAddr =
     bnd (launches_FindByID launchID) (\<lambda>l.
     bnd (ensure (is_lead_caller E l callerAddr) [ErrForbidden]) (\<lambda>_.
     bnd (case l_Status l of
            StatusDraft \<Rightarrow> ret ()
          | StatusPublished \<Rightarrow> ret ()
          | StatusWindowOpen \<Rightarrow> fail [ErrConflict]
          | StatusWindowClosed \<Rightarrow> fail [ErrConflict]
          | StatusGenesisReady \<Rightarrow> fail [ErrConflict]
          | StatusLaunched \<Rightarrow> fail [ErrInvalidStatusTransition, ErrConflict]
          | StatusCancelled \<Rightarrow> fail [ErrInvalidStatusTransition, ErrConflict]) (\<lambda>_.
     bnd (wrapping [ErrConflict] (lift (Cancel now l))) (\<lambda>l'.
     bnd (launches_Save E l') (\<lambda>_.
     emit now (uuid_String E (l_ID l')) (LaunchCancelled (l_ID l')))))))"

end
