(* ===== verification/JoinRequestService.thy ===== *)
theory JoinRequestService
  imports WorldInvariants "HOL-Library.Multiset"
begin

text \<open>
  The join-request service (services/joinrequest.go): the authenticated, membership-gated submission
  of a gentx, and the reads of a launch's requests.  The gentx validator (seedward-libs) and the
  signature verifier are parameters.
\<close>

section \<open>Configuration and inputs\<close>

definition maxJoinRequestsPerSubmitter :: int where
  "maxJoinRequestsPerSubmitter = 50"

record GentxParams =
  gp_ChainID :: string
  gp_BondDenom :: string
  gp_Bech32Prefix :: string
  gp_MaxCommissionRate :: string
  gp_MaxCommissionChangeRate :: string
  gp_MinSelfDelegation :: string

record GentxValidationOutcome =
  go_AllOK :: bool                 \<comment> \<open>\<open>gentxvalidate.AllOK(outcome.Results)\<close>\<close>
  go_Results :: "(string \<times> bool \<times> string) list"
  go_ConsensusPubKeyB64 :: string
  go_ValidatorAddress :: string

record join_cfg =
  jc_Verify :: "string \<Rightarrow> string \<Rightarrow> bytes \<Rightarrow> nat list \<Rightarrow> bool"
  jc_Validate :: "bytes \<Rightarrow> GentxParams \<Rightarrow> GentxValidationOutcome"

record SubmitInput =
  si_ChainID :: string
  si_OperatorAddress :: string
  si_PubKeyB64 :: string
  si_GentxJSON :: bytes
  si_PeerAddress :: string
  si_RPCEndpoint :: string
  si_Memo :: string
  si_Timestamp :: string
  si_Nonce :: string
  si_Signature :: string

definition submit_json :: "SubmitInput \<Rightarrow> json" where
  "submit_json i = JObj [(''chain_id'', JStr (si_ChainID i)),
     (''operator_address'', JStr (si_OperatorAddress i)), (''pubkey_b64'', JStr (si_PubKeyB64 i)),
     (''gentx'', case json_parse (si_GentxJSON i) of None \<Rightarrow> JNull | Some v \<Rightarrow> v),
     (''peer_address'', JStr (si_PeerAddress i)), (''rpc_endpoint'', JStr (si_RPCEndpoint i)),
     (''memo'', JStr (si_Memo i)), (''timestamp'', JStr (si_Timestamp i)),
     (''nonce'', JStr (si_Nonce i)), (''signature'', JStr (si_Signature i))]"

section \<open>Steps of a submission\<close>

fun requiresSelfDelegationFloor :: "LaunchType \<Rightarrow> bool" where
  "requiresSelfDelegationFloor LaunchTypeMainnet = True"
| "requiresSelfDelegationFloor LaunchTypeIncentivizedTestnet = True"
| "requiresSelfDelegationFloor LaunchTypePermissioned = True"
| "requiresSelfDelegationFloor LaunchTypeTestnet = False"
| "requiresSelfDelegationFloor (LaunchTypeOther _) = False"

definition gentx_params :: "Launch \<Rightarrow> GentxParams" where
  "gentx_params l = (let r = l_Record l in
     \<lparr>gp_ChainID = r_ChainID r, gp_BondDenom = r_Denom r, gp_Bech32Prefix = r_Bech32Prefix r,
      gp_MaxCommissionRate = cr_value (r_MaxCommissionRate r),
      gp_MaxCommissionChangeRate = cr_value (r_MaxCommissionChangeRate r),
      gp_MinSelfDelegation = (if requiresSelfDelegationFloor (l_LaunchType l) then r_MinSelfDelegation r else [])\<rparr>)"

definition validateGentx :: "join_cfg \<Rightarrow> Launch \<Rightarrow> bytes \<Rightarrow> (string \<times> string) result" where
  "validateGentx cfg l gentxJSON =
     (let outcome = jc_Validate cfg gentxJSON (gentx_params l) in
      if \<not> go_AllOK outcome then Inl [GentxInvalidError (go_Results outcome), ErrBadRequest]
      else Inr (go_ConsensusPubKeyB64 outcome, go_ValidatorAddress outcome))"

definition verifyRequestAuth :: "env \<Rightarrow> join_cfg \<Rightarrow> time \<Rightarrow> SubmitInput \<Rightarrow> unit io" where
  "verifyRequestAuth E cfg now input =
     bnd (Consume E now (si_OperatorAddress input) (si_Nonce input)) (\<lambda>_.
     bnd (lift (validateTimestamp E now (si_Timestamp input))) (\<lambda>_.
     bnd (lift (signing_bytes E (submit_json input))) (\<lambda>message.
     bnd (lift (decodeBase64Sig (si_Signature input))) (\<lambda>sigBytes.
     ensure (jc_Verify cfg (si_OperatorAddress input) (si_PubKeyB64 input) message sigBytes) [ErrUnauthorized]))))"

definition parseConnectionFields :: "env \<Rightarrow> SubmitInput \<Rightarrow> (PeerAddress \<times> RPCEndpoint \<times> Signature) result" where
  "parseConnectionFields E input =
     and_then (wrap_err [ErrBadRequest] (NewPeerAddress (si_PeerAddress input))) (\<lambda>peerAddr.
     and_then (if si_RPCEndpoint input \<noteq> [] then wrap_err [ErrBadRequest] (NewRPCEndpoint E (si_RPCEndpoint input))
               else Inr \<lparr>rpc_value = []\<rparr>) (\<lambda>rpcEndpoint.
     and_then (wrap_err [ErrBadRequest] (NewSignature (si_Signature input))) (\<lambda>sig.
     Inr (peerAddr, rpcEndpoint, sig))))"

definition optional :: "'a io \<Rightarrow> 'a option io" where
  \<comment> \<open>\<open>errors.Is(err, ports.ErrNotFound)\<close> is an answer, not a failure\<close>
  "optional m w = (case m w of
     (Inl e, w') \<Rightarrow> if errors_Is e ErrNotFound then (Inr None, w') else (Inl e, w')
   | (Inr x, w') \<Rightarrow> (Inr (Some x), w'))"

definition supersedePending :: "env \<Rightarrow> uuid \<Rightarrow> AccountID \<Rightarrow> unit io" where
  "supersedePending E launchID validatorAddr =
     bnd (optional (joinrequests_FindActiveByValidator E launchID (AccountID_String validatorAddr))) (\<lambda>found.
     case found of
       None \<Rightarrow> ret ()
     | Some existing \<Rightarrow>
       (case jr_Status existing of
          JRApproved \<Rightarrow> fail [ErrValidatorAlreadyApproved, ErrConflict]
        | JRPending \<Rightarrow> bnd (lift (Expire existing)) (joinrequests_Save E)
        | JRRejected \<Rightarrow> fail []
        | JRExpired \<Rightarrow> fail []))"

section \<open>Submission\<close>

definition Submit :: "env \<Rightarrow> join_cfg \<Rightarrow> time \<Rightarrow> uuid \<Rightarrow> uuid \<Rightarrow> SubmitInput \<Rightarrow> JoinRequest io" where
  "Submit E cfg now jid launchID input =
     bnd (verifyRequestAuth E cfg now input) (\<lambda>_.
     bnd (launches_FindByID launchID) (\<lambda>l.
     bnd (wrapping [ErrBadRequest] (lift (NewAccountID E (si_OperatorAddress input)))) (\<lambda>submitterAddr.
     bnd (ensure (IsVisibleToAddr l submitterAddr) [ErrNotFound]) (\<lambda>_.
     bnd (lift (validateGentx cfg l (si_GentxJSON input))) (\<lambda>(consensusPubKey, validatorAddrStr).
     bnd (wrapping [ErrBadRequest] (lift (NewAccountID E validatorAddrStr))) (\<lambda>validatorAddr.
     bnd (wrapping [ErrConflict] (lift (EnsureOpenForApplications l))) (\<lambda>_.
     bnd (ensure (\<not> now > r_GentxDeadline (l_Record l)) [ErrBadRequest]) (\<lambda>_.
     bnd (joinrequests_CountBySubmitter E launchID (si_OperatorAddress input)) (\<lambda>count.
     bnd (ensure (\<not> count \<ge> maxJoinRequestsPerSubmitter) [ErrSubmissionCapReached, ErrTooManyRequests]) (\<lambda>_.
     bnd (supersedePending E launchID validatorAddr) (\<lambda>_.
     bnd (lift (parseConnectionFields E input)) (\<lambda>(peerAddr, rpcEndpoint, sig).
     let jr = joinrequest_New jid launchID validatorAddr submitterAddr (si_GentxJSON input) peerAddr
                rpcEndpoint (si_Memo input) sig consensusPubKey now in
     bnd (joinrequests_CountByConsensusPubKey launchID (jr_ConsensusPubKey jr)) (\<lambda>cpCount.
     bnd (ensure (\<not> cpCount > 0) [ErrConsensusKeyAlreadyUsed, ErrConflict]) (\<lambda>_.
     bnd (joinrequests_Save E jr) (\<lambda>_.
     bnd (emit now (uuid_String E launchID) (JoinRequestSubmitted launchID (jr_ID jr)
            (AccountID_String (jr_OperatorAddress jr)) (AccountID_String (jr_SubmitterAddress jr)))) (\<lambda>_.
     ret jr))))))))))))))))"

section \<open>Reads\<close>

definition GetJoinRequestByID :: "env \<Rightarrow> uuid \<Rightarrow> string \<Rightarrow> bool \<Rightarrow> JoinRequest io" where
  "GetJoinRequestByID E jid callerAddr isCommitteeMember =
     bnd (joinrequests_FindByID jid) (\<lambda>jr.
     if isCommitteeMember then ret jr
     else case NewAccountID E callerAddr of
       Inl _ \<Rightarrow> fail [ErrForbidden]
     | Inr callerID \<Rightarrow>
       if \<not> AccountID_Equal (jr_OperatorAddress jr) callerID \<and>
          \<not> AccountID_Equal (jr_SubmitterAddress jr) callerID then fail [ErrForbidden]
       else ret jr)"

record SubmitterGroup =
  sg_SubmitterAddress :: AccountID
  sg_Label :: string
  sg_Requests :: "JoinRequest list"

definition submitter_groups :: "Launch \<Rightarrow> JoinRequest list \<Rightarrow> SubmitterGroup list" where
  \<comment> \<open>one group per submitter string, the keys sorted, the requests of a group in submission order\<close>
  "submitter_groups l reqs =
     (let keys = sort (remdups (map (AccountID_String \<circ> jr_SubmitterAddress) reqs)) in
      map (\<lambda>k. let rs = filter (\<lambda>j. AccountID_String (jr_SubmitterAddress j) = k) reqs in
        \<lparr>sg_SubmitterAddress = jr_SubmitterAddress (hd rs),
         sg_Label = Label (l_Allowlist l) (jr_SubmitterAddress (hd rs)),
         sg_Requests = rs\<rparr>) keys)"

definition ListGroupedBySubmitter :: "env \<Rightarrow> uuid \<Rightarrow> string \<Rightarrow> SubmitterGroup list io" where
  "ListGroupedBySubmitter E launchID callerAddr =
     bnd (launches_FindByID launchID) (\<lambda>l.
     bnd (ensure (case NewAccountID E callerAddr of Inl _ \<Rightarrow> False | Inr a \<Rightarrow> HasMember (l_Committee l) a) [ErrForbidden]) (\<lambda>_.
     bnd (joinrequests_AllByLaunch E launchID) (\<lambda>reqs.
     ret (submitter_groups l reqs))))"

section \<open>Properties of the grouping\<close>

text \<open>Every request is in exactly one group: the groups are a partition of the requests.\<close>

lemma submitter_groups_partition:
  "mset (concat (map sg_Requests (submitter_groups l reqs))) = mset reqs"
proof -
  let ?k = "\<lambda>j. AccountID_String (jr_SubmitterAddress j)"
  have part: "mset (concat (map (\<lambda>k. filter (\<lambda>j. ?k j = k) js) ks)) = mset (filter (\<lambda>j. ?k j \<in> set ks) js)"
    if "distinct ks" for ks js
    using that
  proof (induction ks)
    case (Cons k ks)
    have "mset (filter (\<lambda>j. ?k j = k) js) + mset (filter (\<lambda>j. ?k j \<in> set ks) js) =
        mset (filter (\<lambda>j. ?k j = k \<or> ?k j \<in> set ks) js)"
      using Cons.prems by (induction js) auto
    then show ?case using Cons by simp
  qed simp
  have "map sg_Requests (submitter_groups l reqs) =
      map (\<lambda>k. filter (\<lambda>j. ?k j = k) reqs) (sort (remdups (map ?k reqs)))"
    by (simp add: submitter_groups_def Let_def comp_def)
  then have "mset (concat (map sg_Requests (submitter_groups l reqs))) =
      mset (filter (\<lambda>j. ?k j \<in> set (sort (remdups (map ?k reqs)))) reqs)"
    by (simp only: part distinct_sort distinct_remdups)
  also have "filter (\<lambda>j. ?k j \<in> set (sort (remdups (map ?k reqs)))) reqs = reqs"
    by (rule filter_True) auto
  finally show ?thesis .
qed

lemma submitter_groups_keys:
  "g \<in> set (submitter_groups l reqs) \<Longrightarrow> sg_Requests g \<noteq> [] \<and>
     (\<forall>j \<in> set (sg_Requests g). AccountID_String (jr_SubmitterAddress j) = AccountID_String (sg_SubmitterAddress g))"
proof -
  assume "g \<in> set (submitter_groups l reqs)"
  then obtain k where k: "k \<in> AccountID_String ` jr_SubmitterAddress ` set reqs"
    and g: "sg_Requests g = filter (\<lambda>j. AccountID_String (jr_SubmitterAddress j) = k) reqs"
      "sg_SubmitterAddress g = jr_SubmitterAddress (hd (sg_Requests g))"
    by (force simp: submitter_groups_def Let_def)
  from k g(1) have ne: "sg_Requests g \<noteq> []" by (auto simp: filter_empty_conv)
  then have "hd (sg_Requests g) \<in> set (sg_Requests g)" by simp
  then show ?thesis using g ne by auto
qed

lemma submitter_groups_sorted:
  "sorted (map (AccountID_String \<circ> sg_SubmitterAddress) (submitter_groups l reqs)) \<and>
   distinct (map (AccountID_String \<circ> sg_SubmitterAddress) (submitter_groups l reqs))"
proof -
  let ?k = "\<lambda>j. AccountID_String (jr_SubmitterAddress j)"
  have "?k (hd (filter (\<lambda>j. ?k j = k) reqs)) = k" if "k \<in> ?k ` set reqs" for k
  proof -
    from that have "filter (\<lambda>j. ?k j = k) reqs \<noteq> []" by (auto simp: filter_empty_conv)
    then have "hd (filter (\<lambda>j. ?k j = k) reqs) \<in> set (filter (\<lambda>j. ?k j = k) reqs)" by (rule hd_in_set)
    then show ?thesis by simp
  qed
  then have "map (AccountID_String \<circ> sg_SubmitterAddress) (submitter_groups l reqs) =
      sort (remdups (map ?k reqs))"
    by (auto simp: submitter_groups_def Let_def comp_def intro!: map_idI)
  then show ?thesis by simp
qed

end
