(* ===== verification/ReadinessService.thy ===== *)
theory ReadinessService
  imports WorldInvariants
begin

text \<open>
  The readiness service (services/readiness.go): the signed confirmation of a validator, the peer
  list, and the dashboard with its float64 shares of the genesis voting power.
\<close>

section \<open>Confirmation\<close>

record readiness_cfg =
  rcfg_Verify :: "string \<Rightarrow> string \<Rightarrow> bytes \<Rightarrow> nat list \<Rightarrow> bool"

record ConfirmInput =
  ci_OperatorAddress :: string
  ci_PubKeyB64 :: string
  ci_GenesisHashConfirmed :: string
  ci_BinaryHashConfirmed :: string
  ci_Nonce :: string
  ci_Timestamp :: string
  ci_Signature :: string

definition confirm_json :: "ConfirmInput \<Rightarrow> json" where
  "confirm_json i = JObj [(''operator_address'', JStr (ci_OperatorAddress i)),
     (''pubkey_b64'', JStr (ci_PubKeyB64 i)),
     (''genesis_hash_confirmed'', JStr (ci_GenesisHashConfirmed i)),
     (''binary_hash_confirmed'', JStr (ci_BinaryHashConfirmed i)), (''nonce'', JStr (ci_Nonce i)),
     (''timestamp'', JStr (ci_Timestamp i)), (''signature'', JStr (ci_Signature i))]"

definition isNotFound :: "goerror \<Rightarrow> bool" where
  "isNotFound e = errors_Is e ErrNotFound"

definition approved_request :: "env \<Rightarrow> uuid \<Rightarrow> string \<Rightarrow> JoinRequest io" where
  \<comment> \<open>every error of the lookup becomes a forbidden\<close>
  "approved_request E launchID operatorAddr =
     bnd (\<lambda>w. case joinrequests_FindByOperator E launchID operatorAddr w of
            (Inl _, w') \<Rightarrow> (Inl [ErrForbidden], w') | (Inr jr, w') \<Rightarrow> (Inr jr, w')) (\<lambda>jr.
     bnd (ensure (jr_Status jr = JRApproved) [ErrJoinRequestNotApproved, ErrForbidden]) (\<lambda>_. ret jr))"

definition no_valid_confirmation :: "env \<Rightarrow> uuid \<Rightarrow> string \<Rightarrow> unit io" where
  "no_valid_confirmation E launchID operatorAddr w =
     (case readiness_FindByOperator E launchID operatorAddr w of
        (Inl e, w') \<Rightarrow> if isNotFound e then (Inr (), w') else (Inl e, w')
      | (Inr existing, w') \<Rightarrow>
          if IsValid existing then (Inl [ErrReadinessAlreadyConfirmed, ErrConflict], w') else (Inr (), w'))"

definition Confirm :: "env \<Rightarrow> readiness_cfg \<Rightarrow> time \<Rightarrow> uuid \<Rightarrow> uuid \<Rightarrow> ConfirmInput \<Rightarrow> ReadinessConfirmation io" where
  "Confirm E cfg now rid launchID input =
     bnd (Consume E now (ci_OperatorAddress input) (ci_Nonce input)) (\<lambda>_.
     bnd (lift (validateTimestamp E now (ci_Timestamp input))) (\<lambda>_.
     bnd (lift (signing_bytes E (confirm_json input))) (\<lambda>message.
     bnd (lift (decodeBase64Sig (ci_Signature input))) (\<lambda>sigBytes.
     bnd (ensure (rcfg_Verify cfg (ci_OperatorAddress input) (ci_PubKeyB64 input) message sigBytes) [ErrUnauthorized]) (\<lambda>_.
     bnd (launches_FindByID launchID) (\<lambda>l.
     bnd (ensure (l_Status l = StatusGenesisReady) [ErrLaunchNotGenesisReady, ErrConflict]) (\<lambda>_.
     bnd (approved_request E launchID (ci_OperatorAddress input)) (\<lambda>jr.
     bnd (ensure (ci_GenesisHashConfirmed input = l_FinalGenesisSHA256 l) [ErrBadRequest]) (\<lambda>_.
     bnd (ensure (\<not> (r_BinarySHA256 (l_Record l) \<noteq> [] \<and>
            ci_BinaryHashConfirmed input \<noteq> r_BinarySHA256 (l_Record l))) [ErrBadRequest]) (\<lambda>_.
     bnd (lift (NewAccountID E (ci_OperatorAddress input))) (\<lambda>operatorAddr.
     bnd (lift (NewSignature (ci_Signature input))) (\<lambda>sig.
     bnd (no_valid_confirmation E launchID (ci_OperatorAddress input)) (\<lambda>_.
     let rc = \<lparr>rc_ID = rid, rc_LaunchID = launchID, rc_JoinRequestID = jr_ID jr,
               rc_OperatorAddress = operatorAddr, rc_GenesisHashConfirmed = ci_GenesisHashConfirmed input,
               rc_BinaryHashConfirmed = ci_BinaryHashConfirmed input, rc_ConfirmedAt = now,
               rc_OperatorSignature = sig, rc_InvalidatedAt = None\<rparr> in
     bnd (readiness_Save rc) (\<lambda>_.
     bnd (emit now (uuid_String E launchID) (ReadinessConfirmed launchID (AccountID_String operatorAddr))) (\<lambda>_.
     ret rc)))))))))))))))"

section \<open>Peers and dashboard\<close>

definition GetPeers :: "env \<Rightarrow> uuid \<Rightarrow> (string \<times> string) list io" where
  \<comment> \<open>\<open>PeerInfo\<close> as a pair of operator address and peer address\<close>
  "GetPeers E launchID = bnd (joinrequests_FindApprovedByLaunch E launchID) (\<lambda>approved.
     ret (map (\<lambda>jr. (AccountID_String (jr_OperatorAddress jr), pa_value (jr_PeerAddress jr))) approved))"

record ValidatorReadiness =
  vr_JoinRequestID :: uuid
  vr_OperatorAddress :: string
  vr_Moniker :: string
  vr_VotingPowerPct :: rat
  vr_IsReady :: bool
  vr_LastConfirmedAt :: "time option"
  vr_GenesisHashConfirmed :: string
  vr_BinaryHashConfirmed :: string

datatype ThresholdStatus = StatusReachable | StatusConfirmed | StatusAtRisk

record ReadinessDashboard =
  rd_TotalApproved :: int
  rd_ConfirmedReady :: int
  rd_VotingPowerConfirmed :: rat
  rd_ThresholdStatus :: ThresholdStatus
  rd_PerValidator :: "ValidatorReadiness list"

definition confirmed_by :: "ReadinessConfirmation list \<Rightarrow> (string, ReadinessConfirmation) fmap" where
  "confirmed_by rcs = fold (\<lambda>rc m. if IsValid rc then fmupd (Hex (rc_OperatorAddress rc)) rc m else m) rcs fmempty"

definition stake_sum :: "JoinRequest list \<Rightarrow> 64 word" where
  "stake_sum jrs = sum_list (map SelfDelegationAmount jrs)"

definition stake_pct :: "64 word \<Rightarrow> 64 word \<Rightarrow> rat" where
  \<comment> \<open>\<open>float64(stake) / float64(totalStake) * 100\<close>, and 0 unless the total is positive\<close>
  "stake_pct s t = (if sint t > 0
     then fround 53 (fround 53 (fround 53 (of_int (sint s)) / fround 53 (of_int (sint t))) * 100) else 0)"

definition bftThreshold :: rat where
  "bftThreshold = fround 53 (200 / 3)"

definition threshold_status :: "rat \<Rightarrow> ThresholdStatus" where
  "threshold_status confirmedPct =
     (if confirmedPct \<ge> bftThreshold then StatusConfirmed
      else if confirmedPct < 50 then StatusAtRisk else StatusReachable)"

definition validator_readiness ::
  "(string, ReadinessConfirmation) fmap \<Rightarrow> 64 word \<Rightarrow> JoinRequest \<Rightarrow> ValidatorReadiness" where
  "validator_readiness confirmed totalStake jr =
     (let rc = fmlookup confirmed (Hex (jr_OperatorAddress jr)) in
      \<lparr>vr_JoinRequestID = jr_ID jr, vr_OperatorAddress = AccountID_String (jr_OperatorAddress jr),
       vr_Moniker = Moniker jr, vr_VotingPowerPct = stake_pct (SelfDelegationAmount jr) totalStake,
       vr_IsReady = (rc \<noteq> None), vr_LastConfirmedAt = map_option rc_ConfirmedAt rc,
       vr_GenesisHashConfirmed = (case rc of None \<Rightarrow> [] | Some r \<Rightarrow> rc_GenesisHashConfirmed r),
       vr_BinaryHashConfirmed = (case rc of None \<Rightarrow> [] | Some r \<Rightarrow> rc_BinaryHashConfirmed r)\<rparr>)"

definition readiness_dashboard :: "JoinRequest list \<Rightarrow> ReadinessConfirmation list \<Rightarrow> ReadinessDashboard" where
  "readiness_dashboard approved confirmations =
     (let confirmed = confirmed_by confirmations;
          totalStake = stake_sum approved;
          confirmedStake = stake_sum (filter (\<lambda>jr. fmlookup confirmed (Hex (jr_OperatorAddress jr)) \<noteq> None) approved);
          confirmedPct = stake_pct confirmedStake totalStake
      in \<lparr>rd_TotalApproved = int (length approved), rd_ConfirmedReady = int (fcard (fmdom confirmed)),
          rd_VotingPowerConfirmed = confirmedPct, rd_ThresholdStatus = threshold_status confirmedPct,
          rd_PerValidator = map (validator_readiness confirmed totalStake) approved\<rparr>)"

definition GetReadinessDashboard :: "env \<Rightarrow> uuid \<Rightarrow> ReadinessDashboard io" where
  "GetReadinessDashboard E launchID =
     bnd (joinrequests_FindApprovedByLaunch E launchID) (\<lambda>approved.
     bnd (readiness_FindByLaunch E launchID) (\<lambda>confirmations.
     ret (readiness_dashboard approved confirmations)))"

section \<open>The threshold\<close>

text \<open>
  The shares are rounded three times, yet up to a total of \<open>2 ^ 45\<close> the status is the exact
  comparison: more than two thirds, and less than one half.
\<close>

lemma bft_threshold_evaluates:
  "fround 53 (fround 53 (2 / 3) * 100) < bftThreshold"
  "bftThreshold \<le> fround 53 (fround 53 (2 / 3 + 1 / 2 ^ 47) * 100)"
  "fround 53 (fround 53 (1 / 2 - 1 / 2 ^ 46) * 100) < 50"
  "fround 53 (fround 53 (1 / 2) * 100) = 50"
  by code_simp+

lemma fround_of_int:
  assumes "0 < n" "n \<le> 2 ^ 52"
  shows "fround 53 (of_int n) = of_int n"
proof -
  let ?x = "of_int n :: rat" and ?e = "bin_exp (of_int n)"
  have x: "0 < ?x" using assms(1) by simp
  have lt: "?x < 2 powi 53"
  proof -
    have "?x \<le> of_int (2 ^ 52)" using assms(2) by (simp only: of_int_le_iff)
    also have "\<dots> < (2 powi 53 :: rat)" by simp
    finally show ?thesis .
  qed
  have "?e < 53"
  proof (rule ccontr)
    assume "\<not> ?e < 53"
    then have "(2::rat) powi 53 \<le> 2 powi ?e" by (intro power_int_increasing) auto
    then show False using bin_exp_bounds(1) [OF x] lt by linarith
  qed
  define k where "k = nat (52 - ?e)"
  have k: "?e - int 53 + 1 = - int k" using \<open>?e < 53\<close> by (simp add: k_def)
  have "?x / 2 powi (- int k) = of_int (n * 2 ^ k)" by (simp add: power_int_minus field_simps)
  then have "fround_pos 53 ?x = of_int (n * 2 ^ k) * 2 powi (- int k)"
    unfolding fround_pos_def Let_def k by (simp only: rne_of_int)
  also have "\<dots> = ?x" by (simp add: power_int_minus field_simps)
  finally show ?thesis using x by (simp add: fround_def)
qed

lemma pct_mono:
  assumes "0 < x" "x \<le> (y::rat)"
  shows "fround 53 (fround 53 x * 100) \<le> fround 53 (fround 53 y * 100)"
proof -
  have "x / 2 ^ 53 \<le> x / 2" using assms(1) by simp
  then have "0 < fround 53 x" using fround_lower [OF assms(1), of 53] assms(1) by simp
  moreover have "fround 53 x \<le> fround 53 y" using assms by (intro fround_mono_pos) simp_all
  ultimately show ?thesis by (intro fround_mono_pos) simp_all
qed

lemma share_bounds:
  fixes c t :: int
  assumes "0 < t" "t \<le> 2 ^ 45"
  shows "2 * t < 3 * c \<Longrightarrow> 2 / 3 + 1 / 2 ^ 47 \<le> (of_int c / of_int t :: rat)"
    and "\<not> 2 * t < 3 * c \<Longrightarrow> (of_int c / of_int t :: rat) \<le> 2 / 3"
    and "2 * c < t \<Longrightarrow> (of_int c / of_int t :: rat) \<le> 1 / 2 - 1 / 2 ^ 46"
    and "\<not> 2 * c < t \<Longrightarrow> 1 / 2 \<le> (of_int c / of_int t :: rat)"
proof -
  have t: "0 < (of_int t :: rat)" "(of_int t :: rat) \<le> of_int (2 ^ 45)"
    using assms by (simp, simp only: of_int_le_iff)
  show "2 / 3 + 1 / 2 ^ 47 \<le> (of_int c / of_int t :: rat)" if "2 * t < 3 * c"
  proof -
    from that have "of_int (2 * t + 1) \<le> (of_int (3 * c) :: rat)" by (simp only: of_int_le_iff)
    then show ?thesis using t by (simp add: field_simps)
  qed
  show "(of_int c / of_int t :: rat) \<le> 2 / 3" if "\<not> 2 * t < 3 * c"
  proof -
    from that have "of_int (3 * c) \<le> (of_int (2 * t) :: rat)" by (simp only: of_int_le_iff)
    then show ?thesis using t by (simp add: field_simps)
  qed
  show "(of_int c / of_int t :: rat) \<le> 1 / 2 - 1 / 2 ^ 46" if "2 * c < t"
  proof -
    from that have "of_int (2 * c + 1) \<le> (of_int t :: rat)" by (simp only: of_int_le_iff)
    then show ?thesis using t by (simp add: field_simps)
  qed
  show "1 / 2 \<le> (of_int c / of_int t :: rat)" if "\<not> 2 * c < t"
  proof -
    from that have "of_int t \<le> (of_int (2 * c) :: rat)" by (simp only: of_int_le_iff)
    then show ?thesis using t by (simp add: field_simps)
  qed
qed

lemma share_status:
  fixes c t :: int
  assumes "0 < c" "0 < t" "t \<le> 2 ^ 45"
  shows "threshold_status (fround 53 (fround 53 (of_int c / of_int t) * 100)) =
    (if 2 * t < 3 * c then StatusConfirmed else if 2 * c < t then StatusAtRisk else StatusReachable)"
proof -
  let ?q = "of_int c / of_int t :: rat"
  let ?p = "fround 53 (fround 53 ?q * 100)"
  have q: "0 < ?q" using assms by simp
  note B = share_bounds [OF assms(2,3), of c] and V = bft_threshold_evaluates
  have "bftThreshold \<le> ?p \<longleftrightarrow> 2 * t < 3 * c"
    using pct_mono [OF _ B(1)] pct_mono [OF q B(2)] V(1,2) by fastforce
  moreover have "?p < 50 \<longleftrightarrow> 2 * c < t"
    using pct_mono [OF q B(3)] pct_mono [OF _ B(4)] V(3,4) by fastforce
  ultimately show ?thesis by (simp add: threshold_status_def)
qed

lemma stake_status:
  assumes "0 < sint s" "0 < sint t" "sint s \<le> 2 ^ 45" "sint t \<le> 2 ^ 45"
  shows "threshold_status (stake_pct s t) =
    (if 2 * sint t < 3 * sint s then StatusConfirmed else if 2 * sint s < sint t then StatusAtRisk else StatusReachable)"
proof -
  obtain c d where cd: "sint s = c" "sint t = d" by blast
  have "fround 53 (of_int c) = of_int c" "fround 53 (of_int d) = of_int d"
    using assms unfolding cd by (simp_all add: fround_of_int)
  then show ?thesis
    using share_status [of c d] assms unfolding stake_pct_def cd by simp
qed

lemma confirmed_by_lookup:
  "fmlookup (confirmed_by rcs) a \<noteq> None \<longleftrightarrow> (\<exists>rc \<in> set rcs. IsValid rc \<and> Hex (rc_OperatorAddress rc) = a)"
proof -
  have "fmlookup (fold (\<lambda>rc m. if IsValid rc then fmupd (Hex (rc_OperatorAddress rc)) rc m else m) rcs m) a \<noteq> None \<longleftrightarrow>
      fmlookup m a \<noteq> None \<or> (\<exists>rc \<in> set rcs. IsValid rc \<and> Hex (rc_OperatorAddress rc) = a)" for m
    by (induction rcs arbitrary: m) auto
  from this [of fmempty] show ?thesis by (simp add: confirmed_by_def)
qed

end
