(* ===== verification/RehearsalService.thy ===== *)
theory RehearsalService
  imports LaunchService
begin

text \<open>
  The rehearsal bridge of the launch service (services/rehearsal_bridge.go, rehearsal_results.go):
  serving and leasing the input set, recording a signed result against an attempt the service itself
  minted, and the committee's read-back and reset.
\<close>

section \<open>Claiming a run\<close>

definition defaultRehearsalLeaseTTL :: duration where
  "defaultRehearsalLeaseTTL = 45 * Minute"

record rehearsal_cfg =
  rh_leaseTTL :: duration
  rh_Verify :: "nat list \<Rightarrow> bytes \<Rightarrow> nat list \<Rightarrow> bool"   \<comment> \<open>\<open>ed25519.Verify\<close>: key, message, signature\<close>

definition PreviewRehearsalInput :: "env \<Rightarrow> time \<Rightarrow> uuid \<Rightarrow> RehearsalInput io" where
  "PreviewRehearsalInput E now launchID = bnd (launches_FindByID launchID) (Assemble E now)"

definition derefTime :: "time option \<Rightarrow> time" where
  "derefTime t = (case t of None \<Rightarrow> 0 | Some x \<Rightarrow> x)"

definition ClaimRehearsalRun :: "env \<Rightarrow> rehearsal_cfg \<Rightarrow> time \<Rightarrow> uuid \<Rightarrow> uuid \<Rightarrow> string \<Rightarrow> RehearsalInput io" where
  "ClaimRehearsalRun E cfg now aid launchID runnerID =
     bnd (launches_FindByID launchID) (\<lambda>l.
     bnd (Assemble E now l) (\<lambda>i.
     bnd (GetOrCreate aid (l_ID l) (ri_InputSetHash i) now) (\<lambda>attempt.
     bnd (lift (case Claim attempt runnerID now (now + rh_leaseTTL cfg) of
            Inl e \<Rightarrow> if errors_Is e ErrAttemptLeased then Inl [RehearsalLeasedError (ra_RunnerID attempt) (derefTime (ra_ClaimedAt attempt))
                     (derefTime (ra_LeaseExpiresAt attempt)), ErrConflict] else Inl e
          | Inr a \<Rightarrow> Inr a)) (\<lambda>attempt'.
     bnd (attempts_Save attempt') (\<lambda>_.
     bnd (emit now (uuid_String E (l_ID l)) (RehearsalRunClaimed (l_ID l) (ra_ID attempt') runnerID)) (\<lambda>_.
     ret (i\<lparr>ri_AttemptID := ra_ID attempt'\<rparr>)))))))"

section \<open>Recording a result\<close>

record RehearsalResultFact =
  f_SchemaVersion :: int
  f_LaunchID :: string
  f_InputSetHash :: string
  f_AttemptID :: "string option"
  f_Outcome :: string
  f_FailedStep :: "string option"
  f_Summary :: string
  f_Steps :: "RehearsalResultStep list"
  f_EngineVersion :: string
  f_BinaryName :: string
  f_BinaryVersion :: string
  f_BinarySHA256 :: string
  f_Validators :: int
  f_BlocksAdvanced :: int
  f_StartedAt :: string
  f_FinishedAt :: string
  f_ServicePubkey :: string
  f_Signature :: string

definition str_or_null :: "string option \<Rightarrow> json" where
  "str_or_null s = (case s of None \<Rightarrow> JNull | Some x \<Rightarrow> JStr x)"

definition fact_json :: "RehearsalResultFact \<Rightarrow> json" where
  "fact_json f = JObj [
     (''schema_version'', JNum (Itoa (f_SchemaVersion f))), (''launch_id'', JStr (f_LaunchID f)),
     (''input_set_hash'', JStr (f_InputSetHash f)), (''attempt_id'', str_or_null (f_AttemptID f)),
     (''outcome'', JStr (f_Outcome f)), (''failed_step'', str_or_null (f_FailedStep f)),
     (''summary'', JStr (f_Summary f)),
     (''steps'', JArr (map (\<lambda>s. JObj [(''name'', JStr (rs_Name s)), (''status'', JStr (rs_Status s)),
        (''detail'', JStr (rs_Detail s))]) (f_Steps f))),
     (''rehearsal'', JObj [
        (''engine_version'', JStr (f_EngineVersion f)), (''binary_name'', JStr (f_BinaryName f)),
        (''binary_version'', JStr (f_BinaryVersion f)), (''binary_sha256'', JStr (f_BinarySHA256 f)),
        (''validators'', JNum (Itoa (f_Validators f))),
        (''blocks_advanced'', JNum (Itoa (f_BlocksAdvanced f)))]),
     (''started_at'', JStr (f_StartedAt f)), (''finished_at'', JStr (f_FinishedAt f)),
     (''service_pubkey'', JStr (f_ServicePubkey f)), (''signature'', JStr (f_Signature f))]"

definition verifyFactSignature :: "env \<Rightarrow> rehearsal_cfg \<Rightarrow> Launch \<Rightarrow> RehearsalResultFact \<Rightarrow> unit result" where
  "verifyFactSignature E cfg l rfact =
     (if l_RehearsalServicePubKey l = [] then Inl [ErrConflict]
      else case base64_DecodeString (l_RehearsalServicePubKey l) of
        None \<Rightarrow> Inl [ErrConflict]
      | Some pub \<Rightarrow>
        if length pub \<noteq> 32 then Inl [ErrConflict]
        else case base64_DecodeString (f_Signature rfact) of
          None \<Rightarrow> Inl [ErrUnauthorized]
        | Some sig \<Rightarrow>
          and_then (signing_bytes E (fact_json rfact)) (\<lambda>msg.
            require (rh_Verify cfg pub msg sig) [ErrUnauthorized]))"

definition resolveAttempt :: "env \<Rightarrow> uuid \<Rightarrow> RehearsalResultFact \<Rightarrow> RehearsalAttempt io" where
  "resolveAttempt E launchID rfact =
     (case f_AttemptID rfact of
        None \<Rightarrow> fail [ErrBadRequest]
      | Some aid \<Rightarrow>
        if aid = [] then fail [ErrBadRequest]
        else case uuid_Parse E aid of
          None \<Rightarrow> fail [ErrBadRequest]
        | Some attemptID \<Rightarrow>
          bnd (\<lambda>w. case attempts_FindByID attemptID w of
                 (Inl e, w') \<Rightarrow> (Inl (if errors_Is e ErrNotFound then [ErrBadRequest] else e), w')
               | (Inr a, w') \<Rightarrow> (Inr a, w')) (\<lambda>attempt.
          bnd (ensure (ra_LaunchID attempt = launchID) [ErrBadRequest]) (\<lambda>_.
          bnd (ensure (ra_InputSetHash attempt = f_InputSetHash rfact) [ErrBadRequest]) (\<lambda>_.
          ret attempt))))"

definition findResultBySignature :: "env \<Rightarrow> uuid \<Rightarrow> string \<Rightarrow> RehearsalResult option io" where
  \<comment> \<open>the caller ignores an error of the lookup\<close>
  "findResultBySignature E launchID signature w =
     (case results_FindByLaunch E launchID w of
        (Inl _, w') \<Rightarrow> (Inr None, w')
      | (Inr existing, w') \<Rightarrow> (Inr (find (\<lambda>r. rr_Signature r = signature) existing), w'))"

definition parseRFC3339OrZero :: "env \<Rightarrow> string \<Rightarrow> time" where
  "parseRFC3339OrZero E s = (case time_ParseRFC3339 E s of None \<Rightarrow> 0 | Some t \<Rightarrow> t)"

definition factToResult ::
  "env \<Rightarrow> uuid \<Rightarrow> uuid \<Rightarrow> uuid \<Rightarrow> RehearsalResultFact \<Rightarrow> bool \<Rightarrow> time \<Rightarrow> RehearsalResult" where
  "factToResult E rid launchID attemptID rfact stale recordedAt =
     \<lparr>rr_ID = rid, rr_AttemptID = attemptID, rr_LaunchID = launchID, rr_InputSetHash = f_InputSetHash rfact,
      rr_Outcome = parse_outcome (f_Outcome rfact),
      rr_FailedStep = (case f_FailedStep rfact of None \<Rightarrow> [] | Some s \<Rightarrow> s),
      rr_Summary = f_Summary rfact, rr_Steps = f_Steps rfact, rr_EngineVersion = f_EngineVersion rfact,
      rr_BinaryName = f_BinaryName rfact, rr_BinaryVersion = f_BinaryVersion rfact,
      rr_BinarySHA256 = f_BinarySHA256 rfact, rr_Validators = f_Validators rfact,
      rr_BlocksAdvanced = f_BlocksAdvanced rfact, rr_StartedAt = parseRFC3339OrZero E (f_StartedAt rfact),
      rr_FinishedAt = parseRFC3339OrZero E (f_FinishedAt rfact), rr_ServicePubKey = f_ServicePubkey rfact,
      rr_Signature = f_Signature rfact, rr_Stale = stale, rr_RecordedAt = recordedAt\<rparr>"

definition emit_at :: "time \<Rightarrow> string \<Rightarrow> event \<Rightarrow> unit io" where
  \<comment> \<open>\<open>emit\<close> of an event that carries its own time\<close>
  "emit_at now scope ev = bnd (recordAudit now scope ev) (\<lambda>_. events_Publish ev)"

definition record_result ::
  "env \<Rightarrow> time \<Rightarrow> uuid \<Rightarrow> uuid \<Rightarrow> RehearsalResultFact \<Rightarrow> Launch \<Rightarrow> RehearsalResult io" where
  \<comment> \<open>the part after the idempotency check\<close>
  "record_result E now rid launchID rfact l =
     bnd (ensure (IsValidRehearsalOutcome (parse_outcome (f_Outcome rfact))) [ErrBadRequest]) (\<lambda>_.
     bnd (resolveAttempt E launchID rfact) (\<lambda>attempt.
     bnd (Current E l) (\<lambda>current.
     let stale = (ra_InputSetHash attempt \<noteq> current);
         res = factToResult E rid launchID (ra_ID attempt) rfact stale now in
     bnd (results_Save res) (\<lambda>_.
     bnd (attempts_Save (Release attempt)) (\<lambda>_.
     bnd (emit_at now (uuid_String E launchID) (WithTime (RehearsalResultRecorded launchID (ra_ID attempt)
            (f_InputSetHash rfact) (f_Outcome rfact) stale) (rr_RecordedAt res))) (\<lambda>_.
     ret res))))))"

definition RecordRehearsalResult ::
  "env \<Rightarrow> rehearsal_cfg \<Rightarrow> time \<Rightarrow> uuid \<Rightarrow> uuid \<Rightarrow> RehearsalResultFact \<Rightarrow> RehearsalResult io" where
  "RecordRehearsalResult E cfg now rid launchID rfact =
     bnd (launches_FindByID launchID) (\<lambda>l.
     bnd (lift (verifyFactSignature E cfg l rfact)) (\<lambda>_.
     bnd (findResultBySignature E launchID (f_Signature rfact)) (\<lambda>existing.
     case existing of Some r \<Rightarrow> ret r | None \<Rightarrow> record_result E now rid launchID rfact l)))"

section \<open>The committee's view\<close>

definition ListRehearsalResults :: "env \<Rightarrow> uuid \<Rightarrow> string \<Rightarrow> RehearsalResult list io" where
  "ListRehearsalResults E launchID callerAddr =
     bnd (requireCommittee E launchID callerAddr) (\<lambda>_. results_FindByLaunch E launchID)"

definition ResetRehearsalAttempt :: "env \<Rightarrow> time \<Rightarrow> uuid \<Rightarrow> uuid \<Rightarrow> string \<Rightarrow> unit io" where
  "ResetRehearsalAttempt E now launchID attemptID callerAddr =
     bnd (requireCommittee E launchID callerAddr) (\<lambda>l.
     bnd (attempts_FindByID attemptID) (\<lambda>attempt.
     bnd (ensure (ra_LaunchID attempt = l_ID l) [ErrNotFound]) (\<lambda>_.
     bnd (attempts_Save (Reset attempt)) (\<lambda>_.
     emit_at now (uuid_String E (l_ID l)) (WithTime (RehearsalAttemptReset (l_ID l) attemptID callerAddr) now)))))"

end
