(* ===== verification/Jobs.thy ===== *)
theory Jobs
  imports WorldInvariants
begin

text \<open>
  The background jobs (internal/infrastructure/jobs/jobs.go): one tick of the launch monitor and of
  the proposal expiry.  The HTTP GET of the monitor and its URL validator are parameters; a failed
  request is None.  Errors are logged and never stop the loop.
\<close>

record monitor_cfg =
  mc_Get :: "string \<Rightarrow> (nat \<times> bytes) option"        \<comment> \<open>status code and body\<close>
  mc_validateURL :: "(string \<Rightarrow> bool) option"

definition json_first :: "bytes \<Rightarrow> json option" where
  \<comment> \<open>\<open>json.NewDecoder(r).Decode\<close> reads one value and leaves the rest\<close>
  "json_first s = map_option fst (json_value (Suc (2 * length s)) s)"

definition block_header :: "json \<Rightarrow> (string \<times> string) result" where
  \<comment> \<open>\<open>result.block.header\<close>: chain_id and height\<close>
  "block_header v =
     and_then (json_object v) (\<lambda>b.
     and_then (struct_field ''result'' b) (\<lambda>r.
     and_then (struct_field ''block'' r) (\<lambda>bl.
     and_then (struct_field ''header'' bl) (\<lambda>h.
     and_then (string_field ''chain_id'' h) (\<lambda>c.
     and_then (string_field ''height'' h) (\<lambda>n. Inr (c, n)))))))"

definition pollBlock1 :: "monitor_cfg \<Rightarrow> string \<Rightarrow> string \<Rightarrow> bool result" where
  "pollBlock1 cfg rpcURL expectedChainID =
     (case mc_Get cfg (rpcURL @ ''/block?height=1'') of
        None \<Rightarrow> Inl []
      | Some (code, resp) \<Rightarrow>
        if code \<noteq> 200 then Inr False
        else case json_first resp of
          None \<Rightarrow> Inl []
        | Some v \<Rightarrow> and_then (block_header v) (\<lambda>(c, h).
            Inr (expectedChainID \<noteq> [] \<and> c = expectedChainID \<and> h = ''1'')))"

definition markLaunched :: "env \<Rightarrow> time \<Rightarrow> Launch \<Rightarrow> string \<Rightarrow> unit io" where
  "markLaunched E now l sourceRPC =
     (case MarkLaunched now l of
        Inl _ \<Rightarrow> ret ()
      | Inr l' \<Rightarrow> (\<lambda>w. case launches_Save E l' w of
          (Inl _, w') \<Rightarrow> (Inr (), w')
        | (Inr _, w') \<Rightarrow> events_Publish (WithTime (LaunchDetected (l_ID l') 0 sourceRPC) now) w'))"

definition monitor_launch :: "env \<Rightarrow> monitor_cfg \<Rightarrow> time \<Rightarrow> Launch \<Rightarrow> unit io" where
  \<comment> \<open>the body of the loop for one candidate\<close>
  "monitor_launch E cfg now l =
     (if l_MonitorRPCURL l = [] then ret ()
      else if (case mc_validateURL cfg of None \<Rightarrow> False | Some ok \<Rightarrow> \<not> ok (l_MonitorRPCURL l)) then ret ()
      else case pollBlock1 cfg (l_MonitorRPCURL l) (r_ChainID (l_Record l)) of
        Inl _ \<Rightarrow> ret ()
      | Inr False \<Rightarrow> ret ()
      | Inr True \<Rightarrow> markLaunched E now l (l_MonitorRPCURL l))"

definition runMonitorTick :: "env \<Rightarrow> monitor_cfg \<Rightarrow> time \<Rightarrow> unit io" where
  "runMonitorTick E cfg now w =
     (case launches_FindByStatus E StatusGenesisReady w of
        (Inl _, w') \<Rightarrow> (Inr (), w')
      | (Inr candidates, w') \<Rightarrow> each (monitor_launch E cfg now) candidates w')"

definition runProposalExpiryTick :: "env \<Rightarrow> time \<Rightarrow> unit io" where
  "runProposalExpiryTick E now w = (Inr (), snd (ExpireStale E now w))"

end
