(* ===== verification/JsonPrint.thy ===== *)
theory JsonPrint
  imports Json Encoding
begin

text \<open>
  The encoder of \<open>encoding/json\<close>: compact output, with the escapes of \<open>json.Marshal\<close> (quote,
  backslash, control characters, and the characters that are special in HTML), and the proof that the
  decoder of theory Json reads back exactly the value that was printed.  Bytes outside ASCII are kept
  as they are; the escaping of U+2028 and U+2029 is not modelled.
\<close>

section \<open>Printing\<close>

definition escape_char :: "char \<Rightarrow> string" where
  "escape_char c = (let n = of_char c :: nat in
     if n = 34 \<or> n = 92 then [CHR 0x5C, c]
     else if n = 8 then [CHR 0x5C, CHR ''b''] else if n = 12 then [CHR 0x5C, CHR ''f'']
     else if n = 10 then [CHR 0x5C, CHR ''n''] else if n = 13 then [CHR 0x5C, CHR ''r'']
     else if n = 9 then [CHR 0x5C, CHR ''t'']
     else if n < 32 \<or> n = 60 \<or> n = 62 \<or> n = 38
       then [CHR 0x5C, CHR ''u'', CHR ''0'', CHR ''0'', hex_char (n div 16), hex_char (n mod 16)]
     else [c])"

definition json_quote :: "string \<Rightarrow> string" where
  "json_quote s = CHR 0x22 # concat (map escape_char s) @ [CHR 0x22]"

fun json_print :: "json \<Rightarrow> string"
  and json_print_elems :: "json list \<Rightarrow> string"
  and json_print_members :: "(string \<times> json) list \<Rightarrow> string"
where
  "json_print JNull = ''null''"
| "json_print (JBool b) = (if b then ''true'' else ''false'')"
| "json_print (JNum s) = s"
| "json_print (JStr s) = json_quote s"
| "json_print (JArr vs) = CHR ''['' # (if vs = [] then '']'' else json_print_elems vs)"
| "json_print (JObj ms) = CHR ''{'' # (if ms = [] then ''}'' else json_print_members ms)"
| "json_print_elems [] = []"
| "json_print_elems (v # vs) = json_print v @ (if vs = [] then '']'' else CHR '','' # json_print_elems vs)"
| "json_print_members [] = []"
| "json_print_members ((k, v) # ms) =
     json_quote k @ CHR '':'' # json_print v @ (if ms = [] then ''}'' else CHR '','' # json_print_members ms)"

text \<open>The integers a Go \<open>int\<close> prints as: digits without a leading zero, and a sign.\<close>

definition digits_ok :: "string \<Rightarrow> bool" where
  "digits_ok ds \<longleftrightarrow> ds \<noteq> [] \<and> list_all is_digit ds \<and> (hd ds = CHR ''0'' \<longrightarrow> tl ds = [])"

definition num_ok :: "string \<Rightarrow> bool" where
  "num_ok s = (case s of [] \<Rightarrow> False | c # r \<Rightarrow> if c = CHR ''-'' then digits_ok r else digits_ok s)"

fun json_ok :: "json \<Rightarrow> bool" where
  "json_ok (JNum s) = num_ok s"
| "json_ok (JArr vs) = list_all json_ok vs"
| "json_ok (JObj ms) = list_all (\<lambda>m. json_ok (snd m)) ms"
| "json_ok _ = True"

definition json_Encode :: "json \<Rightarrow> string" where
  \<comment> \<open>\<open>json.NewEncoder(w).Encode\<close> ends the value with a newline\<close>
  "json_Encode v = json_print v @ [CHR 0x0A]"

section \<open>Strings\<close>

definition unit_of :: "char \<Rightarrow> str_unit" where
  "unit_of c = (let n = of_char c :: nat in
     if n \<notin> {8, 9, 10, 12, 13} \<and> (n < 32 \<or> n = 60 \<or> n = 62 \<or> n = 38) then Unit n else Raw c)"

lemma hex_digit_hex_char: "n < 16 \<Longrightarrow> hex_digit (hex_char n) = Some n"
  by (simp add: hex_digit_def Let_def of_char_hex_char)

lemma char_eqI: "of_char c = (of_char d :: nat) \<Longrightarrow> c = d"
  by (metis char_of_char)

lemma escape_codes:
  "char_of (34::nat) = CHR 0x22" "char_of (92::nat) = CHR 0x5C" "char_of (8::nat) = CHR 0x08" "char_of (9::nat) = CHR 0x09"
  "char_of (10::nat) = CHR 0x0A" "char_of (12::nat) = CHR 0x0C" "char_of (13::nat) = CHR 0x0D"
  by (rule char_eqI, simp)+

lemma json_char_escape: "json_char (escape_char c @ r) = Some (unit_of c, r)"
proof -
  define n where "n = (of_char c :: nat)"
  have n: "of_char c = n" "c = char_of n" by (simp_all add: n_def)
  have "n < 256" by (simp add: n_def)
  then have h: "n div 16 < 16" "n mod 16 < 16" by auto
  have u: "hex4 (CHR ''0'') (CHR ''0'') (hex_char (n div 16)) (hex_char (n mod 16)) = Some n"
    using h by (simp add: hex4_def hex_digit_hex_char) (simp add: hex_digit_def)
  consider "n = 34" | "n = 92" | "n = 8" | "n = 12" | "n = 10" | "n = 13" | "n = 9"
    | "n \<notin> {34, 92, 8, 12, 10, 13, 9}" "n < 32 \<or> n = 60 \<or> n = 62 \<or> n = 38"
    | "n \<notin> {34, 92, 8, 12, 10, 13, 9}" "\<not> (n < 32 \<or> n = 60 \<or> n = 62 \<or> n = 38)" by blast
  then show ?thesis
  proof cases
    case 8
    then show ?thesis by (auto simp: escape_char_def unit_of_def json_char_def Let_def n(1) u)
  next
    case 9
    then have "c \<noteq> CHR 0x5C" using n(1) by auto
    with 9 show ?thesis by (auto simp: escape_char_def unit_of_def json_char_def Let_def n(1))
  qed (simp_all add: escape_char_def unit_of_def json_char_def simple_escape_def Let_def n(2) escape_codes)
qed

lemma escape_char_head [simp]: "escape_char c \<noteq> []" "hd (escape_char c) \<noteq> CHR 0x22"
  by (auto simp: escape_char_def Let_def)

lemma json_string_quote:
  "length s < n \<Longrightarrow> json_string n (concat (map escape_char s) @ CHR 0x22 # r) = Some (map unit_of s, r)"
proof (induction s arbitrary: n)
  case Nil
  then show ?case by (cases n) (simp_all add: json_string.simps)
next
  case (Cons c s)
  then obtain m where "n = Suc m" by (cases n) auto
  with Cons show ?case by (simp add: json_string.simps json_char_escape)
qed

lemma units_bytes_units: "units_bytes (map unit_of s) = s"
proof (induction s)
  case (Cons c s)
  have u: "units_bytes (Unit n # map unit_of s) = char_of n # units_bytes (map unit_of s)" if "n < 128" for n
    using that by (cases s) (auto simp: utf8_def unit_of_def Let_def)
  have "unit_of c = Raw c \<or> (\<exists>n < 128. unit_of c = Unit n \<and> c = char_of n)"
    by (auto simp: unit_of_def Let_def)
  then show ?case using Cons u by auto
qed simp

lemma length_escape: "length s \<le> length (concat (map escape_char s))"
proof (induction s)
  case (Cons c s)
  have "1 \<le> length (escape_char c)" by (simp add: Suc_le_eq)
  with Cons show ?case by simp
qed simp

lemma json_string_body:
  "json_string (Suc (length (concat (map escape_char s) @ CHR 0x22 # r))) (concat (map escape_char s) @ CHR 0x22 # r)
     = Some (map unit_of s, r)"
  by (rule json_string_quote) (use length_escape [of s] in simp)

section \<open>Numbers\<close>

definition delimited :: "string \<Rightarrow> bool" where
  "delimited r \<longleftrightarrow> r = [] \<or> hd r \<in> {CHR '','', CHR '']'', CHR ''}'', CHR 0x0A}"

lemma digits_delimited:
  assumes "list_all is_digit ds" "delimited r"
  shows "digits_of (ds @ r) = (ds, r)"
proof -
  have "takeWhile is_digit r = [] \<and> dropWhile is_digit r = r"
    using assms(2) by (cases r) (auto simp: delimited_def is_digit_def)
  with assms(1) show ?thesis
    by (simp add: digits_of_def takeWhile_append dropWhile_append list_all_iff)
qed

lemma json_int_digits:
  assumes "digits_ok ds" "delimited r"
  shows "json_int (ds @ r) = Some (ds, r)"
  using assms digits_delimited [of ds r]
  by (cases ds) (auto simp: json_int_def digits_ok_def)

lemma json_frac_exp_delimited:
  "delimited r \<Longrightarrow> json_frac r = Some ([], r)" "delimited r \<Longrightarrow> json_exp r = Some ([], r)"
  by (auto simp: json_frac_def json_exp_def delimited_def split: list.splits)

lemma digits_ok_head: "digits_ok ds \<Longrightarrow> \<exists>c t. ds = c # t \<and> is_digit c"
  by (cases ds) (auto simp: digits_ok_def)

lemma json_number_print:
  assumes "num_ok s" "delimited r"
  shows "json_number (s @ r) = Some (JNum s, r)"
proof -
  obtain c t where s: "s = c # t" using assms(1) by (auto simp: num_ok_def split: list.splits)
  show ?thesis
  proof (cases "c = CHR ''-''")
    case True
    with assms s show ?thesis
      by (simp add: num_ok_def json_number_def json_int_digits json_frac_exp_delimited)
  next
    case False
    with assms s have d: "digits_ok s" by (simp add: num_ok_def)
    show ?thesis
      using False s json_int_digits [OF d assms(2)] assms(2)
      by (simp add: json_number_def json_frac_exp_delimited)
  qed
qed

lemma num_ok_head: "num_ok s \<Longrightarrow> \<exists>c t. s = c # t \<and> (c = CHR ''-'' \<or> is_digit c)"
  by (auto simp: num_ok_def split: list.splits if_splits dest: digits_ok_head)

section \<open>Round trip\<close>

lemma json_close_Cons: "\<not> json_ws c \<Longrightarrow> json_close d (c # t) = (if c = d then Some t else None)"
  by (simp add: json_close_def skip_ws_def)

lemma json_print_head:
  assumes "json_ok v"
  shows "\<exists>c t. json_print v = c # t \<and> \<not> json_ws c \<and> c \<noteq> CHR '']'' \<and> c \<noteq> CHR ''}'' \<and>
    (c = CHR ''{'' \<longrightarrow> (\<exists>ms. v = JObj ms)) \<and> (c = CHR ''['' \<longrightarrow> (\<exists>vs. v = JArr vs)) \<and>
    (c = CHR 0x22 \<longrightarrow> (\<exists>s. v = JStr s))"
proof (cases v)
  case (JNum s)
  with assms have "num_ok s" by simp
  from num_ok_head [OF this] obtain c t where "s = c # t" "c = CHR ''-'' \<or> is_digit c" by blast
  with JNum show ?thesis by (auto simp: json_ws_def is_digit_def)
qed (auto simp: json_ws_def json_quote_def)

lemma json_close_print:
  assumes "json_ok v"
  shows "json_close (CHR '']'') (json_print v @ r) = None" "json_close (CHR ''}'') (json_print v @ r) = None"
  using json_print_head [OF assms] by (auto simp: json_close_Cons)

lemma json_scalar_string: "json_scalar (json_quote s @ r) = Some (JStr s, r)"
  using json_string_body [of s r] by (simp add: json_scalar_def json_quote_def units_bytes_units)

lemma json_scalar_words:
  "json_scalar (''null'' @ r) = Some (JNull, r)" "json_scalar (''true'' @ r) = Some (JBool True, r)"
  "json_scalar (''false'' @ r) = Some (JBool False, r)"
  by (simp_all add: json_scalar_def eat_def)

lemma json_scalar_number:
  assumes "num_ok s" "delimited r"
  shows "json_scalar (s @ r) = Some (JNum s, r)"
proof -
  obtain c t where s: "s = c # t" "c = CHR ''-'' \<or> is_digit c" using num_ok_head [OF assms(1)] by blast
  then have "c \<notin> {CHR 0x22, CHR ''t'', CHR ''f'', CHR ''n''}" by (auto simp: is_digit_def)
  then show ?thesis
    using json_number_print [OF assms] s(1) by (simp add: json_scalar_def eat_def)
qed

lemma json_key_quote: "json_key (json_quote k @ CHR '':'' # r) = Some (k, r)"
  using json_string_body [of k "CHR '':'' # r"]
  by (simp add: json_key_def json_quote_def skip_ws_def json_ws_def units_bytes_units)

lemma json_quote_head: "\<exists>t. json_quote s = CHR 0x22 # t"
  by (simp add: json_quote_def)

lemma json_value_scalar:
  assumes "json_ok v" "\<And>ms. v \<noteq> JObj ms" "\<And>vs. v \<noteq> JArr vs"
  shows "json_value (Suc n) (json_print v @ r) = json_scalar (json_print v @ r)"
proof -
  obtain c t where "json_print v = c # t" "\<not> json_ws c" "c \<noteq> CHR ''{''" "c \<noteq> CHR ''[''"
    using json_print_head [OF assms(1)] assms(2,3) by metis
  then show ?thesis by (simp add: json_close_Cons skip_ws_def)
qed

lemma json_elems_head:
  "vs \<noteq> [] \<Longrightarrow> list_all json_ok vs \<Longrightarrow> json_close (CHR '']'') (json_print_elems vs @ r) = None"
  by (cases vs) (simp_all add: json_close_print)

lemma json_members_head: "ms \<noteq> [] \<Longrightarrow> json_close (CHR ''}'') (json_print_members ms @ r) = None"
  by (cases ms) (auto simp: json_quote_def json_close_Cons json_ws_def)

lemma json_value_print:
  "json_ok v \<Longrightarrow> delimited r \<Longrightarrow> 2 * length (json_print v @ r) < n \<Longrightarrow> json_value n (json_print v @ r) = Some (v, r)"
  "list_all json_ok vs \<Longrightarrow> vs \<noteq> [] \<Longrightarrow> 2 * length (json_print_elems vs @ r) + 1 < n \<Longrightarrow>
     json_elems n (json_print_elems vs @ r) = Some (vs, r)"
  "list_all (\<lambda>m. json_ok (snd m)) ms \<Longrightarrow> ms \<noteq> [] \<Longrightarrow> 2 * length (json_print_members ms @ r) + 1 < n \<Longrightarrow>
     json_members n (json_print_members ms @ r) = Some (ms, r)"
proof (induction v and vs and ms arbitrary: n r and n r and n r
    rule: json_print_json_print_elems_json_print_members.induct)
  case 1
  then show ?case using json_value_scalar [of JNull] json_scalar_words(1) [of r] by (cases n) auto
next
  case (2 b)
  then show ?case using json_value_scalar [of "JBool b"] json_scalar_words(2,3) [of r] by (cases n) auto
next
  case (3 s)
  then show ?case using json_value_scalar [of "JNum s"] json_scalar_number [of s r] by (cases n) auto
next
  case (4 s)
  then show ?case using json_value_scalar [of "JStr s"] json_scalar_string [of s r] by (cases n) auto
next
  case (5 vs)
  then obtain m where n: "n = Suc m" by (cases n) auto
  show ?case
  proof (cases "vs = []")
    case False
    with "5.IH" [OF False, of r m] "5.prems" n have "json_elems m (json_print_elems vs @ r) = Some (vs, r)" by simp
    with False n "5.prems"(1) show ?thesis by (simp add: json_close_Cons json_ws_def json_elems_head)
  qed (use n in \<open>simp add: json_close_Cons json_ws_def\<close>)
next
  case (6 ms)
  then obtain m where n: "n = Suc m" by (cases n) auto
  show ?case
  proof (cases "ms = []")
    case False
    with "6.IH" [OF False, of r m] "6.prems" n have "json_members m (json_print_members ms @ r) = Some (ms, r)" by simp
    with False n show ?thesis by (simp add: json_close_Cons json_ws_def json_members_head)
  qed (use n in \<open>simp add: json_close_Cons json_ws_def\<close>)
next
  case (8 v vs)
  then obtain m where n: "n = Suc m" by (cases n) auto
  let ?t = "(if vs = [] then '']'' else CHR '','' # json_print_elems vs) @ r"
  have "delimited ?t" by (simp add: delimited_def)
  with "8.IH"(1) [of ?t m] "8.prems" n have v: "json_value m (json_print v @ ?t) = Some (v, ?t)" by simp
  show ?case
  proof (cases "vs = []")
    case False
    with "8.IH"(2) [OF False, of r m] "8.prems" n have "json_elems m (json_print_elems vs @ r) = Some (vs, r)" by auto
    with v False n show ?thesis by (simp add: json_close_Cons json_ws_def)
  qed (use v n in \<open>simp add: json_close_Cons json_ws_def\<close>)
next
  case (10 k v ms)
  then obtain m where n: "n = Suc m" by (cases n) auto
  let ?t = "(if ms = [] then ''}'' else CHR '','' # json_print_members ms) @ r"
  have "delimited ?t" by (simp add: delimited_def)
  with "10.IH"(1) [of ?t m] "10.prems" n have v: "json_value m (json_print v @ ?t) = Some (v, ?t)" by simp
  have k: "json_key (json_quote k @ CHR '':'' # json_print v @ ?t) = Some (k, json_print v @ ?t)"
    by (rule json_key_quote)
  show ?case
  proof (cases "ms = []")
    case False
    with "10.IH"(2) [OF False, of r m] "10.prems" n have "json_members m (json_print_members ms @ r) = Some (ms, r)" by auto
    with v k False n show ?thesis by (simp add: json_close_Cons json_ws_def)
  qed (use v k n in \<open>simp add: json_close_Cons json_ws_def\<close>)
qed auto

lemma json_parse_print: "json_ok v \<Longrightarrow> json_parse (json_print v) = Some v"
  using json_value_print(1) [of v "[]" "Suc (2 * length (json_print v))"]
  by (simp add: json_parse_def delimited_def skip_ws_def)

text \<open>Printed text never contains a raw control character, so it stays on one line.\<close>

lemma escape_char_visible: "d \<in> set (escape_char c) \<Longrightarrow> 32 \<le> (of_char d :: nat)"
proof -
  have "(of_char c :: nat) < 256" by simp
  then show "d \<in> set (escape_char c) \<Longrightarrow> 32 \<le> (of_char d :: nat)"
    by (auto simp: escape_char_def Let_def of_char_hex_char less_mult_imp_div_less split: if_splits)
qed

lemma json_quote_visible: "d \<in> set (json_quote s) \<Longrightarrow> 32 \<le> (of_char d :: nat)"
  by (auto simp: json_quote_def dest: escape_char_visible)

lemma num_ok_visible: "num_ok s \<Longrightarrow> d \<in> set s \<Longrightarrow> 32 \<le> (of_char d :: nat)"
  by (auto simp: num_ok_def digits_ok_def list_all_iff is_digit_def split: list.splits if_splits)

lemma json_print_visible:
  "json_ok v \<Longrightarrow> d \<in> set (json_print v) \<Longrightarrow> 32 \<le> (of_char d :: nat)"
  "list_all json_ok vs \<Longrightarrow> d \<in> set (json_print_elems vs) \<Longrightarrow> 32 \<le> (of_char d :: nat)"
  "list_all (\<lambda>m. json_ok (snd m)) ms \<Longrightarrow> d \<in> set (json_print_members ms) \<Longrightarrow> 32 \<le> (of_char d :: nat)"
  by (induction v and vs and ms rule: json_print_json_print_elems_json_print_members.induct)
    (auto dest: json_quote_visible num_ok_visible split: if_splits)

end
