(* ===== verification/EventJson.thy ===== *)
theory EventJson
  imports Events JsonPrint ServiceBase
begin

text \<open>
  The names and the JSON form of the domain events (internal/domain/events.go).  The structs carry no
  field tags, so the Go field names are the keys; the embedded \<open>base\<close> has no exported field and prints
  nothing.  An identifier prints as its text form, a time in RFC 3339 with nanoseconds.
\<close>

section \<open>Names\<close>

fun EventName :: "DomainEvent \<Rightarrow> string" where
  "EventName (ValidatorApproved _ _ _) = ''ValidatorApproved''"
| "EventName (ValidatorRejected _ _ _) = ''ValidatorRejected''"
| "EventName (ValidatorRemoved _ _ _) = ''ValidatorRemoved''"
| "EventName (GenesisPublished _ _) = ''GenesisPublished''"
| "EventName (RehearsalGateNotSatisfied _ _) = ''RehearsalGateNotSatisfied''"
| "EventName (GenesisTimeUpdated _ _ _) = ''GenesisTimeUpdated''"
| "EventName (WindowClosed _) = ''WindowClosed''"
| "EventName (ChainRecordPublished _ _) = ''ChainRecordPublished''"
| "EventName (LaunchCancelled _) = ''LaunchCancelled''"
| "EventName (GenesisRevisionApproved _) = ''GenesisRevisionApproved''"
| "EventName (LaunchCreated _ _ _ _) = ''LaunchCreated''"
| "EventName (WindowOpened _) = ''WindowOpened''"
| "EventName (InitialGenesisUploaded _ _) = ''InitialGenesisUploaded''"
| "EventName (FinalGenesisUploaded _ _) = ''FinalGenesisUploaded''"
| "EventName (AllocationFileUploaded _ _ _) = ''AllocationFileUploaded''"
| "EventName (AllocationFileApproved _ _ _) = ''AllocationFileApproved''"
| "EventName (AllocationFileRejected _ _ _) = ''AllocationFileRejected''"
| "EventName (LaunchDetected _ _ _) = ''LaunchDetected''"
| "EventName (RehearsalResultRecorded _ _ _ _ _) = ''RehearsalResultRecorded''"
| "EventName (RehearsalAttemptReset _ _ _) = ''RehearsalAttemptReset''"
| "EventName (RehearsalRunClaimed _ _ _) = ''RehearsalRunClaimed''"
| "EventName (ProposalExpired _ _ _) = ''ProposalExpired''"
| "EventName (LaunchMemberAdded _ _ _ _) = ''LaunchMemberAdded''"
| "EventName (LaunchMemberRemoved _ _ _) = ''LaunchMemberRemoved''"
| "EventName (CommitteeSet _ _ _ _ _ _) = ''CommitteeSet''"
| "EventName (LaunchPatched _ _ _) = ''LaunchPatched''"
| "EventName (CommitteeMemberReplaced _ _ _ _ _ _ _) = ''CommitteeMemberReplaced''"
| "EventName (CommitteeExpanded _ _ _ _ _ _) = ''CommitteeExpanded''"
| "EventName (CommitteeShrunk _ _ _ _ _ _) = ''CommitteeShrunk''"
| "EventName (CoordinatorAdded _ _) = ''CoordinatorAdded''"
| "EventName (CoordinatorRemoved _ _) = ''CoordinatorRemoved''"
| "EventName (SessionsRevoked _ _) = ''SessionsRevoked''"
| "EventName (ProposalExecuting _ _ _) = ''ProposalExecuting''"
| "EventName (ProposalExecutionAborted _ _ _ _) = ''ProposalExecutionAborted''"
| "EventName (JoinRequestSubmitted _ _ _ _) = ''JoinRequestSubmitted''"
| "EventName (ReadinessConfirmed _ _) = ''ReadinessConfirmed''"

section \<open>Fields\<close>

fun launch_type_string :: "LaunchType \<Rightarrow> string" where
  "launch_type_string LaunchTypeTestnet = ''TESTNET''"
| "launch_type_string LaunchTypeIncentivizedTestnet = ''INCENTIVIZED_TESTNET''"
| "launch_type_string LaunchTypeMainnet = ''MAINNET''"
| "launch_type_string LaunchTypePermissioned = ''PERMISSIONED''"
| "launch_type_string (LaunchTypeOther s) = s"

definition j_uuid :: "env \<Rightarrow> uuid \<Rightarrow> json" where
  "j_uuid E u = JStr (uuid_String E u)"

definition j_time :: "env \<Rightarrow> time \<Rightarrow> json" where
  "j_time E t = JStr (time_FormatRFC3339Nano E t)"

definition j_int :: "int \<Rightarrow> json" where
  "j_int i = JNum (Itoa i)"

definition j_strs :: "string list \<Rightarrow> json" where
  "j_strs ss = JArr (map JStr ss)"

definition field_change :: "string \<times> string \<times> string \<Rightarrow> json" where
  "field_change c = (case c of (f, old, new) \<Rightarrow>
     JObj [(''Field'', JStr f), (''Old'', JStr old), (''New'', JStr new)])"

text \<open>The reason of an abort is the text of an error, which \<open>err_text\<close> renders.\<close>

fun event_fields :: "env \<Rightarrow> (goerror \<Rightarrow> string) \<Rightarrow> DomainEvent \<Rightarrow> (string \<times> json) list" where
  "event_fields E et (ValidatorApproved l j a) = [(''LaunchID'', j_uuid E l), (''JoinRequestID'', j_uuid E j), (''OperatorAddress'', JStr a)]"
| "event_fields E et (ValidatorRejected l j r) = [(''LaunchID'', j_uuid E l), (''JoinRequestID'', j_uuid E j), (''Reason'', JStr r)]"
| "event_fields E et (ValidatorRemoved l j r) = [(''LaunchID'', j_uuid E l), (''JoinRequestID'', j_uuid E j), (''Reason'', JStr r)]"
| "event_fields E et (GenesisPublished l h) = [(''LaunchID'', j_uuid E l), (''GenesisHash'', JStr h)]"
| "event_fields E et (RehearsalGateNotSatisfied l r) = [(''LaunchID'', j_uuid E l), (''Reason'', JStr r)]"
| "event_fields E et (GenesisTimeUpdated l n p) = [(''LaunchID'', j_uuid E l), (''NewGenesisTime'', j_time E n), (''PrevGenesisTime'', j_time E p)]"
| "event_fields E et (WindowClosed l) = [(''LaunchID'', j_uuid E l)]"
| "event_fields E et (ChainRecordPublished l h) = [(''LaunchID'', j_uuid E l), (''InitialGenesisHash'', JStr h)]"
| "event_fields E et (LaunchCancelled l) = [(''LaunchID'', j_uuid E l)]"
| "event_fields E et (GenesisRevisionApproved l) = [(''LaunchID'', j_uuid E l)]"
| "event_fields E et (LaunchCreated l c t a) = [(''LaunchID'', j_uuid E l), (''ChainID'', JStr c), (''LaunchType'', JStr (launch_type_string t)), (''LeadAddress'', JStr a)]"
| "event_fields E et (WindowOpened l) = [(''LaunchID'', j_uuid E l)]"
| "event_fields E et (InitialGenesisUploaded l h) = [(''LaunchID'', j_uuid E l), (''GenesisHash'', JStr h)]"
| "event_fields E et (FinalGenesisUploaded l h) = [(''LaunchID'', j_uuid E l), (''GenesisHash'', JStr h)]"
| "event_fields E et (AllocationFileUploaded l t h) = [(''LaunchID'', j_uuid E l), (''AllocationType'', JStr t), (''SHA256'', JStr h)]"
| "event_fields E et (AllocationFileApproved l t h) = [(''LaunchID'', j_uuid E l), (''AllocationType'', JStr t), (''SHA256'', JStr h)]"
| "event_fields E et (AllocationFileRejected l t h) = [(''LaunchID'', j_uuid E l), (''AllocationType'', JStr t), (''SHA256'', JStr h)]"
| "event_fields E et (LaunchDetected l b r) = [(''LaunchID'', j_uuid E l), (''BlockHeight'', j_int b), (''SourceRPC'', JStr r)]"
| "event_fields E et (RehearsalResultRecorded l a h out st) = [(''LaunchID'', j_uuid E l), (''AttemptID'', j_uuid E a), (''InputSetHash'', JStr h), (''Outcome'', JStr out), (''Stale'', JBool st)]"
| "event_fields E et (RehearsalAttemptReset l a b) = [(''LaunchID'', j_uuid E l), (''AttemptID'', j_uuid E a), (''ResetBy'', JStr b)]"
| "event_fields E et (RehearsalRunClaimed l a r) = [(''LaunchID'', j_uuid E l), (''AttemptID'', j_uuid E a), (''RunnerID'', JStr r)]"
| "event_fields E et (ProposalExpired l p a) = [(''LaunchID'', j_uuid E l), (''ProposalID'', j_uuid E p), (''ActionType'', JStr a)]"
| "event_fields E et (LaunchMemberAdded l a lab b) = [(''LaunchID'', j_uuid E l), (''Address'', JStr a), (''Label'', JStr lab), (''AddedBy'', JStr b)]"
| "event_fields E et (LaunchMemberRemoved l a b) = [(''LaunchID'', j_uuid E l), (''Address'', JStr a), (''RemovedBy'', JStr b)]"
| "event_fields E et (CommitteeSet l ms m n lead b) = [(''LaunchID'', j_uuid E l), (''Members'', j_strs ms), (''ThresholdM'', j_int m), (''TotalN'', j_int n), (''LeadAddress'', JStr lead), (''SetBy'', JStr b)]"
| "event_fields E et (LaunchPatched l b cs) = [(''LaunchID'', j_uuid E l), (''ChangedBy'', JStr b), (''Changes'', JArr (map field_change cs))]"
| "event_fields E et (CommitteeMemberReplaced l old new olds news m m') = [(''LaunchID'', j_uuid E l), (''OldAddress'', JStr old), (''NewAddress'', JStr new), (''OldMembers'', j_strs olds), (''NewMembers'', j_strs news), (''OldThresholdM'', j_int m), (''NewThresholdM'', j_int m')]"
| "event_fields E et (CommitteeExpanded l a olds news m m') = [(''LaunchID'', j_uuid E l), (''AddedAddress'', JStr a), (''OldMembers'', j_strs olds), (''NewMembers'', j_strs news), (''OldThresholdM'', j_int m), (''NewThresholdM'', j_int m')]"
| "event_fields E et (CommitteeShrunk l a olds news m m') = [(''LaunchID'', j_uuid E l), (''RemovedAddress'', JStr a), (''OldMembers'', j_strs olds), (''NewMembers'', j_strs news), (''OldThresholdM'', j_int m), (''NewThresholdM'', j_int m')]"
| "event_fields E et (CoordinatorAdded a b) = [(''Address'', JStr a), (''AddedBy'', JStr b)]"
| "event_fields E et (CoordinatorRemoved a b) = [(''Address'', JStr a), (''RemovedBy'', JStr b)]"
| "event_fields E et (SessionsRevoked a b) = [(''Account'', JStr a), (''RevokedBy'', JStr b)]"
| "event_fields E et (ProposalExecuting l p a) = [(''LaunchID'', j_uuid E l), (''ProposalID'', j_uuid E p), (''ActionType'', JStr a)]"
| "event_fields E et (ProposalExecutionAborted l p a e) = [(''LaunchID'', j_uuid E l), (''ProposalID'', j_uuid E p), (''ActionType'', JStr a), (''Reason'', JStr (et e))]"
| "event_fields E et (JoinRequestSubmitted l j a s) = [(''LaunchID'', j_uuid E l), (''JoinRequestID'', j_uuid E j), (''OperatorAddress'', JStr a), (''SubmitterAddress'', JStr s)]"
| "event_fields E et (ReadinessConfirmed l a) = [(''LaunchID'', j_uuid E l), (''OperatorAddress'', JStr a)]"

definition event_json :: "env \<Rightarrow> (goerror \<Rightarrow> string) \<Rightarrow> DomainEvent \<Rightarrow> json" where
  "event_json E et ev = JObj (event_fields E et ev)"

section \<open>Every event prints\<close>

lemma EventName_nonempty [simp]: "EventName ev \<noteq> []"
  by (cases ev) simp_all

declare nat_digits.simps [simp del]

lemma nat_digits_ok: "digits_ok (nat_digits n) \<and> (nat_digits n = ''0'' \<longleftrightarrow> n = 0) \<and> (hd (nat_digits n) = CHR ''0'' \<longleftrightarrow> n = 0)"
proof (induction n rule: nat_digits.induct)
  case (1 n)
  have dig: "is_digit (char_of (48 + k))" if "k < 10" for k :: nat
    using that by (simp add: is_digit_def)
  have zero: "char_of (48 + k) = CHR ''0'' \<longleftrightarrow> k = 0" if "k < 10" for k :: nat
    using that char_eqI [of "char_of (48 + k)" "CHR ''0''"] by (auto dest: arg_cong [of _ _ "of_char :: char \<Rightarrow> nat"])
  show ?case
  proof (cases "n < 10")
    case True
    then show ?thesis using dig zero by (simp add: nat_digits.simps [of n] digits_ok_def)
  next
    case False
    then have "n div 10 \<noteq> 0" by simp
    with 1 [OF False] False dig [of "n mod 10"] show ?thesis
      by (auto simp: nat_digits.simps [of n] digits_ok_def)
  qed
qed

lemma num_ok_Itoa: "num_ok (Itoa i)"
proof (cases "i < 0")
  case True
  then show ?thesis using nat_digits_ok by (simp add: num_ok_def Itoa_def)
next
  case False
  obtain c t where d: "nat_digits (nat i) = c # t" "is_digit c"
    using digits_ok_head [of "nat_digits (nat i)"] nat_digits_ok [of "nat i"] by auto
  then have "c \<noteq> CHR ''-''" by (auto simp: is_digit_def)
  then show ?thesis using False d(1) nat_digits_ok [of "nat i"] by (simp add: num_ok_def Itoa_def)
qed

lemma json_ok_parts [simp]:
  "json_ok (j_uuid E u)" "json_ok (j_time E t)" "json_ok (j_int i)" "json_ok (j_strs ss)" "json_ok (JArr (map field_change cs))"
  by (simp_all add: j_uuid_def j_time_def j_int_def num_ok_Itoa j_strs_def list_all_iff field_change_def split: prod.split)

lemma json_ok_event: "json_ok (event_json E et ev)"
  unfolding event_json_def by (cases ev) (simp_all del: json_ok.simps(2))

end
