(* ===== verification/Base64.thy ===== *)
theory Base64
  imports Encoding
begin

text \<open>
  The encoder of \<open>encoding/base64\<close> (StdEncoding): three bytes become four characters, the last group
  is padded.  The decoder of theory Encoding reads it back.
\<close>

definition b64_char :: "nat \<Rightarrow> char" where
  "b64_char n =
     (if n < 26 then char_of (65 + n) else if n < 52 then char_of (71 + n)
      else if n < 62 then char_of (n - 4) else if n = 62 then CHR ''+'' else CHR ''/'')"

fun base64_EncodeToString :: "nat list \<Rightarrow> string" where
  "base64_EncodeToString [] = []"
| "base64_EncodeToString [a] = [b64_char (a div 4), b64_char (a mod 4 * 16), CHR ''='', CHR ''='']"
| "base64_EncodeToString [a, b] =
     [b64_char (a div 4), b64_char (a mod 4 * 16 + b div 16), b64_char (b mod 16 * 4), CHR ''='']"
| "base64_EncodeToString (a # b # c # r) =
     b64_char (a div 4) # b64_char (a mod 4 * 16 + b div 16) # b64_char (b mod 16 * 4 + c div 64) # b64_char (c mod 64)
     # base64_EncodeToString r"

lemma of_char_b64_char:
  "n < 64 \<Longrightarrow> of_char (b64_char n) =
     (if n < 26 then 65 + n else if n < 52 then 71 + n else if n < 62 then n - 4 else if n = 62 then 43 else 47)"
  by (auto simp: b64_char_def)

lemma b64_val_char: "n < 64 \<Longrightarrow> b64_val (b64_char n) = Some n"
  by (auto simp: b64_val_def of_char_b64_char Let_def)

lemma b64_char_plain: "n < 64 \<Longrightarrow> b64_char n \<noteq> CHR ''='' \<and> b64_char n \<noteq> CHR 0x0A \<and> b64_char n \<noteq> CHR 0x0D"
  by (auto dest!: arg_cong [of _ _ "of_char :: char \<Rightarrow> nat"] simp: of_char_b64_char split: if_splits)

lemma b64_groups:
  fixes a b c :: nat
  assumes "a < 256" "b < 256" "c < 256"
  shows "a div 4 < 64" "a mod 4 * 16 < 64" "a mod 4 * 16 + b div 16 < 64" "b mod 16 * 4 < 64"
    "b mod 16 * 4 + c div 64 < 64" "c mod 64 < 64"
    "4 * (a div 4) + (a mod 4 * 16) div 16 = a" "4 * (a div 4) + (a mod 4 * 16 + b div 16) div 16 = a"
    "16 * ((a mod 4 * 16 + b div 16) mod 16) + (b mod 16 * 4) div 4 = b"
    "16 * ((a mod 4 * 16 + b div 16) mod 16) + (b mod 16 * 4 + c div 64) div 4 = b"
    "64 * ((b mod 16 * 4 + c div 64) mod 4) + c mod 64 = c"
proof -
  have "b div 16 < 16" "c div 64 < 4" using assms by auto
  then show "a mod 4 * 16 + b div 16 < 64" "b mod 16 * 4 + c div 64 < 64"
    using mod_less_divisor [of 4 a] mod_less_divisor [of 16 b] by linarith+
  show "4 * (a div 4) + (a mod 4 * 16 + b div 16) div 16 = a"
    "16 * ((a mod 4 * 16 + b div 16) mod 16) + (b mod 16 * 4) div 4 = b"
    "16 * ((a mod 4 * 16 + b div 16) mod 16) + (b mod 16 * 4 + c div 64) div 4 = b"
    "64 * ((b mod 16 * 4 + c div 64) mod 4) + c mod 64 = c"
    using \<open>b div 16 < 16\<close> \<open>c div 64 < 4\<close> by (simp_all add: div_add1_eq mod_mult_self3)
qed (use assms in \<open>auto simp: less_mult_imp_div_less\<close>)

lemma b64_quads_encode:
  "\<forall>b \<in> set bs. b < 256 \<Longrightarrow> b64_quads (base64_EncodeToString bs) = Some bs"
proof (induction bs rule: base64_EncodeToString.induct)
  case (2 a)
  then show ?case using b64_groups [of a 0 0] by (simp add: b64_val_char)
next
  case (3 a b)
  then show ?case using b64_groups [of a b 0] by (simp add: b64_val_char b64_char_plain)
next
  case (4 a b c r)
  note g = b64_groups [of a b c]
  have "b64_quads (base64_EncodeToString r) = Some r" using 4 by simp
  moreover have "a < 256" "b < 256" "c < 256" using 4 by simp_all
  ultimately show ?case by (simp only: base64_EncodeToString.simps b64_quads.simps b64_val_char b64_char_plain g option.case prod.case simp_thms if_False option.map)
qed simp

lemma base64_alphabet:
  "\<forall>b \<in> set bs. b < 256 \<Longrightarrow> list_all (\<lambda>d. d = CHR ''='' \<or> (\<exists>n < 64. d = b64_char n)) (base64_EncodeToString bs)"
proof (induction bs rule: base64_EncodeToString.induct)
  case (2 a)
  then have "a div 4 < 64" "a mod 4 * 16 < 64" using b64_groups(1,2) [of a 0 0] by simp_all
  then show ?case unfolding base64_EncodeToString.simps list_all_iff list.set by blast
next
  case (3 a b)
  then have "a div 4 < 64" "a mod 4 * 16 + b div 16 < 64" "b mod 16 * 4 < 64" using b64_groups(1,3,4) [of a b 0] by simp_all
  then show ?case unfolding base64_EncodeToString.simps list_all_iff list.set by blast
next
  case (4 a b c r)
  then have "a div 4 < 64" "a mod 4 * 16 + b div 16 < 64" "b mod 16 * 4 + c div 64 < 64" "c mod 64 < 64"
    using b64_groups(1,3,5,6) [of a b c] by simp_all
  moreover have "list_all (\<lambda>d. d = CHR ''='' \<or> (\<exists>n < 64. d = b64_char n)) (base64_EncodeToString r)" using 4 by simp
  ultimately show ?case unfolding base64_EncodeToString.simps list.pred_inject by blast
qed simp

lemma base64_no_breaks:
  assumes "\<forall>b \<in> set bs. b < 256" "d \<in> set (base64_EncodeToString bs)"
  shows "d \<noteq> CHR 0x0A \<and> d \<noteq> CHR 0x0D"
proof -
  have "d = CHR ''='' \<or> (\<exists>n < 64. d = b64_char n)" using base64_alphabet [OF assms(1)] assms(2) by (simp add: list_all_iff)
  then show ?thesis using b64_char_plain by auto
qed

lemma base64_decode_encode:
  assumes "\<forall>b \<in> set bs. b < 256"
  shows "base64_DecodeString (base64_EncodeToString bs) = Some bs"
proof -
  have "filter (\<lambda>c. c \<noteq> CHR 0x0A \<and> c \<noteq> CHR 0x0D) (base64_EncodeToString bs) = base64_EncodeToString bs"
    by (rule filter_True) (use base64_no_breaks [OF assms] in blast)
  then show ?thesis by (simp add: base64_DecodeString_def b64_quads_encode [OF assms])
qed

end
