(* ===== verification/AuditLog.thy ===== *)
theory AuditLog
  imports EventJson Base64
begin

text \<open>
  The audit log (internal/infrastructure/auditlog): an append-only file of JSON lines, each signed and
  linked to the previous line by its SHA-256, the chain tip kept in the database across restarts
  (sqlite/audit_state.go), and the scanner that checks a log.  The file is its bytes.  A write may stop
  after any number of bytes and the saving of the tip may fail; both are arguments of \<open>Append\<close>.
  The Ed25519 primitives are parameters; times outside the years a JSON time can print do not occur.
\<close>

section \<open>Entries\<close>

record AuditEvent =
  ae_LaunchID :: string
  ae_EventName :: string
  ae_OccurredAt :: time
  ae_Payload :: "json option"     \<comment> \<open>the raw message as its value; \<open>None\<close> is the empty message\<close>
  ae_Signature :: string
  ae_PrevHash :: string

definition GlobalAuditScope :: string where
  "GlobalAuditScope = ''global''"

definition audit_json :: "env \<Rightarrow> AuditEvent \<Rightarrow> json" where
  \<comment> \<open>the fields in struct order; \<open>prev_hash\<close> is omitted when empty\<close>
  "audit_json E ev = JObj ([(''launch_id'', JStr (ae_LaunchID ev)), (''event_name'', JStr (ae_EventName ev)),
     (''occurred_at'', j_time E (ae_OccurredAt ev)),
     (''payload'', case ae_Payload ev of None \<Rightarrow> JNull | Some v \<Rightarrow> v),
     (''signature'', JStr (ae_Signature ev))] @
     (if ae_PrevHash ev = [] then [] else [(''prev_hash'', JStr (ae_PrevHash ev))]))"

definition decode_audit :: "env \<Rightarrow> bytes \<Rightarrow> AuditEvent result" where
  \<comment> \<open>\<open>json.Unmarshal(line, &ev)\<close>; a raw message takes the last value of its key, \<open>null\<close> included\<close>
  "decode_audit E line =
     and_then (Unmarshal_object line) (\<lambda>kvs.
     and_then (string_field ''launch_id'' kvs) (\<lambda>lid.
     and_then (string_field ''event_name'' kvs) (\<lambda>nm.
     and_then (time_field E ''occurred_at'' kvs) (\<lambda>t.
     and_then (string_field ''signature'' kvs) (\<lambda>sig.
     and_then (string_field ''prev_hash'' kvs) (\<lambda>prev.
     Inr \<lparr>ae_LaunchID = lid, ae_EventName = nm, ae_OccurredAt = t,
          ae_Payload = (case field_values ''payload'' kvs of [] \<Rightarrow> None | vs \<Rightarrow> Some (last vs)),
          ae_Signature = sig, ae_PrevHash = prev\<rparr>))))))"

section \<open>Lines of a file\<close>

fun split_lines :: "bytes \<Rightarrow> string list" where
  "split_lines [] = []"
| "split_lines (c # s) = (if c = CHR 0x0A then [] # split_lines s
     else case split_lines s of [] \<Rightarrow> [[c]] | l # ls \<Rightarrow> (c # l) # ls)"

definition drop_cr :: "string \<Rightarrow> string" where
  "drop_cr l = (if l \<noteq> [] \<and> last l = CHR 0x0D then butlast l else l)"

definition scan_lines :: "nat \<Rightarrow> bytes \<Rightarrow> string list \<times> bool" where
  \<comment> \<open>\<open>bufio.Scanner\<close>: the tokens, and whether it stopped at a line that does not fit its buffer\<close>
  "scan_lines maxToken s = (let ls = split_lines s; ok = takeWhile (\<lambda>l. length l < maxToken) ls in
     (map drop_cr ok, length ok < length ls))"

definition MaxScanTokenSize :: nat where "MaxScanTokenSize = 64 * 1024"
definition maxAuditLineBytes :: nat where "maxAuditLineBytes = 1048576"

definition readLastLine :: "bytes \<Rightarrow> string result" where
  \<comment> \<open>the last non-empty line within the last 64 KB, empty for an empty file\<close>
  "readLastLine file =
     (if file = [] then Inr []
      else let (ls, tooLong) = scan_lines MaxScanTokenSize (drop (length file - 64 * 1024) file);
               ne = filter (\<lambda>l. l \<noteq> []) ls in
        if tooLong then Inl [] else Inr (if ne = [] then [] else last ne))"

section \<open>Writer\<close>

record ed25519 =
  ed_Sign :: "nat list \<Rightarrow> bytes \<Rightarrow> nat list"                \<comment> \<open>private key, message\<close>
  ed_Public :: "nat list \<Rightarrow> nat list"
  ed_Verify :: "nat list \<Rightarrow> bytes \<Rightarrow> nat list \<Rightarrow> bool"      \<comment> \<open>public key, message, signature\<close>

record JSONLWriter =
  jw_file :: bytes
  jw_privKey :: "nat list option"
  jw_prevHash :: string
  jw_attached :: bool                  \<comment> \<open>a chain-tip store is attached\<close>
  jw_tip :: string                     \<comment> \<open>the stored tip: row 1 of \<open>audit_state\<close>, empty when there is none\<close>
  jw_lastOccurredAt :: time

definition audit_Open :: "bytes \<Rightarrow> nat list option \<Rightarrow> string \<Rightarrow> JSONLWriter" where
  "audit_Open file key tip = \<lparr>jw_file = file, jw_privKey = key, jw_prevHash = [], jw_attached = False,
     jw_tip = tip, jw_lastOccurredAt = 0\<rparr>"

definition PubKey :: "ed25519 \<Rightarrow> JSONLWriter \<Rightarrow> nat list option" where
  "PubKey C w = map_option (ed_Public C) (jw_privKey w)"

definition LoadPrevHash :: "JSONLWriter \<Rightarrow> string" where
  "LoadPrevHash w = jw_tip w"

definition SavePrevHash :: "bool \<Rightarrow> string \<Rightarrow> JSONLWriter \<Rightarrow> unit result \<times> JSONLWriter" where
  "SavePrevHash fault h w = (if fault then (Inl [], w) else (Inr (), w\<lparr>jw_tip := h\<rparr>))"

definition verifyLastLineHash :: "env \<Rightarrow> bytes \<Rightarrow> string \<Rightarrow> unit result" where
  "verifyLastLineHash E file storedHash =
     and_then (readLastLine file) (\<lambda>last.
     and_then (require (last \<noteq> []) []) (\<lambda>_.
     require (sha256hex E last = storedHash) []))"

definition WithPrevHashStore :: "env \<Rightarrow> JSONLWriter \<Rightarrow> JSONLWriter result" where
  "WithPrevHashStore E w =
     (let storedHash = LoadPrevHash w in
      and_then (if storedHash \<noteq> [] then verifyLastLineHash E (jw_file w) storedHash else Inr ()) (\<lambda>_.
      Inr (w\<lparr>jw_attached := True, jw_prevHash := storedHash\<rparr>)))"

definition sign_entry :: "env \<Rightarrow> ed25519 \<Rightarrow> nat list option \<Rightarrow> AuditEvent \<Rightarrow> AuditEvent result" where
  "sign_entry E C key ev = (case key of
     None \<Rightarrow> Inr ev
   | Some k \<Rightarrow> (case canonicaljson_MarshalForSigning E (audit_json E ev) of
       None \<Rightarrow> Inl []
     | Some msg \<Rightarrow> Inr (ev\<lparr>ae_Signature := base64_EncodeToString (ed_Sign C k msg)\<rparr>)))"

definition Append ::
  "env \<Rightarrow> ed25519 \<Rightarrow> nat option \<Rightarrow> bool \<Rightarrow> AuditEvent \<Rightarrow> JSONLWriter \<Rightarrow> unit result \<times> JSONLWriter" where
  \<comment> \<open>\<open>Some n\<close>: the write fails after \<open>n\<close> bytes; the flag: the saving of the tip fails\<close>
  "Append E C short fault ev w =
     (case sign_entry E C (jw_privKey w) (ev\<lparr>ae_PrevHash := jw_prevHash w\<rparr>) of
        Inl e \<Rightarrow> (Inl e, w)
      | Inr ev' \<Rightarrow>
        let line = json_print (audit_json E ev'); buf = line @ [CHR 0x0A] in
        case short of
          Some n \<Rightarrow> (Inl [], w\<lparr>jw_file := jw_file w @ take n buf\<rparr>)
        | None \<Rightarrow>
          let w' = w\<lparr>jw_file := jw_file w @ buf, jw_prevHash := sha256hex E line,
                     jw_lastOccurredAt := ae_OccurredAt ev'\<rparr> in
          if jw_attached w' then SavePrevHash fault (jw_prevHash w') w' else (Inr (), w'))"

definition ReadForLaunch :: "env \<Rightarrow> string \<Rightarrow> bytes \<Rightarrow> AuditEvent list result" where
  \<comment> \<open>malformed lines are skipped; the default buffer of the scanner\<close>
  "ReadForLaunch E launchID file =
     (let (ls, tooLong) = scan_lines MaxScanTokenSize file;
          evs = List.map_filter (\<lambda>l. case decode_audit E l of Inl _ \<Rightarrow> None | Inr ev \<Rightarrow> Some ev) ls in
      if tooLong then Inl [] else Inr (filter (\<lambda>ev. ae_LaunchID ev = launchID) evs))"

definition audit_event :: "env \<Rightarrow> (goerror \<Rightarrow> string) \<Rightarrow> time \<Rightarrow> string \<Rightarrow> event \<Rightarrow> AuditEvent" where
  \<comment> \<open>the entry \<open>writeAuditEvent\<close> builds from a domain event\<close>
  "audit_event E et now scope ev =
     \<lparr>ae_LaunchID = scope, ae_EventName = EventName (body ev),
      ae_OccurredAt = (if time_IsZero (occurredAt ev) then now else occurredAt ev),
      ae_Payload = Some (event_json E et (body ev)), ae_Signature = [], ae_PrevHash = []\<rparr>"

section \<open>Scanner\<close>

datatype AnomalyKind = AnomalyTamper | AnomalyClock

datatype anomaly_msg =
    InvalidJSON | MissingFields "string list" | TimeBefore time time
  | SignatureEncoding | SigningBytes | SignatureFailed | NoPreviousLine | PrevHashMismatch string string

record Anomaly =
  an_Line :: nat
  an_Kind :: AnomalyKind
  an_Msg :: anomaly_msg

record ScanResult =
  sr_Count :: nat
  sr_FirstTime :: time
  sr_LastTime :: time
  sr_Anomalies :: "Anomaly list"
  sr_ChainChecked :: bool

definition HasTamper :: "ScanResult \<Rightarrow> bool" where
  "HasTamper r \<longleftrightarrow> list_ex (\<lambda>a. an_Kind a = AnomalyTamper) (sr_Anomalies r)"

definition missingAuditFields :: "AuditEvent \<Rightarrow> string list" where
  "missingAuditFields e =
     (if ae_LaunchID e = [] then [''launch_id''] else []) @ (if ae_EventName e = [] then [''event_name''] else []) @
     (if time_IsZero (ae_OccurredAt e) then [''occurred_at''] else []) @
     (if ae_Payload e = None then [''payload''] else [])"

definition checkSignature :: "env \<Rightarrow> ed25519 \<Rightarrow> AuditEvent \<Rightarrow> nat list option \<Rightarrow> anomaly_msg option" where
  "checkSignature E C e pubKey = (case pubKey of
     None \<Rightarrow> None
   | Some pk \<Rightarrow>
     if ae_Signature e = [] then None
     else case base64_DecodeString (ae_Signature e) of
       None \<Rightarrow> Some SignatureEncoding
     | Some sigBytes \<Rightarrow>
       (case canonicaljson_MarshalForSigning E (audit_json E (e\<lparr>ae_Signature := []\<rparr>)) of
          None \<Rightarrow> Some SigningBytes
        | Some msg \<Rightarrow> if \<not> ed_Verify C pk msg sigBytes then Some SignatureFailed else None))"

definition checkPrevHashLink :: "env \<Rightarrow> AuditEvent \<Rightarrow> string \<Rightarrow> anomaly_msg option \<times> bool" where
  "checkPrevHashLink E e prevLine =
     (if ae_PrevHash e = [] then (None, False)
      else if prevLine = [] then (Some NoPreviousLine, False)
      else let want = sha256hex E prevLine in
        if ae_PrevHash e \<noteq> want then (Some (PrevHashMismatch want (ae_PrevHash e)), False) else (None, True))"

record scan_state =
  ss_lineNum :: nat
  ss_prevTime :: time
  ss_prevLine :: string
  ss_res :: ScanResult

definition report :: "nat \<Rightarrow> AnomalyKind \<Rightarrow> anomaly_msg option \<Rightarrow> Anomaly list" where
  "report n k m = (case m of None \<Rightarrow> [] | Some x \<Rightarrow> [\<lparr>an_Line = n, an_Kind = k, an_Msg = x\<rparr>])"

definition scan_entry :: "env \<Rightarrow> ed25519 \<Rightarrow> nat list option \<Rightarrow> string \<Rightarrow> AuditEvent \<Rightarrow> scan_state \<Rightarrow> scan_state" where
  \<comment> \<open>the part of the loop body for a well-formed entry\<close>
  "scan_entry E C pubKey line e st =
     (let n = ss_lineNum st; res = ss_res st; t = ae_OccurredAt e;
          clock = (if \<not> time_IsZero (ss_prevTime st) \<and> t < ss_prevTime st then Some (TimeBefore t (ss_prevTime st)) else None);
          (linkMsg, checked) = checkPrevHashLink E e (ss_prevLine st)
      in st\<lparr>ss_prevTime := t, ss_prevLine := line, ss_res := res\<lparr>
           sr_Anomalies := sr_Anomalies res @ report n AnomalyClock clock @
             report n AnomalyTamper (checkSignature E C e pubKey) @ report n AnomalyTamper linkMsg,
           sr_ChainChecked := sr_ChainChecked res \<or> checked,
           sr_FirstTime := if sr_Count res = 0 then t else sr_FirstTime res,
           sr_LastTime := t, sr_Count := sr_Count res + 1\<rparr>\<rparr>)"

definition scan_line :: "env \<Rightarrow> ed25519 \<Rightarrow> nat list option \<Rightarrow> string \<Rightarrow> scan_state \<Rightarrow> scan_state" where
  "scan_line E C pubKey line st0 =
     (let st = st0\<lparr>ss_lineNum := ss_lineNum st0 + 1\<rparr>;
          bad = (\<lambda>m. st\<lparr>ss_res := (ss_res st)\<lparr>sr_Anomalies :=
                   sr_Anomalies (ss_res st) @ report (ss_lineNum st) AnomalyTamper (Some m)\<rparr>\<rparr>) in
      if line = [] then st
      else case decode_audit E line of
        Inl _ \<Rightarrow> bad InvalidJSON
      | Inr e \<Rightarrow>
        let missing = missingAuditFields e in
        if missing \<noteq> [] then bad (MissingFields missing)
        else scan_entry E C pubKey line e st)"

definition scan_init :: scan_state where
  "scan_init = \<lparr>ss_lineNum = 0, ss_prevTime = 0, ss_prevLine = [],
     ss_res = \<lparr>sr_Count = 0, sr_FirstTime = 0, sr_LastTime = 0, sr_Anomalies = [], sr_ChainChecked = False\<rparr>\<rparr>"

definition Scan :: "env \<Rightarrow> ed25519 \<Rightarrow> nat list option \<Rightarrow> bytes \<Rightarrow> ScanResult \<times> bool" where
  \<comment> \<open>the result and whether the reader failed (\<open>scanner.Err()\<close>)\<close>
  "Scan E C pubKey file =
     (let (ls, tooLong) = scan_lines maxAuditLineBytes file in (ss_res (fold (scan_line E C pubKey) ls scan_init), tooLong))"

section \<open>Start-up check\<close>

definition lastEntryOccurredAt :: "env \<Rightarrow> bytes \<Rightarrow> time result" where
  "lastEntryOccurredAt E file =
     and_then (readLastLine file) (\<lambda>last.
     if last = [] then Inr 0 else and_then (decode_audit E last) (\<lambda>ev. Inr (ae_OccurredAt ev)))"

definition VerifyOnStart :: "env \<Rightarrow> ed25519 \<Rightarrow> bool \<Rightarrow> JSONLWriter \<Rightarrow> JSONLWriter result" where
  "VerifyOnStart E C full w =
     and_then (lastEntryOccurredAt E (jw_file w)) (\<lambda>t.
     let w' = w\<lparr>jw_lastOccurredAt := t\<rparr> in
     if \<not> full then Inr w'
     else let (res, tooLong) = Scan E C (PubKey C w') (jw_file w') in
       if tooLong then Inl [] else if HasTamper res then Inl [] else Inr w')"

end
