(* ===== verification/Auth.thy ===== *)
theory Auth
  imports AuditLog WorldInvariants
begin

text \<open>
  Authentication and the coordinator allowlist: the challenge store and its rate limiter
  (sqlite/challenge.go, challenge_rate_limiter.go, application/ratelimit), the session tokens
  (infrastructure/auth/jwt.go), the service over them (services/auth.go), and the allowlist
  (sqlite/coordinator_allowlist.go, services/coordinator.go).  The JWT library is a parameter; a
  challenge is the random text the caller of \<open>Issue\<close> drew.
\<close>

section \<open>Challenges\<close>

definition challengeTTL :: duration where "challengeTTL = 5 * Minute"
definition challengeRateWindow :: duration where "challengeRateWindow = 5 * Minute"
definition challengeRateMaxReqs :: int where "challengeRateMaxReqs = 5"

definition on_auth :: "(auth_tables \<Rightarrow> auth_tables) \<Rightarrow> db \<Rightarrow> db" where
  "on_auth f d = d\<lparr>db_auth := f (db_auth d)\<rparr>"

definition challenge_upsert :: "env \<Rightarrow> time \<Rightarrow> string \<Rightarrow> string \<Rightarrow> db \<Rightarrow> (nat \<times> db) result" where
  \<comment> \<open>the conditional upsert and its number of affected rows\<close>
  "challenge_upsert E now challenge operatorAddr d =
     (let rows = at_challenges (db_auth d); row = (operatorAddr, challenge, now + challengeTTL) in
      case map_of rows operatorAddr of
        None \<Rightarrow> Inr (1, on_auth (\<lambda>a. a\<lparr>at_challenges := rows @ [row]\<rparr>) d)
      | Some (_, e) \<Rightarrow>
        if timeToStr E e < timeToStr E now
        then Inr (1, on_auth (\<lambda>a. a\<lparr>at_challenges := map (\<lambda>r. if fst r = operatorAddr then row else r) rows\<rparr>) d)
        else Inr (0, d))"

definition challenges_Issue :: "env \<Rightarrow> time \<Rightarrow> string \<Rightarrow> string \<Rightarrow> string io" where
  "challenges_Issue E now challenge operatorAddr =
     bnd (execs (challenge_upsert E now challenge operatorAddr)) (\<lambda>n.
     if n = 0 then reads (\<lambda>d. case map_of (at_challenges (db_auth d)) operatorAddr of
                            None \<Rightarrow> Inl [] | Some (existing, _) \<Rightarrow> Inr existing)
     else ret challenge)"

definition challenges_Consume :: "time \<Rightarrow> string \<Rightarrow> string io" where
  \<comment> \<open>the deletion is attempted whatever the expiry, and its failure is ignored\<close>
  "challenges_Consume now operatorAddr =
     bnd (reads (\<lambda>d. case map_of (at_challenges (db_auth d)) operatorAddr of
                   None \<Rightarrow> Inl [ErrNotFound] | Some row \<Rightarrow> Inr row)) (\<lambda>(challenge, e).
     bnd (\<lambda>w. (Inr (), snd (stmt (on_auth (\<lambda>a. a\<lparr>at_challenges :=
            filter (\<lambda>r. fst r \<noteq> operatorAddr) (at_challenges a)\<rparr>)) w))) (\<lambda>_.
     if now > e then fail [ErrNotFound] else ret challenge))"

definition Allow :: "env \<Rightarrow> time \<Rightarrow> string \<Rightarrow> unit io" where
  "Allow E now operatorAddr =
     bnd (reads (\<lambda>d. Inr (int (length (filter (\<lambda>(a, t). a = operatorAddr \<and>
            \<not> timeToStr E t < timeToStr E (now - challengeRateWindow)) (at_rate (db_auth d)))))) ) (\<lambda>count.
     bnd (ensure (\<not> count \<ge> challengeRateMaxReqs) [ErrTooManyRequests]) (\<lambda>_.
     bnd (\<lambda>w. (Inr (), snd (stmt (on_auth (\<lambda>a. a\<lparr>at_rate := at_rate a @ [(operatorAddr, now)]\<rparr>)) w))) (\<lambda>_ w.
     (Inr (), snd (stmt (on_auth (\<lambda>a. a\<lparr>at_rate :=
        filter (\<lambda>(_, t). \<not> timeToStr E t < timeToStr E (now - challengeRateWindow)) (at_rate a)\<rparr>)) w)))))"

definition limited_Issue :: "env \<Rightarrow> time \<Rightarrow> string \<Rightarrow> string \<Rightarrow> string io" where
  \<comment> \<open>\<open>RateLimitedChallengeStore.Issue\<close>; \<open>Consume\<close> passes through\<close>
  "limited_Issue E now challenge operatorAddr =
     bnd (Allow E now operatorAddr) (\<lambda>_. challenges_Issue E now challenge operatorAddr)"

section \<open>Session tokens\<close>

definition jwtTTL :: duration where "jwtTTL = Hour"

record Claims =
  cl_Subject :: string
  cl_IssuedAt :: "time option"
  cl_ExpiresAt :: "time option"
  cl_ID :: uuid

record jwt =
  jwt_SignedString :: "Claims \<Rightarrow> string option"
  jwt_ParseWithClaims :: "time \<Rightarrow> string \<Rightarrow> Claims option"     \<comment> \<open>at a time: signature and expiry verified\<close>

definition to_second :: "time \<Rightarrow> time" where
  \<comment> \<open>\<open>jwt.NewNumericDate\<close> and the format RFC 3339 keep whole seconds\<close>
  "to_second t = t - t mod Second"

definition sessions_Issue :: "jwt \<Rightarrow> time \<Rightarrow> uuid \<Rightarrow> string \<Rightarrow> string io" where
  "sessions_Issue J now tid operatorAddr =
     (case jwt_SignedString J \<lparr>cl_Subject = operatorAddr, cl_IssuedAt = Some (to_second now),
             cl_ExpiresAt = Some (to_second (now + jwtTTL)), cl_ID = tid\<rparr> of
        None \<Rightarrow> fail [] | Some tok \<Rightarrow> ret tok)"

definition accountFenceKey :: "env \<Rightarrow> string \<Rightarrow> string" where
  "accountFenceKey E addr = (case NewAccountID E addr of Inr a \<Rightarrow> Hex a | Inl _ \<Rightarrow> addr)"

definition parseClaims :: "jwt \<Rightarrow> time \<Rightarrow> string \<Rightarrow> (string \<times> time \<times> time) result" where
  "parseClaims J now raw = (case jwt_ParseWithClaims J now raw of
     None \<Rightarrow> Inl []
   | Some c \<Rightarrow>
     if cl_Subject c = [] then Inl []
     else Inr (cl_Subject c, case_option 0 (\<lambda>t. t) (cl_IssuedAt c), case_option 0 (\<lambda>t. t) (cl_ExpiresAt c)))"

definition sessions_Validate :: "env \<Rightarrow> jwt \<Rightarrow> time \<Rightarrow> string \<Rightarrow> string io" where
  "sessions_Validate E J now raw = (case parseClaims J now raw of
     Inl _ \<Rightarrow> fail [ErrUnauthorized]
   | Inr (operatorAddr, issuedAt, _) \<Rightarrow>
     bnd (reads (\<lambda>d. Inr (map_of (at_revocations (db_auth d)) (accountFenceKey E operatorAddr)))) (\<lambda>fence.
     case fence of
       None \<Rightarrow> ret operatorAddr
     | Some revokeBefore \<Rightarrow> if \<not> issuedAt > revokeBefore then fail [ErrUnauthorized] else ret operatorAddr))"

definition sessions_Revoke :: "string \<Rightarrow> unit io" where
  "sessions_Revoke token = ret ()"

definition RevokeAllForOperator :: "env \<Rightarrow> time \<Rightarrow> string \<Rightarrow> unit io" where
  "RevokeAllForOperator E now operatorAddr =
     stmt (on_auth (\<lambda>a. a\<lparr>at_revocations :=
       upsert fst (\<lambda>old new. new) (accountFenceKey E operatorAddr, to_second now) (at_revocations a)\<rparr>))"

definition ParseClaims :: "jwt \<Rightarrow> time \<Rightarrow> string \<Rightarrow> (string \<times> time) result" where
  "ParseClaims J now raw = (case parseClaims J now raw of
     Inl _ \<Rightarrow> Inl [ErrUnauthorized] | Inr (operatorAddr, _, expiresAt) \<Rightarrow> Inr (operatorAddr, expiresAt))"

section \<open>The authentication service\<close>

record auth_cfg =
  au_Verify :: "string \<Rightarrow> string \<Rightarrow> bytes \<Rightarrow> nat list \<Rightarrow> bool"
  au_jwt :: jwt

definition accountKey :: "env \<Rightarrow> string \<Rightarrow> string result" where
  "accountKey E addr = (case NewAccountID E addr of Inl e \<Rightarrow> Inl (e @ [ErrBadRequest]) | Inr a \<Rightarrow> Inr (Hex a))"

definition auditAccount :: "env \<Rightarrow> string \<Rightarrow> string" where
  "auditAccount E addr = (case accountKey E addr of Inr h \<Rightarrow> h | Inl _ \<Rightarrow> addr)"

definition IssueChallenge :: "env \<Rightarrow> time \<Rightarrow> string \<Rightarrow> string \<Rightarrow> string io" where
  "IssueChallenge E now challenge operatorAddr =
     bnd (lift (accountKey E operatorAddr)) (\<lambda>ac. limited_Issue E now challenge ac)"

record VerifyChallengeInput =
  vc_OperatorAddress :: string
  vc_PubKeyB64 :: string
  vc_Challenge :: string
  vc_Nonce :: string
  vc_Timestamp :: string
  vc_Signature :: string

definition verify_json :: "VerifyChallengeInput \<Rightarrow> json" where
  "verify_json i = JObj [(''operator_address'', JStr (vc_OperatorAddress i)), (''pubkey_b64'', JStr (vc_PubKeyB64 i)),
     (''challenge'', JStr (vc_Challenge i)), (''nonce'', JStr (vc_Nonce i)), (''timestamp'', JStr (vc_Timestamp i)),
     (''signature'', JStr (vc_Signature i))]"

definition VerifyChallenge :: "env \<Rightarrow> auth_cfg \<Rightarrow> time \<Rightarrow> uuid \<Rightarrow> VerifyChallengeInput \<Rightarrow> string io" where
  "VerifyChallenge E cfg now tid input =
     bnd (lift (accountKey E (vc_OperatorAddress input))) (\<lambda>ac.
     bnd (Consume E now ac (vc_Nonce input)) (\<lambda>_.
     bnd (lift (validateTimestamp E now (vc_Timestamp input))) (\<lambda>_.
     bnd (challenges_Consume now ac) (\<lambda>expected.
     bnd (ensure (vc_Challenge input = expected) [ErrChallengeMismatch, ErrUnauthorized]) (\<lambda>_.
     bnd (lift (signing_bytes E (verify_json input))) (\<lambda>message.
     bnd (lift (decodeBase64Sig (vc_Signature input))) (\<lambda>sigBytes.
     bnd (ensure (au_Verify cfg (vc_OperatorAddress input) (vc_PubKeyB64 input) message sigBytes) [ErrUnauthorized]) (\<lambda>_.
     sessions_Issue (au_jwt cfg) now tid (vc_OperatorAddress input)))))))))"

definition RevokeSession :: "string \<Rightarrow> unit io" where
  "RevokeSession token = sessions_Revoke token"

definition RevokeAllSessions :: "env \<Rightarrow> time \<Rightarrow> string \<Rightarrow> string \<Rightarrow> unit io" where
  "RevokeAllSessions E now operatorAddr revokedBy =
     bnd (RevokeAllForOperator E now operatorAddr) (\<lambda>_.
     recordAudit now GlobalAuditScope (WithTime (SessionsRevoked (auditAccount E operatorAddr) (auditAccount E revokedBy)) now))"

definition GetSessionInfo :: "env \<Rightarrow> auth_cfg \<Rightarrow> time \<Rightarrow> string \<Rightarrow> (string \<times> time) io" where
  "GetSessionInfo E cfg now token =
     bnd (sessions_Validate E (au_jwt cfg) now token) (\<lambda>_. lift (ParseClaims (au_jwt cfg) now token))"

definition ValidateSession :: "env \<Rightarrow> auth_cfg \<Rightarrow> time \<Rightarrow> string \<Rightarrow> string io" where
  "ValidateSession E cfg now token = sessions_Validate E (au_jwt cfg) now token"

section \<open>The coordinator allowlist\<close>

definition accountHex :: "env \<Rightarrow> string \<Rightarrow> string option" where
  "accountHex E addr = (case NewAccountID E addr of Inl _ \<Rightarrow> None | Inr a \<Rightarrow> Some (Hex a))"

definition coordinator_insert :: "string \<Rightarrow> string \<Rightarrow> time \<Rightarrow> auth_tables \<Rightarrow> auth_tables" where
  \<comment> \<open>\<open>ON CONFLICT(address) DO NOTHING\<close>\<close>
  "coordinator_insert ac addedBy now a = (if ac \<in> fst ` set (at_coordinators a) then a
     else a\<lparr>at_coordinators := at_coordinators a @ [(ac, addedBy, now)]\<rparr>)"

definition coordinators_Add :: "env \<Rightarrow> time \<Rightarrow> string \<Rightarrow> string \<Rightarrow> unit io" where
  "coordinators_Add E now address addedBy = (case accountHex E address of
     None \<Rightarrow> fail [ErrBadRequest]
   | Some a \<Rightarrow> stmt (on_auth (coordinator_insert a addedBy now)))"

definition coordinator_delete :: "string \<Rightarrow> auth_tables \<Rightarrow> auth_tables" where
  "coordinator_delete ac a = a\<lparr>at_coordinators := filter (\<lambda>r. fst r \<noteq> ac) (at_coordinators a)\<rparr>"

definition coordinators_Remove :: "env \<Rightarrow> string \<Rightarrow> unit io" where
  "coordinators_Remove E address = (case accountHex E address of
     None \<Rightarrow> fail [ErrNotFound]
   | Some a \<Rightarrow>
     bnd (execs (\<lambda>d. Inr (a \<in> fst ` set (at_coordinators (db_auth d)), on_auth (coordinator_delete a) d))) (\<lambda>found.
     ensure found [ErrNotFound]))"

definition coordinators_Contains :: "env \<Rightarrow> string \<Rightarrow> bool io" where
  "coordinators_Contains E address = (case accountHex E address of
     None \<Rightarrow> ret False
   | Some a \<Rightarrow> reads (\<lambda>d. Inr (a \<in> fst ` set (at_coordinators (db_auth d)))))"

definition coordinators_List :: "env \<Rightarrow> int \<Rightarrow> int \<Rightarrow> ((string \<times> string \<times> time) list \<times> int) io" where
  "coordinators_List E page perPage =
     bnd (reads (\<lambda>d. Inr (int (length (at_coordinators (db_auth d)))))) (\<lambda>total.
     bnd (reads (\<lambda>d. Inr (page_of page perPage
            (sort_key (\<lambda>r. timeToStr E (snd (snd r))) (at_coordinators (db_auth d)))))) (\<lambda>rows.
     ret (rows, total)))"

definition AddCoordinator :: "env \<Rightarrow> time \<Rightarrow> string \<Rightarrow> string \<Rightarrow> unit io" where
  "AddCoordinator E now address addedBy =
     bnd (coordinators_Add E now address addedBy) (\<lambda>_.
     recordAudit now GlobalAuditScope (WithTime (CoordinatorAdded (auditAccount E address) (auditAccount E addedBy)) now))"

definition RemoveCoordinator :: "env \<Rightarrow> time \<Rightarrow> string \<Rightarrow> string \<Rightarrow> unit io" where
  "RemoveCoordinator E now address removedBy =
     bnd (coordinators_Remove E address) (\<lambda>_.
     recordAudit now GlobalAuditScope (WithTime (CoordinatorRemoved (auditAccount E address) (auditAccount E removedBy)) now))"

section \<open>Keys and frames\<close>

lemma auth_keys_updates:
  "auth_keys a \<Longrightarrow> auth_keys (coordinator_insert k0 by' now a)"
  "auth_keys a \<Longrightarrow> auth_keys (coordinator_delete k0 a)"
  "auth_keys a \<Longrightarrow> auth_keys (a\<lparr>at_challenges := filter P (at_challenges a)\<rparr>)"
  "auth_keys a \<Longrightarrow> auth_keys (a\<lparr>at_rate := r\<rparr>)"
  "auth_keys a \<Longrightarrow> auth_keys (a\<lparr>at_revocations := upsert fst (\<lambda>old new. new) (k, t) (at_revocations a)\<rparr>)"
  by (auto simp: auth_keys_def coordinator_insert_def coordinator_delete_def distinct_map_filter intro: distinct_keys_upsert)

lemma challenge_upsert_keys:
  assumes "challenge_upsert E now c k0 d = Inr (n, d')"
  shows "\<exists>x. d' = d\<lparr>db_auth := x\<rparr> \<and> (auth_keys (db_auth d) \<longrightarrow> auth_keys x)"
proof -
  have m: "fst \<circ> (\<lambda>r. if fst r = k0 then (k0, y) else r) = fst" for y :: "string \<times> time"
    by (auto simp: fun_eq_iff)
  show ?thesis
  proof (cases "map_of (at_challenges (db_auth d)) k0")
    case None
    then have "k0 \<notin> fst ` set (at_challenges (db_auth d))" by (simp add: map_of_eq_None_iff)
    then show ?thesis using assms None
      by (auto simp: challenge_upsert_def on_auth_def auth_keys_def intro!: exI)
  next
    case (Some r)
    obtain c' e where r: "r = (c', e)" by force
    show ?thesis
    proof (cases "timeToStr E e < timeToStr E now")
      case True
      then show ?thesis using assms Some r
        by (auto simp: challenge_upsert_def on_auth_def auth_keys_def Let_def m intro!: exI)
    next
      case False
      then show ?thesis using assms Some r by (auto simp: challenge_upsert_def Let_def intro!: exI [of _ "db_auth d"])
    qed
  qed
qed

context world_invariant
begin

lemma keeps_on_auth: "(\<And>a. auth_keys a \<Longrightarrow> auth_keys (f a)) \<Longrightarrow> keeps I (stmt (on_auth f))"
  by (rule keeps_stmt) (auto simp: on_auth_def intro: I_auth)

lemma keeps_auth_statements [keeps_intros]:
  "keeps I (stmt (on_auth (coordinator_insert k0 by' now)))" "keeps I (stmt (on_auth (\<lambda>a. a\<lparr>at_rate := rf a\<rparr>)))"
  "keeps I (stmt (on_auth (\<lambda>a. a\<lparr>at_challenges := filter P (at_challenges a)\<rparr>)))"
  "keeps I (RevokeAllForOperator E now addr)" "keeps I (execs (challenge_upsert E now c addr))"
  "keeps I (execs (\<lambda>d. Inr (g d, on_auth (coordinator_delete k0) d)))"
proof -
  show "keeps I (execs (challenge_upsert E now c addr))"
    by (rule keeps_execs) (use challenge_upsert_keys I_auth in blast)
  show "keeps I (execs (\<lambda>d. Inr (g d, on_auth (coordinator_delete k0) d)))"
    by (rule keeps_execs) (auto simp: on_auth_def intro: I_auth auth_keys_updates)
qed (auto simp: RevokeAllForOperator_def intro!: keeps_on_auth auth_keys_updates)

lemma keeps_auth_handlers:
  "keeps I (IssueChallenge E now c addr)" "keeps I (VerifyChallenge E acfg now tid vi)"
  "keeps I (RevokeAllSessions E now addr by')" "keeps I (AddCoordinator E now addr by')"
  "keeps I (RemoveCoordinator E now addr by')"
  unfolding IssueChallenge_def limited_Issue_def Allow_def challenges_Issue_def VerifyChallenge_def challenges_Consume_def
    sessions_Issue_def RevokeAllSessions_def AddCoordinator_def RemoveCoordinator_def coordinators_Add_def
    coordinators_Remove_def recordAudit_def
  by (intro keeps_intros keeps_ignore)+

end

end
