(* ===== verification/System.thy ===== *)
theory System
  imports LaunchService JoinRequestService ReadinessService RehearsalService Jobs Auth
begin

text \<open>
  The whole program as a transition system: a step is one request to a service or one tick of a
  background job, run under any schedule of failures.  Requests are interleaved at their boundaries.
  The handlers keep every invariant the single statements keep; two invariants are interpreted here:
  the uniqueness of the database's keys, and the write-ahead record of every executed proposal.
\<close>

section \<open>Every handler keeps a governed invariant\<close>

context world_invariant
begin

lemma keeps_write_file [keeps_intros]: "keeps I (write_file lid n f)"
proof -
  have "I (w\<lparr>w_faults := fs, w_files := sf\<rparr>)" if "I w" for w fs sf
    using I_stored_files [OF I_faults [OF that]] by simp
  then show ?thesis
    by (auto simp: keeps_def write_file_def I_faults split: list.splits bool.splits)
qed

lemma keeps_stores [keeps_intros]:
  "keeps I (SaveInitial lid b)" "keeps I (SaveFinal lid b)" "keeps I (SaveInitialRef lid u h)"
  "keeps I (SaveFinalRef lid u h)" "keeps I (allocation_Save lid t b)" "keeps I (allocation_SaveRef lid t u h)"
  by (simp_all add: SaveInitial_def SaveFinal_def SaveInitialRef_def SaveFinalRef_def allocation_Save_def
      allocation_SaveRef_def writeBytes_def writeRef_def keeps_intros)

lemma keeps_publish [keeps_intros]: "keeps I (events_Publish ev)"
  by (auto simp: keeps_def events_Publish_def I_published)

lemma keeps_emit_at [keeps_intros]: "keeps I (emit_at now scope ev)"
  unfolding emit_at_def recordAudit_def by (intro keeps_intros keeps_ignore)

lemma keeps_requireCommittee [keeps_intros]: "keeps I (requireCommittee E lid addr)"
  unfolding requireCommittee_def by (intro keeps_intros)

lemma keeps_launch_handlers:
  "keeps I (CreateLaunch E now lid ci)" "keeps I (UploadInitialGenesis E now lid b addr)"
  "keeps I (UploadFinalGenesis E now lid b addr)"
  "keeps I (UploadInitialGenesisRef E lcfg now lid u h addr)"
  "keeps I (UploadFinalGenesisRef E lcfg now lid u h gt addr)"
  "keeps I (UploadAllocationFileBytes E now lid t b addr)"
  "keeps I (UploadAllocationFileRef E lcfg now lid t u h addr)"
  "keeps I (AddMemberToLaunch E now lid a lab addr)" "keeps I (RemoveMemberFromLaunch E now lid a addr)"
  "keeps I (SetCommittee E now lid c addr)" "keeps I (OpenWindowService E now lid addr)"
  unfolding CreateLaunch_def UploadInitialGenesis_def UploadFinalGenesis_def UploadInitialGenesisRef_def
    UploadFinalGenesisRef_def uploadGenesisRef_def UploadAllocationFileBytes_def UploadAllocationFileRef_def
    AddMemberToLaunch_def RemoveMemberFromLaunch_def SetCommittee_def OpenWindowService_def Let_def
  by (intro keeps_intros)+

lemma keeps_PatchLaunch: "keeps I (PatchLaunch E lcfg now lid i addr)"
  unfolding PatchLaunch_def Let_def by (intro keeps_intros)

lemma keeps_CancelLaunch: "keeps I (CancelLaunch E now lid addr)"
proof -
  have "keeps I (case s of StatusDraft \<Rightarrow> ret () | StatusPublished \<Rightarrow> ret () | StatusWindowOpen \<Rightarrow> fail e1
      | StatusWindowClosed \<Rightarrow> fail e2 | StatusGenesisReady \<Rightarrow> fail e3 | StatusLaunched \<Rightarrow> fail e4
      | StatusCancelled \<Rightarrow> fail e5)" for s e1 e2 e3 e4 e5
    by (cases s) (simp_all add: keeps_intros)
  then show ?thesis unfolding CancelLaunch_def by (intro keeps_intros)
qed

lemma keeps_optional [keeps_intros]: "keeps I m \<Longrightarrow> keeps I (optional m)"
  unfolding keeps_def optional_def by (auto split: prod.splits sum.splits if_splits)

lemma keeps_supersede [keeps_intros]: "keeps I (supersedePending E lid a)"
proof -
  have "keeps I (case s of JRPending \<Rightarrow> m | JRApproved \<Rightarrow> fail e1 | JRRejected \<Rightarrow> fail e2 | JRExpired \<Rightarrow> fail e3)"
    if "keeps I m" for s e1 e2 e3 and m :: "unit io"
    using that by (cases s) (simp_all add: keeps_intros)
  note c = this
  show ?thesis unfolding supersedePending_def by (intro keeps_intros c)
qed

lemma keeps_Submit: "keeps I (Submit E jcfg now jid lid input)"
  unfolding Submit_def verifyRequestAuth_def Let_def by (intro keeps_intros)

lemma keeps_Confirm: "keeps I (Confirm E rcfg now rid lid input)"
proof -
  have r: "read_only (readiness_FindByOperator E lid a)" for a by (intro frame_intros)
  have "read_only (no_valid_confirmation E lid a)" for a
    using r [of a] unfolding read_only_def no_valid_confirmation_def
    by (auto split: prod.splits sum.splits if_splits)
  then have "keeps I (no_valid_confirmation E lid a)" for a by (rule keeps_read_only)
  then show ?thesis unfolding Confirm_def approved_request_def Let_def by (intro keeps_intros)
qed

lemma keeps_ClaimRehearsalRun: "keeps I (ClaimRehearsalRun E rhcfg now aid lid runner)"
  unfolding ClaimRehearsalRun_def by (intro keeps_intros)

lemma keeps_ResetRehearsalAttempt: "keeps I (ResetRehearsalAttempt E now lid aid addr)"
  unfolding ResetRehearsalAttempt_def by (intro keeps_intros)

lemma keeps_RecordRehearsalResult: "keeps I (RecordRehearsalResult E rhcfg now rid lid f)"
proof -
  have "read_only (\<lambda>w. case attempts_FindByID aid w of
      (Inl e, w') \<Rightarrow> (Inl (if errors_Is e ErrNotFound then [ErrBadRequest] else e), w') | (Inr a, w') \<Rightarrow> (Inr a, w'))" for aid
    using rehearsal_frames(2) [of aid] unfolding read_only_def by (auto split: prod.splits sum.splits)
  note a = keeps_read_only [OF this]
  have "read_only (findResultBySignature E lid sig)" for sig
    using rehearsal_frames(5) [of E lid] unfolding read_only_def findResultBySignature_def
    by (auto split: prod.splits sum.splits)
  note f = keeps_read_only [OF this]
  show ?thesis unfolding RecordRehearsalResult_def record_result_def resolveAttempt_def Let_def
    by (intro keeps_intros a f)
qed

lemma keeps_runMonitorTick: "keeps I (runMonitorTick E mcfg now)"
proof -
  have m: "keeps I (markLaunched E now l src)" for l src
  proof -
    have "keeps I (\<lambda>w. case launches_Save E l' w of (Inl _, w') \<Rightarrow> (Inr (), w') | (Inr _, w') \<Rightarrow> events_Publish ev w')" for l' ev
    proof -
      have "I w'" if "I w" "(case launches_Save E l' w of (Inl _, w') \<Rightarrow> (Inr (), w') | (Inr _, w') \<Rightarrow> events_Publish ev w') = (r, w')"
        for w r w'
      proof -
        obtain a w1 where a: "launches_Save E l' w = (a, w1)" by force
        have "I w1" using keepsD [OF keeps_launch_save a that(1)] .
        then show ?thesis using that(2) a keepsD [OF keeps_publish] by (cases a) auto
      qed
      then show ?thesis by (auto simp: keeps_def)
    qed
    then show ?thesis unfolding markLaunched_def by (intro keeps_intros)
  qed
  have l: "keeps I (monitor_launch E mcfg now l)" for l
    unfolding monitor_launch_def by (intro keeps_intros m)
  show ?thesis unfolding keeps_def
  proof (intro allI impI)
    fix w r w'
    assume I: "I w" and run: "runMonitorTick E mcfg now w = (r, w')"
    obtain a w1 where a: "launches_FindByStatus E StatusGenesisReady w = (a, w1)" by force
    have "I w1" using keepsD [OF keeps_finds(10) a I] .
    then show "I w'" using run a keepsD [OF keeps_each [OF l]] by (cases a) (auto simp: runMonitorTick_def)
  qed
qed

end


section \<open>Unique keys\<close>

text \<open>
  What the primary keys, the unique indexes and the optimistic locking promise: one row per launch id
  and per chain id, one committee row per id, one request per id and no two active requests of a
  launch with the same validator or consensus key, one row per proposal, confirmation and nonce, one
  attempt per input set and one result per signature.
\<close>

definition keys_ok :: "db \<Rightarrow> bool" where
  "keys_ok d \<longleftrightarrow> distinct (map l_ID (db_launches d)) \<and>
     distinct (map (\<lambda>r. r_ChainID (l_Record r)) (db_launches d)) \<and>
     distinct (map (\<lambda>x. c_ID (snd x)) (db_committees d)) \<and>
     distinct (map jr_ID (db_joinrequests d)) \<and>
     (\<forall>a \<in> set (db_joinrequests d). \<forall>b \<in> set (db_joinrequests d). \<not> jr_conflict a b) \<and>
     distinct (map p_ID (db_proposals d)) \<and> distinct (map rc_ID (db_readiness d)) \<and>
     distinct (map fst (db_nonces d)) \<and> rehearsal_keys_ok d \<and> auth_keys (db_auth d)"

lemma rehearsal_keys_cong:
  "db_attempts d' = db_attempts d \<Longrightarrow> db_results d' = db_results d \<Longrightarrow> rehearsal_keys_ok d' = rehearsal_keys_ok d"
  by (simp add: rehearsal_keys_ok_def)

lemma jr_conflict_sym: "jr_conflict a b \<longleftrightarrow> jr_conflict b a"
  by (auto simp: jr_conflict_def)

lemma keys_launches_update:
  assumes "keys_ok d" "launches_update l d = Inr (n, d')"
  shows "keys_ok d'"
proof (cases "find_index (\<lambda>r. l_ID r = l_ID l \<and> l_Version r = l_Version l) (db_launches d)")
  case None
  with assms show ?thesis by (simp add: launches_update_def Let_def)
next
  case (Some i)
  let ?rows = "db_launches d"
  from find_index_length [OF Some] find_index_nth [OF Some] have i: "i < length ?rows" and id: "l_ID (?rows ! i) = l_ID l" by auto
  from Some assms(2) have free: "\<forall>r \<in> set ?rows. l_ID r \<noteq> l_ID l \<longrightarrow> r_ChainID (l_Record r) \<noteq> r_ChainID (l_Record l)"
    and d': "\<exists>new. d' = d\<lparr>db_launches := ?rows[i := new]\<rparr> \<and> l_ID new = l_ID l \<and> l_Record new = l_Record l"
    by (auto simp: launches_update_def Let_def list_ex_iff launch_columns_def split: if_splits)
  then obtain new where new: "d' = d\<lparr>db_launches := ?rows[i := new]\<rparr>" "l_ID new = l_ID l" "l_Record new = l_Record l"
    by blast
  have ids: "distinct (map l_ID ?rows)" and chains: "distinct (map (\<lambda>r. r_ChainID (l_Record r)) ?rows)"
    using assms(1) by (simp_all add: keys_ok_def)
  have "map l_ID (?rows[i := new]) = map l_ID ?rows"
    using i id new(2) by (simp add: map_update list_update_same_conv)
  moreover have "distinct (map (\<lambda>r. r_ChainID (l_Record r)) (?rows[i := new]))"
  proof -
    have "r_ChainID (l_Record (?rows ! j)) \<noteq> r_ChainID (l_Record l)" if "j < length ?rows" "j \<noteq> i" for j
    proof -
      have "l_ID (?rows ! j) \<noteq> l_ID l" using ids that i id by (metis distinct_conv_nth length_map nth_map)
      then show ?thesis using free that(1) by simp
    qed
    then show ?thesis using chains i new(3)
      by (auto simp: distinct_conv_nth nth_list_update) metis
  qed
  ultimately show ?thesis using assms(1) new(1) by (simp add: keys_ok_def rehearsal_keys_ok_def)
qed

lemma keys_launches_insert:
  assumes "keys_ok d" "launches_insert l d = Inr (u, d')"
  shows "keys_ok d'"
proof -
  define new where "new = (launch_columns l)\<lparr>l_Version := 0, l_Allowlist := Allowlist_zero, l_AllocationFiles := []\<rparr>"
  have new: "l_ID new = l_ID l" "l_Record new = l_Record l" by (simp_all add: new_def launch_columns_def)
  from assms(2) have d': "d' = d\<lparr>db_launches := db_launches d @ [new]\<rparr>"
    and "\<forall>r \<in> set (db_launches d). l_ID r \<noteq> l_ID l \<and> r_ChainID (l_Record r) \<noteq> r_ChainID (l_Record l)"
    by (auto simp: launches_insert_def list_ex_iff new_def split: if_splits)
  then have "l_ID l \<notin> l_ID ` set (db_launches d)"
    "r_ChainID (l_Record l) \<notin> (\<lambda>r. r_ChainID (l_Record r)) ` set (db_launches d)" by force+
  then show ?thesis using assms(1) d' new by (simp add: keys_ok_def rehearsal_keys_ok_def)
qed

lemma keys_set_launches:
  "keys_ok d \<Longrightarrow> map l_ID rows = map l_ID (db_launches d) \<Longrightarrow>
     map (\<lambda>r. r_ChainID (l_Record r)) rows = map (\<lambda>r. r_ChainID (l_Record r)) (db_launches d) \<Longrightarrow>
     keys_ok (d\<lparr>db_launches := rows\<rparr>)"
  by (simp add: keys_ok_def rehearsal_keys_ok_def)

lemma keys_set_committees:
  "keys_ok d \<Longrightarrow> map (\<lambda>x. c_ID (snd x)) rows = map (\<lambda>x. c_ID (snd x)) (db_committees d) \<Longrightarrow>
     keys_ok (d\<lparr>db_committees := rows\<rparr>)"
  by (simp add: keys_ok_def rehearsal_keys_ok_def)

lemma keys_on_launch:
  assumes "keys_ok d" "\<And>r. l_ID (f r) = l_ID r \<and> l_Record (f r) = l_Record r"
  shows "keys_ok (on_launch lid f d)"
  unfolding on_launch_def using assms by (intro keys_set_launches) auto

lemma keys_on_committee:
  assumes "keys_ok d" "\<And>c. c_ID (f c) = c_ID c"
  shows "keys_ok (on_committee cid f d)"
  unfolding on_committee_def using assms by (intro keys_set_committees) auto

lemma keys_replace_committee: "keys_ok d \<Longrightarrow> keys_ok (replace_committee E l d)"
  by (auto simp: keys_ok_def replace_committee_def Let_def rehearsal_keys_ok_def distinct_map_filter)

lemma keys_joinrequest:
  assumes "keys_ok d" "joinrequests_upsert E jr d = Inr (u, d')"
  shows "keys_ok d'"
proof -
  let ?rows = "upsert jr_ID jr_merge (jr_row E d jr) (db_joinrequests d)"
  have key: "\<And>x. jr_ID (jr_merge x (jr_row E d jr)) = jr_ID x" "jr_ID (jr_row E d jr) = jr_ID jr"
    by (simp_all add: jr_merge_def jr_row_def)
  from assms(2) obtain r where r: "row_of jr_ID (jr_ID jr) ?rows = Some r" and free: "\<forall>o' \<in> set ?rows. \<not> jr_conflict r o'"
    and d': "d' = d\<lparr>db_joinrequests := ?rows\<rparr>"
    by (auto simp: joinrequests_upsert_def Let_def list_ex_iff split: option.splits if_splits)
  have dist: "distinct (map jr_ID ?rows)"
    using assms(1) key by (intro distinct_keys_upsert) (auto simp: keys_ok_def)
  have other: "x \<in> set (db_joinrequests d) \<or> x = r" if "x \<in> set ?rows" for x
  proof (cases "jr_ID x = jr_ID jr")
    case True
    then show ?thesis using row_of_in_set [OF dist that] r by simp
  next
    case False
    have "row_of jr_ID (jr_ID x) (db_joinrequests d) = row_of jr_ID (jr_ID x) ?rows"
      using False key by (subst row_of_upsert) (auto simp: key)
    then show ?thesis using row_of_in_set [OF dist that] row_of_Some by metis
  qed
  have "\<not> jr_conflict a b" if ab: "a \<in> set ?rows" "b \<in> set ?rows" for a b
    using other [OF ab(1)] other [OF ab(2)] free ab assms(1) jr_conflict_sym unfolding keys_ok_def by blast
  then show ?thesis using assms(1) dist d' by (simp add: keys_ok_def rehearsal_keys_ok_def)
qed

lemma keys_proposal: "keys_ok d \<Longrightarrow> keys_ok (d\<lparr>db_proposals := upsert p_ID p_merge p (db_proposals d)\<rparr>)"
  using distinct_keys_upsert [of p_ID p p_merge "db_proposals d"]
  by (simp add: keys_ok_def rehearsal_keys_ok_def p_merge_def)

lemma keys_proposals_map:
  assumes "keys_ok d" "\<And>p. p_ID (f p) = p_ID p"
  shows "keys_ok (d\<lparr>db_proposals := map f (db_proposals d)\<rparr>)"
  using assms by (simp add: keys_ok_def rehearsal_keys_ok_def comp_def)

lemma keys_readiness: "keys_ok d \<Longrightarrow> keys_ok (d\<lparr>db_readiness := upsert rc_ID rc_merge rc (db_readiness d)\<rparr>)"
  using distinct_keys_upsert [of rc_ID rc rc_merge "db_readiness d"]
  by (simp add: keys_ok_def rehearsal_keys_ok_def rc_merge_def)

lemma keys_readiness_map:
  assumes "keys_ok d" "\<And>p. rc_ID (f p) = rc_ID p"
  shows "keys_ok (d\<lparr>db_readiness := map f (db_readiness d)\<rparr>)"
  using assms by (simp add: keys_ok_def rehearsal_keys_ok_def comp_def)

lemma keys_nonces:
  "keys_ok d \<Longrightarrow> k \<notin> fst ` set (db_nonces d) \<Longrightarrow> keys_ok (d\<lparr>db_nonces := db_nonces d @ [(k, e)]\<rparr>)"
  "keys_ok d \<Longrightarrow> keys_ok (d\<lparr>db_nonces := filter P (db_nonces d)\<rparr>)"
  by (auto simp: keys_ok_def rehearsal_keys_ok_def distinct_map_filter)

lemma keys_rehearsal:
  "keys_ok d \<Longrightarrow> keys_ok (attempts_insert aid lid h t d)"
  "keys_ok d \<Longrightarrow> keys_ok (attempts_update a d)"
  "keys_ok d \<Longrightarrow> keys_ok (results_insert r d)"
  using rehearsal_keys_insert rehearsal_keys_update
  by (auto simp: keys_ok_def attempts_insert_def attempts_update_def results_insert_def)

lemma keys_auth: "keys_ok d \<Longrightarrow> (auth_keys (db_auth d) \<longrightarrow> auth_keys a) \<Longrightarrow> keys_ok (d\<lparr>db_auth := a\<rparr>)"
  by (simp add: keys_ok_def rehearsal_keys_ok_def)

interpretation db_keys: world_invariant "\<lambda>w. keys_ok (w_db w)" "\<lambda>_. True"
proof unfold_locales
qed (auto intro: keys_launches_update keys_launches_insert keys_on_launch keys_on_committee keys_replace_committee
    keys_joinrequest keys_proposal keys_proposals_map keys_readiness keys_readiness_map keys_nonces keys_rehearsal keys_auth
    simp: add_signature_def expire_pending_def Invalidate_def)

section \<open>Write-ahead audit\<close>

definition intents :: "world \<Rightarrow> uuid set" where
  \<comment> \<open>the proposals whose execution the audit trail announces\<close>
  "intents w = {pid. \<exists>sc ev lid act. (sc, ev) \<in> set (w_audit w) \<and> body ev = ProposalExecuting lid pid act}"

definition covered :: "world \<Rightarrow> bool" where
  "covered w \<longleftrightarrow> (\<forall>p \<in> set (db_proposals (w_db w)). p_Status p = PStatusExecuted \<longrightarrow> p_ID p \<in> intents w)"

lemma intents_simps [simp]:
  "intents (w\<lparr>w_faults := fs\<rparr>) = intents w" "intents (w\<lparr>w_published := es\<rparr>) = intents w"
  "intents (w\<lparr>w_exited := b\<rparr>) = intents w" "intents (w\<lparr>w_files := sf\<rparr>) = intents w"
  "intents (w\<lparr>w_db := d\<rparr>) = intents w"
  "intents (w\<lparr>w_audit := w_audit w @ [e]\<rparr>) =
     intents w \<union> {pid. \<exists>lid act. body (snd e) = ProposalExecuting lid pid act}"
  by (auto simp: intents_def) (metis prod.collapse)

text \<open>
  The invariant, with one more announced proposal allowed to become executed: with None it is
  coverage itself.
\<close>

definition covered_with :: "uuid option \<Rightarrow> world \<Rightarrow> bool" where
  "covered_with x w \<longleftrightarrow> covered w \<and> (case x of None \<Rightarrow> True | Some pid \<Rightarrow> pid \<in> intents w)"

definition may_store :: "uuid option \<Rightarrow> Proposal \<Rightarrow> bool" where
  "may_store x p \<longleftrightarrow> p_Status p = PStatusExecuted \<longrightarrow> x = Some (p_ID p)"

lemma covered_with_proposals:
  assumes "covered_with x w" "\<forall>p \<in> set ps. p_Status p = PStatusExecuted \<longrightarrow>
      x = Some (p_ID p) \<or> (\<exists>q \<in> set (db_proposals (w_db w)). p_Status q = PStatusExecuted \<and> p_ID q = p_ID p)"
  shows "covered_with x (w\<lparr>w_db := (w_db w)\<lparr>db_proposals := ps\<rparr>\<rparr>)"
  using assms by (fastforce simp: covered_with_def covered_def split: option.splits)

lemma covered_with_same_proposals:
  "covered_with x w \<Longrightarrow> db_proposals d = db_proposals (w_db w) \<Longrightarrow> covered_with x (w\<lparr>w_db := d\<rparr>)"
  by (auto simp: covered_with_def covered_def split: option.splits)

lemma covered_with_upsert:
  assumes "covered_with x w" "may_store x p"
  shows "covered_with x (w\<lparr>w_db := (w_db w)\<lparr>db_proposals :=
    upsert p_ID p_merge (p\<lparr>p_Signatures := [], p_events := []\<rparr>) (db_proposals (w_db w))\<rparr>\<rparr>)"
proof (rule covered_with_proposals [OF assms(1)], intro ballI impI)
  fix q
  assume q: "q \<in> set (upsert p_ID p_merge (p\<lparr>p_Signatures := [], p_events := []\<rparr>) (db_proposals (w_db w)))"
    and ex: "p_Status q = PStatusExecuted"
  have "q \<in> set ps \<or> (p_Status q = p_Status p \<and> p_ID q = p_ID p)"
    if "q \<in> set (upsert p_ID p_merge (p\<lparr>p_Signatures := [], p_events := []\<rparr>) ps)" for ps
    using that by (induction ps) (auto simp: p_merge_def split: if_splits)
  from this [OF q] show "x = Some (p_ID q) \<or> (\<exists>q' \<in> set (db_proposals (w_db w)). p_Status q' = PStatusExecuted \<and> p_ID q' = p_ID q)"
    using ex assms(2) by (auto simp: may_store_def)
qed

lemma same_proposals:
  "launches_update l d = Inr (n, d') \<Longrightarrow> db_proposals d' = db_proposals d"
  "launches_insert l d = Inr (u, d') \<Longrightarrow> db_proposals d' = db_proposals d"
  "joinrequests_upsert E jr d = Inr (v, d') \<Longrightarrow> db_proposals d' = db_proposals d"
  "db_proposals (on_launch lid f d) = db_proposals d" "db_proposals (on_committee cid g d) = db_proposals d"
  "db_proposals (replace_committee E l d) = db_proposals d"
  "db_proposals (attempts_insert aid lid h t d) = db_proposals d"
  "db_proposals (attempts_update a d) = db_proposals d" "db_proposals (results_insert r d) = db_proposals d"
  by (auto simp: launches_update_def launches_insert_def joinrequests_upsert_def on_launch_def on_committee_def
      replace_committee_def attempts_insert_def attempts_update_def results_insert_def Let_def
      split: option.splits if_splits)

interpretation announced: world_invariant "covered_with x" "may_store x"
proof unfold_locales
  fix w pid s
  assume "covered_with x w"
  then show "covered_with x (w\<lparr>w_db := add_signature pid s (w_db w)\<rparr>)"
    unfolding add_signature_def by (rule covered_with_proposals) auto
next
  fix w lid
  assume "covered_with x w"
  then show "covered_with x (w\<lparr>w_db := (w_db w)\<lparr>db_proposals := map (expire_pending lid) (db_proposals (w_db w))\<rparr>\<rparr>)"
    by (rule covered_with_proposals) (auto simp: expire_pending_def)
next
  fix w p
  assume "covered_with x w" "may_store x p"
  then show "covered_with x (w\<lparr>w_db := (w_db w)\<lparr>db_proposals :=
      upsert p_ID p_merge (p\<lparr>p_Signatures := [], p_events := []\<rparr>) (db_proposals (w_db w))\<rparr>\<rparr>)"
    by (rule covered_with_upsert)
qed (auto intro: covered_with_same_proposals simp: same_proposals may_store_def RecordEvent_def
    covered_with_def covered_def split: option.splits)

lemma writeAuditEvent_intent:
  assumes "writeAuditEvent now sc (bare (ProposalExecuting lid pid act)) w = (Inr u, w')"
  shows "pid \<in> intents w'"
proof -
  obtain ev where "w_audit w' = w_audit w @ [(sc, ev)]" "body ev = ProposalExecuting lid pid act"
    using audit_Append_db [OF assms [unfolded writeAuditEvent_def]] by (simp add: bare_def)
  then show ?thesis by (auto simp: intents_def)
qed

lemma covered_applyAndSave: "keeps (covered_with None) (applyAndSave E cfg now l p)"
  unfolding keeps_def
proof (intro allI impI)
  fix w r w'
  assume c: "covered_with None w" and run: "applyAndSave E cfg now l p w = (r, w')"
  let ?a = "writeAuditEvent now (uuid_String E (p_LaunchID p))
     (bare (ProposalExecuting (p_LaunchID p) (p_ID p) (action_string (p_ActionType p))))"
  obtain a w1 where a: "?a w = (a, w1)" by force
  have w1: "covered_with None w1" using keepsD [OF announced.keeps_audit(2) a c] .
  show "covered_with None w'"
  proof (cases a)
    case (Inl e)
    then show ?thesis using run a w1 by (simp add: applyAndSave_def bnd_def)
  next
    case (Inr u)
    then have "covered_with (Some (p_ID p)) w1"
      using a w1 writeAuditEvent_intent by (simp add: covered_with_def)
    moreover have "commit_execution E cfg now l p w1 = (r, w')"
      using run a Inr by (simp add: applyAndSave_def bnd_def)
    ultimately have "covered_with (Some (p_ID p)) w'"
      using keepsD [OF announced.keeps_commit_execution [where x = "Some (p_ID p)" and p = p]]
      by (simp add: may_store_def)
    then show ?thesis by (simp add: covered_with_def)
  qed
qed

interpretation db_governed: governed_invariant "\<lambda>w. keys_ok (w_db w)" "\<lambda>_. True"
  by unfold_locales (rule db_keys.keeps_applyAndSave_ok, simp)

interpretation audit_governed: governed_invariant "covered_with None" "may_store None"
  by unfold_locales (rule covered_applyAndSave)

section \<open>The transition system\<close>

record service_cfg =
  sc_proposal :: proposal_cfg
  sc_launch :: launch_cfg
  sc_join :: join_cfg
  sc_readiness :: readiness_cfg
  sc_rehearsal :: rehearsal_cfg
  sc_monitor :: monitor_cfg
  sc_auth :: auth_cfg

text \<open>
  The requests that change state and the ticks of the jobs, with the clock reading and the fresh
  identifiers the handler draws.  The handlers that only read leave the world as it is up to the
  schedule, which the environment may set before every step.
\<close>

datatype request =
    RaiseReq time uuid uuid RaiseInput
  | SignReq time uuid uuid SignInput
  | ExpireTick time
  | CreateReq time uuid CreateLaunchInput
  | InitialGenesisReq time uuid bytes string
  | FinalGenesisReq time uuid bytes string
  | InitialGenesisRefReq time uuid string string string
  | FinalGenesisRefReq time uuid string string time string
  | AllocationReq time uuid string bytes string
  | AllocationRefReq time uuid string string string string
  | PatchReq time uuid PatchLaunchInput string
  | AddMemberReq time uuid string string string
  | RemoveMemberReq time uuid string string
  | CommitteeReq time uuid Committee string
  | OpenWindowReq time uuid string
  | CancelReq time uuid string
  | SubmitReq time uuid uuid SubmitInput
  | ConfirmReq time uuid uuid ConfirmInput
  | ClaimReq time uuid uuid string
  | ResultReq time uuid uuid RehearsalResultFact
  | ResetReq time uuid uuid string
  | MonitorTick time
  | ChallengeReq time string string
  | VerifyReq time uuid VerifyChallengeInput
  | RevokeAllReq time string string
  | AddCoordinatorReq time string string
  | RemoveCoordinatorReq time string string

definition run :: "'a io \<Rightarrow> world \<Rightarrow> world" where
  "run m w = snd (m w)"

fun serve :: "env \<Rightarrow> service_cfg \<Rightarrow> request \<Rightarrow> world \<Rightarrow> world" where
  "serve E S (RaiseReq now pid lid i) = run (Raise E (sc_proposal S) now pid lid i)"
| "serve E S (SignReq now lid pid i) = run (SignProposal E (sc_proposal S) now lid pid i)"
| "serve E S (ExpireTick now) = run (runProposalExpiryTick E now)"
| "serve E S (CreateReq now lid i) = run (CreateLaunch E now lid i)"
| "serve E S (InitialGenesisReq now lid b a) = run (UploadInitialGenesis E now lid b a)"
| "serve E S (FinalGenesisReq now lid b a) = run (UploadFinalGenesis E now lid b a)"
| "serve E S (InitialGenesisRefReq now lid u h a) = run (UploadInitialGenesisRef E (sc_launch S) now lid u h a)"
| "serve E S (FinalGenesisRefReq now lid u h t a) = run (UploadFinalGenesisRef E (sc_launch S) now lid u h t a)"
| "serve E S (AllocationReq now lid t b a) = run (UploadAllocationFileBytes E now lid t b a)"
| "serve E S (AllocationRefReq now lid t u h a) = run (UploadAllocationFileRef E (sc_launch S) now lid t u h a)"
| "serve E S (PatchReq now lid i a) = run (PatchLaunch E (sc_launch S) now lid i a)"
| "serve E S (AddMemberReq now lid m lab a) = run (AddMemberToLaunch E now lid m lab a)"
| "serve E S (RemoveMemberReq now lid m a) = run (RemoveMemberFromLaunch E now lid m a)"
| "serve E S (CommitteeReq now lid c a) = run (SetCommittee E now lid c a)"
| "serve E S (OpenWindowReq now lid a) = run (OpenWindowService E now lid a)"
| "serve E S (CancelReq now lid a) = run (CancelLaunch E now lid a)"
| "serve E S (SubmitReq now jid lid i) = run (Submit E (sc_join S) now jid lid i)"
| "serve E S (ConfirmReq now rid lid i) = run (Confirm E (sc_readiness S) now rid lid i)"
| "serve E S (ClaimReq now aid lid r) = run (ClaimRehearsalRun E (sc_rehearsal S) now aid lid r)"
| "serve E S (ResultReq now rid lid f) = run (RecordRehearsalResult E (sc_rehearsal S) now rid lid f)"
| "serve E S (ResetReq now lid aid a) = run (ResetRehearsalAttempt E now lid aid a)"
| "serve E S (MonitorTick now) = run (runMonitorTick E (sc_monitor S) now)"
| "serve E S (ChallengeReq now c a) = run (IssueChallenge E now c a)"
| "serve E S (VerifyReq now tid i) = run (VerifyChallenge E (sc_auth S) now tid i)"
| "serve E S (RevokeAllReq now a b) = run (RevokeAllSessions E now a b)"
| "serve E S (AddCoordinatorReq now a b) = run (AddCoordinator E now a b)"
| "serve E S (RemoveCoordinatorReq now a b) = run (RemoveCoordinator E now a b)"

definition empty_db :: db where
  "empty_db = \<lparr>db_launches = [], db_committees = [], db_joinrequests = [], db_proposals = [], db_readiness = [],
     db_attempts = [], db_results = [], db_nonces = [],
     db_auth = \<lparr>at_challenges = [], at_rate = [], at_revocations = [], at_coordinators = []\<rparr>\<rparr>"

definition fresh_world :: world where
  "fresh_world = \<lparr>w_db = empty_db, w_audit = [], w_published = [], w_exited = False, w_faults = [], w_files = fmempty\<rparr>"

text \<open>
  A process that has called \<open>os.Exit\<close> serves nothing until it is restarted over the same database,
  audit log and files.
\<close>

inductive world_step :: "env \<Rightarrow> service_cfg \<Rightarrow> world \<Rightarrow> world \<Rightarrow> bool" for E S where
  serve: "\<not> w_exited w \<Longrightarrow> world_step E S w (serve E S req (w\<lparr>w_faults := fs\<rparr>))"
| restart: "world_step E S w (w\<lparr>w_exited := False\<rparr>)"

inductive world_reachable :: "env \<Rightarrow> service_cfg \<Rightarrow> world \<Rightarrow> bool" for E S where
  fresh: "world_reachable E S fresh_world"
| step: "world_reachable E S w \<Longrightarrow> world_step E S w w' \<Longrightarrow> world_reachable E S w'"

inductive_cases world_step_cases: "world_step E S w w'"

context governed_invariant
begin

lemma run_keeps: "keeps I m \<Longrightarrow> I w \<Longrightarrow> I (run m w)"
  unfolding run_def by (rule keepsD [OF _ prod.collapse [symmetric]])

lemma keeps_expiry_tick: "keeps I (runProposalExpiryTick E now)"
  unfolding runProposalExpiryTick_def by (intro keeps_ignore keeps_ExpireStale)

lemma serve_keeps: "I w \<Longrightarrow> I (serve E S req w)"
  by (cases req)
    (auto intro!: run_keeps keeps_Raise keeps_SignProposal keeps_expiry_tick
      keeps_launch_handlers keeps_PatchLaunch keeps_CancelLaunch keeps_Submit keeps_Confirm
      keeps_ClaimRehearsalRun keeps_RecordRehearsalResult keeps_ResetRehearsalAttempt keeps_runMonitorTick keeps_auth_handlers)

lemma world_step_keeps: "world_step E S w w' \<Longrightarrow> I w \<Longrightarrow> I w'"
  by (erule world_step_cases) (simp_all add: serve_keeps I_faults I_exited)

lemma world_reachable_keeps:
  assumes "I fresh_world" "world_reachable E S w"
  shows "I w"
  using assms(2) by induction (use assms(1) world_step_keeps in auto)

end

end
