(* ===== verification/IoLogic.thy ===== *)
theory IoLogic
  imports ProposalService
begin

text \<open>
  Triples for the handlers.  \<open>hoare P m Q R\<close>: from a world with \<open>P\<close>, a run of \<open>m\<close> that returns \<open>x\<close>
  ends with \<open>Q x\<close> and a run that fails ends with \<open>R\<close>, for every schedule of failures.  The rules for
  a guard put what the guard has established into the context of the rest of the handler.
\<close>

definition hoare :: "(world \<Rightarrow> bool) \<Rightarrow> 'a io \<Rightarrow> ('a \<Rightarrow> world \<Rightarrow> bool) \<Rightarrow> (world \<Rightarrow> bool) \<Rightarrow> bool" where
  "hoare P m Q R \<longleftrightarrow> (\<forall>w. P w \<longrightarrow> (case m w of (Inl _, w') \<Rightarrow> R w' | (Inr x, w') \<Rightarrow> Q x w'))"

lemma hoareI:
  assumes "\<And>w x w'. P w \<Longrightarrow> m w = (Inr x, w') \<Longrightarrow> Q x w'" "\<And>w e w'. P w \<Longrightarrow> m w = (Inl e, w') \<Longrightarrow> R w'"
  shows "hoare P m Q R"
  unfolding hoare_def using assms by (fastforce split: prod.split sum.split)

lemma hoareD1: "hoare P m Q R \<Longrightarrow> P w \<Longrightarrow> m w = (Inr x, w') \<Longrightarrow> Q x w'"
  by (fastforce simp: hoare_def)

lemma hoareD2: "hoare P m Q R \<Longrightarrow> P w \<Longrightarrow> m w = (Inl e, w') \<Longrightarrow> R w'"
  by (fastforce simp: hoare_def)

lemma hoare_weaken:
  assumes "hoare P m Q R" "\<And>w. P' w \<Longrightarrow> P w" "\<And>x w. Q x w \<Longrightarrow> Q' x w" "\<And>w. R w \<Longrightarrow> R' w"
  shows "hoare P' m Q' R'"
  using assms by (intro hoareI) (blast dest: hoareD1 hoareD2)+

lemma hoare_bnd:
  assumes "hoare P m M R" "\<And>x. hoare (M x) (f x) Q R"
  shows "hoare P (bnd m f) Q R"
proof (rule hoareI)
  fix w y w'
  assume "P w" "bnd m f w = (Inr y, w')"
  then show "Q y w'" using assms by (auto simp: bnd_Inr dest: hoareD1)
next
  fix w e w'
  assume "P w" "bnd m f w = (Inl e, w')"
  then show "R w'" using assms by (auto simp: bnd_Inl dest: hoareD1 hoareD2)
qed

text \<open>Once the conclusion is established, the rest of the handler does not matter.\<close>

lemma hoare_done: "A \<Longrightarrow> hoare P m (\<lambda>_ _. A) (\<lambda>w. B w \<or> A)"
  by (auto intro: hoareI)

lemma hoare_lift:
  assumes "\<And>w. P w \<Longrightarrow> R w" "\<And>x. r = Inr x \<Longrightarrow> hoare P (f x) Q R"
  shows "hoare P (bnd (lift r) f) Q R"
  using assms by (cases r) (auto simp: hoare_def bnd_def lift_def)

lemma hoare_wrapping_lift:
  assumes "\<And>w. P w \<Longrightarrow> R w" "\<And>x. r = Inr x \<Longrightarrow> hoare P (f x) Q R"
  shows "hoare P (bnd (wrapping s (lift r)) f) Q R"
  using assms by (cases r) (auto simp: hoare_def bnd_def lift_def wrapping_def)

lemma hoare_lift_map:
  assumes "\<And>w. P w \<Longrightarrow> R w" "\<And>x. r = Inr x \<Longrightarrow> hoare P (f x) Q R"
  shows "hoare P (bnd (lift_map g r) f) Q R"
  using assms by (cases r) (auto simp: hoare_def bnd_def lift_def lift_map_def)

lemma hoare_ensure:
  assumes "\<And>w. P w \<Longrightarrow> R w" "b \<Longrightarrow> hoare P (f ()) Q R"
  shows "hoare P (bnd (ensure b e) f) Q R"
  using assms by (cases b) (auto simp: hoare_def bnd_def ensure_def lift_def require_def)

definition stable :: "(world \<Rightarrow> bool) \<Rightarrow> bool" where
  "stable P \<longleftrightarrow> (\<forall>w fs. P w \<longrightarrow> P (w\<lparr>w_faults := fs\<rparr>))"

lemma hoare_reads:
  assumes "read_only m" "stable P" "\<And>w. P w \<Longrightarrow> R w"
    and "\<And>x. \<exists>w w'. P w \<and> m w = (Inr x, w') \<Longrightarrow> hoare P (f x) Q R"
  shows "hoare P (bnd m f) Q R"
proof (rule hoare_bnd [where M = "\<lambda>x w. P w \<and> (\<exists>w w'. P w \<and> m w = (Inr x, w'))"])
  have "P w'" if "P w" "m w = (r, w')" for w r w'
  proof -
    have "same_but_faults w w'" using assms(1) that(2) unfolding read_only_def by blast
    then obtain fs where "w' = w\<lparr>w_faults := fs\<rparr>" by (auto simp: same_but_faults_def)
    then show ?thesis using assms(2) that(1) by (simp add: stable_def)
  qed
  then show "hoare P m (\<lambda>x w. P w \<and> (\<exists>w w'. P w \<and> m w = (Inr x, w'))) R"
    using assms(3) by (intro hoareI) blast+
next
  fix x
  show "hoare (\<lambda>w. P w \<and> (\<exists>w w'. P w \<and> m w = (Inr x, w'))) (f x) Q R"
  proof (cases "\<exists>w w'. P w \<and> m w = (Inr x, w')")
    case True
    show ?thesis by (rule hoare_weaken [OF assms(4) [OF True]]) auto
  next
    case False
    then show ?thesis unfolding hoare_def by blast
  qed
qed

section \<open>Up to nonces\<close>

text \<open>Two worlds that agree on everything but the nonce table and the schedule.\<close>

definition same_but_nonces :: "world \<Rightarrow> world \<Rightarrow> bool" where
  "same_but_nonces w w' \<longleftrightarrow> (\<exists>ns fs. w' = w\<lparr>w_db := (w_db w)\<lparr>db_nonces := ns\<rparr>, w_faults := fs\<rparr>)"

lemma stable_same_but_nonces [simp]: "stable (same_but_nonces w)"
proof -
  have "same_but_nonces w (w'\<lparr>w_faults := fs\<rparr>)" if "same_but_nonces w w'" for w' fs
  proof -
    from that obtain ns gs where w': "w' = w\<lparr>w_db := (w_db w)\<lparr>db_nonces := ns\<rparr>, w_faults := gs\<rparr>"
      by (auto simp: same_but_nonces_def)
    have "w'\<lparr>w_faults := fs\<rparr> = w\<lparr>w_db := (w_db w)\<lparr>db_nonces := ns\<rparr>, w_faults := fs\<rparr>" by (simp add: w')
    then show ?thesis unfolding same_but_nonces_def by blast
  qed
  then show ?thesis by (simp add: stable_def)
qed

lemma same_but_nonces_refl: "same_but_nonces w w"
  unfolding same_but_nonces_def by (rule exI [of _ "db_nonces (w_db w)"], rule exI [of _ "w_faults w"]) simp

lemma same_but_nonces_trans:
  assumes "same_but_nonces w w1" "same_but_nonces w1 w2"
  shows "same_but_nonces w w2"
proof -
  from assms obtain ns fs ms gs where w1: "w1 = w\<lparr>w_db := (w_db w)\<lparr>db_nonces := ns\<rparr>, w_faults := fs\<rparr>"
    and w2: "w2 = w1\<lparr>w_db := (w_db w1)\<lparr>db_nonces := ms\<rparr>, w_faults := gs\<rparr>"
    by (auto simp: same_but_nonces_def)
  have "w2 = w\<lparr>w_db := (w_db w)\<lparr>db_nonces := ms\<rparr>, w_faults := gs\<rparr>" by (simp add: w1 w2)
  then show ?thesis unfolding same_but_nonces_def by blast
qed

lemma same_but_nonces_faults: "same_but_nonces w (w\<lparr>w_faults := fs\<rparr>)"
  using stable_same_but_nonces [of w] same_but_nonces_refl [of w] by (simp add: stable_def)

lemma execs_cases:
  assumes "execs f w = (r, w')"
  shows "(\<exists>fs. w' = w\<lparr>w_faults := fs\<rparr>) \<and> (\<exists>e. r = Inl e) \<or>
    (\<exists>x d fs. r = Inr x \<and> f (w_db w) = Inr (x, d) \<and> w' = w\<lparr>w_faults := fs, w_db := d\<rparr>)"
proof (cases r)
  case (Inr x)
  then show ?thesis using execs_Inr [of f w x w'] assms by auto
next
  case (Inl e)
  obtain fs d where w': "w' = w\<lparr>w_faults := fs, w_db := d\<rparr>"
    using db_only_execs [of f] assms unfolding db_only_def same_but_db_def by blast
  have "d = w_db w" using execs_Inl_db [of f w e w'] assms Inl w' by simp
  then have "w' = w\<lparr>w_faults := fs\<rparr>" using w' by simp
  then show ?thesis using Inl by blast
qed

lemma hoare_Consume:
  "hoare (\<lambda>w. w = w0) (Consume E now a n)
     (\<lambda>_ w. same_but_nonces w0 w \<and> (a, n) \<notin> fst ` set (db_nonces (w_db w0)))
     (same_but_nonces w0)"
proof -
  let ?f = "\<lambda>d. if (a, n) \<in> fst ` set (db_nonces d) then Inl []
        else Inr ((), d\<lparr>db_nonces := db_nonces d @ [((a, n), now + nonceTTL)]\<rparr>)"
  let ?g = "\<lambda>d. d\<lparr>db_nonces := filter (\<lambda>(_, e). \<not> timeToStr E e < timeToStr E now) (db_nonces d)\<rparr>"
  have ins: "same_but_nonces w w' \<and> (\<forall>u. r = Inr u \<longrightarrow> (a, n) \<notin> fst ` set (db_nonces (w_db w)))"
    if "execs ?f w = (r, w')" for w r w'
    using execs_cases [OF that]
  proof (elim disjE exE conjE)
    fix fs e assume "w' = w\<lparr>w_faults := fs\<rparr>" "r = Inl e"
    then show ?thesis by (simp add: same_but_nonces_faults)
  next
    fix x d fs assume *: "r = Inr x" "?f (w_db w) = Inr (x, d)" "w' = w\<lparr>w_faults := fs, w_db := d\<rparr>"
    then have fresh: "(a, n) \<notin> fst ` set (db_nonces (w_db w))"
      and d: "d = (w_db w)\<lparr>db_nonces := db_nonces (w_db w) @ [((a, n), now + nonceTTL)]\<rparr>"
      by (auto split: if_splits)
    have "w' = w\<lparr>w_db := (w_db w)\<lparr>db_nonces := db_nonces (w_db w) @ [((a, n), now + nonceTTL)]\<rparr>, w_faults := fs\<rparr>"
      by (simp add: *(3) d)
    then show ?thesis using fresh unfolding same_but_nonces_def by blast
  qed
  have purge: "same_but_nonces w (snd (stmt ?g w))" for w
  proof -
    obtain r w' where run: "execs (\<lambda>d. Inr ((), ?g d)) w = (r, w')" by force
    from execs_cases [OF this] have "same_but_nonces w w'"
    proof (elim disjE exE conjE)
      fix fs e assume "w' = w\<lparr>w_faults := fs\<rparr>" then show ?thesis by (simp add: same_but_nonces_faults)
    next
      fix x d fs assume "Inr ((), ?g (w_db w)) = Inr (x, d)" "w' = w\<lparr>w_faults := fs, w_db := d\<rparr>"
      then have "w' = w\<lparr>w_db := ?g (w_db w), w_faults := fs\<rparr>" by simp
      then show ?thesis unfolding same_but_nonces_def by blast
    qed
    then show ?thesis using run by (simp add: stmt_def)
  qed
  show ?thesis
    unfolding Consume_def
  proof (rule hoare_bnd)
    show "hoare (\<lambda>w. w = w0) (\<lambda>w. case execs ?f w of (Inl _, w') \<Rightarrow> (Inl [ErrConflict], w') | (Inr u, w') \<Rightarrow> (Inr u, w'))
        (\<lambda>_ w. same_but_nonces w0 w \<and> (a, n) \<notin> fst ` set (db_nonces (w_db w0))) (same_but_nonces w0)"
    proof (rule hoareI)
      fix w x w'
      assume "w = w0" "(case execs ?f w of (Inl _, w') \<Rightarrow> (Inl [ErrConflict], w') | (Inr u, w') \<Rightarrow> (Inr u, w')) = (Inr x, w')"
      then have "execs ?f w0 = (Inr x, w')" by (auto split: prod.splits sum.splits)
      from ins [OF this] show "same_but_nonces w0 w' \<and> (a, n) \<notin> fst ` set (db_nonces (w_db w0))" by simp
    next
      fix w e w'
      assume "w = w0" "(case execs ?f w of (Inl _, w') \<Rightarrow> (Inl [ErrConflict], w') | (Inr u, w') \<Rightarrow> (Inr u, w')) = (Inl e, w')"
      then obtain e' where "execs ?f w0 = (Inl e', w')" by (auto split: prod.splits sum.splits)
      from ins [OF this] show "same_but_nonces w0 w'" by simp
    qed
  next
    fix x :: unit
    show "hoare (\<lambda>w. same_but_nonces w0 w \<and> (a, n) \<notin> fst ` set (db_nonces (w_db w0)))
        (\<lambda>w. (Inr (), snd (stmt ?g w)))
        (\<lambda>_ w. same_but_nonces w0 w \<and> (a, n) \<notin> fst ` set (db_nonces (w_db w0))) (same_but_nonces w0)"
      by (rule hoareI) (auto intro: same_but_nonces_trans [OF _ purge])
  qed
qed

section \<open>What a loaded launch is\<close>

definition load_launch :: "db \<Rightarrow> uuid \<Rightarrow> Launch option" where
  \<comment> \<open>the launch a lookup returns, without its queries\<close>
  "load_launch d lid = map_option (\<lambda>r.
     let l = (case find (\<lambda>(i, _). i = l_ID r) (db_committees d) of None \<Rightarrow> r | Some (_, c) \<Rightarrow> r\<lparr>l_Committee := c\<rparr>) in
     l\<lparr>l_approvedVotingPower := voting_powers (l_ID r) (db_joinrequests d),
       l_AllocationFiles := sort_key af_Type (l_AllocationFiles l)\<rparr>) (find (\<lambda>r. l_ID r = lid) (db_launches d))"

lemma launches_FindByID_Inr:
  assumes "launches_FindByID lid w = (Inr l, w')"
  shows "load_launch (w_db w) lid = Some l \<and> same_but_faults w w'"
proof -
  have "same_but_faults w w'" using read_only_repositories(1) [of lid] assms unfolding read_only_def by blast
  moreover have "load_launch (w_db w) lid = Some l"
    using assms
    by (auto simp: launches_FindByID_def hydrate_def loadCommittee_def loadAllowlist_def loadVotingPower_def
        loadAllocationFiles_def bnd_Inr load_launch_def InitVotingPower_def Let_def
        dest!: reads_Inr same_but_faults_simps(1) split: option.splits)
  ultimately show ?thesis by simp
qed

lemma load_launch_ID: "load_launch d lid = Some l \<Longrightarrow> l_ID l = lid"
proof -
  assume "load_launch d lid = Some l"
  then obtain r where r: "find (\<lambda>r. l_ID r = lid) (db_launches d) = Some r" and "l_ID l = l_ID r"
    by (auto simp: load_launch_def Let_def split: option.splits prod.splits)
  moreover have "l_ID r = lid" using r by (auto simp: find_Some_iff)
  ultimately show ?thesis by simp
qed

lemma same_but_nonces_load: "same_but_nonces w w' \<Longrightarrow> load_launch (w_db w') lid = load_launch (w_db w) lid"
  by (auto simp: same_but_nonces_def load_launch_def)

end
