(* ===== verification/DomainProperties.thy ===== *)
theory DomainProperties
  imports LaunchProperties Committee Allocation Proposal JoinRequest Rehearsal
begin

text \<open>
  Properties of the domain aggregates besides the launch lifecycle: committee resizing, allocation
  files, the members list, proposals, join requests and rehearsal leases.
\<close>

section \<open>Committee and members\<close>

lemma Shrink_seats:
  assumes "ShrinkCommittee now l a k = Inr l'" "distinct (seats (l_Committee l))"
  shows "set (seats (l_Committee l')) = set (seats (l_Committee l)) - {acct a} \<and> acct a \<in> set (seats (l_Committee l))"
proof -
  let ?ms = "c_Members (l_Committee l)"
  obtain i where i: "find_index (\<lambda>m. AccountID_Equal (cm_Address m) a) ?ms = Some i"
    and ms: "c_Members (l_Committee l') = remove_nth i ?ms"
    using assms(1)
    by (auto simp: ShrinkCommittee_def Let_def with_committee_def split: option.splits if_splits)
  let ?s = "seats (l_Committee l)"
  have n: "i < length ?s" "?s ! i = acct a" using find_seat [OF i] by (auto simp: seats_def)
  have split: "?s = take i ?s @ acct a # drop (Suc i) ?s" using n id_take_nth_drop [of i ?s] by simp
  have s': "seats (l_Committee l') = take i ?s @ drop (Suc i) ?s"
    by (simp add: seats_def ms remove_nth_def take_map drop_map)
  have "distinct (take i ?s @ acct a # drop (Suc i) ?s)" using split assms(2) by simp
  then have "set (take i ?s @ drop (Suc i) ?s) = set (take i ?s @ acct a # drop (Suc i) ?s) - {acct a}" by auto
  moreover have "acct a \<in> set ?s" using n by (metis nth_mem)
  ultimately show ?thesis using split s' by simp
qed

text \<open>
  C12. A resize of the committee keeps 1 <= M <= N with the lead seated first, keeps every account on
  one seat, and leaves a committee whose quorum survives the absence of one member (M < N).
  Expanding seats exactly the new account; shrinking unseats exactly the removed one.
\<close>

theorem resize_keeps_committee:
  assumes "committee_ok (l_Committee l)" "distinct (seats (l_Committee l))"
  shows "(\<forall>now m k l'. ExpandCommittee now l m k = Inr l' \<longrightarrow>
      committee_ok (l_Committee l') \<and> live (l_Committee l') \<and> distinct (seats (l_Committee l')) \<and>
      set (seats (l_Committee l')) = insert (acct (cm_Address m)) (set (seats (l_Committee l))) \<and>
      c_TotalN (l_Committee l') = c_TotalN (l_Committee l) + 1) \<and>
    (\<forall>now a k l'. ShrinkCommittee now l a k = Inr l' \<longrightarrow>
      committee_ok (l_Committee l') \<and> live (l_Committee l') \<and> distinct (seats (l_Committee l')) \<and>
      set (seats (l_Committee l')) = set (seats (l_Committee l)) - {acct a} \<and>
      c_TotalN (l_Committee l') = c_TotalN (l_Committee l) - 1)"
proof (intro conjI allI impI)
  fix now m k l'
  assume e: "ExpandCommittee now l m k = Inr l'"
  show "committee_ok (l_Committee l')" "live (l_Committee l')" using ExpandCommittee_ok [OF e assms(1)] by auto
  show "distinct (seats (l_Committee l'))" using distinct_seats_Expand [OF e assms(2)] .
  show "set (seats (l_Committee l')) = insert (acct (cm_Address m)) (set (seats (l_Committee l)))"
    "c_TotalN (l_Committee l') = c_TotalN (l_Committee l) + 1"
    using e assms(1)
    by (auto simp: ExpandCommittee_def Let_def with_committee_def seats_def committee_ok_def split: if_splits)
next
  fix now a k l'
  assume s: "ShrinkCommittee now l a k = Inr l'"
  show "committee_ok (l_Committee l')" "live (l_Committee l')" using ShrinkCommittee_ok [OF s assms(1)] by auto
  show "distinct (seats (l_Committee l'))" using distinct_seats_Shrink [OF s assms(2)] .
  show "set (seats (l_Committee l')) = set (seats (l_Committee l)) - {acct a}" using Shrink_seats [OF s assms(2)] by simp
  show "c_TotalN (l_Committee l') = c_TotalN (l_Committee l) - 1"
    using s assms(1)
    by (auto simp: ShrinkCommittee_def Let_def with_committee_def committee_ok_def split: option.splits if_splits)
qed

theorem resize_keeps_committee_witness:
  "\<exists>l'. ShrinkCommittee 9 example_launch (example_account ''aa'') 1 = Inr l' \<and>
     set (seats (l_Committee l')) = {''bb'', ''cc''} \<and> live (l_Committee l')"
proof -
  have ok: "committee_ok (l_Committee example_launch)" "distinct (seats (l_Committee example_launch))"
    by (simp_all add: example_defs committee_ok_def seats_def account_defs)
  obtain l' where s: "ShrinkCommittee 9 example_launch (example_account ''aa'') 1 = Inr l'"
    by (simp add: ShrinkCommittee_def example_defs account_defs Let_def)
  have "set (seats (l_Committee l')) = set (seats (l_Committee example_launch)) - {''aa''} \<and> live (l_Committee l')"
    using resize_keeps_committee [OF ok] s by (auto simp: example_account_def)
  then show ?thesis using s by (auto simp: example_defs seats_def)
qed

text \<open>
  C18. Visibility depends on the account alone: two address strings that decode to the same account,
  under whatever bech32 prefix, see the same launches, and only committee members and members of the
  list see a launch at all.
\<close>

theorem visibility_by_account:
  assumes "NewAccountID E s = Inr a" "NewAccountID E t = Inr b" "AccountID_Equal a b"
  shows "IsVisibleTo E l s = IsVisibleTo E l t \<and>
    (IsVisibleTo E l s \<longrightarrow> acct a \<in> set (seats (l_Committee l)) \<or> Contains (l_Allowlist l) a)"
proof -
  have "s \<noteq> []" "t \<noteq> []" using assms(1,2) by (auto simp: NewAccountID_def TrimSpace_def)
  then show ?thesis
    using assms IsVisibleToAddr_Equal [OF assms(3), of l] by (simp add: IsVisibleTo_def IsVisibleToAddr_def HasMember_seats)
qed

theorem visibility_by_account_witness:
  "IsVisibleTo example_env example_launch ''net1X'' = IsVisibleTo example_env example_launch ''cosmos1X''"
proof -
  have a: "NewAccountID example_env ''net1X'' = Inr \<lparr>acct = ''58'', orig = ''net1X''\<rparr>"
    "NewAccountID example_env ''cosmos1X'' = Inr \<lparr>acct = ''58'', orig = ''cosmos1X''\<rparr>"
    by code_simp+
  show ?thesis using visibility_by_account [OF a] by (simp add: account_defs)
qed

text \<open>
  C19. The exported members of a list rebuild the list: membership, labels and provenance survive the
  round trip through \<open>Members\<close> and \<open>NewAllowlistFromMembers\<close>.
\<close>

theorem members_list_roundtrip:
  assumes "allowlist_ok al"
  shows "NewAllowlistFromMembers (Members al) = al"
  by (rule NewAllowlistFromMembers_Members [OF assms])

definition example_allowlist :: Allowlist where
  "example_allowlist = Allowlist_AddMember Allowlist_zero
     \<lparr>mem_Address = example_account ''ab'', mem_Label = ''ops'', mem_AddedBy = ''x'', mem_AddedAt = 3\<rparr>"

theorem members_list_roundtrip_witness:
  "NewAllowlistFromMembers (Members example_allowlist) = example_allowlist"
proof (rule members_list_roundtrip)
  show "allowlist_ok example_allowlist"
    by (auto simp: allowlist_ok_def example_allowlist_def allowlist_defs meta_of_def example_account_def account_defs)
qed

section \<open>Allocation files\<close>

text \<open>
  C16. Approval of an allocation file is bound to its content: it succeeds only for the hash on
  record, marks that file and no other, and a later upload of the type resets it to pending without
  approval, after which the old hash can no longer be approved.
\<close>

theorem allocation_approval_bound:
  assumes "ApproveAllocationFile now l t h pid = Inr l1"
  shows "(\<exists>f. AllocationFileOf l t = Some f \<and> af_SHA256 f = h \<and>
      AllocationFileOf l1 t = Some (f\<lparr>af_Status := AllocationApproved, af_ApprovedByProposal := Some pid\<rparr>)) \<and>
    (\<forall>u. u \<noteq> t \<longrightarrow> AllocationFileOf l1 u = AllocationFileOf l u) \<and>
    (\<forall>now' h' l2. UploadAllocationFile now' l1 t h' = Inr l2 \<longrightarrow>
      (\<exists>f. AllocationFileOf l2 t = Some f \<and> af_SHA256 f = h' \<and> af_Status f = AllocationPending \<and>
        af_ApprovedByProposal f = None) \<and>
      (h \<noteq> h' \<longrightarrow> ApproveAllocationFile now' l2 t h pid = Inl [ErrAllocationStaleHash]))"
proof (intro conjI allI impI)
  from ApproveAllocationFile_lookup [OF assms] obtain f where f: "AllocationFileOf l t = Some f" "af_SHA256 f = h"
    "\<forall>u. AllocationFileOf l1 u = (if u = t then Some (f\<lparr>af_Status := AllocationApproved,
      af_ApprovedByProposal := Some pid\<rparr>) else AllocationFileOf l u)" by blast
  show "\<exists>f. AllocationFileOf l t = Some f \<and> af_SHA256 f = h \<and>
      AllocationFileOf l1 t = Some (f\<lparr>af_Status := AllocationApproved, af_ApprovedByProposal := Some pid\<rparr>)"
    using f by simp
  show "AllocationFileOf l1 u = AllocationFileOf l u" if "u \<noteq> t" for u using f(3) that by simp
next
  fix now' h' l2
  assume up: "UploadAllocationFile now' l1 t h' = Inr l2"
  note L = UploadAllocationFile_lookup [OF up, of t]
  show "\<exists>f. AllocationFileOf l2 t = Some f \<and> af_SHA256 f = h' \<and> af_Status f = AllocationPending \<and>
        af_ApprovedByProposal f = None" using L by simp
  assume "h \<noteq> h'"
  have unlocked: "\<not> allocationLocked l2"
    using up by (auto simp: UploadAllocationFile_def update_file_def allocationLocked_def split: if_splits option.splits)
  obtain i where i: "find_index (\<lambda>f. af_Type f = t) (l_AllocationFiles l2) = Some i"
    using L AllocationFileOf_None [of l2 t] by (cases "find_index (\<lambda>f. af_Type f = t) (l_AllocationFiles l2)") auto
  then have "af_SHA256 (l_AllocationFiles l2 ! i) = h'" using L AllocationFileOf_find_index [OF i] by simp
  then show "ApproveAllocationFile now' l2 t h pid = Inl [ErrAllocationStaleHash]"
    using unlocked i \<open>h \<noteq> h'\<close> by (simp add: ApproveAllocationFile_def)
qed

definition example_file :: AllocationFile where
  "example_file = \<lparr>af_Type = ''claims'', af_SHA256 = replicate 64 CHR ''a'', af_Status = AllocationPending,
     af_ApprovedByProposal = None, af_UploadedAt = 1\<rparr>"

theorem allocation_approval_bound_witness:
  "\<exists>l1. ApproveAllocationFile 9 (example_launch\<lparr>l_AllocationFiles := [example_file]\<rparr>) ''claims''
       (replicate 64 CHR ''a'') 4 = Inr l1 \<and>
     (\<exists>f. AllocationFileOf l1 ''claims'' = Some f \<and> af_Status f = AllocationApproved)"
proof -
  obtain l1 where l1: "ApproveAllocationFile 9 (example_launch\<lparr>l_AllocationFiles := [example_file]\<rparr>) ''claims''
       (replicate 64 CHR ''a'') 4 = Inr l1"
    by (simp add: ApproveAllocationFile_def allocationLocked_def example_defs example_file_def)
  then show ?thesis using allocation_approval_bound [OF l1] by auto
qed

section \<open>Proposals\<close>

text \<open>
  C10. Signing a proposal: it succeeds only while the proposal is pending, within its time to live,
  and once per account; it appends one signature; a veto ends the proposal at once, and the proposal
  is executed exactly when the distinct accounts that signed reach the threshold.
\<close>

theorem Sign_quorum:
  assumes "proposal_ok E p" "Sign E p a d sig m now = Inr p'"
  shows "p_Status p = PStatusPendingSignatures \<and> now \<le> p_TTLExpires p \<and> acct a \<notin> set (signers p) \<and>
    signers p' = signers p @ [acct a] \<and> proposal_ok E p' \<and>
    (p_Status p' = PStatusVetoed \<longleftrightarrow> d = DecisionVeto) \<and>
    (p_Status p' = PStatusExecuted \<longleftrightarrow> d \<noteq> DecisionVeto \<and> m \<le> int (card (set (approvers p')))) \<and>
    (p_Status p' \<in> {PStatusPendingSignatures, PStatusVetoed, PStatusExecuted})"
proof -
  let ?s = "\<lparr>se_MemberAddress = a, se_Decision = d, se_Timestamp = now, se_Signature = sig\<rparr>"
  let ?p = "p\<lparr>p_Signatures := p_Signatures p @ [?s]\<rparr>"
  have pend: "p_Status p = PStatusPendingSignatures" and ttl: "now \<le> p_TTLExpires p"
    and fresh: "acct a \<notin> set (signers p)"
    using assms(2) by (auto simp: Sign_def list_ex_iff signers_def account_defs split: if_splits)
  have ok': "proposal_ok E p'" using Sign_ok [OF assms(2,1)] .
  have count: "int (card (set (approvers p'))) = SignCount p'"
    using ok' distinct_card [OF distinct_approvers] by (simp add: proposal_ok_def SignCount_approvers)
  have "signers p' = signers p @ [acct a] \<and> (p_Status p' = PStatusVetoed \<longleftrightarrow> d = DecisionVeto) \<and>
      (p_Status p' = PStatusExecuted \<longleftrightarrow> d \<noteq> DecisionVeto \<and> m \<le> SignCount p') \<and>
      p_Status p' \<in> {PStatusPendingSignatures, PStatusVetoed, PStatusExecuted}"
  proof (cases "d = DecisionVeto")
    case True
    with assms(2) have "p' = ?p\<lparr>p_Status := PStatusVetoed\<rparr>" by (auto simp: Sign_def Let_def split: if_splits)
    then show ?thesis using True by (simp add: signers_def)
  next
    case False
    with assms(2) have "execute_at_quorum E ?p m now = Inr p'" by (auto simp: Sign_def Let_def split: if_splits)
    from execute_at_quorum_Inr [OF this] have x: "p_Signatures p' = p_Signatures ?p"
      "if m \<le> SignCount ?p then p_Status p' = PStatusExecuted else p' = ?p" by (auto split: if_splits)
    have "SignCount p' = SignCount ?p" using x(1) by (simp add: SignCount_def)
    then show ?thesis using x pend False by (auto simp: signers_def split: if_splits)
  qed
  then show ?thesis using pend ttl fresh ok' count by auto
qed

definition example_proposal :: Proposal where
  "example_proposal = \<lparr>p_ID = 20, p_LaunchID = 7, p_ActionType = ActionCloseApplicationWindow, p_Payload = ''{}'',
     p_ProposedBy = example_account ''aa'', p_ProposedAt = 1, p_TTLExpires = 100,
     p_Status = PStatusPendingSignatures, p_ExecutedAt = None,
     p_Signatures = [\<lparr>se_MemberAddress = example_account ''aa'', se_Decision = DecisionSign, se_Timestamp = 1,
        se_Signature = \<lparr>sig_value = ''x''\<rparr>\<rparr>], p_events = []\<rparr>"

lemma example_proposal_ok: "proposal_ok example_env example_proposal"
  by (simp add: proposal_ok_def example_proposal_def signers_def)

lemma example_proposal_signed:
  "\<exists>p'. Sign example_env example_proposal (example_account ''bb'') DecisionSign \<lparr>sig_value = ''y''\<rparr> 2 50 = Inr p'"
  using execute_at_quorum_total
  by (fastforce simp: Sign_def example_proposal_def example_account_def account_defs Let_def execute_at_quorum_def
      emitExecutionEvents_def execution_event_def SignCount_def)

theorem Sign_quorum_witness:
  "\<exists>p'. Sign example_env example_proposal (example_account ''bb'') DecisionSign \<lparr>sig_value = ''y''\<rparr> 2 50 = Inr p' \<and>
     signers p' = [''aa'', ''bb''] \<and> p_Status p' \<noteq> PStatusVetoed"
proof -
  obtain p' where p': "Sign example_env example_proposal (example_account ''bb'') DecisionSign \<lparr>sig_value = ''y''\<rparr> 2 50 = Inr p'"
    using example_proposal_signed by blast
  note Q = Sign_quorum [OF example_proposal_ok p']
  then have "signers p' = signers example_proposal @ [''bb'']" by (simp add: example_account_def)
  then show ?thesis using p' Q by (auto simp: example_proposal_def signers_def example_account_def)
qed

inductive proposal_step :: "env \<Rightarrow> Proposal \<Rightarrow> Proposal \<Rightarrow> bool" for E where
  sign: "Sign E p a d sig m now = Inr p' \<Longrightarrow> proposal_step E p p'"
| quorum: "CheckQuorum E p m now = Inr p' \<Longrightarrow> proposal_step E p p'"
| expire: "proposal_step E p (fst (ExpireIfStale p now))"
| record_event: "proposal_step E p (RecordEvent p ev)"
| pop_events: "proposal_step E p (snd (PopEvents p))"

lemma Sign_extends:
  assumes "Sign E p a d sig m now = Inr p'"
  shows "p_ID p' = p_ID p \<and> p_LaunchID p' = p_LaunchID p \<and> p_ActionType p' = p_ActionType p \<and>
    p_Payload p' = p_Payload p \<and> p_Status p = PStatusPendingSignatures \<and>
    (\<exists>s. p_Signatures p' = p_Signatures p @ [s])"
proof (cases "d = DecisionVeto")
  case True
  then show ?thesis using assms by (auto simp: Sign_def Let_def split: if_splits)
next
  case False
  let ?p = "p\<lparr>p_Signatures := p_Signatures p @
    [\<lparr>se_MemberAddress = a, se_Decision = d, se_Timestamp = now, se_Signature = sig\<rparr>]\<rparr>"
  have "execute_at_quorum E ?p m now = Inr p'" "p_Status p = PStatusPendingSignatures"
    using assms False by (auto simp: Sign_def Let_def split: if_splits)
  with execute_at_quorum_Inr [OF this(1)] show ?thesis by simp
qed

lemma proposal_step_frame:
  assumes "proposal_step E p p'"
  shows "p_ID p' = p_ID p \<and> p_LaunchID p' = p_LaunchID p \<and> p_ActionType p' = p_ActionType p \<and>
    p_Payload p' = p_Payload p \<and> (\<exists>ss. p_Signatures p' = p_Signatures p @ ss) \<and>
    (p_Status p \<noteq> PStatusPendingSignatures \<longrightarrow> p_Status p' = p_Status p \<and> p_Signatures p' = p_Signatures p)"
  using assms
proof cases
  case (sign a d sig m now)
  then show ?thesis using Sign_extends [OF sign] by auto
next
  case (quorum m now)
  then show ?thesis using execute_at_quorum_Inr [of E p m now p'] by (auto simp: CheckQuorum_def split: if_splits)
qed (auto simp: ExpireIfStale_def RecordEvent_def PopEvents_def)

lemma proposal_ok_events:
  "proposal_ok E p \<Longrightarrow> proposal_ok E (RecordEvent p ev)" "proposal_ok E p \<Longrightarrow> proposal_ok E (snd (PopEvents p))"
  by (simp_all add: RecordEvent_def PopEvents_def proposal_ok_def signers_def)

lemma proposal_step_ok: "proposal_step E p p' \<Longrightarrow> proposal_ok E p \<Longrightarrow> proposal_ok E p'"
  by (induction rule: proposal_step.induct) (auto intro: Sign_ok CheckQuorum_ok ExpireIfStale_ok proposal_ok_events)

text \<open>
  C11. The life of a proposal: whatever sequence of signatures, quorum checks, expiries and recorded
  events follows, its action, payload and launch never change, no signature is ever dropped, no
  account signs twice, and once it is executed, vetoed or expired its status and signatures are final.
\<close>

theorem proposal_life:
  assumes "(proposal_step E)\<^sup>*\<^sup>* p p'" "proposal_ok E p"
  shows "proposal_ok E p' \<and> distinct (signers p') \<and> p_ID p' = p_ID p \<and> p_LaunchID p' = p_LaunchID p \<and>
    p_ActionType p' = p_ActionType p \<and> p_Payload p' = p_Payload p \<and>
    (\<exists>ss. p_Signatures p' = p_Signatures p @ ss) \<and>
    (p_Status p \<noteq> PStatusPendingSignatures \<longrightarrow> p_Status p' = p_Status p \<and> p_Signatures p' = p_Signatures p)"
  using assms(1)
proof induction
  case base
  then show ?case using assms(2) by (auto simp: proposal_ok_def)
next
  case (step y z)
  have "proposal_ok E z" using proposal_step_ok [OF step.hyps(2)] step.IH by blast
  then show ?case using step.IH proposal_step_frame [OF step.hyps(2)] by (auto simp: proposal_ok_def)
qed

theorem proposal_life_witness:
  "\<exists>p'. Sign example_env example_proposal (example_account ''bb'') DecisionSign \<lparr>sig_value = ''y''\<rparr> 2 50 = Inr p' \<and>
     p_Payload p' = ''{}'' \<and> distinct (signers p')"
proof -
  obtain p' where p': "Sign example_env example_proposal (example_account ''bb'') DecisionSign \<lparr>sig_value = ''y''\<rparr> 2 50 = Inr p'"
    using example_proposal_signed by blast
  then have "(proposal_step example_env)\<^sup>*\<^sup>* example_proposal p'" by (intro r_into_rtranclp proposal_step.sign)
  from proposal_life [OF this example_proposal_ok] show ?thesis using p' by (auto simp: example_proposal_def)
qed

text \<open>
  C15. A proposal whose payload was validated when it was raised never makes signing panic: the
  errors of \<open>Sign\<close> are only the three sentinels, and a fresh vote on a pending, unexpired proposal
  always succeeds.
\<close>

theorem Sign_total:
  assumes "proposal_ok E p"
  shows "(\<forall>e. Sign E p a d sig m now = Inl e \<longrightarrow>
      e \<in> {[ErrProposalNotPending], [ErrProposalTTLExpired], [ErrMemberAlreadySigned]}) \<and>
    (p_Status p = PStatusPendingSignatures \<and> now \<le> p_TTLExpires p \<and> acct a \<notin> set (signers p) \<longrightarrow>
      (\<exists>p'. Sign E p a d sig m now = Inr p'))"
proof -
  let ?p = "p\<lparr>p_Signatures := p_Signatures p @
    [\<lparr>se_MemberAddress = a, se_Decision = d, se_Timestamp = now, se_Signature = sig\<rparr>]\<rparr>"
  have "ValidatePayload E (p_ActionType ?p) (p_Payload ?p) = Inr ()" using assms by (simp add: proposal_ok_def)
  then obtain q where q: "execute_at_quorum E ?p m now = Inr q" using execute_at_quorum_total by blast
  then show ?thesis
    by (auto simp: Sign_def Let_def list_ex_iff signers_def account_defs split: if_splits intro: rev_image_eqI)
qed

theorem Sign_total_witness:
  "\<exists>p'. Sign example_env example_proposal (example_account ''cc'') DecisionVeto \<lparr>sig_value = ''z''\<rparr> 3 60 = Inr p'"
  using Sign_total [OF example_proposal_ok, of "example_account ''cc''" DecisionVeto "\<lparr>sig_value = ''z''\<rparr>" 3 60]
  by (simp add: example_proposal_def signers_def example_account_def)

section \<open>Join requests\<close>

text \<open>
  C20. The self-delegation read from a gentx is the decimal number at the start of the amount modulo
  2 to the 64, read as a signed integer: it is exact below 2 to the 63 and wraps from there on.
\<close>

theorem parseAmountString_wraps:
  "uint (parseAmountString s) = int (nat_of_digits (takeWhile is_digit s)) mod 2 ^ 64 \<and>
   (nat_of_digits (takeWhile is_digit s) < 2 ^ 63 \<longrightarrow>
      sint (parseAmountString s) = int (nat_of_digits (takeWhile is_digit s)))"
proof -
  have "uint (of_nat n :: 64 word) = int n mod 2 ^ 64" for n
    using uint_word_of_int [where 'a = 64, of "int n"] by simp
  then have "uint (parseAmountString s) = int (nat_of_digits (takeWhile is_digit s)) mod 2 ^ 64"
    by (simp only: parseAmountString_value)
  then show ?thesis using parseAmountString_exact by blast
qed

theorem parseAmountString_wraps_witness: "sint (parseAmountString ''25utok'') = 25"
proof -
  have "nat_of_digits (takeWhile is_digit ''25utok'') = 25"
    by (simp add: is_digit_def nat_of_digits_def digit_val_def)
  then show ?thesis using parseAmountString_wraps [of "''25utok''"] by simp
qed

text \<open>The wrap-around is reachable: an amount of 2 to the 64 counts as no self-delegation at all.\<close>

lemma parseAmountString_overflow: "parseAmountString ''18446744073709551616'' = 0"
  by code_simp

section \<open>Rehearsal leases\<close>

text \<open>
  C17. A rehearsal attempt is leased by one runner at a time: while a lease is live every other
  runner is refused and the holder's own claims do not extend it, whatever the sequence of claims;
  from its deadline on, any runner can take it.
\<close>

theorem lease_exclusive:
  assumes "Claim a r now (now + ttl) = Inr a1" "\<not> IsLeased a now" "0 < ttl"
    and "\<forall>ev \<in> set evs. \<exists>q t. ev = ClaimEv q t \<and> t < now + ttl"
  shows "lease_run ttl a1 evs = a1 \<and> ra_RunnerID a1 = r \<and>
    (\<forall>q t. q \<noteq> r \<and> t < now + ttl \<longrightarrow> Claim a1 q t (t + ttl) = Inl [ErrAttemptLeased]) \<and>
    (\<forall>q t. now + ttl \<le> t \<longrightarrow> (\<exists>a2. Claim a1 q t (t + ttl) = Inr a2 \<and> ra_RunnerID a2 = q \<and>
       ra_LeaseExpiresAt a2 = Some (t + ttl)))"
proof -
  have a1: "a1 = a\<lparr>ra_Status := AttemptRunning, ra_ClaimedAt := Some now,
      ra_LeaseExpiresAt := Some (now + ttl), ra_RunnerID := r\<rparr>"
    using assms(1,2) by (simp add: Claim_def)
  have "lease_run ttl a1 evs = a1"
    using assms(4) by (intro lease_run_claims_keep_lease [where e = "now + ttl"]) (simp_all add: a1)
  then show ?thesis by (auto simp: a1 Claim_def IsLeased_def)
qed

definition example_attempt :: RehearsalAttempt where
  "example_attempt = \<lparr>ra_ID = 30, ra_LaunchID = 7, ra_InputSetHash = ''h'', ra_IssuedAt = 1, ra_Status = AttemptOpen,
     ra_ClaimedAt = None, ra_LeaseExpiresAt = None, ra_RunnerID = []\<rparr>"

theorem lease_exclusive_witness:
  "\<exists>a1. Claim example_attempt ''r1'' 10 15 = Inr a1 \<and> Claim a1 ''r2'' 12 17 = Inl [ErrAttemptLeased]"
proof -
  obtain a1 where a1: "Claim example_attempt ''r1'' 10 (10 + 5) = Inr a1"
    by (simp add: Claim_def IsLeased_def example_attempt_def)
  have "\<forall>q t. q \<noteq> ''r1'' \<and> t < 10 + 5 \<longrightarrow> Claim a1 q t (t + 5) = Inl [ErrAttemptLeased]"
    using lease_exclusive [OF a1, of "[]"] by (simp add: IsLeased_def example_attempt_def)
  from this [rule_format, of "''r2''" 12] show ?thesis using a1 by auto
qed

end
