(* ===== verification/GovernanceProperties.thy ===== *)
theory GovernanceProperties
  imports System IoLogic DomainProperties
begin

text \<open>
  Properties of the proposal service and of the whole transition system, for every schedule of
  failures.
\<close>

section \<open>Authorization of governance\<close>

definition committee_authorised ::
  "env \<Rightarrow> proposal_cfg \<Rightarrow> time \<Rightarrow> db \<Rightarrow> uuid \<Rightarrow> string \<Rightarrow> string \<Rightarrow> string \<Rightarrow> string \<Rightarrow> string \<Rightarrow> json \<Rightarrow> bool" where
  \<comment> \<open>an unused nonce, a timestamp in the window, a committee seat, and a signature of that address
     over the canonical bytes of the request\<close>
  "committee_authorised E cfg now d lid addr nonce ts pub sig doc \<longleftrightarrow>
     (addr, nonce) \<notin> fst ` set (db_nonces d) \<and> validateTimestamp E now ts = Inr () \<and>
     (\<exists>l a msg sb. load_launch d lid = Some l \<and> NewAccountID E addr = Inr a \<and> HasMember (l_Committee l) a \<and>
        signing_bytes E doc = Inr msg \<and> decodeBase64Sig sig = Inr sb \<and> pub \<noteq> [] \<and> pc_Verify cfg addr pub msg sb)"

lemma verifyMemberSig_Inr: "verifyMemberSig cfg addr pub msg sb = Inr u \<Longrightarrow> pub \<noteq> [] \<and> pc_Verify cfg addr pub msg sb"
  by (auto simp: verifyMemberSig_def split: if_splits)

lemma authorised_after_checks:
  assumes "load_launch d lid = Some l" "(addr, nonce) \<notin> fst ` set (db_nonces d)"
    "validateTimestamp E now ts = Inr u1" "signing_bytes E doc = Inr msg" "decodeBase64Sig sig = Inr sb"
    "NewAccountID E addr = Inr a" "HasMember (l_Committee l) a" "verifyMemberSig cfg addr pub msg sb = Inr u2"
  shows "committee_authorised E cfg now d lid addr nonce ts pub sig doc"
  using assms verifyMemberSig_Inr [OF assms(8)] by (auto simp: committee_authorised_def)

lemma loaded_before:
  assumes "\<exists>w w'. same_but_nonces w0 w \<and> launches_FindByID lid w = (Inr l, w')"
  shows "load_launch (w_db w0) lid = Some l"
  using assms launches_FindByID_Inr same_but_nonces_load by metis

lemmas io_steps = hoare_lift hoare_wrapping_lift hoare_lift_map hoare_ensure hoare_reads

text \<open>The checks \<open>Raise\<close> and \<open>Sign\<close> make before they look at the proposal.\<close>

lemma hoare_member_checks:
  fixes k :: "Launch \<Rightarrow> AccountID \<Rightarrow> 'a io" and E cfg now w0 lid addr nonce ts pub sig doc
  defines "A \<equiv> committee_authorised E cfg now (w_db w0) lid addr nonce ts pub sig doc"
  shows "hoare (\<lambda>w. w = w0)
      (bnd (Consume E now addr nonce) (\<lambda>_.
       bnd (lift (validateTimestamp E now ts)) (\<lambda>_.
       bnd (lift (signing_bytes E doc)) (\<lambda>message.
       bnd (lift (decodeBase64Sig sig)) (\<lambda>sigBytes.
       bnd (launches_FindByID lid) (\<lambda>l.
       bnd (wrapping [ErrBadRequest] (lift (NewAccountID E addr))) (\<lambda>memberAddr.
       bnd (ensure (HasMember (l_Committee l) memberAddr) [ErrForbidden]) (\<lambda>_.
       bnd (lift (verifyMemberSig cfg addr pub message sigBytes)) (\<lambda>_.
       k l memberAddr)))))))))
      (\<lambda>_ _. A) (\<lambda>w'. same_but_nonces w0 w' \<or> A)"
proof -
  have rest: "hoare (same_but_nonces w0)
      (bnd (lift (validateTimestamp E now ts)) (\<lambda>_.
       bnd (lift (signing_bytes E doc)) (\<lambda>message.
       bnd (lift (decodeBase64Sig sig)) (\<lambda>sigBytes.
       bnd (launches_FindByID lid) (\<lambda>l.
       bnd (wrapping [ErrBadRequest] (lift (NewAccountID E addr))) (\<lambda>memberAddr.
       bnd (ensure (HasMember (l_Committee l) memberAddr) [ErrForbidden]) (\<lambda>_.
       bnd (lift (verifyMemberSig cfg addr pub message sigBytes)) (\<lambda>_.
       k l memberAddr))))))))
      (\<lambda>_ _. A) (\<lambda>w'. same_but_nonces w0 w' \<or> A)"
    if "(addr, nonce) \<notin> fst ` set (db_nonces (w_db w0))"
    apply (insert that)
    apply (unfold A_def)
    apply (intro io_steps frame_intros stable_same_but_nonces; (rule disjI1, assumption)?)
    apply (rule hoare_done, rule authorised_after_checks, erule loaded_before)
    by assumption+
  show ?thesis
  proof (rule hoare_bnd)
    show "hoare (\<lambda>w. w = w0) (Consume E now addr nonce)
        (\<lambda>_ w. same_but_nonces w0 w \<and> (addr, nonce) \<notin> fst ` set (db_nonces (w_db w0)))
        (\<lambda>w'. same_but_nonces w0 w' \<or> A)"
      by (rule hoare_weaken [OF hoare_Consume]) auto
  next
    fix u :: unit
    show "hoare (\<lambda>w. same_but_nonces w0 w \<and> (addr, nonce) \<notin> fst ` set (db_nonces (w_db w0)))
        (bnd (lift (validateTimestamp E now ts)) (\<lambda>_.
         bnd (lift (signing_bytes E doc)) (\<lambda>message.
         bnd (lift (decodeBase64Sig sig)) (\<lambda>sigBytes.
         bnd (launches_FindByID lid) (\<lambda>l.
         bnd (wrapping [ErrBadRequest] (lift (NewAccountID E addr))) (\<lambda>memberAddr.
         bnd (ensure (HasMember (l_Committee l) memberAddr) [ErrForbidden]) (\<lambda>_.
         bnd (lift (verifyMemberSig cfg addr pub message sigBytes)) (\<lambda>_.
         k l memberAddr))))))))
        (\<lambda>_ _. A) (\<lambda>w'. same_but_nonces w0 w' \<or> A)"
    proof (cases "(addr, nonce) \<in> fst ` set (db_nonces (w_db w0))")
      case False
      show ?thesis by (rule hoare_weaken [OF rest [OF False]]) auto
    qed (simp add: hoare_def)
  qed
qed

lemma hoare_outcome:
  assumes "hoare (\<lambda>w. w = w0) m (\<lambda>_ _. A) (\<lambda>w'. B w' \<or> A)" "m w0 = (r, w')"
  shows "(\<forall>x. r = Inr x \<longrightarrow> A) \<and> (\<not> B w' \<longrightarrow> A)"
proof (cases r)
  case (Inl e)
  then show ?thesis using hoareD2 [OF assms(1) refl] assms(2) by auto
next
  case (Inr x)
  then show ?thesis using hoareD1 [OF assms(1) refl] assms(2) by auto
qed

lemma hoare_Raise:
  "hoare (\<lambda>w. w = w0) (Raise E cfg now pid lid i)
     (\<lambda>_ _. committee_authorised E cfg now (w_db w0) lid (rin_MemberAddr i) (rin_Nonce i) (rin_Timestamp i)
        (rin_PubKeyB64 i) (rin_Signature i) (raise_json i))
     (\<lambda>w'. same_but_nonces w0 w' \<or> committee_authorised E cfg now (w_db w0) lid (rin_MemberAddr i) (rin_Nonce i)
        (rin_Timestamp i) (rin_PubKeyB64 i) (rin_Signature i) (raise_json i))"
  unfolding Raise_def by (rule hoare_member_checks)

lemma hoare_SignProposal:
  "hoare (\<lambda>w. w = w0) (SignProposal E cfg now lid pid i)
     (\<lambda>_ _. committee_authorised E cfg now (w_db w0) lid (sin_MemberAddr i) (sin_Nonce i) (sin_Timestamp i)
        (sin_PubKeyB64 i) (sin_Signature i) (sign_json i))
     (\<lambda>w'. same_but_nonces w0 w' \<or> committee_authorised E cfg now (w_db w0) lid (sin_MemberAddr i) (sin_Nonce i)
        (sin_Timestamp i) (sin_PubKeyB64 i) (sin_Signature i) (sign_json i))"
  unfolding SignProposal_def by (rule hoare_member_checks)

text \<open>
  C5. Governance is authenticated: a raise or a signature that returns a proposal, or that leaves
  anything but the nonce table changed (a row, the audit trail, a published event), came with an
  unused nonce, a timestamp within the window, and a verified signature over the canonical request by
  an address whose account holds a seat on the launch's committee.
\<close>

theorem governance_authenticated:
  "(Raise E cfg now pid lid ri w = (r, w') \<and> ((\<exists>p. r = Inr p) \<or> \<not> same_but_nonces w w') \<longrightarrow>
      committee_authorised E cfg now (w_db w) lid (rin_MemberAddr ri) (rin_Nonce ri) (rin_Timestamp ri)
        (rin_PubKeyB64 ri) (rin_Signature ri) (raise_json ri)) \<and>
   (SignProposal E cfg now lid pid si w = (r, w') \<and> ((\<exists>p. r = Inr p) \<or> \<not> same_but_nonces w w') \<longrightarrow>
      committee_authorised E cfg now (w_db w) lid (sin_MemberAddr si) (sin_Nonce si) (sin_Timestamp si)
        (sin_PubKeyB64 si) (sin_Signature si) (sign_json si))"
proof (intro conjI impI; elim conjE)
  assume "Raise E cfg now pid lid ri w = (r, w')" "(\<exists>p. r = Inr p) \<or> \<not> same_but_nonces w w'"
  then show "committee_authorised E cfg now (w_db w) lid (rin_MemberAddr ri) (rin_Nonce ri) (rin_Timestamp ri)
        (rin_PubKeyB64 ri) (rin_Signature ri) (raise_json ri)"
    using hoare_outcome [OF hoare_Raise] by auto
next
  assume "SignProposal E cfg now lid pid si w = (r, w')" "(\<exists>p. r = Inr p) \<or> \<not> same_but_nonces w w'"
  then show "committee_authorised E cfg now (w_db w) lid (sin_MemberAddr si) (sin_Nonce si) (sin_Timestamp si)
        (sin_PubKeyB64 si) (sin_Signature si) (sign_json si)"
    using hoare_outcome [OF hoare_SignProposal] by auto
qed

text \<open>A world with one open launch whose committee is the accounts of \<open>c1X\<close>, \<open>c1Y\<close> and \<open>c1Z\<close>.\<close>

definition service_env :: env where
  "service_env = example_env\<lparr>time_ParseRFC3339 := (\<lambda>s. Some 1000), uuid_Parse := (\<lambda>s. Some 5),
     time_FormatRFC3339Nano := (\<lambda>t. ''t'')\<rparr>"

definition seat_account :: "string \<Rightarrow> AccountID" where
  "seat_account s = (case NewAccountID service_env s of Inr a \<Rightarrow> a | Inl _ \<Rightarrow> \<lparr>acct = [], orig = []\<rparr>)"

definition service_committee :: Committee where
  "service_committee = \<lparr>c_ID = 1, c_Members = map (\<lambda>s. \<lparr>cm_Address = seat_account s, cm_Moniker = s\<rparr>) [''c1X'', ''c1Y'', ''c1Z''],
     c_ThresholdM = 2, c_TotalN = 3, c_LeadAddress = seat_account ''c1X'', c_CreatedAt = 0\<rparr>"

definition service_world :: world where
  "service_world = fresh_world\<lparr>w_db := empty_db\<lparr>
     db_launches := [(launch_columns example_launch)\<lparr>l_Status := StatusWindowOpen\<rparr>],
     db_committees := [(7, service_committee)]\<rparr>\<rparr>"

definition service_cfg_proposal :: proposal_cfg where
  "service_cfg_proposal = \<lparr>pc_Verify = (\<lambda>a k m s. k = ''key''), pc_rehearsalGate = RehearsalGateOff, pc_results = True\<rparr>"

definition example_sig :: string where
  "example_sig = concat (replicate 21 ''AAAA'') @ ''AA==''"

definition close_request :: RaiseInput where
  "close_request = \<lparr>rin_ActionType = ActionCloseApplicationWindow, rin_Payload = ''{}'', rin_MemberAddr = ''c1X'',
     rin_Nonce = ''n1'', rin_Timestamp = ''now'', rin_Signature = example_sig, rin_PubKeyB64 = ''key''\<rparr>"

lemma close_request_raised:
  "\<exists>p w'. Raise service_env service_cfg_proposal 1000 50 7 close_request service_world = (Inr p, w')"
proof -
  have "\<not> isl (fst (Raise service_env service_cfg_proposal 1000 50 7 close_request service_world))" by code_simp
  then show ?thesis by (metis prod.collapse sum.collapse(2))
qed

theorem governance_authenticated_witness:
  "committee_authorised service_env service_cfg_proposal 1000 (w_db service_world) 7 ''c1X'' ''n1'' ''now'' ''key''
     example_sig (raise_json close_request)"
proof -
  obtain p w' where "Raise service_env service_cfg_proposal 1000 50 7 close_request service_world = (Inr p, w')"
    using close_request_raised by blast
  then show ?thesis using governance_authenticated [of service_env service_cfg_proposal 1000 50 7 close_request service_world "Inr p" w']
    by (simp add: close_request_def)
qed

section \<open>Execution\<close>

lemma dispatchEvents_frame:
  "dispatchEvents now scope evs w = (r, w') \<Longrightarrow> w_db w' = w_db w \<and> (\<exists>es. w_audit w' = w_audit w @ es) \<and> (\<exists>u. r = Inr u)"
proof (induction evs arbitrary: w)
  case Nil
  then show ?case by (auto simp: ret_def)
next
  case (Cons ev evs)
  let ?w = "w\<lparr>w_published := w_published w @ [ev]\<rparr>"
  obtain a w1 where a: "writeAuditEvent now scope ev ?w = (a, w1)" by force
  from audit_Append_db a have w1: "w_db w1 = w_db w \<and> (\<exists>es. w_audit w1 = w_audit w @ es)"
    unfolding writeAuditEvent_def by (cases a) fastforce+
  show ?case
  proof (cases a)
    case (Inl e)
    then show ?thesis using Cons.prems a w1 by (auto simp: bnd_def events_Publish_def)
  next
    case (Inr u)
    then have "dispatchEvents now scope evs w1 = (r, w')" using Cons.prems a by (simp add: bnd_def events_Publish_def)
    from Cons.IH [OF this] show ?thesis using w1 by auto
  qed
qed

lemma commit_execution_outcome:
  assumes "commit_execution E cfg now l p w = (r, w')"
  shows "(\<exists>es. w_audit w' = w_audit w @ es) \<and>
    (case r of Inl _ \<Rightarrow> w_db w' = w_db w
     | Inr _ \<Rightarrow> \<exists>w1 w2 q'. w_db w1 = w_db w \<and> applyProposal E cfg now l p w1 = (Inr q', w2) \<and> w_db w' = w_db w2)"
proof -
  obtain a w1 where a: "InTransaction (applyProposal E cfg now l p) w = (a, w1)" by force
  have audit: "w_audit w1 = w_audit w"
    using db_only_InTransaction [OF db_only_applyProposal] a same_but_db_simps(1) unfolding db_only_def by blast
  show ?thesis
  proof (cases a)
    case (Inl e)
    obtain sc ab where run: "bnd (emit now sc ab) (\<lambda>_. fail e) w1 = (r, w')"
      using assms a Inl by (auto simp: commit_execution_def Let_def)
    obtain b w2 where b: "emit now sc ab w1 = (b, w2)" by force
    note R = emit_result [OF b]
    have "r = Inl e \<and> w' = w2" using run b R by (auto simp: bnd_def fail_def)
    then show ?thesis using R audit InTransaction_Inl [of _ w e w1] a Inl by simp
  next
    case (Inr q)
    obtain sc where run: "bnd (dispatchEvents now sc (fst (PopEvents q))) (\<lambda>_. ret (snd (PopEvents q))) w1 = (r, w')"
      using assms a Inr by (auto simp: commit_execution_def Let_def)
    obtain b w2 where b: "dispatchEvents now sc (fst (PopEvents q)) w1 = (b, w2)" by force
    note R = dispatchEvents_frame [OF b]
    have r: "(\<exists>x. r = Inr x) \<and> w' = w2" using run b R by (auto simp: bnd_def ret_def)
    obtain u v where uv: "same_but_faults w u" "applyProposal E cfg now l p u = (Inr q, v)" "same_but_faults v w1"
      using InTransaction_Inr [of "applyProposal E cfg now l p" w q w1] a Inr by auto
    have dbs: "w_db u = w_db w" "w_db w' = w_db v"
      using same_but_faults_simps(1) [OF uv(1)] same_but_faults_simps(1) [OF uv(3)] R r by simp_all
    obtain x where x: "r = Inr x" using r by blast
    have "\<exists>es. w_audit w' = w_audit w @ es" using R r audit by simp
    then show ?thesis using uv(2) dbs unfolding x sum.case by blast
  qed
qed

text \<open>
  C6. The execution of a proposal is all or nothing and announced ahead of time: a failed execution
  leaves the database exactly as it was, a successful one leaves what the proposal's side effect
  computed from it, and the database changes only after the intent to execute this very proposal has
  been appended to the audit trail, whatever fails on the way.
\<close>

theorem execution_atomic_and_announced:
  assumes "applyAndSave E cfg now l p w = (r, w')"
  shows "(\<forall>e. r = Inl e \<longrightarrow> w_db w' = w_db w) \<and>
    (\<forall>q. r = Inr q \<longrightarrow> (\<exists>w1 w2 q'. w_db w1 = w_db w \<and> applyProposal E cfg now l p w1 = (Inr q', w2) \<and> w_db w' = w_db w2)) \<and>
    (w_db w' \<noteq> w_db w \<longrightarrow> (\<exists>ev rest. w_audit w' = w_audit w @ (uuid_String E (p_LaunchID p), ev) # rest \<and>
       body ev = ProposalExecuting (p_LaunchID p) (p_ID p) (action_string (p_ActionType p))))"
proof -
  let ?sc = "uuid_String E (p_LaunchID p)"
  let ?i = "bare (ProposalExecuting (p_LaunchID p) (p_ID p) (action_string (p_ActionType p)))"
  obtain a w1 where a: "writeAuditEvent now ?sc ?i w = (a, w1)" by force
  have db: "w_db w1 = w_db w" using audit_Append_db a unfolding writeAuditEvent_def by blast
  show ?thesis
  proof (cases a)
    case (Inl e)
    then show ?thesis using assms a db by (auto simp: applyAndSave_def bnd_def)
  next
    case (Inr u)
    then have run: "commit_execution E cfg now l p w1 = (r, w')" using assms a by (simp add: applyAndSave_def bnd_def)
    obtain ev where ev: "w_audit w1 = w_audit w @ [(?sc, ev)]" "body ev = body ?i"
      using a Inr audit_Append_db unfolding writeAuditEvent_def by fastforce
    from commit_execution_outcome [OF run] obtain es where es: "w_audit w' = w_audit w @ (?sc, ev) # es"
      using ev(1) by auto
    show ?thesis using commit_execution_outcome [OF run] es ev(2) db by (auto simp: bare_def split: sum.splits)
  qed
qed

lemma interrupted_execution:
  "\<exists>e w'. applyAndSave service_env service_cfg_proposal 1000 example_launch example_proposal
     (service_world\<lparr>w_faults := [False, False, False, True]\<rparr>) = (Inl e, w')"
  by (simp add: applyAndSave_def commit_execution_def bnd_def writeAuditEvent_def audit_Append_def InTransaction_def
      tx_begin_def with_rollback_def reads_def applyProposal_def applyCloseWindow_def example_proposal_def
      joinrequests_FindApprovedByLaunch_def emit_eq fail_def Let_def split: prod.split)

theorem execution_atomic_and_announced_witness:
  "w_db (snd (applyAndSave service_env service_cfg_proposal 1000 example_launch example_proposal
     (service_world\<lparr>w_faults := [False, False, False, True]\<rparr>))) = w_db service_world"
proof -
  obtain e w' where run: "applyAndSave service_env service_cfg_proposal 1000 example_launch example_proposal
     (service_world\<lparr>w_faults := [False, False, False, True]\<rparr>) = (Inl e, w')"
    using interrupted_execution by blast
  from execution_atomic_and_announced [OF run] show ?thesis using run by simp
qed

section \<open>Reachable worlds\<close>


definition service_cfgs :: service_cfg where
  "service_cfgs = \<lparr>sc_proposal = service_cfg_proposal, sc_launch = \<lparr>lc_urlValidator = (\<lambda>_. True)\<rparr>,
     sc_join = \<lparr>jc_Verify = (\<lambda>_ _ _ _. True), jc_Validate = (\<lambda>_ _. \<lparr>go_AllOK = True, go_Results = [], go_ConsensusPubKeyB64 = ''k'', go_ValidatorAddress = ''c1V''\<rparr>)\<rparr>,
     sc_readiness = \<lparr>rcfg_Verify = (\<lambda>_ _ _ _. True)\<rparr>,
     sc_rehearsal = \<lparr>rh_leaseTTL = defaultRehearsalLeaseTTL, rh_Verify = (\<lambda>_ _ _. True)\<rparr>,
     sc_monitor = \<lparr>mc_Get = (\<lambda>_. None), mc_validateURL = None\<rparr>,
     sc_auth = \<lparr>au_Verify = (\<lambda>a k m s. k = ''key''), au_jwt = \<lparr>jwt_SignedString = (\<lambda>c. None), jwt_ParseWithClaims = (\<lambda>t s. None)\<rparr>\<rparr>\<rparr>"

definition created_world :: world where
  "created_world = serve service_env service_cfgs (CreateReq 5 7 \<lparr>cl_Record = example_record, cl_LaunchType = LaunchTypeTestnet,
     cl_Allowlist = [], cl_Committee = example_committee\<rparr>) (fresh_world\<lparr>w_faults := []\<rparr>)"

definition solo_committee :: Committee where
  "solo_committee = \<lparr>c_ID = 1, c_Members = [\<lparr>cm_Address = seat_account ''c1X'', cm_Moniker = ''x''\<rparr>],
     c_ThresholdM = 1, c_TotalN = 1, c_LeadAddress = seat_account ''c1X'', c_CreatedAt = 0\<rparr>"

definition solo_world :: world where
  "solo_world = serve service_env service_cfgs (CreateReq 5 7 \<lparr>cl_Record = example_record, cl_LaunchType = LaunchTypeTestnet,
         cl_Allowlist = [], cl_Committee = solo_committee\<rparr>) (fresh_world\<lparr>w_faults := []\<rparr>)"

definition cancelled_world :: world where
  "cancelled_world = serve service_env service_cfgs (RaiseReq 1000 50 7 (close_request\<lparr>rin_ActionType := ActionCancelLaunch\<rparr>))
     (solo_world\<lparr>w_faults := []\<rparr>)"

lemma worlds_evaluated:
  "map l_ID (db_launches (w_db created_world)) = [7] \<and> \<not> w_exited solo_world \<and>
   map (\<lambda>p. (p_ID p, p_Status p)) (db_proposals (w_db cancelled_world)) = [(50, PStatusExecuted)]"
  by code_simp

lemma created_world_reachable: "world_reachable service_env service_cfgs created_world"
proof -
  have "world_step service_env service_cfgs fresh_world created_world"
    unfolding created_world_def by (rule world_step.serve) (simp add: fresh_world_def)
  then show ?thesis by (rule world_reachable.step [OF world_reachable.fresh])
qed



text \<open>
  C9. In every reachable world each executed proposal is announced: the audit trail holds a
  \<open>ProposalExecuting\<close> entry with its id, so no governance action took effect unaudited.
\<close>

theorem reachable_executed_announced:
  assumes "world_reachable E S w" "p \<in> set (db_proposals (w_db w))" "p_Status p = PStatusExecuted"
  shows "\<exists>sc ev lid act. (sc, ev) \<in> set (w_audit w) \<and> body ev = ProposalExecuting lid (p_ID p) act"
proof -
  have "covered_with None fresh_world" by (simp add: fresh_world_def empty_db_def covered_with_def covered_def)
  then have "covered_with None w" using audit_governed.world_reachable_keeps assms(1) by blast
  then show ?thesis using assms(2,3) by (auto simp: covered_with_def covered_def intents_def)
qed

lemma cancelled_world_reachable: "world_reachable service_env service_cfgs cancelled_world"
proof -
  have "world_step service_env service_cfgs fresh_world solo_world"
    unfolding solo_world_def by (rule world_step.serve) (simp add: fresh_world_def)
  then have "world_reachable service_env service_cfgs solo_world" by (rule world_reachable.step [OF world_reachable.fresh])
  moreover have "world_step service_env service_cfgs solo_world cancelled_world"
    unfolding cancelled_world_def by (rule world_step.serve) (use worlds_evaluated in blast)
  ultimately show ?thesis by (rule world_reachable.step)
qed

theorem reachable_executed_announced_witness:
  "\<exists>sc ev lid act. (sc, ev) \<in> set (w_audit cancelled_world) \<and> body ev = ProposalExecuting lid 50 act"
proof -
  obtain p where p: "p \<in> set (db_proposals (w_db cancelled_world))" "p_ID p = 50" "p_Status p = PStatusExecuted"
    using worlds_evaluated by (auto simp: map_eq_Cons_conv)
  then show ?thesis using reachable_executed_announced [OF cancelled_world_reachable p(1,3)] by simp
qed

section \<open>What a proposal does\<close>

lemma checkGenesisFresh_Inr:
  "checkGenesisFresh E l w = (Inr u, w') \<Longrightarrow> l_FinalGenesisInputSetHash l \<noteq> [] \<and>
     input_set_hash E (w_db w) l = Inr (l_FinalGenesisInputSetHash l) \<and> same_but_faults w w'"
  by (auto simp: checkGenesisFresh_def bnd_Inr dest!: Current_Inr)

lemma results_FindByLaunch_Inr:
  "results_FindByLaunch E lid w = (Inr rs, w') \<Longrightarrow> set rs = {r \<in> set (db_results (w_db w)). rr_LaunchID r = lid} \<and> same_but_faults w w'"
  by (auto simp: results_FindByLaunch_def dest!: reads_Inr)

lemma EvaluateRehearsalReady_None:
  "EvaluateRehearsalReady latest h = None \<longleftrightarrow> (\<exists>r. latest = Some r \<and> rr_Outcome r = OutcomePass \<and> rr_InputSetHash r = h)"
  by (auto simp: EvaluateRehearsalReady_def split: option.splits)

lemma gateRehearsal_required:
  assumes "gateRehearsal E cfg now l w = (Inr u, w')" "pc_rehearsalGate cfg = RehearsalGateRequired"
    "input_set_hash E (w_db w) l = Inr h"
  shows "l_RehearsalServicePubKey l \<noteq> [] \<and> (\<exists>res \<in> set (db_results (w_db w)). rr_LaunchID res = l_ID l \<and>
    rr_Outcome res = OutcomePass \<and> rr_InputSetHash res = h)"
proof -
  from assms(1,2) have key: "l_RehearsalServicePubKey l \<noteq> []" by (auto simp: gateRehearsal_def split: if_splits)
  obtain latest w1 current w2 where lr: "latestRehearsal E cfg (l_ID l) w = (Inr latest, w1)"
    and cur: "Current E l w1 = (Inr current, w2)" and ev: "EvaluateRehearsalReady latest current = None"
    using assms(1,2) key
    by (auto simp: gateRehearsal_def bnd_Inr split: option.splits)
  obtain rs where rs: "results_FindByLaunch E (l_ID l) w = (Inr rs, w1)" and latest: "latest = (case rs of [] \<Rightarrow> None | r # _ \<Rightarrow> Some r)"
    using lr ev by (auto simp: latestRehearsal_def bnd_Inr EvaluateRehearsalReady_None split: if_splits)
  note R = results_FindByLaunch_Inr [OF rs]
  have "current = h" using Current_Inr [OF cur] R assms(3) same_but_faults_simps(1) [of w w1] by simp
  moreover obtain r where "latest = Some r" "rr_Outcome r = OutcomePass" "rr_InputSetHash r = current"
    using ev by (auto simp: EvaluateRehearsalReady_None)
  moreover have "r \<in> set rs" using latest \<open>latest = Some r\<close> by (cases rs) auto
  ultimately show ?thesis using key R by auto
qed

text \<open>
  C7. A genesis is published only if it is the one the committee can see: the hash in the proposal is
  that of the uploaded final genesis, its recorded input-set hash is the hash of the launch's record,
  approved gentxs and approved allocation files at this very moment, and when the rehearsal gate is
  required a passing rehearsal of that same input set is on record.
\<close>

theorem publish_genesis_fresh:
  assumes "applyPublishGenesis E cfg now l p w = (Inr q, w')"
  shows "decode_publish_genesis (p_Payload p) = Inr (l_FinalGenesisSHA256 l) \<and> l_Status l = StatusWindowClosed \<and>
    l_FinalGenesisInputSetHash l \<noteq> [] \<and> input_set_hash E (w_db w) l = Inr (l_FinalGenesisInputSetHash l) \<and>
    (pc_rehearsalGate cfg = RehearsalGateRequired \<longrightarrow> l_RehearsalServicePubKey l \<noteq> [] \<and>
      (\<exists>res \<in> set (db_results (w_db w)). rr_LaunchID res = l_ID l \<and> rr_Outcome res = OutcomePass \<and>
         rr_InputSetHash res = l_FinalGenesisInputSetHash l))"
proof -
  from assms obtain h w1 w2 l' where h: "decode_publish_genesis (p_Payload p) = Inr h" "h = l_FinalGenesisSHA256 l"
    and fresh: "checkGenesisFresh E l w = (Inr (), w1)"
    and gate: "(if pc_rehearsalGate cfg = RehearsalGateRequired then gateRehearsal E cfg now l else ret ()) w1 = (Inr (), w2)"
    and pub: "PublishGenesis now l h = Inr l'"
    by (auto simp: applyPublishGenesis_def bnd_Inr)
  note F = checkGenesisFresh_Inr [OF fresh]
  have db: "w_db w1 = w_db w" using F same_but_faults_simps(1) by blast
  have "l_Status l = StatusWindowClosed" using pub by (auto simp: PublishGenesis_def split: if_splits)
  moreover have "pc_rehearsalGate cfg = RehearsalGateRequired \<Longrightarrow> l_RehearsalServicePubKey l \<noteq> [] \<and>
      (\<exists>res \<in> set (db_results (w_db w)). rr_LaunchID res = l_ID l \<and> rr_Outcome res = OutcomePass \<and>
         rr_InputSetHash res = l_FinalGenesisInputSetHash l)"
    using gateRehearsal_required [of E cfg now l w1 "()" w2 "l_FinalGenesisInputSetHash l"] gate F db by simp
  ultimately show ?thesis using h F by blast
qed

definition quoted :: "string \<Rightarrow> string" where
  "quoted s = CHR 0x22 # s @ [CHR 0x22]"

definition digest :: string where
  "digest = replicate 64 CHR ''a''"

definition closed_launch :: Launch where
  "closed_launch = example_launch\<lparr>l_Status := StatusWindowClosed, l_Committee := service_committee,
     l_InitialGenesisSHA256 := digest, l_FinalGenesisSHA256 := digest, l_FinalGenesisInputSetHash := digest\<rparr>"

definition closed_world :: world where
  "closed_world = fresh_world\<lparr>w_db := empty_db\<lparr>db_launches := [launch_columns closed_launch],
     db_committees := [(7, service_committee)]\<rparr>\<rparr>"

definition publish_proposal :: Proposal where
  "publish_proposal = example_proposal\<lparr>p_ActionType := ActionPublishGenesis, p_Status := PStatusExecuted,
     p_Payload := ''{'' @ quoted ''genesis_hash'' @ '':'' @ quoted digest @ ''}''\<rparr>"

lemma publish_proposal_applies:
  "\<exists>q w'. applyPublishGenesis service_env service_cfg_proposal 1000 closed_launch publish_proposal closed_world = (Inr q, w')"
proof -
  have "\<not> isl (fst (applyPublishGenesis service_env service_cfg_proposal 1000 closed_launch publish_proposal closed_world))"
    by code_simp
  then show ?thesis by (metis prod.collapse sum.collapse(2))
qed

theorem publish_genesis_fresh_witness:
  "input_set_hash service_env (w_db closed_world) closed_launch = Inr digest"
proof -
  obtain q w' where run: "applyPublishGenesis service_env service_cfg_proposal 1000 closed_launch publish_proposal closed_world = (Inr q, w')"
    using publish_proposal_applies by blast
  from publish_genesis_fresh [OF run] show ?thesis by (simp add: closed_launch_def)
qed

end
