(* ===== verification/GovernanceProperties2.thy ===== *)
theory GovernanceProperties2
  imports GovernanceProperties
begin

text \<open>
  More properties of the proposal service: what a resize does to the other proposals, which
  proposals can be pending together, and the default threshold of a resize.
\<close>

section \<open>Resizing expires what is pending\<close>

lemma keeps_execs_stable:
  assumes "stable I" "\<And>w x d. I w \<Longrightarrow> f (w_db w) = Inr (x, d) \<Longrightarrow> I (w\<lparr>w_db := d\<rparr>)"
  shows "keeps I (execs f)"
  unfolding keeps_def
proof (intro allI impI)
  fix w r w'
  assume I: "I w" and run: "execs f w = (r, w')"
  from execs_cases [OF run] show "I w'"
  proof (elim disjE exE conjE)
    fix fs assume "w' = w\<lparr>w_faults := fs\<rparr>"
    then show ?thesis using assms(1) I by (simp add: stable_def)
  next
    fix x d fs assume "f (w_db w) = Inr (x, d)" "w' = w\<lparr>w_faults := fs, w_db := d\<rparr>"
    then show ?thesis using assms(1,2) I unfolding stable_def by (metis world.surjective world.update_convs(1,5))
  qed
qed

lemma keeps_stmt_stable:
  "stable I \<Longrightarrow> (\<And>w. I w \<Longrightarrow> I (w\<lparr>w_db := f (w_db w)\<rparr>)) \<Longrightarrow> keeps I (stmt f)"
  unfolding stmt_def by (rule keeps_execs_stable) auto

definition none_pending :: "uuid \<Rightarrow> world \<Rightarrow> bool" where
  "none_pending lid w \<longleftrightarrow> (\<forall>x \<in> set (db_proposals (w_db w)). p_LaunchID x = lid \<longrightarrow> p_Status x \<noteq> PStatusPendingSignatures)"

lemma stable_none_pending: "stable (none_pending lid)"
  by (simp add: stable_def none_pending_def)

lemma none_pending_same:
  "none_pending lid w \<Longrightarrow> db_proposals d = db_proposals (w_db w) \<Longrightarrow> none_pending lid (w\<lparr>w_db := d\<rparr>)"
  by (simp add: none_pending_def)

lemma keeps_none_pending_launch: "keeps (none_pending lid) (launches_Save E l)"
  unfolding launches_Save_def saveCommittee_def saveAllowlist_def saveAllocationFiles_def Let_def
  by (intro keeps_intros keeps_execs_stable keeps_stmt_stable stable_none_pending)
    (auto intro: none_pending_same simp: same_proposals)

lemma keeps_none_pending_proposal:
  assumes "p_Status p \<noteq> PStatusPendingSignatures"
  shows "keeps (none_pending lid) (proposals_Save p)"
proof -
  have "none_pending lid (w\<lparr>w_db := (w_db w)\<lparr>db_proposals :=
      upsert p_ID p_merge (p\<lparr>p_Signatures := [], p_events := []\<rparr>) (db_proposals (w_db w))\<rparr>\<rparr>)" if "none_pending lid w" for w
  proof -
    have "x \<in> set ps \<or> p_Status x = p_Status p" if "x \<in> set (upsert p_ID p_merge (p\<lparr>p_Signatures := [], p_events := []\<rparr>) ps)" for x ps
      using that by (induction ps) (auto simp: p_merge_def split: if_splits)
    then show ?thesis using that assms by (fastforce simp: none_pending_def)
  qed
  moreover have "none_pending lid (w\<lparr>w_db := add_signature pid s (w_db w)\<rparr>)" if "none_pending lid w" for w pid s
    using that by (auto simp: none_pending_def add_signature_def)
  ultimately show ?thesis
    unfolding proposals_Save_def by (intro keeps_intros keeps_stmt_stable stable_none_pending)
qed

lemma ExpireAllPending_establishes: "ExpireAllPending lid w = (Inr u, w') \<Longrightarrow> none_pending lid w'"
proof -
  assume "ExpireAllPending lid w = (Inr u, w')"
  then obtain fs where "w' = w\<lparr>w_faults := fs, w_db := (w_db w)\<lparr>db_proposals := map (expire_pending lid) (db_proposals (w_db w))\<rparr>\<rparr>"
    unfolding ExpireAllPending_def by (blast dest: stmt_Inr)
  then have "db_proposals (w_db w') = map (expire_pending lid) (db_proposals (w_db w))" by simp
  then show ?thesis by (simp add: none_pending_def) (simp add: expire_pending_def)
qed

lemma saved_none_pending:
  assumes "saveLaunchAndProposal E l p w = (r, w')" "none_pending lid w" "p_Status p \<noteq> PStatusPendingSignatures"
  shows "none_pending lid w'"
proof -
  have "keeps (none_pending lid) (saveLaunchAndProposal E l p)"
    unfolding saveLaunchAndProposal_def
    by (intro keeps_intros keeps_none_pending_launch keeps_none_pending_proposal assms(3))
  then show ?thesis using assms by (auto dest: keepsD)
qed

text \<open>
  C13. When an expand or shrink of the committee takes effect, no other proposal of the launch is
  left pending: signatures collected under the old committee cannot complete a quorum of the new one.
\<close>

theorem resize_expires_pending:
  assumes "p_Status p = PStatusExecuted"
    and "applyExpandCommittee E now l p w = (Inr q, w') \<or> applyShrinkCommittee E now l p w = (Inr q, w')"
  shows "\<forall>x. x \<in> set (db_proposals (w_db w')) \<and> p_LaunchID x = l_ID l \<longrightarrow> p_Status x \<noteq> PStatusPendingSignatures"
proof -
  obtain w1 w2 l' ev where e: "ExpireAllPending (l_ID l) w1 = (Inr (), w2)"
    and s: "saveLaunchAndProposal E l' (RecordEvent p ev) w2 = (Inr q, w')"
    using assms(2) by (auto simp: applyExpandCommittee_def applyShrinkCommittee_def bnd_Inr Let_def)
  have "none_pending (l_ID l) w'"
    using saved_none_pending [OF s ExpireAllPending_establishes [OF e]] assms(1) by (simp add: RecordEvent_def)
  then show ?thesis by (simp add: none_pending_def)
qed

definition expand_proposal :: Proposal where
  "expand_proposal = example_proposal\<lparr>p_ID := 60, p_ActionType := ActionExpandCommittee, p_Status := PStatusExecuted,
     p_Payload := ''{'' @ quoted ''new_member'' @ '':{'' @ quoted ''address'' @ '':'' @ quoted ''c1W'' @ ''}}''\<rparr>"

definition contested_world :: world where
  "contested_world = closed_world\<lparr>w_db := (w_db closed_world)\<lparr>db_proposals := [example_proposal]\<rparr>\<rparr>"

lemma expand_proposal_applies:
  "\<exists>q w'. applyExpandCommittee service_env 1000 closed_launch expand_proposal contested_world = (Inr q, w')"
proof -
  have "\<not> isl (fst (applyExpandCommittee service_env 1000 closed_launch expand_proposal contested_world))" by code_simp
  then show ?thesis by (metis prod.collapse sum.collapse(2))
qed

theorem resize_expires_pending_witness:
  "\<exists>q w'. applyExpandCommittee service_env 1000 closed_launch expand_proposal contested_world = (Inr q, w') \<and>
     (\<forall>x. x \<in> set (db_proposals (w_db w')) \<and> p_LaunchID x = 7 \<longrightarrow> p_Status x \<noteq> PStatusPendingSignatures)"
proof -
  obtain q w' where run: "applyExpandCommittee service_env 1000 closed_launch expand_proposal contested_world = (Inr q, w')"
    using expand_proposal_applies by blast
  have "p_Status expand_proposal = PStatusExecuted" by (simp add: expand_proposal_def)
  from resize_expires_pending [OF this disjI1 [OF run]] run show ?thesis
    by (auto simp: closed_launch_def example_launch_def)
qed

section \<open>Default threshold\<close>

text \<open>
  C14. A resize without an explicit threshold never fails on the threshold: for a well-formed
  committee, expanding by an account that is not seated succeeds, and shrinking a committee of three or
  more by a seated account succeeds, and the resolved threshold stays at most the current one.
\<close>

theorem default_threshold_viable:
  assumes "committee_ok (l_Committee l)"
  shows "(\<not> HasMember (l_Committee l) (cm_Address m) \<longrightarrow>
      (\<exists>l'. ExpandCommittee now l m (ResolveThreshold (c_ThresholdM (l_Committee l)) (c_TotalN (l_Committee l) + 1) None) = Inr l' \<and>
        c_ThresholdM (l_Committee l') = c_ThresholdM (l_Committee l))) \<and>
    (HasMember (l_Committee l) a \<and> 3 \<le> c_TotalN (l_Committee l) \<longrightarrow>
      (\<exists>l'. ShrinkCommittee now l a (ResolveThreshold (c_ThresholdM (l_Committee l)) (c_TotalN (l_Committee l) - 1) None) = Inr l' \<and>
        c_ThresholdM (l_Committee l') \<le> c_ThresholdM (l_Committee l)))"
proof (intro conjI impI)
  assume "\<not> HasMember (l_Committee l) (cm_Address m)"
  then show "\<exists>l'. ExpandCommittee now l m (ResolveThreshold (c_ThresholdM (l_Committee l)) (c_TotalN (l_Committee l) + 1) None) = Inr l' \<and>
        c_ThresholdM (l_Committee l') = c_ThresholdM (l_Committee l)"
    using assms by (auto simp: ExpandCommittee_def Let_def ResolveThreshold_def HasMember_def committee_ok_def with_committee_def)
next
  assume a: "HasMember (l_Committee l) a \<and> 3 \<le> c_TotalN (l_Committee l)"
  then obtain i where "find_index (\<lambda>m. AccountID_Equal (cm_Address m) a) (c_Members (l_Committee l)) = Some i"
    by (cases "find_index (\<lambda>m. AccountID_Equal (cm_Address m) a) (c_Members (l_Committee l))")
      (auto simp: HasMember_def list_ex_iff find_index_None)
  then show "\<exists>l'. ShrinkCommittee now l a (ResolveThreshold (c_ThresholdM (l_Committee l)) (c_TotalN (l_Committee l) - 1) None) = Inr l' \<and>
        c_ThresholdM (l_Committee l') \<le> c_ThresholdM (l_Committee l)"
    using assms a by (auto simp: ShrinkCommittee_def Let_def ResolveThreshold_def committee_ok_def with_committee_def)
qed

theorem default_threshold_viable_witness:
  "\<exists>l'. ShrinkCommittee 9 example_launch (example_account ''bb'') (ResolveThreshold 2 2 None) = Inr l' \<and>
     c_ThresholdM (l_Committee l') \<le> 2"
proof -
  have "committee_ok (l_Committee example_launch)" by (simp add: example_defs committee_ok_def account_defs)
  from default_threshold_viable [OF this, of _ 9 "example_account ''bb''"] show ?thesis
    by (simp add: example_defs HasMember_def account_defs)
qed

end
