(* ===== verification/AuditChain.thy ===== *)
theory AuditChain
  imports AuditLog
begin

text \<open>
  What the audit log guarantees: a line decodes to the entry it was printed from, a log written by
  \<open>Append\<close> passes the scanner, and a log that passes the scanner with the stored tip still holds every
  line that was written.  The contract of an append-only log is a locale, interpreted on the JSONL
  writer.
\<close>

section \<open>Append-only logs\<close>

fun append_all :: "('e \<Rightarrow> 's \<Rightarrow> 's option) \<Rightarrow> 'e list \<Rightarrow> 's \<Rightarrow> 's option" where
  "append_all f [] s = Some s"
| "append_all f (e # es) s = Option.bind (f e s) (append_all f es)"

locale append_log =
  fixes append :: "'e \<Rightarrow> 's \<Rightarrow> 's option"
    and stored :: "'e \<Rightarrow> 's \<Rightarrow> 'e"
    and entries :: "'s \<Rightarrow> 'e list"
    and inv :: "'s \<Rightarrow> bool"
  assumes append_entries: "inv s \<Longrightarrow> append e s = Some s' \<Longrightarrow> entries s' = entries s @ [stored e s]"
    and append_inv: "inv s \<Longrightarrow> append e s = Some s' \<Longrightarrow> inv s'"
begin

lemma append_all_inv: "append_all append es s = Some s' \<Longrightarrow> inv s \<Longrightarrow> inv s'"
  by (induction es arbitrary: s) (auto simp: bind_eq_Some_conv intro: append_inv)

lemma append_all_entries:
  assumes "append_all append es s = Some s'" "inv s"
  shows "\<exists>xs. entries s' = entries s @ xs \<and> list_all2 (\<lambda>e x. \<exists>t. inv t \<and> x = stored e t) es xs"
  using assms
proof (induction es arbitrary: s)
  case (Cons e es)
  then obtain s1 where s1: "append e s = Some s1" "append_all append es s1 = Some s'" by (auto simp: bind_eq_Some_conv)
  from Cons.IH [OF s1(2) append_inv [OF Cons.prems(2) s1(1)]] obtain xs
    where "entries s' = entries s1 @ xs" "list_all2 (\<lambda>e x. \<exists>t. inv t \<and> x = stored e t) es xs" by blast
  then show ?case
    using append_entries [OF Cons.prems(2) s1(1)] Cons.prems(2) by (intro exI [of _ "stored e s # xs"]) auto
qed simp

end

section \<open>Lines and entries\<close>

definition line_of :: "env \<Rightarrow> AuditEvent \<Rightarrow> string" where
  "line_of E ev = json_print (audit_json E ev)"

definition render :: "env \<Rightarrow> AuditEvent list \<Rightarrow> bytes" where
  "render E es = concat (map (\<lambda>ev. line_of E ev @ [CHR 0x0A]) es)"

text \<open>
  What the log relies on: times survive printing and parsing, digests and signatures are not empty,
  signatures are bytes and verify under the public key.
\<close>

definition audit_laws :: "env \<Rightarrow> ed25519 \<Rightarrow> bool" where
  "audit_laws E C \<longleftrightarrow>
     (\<forall>t. time_ParseRFC3339 E (time_FormatRFC3339Nano E t) = Some t) \<and> (\<forall>s. sha256hex E s \<noteq> []) \<and>
     (\<forall>k m. ed_Verify C (ed_Public C k) m (ed_Sign C k m)) \<and>
     (\<forall>k m. ed_Sign C k m \<noteq> [] \<and> (\<forall>b \<in> set (ed_Sign C k m). b < 256))"

lemma split_lines_Cons:
  "CHR 0x0A \<notin> set l \<Longrightarrow> split_lines (l @ CHR 0x0A # s) = l # split_lines s"
  by (induction l) auto

lemma json_ok_audit: "(\<forall>v. ae_Payload ev = Some v \<longrightarrow> json_ok v) \<Longrightarrow> json_ok (audit_json E ev)"
  by (auto simp: audit_json_def split: option.splits)

lemma line_of_no_breaks:
  assumes "\<forall>v. ae_Payload ev = Some v \<longrightarrow> json_ok v"
  shows "CHR 0x0A \<notin> set (line_of E ev)" "CHR 0x0D \<notin> set (line_of E ev)"
  using json_print_visible(1) [OF json_ok_audit [OF assms, of E], where d = "CHR 0x0A"]
    json_print_visible(1) [OF json_ok_audit [OF assms, of E], where d = "CHR 0x0D"]
  by (auto simp: line_of_def)

lemma line_of_nonempty [simp]: "line_of E ev \<noteq> []"
  by (simp add: line_of_def audit_json_def)

lemma decode_line_of:
  assumes "ae_Payload ev = Some v" "json_ok v" "\<forall>t. time_ParseRFC3339 E (time_FormatRFC3339Nano E t) = Some t"
  shows "decode_audit E (line_of E ev) = Inr ev"
proof -
  have "json_parse (line_of E ev) = Some (audit_json E ev)"
    unfolding line_of_def by (rule json_parse_print) (rule json_ok_audit, simp add: assms)
  then show ?thesis
    using assms by (simp add: decode_audit_def Unmarshal_object_def audit_json_def json_object_def
        field_values_def ToLower_def string_field_def time_field_def dec_string_def dec_text_def j_time_def and_then_def)
qed

section \<open>Logs written by the writer\<close>

fun chained :: "env \<Rightarrow> string \<Rightarrow> AuditEvent list \<Rightarrow> bool" where
  "chained E prev [] = True"
| "chained E prev (e # es) = (ae_PrevHash e = prev \<and> chained E (sha256hex E (line_of E e)) es)"

definition tip_of :: "env \<Rightarrow> AuditEvent list \<Rightarrow> string" where
  "tip_of E es = (if es = [] then [] else sha256hex E (line_of E (last es)))"

definition signed_ok :: "env \<Rightarrow> ed25519 \<Rightarrow> nat list option \<Rightarrow> AuditEvent \<Rightarrow> bool" where
  "signed_ok E C key ev = (case key of
     None \<Rightarrow> ae_Signature ev = []
   | Some k \<Rightarrow> (case canonicaljson_MarshalForSigning E (audit_json E (ev\<lparr>ae_Signature := []\<rparr>)) of
       None \<Rightarrow> False
     | Some msg \<Rightarrow> ae_Signature ev = base64_EncodeToString (ed_Sign C k msg)))"

definition content_ok :: "AuditEvent \<Rightarrow> bool" where
  "content_ok ev \<longleftrightarrow> missingAuditFields ev = [] \<and> (case ae_Payload ev of None \<Rightarrow> True | Some v \<Rightarrow> json_ok v)"

lemma content_ok_iff: "content_ok ev \<longleftrightarrow> missingAuditFields ev = [] \<and> (\<forall>v. ae_Payload ev = Some v \<longrightarrow> json_ok v)"
  by (auto simp: content_ok_def split: option.splits)

definition log_of :: "env \<Rightarrow> ed25519 \<Rightarrow> AuditEvent list \<Rightarrow> JSONLWriter \<Rightarrow> bool" where
  "log_of E C es w \<longleftrightarrow> jw_file w = render E es \<and> list_all content_ok es \<and>
     list_all (signed_ok E C (jw_privKey w)) es \<and> chained E [] es \<and> jw_prevHash w = tip_of E es"

lemma chained_snoc:
  "chained E p es \<Longrightarrow> ae_PrevHash e = (if es = [] then p else sha256hex E (line_of E (last es))) \<Longrightarrow> chained E p (es @ [e])"
  by (induction es arbitrary: p) auto

lemma content_ok_update [simp]:
  "content_ok (ev\<lparr>ae_PrevHash := h\<rparr>) = content_ok ev" "content_ok (ev\<lparr>ae_Signature := s\<rparr>) = content_ok ev"
  by (simp_all add: content_ok_iff missingAuditFields_def)

lemma sign_entry_ok:
  assumes "sign_entry E C key ev = Inr ev'" "ae_Signature ev = []"
  shows "signed_ok E C key ev' \<and> ae_PrevHash ev' = ae_PrevHash ev \<and> content_ok ev' = content_ok ev \<and>
    ev'\<lparr>ae_Signature := []\<rparr> = ev"
proof -
  have "audit_json E (ev\<lparr>ae_Signature := []\<rparr>) = audit_json E ev" using assms(2) by (simp add: audit_json_def)
  with assms show ?thesis
    by (auto simp: sign_entry_def signed_ok_def split: option.splits)
qed

lemma Append_log:
  assumes "log_of E C es w" "Append E C None fault ev w = (r, w')" "content_ok ev" "ae_Signature ev = []"
    "sign_entry E C (jw_privKey w) (ev\<lparr>ae_PrevHash := jw_prevHash w\<rparr>) = Inr ev'"
  shows "log_of E C (es @ [ev']) w'"
proof -
  have s: "signed_ok E C (jw_privKey w) ev'" "ae_PrevHash ev' = tip_of E es" "content_ok ev'"
    using sign_entry_ok [OF assms(5)] assms by (simp_all add: log_of_def)
  have "jw_file w' = render E (es @ [ev']) \<and> jw_privKey w' = jw_privKey w \<and> jw_prevHash w' = tip_of E (es @ [ev'])"
    using assms by (auto simp: Append_def SavePrevHash_def log_of_def render_def line_of_def tip_of_def Let_def split: if_splits)
  with assms(1) s chained_snoc [of E "[]" es ev'] show ?thesis by (simp add: log_of_def tip_of_def)
qed

section \<open>The scanner accepts them\<close>

lemma split_lines_render:
  "list_all content_ok es \<Longrightarrow> split_lines (render E es) = map (line_of E) es"
proof (induction es)
  case (Cons e es)
  then have "CHR 0x0A \<notin> set (line_of E e)" by (intro line_of_no_breaks) (simp add: content_ok_iff)
  with Cons show ?case by (simp add: render_def split_lines_Cons)
qed (simp add: render_def)

lemma scan_lines_render:
  assumes "list_all content_ok es" "list_all (\<lambda>e. length (line_of E e) < m) es"
  shows "scan_lines m (render E es) = (map (line_of E) es, False)"
proof -
  note split = split_lines_render [OF assms(1), of E]
  have "drop_cr (line_of E e) = line_of E e" if "e \<in> set es" for e
  proof -
    have "CHR 0x0D \<notin> set (line_of E e)" using that assms(1) by (intro line_of_no_breaks) (auto simp: content_ok_iff list_all_iff)
    then show ?thesis by (metis drop_cr_def last_in_set)
  qed
  then have cr: "map drop_cr (map (line_of E) es) = map (line_of E) es" by simp
  have "takeWhile (\<lambda>l. length l < m) (map (line_of E) es) = map (line_of E) es"
    using assms(2) by (simp only: takeWhile_eq_all_conv list_all_iff) auto
  then show ?thesis by (simp only: scan_lines_def split Let_def cr less_irrefl)
qed

lemma content_ok_payload: "content_ok e \<Longrightarrow> \<exists>v. ae_Payload e = Some v \<and> json_ok v"
  by (auto simp: content_ok_iff missingAuditFields_def split: if_splits)

lemma checkSignature_ok:
  assumes "audit_laws E C" "signed_ok E C key e"
  shows "checkSignature E C e (map_option (ed_Public C) key) = None"
  using assms by (auto simp: signed_ok_def checkSignature_def audit_laws_def base64_decode_encode split: option.splits)

definition tampered :: "scan_state \<Rightarrow> Anomaly list" where
  "tampered st = filter (\<lambda>a. an_Kind a = AnomalyTamper) (sr_Anomalies (ss_res st))"

lemma scan_line_ok:
  assumes "audit_laws E C" "content_ok e" "signed_ok E C key e"
    "ae_PrevHash e = (if ss_prevLine st = [] then [] else sha256hex E (ss_prevLine st))"
  shows "let st' = scan_line E C (map_option (ed_Public C) key) (line_of E e) st in
    ss_prevLine st' = line_of E e \<and> tampered st' = tampered st \<and> sr_Count (ss_res st') = Suc (sr_Count (ss_res st))"
proof -
  obtain v where "ae_Payload e = Some v" "json_ok v" using content_ok_payload [OF assms(2)] by blast
  then have d: "decode_audit E (line_of E e) = Inr e"
    using assms(1) by (intro decode_line_of) (simp_all add: audit_laws_def)
  have m: "missingAuditFields e = []" using assms(2) by (simp add: content_ok_iff)
  have l: "\<exists>b. checkPrevHashLink E e (ss_prevLine st) = (None, b)"
    using assms(1,4) by (auto simp: checkPrevHashLink_def audit_laws_def Let_def)
  show ?thesis
    using d m l checkSignature_ok [OF assms(1,3)]
    by (auto simp: scan_line_def scan_entry_def Let_def tampered_def report_def split: option.splits)
qed

lemma scan_fold_ok:
  assumes "audit_laws E C" "list_all content_ok es" "list_all (signed_ok E C key) es"
    "chained E (if ss_prevLine st = [] then [] else sha256hex E (ss_prevLine st)) es"
  shows "let st' = fold (scan_line E C (map_option (ed_Public C) key)) (map (line_of E) es) st in
    tampered st' = tampered st \<and> sr_Count (ss_res st') = sr_Count (ss_res st) + length es"
  using assms(2-)
proof (induction es arbitrary: st)
  case (Cons e es)
  let ?st = "scan_line E C (map_option (ed_Public C) key) (line_of E e) st"
  have "ss_prevLine ?st = line_of E e \<and> tampered ?st = tampered st \<and> sr_Count (ss_res ?st) = Suc (sr_Count (ss_res st))"
    using scan_line_ok [OF assms(1), of e key st] Cons.prems by (simp add: Let_def)
  with Cons.IH [of ?st] Cons.prems show ?case by (simp add: Let_def)
qed simp

lemma Scan_log:
  assumes "audit_laws E C" "log_of E C es w" "list_all (\<lambda>e. length (line_of E e) < maxAuditLineBytes) es"
  shows "\<exists>res. Scan E C (PubKey C w) (jw_file w) = (res, False) \<and> \<not> HasTamper res \<and> sr_Count res = length es"
proof -
  have lines: "scan_lines maxAuditLineBytes (jw_file w) = (map (line_of E) es, False)"
    using scan_lines_render assms(2,3) by (simp add: log_of_def)
  have "tampered (fold (scan_line E C (PubKey C w)) (map (line_of E) es) scan_init) = [] \<and>
    sr_Count (ss_res (fold (scan_line E C (PubKey C w)) (map (line_of E) es) scan_init)) = length es"
    using scan_fold_ok [OF assms(1), of es "jw_privKey w" scan_init] assms(2)
    by (simp add: log_of_def PubKey_def Let_def scan_init_def tampered_def)
  then show ?thesis
    by (auto simp: Scan_def lines HasTamper_def tampered_def list_ex_iff filter_empty_conv)
qed

section \<open>The writer as an append-only log\<close>

definition decoded :: "env \<Rightarrow> string list \<Rightarrow> AuditEvent list" where
  "decoded E ls = List.map_filter (\<lambda>l. case decode_audit E l of Inl _ \<Rightarrow> None | Inr ev \<Rightarrow> Some ev) ls"

definition file_entries :: "env \<Rightarrow> JSONLWriter \<Rightarrow> AuditEvent list" where
  "file_entries E w = decoded E (split_lines (jw_file w))"

definition log_append :: "env \<Rightarrow> ed25519 \<Rightarrow> AuditEvent \<Rightarrow> JSONLWriter \<Rightarrow> JSONLWriter option" where
  \<comment> \<open>an append without fault of an entry as \<open>writeAuditEvent\<close> builds them\<close>
  "log_append E C ev w = (if content_ok ev \<and> ae_Signature ev = [] \<and> ae_PrevHash ev = []
     then case Append E C None False ev w of (Inl _, _) \<Rightarrow> None | (Inr _, w') \<Rightarrow> Some w' else None)"

definition log_stored :: "env \<Rightarrow> ed25519 \<Rightarrow> AuditEvent \<Rightarrow> JSONLWriter \<Rightarrow> AuditEvent" where
  "log_stored E C ev w = (case sign_entry E C (jw_privKey w) (ev\<lparr>ae_PrevHash := jw_prevHash w\<rparr>) of
     Inl _ \<Rightarrow> ev | Inr ev' \<Rightarrow> ev')"

definition log_ok :: "env \<Rightarrow> ed25519 \<Rightarrow> JSONLWriter \<Rightarrow> bool" where
  "log_ok E C w \<longleftrightarrow> audit_laws E C \<and> (\<exists>es. log_of E C es w) \<and> (jw_attached w \<longrightarrow> jw_tip w = jw_prevHash w)"

lemma decoded_lines:
  assumes "audit_laws E C" "list_all content_ok es"
  shows "decoded E (map (line_of E) es) = es"
  using assms(2)
proof (induction es)
  case (Cons e es)
  then obtain v where "ae_Payload e = Some v" "json_ok v" using content_ok_payload by force
  then have "decode_audit E (line_of E e) = Inr e"
    using assms(1) by (intro decode_line_of) (simp_all add: audit_laws_def)
  with Cons show ?case by (simp add: decoded_def List.map_filter_simps)
qed (simp add: decoded_def List.map_filter_simps)

lemma file_entries_log: "audit_laws E C \<Longrightarrow> log_of E C es w \<Longrightarrow> file_entries E w = es"
  by (simp add: file_entries_def log_of_def split_lines_render decoded_lines)

lemma log_append_step:
  assumes "log_append E C ev w = Some w'" "log_of E C es w"
  shows "log_of E C (es @ [log_stored E C ev w]) w' \<and> (jw_attached w' \<longrightarrow> jw_tip w' = jw_prevHash w') \<and>
    jw_attached w' = jw_attached w \<and> jw_privKey w' = jw_privKey w"
proof -
  obtain ev' where ev': "sign_entry E C (jw_privKey w) (ev\<lparr>ae_PrevHash := jw_prevHash w\<rparr>) = Inr ev'"
    using assms(1) by (auto simp: log_append_def Append_def split: if_splits sum.splits)
  obtain u where run: "Append E C None False ev w = (Inr u, w')"
    using assms(1) by (auto simp: log_append_def split: if_splits prod.splits sum.splits)
  have "log_of E C (es @ [ev']) w'"
    using Append_log [OF assms(2) run _ _ ev'] assms(1) by (auto simp: log_append_def split: if_splits)
  moreover have "(jw_attached w' \<longrightarrow> jw_tip w' = jw_prevHash w') \<and> jw_attached w' = jw_attached w \<and> jw_privKey w' = jw_privKey w"
    using run ev' by (auto simp: Append_def SavePrevHash_def Let_def split: if_splits)
  ultimately show ?thesis by (simp add: log_stored_def ev')
qed

interpretation jsonl: append_log "log_append E C" "log_stored E C" "file_entries E" "log_ok E C" for E C
proof
  fix s e s'
  assume "log_ok E C s" and step: "log_append E C e s = Some s'"
  then obtain es where es: "audit_laws E C" "log_of E C es s" by (auto simp: log_ok_def)
  note step1 = log_append_step [OF step es(2)]
  then show "file_entries E s' = file_entries E s @ [log_stored E C e s]"
    using file_entries_log es by blast
  show "log_ok E C s'" using step1 es(1) by (auto simp: log_ok_def)
qed

lemma log_stored_plain:
  assumes "ae_Signature ev = []" "ae_PrevHash ev = []"
  shows "(log_stored E C ev w)\<lparr>ae_Signature := [], ae_PrevHash := []\<rparr> = ev"
  using assms by (auto simp: log_stored_def sign_entry_def split: option.splits sum.splits)

section \<open>The last line\<close>

lemma split_lines_append:
  "s = [] \<or> last s = CHR 0x0A \<Longrightarrow> split_lines (s @ t) = split_lines s @ split_lines t"
proof (induction s)
  case (Cons c s)
  show ?case
  proof (cases "s = []")
    case False
    with Cons have "split_lines (s @ t) = split_lines s @ split_lines t" by simp
    moreover have "split_lines s \<noteq> []" using False by (cases s) (auto split: list.splits)
    ultimately show ?thesis by (auto split: list.splits)
  qed (use Cons in auto)
qed simp

lemma split_lines_drop: "l \<in> set (split_lines (drop k s)) \<Longrightarrow> \<exists>l' \<in> set (split_lines s). length l \<le> length l'"
proof (induction s arbitrary: k)
  case (Cons c s)
  show ?case
  proof (cases k)
    case (Suc j)
    with Cons obtain l' where l': "l' \<in> set (split_lines s)" "length l \<le> length l'" by auto
    then show ?thesis by (cases "split_lines s") (auto intro: le_SucI)
  qed (use Cons in auto)
qed simp

lemma split_lines_chars: "l \<in> set (split_lines s) \<Longrightarrow> set l \<subseteq> set s"
proof (induction s arbitrary: l)
  case (Cons c s)
  then show ?case by (cases "split_lines s") (fastforce split: if_splits)+
qed simp

lemma render_ends: "es \<noteq> [] \<Longrightarrow> last (render E es) = CHR 0x0A \<and> render E es \<noteq> []"
  by (induction es rule: rev_induct) (simp_all add: render_def)

lemma readLastLine_render:
  assumes "list_all content_ok es" "es \<noteq> []" "list_all (\<lambda>e. length (line_of E e) < MaxScanTokenSize) es"
  shows "readLastLine (render E es) = Inr (line_of E (last es))"
proof -
  define e front where "e = last es" and "front = butlast es"
  have es: "es = front @ [e]" using assms(2) by (simp add: e_def front_def)
  let ?k = "length (render E es) - 64 * 1024"
  let ?s = "drop ?k (render E front)"
  have r: "render E es = render E front @ line_of E e @ [CHR 0x0A]" by (simp add: es render_def)
  have "length (line_of E e) < 64 * 1024" using assms(3) by (simp add: es MaxScanTokenSize_def)
  then have tail: "drop ?k (render E es) = ?s @ line_of E e @ [CHR 0x0A]" by (simp add: r)
  have ends: "?s = [] \<or> last ?s = CHR 0x0A"
  proof (cases "?k < length (render E front)")
    case True
    then have "last ?s = last (render E front)" by (rule last_drop)
    with True render_ends [of front E] show ?thesis by (cases "front = []") (auto simp: render_def)
  qed simp
  have nb: "CHR 0x0A \<notin> set (line_of E x)" "CHR 0x0D \<notin> set (line_of E x)" if "x \<in> set es" for x
    using that assms(1) line_of_no_breaks [of x E] by (auto simp: content_ok_iff list_all_iff)
  have lines: "split_lines (drop ?k (render E es)) = split_lines ?s @ [line_of E e]"
    unfolding tail using split_lines_append [OF ends] split_lines_Cons [OF nb(1), of e "[]"] by (simp add: es)
  have short: "length l < MaxScanTokenSize" if "l \<in> set (split_lines (drop ?k (render E es)))" for l
    using split_lines_drop [OF that] split_lines_render [OF assms(1), of E] assms(3) by (auto simp: list_all_iff)
  have tw: "takeWhile (\<lambda>l. length l < MaxScanTokenSize) (split_lines (drop ?k (render E es))) = split_lines (drop ?k (render E es))"
    using short by (simp only: takeWhile_eq_all_conv) blast
  have "drop_cr (line_of E e) = line_of E e" using nb(2) [of e] es by (simp add: drop_cr_def) (metis last_in_set line_of_nonempty)
  then have "scan_lines MaxScanTokenSize (drop ?k (render E es)) = (map drop_cr (split_lines ?s) @ [line_of E e], False)"
    by (simp only: scan_lines_def Let_def tw less_irrefl) (simp only: lines map_append list.map)
  then show ?thesis using render_ends [OF assms(2), of E] by (simp add: readLastLine_def e_def Let_def)
qed

lemma WithPrevHashStore_log:
  assumes "log_of E C es w" "jw_attached w \<longrightarrow> jw_tip w = jw_prevHash w" "jw_attached w"
    "list_all (\<lambda>e. length (line_of E e) < MaxScanTokenSize) es"
  shows "WithPrevHashStore E (audit_Open (jw_file w) key (jw_tip w)) =
    Inr ((audit_Open (jw_file w) key (jw_tip w))\<lparr>jw_attached := True, jw_prevHash := tip_of E es\<rparr>)"
proof (cases "es = []")
  case True
  then show ?thesis using assms by (simp add: WithPrevHashStore_def LoadPrevHash_def audit_Open_def log_of_def tip_of_def and_then_def)
next
  case False
  have "readLastLine (jw_file w) = Inr (line_of E (last es))"
    using readLastLine_render [OF _ False assms(4)] assms(1) by (simp add: log_of_def)
  with False assms show ?thesis
    by (simp add: WithPrevHashStore_def LoadPrevHash_def audit_Open_def log_of_def tip_of_def verifyLastLineHash_def
        and_then_def require_def Let_def)
qed

section \<open>Tampering shows\<close>

text \<open>Consecutive lines of a log the scanner accepts are linked, unless a line carries no link.\<close>

fun linked :: "env \<Rightarrow> string \<Rightarrow> string list \<Rightarrow> bool" where
  "linked E p [] = True"
| "linked E p (l # ls) \<longleftrightarrow>
     (\<exists>e. decode_audit E l = Inr e \<and> (ae_PrevHash e = [] \<or> p \<noteq> [] \<and> ae_PrevHash e = sha256hex E p)) \<and> linked E l ls"

lemma report_tamper:
  "filter (\<lambda>a. an_Kind a = AnomalyTamper) (report n AnomalyTamper m) = report n AnomalyTamper m"
  "filter (\<lambda>a. an_Kind a = AnomalyTamper) (report n AnomalyClock m) = []" "report n k m = [] \<longleftrightarrow> m = None"
  by (auto simp: report_def split: option.splits)

lemma scan_line_tampered: "\<exists>xs. tampered (scan_line E C pk l st) = tampered st @ xs"
  by (auto simp: scan_line_def scan_entry_def tampered_def Let_def report_tamper split: sum.splits prod.splits)

lemma fold_tampered: "\<exists>xs. tampered (fold (scan_line E C pk) ls st) = tampered st @ xs"
proof (induction ls arbitrary: st)
  case (Cons l ls)
  from Cons [of "scan_line E C pk l st"] scan_line_tampered [of E C pk l st] show ?case by auto
qed simp

lemma scan_line_accepts:
  assumes "tampered (scan_line E C pk l st) = []" "l \<noteq> []"
  shows "\<exists>e. decode_audit E l = Inr e \<and> (ae_PrevHash e = [] \<or> ss_prevLine st \<noteq> [] \<and> ae_PrevHash e = sha256hex E (ss_prevLine st)) \<and>
    ss_prevLine (scan_line E C pk l st) = l"
  using assms
  by (auto simp: scan_line_def scan_entry_def tampered_def Let_def report_tamper checkPrevHashLink_def
      split: sum.splits prod.splits if_splits)

lemma accepted_linked:
  assumes "tampered (fold (scan_line E C pk) ls st) = []"
  shows "linked E (ss_prevLine st) (filter (\<lambda>l. l \<noteq> []) ls)"
  using assms
proof (induction ls arbitrary: st)
  case (Cons l ls)
  let ?st = "scan_line E C pk l st"
  have t: "tampered ?st = []" using fold_tampered [of E C pk ls ?st] Cons.prems by auto
  have rest: "linked E (ss_prevLine ?st) (filter (\<lambda>l. l \<noteq> []) ls)" using Cons.IH [of ?st] Cons.prems by simp
  show ?case
  proof (cases "l = []")
    case True
    then have "ss_prevLine ?st = ss_prevLine st" by (simp add: scan_line_def Let_def)
    with True rest show ?thesis by simp
  next
    case False
    from scan_line_accepts [OF t False] rest False show ?thesis by auto
  qed
qed simp

lemma linked_append: "linked E p (xs @ ys) \<Longrightarrow> linked E p xs \<and> linked E (if xs = [] then p else last xs) ys"
  by (induction xs arbitrary: p) auto

lemma chained_append: "chained E p (xs @ ys) \<Longrightarrow> chained E p xs \<and> chained E (if xs = [] then p else sha256hex E (line_of E (last xs))) ys"
  by (induction xs arbitrary: p) auto

text \<open>Walking back from the common last line, every line of the genuine log is met.\<close>

lemma linked_suffix:
  assumes laws: "audit_laws E C"
    and "inj_on (sha256hex E) (set ls \<union> line_of E ` set es)"
    and "linked E [] ls" "chained E [] es" "list_all content_ok es" "ls \<noteq> []" "es \<noteq> []" "last ls = line_of E (last es)"
  shows "\<exists>pre. ls = pre @ map (line_of E) es"
  using assms(2-)
proof (induction es arbitrary: ls rule: rev_induct)
  case (snoc e es)
  obtain ls' where ls: "ls = ls' @ [line_of E e]" using snoc.prems(5,7) by (metis append_butlast_last_id last_snoc)
  show ?case
  proof (cases "es = []")
    case False
    obtain v where "ae_Payload e = Some v" "json_ok v" using snoc.prems(4) content_ok_payload [of e] by auto
    then have d: "decode_audit E (line_of E e) = Inr e" using laws by (intro decode_line_of) (simp_all add: audit_laws_def)
    have ph: "ae_PrevHash e = sha256hex E (line_of E (last es))" "chained E [] es"
      using chained_append [OF snoc.prems(3)] False by auto
    have "ae_PrevHash e \<noteq> []" using ph laws by (simp add: audit_laws_def)
    then have "ls' \<noteq> [] \<and> sha256hex E (last ls') = sha256hex E (line_of E (last es))"
      using linked_append [OF snoc.prems(2) [unfolded ls]] d ph(1) by (cases "ls' = []") auto
    then have l: "ls' \<noteq> []" "last ls' = line_of E (last es)"
      using inj_onD [OF snoc.prems(1), of "last ls'" "line_of E (last es)"] False by (auto simp: ls)
    have inj: "inj_on (sha256hex E) (set ls' \<union> line_of E ` set es)"
      by (rule inj_on_subset [OF snoc.prems(1)]) (auto simp: ls)
    have "linked E [] ls'" using linked_append [OF snoc.prems(2) [unfolded ls]] by simp
    from snoc.IH [OF inj this ph(2) _ l(1) False l(2)] snoc.prems(4) show ?thesis by (auto simp: ls)
  qed (auto simp: ls)
qed simp

end
