(* ===== verification/AuditCli.thy ===== *)
theory AuditCli
  imports AuditChain Jobs
begin

text \<open>
  The verification command (cmd/coordd/cmd/audit.go) and the endpoint that hands out the audit public
  key (api/audit.go).  The HTTP client is a function from the URL to a status and a body, or \<open>None\<close>.
\<close>

section \<open>The endpoint\<close>

definition auditPubKeyResponse :: "nat list \<Rightarrow> json" where
  "auditPubKeyResponse key = JObj [(''public_key'', JStr (base64_EncodeToString key))]"

definition handleAuditPubKey :: "nat list option \<Rightarrow> nat \<times> bytes" where
  "handleAuditPubKey auditPubKey = (case auditPubKey of
     None \<Rightarrow> (503, json_Encode (JObj [(''error'', JObj [(''code'', JStr ''no_audit_key''),
                (''message'', JStr ''server has no audit signing key configured'')])]))
   | Some key \<Rightarrow> (200, json_Encode (auditPubKeyResponse key)))"

section \<open>The command\<close>

definition fetchAuditPubKey :: "(string \<Rightarrow> (nat \<times> bytes) option) \<Rightarrow> string \<Rightarrow> nat list result" where
  "fetchAuditPubKey get serverURL = (case get (serverURL @ ''/api/v1/audit/pubkey'') of
     None \<Rightarrow> Inl []
   | Some (code, resp) \<Rightarrow>
     if code \<noteq> 200 then Inl []
     else case json_first resp of
       None \<Rightarrow> Inl []
     | Some v \<Rightarrow>
       and_then (json_object v) (\<lambda>kvs.
       and_then (string_field ''pub_key_b64'' kvs) (\<lambda>b64.
       case base64_DecodeString b64 of
         None \<Rightarrow> Inl []
       | Some raw \<Rightarrow> if length raw \<noteq> 32 then Inl [] else Inr raw)))"

definition resolveAuditPubKey :: "(string \<Rightarrow> (nat \<times> bytes) option) \<Rightarrow> string \<Rightarrow> string \<Rightarrow> nat list option result" where
  \<comment> \<open>a failed fetch is a warning, and the signatures are then not checked\<close>
  "resolveAuditPubKey get pubKeyB64 serverURL =
     (if pubKeyB64 \<noteq> [] then
        (case base64_DecodeString pubKeyB64 of
           None \<Rightarrow> Inl []
         | Some raw \<Rightarrow> if length raw \<noteq> 32 then Inl [] else Inr (Some raw))
      else if serverURL \<noteq> [] then
        (case fetchAuditPubKey get serverURL of Inl _ \<Rightarrow> Inr None | Inr pub \<Rightarrow> Inr (Some pub))
      else Inr None)"

definition runAuditVerify ::
  "env \<Rightarrow> ed25519 \<Rightarrow> (string \<Rightarrow> (nat \<times> bytes) option) \<Rightarrow> bytes option \<Rightarrow> string \<Rightarrow> string \<Rightarrow> ScanResult result" where
  \<comment> \<open>the exit status and what is printed from the scan; \<open>None\<close> is a file that cannot be opened\<close>
  "runAuditVerify E C get file pubKeyB64 serverURL =
     and_then (resolveAuditPubKey get pubKeyB64 serverURL) (\<lambda>pubKey.
     case file of
       None \<Rightarrow> Inl []
     | Some f \<Rightarrow>
       let (res, readErr) = Scan E C pubKey f in
       if readErr then Inl [] else if sr_Anomalies res = [] then Inr res else Inl [])"

lemma json_first_Encode:
  assumes "json_ok v"
  shows "json_first (json_Encode v) = Some v"
  using json_value_print(1) [OF assms, of "[CHR 0x0A]" "Suc (2 * length (json_Encode v))"]
  by (simp add: json_first_def json_Encode_def delimited_def)

text \<open>
  The command reads the key from a field the endpoint does not write, so the key of a live server is
  never used.
\<close>

lemma fetch_from_server_fails:
  assumes "get (serverURL @ ''/api/v1/audit/pubkey'') = Some (handleAuditPubKey auditPubKey)"
  shows "fetchAuditPubKey get serverURL = Inl []"
proof (cases auditPubKey)
  case (Some key)
  have "json_first (json_Encode (auditPubKeyResponse key)) = Some (auditPubKeyResponse key)"
    by (rule json_first_Encode) (simp add: auditPubKeyResponse_def)
  moreover have "string_field ''pub_key_b64'' [(''public_key'', JStr k)] = Inr []" for k
    by (simp add: string_field_def field_values_def ToLower_def)
  ultimately show ?thesis
    using assms Some by (simp add: fetchAuditPubKey_def handleAuditPubKey_def auditPubKeyResponse_def json_object_def and_then_def
        base64_DecodeString_def)
qed (use assms in \<open>simp add: fetchAuditPubKey_def handleAuditPubKey_def\<close>)

text \<open>Hence \<open>--server-url\<close> verifies no signature: the command behaves as if no key had been given.\<close>

lemma server_url_checks_no_signature:
  assumes "get (serverURL @ ''/api/v1/audit/pubkey'') = Some (handleAuditPubKey auditPubKey)"
  shows "runAuditVerify E C get f [] serverURL = runAuditVerify E C get f [] []"
  using fetch_from_server_fails [of get serverURL, OF assms] by (simp add: runAuditVerify_def resolveAuditPubKey_def)

end
