(* ===== verification/AuditProperties.thy ===== *)
theory AuditProperties
  imports AuditCli GovernanceProperties
begin

text \<open>
  The properties of the audit log: what is written can be read and verified, tampering shows, and a
  restart continues the chain.
\<close>

section \<open>An instance\<close>

text \<open>
  A toy digest and signature, and times printed in unary: the laws the log relies on can hold
  together.
\<close>

definition unary :: "int \<Rightarrow> string" where
  "unary t = (if t < 0 then CHR ''-'' # replicate (nat (- t)) (CHR ''1'') else replicate (nat t) (CHR ''1''))"

definition of_unary :: "string \<Rightarrow> int option" where
  "of_unary s = Some (case s of [] \<Rightarrow> 0 | c # r \<Rightarrow> if c = CHR ''-'' then - int (length r) else int (length s))"

definition audit_env :: env where
  "audit_env = service_env\<lparr>time_FormatRFC3339Nano := unary, time_ParseRFC3339 := of_unary,
     sha256hex := (\<lambda>s. CHR ''h'' # s), canonicaljson_MarshalForSigning := (\<lambda>v. Some (json_print v))\<rparr>"

definition audit_crypto :: ed25519 where
  "audit_crypto = \<lparr>ed_Sign = (\<lambda>k m. [1]), ed_Public = (\<lambda>k. k), ed_Verify = (\<lambda>k m s. s = [1])\<rparr>"

lemma of_unary_unary: "of_unary (unary t) = Some t"
proof (cases "t < 0")
  case False
  then show ?thesis by (cases "nat t") (auto simp: of_unary_def unary_def)
qed (simp add: of_unary_def unary_def)

lemma audit_laws_instance: "audit_laws audit_env audit_crypto"
  by (auto simp: audit_laws_def audit_env_def audit_crypto_def of_unary_unary)

definition audit_example :: "AuditEvent list" where
  "audit_example = [audit_event audit_env (\<lambda>e. ''failed'') 3 ''7'' (bare (WindowOpened 7)),
     audit_event audit_env (\<lambda>e. ''failed'') 4 ''8'' (bare (CommitteeSet 8 [''c1X''] 1 1 ''c1X'' ''c1Y''))]"

definition audit_fresh :: JSONLWriter where
  "audit_fresh = (audit_Open [] (Some [9]) [])\<lparr>jw_attached := True\<rparr>"

lemma append_all_frame:
  assumes "append_all (log_append E C) evs v = Some w" "log_of E C fs v"
  shows "list_all (\<lambda>e. ae_Signature e = [] \<and> ae_PrevHash e = []) evs \<and> jw_attached w = jw_attached v \<and> jw_privKey w = jw_privKey v"
  using assms
proof (induction evs arbitrary: v fs)
  case (Cons e evs)
  then obtain v1 where v1: "log_append E C e v = Some v1" "append_all (log_append E C) evs v1 = Some w"
    by (auto simp: bind_eq_Some_conv)
  from log_append_step [OF v1(1) Cons.prems(2)] Cons.IH [OF v1(2)] v1(1) show ?case
    by (auto simp: log_append_def split: if_splits)
qed simp

text \<open>A log grown from a fresh one: its entries, and what was appended.\<close>

lemma fresh_log:
  assumes "audit_laws E C" "WithPrevHashStore E (audit_Open [] key []) = Inr w0"
    "append_all (log_append E C) evs w0 = Some w"
  shows "log_of E C (file_entries E w) w \<and> jw_attached w \<and> jw_tip w = jw_prevHash w \<and> jw_privKey w = key \<and>
    map (\<lambda>e. e\<lparr>ae_Signature := [], ae_PrevHash := []\<rparr>) (file_entries E w) = evs"
proof -
  have w0: "w0 = (audit_Open [] key [])\<lparr>jw_attached := True\<rparr>"
    using assms(2) by (simp add: WithPrevHashStore_def LoadPrevHash_def audit_Open_def and_then_def)
  have ok0: "log_of E C [] w0" by (simp add: log_of_def w0 audit_Open_def render_def tip_of_def)
  then have ok1: "log_ok E C w0" using assms(1) by (auto simp: log_ok_def w0 audit_Open_def)
  obtain es where es: "log_of E C es w" "jw_attached w \<longrightarrow> jw_tip w = jw_prevHash w"
    using jsonl.append_all_inv [OF assms(3) ok1] by (auto simp: log_ok_def)
  obtain xs where xs: "file_entries E w = xs" "list_all2 (\<lambda>e x. \<exists>t. log_ok E C t \<and> x = log_stored E C e t) evs xs"
    using jsonl.append_all_entries [OF assms(3) ok1] file_entries_log [OF assms(1) ok0] by auto
  note frame = append_all_frame [OF assms(3) ok0]
  have "map (\<lambda>e. e\<lparr>ae_Signature := [], ae_PrevHash := []\<rparr>) xs = evs"
    using xs(2) frame [THEN conjunct1] by (induction rule: list_all2_induct) (auto simp: log_stored_plain)
  then show ?thesis using es frame w0 xs(1) file_entries_log [OF assms(1) es(1)] by (simp add: audit_Open_def)
qed

section \<open>Properties\<close>


lemma split_lines_length: "l \<in> set (split_lines s) \<Longrightarrow> length l \<le> length s"
proof (induction s arbitrary: l)
  case (Cons c s)
  then show ?case by (cases "split_lines s") (fastforce split: if_splits intro: le_SucI)+
qed simp

lemma audit_example_appends:
  "\<exists>w. append_all (log_append audit_env audit_crypto) audit_example audit_fresh = Some w \<and>
     list_all (\<lambda>l. length l < MaxScanTokenSize) (split_lines (jw_file w))"
proof -
  have "case append_all (log_append audit_env audit_crypto) audit_example audit_fresh of
      None \<Rightarrow> False | Some w \<Rightarrow> length (jw_file w) < 2000"
    by code_simp
  then obtain w where "append_all (log_append audit_env audit_crypto) audit_example audit_fresh = Some w"
    "length (jw_file w) < 2000" by (auto split: option.splits)
  then show ?thesis
    by (intro exI [of _ w]) (auto simp: list_all_iff MaxScanTokenSize_def dest!: split_lines_length)
qed


text \<open>
  C22. Tampering shows: take the log of an intact writer and any other file that the scanner reads
  without a sign of tampering and whose last line has the stored tip as its digest.  Unless two
  different lines of the two files have the same digest, that file still ends with every line the writer wrote, none
  altered, dropped or reordered.
\<close>

theorem audit_tamper_evident:
  assumes "audit_laws E C" "inj_on (sha256hex E) (set lines \<union> set (split_lines (jw_file w)))"
    "WithPrevHashStore E (audit_Open [] key []) = Inr w0" "append_all (log_append E C) evs w0 = Some w" "evs \<noteq> []"
    "Scan E C pk f = (res, False)" "\<not> HasTamper res"
    "lines = filter (\<lambda>l. l \<noteq> []) (fst (scan_lines maxAuditLineBytes f))" "lines \<noteq> []" "sha256hex E (last lines) = jw_tip w"
  shows "\<exists>pre. lines = pre @ split_lines (jw_file w)"
proof -
  define es where "es = file_entries E w"
  have fl: "log_of E C es w" "jw_tip w = jw_prevHash w" "map (\<lambda>e. e\<lparr>ae_Signature := [], ae_PrevHash := []\<rparr>) es = evs"
    using fresh_log [OF assms(1,3,4)] by (simp_all add: es_def)
  then have "es \<noteq> []" using assms(5) by auto
  have wfile: "jw_file w = render E es" "list_all content_ok es" "chained E [] es" "jw_tip w = tip_of E es"
    using fl by (simp_all add: log_of_def)
  have "tampered (fold (scan_line E C pk) (fst (scan_lines maxAuditLineBytes f)) scan_init) = []"
    using assms(6,7) by (auto simp: Scan_def HasTamper_def tampered_def list_ex_iff filter_empty_conv split: prod.splits)
  from accepted_linked [OF this] have "linked E [] lines" by (simp add: assms(8) scan_init_def)
  moreover have "last lines = line_of E (last es)"
    using inj_onD [OF assms(2), of "last lines" "line_of E (last es)"] assms(9,10) wfile \<open>es \<noteq> []\<close>
    by (simp add: tip_of_def split_lines_render)
  ultimately have "\<exists>pre. lines = pre @ map (line_of E) es"
    using linked_suffix [OF assms(1) _ _ wfile(3,2) assms(9) \<open>es \<noteq> []\<close>] assms(2)
    by (simp add: wfile split_lines_render)
  then show ?thesis by (simp add: wfile split_lines_render)
qed

text \<open>The intact file of the example itself is such a file.\<close>

theorem audit_tamper_evident_witness:
  "\<exists>w pre. append_all (log_append audit_env audit_crypto) audit_example audit_fresh = Some w \<and>
     filter (\<lambda>l. l \<noteq> []) (fst (scan_lines maxAuditLineBytes (jw_file w))) = pre @ split_lines (jw_file w)"
proof -
  obtain w where w: "append_all (log_append audit_env audit_crypto) audit_example audit_fresh = Some w"
    "list_all (\<lambda>l. length l < MaxScanTokenSize) (split_lines (jw_file w))"
    using audit_example_appends by blast
  have start: "WithPrevHashStore audit_env (audit_Open [] (Some [9]) []) = Inr audit_fresh"
    by (simp add: WithPrevHashStore_def LoadPrevHash_def audit_Open_def audit_fresh_def and_then_def)
  define es where "es = file_entries audit_env w"
  have fl: "log_of audit_env audit_crypto es w" "jw_tip w = jw_prevHash w"
    "map (\<lambda>e. e\<lparr>ae_Signature := [], ae_PrevHash := []\<rparr>) es = audit_example" "jw_privKey w = Some [9]"
    using fresh_log [OF audit_laws_instance start w(1)] by (simp_all add: es_def)
  then have wfile: "jw_file w = render audit_env es" "list_all content_ok es" "jw_tip w = tip_of audit_env es"
    by (simp_all add: log_of_def)
  have "es \<noteq> []" using fl(3) by (auto simp: audit_example_def)
  have small: "list_all (\<lambda>e. length (line_of audit_env e) < maxAuditLineBytes) es"
    using w(2) wfile by (auto simp: split_lines_render list_all_iff MaxScanTokenSize_def maxAuditLineBytes_def)
  obtain res where scan: "Scan audit_env audit_crypto (PubKey audit_crypto w) (jw_file w) = (res, False)" "\<not> HasTamper res"
    using Scan_log [OF audit_laws_instance fl(1) small] by blast
  have lines: "filter (\<lambda>l. l \<noteq> []) (fst (scan_lines maxAuditLineBytes (jw_file w))) = map (line_of audit_env) es"
    using scan_lines_render [OF wfile(2) small] wfile(1) by simp
  have inj: "inj_on (sha256hex audit_env) S" for S by (simp add: audit_env_def inj_on_def)
  have "audit_example \<noteq> []" by (simp add: audit_example_def)
  from audit_tamper_evident [OF audit_laws_instance inj start w(1) this scan refl] lines \<open>es \<noteq> []\<close> wfile(3) w(1)
  show ?thesis by (auto simp: tip_of_def last_map)
qed

end
