(* ===== verification/Broker.thy ===== *)
theory Broker
  imports EventJson "HOL-Library.Sublist"
begin

text \<open>
  The event broker (internal/infrastructure/sse/broker.go) and the event stream a handler writes from
  it (api/events.go).  Channels are cells of a heap: a buffered queue and whether the channel is
  closed.  A send on a closed channel and a second close panic, which is the value \<open>None\<close>.  The lock
  makes each operation one step, so the interleavings of publishers, clients and their handlers are
  the sequences of steps of \<open>hub_step\<close>.
\<close>

section \<open>The broker\<close>

type_synonym chan = nat

record channel =
  ch_queue :: "event list"
  ch_closed :: bool

record Broker =
  br_subs :: "string \<Rightarrow> chan list option"
  br_heap :: "chan \<Rightarrow> channel"
  br_alloc :: nat                              \<comment> \<open>the next channel \<open>make\<close> returns\<close>

definition subChannelBuf :: nat where "subChannelBuf = 16"

definition broker_New :: Broker where
  "broker_New = \<lparr>br_subs = (\<lambda>_. None), br_heap = (\<lambda>_. \<lparr>ch_queue = [], ch_closed = True\<rparr>), br_alloc = 0\<rparr>"

definition subs_of :: "Broker \<Rightarrow> string \<Rightarrow> chan list" where
  \<comment> \<open>\<open>b.subs[launchID]\<close>: the zero value for an absent key is the nil slice\<close>
  "subs_of b lid = (case br_subs b lid of None \<Rightarrow> [] | Some cs \<Rightarrow> cs)"

definition offer :: "event \<Rightarrow> channel \<Rightarrow> channel" where
  \<comment> \<open>\<open>select { case ch <- ev: default: }\<close> on an open channel\<close>
  "offer ev c = (if length (ch_queue c) < subChannelBuf then c\<lparr>ch_queue := ch_queue c @ [ev]\<rparr> else c)"

fun send_all :: "event \<Rightarrow> chan list \<Rightarrow> (chan \<Rightarrow> channel) \<Rightarrow> (chan \<Rightarrow> channel) option" where
  "send_all ev [] h = Some h"
| "send_all ev (c # cs) h = (if ch_closed (h c) then None else send_all ev cs (h(c := offer ev (h c))))"

definition broker_Publish :: "env \<Rightarrow> event \<Rightarrow> Broker \<Rightarrow> Broker option" where
  "broker_Publish E ev b = (let lid = uuid_String E (GetLaunchID (body ev)) in
     map_option (\<lambda>h. b\<lparr>br_heap := h\<rparr>) (send_all ev (subs_of b lid) (br_heap b)))"

definition Subscribe :: "string \<Rightarrow> Broker \<Rightarrow> chan \<times> Broker" where
  "Subscribe lid b = (let ch = br_alloc b in
     (ch, b\<lparr>br_subs := (br_subs b)(lid := Some (subs_of b lid @ [ch])),
            br_heap := (br_heap b)(ch := \<lparr>ch_queue = [], ch_closed = False\<rparr>), br_alloc := Suc ch\<rparr>))"

definition Unsubscribe :: "string \<Rightarrow> chan \<Rightarrow> Broker \<Rightarrow> Broker option" where
  "Unsubscribe lid ch b = (let rest = remove1 ch (subs_of b lid) in
     if ch_closed (br_heap b ch) then None
     else Some (b\<lparr>br_subs := (br_subs b)(lid := if rest = [] then None else Some rest),
                  br_heap := (br_heap b)(ch := (br_heap b ch)\<lparr>ch_closed := True\<rparr>)\<rparr>))"

lemma send_all_open:
  assumes "distinct cs" "\<forall>c \<in> set cs. \<not> ch_closed (h c)"
  shows "send_all ev cs h = Some (\<lambda>c. if c \<in> set cs then offer ev (h c) else h c)"
  using assms
proof (induction cs arbitrary: h)
  case (Cons c cs)
  then show ?case by (auto simp: Cons.IH fun_eq_iff)
qed simp

section \<open>Streams\<close>

text \<open>
  An open stream is the launch and the channel its handler subscribed.  The remaining fields are the
  history: the events published for the launch of a channel since it was subscribed, those its handler
  has taken, and how many were dropped because its buffer was full.
\<close>

record hub =
  hb_broker :: Broker
  hb_open :: "(string \<times> chan) list"
  hb_sent :: "chan \<Rightarrow> event list"
  hb_taken :: "chan \<Rightarrow> event list"
  hb_lost :: "chan \<Rightarrow> nat"

definition event_for :: "env \<Rightarrow> event \<Rightarrow> string" where
  "event_for E ev = uuid_String E (GetLaunchID (body ev))"

definition note_sent :: "env \<Rightarrow> event \<Rightarrow> hub \<Rightarrow> hub" where
  "note_sent E ev h =
     (let hit = (\<lambda>c. (event_for E ev, c) \<in> set (hb_open h)) in
      h\<lparr>hb_sent := (\<lambda>c. if hit c then hb_sent h c @ [ev] else hb_sent h c),
        hb_lost := (\<lambda>c. if hit c \<and> length (ch_queue (br_heap (hb_broker h) c)) \<ge> subChannelBuf
                        then Suc (hb_lost h c) else hb_lost h c)\<rparr>)"

inductive hub_step :: "env \<Rightarrow> hub \<Rightarrow> hub \<Rightarrow> bool" for E where
  connect: "Subscribe lid (hb_broker h) = (ch, b) \<Longrightarrow>
     hub_step E h (h\<lparr>hb_broker := b, hb_open := hb_open h @ [(lid, ch)], hb_sent := (hb_sent h)(ch := []),
       hb_taken := (hb_taken h)(ch := []), hb_lost := (hb_lost h)(ch := 0)\<rparr>)"
| publish: "broker_Publish E ev (hb_broker h) = Some b \<Longrightarrow> hub_step E h ((note_sent E ev h)\<lparr>hb_broker := b\<rparr>)"
| deliver: "(lid, ch) \<in> set (hb_open h) \<Longrightarrow> ch_queue (br_heap (hb_broker h) ch) = ev # q \<Longrightarrow>
     hub_step E h (h\<lparr>hb_broker := (hb_broker h)\<lparr>br_heap := (br_heap (hb_broker h))(ch :=
         (br_heap (hb_broker h) ch)\<lparr>ch_queue := q\<rparr>)\<rparr>, hb_taken := (hb_taken h)(ch := hb_taken h ch @ [ev])\<rparr>)"
| disconnect: "(lid, ch) \<in> set (hb_open h) \<Longrightarrow> Unsubscribe lid ch (hb_broker h) = Some b \<Longrightarrow>
     hub_step E h (h\<lparr>hb_broker := b, hb_open := remove1 (lid, ch) (hb_open h)\<rparr>)"

definition hub_new :: hub where
  "hub_new = \<lparr>hb_broker = broker_New, hb_open = [], hb_sent = (\<lambda>_. []), hb_taken = (\<lambda>_. []), hb_lost = (\<lambda>_. 0)\<rparr>"

inductive hub_reachable :: "env \<Rightarrow> hub \<Rightarrow> bool" for E where
  start: "hub_reachable E hub_new"
| step: "hub_reachable E h \<Longrightarrow> hub_step E h h' \<Longrightarrow> hub_reachable E h'"

inductive_cases hub_step_cases: "hub_step E h h'"

section \<open>The invariant\<close>

definition table_ok :: "hub \<Rightarrow> bool" where
  \<comment> \<open>the table lists exactly the open streams, in the order they were opened, on open channels\<close>
  "table_ok h \<longleftrightarrow> distinct (map snd (hb_open h)) \<and>
     (\<forall>lid. subs_of (hb_broker h) lid = map snd (filter (\<lambda>s. fst s = lid) (hb_open h))) \<and>
     (\<forall>lid. br_subs (hb_broker h) lid \<noteq> Some []) \<and>
     (\<forall>s \<in> set (hb_open h). snd s < br_alloc (hb_broker h) \<and> \<not> ch_closed (br_heap (hb_broker h) (snd s)))"

definition stream_ok :: "env \<Rightarrow> hub \<Rightarrow> string \<Rightarrow> chan \<Rightarrow> bool" where
  "stream_ok E h lid ch \<longleftrightarrow> (let q = ch_queue (br_heap (hb_broker h) ch) in
     length q \<le> subChannelBuf \<and> subseq (hb_taken h ch @ q) (hb_sent h ch) \<and>
     (\<forall>ev \<in> set (hb_sent h ch). event_for E ev = lid) \<and>
     length (hb_sent h ch) = length (hb_taken h ch) + length q + hb_lost h ch)"

definition hub_ok :: "env \<Rightarrow> hub \<Rightarrow> bool" where
  "hub_ok E h \<longleftrightarrow> table_ok h \<and> (\<forall>(lid, ch) \<in> set (hb_open h). stream_ok E h lid ch)"

lemma one_stream:
  assumes "distinct (map snd xs)" "(a, c) \<in> set xs" "(b, c) \<in> set xs"
  shows "a = b"
  using assms inj_onD [of snd "set xs" "(a, c)" "(b, c)"] by (simp add: distinct_map)

lemma remove1_streams:
  assumes "distinct (map snd xs)" "(lid, ch) \<in> set xs"
  shows "map snd (filter (\<lambda>s. fst s = l) (remove1 (lid, ch) xs)) =
    (if l = lid then remove1 ch (map snd (filter (\<lambda>s. fst s = lid) xs)) else map snd (filter (\<lambda>s. fst s = l) xs))"
  using assms
proof (induction xs)
  case (Cons x xs)
  show ?case
  proof (cases "x = (lid, ch)")
    case False
    then have "(lid, ch) \<in> set xs" using Cons.prems(2) by auto
    moreover from this have "snd x \<noteq> ch" using Cons.prems(1) image_eqI [of ch snd "(lid, ch)" "set xs"] by auto
    ultimately show ?thesis using Cons.IH Cons.prems(1) False by (cases "l = lid") simp_all
  next
    case True
    then show ?thesis by simp
  qed
qed simp

lemma table_streams:
  assumes "table_ok h"
  shows "distinct (subs_of (hb_broker h) lid)" "set (subs_of (hb_broker h) lid) = {c. (lid, c) \<in> set (hb_open h)}"
    "\<forall>c \<in> set (subs_of (hb_broker h) lid). \<not> ch_closed (br_heap (hb_broker h) c)"
proof -
  have s: "subs_of (hb_broker h) lid = map snd (filter (\<lambda>s. fst s = lid) (hb_open h))" and d: "distinct (map snd (hb_open h))"
    using assms by (simp_all add: table_ok_def)
  show "distinct (subs_of (hb_broker h) lid)" unfolding s by (rule distinct_map_filter [OF d])
  show c: "set (subs_of (hb_broker h) lid) = {c. (lid, c) \<in> set (hb_open h)}" unfolding s by force
  show "\<forall>c \<in> set (subs_of (hb_broker h) lid). \<not> ch_closed (br_heap (hb_broker h) c)"
    unfolding c using assms by (auto simp: table_ok_def)
qed

lemma Publish_open:
  assumes "table_ok h"
  shows "broker_Publish E ev (hb_broker h) = Some ((hb_broker h)\<lparr>br_heap := (\<lambda>c. if (event_for E ev, c) \<in> set (hb_open h)
      then offer ev (br_heap (hb_broker h) c) else br_heap (hb_broker h) c)\<rparr>)"
  using send_all_open [OF table_streams(1,3) [OF assms]] table_streams(2) [OF assms]
  by (simp add: broker_Publish_def event_for_def Let_def)

lemma offer_closed [simp]: "ch_closed (offer ev c) = ch_closed c"
  by (simp add: offer_def)

lemma hub_ok_connect:
  assumes "hub_ok E h" "Subscribe lid (hb_broker h) = (ch, b)"
  shows "hub_ok E (h\<lparr>hb_broker := b, hb_open := hb_open h @ [(lid, ch)], hb_sent := (hb_sent h)(ch := []),
       hb_taken := (hb_taken h)(ch := []), hb_lost := (hb_lost h)(ch := 0)\<rparr>)"
proof -
  have t: "table_ok h" using assms(1) by (simp add: hub_ok_def)
  have ch: "ch = br_alloc (hb_broker h)" using assms(2) by (auto simp: Subscribe_def Let_def)
  have fresh: "ch \<notin> snd ` set (hb_open h)" using t by (auto simp: table_ok_def ch)
  then have other: "snd s \<noteq> ch" if "s \<in> set (hb_open h)" for s using that by blast
  have b: "b = (hb_broker h)\<lparr>br_subs := (br_subs (hb_broker h))(lid := Some (subs_of (hb_broker h) lid @ [ch])),
      br_heap := (br_heap (hb_broker h))(ch := \<lparr>ch_queue = [], ch_closed = False\<rparr>), br_alloc := Suc ch\<rparr>"
    using assms(2) by (auto simp: Subscribe_def Let_def)
  have subs: "subs_of b l = (if l = lid then subs_of (hb_broker h) lid @ [ch] else subs_of (hb_broker h) l)" for l
    by (simp add: b subs_of_def)
  show ?thesis
  proof -
    let ?h = "h\<lparr>hb_broker := b, hb_open := hb_open h @ [(lid, ch)], hb_sent := (hb_sent h)(ch := []),
       hb_taken := (hb_taken h)(ch := []), hb_lost := (hb_lost h)(ch := 0)\<rparr>"
    have cell: "br_heap b c = (if c = ch then \<lparr>ch_queue = [], ch_closed = False\<rparr> else br_heap (hb_broker h) c)"
      "br_alloc b = Suc ch" "br_subs b l \<noteq> Some []" for c l
      using t by (simp_all add: b table_ok_def)
    have "table_ok ?h"
      using t fresh other by (auto simp: table_ok_def subs cell less_Suc_eq simp flip: ch)
    moreover have "stream_ok E ?h l c" if "(l, c) \<in> set (hb_open h @ [(lid, ch)])" for l c
      using that assms(1) other [of "(l, c)"] by (auto simp: hub_ok_def stream_ok_def cell Let_def subChannelBuf_def)
    ultimately show ?thesis by (auto simp: hub_ok_def)
  qed
qed

lemma stream_ok_publish:
  assumes "stream_ok E h lid ch" "(lid, ch) \<in> set (hb_open h)" "distinct (map snd (hb_open h))"
  shows "stream_ok E ((note_sent E ev h)\<lparr>hb_broker := (hb_broker h)\<lparr>br_heap := (\<lambda>c. if (event_for E ev, c) \<in> set (hb_open h)
      then offer ev (br_heap (hb_broker h) c) else br_heap (hb_broker h) c)\<rparr>\<rparr>) lid ch"
proof (cases "event_for E ev = lid")
  case True
  then show ?thesis using assms(1,2)
    by (auto simp: stream_ok_def note_sent_def Let_def offer_def list_emb_append2 simp flip: append_assoc intro: list_emb_append_mono)
next
  case False
  then have "(event_for E ev, ch) \<notin> set (hb_open h)"
    using one_stream [OF assms(3,2)] by blast
  then show ?thesis using assms(1) by (simp add: stream_ok_def note_sent_def Let_def)
qed

lemma hub_ok_publish:
  assumes "hub_ok E h" "broker_Publish E ev (hb_broker h) = Some b"
  shows "hub_ok E ((note_sent E ev h)\<lparr>hb_broker := b\<rparr>)"
proof -
  have t: "table_ok h" using assms(1) by (simp add: hub_ok_def)
  have b: "b = (hb_broker h)\<lparr>br_heap := (\<lambda>c. if (event_for E ev, c) \<in> set (hb_open h)
      then offer ev (br_heap (hb_broker h) c) else br_heap (hb_broker h) c)\<rparr>"
    using assms(2) Publish_open [OF t, of E ev] by simp
  have "subs_of b = subs_of (hb_broker h)" by (simp add: b subs_of_def fun_eq_iff)
  then have "table_ok ((note_sent E ev h)\<lparr>hb_broker := b\<rparr>)"
    using t by (auto simp: table_ok_def note_sent_def Let_def b)
  moreover have "distinct (map snd (hb_open h))" using t by (simp add: table_ok_def)
  ultimately show ?thesis using assms(1) stream_ok_publish [of E h]
    by (auto simp: hub_ok_def note_sent_def Let_def b)
qed

lemma hub_ok_deliver:
  assumes "hub_ok E h" "(lid, ch) \<in> set (hb_open h)" "ch_queue (br_heap (hb_broker h) ch) = ev # q"
  shows "hub_ok E (h\<lparr>hb_broker := (hb_broker h)\<lparr>br_heap := (br_heap (hb_broker h))(ch :=
         (br_heap (hb_broker h) ch)\<lparr>ch_queue := q\<rparr>)\<rparr>, hb_taken := (hb_taken h)(ch := hb_taken h ch @ [ev])\<rparr>)"
  using assms by (auto simp: hub_ok_def table_ok_def stream_ok_def subs_of_def Let_def)

lemma hub_ok_disconnect:
  assumes "hub_ok E h" "(lid, ch) \<in> set (hb_open h)" "Unsubscribe lid ch (hb_broker h) = Some b"
  shows "hub_ok E (h\<lparr>hb_broker := b, hb_open := remove1 (lid, ch) (hb_open h)\<rparr>)"
proof -
  have t: "table_ok h" using assms(1) by (simp add: hub_ok_def)
  then have d: "distinct (map snd (hb_open h))" by (simp add: table_ok_def)
  let ?rest = "remove1 ch (subs_of (hb_broker h) lid)"
  have b: "b = (hb_broker h)\<lparr>br_subs := (br_subs (hb_broker h))(lid := if ?rest = [] then None else Some ?rest),
      br_heap := (br_heap (hb_broker h))(ch := (br_heap (hb_broker h) ch)\<lparr>ch_closed := True\<rparr>)\<rparr>"
    using assms(3) by (auto simp: Unsubscribe_def Let_def split: if_splits)
  have subs: "subs_of b l = (if l = lid then ?rest else subs_of (hb_broker h) l)" for l
    by (simp add: b subs_of_def)
  have dd: "distinct (hb_open h)" using d by (simp add: distinct_map)
  have left: "s \<in> set (hb_open h)" "snd s \<noteq> ch" if "s \<in> set (remove1 (lid, ch) (hb_open h))" for s
  proof -
    have s: "s \<in> set (hb_open h)" "s \<noteq> (lid, ch)" using that by (simp_all add: set_remove1_eq [OF dd])
    then show "s \<in> set (hb_open h)" by simp
    show "snd s \<noteq> ch" using s one_stream [OF d assms(2), of "fst s"] by (metis prod.collapse)
  qed
  have "distinct (map snd (remove1 (lid, ch) (hb_open h)))"
    using d by (auto simp: distinct_map intro: inj_on_subset)
  moreover have "br_subs b l \<noteq> Some []" "snd r \<noteq> ch \<Longrightarrow> br_heap b (snd r) = br_heap (hb_broker h) (snd r)"
    "br_alloc b = br_alloc (hb_broker h)" for l and r :: "string \<times> chan"
    using t by (simp_all add: b table_ok_def)
  moreover have "subs_of (hb_broker h) l = map snd (filter (\<lambda>s. fst s = l) (hb_open h))" for l
    using t by (simp add: table_ok_def)
  ultimately have "table_ok (h\<lparr>hb_broker := b, hb_open := remove1 (lid, ch) (hb_open h)\<rparr>)"
    using t left by (simp add: table_ok_def subs remove1_streams [OF d assms(2)])
  moreover have "stream_ok E (h\<lparr>hb_broker := b, hb_open := remove1 (lid, ch) (hb_open h)\<rparr>) (fst r) (snd r)"
    if "r \<in> set (remove1 (lid, ch) (hb_open h))" for r
    using assms(1) left [OF that] by (auto simp: hub_ok_def stream_ok_def b Let_def)
  ultimately show ?thesis by (auto simp: hub_ok_def)
qed

lemma hub_reachable_ok: "hub_reachable E h \<Longrightarrow> hub_ok E h"
proof (induction rule: hub_reachable.induct)
  case start
  show ?case by (simp add: hub_ok_def table_ok_def hub_new_def broker_New_def subs_of_def)
next
  case (step h h')
  from step.hyps(2) show ?case
    by (cases rule: hub_step.cases) (use step.IH hub_ok_connect hub_ok_publish hub_ok_deliver hub_ok_disconnect in auto)
qed

end
