(* ===== verification/EventStream.thy ===== *)
theory EventStream
  imports Broker AuditChain LaunchProperties
begin

text \<open>
  What a client of an event stream receives (api/events.go over sse/broker.go): the bytes the handler
  writes, how an event-stream reader takes them apart, and the delivery guarantees.
\<close>

section \<open>The bytes of a stream\<close>

datatype stream_write = Ping | Frame event

fun handleEvents_write :: "env \<Rightarrow> (goerror \<Rightarrow> string) \<Rightarrow> stream_write \<Rightarrow> bytes" where
  \<comment> \<open>one turn of the handler's loop: the heartbeat, or an event taken from the channel\<close>
  "handleEvents_write E et Ping = '': ping'' @ [CHR 0x0A, CHR 0x0A]"
| "handleEvents_write E et (Frame ev) = ''event: '' @ EventName (body ev) @ [CHR 0x0A] @ ''data: '' @
     json_print (event_json E et (body ev)) @ [CHR 0x0A, CHR 0x0A]"

fun frames :: "stream_write list \<Rightarrow> event list" where
  "frames [] = []"
| "frames (Ping # ws) = frames ws"
| "frames (Frame ev # ws) = ev # frames ws"

fun sse_read :: "string list \<Rightarrow> string \<Rightarrow> string option \<Rightarrow> (string \<times> string) list" where
  \<comment> \<open>the reading of an event stream by lines: a comment is skipped, a blank line dispatches\<close>
  "sse_read [] ev dat = []"
| "sse_read (l # ls) ev dat =
     (if l = [] then (case dat of None \<Rightarrow> sse_read ls [] None | Some d \<Rightarrow> (ev, d) # sse_read ls [] None)
      else if hd l = CHR '':'' then sse_read ls ev dat
      else if take 7 l = ''event: '' then sse_read ls (drop 7 l) dat
      else if take 6 l = ''data: '' then
        sse_read ls ev (Some (case dat of None \<Rightarrow> drop 6 l | Some d \<Rightarrow> d @ CHR 0x0A # drop 6 l))
      else sse_read ls ev dat)"

lemma EventName_plain: "CHR 0x0A \<notin> set (EventName ev)"
  by (cases ev) simp_all

lemma event_json_plain: "CHR 0x0A \<notin> set (json_print (event_json E et ev))"
  using json_print_visible(1) [OF json_ok_event, where d = "CHR 0x0A"] by fastforce

lemma read_write:
  "sse_read (split_lines (handleEvents_write E et x @ rest)) [] None =
     map (\<lambda>ev. (EventName (body ev), json_print (event_json E et (body ev)))) (frames [x]) @ sse_read (split_lines rest) [] None"
proof (cases x)
  case Ping
  have "split_lines ('': ping'' @ CHR 0x0A # CHR 0x0A # rest) = '': ping'' # [] # split_lines rest"
    by (subst split_lines_Cons) simp_all
  then show ?thesis by (simp add: Ping)
next
  case (Frame ev)
  let ?n = "''event: '' @ EventName (body ev)" and ?d = "''data: '' @ json_print (event_json E et (body ev))"
  have plain: "CHR 0x0A \<notin> set ?n" "CHR 0x0A \<notin> set ?d" using EventName_plain event_json_plain by simp_all
  have "split_lines (?n @ CHR 0x0A # ?d @ CHR 0x0A # CHR 0x0A # rest) = ?n # ?d # [] # split_lines rest"
    unfolding split_lines_Cons [OF plain(1)] split_lines_Cons [OF plain(2)] by simp
  moreover have "handleEvents_write E et x @ rest = ?n @ CHR 0x0A # ?d @ CHR 0x0A # CHR 0x0A # rest" by (simp add: Frame)
  ultimately show ?thesis by (simp add: Frame)
qed

lemma frames_append: "frames (xs @ ys) = frames xs @ frames ys"
  by (induction xs rule: frames.induct) simp_all

section \<open>Properties\<close>

text \<open>
  C32. An event stream is read back as it was written: whatever events and heartbeats the handler
  writes, a reader of the bytes gets one message per event, in order, with the event's name and with
  data that parses to the event's JSON; no event text can break a frame.
\<close>

theorem event_stream_roundtrip:
  "map (\<lambda>(n, d). (n, json_parse d)) (sse_read (split_lines (concat (map (handleEvents_write E et) ws))) [] None) =
   map (\<lambda>ev. (EventName (body ev), Some (event_json E et (body ev)))) (frames ws)"
proof (induction ws)
  case (Cons x ws)
  have "frames (x # ws) = frames [x] @ frames ws" using frames_append [of "[x]" ws] by simp
  then show ?case using Cons.IH by (simp add: read_write json_parse_print [OF json_ok_event] o_def)
qed simp

text \<open>
  C31. In every interleaving of connecting clients, published events, deliveries and disconnecting
  clients: publishing never panics on a closed channel, and neither does the disconnect of an open
  stream; every open stream has got, in order and without repetition, events of its own launch only;
  at most 16 are waiting; and a stream that never had 16 events waiting when another was published has
  lost none: what was taken and what waits is everything published for its launch since it opened.
\<close>

theorem event_stream_faithful:
  assumes "hub_reachable E h"
  shows "broker_Publish E ev (hb_broker h) \<noteq> None \<and>
    (\<forall>(lid, ch) \<in> set (hb_open h). let q = ch_queue (br_heap (hb_broker h) ch) in
       Unsubscribe lid ch (hb_broker h) \<noteq> None \<and> length q \<le> 16 \<and>
       subseq (hb_taken h ch @ q) (hb_sent h ch) \<and> (\<forall>e \<in> set (hb_sent h ch). uuid_String E (GetLaunchID (body e)) = lid) \<and>
       (hb_lost h ch = 0 \<longrightarrow> hb_taken h ch @ q = hb_sent h ch))"
proof -
  have ok: "hub_ok E h" by (rule hub_reachable_ok [OF assms])
  then have t: "table_ok h" by (simp add: hub_ok_def)
  have "Unsubscribe lid ch (hb_broker h) \<noteq> None" if "(lid, ch) \<in> set (hb_open h)" for lid ch
    using t that by (auto simp: table_ok_def Unsubscribe_def Let_def)
  moreover have "xs = ys" if "subseq xs ys" "length ys = length xs" for xs ys :: "event list"
    using subseq_same_length that by metis
  ultimately show ?thesis
    using Publish_open [OF t, of E ev] ok
    by (fastforce simp: hub_ok_def stream_ok_def Let_def subChannelBuf_def event_for_def)
qed

definition watched_hub :: hub where
  \<comment> \<open>one client connected, then one event of its launch published\<close>
  "watched_hub = (let h = hub_new\<lparr>hb_broker := snd (Subscribe ''uuid'' broker_New), hb_open := [(''uuid'', 0)],
       hb_sent := (hb_sent hub_new)(0 := []), hb_taken := (hb_taken hub_new)(0 := []), hb_lost := (hb_lost hub_new)(0 := 0)\<rparr>
     in (note_sent example_env (bare (WindowOpened 7)) h)\<lparr>hb_broker :=
       the (broker_Publish example_env (bare (WindowOpened 7)) (hb_broker h))\<rparr>)"

lemma watched_hub_reachable: "hub_reachable example_env watched_hub"
proof -
  let ?h = "hub_new\<lparr>hb_broker := snd (Subscribe ''uuid'' broker_New), hb_open := [(''uuid'', 0)],
       hb_sent := (hb_sent hub_new)(0 := []), hb_taken := (hb_taken hub_new)(0 := []), hb_lost := (hb_lost hub_new)(0 := 0)\<rparr>"
  have "Subscribe ''uuid'' (hb_broker hub_new) = (0, snd (Subscribe ''uuid'' broker_New))"
    by (simp add: Subscribe_def hub_new_def broker_New_def Let_def)
  from hub_step.connect [OF this, of example_env] have "hub_step example_env hub_new ?h" by (simp add: hub_new_def)
  with hub_reachable.start have r: "hub_reachable example_env ?h" by (rule hub_reachable.step)
  have "\<exists>b. broker_Publish example_env (bare (WindowOpened 7)) (hb_broker ?h) = Some b"
    using Publish_open [of ?h] hub_reachable_ok [OF r] by (simp add: hub_ok_def)
  then have "broker_Publish example_env (bare (WindowOpened 7)) (hb_broker ?h) =
      Some (the (broker_Publish example_env (bare (WindowOpened 7)) (hb_broker ?h)))" by auto
  from hub_reachable.step [OF r hub_step.publish [OF this]] show ?thesis by (simp only: watched_hub_def Let_def)
qed

theorem event_stream_faithful_witness:
  "hb_taken watched_hub 0 @ ch_queue (br_heap (hb_broker watched_hub) 0) = [bare (WindowOpened 7)]"
proof -
  have "(''uuid'', 0) \<in> set (hb_open watched_hub)" "hb_lost watched_hub 0 = 0" "hb_sent watched_hub 0 = [bare (WindowOpened 7)]"
    by (simp_all add: watched_hub_def Let_def note_sent_def event_for_def example_env_def hub_new_def bare_def
        Subscribe_def broker_New_def subChannelBuf_def)
  then show ?thesis using event_stream_faithful [OF watched_hub_reachable, of "bare (WindowOpened 7)"] by (auto simp: Let_def)
qed

end
