(* ===== verification/Http.thy ===== *)
theory Http
  imports System AuditCli
begin

text \<open>
  The HTTP layer's common part (internal/infrastructure/api): requests and responses, the error
  envelope and the mapping of service errors to statuses (respond.go), authentication, the admin and
  ops gates and the body limit (middleware.go), and the server's configuration (server.go).

  A request is what the router hands to a handler: the path and query parameters, the two headers the
  handlers read, the body, and the authenticated address of the context.  A response is its status and
  body; the text of an error message, the other headers and the access log are not modelled.
\<close>

section \<open>Requests and responses\<close>

record http_request =
  rq_Params :: "(string \<times> string) list"      \<comment> \<open>\<open>chi.URLParam\<close>\<close>
  rq_Query :: "(string \<times> string) list"
  rq_Authorization :: string
  rq_ContentType :: string
  rq_Body :: bytes
  rq_Operator :: string                       \<comment> \<open>the context value of \<open>operatorAddrKey\<close>\<close>

datatype http_body =
    JSONBody json
  | ErrorBody string                          \<comment> \<open>an error envelope, by its code\<close>
  | GentxInvalidBody "(string \<times> bool \<times> string) list"   \<comment> \<open>the envelope with the failed invariants\<close>
  | TextBody string
  | FileBody bytes
  | Redirect string
  | StreamBody string                         \<comment> \<open>an event stream of a launch\<close>
  | EmptyBody

record http_response =
  hs_Status :: nat
  hs_Body :: http_body

type_synonym handler = "http_request \<Rightarrow> world \<Rightarrow> http_response \<times> world"

definition URLParam :: "http_request \<Rightarrow> string \<Rightarrow> string" where
  "URLParam r k = (case map_of (rq_Params r) k of None \<Rightarrow> [] | Some v \<Rightarrow> v)"

definition query_Get :: "http_request \<Rightarrow> string \<Rightarrow> string" where
  \<comment> \<open>\<open>r.URL.Query().Get\<close>: the first value\<close>
  "query_Get r k = (case map_of (rq_Query r) k of None \<Rightarrow> [] | Some v \<Rightarrow> v)"

definition operatorFromContext :: "http_request \<Rightarrow> string" where
  "operatorFromContext r = rq_Operator r"

definition respond :: "nat \<Rightarrow> http_body \<Rightarrow> world \<Rightarrow> http_response \<times> world" where
  "respond status b w = (\<lparr>hs_Status = status, hs_Body = b\<rparr>, w)"

definition writeJSON :: "nat \<Rightarrow> json \<Rightarrow> world \<Rightarrow> http_response \<times> world" where
  "writeJSON status v = respond status (JSONBody v)"

definition writeError :: "nat \<Rightarrow> string \<Rightarrow> world \<Rightarrow> http_response \<times> world" where
  "writeError status code = respond status (ErrorBody code)"

section \<open>Errors\<close>

definition gentx_results :: "goerror \<Rightarrow> (string \<times> bool \<times> string) list option" where
  \<comment> \<open>\<open>errors.As(err, &gentxErr)\<close>\<close>
  "gentx_results e = (case filter (\<lambda>s. case s of GentxInvalidError _ \<Rightarrow> True | _ \<Rightarrow> False) e of
     GentxInvalidError rs # _ \<Rightarrow> Some rs | _ \<Rightarrow> None)"

definition service_status :: "goerror \<Rightarrow> nat \<times> string" where
  \<comment> \<open>the \<open>switch\<close> of \<open>writeServiceError\<close>\<close>
  "service_status e =
     (if errors_Is e ErrNotFound then (404, ''not_found'')
      else if errors_Is e ErrConflict then (409, ''conflict'')
      else if errors_Is e ErrUnauthorized then (401, ''unauthorized'')
      else if errors_Is e ErrForbidden then (403, ''forbidden'')
      else if errors_Is e ErrBadRequest then (400, ''bad_request'')
      else if errors_Is e ErrTooManyRequests then (429, ''too_many_requests'')
      else (500, ''internal_error''))"

definition writeServiceError :: "goerror \<Rightarrow> world \<Rightarrow> http_response \<times> world" where
  "writeServiceError e = (case gentx_results e of
     Some rs \<Rightarrow> respond 400 (GentxInvalidBody rs)
   | None \<Rightarrow> (case service_status e of (st, code) \<Rightarrow> writeError st code))"

definition recoveryMiddleware :: "world \<Rightarrow> http_response \<times> world" where
  \<comment> \<open>the response to a recovered panic\<close>
  "recoveryMiddleware = writeError 500 ''internal_error''"

definition calls :: "'a io \<Rightarrow> (goerror \<Rightarrow> world \<Rightarrow> http_response \<times> world) \<Rightarrow>
    ('a \<Rightarrow> world \<Rightarrow> http_response \<times> world) \<Rightarrow> world \<Rightarrow> http_response \<times> world" where
  \<comment> \<open>\<open>x, err := service(...)\<close> with the branches on \<open>err\<close>; a panic unwinds to the recovery\<close>
  "calls m onError k w = (case m w of
     (Inl e, w') \<Rightarrow> if errors_Is e GoPanic then recoveryMiddleware w' else onError e w'
   | (Inr x, w') \<Rightarrow> k x w')"

definition answer :: "'a io \<Rightarrow> ('a \<Rightarrow> world \<Rightarrow> http_response \<times> world) \<Rightarrow> world \<Rightarrow> http_response \<times> world" where
  "answer m k = calls m writeServiceError k"

definition with_uuid :: "env \<Rightarrow> http_request \<Rightarrow> string \<Rightarrow> (uuid \<Rightarrow> world \<Rightarrow> http_response \<times> world) \<Rightarrow>
    world \<Rightarrow> http_response \<times> world" where
  "with_uuid E r name k = (case uuid_Parse E (URLParam r name) of
     None \<Rightarrow> writeError 400 ''invalid_id'' | Some u \<Rightarrow> k u)"

definition decoded_body :: "http_request \<Rightarrow> ((string \<times> json) list \<Rightarrow> 'a result) \<Rightarrow>
    ('a \<Rightarrow> world \<Rightarrow> http_response \<times> world) \<Rightarrow> world \<Rightarrow> http_response \<times> world" where
  \<comment> \<open>\<open>json.NewDecoder(r.Body).Decode(&body)\<close> into a struct\<close>
  "decoded_body r dec k = (case json_first (rq_Body r) of
     None \<Rightarrow> writeError 400 ''invalid_body''
   | Some v \<Rightarrow> (case and_then (json_object v) dec of
       Inl _ \<Rightarrow> writeError 400 ''invalid_body'' | Inr x \<Rightarrow> k x))"

section \<open>Pagination\<close>

definition defaultPage :: int where "defaultPage = 1"
definition defaultPerPage :: int where "defaultPerPage = 20"
definition maxPerPage :: int where "maxPerPage = 100"

definition page_param :: "string \<Rightarrow> int \<Rightarrow> int option" where
  \<comment> \<open>one of the two parameters: \<open>None\<close> is the 400\<close>
  "page_param s dflt = (if s = [] then Some dflt
     else case Atoi s of None \<Rightarrow> None | Some v \<Rightarrow> if v < 1 then None else Some v)"

definition parsePagination :: "http_request \<Rightarrow> (int \<times> int) option" where
  "parsePagination r = (case page_param (query_Get r ''page'') defaultPage of
     None \<Rightarrow> None
   | Some page \<Rightarrow> (case page_param (query_Get r ''per_page'') defaultPerPage of
       None \<Rightarrow> None
     | Some perPage \<Rightarrow> Some (page, if perPage > maxPerPage then maxPerPage else perPage)))"

definition paginated :: "http_request \<Rightarrow> (int \<times> int \<Rightarrow> world \<Rightarrow> http_response \<times> world) \<Rightarrow>
    world \<Rightarrow> http_response \<times> world" where
  "paginated r k = (case parsePagination r of None \<Rightarrow> writeError 400 ''invalid_param'' | Some pg \<Rightarrow> k pg)"

definition pageEnvelope :: "json list \<Rightarrow> int \<Rightarrow> int \<times> int \<Rightarrow> json" where
  "pageEnvelope items n pg = JObj [(''items'', JArr items), (''total'', j_int n),
     (''page'', j_int (fst pg)), (''per_page'', j_int (snd pg))]"

section \<open>Server\<close>

record Server =
  sv_adminAddresses :: "string set"
  sv_launchPolicy :: string
  sv_genesisHostMode :: bool
  sv_genesisMaxBytes :: int
  sv_disableRateLimit :: bool
  sv_cfg :: service_cfg
  sv_auditPubKey :: "nat list option"
  sv_rehearsalOpsToken :: string
  sv_healthCheck :: "(world \<Rightarrow> bool) option"
  sv_LimitByIP :: "nat \<Rightarrow> http_request \<Rightarrow> bool"   \<comment> \<open>httprate: the address is over that many per minute\<close>
  sv_auditFile :: "world \<Rightarrow> bytes"         \<comment> \<open>the bytes of the audit log\<close>
  sv_metrics :: http_body                  \<comment> \<open>what promhttp serves\<close>
  sv_FormatFloat :: "rat \<Rightarrow> string"        \<comment> \<open>the JSON number of a float64\<close>

definition accountLookupKey :: "env \<Rightarrow> string \<Rightarrow> string" where
  "accountLookupKey E addr = (case NewAccountID E addr of Inr a \<Rightarrow> Hex a | Inl _ \<Rightarrow> addr)"

definition admin_set :: "env \<Rightarrow> string list \<Rightarrow> string set" where
  \<comment> \<open>the map \<open>NewServer\<close> builds from the configured addresses\<close>
  "admin_set E adminAddresses = accountLookupKey E ` set adminAddresses"

definition maxJSONBody :: nat where "maxJSONBody = 1048576"

section \<open>Middleware\<close>

definition HasPrefix :: "string \<Rightarrow> string \<Rightarrow> bool" where
  "HasPrefix s p \<longleftrightarrow> take (length p) s = p"

definition bearerToken :: "http_request \<Rightarrow> string" where
  "bearerToken r = (let hdr = rq_Authorization r in
     if HasPrefix hdr ''Bearer '' then TrimSpace (drop 7 hdr) else [])"

definition authenticated :: "env \<Rightarrow> Server \<Rightarrow> time \<Rightarrow> http_request \<Rightarrow> (string \<Rightarrow> world \<Rightarrow> http_response \<times> world) \<Rightarrow>
    world \<Rightarrow> http_response \<times> world" where
  \<comment> \<open>the part \<open>requireAuth\<close> and \<open>requireAdmin\<close> share\<close>
  "authenticated E S now r k = (let token = bearerToken r in
     if token = [] then writeError 401 ''missing_token''
     else calls (sessions_Validate E (au_jwt (sc_auth (sv_cfg S))) now token)
       (\<lambda>e. if errors_Is e ErrUnauthorized then writeError 401 ''invalid_token'' else writeError 500 ''internal_error'') k)"

definition requireAuth :: "env \<Rightarrow> Server \<Rightarrow> time \<Rightarrow> handler \<Rightarrow> handler" where
  "requireAuth E S now nxt r = authenticated E S now r (\<lambda>operatorAddr. nxt (r\<lparr>rq_Operator := operatorAddr\<rparr>))"

definition requireAdmin :: "env \<Rightarrow> Server \<Rightarrow> time \<Rightarrow> handler \<Rightarrow> handler" where
  "requireAdmin E S now nxt r = authenticated E S now r (\<lambda>operatorAddr.
     if accountLookupKey E operatorAddr \<notin> sv_adminAddresses S then writeError 403 ''forbidden''
     else nxt (r\<lparr>rq_Operator := operatorAddr\<rparr>))"

definition optionalAuth :: "env \<Rightarrow> Server \<Rightarrow> time \<Rightarrow> handler \<Rightarrow> handler" where
  "optionalAuth E S now nxt r w = (let token = bearerToken r in
     if token = [] then nxt r w
     else case sessions_Validate E (au_jwt (sc_auth (sv_cfg S))) now token w of
       (Inl _, w') \<Rightarrow> nxt r w'
     | (Inr operatorAddr, w') \<Rightarrow> nxt (r\<lparr>rq_Operator := operatorAddr\<rparr>) w')"

definition requireOps :: "Server \<Rightarrow> handler \<Rightarrow> handler" where
  "requireOps S nxt r = (if sv_rehearsalOpsToken S = [] then writeError 401 ''ops_credential_required''
     else let token = bearerToken r in
       if token = [] \<or> token \<noteq> sv_rehearsalOpsToken S then writeError 401 ''invalid_ops_credential'' else nxt r)"

definition requireJSONBody :: "handler \<Rightarrow> handler" where
  \<comment> \<open>reading past the limit fails, and so does the decoder when it needs more than the limit\<close>
  "requireJSONBody nxt r = (if \<not> HasPrefix (rq_ContentType r) ''application/json''
     then writeError 415 ''unsupported_media_type''
     else nxt (r\<lparr>rq_Body := take maxJSONBody (rq_Body r)\<rparr>))"

definition jsonPOST :: "env \<Rightarrow> Server \<Rightarrow> time \<Rightarrow> handler \<Rightarrow> handler" where
  "jsonPOST E S now h = requireAuth E S now (requireJSONBody h)"

definition jsonAdminPOST :: "env \<Rightarrow> Server \<Rightarrow> time \<Rightarrow> handler \<Rightarrow> handler" where
  "jsonAdminPOST E S now h = requireAdmin E S now (requireJSONBody h)"

end
