(* ===== verification/ApiJson.thy ===== *)
theory ApiJson
  imports Http
begin

text \<open>
  The wire types of the HTTP API: how the aggregates are rendered as JSON and how the request bodies
  are decoded, with the struct-field rules of encoding/json.  A raw message is rendered as its value.
\<close>

section \<open>Names of the enumerations\<close>

fun status_string :: "Status \<Rightarrow> string" where
  "status_string StatusDraft = ''DRAFT''"
| "status_string StatusPublished = ''PUBLISHED''"
| "status_string StatusWindowOpen = ''WINDOW_OPEN''"
| "status_string StatusWindowClosed = ''WINDOW_CLOSED''"
| "status_string StatusGenesisReady = ''GENESIS_READY''"
| "status_string StatusLaunched = ''LAUNCHED''"
| "status_string StatusCancelled = ''CANCELED''"

fun jr_status_string :: "JRStatus \<Rightarrow> string" where
  "jr_status_string JRPending = ''PENDING''"
| "jr_status_string JRApproved = ''APPROVED''"
| "jr_status_string JRRejected = ''REJECTED''"
| "jr_status_string JRExpired = ''EXPIRED''"

fun proposal_status_string :: "PStatus \<Rightarrow> string" where
  "proposal_status_string PStatusPendingSignatures = ''PENDING_SIGNATURES''"
| "proposal_status_string PStatusExecuted = ''EXECUTED''"
| "proposal_status_string PStatusVetoed = ''VETOED''"
| "proposal_status_string PStatusExpired = ''EXPIRED''"

fun allocation_status_string :: "AllocationFileStatus \<Rightarrow> string" where
  "allocation_status_string AllocationPending = ''PENDING''"
| "allocation_status_string AllocationApproved = ''APPROVED''"
| "allocation_status_string AllocationRejected = ''REJECTED''"

fun outcome_string :: "RehearsalOutcome \<Rightarrow> string" where
  "outcome_string OutcomePass = ''PASS''"
| "outcome_string OutcomeFail = ''FAIL''"
| "outcome_string OutcomeError = ''ERROR''"
| "outcome_string OutcomeSkipped = ''SKIPPED''"
| "outcome_string (OutcomeOther s) = s"

fun threshold_string :: "ThresholdStatus \<Rightarrow> string" where
  "threshold_string StatusReachable = ''REACHABLE''"
| "threshold_string StatusConfirmed = ''CONFIRMED''"
| "threshold_string StatusAtRisk = ''AT_RISK''"

definition parse_launch_type :: "string \<Rightarrow> LaunchType" where
  \<comment> \<open>the conversion \<open>launch.LaunchType(s)\<close>\<close>
  "parse_launch_type s = (if s = ''TESTNET'' then LaunchTypeTestnet
     else if s = ''INCENTIVIZED_TESTNET'' then LaunchTypeIncentivizedTestnet
     else if s = ''MAINNET'' then LaunchTypeMainnet
     else if s = ''PERMISSIONED'' then LaunchTypePermissioned else LaunchTypeOther s)"

definition parse_decision :: "string \<Rightarrow> Decision" where
  "parse_decision s = (if s = ''SIGN'' then DecisionSign else if s = ''VETO'' then DecisionVeto else DecisionOther s)"

definition parse_action :: "string \<Rightarrow> ActionType" where
  "parse_action s = (case find (\<lambda>a. action_string a = s)
       [ActionApproveValidator, ActionRejectValidator, ActionRemoveApprovedValidator, ActionApproveAllocationFile,
        ActionPublishChainRecord, ActionCloseApplicationWindow, ActionPublishGenesis, ActionUpdateGenesisTime,
        ActionReplaceCommitteeMember, ActionReviseGenesis, ActionExpandCommittee, ActionShrinkCommittee, ActionCancelLaunch]
     of Some a \<Rightarrow> a | None \<Rightarrow> ActionUnknown s)"

section \<open>Rendering\<close>

definition omit_empty :: "string \<Rightarrow> string \<Rightarrow> (string \<times> json) list" where
  "omit_empty k s = (if s = [] then [] else [(k, JStr s)])"

definition omit_none :: "string \<Rightarrow> json option \<Rightarrow> (string \<times> json) list" where
  "omit_none k v = (case v of None \<Rightarrow> [] | Some x \<Rightarrow> [(k, x)])"

definition raw_message :: "bytes \<Rightarrow> json" where
  \<comment> \<open>a stored raw message is valid JSON; the empty one prints as \<open>null\<close>\<close>
  "raw_message b = (case json_parse b of None \<Rightarrow> JNull | Some v \<Rightarrow> v)"

definition chainRecordJSON :: "env \<Rightarrow> ChainRecord \<Rightarrow> json" where
  "chainRecordJSON E r = JObj ([(''chain_id'', JStr (r_ChainID r)), (''chain_name'', JStr (r_ChainName r)),
     (''bech32_prefix'', JStr (r_Bech32Prefix r)), (''binary_name'', JStr (r_BinaryName r)),
     (''binary_version'', JStr (r_BinaryVersion r)), (''binary_sha256'', JStr (r_BinarySHA256 r)),
     (''repo_url'', JStr (r_RepoURL r)), (''repo_commit'', JStr (r_RepoCommit r))] @
     omit_none ''genesis_time'' (map_option (j_time E) (r_GenesisTime r)) @
     [(''denom'', JStr (r_Denom r)), (''min_self_delegation'', JStr (r_MinSelfDelegation r))] @
     omit_empty ''total_supply'' (r_TotalSupply r) @
     [(''max_commission_rate'', JStr (cr_value (r_MaxCommissionRate r))),
      (''max_commission_change_rate'', JStr (cr_value (r_MaxCommissionChangeRate r))),
      (''gentx_deadline'', j_time E (r_GentxDeadline r)), (''min_validator_count'', j_int (r_MinValidatorCount r))])"

definition launchToJSON :: "env \<Rightarrow> Launch \<Rightarrow> json" where
  "launchToJSON E l = JObj ([(''id'', j_uuid E (l_ID l)), (''record'', chainRecordJSON E (l_Record l)),
     (''launch_type'', JStr (launch_type_string (l_LaunchType l))), (''status'', JStr (status_string (l_Status l)))] @
     omit_empty ''initial_genesis_sha256'' (l_InitialGenesisSHA256 l) @
     omit_empty ''final_genesis_sha256'' (l_FinalGenesisSHA256 l) @
     omit_empty ''monitor_rpc_url'' (l_MonitorRPCURL l) @
     omit_empty ''rehearsal_service_pubkey'' (l_RehearsalServicePubKey l) @
     omit_empty ''rehearsal_endpoint'' (l_RehearsalEndpoint l) @
     [(''created_at'', j_time E (l_CreatedAt l)), (''updated_at'', j_time E (l_UpdatedAt l))])"

definition committeeMemberJSON :: "CommitteeMember \<Rightarrow> json" where
  "committeeMemberJSON m = JObj [(''address'', JStr (AccountID_String (cm_Address m))), (''moniker'', JStr (cm_Moniker m))]"

definition committeeToJSON :: "env \<Rightarrow> Committee \<Rightarrow> json" where
  "committeeToJSON E c = JObj [(''id'', j_uuid E (c_ID c)), (''members'', JArr (map committeeMemberJSON (c_Members c))),
     (''threshold_m'', j_int (c_ThresholdM c)), (''total_n'', j_int (c_TotalN c)),
     (''lead_address'', JStr (AccountID_String (c_LeadAddress c))), (''created_at'', j_time E (c_CreatedAt c))]"

definition memberToJSON :: "env \<Rightarrow> Member \<Rightarrow> json" where
  "memberToJSON E m = JObj ([(''address'', JStr (AccountID_String (mem_Address m))), (''label'', JStr (mem_Label m))] @
     omit_empty ''added_by'' (mem_AddedBy m) @
     omit_empty ''added_at'' (if time_IsZero (mem_AddedAt m) then [] else time_FormatRFC3339 E (mem_AddedAt m)))"

definition joinRequestToJSON :: "env \<Rightarrow> JoinRequest \<Rightarrow> json" where
  "joinRequestToJSON E jr = JObj ([(''id'', j_uuid E (jr_ID jr)),
     (''submitter_address'', JStr (AccountID_String (jr_SubmitterAddress jr))), (''launch_id'', j_uuid E (jr_LaunchID jr)),
     (''operator_address'', JStr (AccountID_String (jr_OperatorAddress jr))),
     (''self_delegation'', JStr (Itoa (sint (SelfDelegationAmount jr)))), (''moniker'', JStr (Moniker jr)),
     (''consensus_pubkey'', JStr (jr_ConsensusPubKey jr)), (''gentx'', raw_message (jr_GentxJSON jr)),
     (''peer_address'', JStr (pa_value (jr_PeerAddress jr))), (''rpc_endpoint'', JStr (rpc_value (jr_RPCEndpoint jr))),
     (''memo'', JStr (jr_Memo jr)), (''submitted_at'', j_time E (jr_SubmittedAt jr)),
     (''status'', JStr (jr_status_string (jr_Status jr)))] @
     omit_empty ''rejection_reason'' (jr_RejectionReason jr) @
     omit_none ''approved_by_proposal'' (map_option (j_uuid E) (jr_ApprovedByProposal jr)))"

definition gentxEntry :: "env \<Rightarrow> JoinRequest \<Rightarrow> json" where
  "gentxEntry E jr = JObj [(''join_request_id'', j_uuid E (jr_ID jr)),
     (''operator_address'', JStr (AccountID_String (jr_OperatorAddress jr))),
     (''consensus_pubkey'', JStr (jr_ConsensusPubKey jr)), (''gentx'', raw_message (jr_GentxJSON jr))]"

definition submitterGroupJSON :: "env \<Rightarrow> SubmitterGroup \<Rightarrow> json" where
  \<comment> \<open>the sum of the delegations is an int64\<close>
  "submitterGroupJSON E g = JObj [(''submitter_address'', JStr (AccountID_String (sg_SubmitterAddress g))),
     (''label'', JStr (sg_Label g)), (''request_count'', j_int (int (length (sg_Requests g)))),
     (''total_self_delegation'', JStr (Itoa (sint (sum_list (map SelfDelegationAmount (sg_Requests g)))))),
     (''requests'', JArr (map (joinRequestToJSON E) (sg_Requests g)))]"

definition signatureEntryJSON :: "env \<Rightarrow> SignatureEntry \<Rightarrow> json" where
  "signatureEntryJSON E s = JObj [(''member_address'', JStr (AccountID_String (se_MemberAddress s))),
     (''decision'', JStr (decision_string (se_Decision s))), (''timestamp'', j_time E (se_Timestamp s))]"

definition proposalToJSON :: "env \<Rightarrow> Proposal \<Rightarrow> json" where
  "proposalToJSON E p = JObj ([(''id'', j_uuid E (p_ID p)), (''launch_id'', j_uuid E (p_LaunchID p)),
     (''action_type'', JStr (action_string (p_ActionType p))), (''payload'', raw_message (p_Payload p)),
     (''proposed_by'', JStr (AccountID_String (p_ProposedBy p))), (''proposed_at'', j_time E (p_ProposedAt p)),
     (''ttl_expires'', j_time E (p_TTLExpires p)), (''status'', JStr (proposal_status_string (p_Status p)))] @
     omit_none ''executed_at'' (map_option (j_time E) (p_ExecutedAt p)) @
     [(''signatures'', JArr (map (signatureEntryJSON E) (p_Signatures p)))])"

definition allocationFileMeta :: "env \<Rightarrow> AllocationFile \<Rightarrow> json" where
  "allocationFileMeta E f = JObj ([(''type'', JStr (af_Type f)), (''sha256'', JStr (af_SHA256 f)),
     (''status'', JStr (allocation_status_string (af_Status f)))] @
     omit_none ''approved_by_proposal'' (map_option (j_uuid E) (af_ApprovedByProposal f)) @
     [(''uploaded_at'', j_time E (af_UploadedAt f))])"

definition rehearsalResultToJSON :: "env \<Rightarrow> RehearsalResult \<Rightarrow> json" where
  "rehearsalResultToJSON E res = JObj ([(''attempt_id'', j_uuid E (rr_AttemptID res)),
     (''input_set_hash'', JStr (rr_InputSetHash res)), (''outcome'', JStr (outcome_string (rr_Outcome res)))] @
     omit_empty ''failed_step'' (rr_FailedStep res) @
     [(''summary'', JStr (rr_Summary res)),
      (''steps'', JArr (map (\<lambda>s. JObj [(''name'', JStr (rs_Name s)), (''status'', JStr (rs_Status s)),
         (''detail'', JStr (rs_Detail s))]) (rr_Steps res))),
      (''engine_version'', JStr (rr_EngineVersion res)), (''binary_name'', JStr (rr_BinaryName res)),
      (''binary_version'', JStr (rr_BinaryVersion res)), (''binary_sha256'', JStr (rr_BinarySHA256 res)),
      (''validators'', j_int (rr_Validators res)), (''blocks_advanced'', j_int (rr_BlocksAdvanced res)),
      (''started_at'', JStr (time_FormatRFC3339 E (rr_StartedAt res))),
      (''finished_at'', JStr (time_FormatRFC3339 E (rr_FinishedAt res))),
      (''stale'', JBool (rr_Stale res)), (''recorded_at'', JStr (time_FormatRFC3339 E (rr_RecordedAt res)))])"

definition bridgeAllocationURL :: "string \<Rightarrow> string \<Rightarrow> string" where
  "bridgeAllocationURL launchID allocType = ''/api/v1/bridge/launches/'' @ launchID @ ''/allocations/'' @ allocType"

definition alloc_map :: "('k \<times> json) list \<Rightarrow> ('k :: linorder \<times> json) list" where
  \<comment> \<open>a Go map prints with sorted keys, a later entry of a key replacing an earlier one\<close>
  "alloc_map kvs = map (\<lambda>k. (k, the (map_of (rev kvs) k))) (sort (remdups (map fst kvs)))"

definition rehearsalInputToJSON :: "env \<Rightarrow> RehearsalInput \<Rightarrow> json" where
  "rehearsalInputToJSON E i = (let c = ri_Chain i in JObj [
     (''schema_version'', j_int 1), (''launch_id'', j_uuid E (ri_LaunchID i)), (''attempt_id'', j_uuid E (ri_AttemptID i)),
     (''generated_at'', JStr (time_FormatRFC3339 E (ri_GeneratedAt i))), (''status'', JStr (status_string (ri_Status i))),
     (''chain'', JObj [(''chain_id'', JStr (ch_ChainID c)), (''bech32_prefix'', JStr (ch_Bech32Prefix c)),
        (''denom'', JStr (ch_Denom c)), (''total_supply'', JStr (ch_TotalSupply c)),
        (''min_self_delegation'', JStr (ch_MinSelfDelegation c)), (''max_commission_rate'', JStr (ch_MaxCommissionRate c)),
        (''max_commission_change_rate'', JStr (ch_MaxCommissionChangeRate c)),
        (''min_validator_count'', j_int (ch_MinValidatorCount c)), (''genesis_time'', rfc3339OrNil E (ch_GenesisTime c)),
        (''binary'', JObj [(''name'', JStr (ch_BinaryName c)), (''version'', JStr (ch_BinaryVersion c)),
           (''sha256'', JStr (ch_BinarySHA256 c)), (''repo_url'', JStr (ch_RepoURL c)), (''repo_commit'', JStr (ch_RepoCommit c))])]),
     (''gentxs'', JArr (map (\<lambda>g. JObj [(''operator_address'', JStr (rg_OperatorAddress g)),
        (''consensus_pubkey'', JStr (rg_ConsensusPubKey g)), (''moniker'', JStr (rg_Moniker g)),
        (''self_delegation'', JStr (rg_SelfDelegation g)), (''gentx'', raw_message (rg_GentxJSON g))]) (ri_Gentxs i))),
     (''allocations'', JObj (alloc_map (map (\<lambda>a. (al_Type a, JObj [(''sha256'', JStr (al_SHA256 a)),
        (''approved_by_proposal'', JStr (al_ApprovedByProposal a)),
        (''url'', JStr (bridgeAllocationURL (uuid_String E (ri_LaunchID i)) (al_Type a)))])) (ri_Allocations i)))),
     (''input_set_hash'', JStr (ri_InputSetHash i))])"

definition validatorReadinessJSON :: "env \<Rightarrow> Server \<Rightarrow> ValidatorReadiness \<Rightarrow> json" where
  "validatorReadinessJSON E S v = JObj ([(''join_request_id'', j_uuid E (vr_JoinRequestID v)),
     (''operator_address'', JStr (vr_OperatorAddress v)), (''moniker'', JStr (vr_Moniker v)),
     (''voting_power_pct'', JNum (sv_FormatFloat S (vr_VotingPowerPct v))), (''is_ready'', JBool (vr_IsReady v))] @
     omit_none ''last_confirmed_at'' (map_option (j_time E) (vr_LastConfirmedAt v)) @
     omit_empty ''genesis_hash_confirmed'' (vr_GenesisHashConfirmed v) @
     omit_empty ''binary_hash_confirmed'' (vr_BinaryHashConfirmed v))"

definition dashboardJSON :: "env \<Rightarrow> Server \<Rightarrow> LaunchDashboard \<Rightarrow> ReadinessDashboard \<Rightarrow> json" where
  "dashboardJSON E S d rd = JObj [(''launch_id'', j_uuid E (d_LaunchID d)), (''chain_id'', JStr (d_ChainID d)),
     (''status'', JStr (status_string (d_Status d))),
     (''genesis_time'', case d_GenesisTime d of None \<Rightarrow> JNull | Some t \<Rightarrow> j_time E t),
     (''final_genesis_sha256'', JStr (d_FinalGenesisSHA256 d)), (''total_approved'', j_int (rd_TotalApproved rd)),
     (''confirmed_ready'', j_int (rd_ConfirmedReady rd)),
     (''voting_power_confirmed'', JNum (sv_FormatFloat S (rd_VotingPowerConfirmed rd))),
     (''threshold_status'', JStr (threshold_string (rd_ThresholdStatus rd))),
     (''validators'', JArr (map (validatorReadinessJSON E S) (rd_PerValidator rd)))]"

section \<open>Decoding\<close>

text \<open>A \<open>json.RawMessage\<close> field keeps the bytes of its value, found by walking the members of the body.\<close>

fun raw_members :: "nat \<Rightarrow> string \<Rightarrow> (string \<times> bytes) list" where
  "raw_members 0 s = []"
| "raw_members (Suc n) s = (case json_key s of
     None \<Rightarrow> []
   | Some (k, s1) \<Rightarrow>
     let t = skip_ws s1 in
     (case json_value (Suc (2 * length t)) t of
        None \<Rightarrow> []
      | Some (v, rest) \<Rightarrow> (k, take (length t - length rest) t) #
          (case json_close (CHR '','') rest of None \<Rightarrow> [] | Some u \<Rightarrow> raw_members n u)))"

definition raw_field :: "string \<Rightarrow> bytes \<Rightarrow> bytes" where
  \<comment> \<open>the last value of the key, empty when there is none\<close>
  "raw_field name b = (case json_close (CHR ''{'') b of
     None \<Rightarrow> []
   | Some s \<Rightarrow> (case filter (\<lambda>(k, _). ToLower k = ToLower name) (raw_members (length s) s) of
       [] \<Rightarrow> [] | kvs \<Rightarrow> snd (last kvs)))"

definition dec_int :: "int \<Rightarrow> json \<Rightarrow> int result" where
  "dec_int old v = (case v of
     JNum s \<Rightarrow> (case int_of_literal s of None \<Rightarrow> Inl [] | Some i \<Rightarrow> Inr i) | JNull \<Rightarrow> Inr old | _ \<Rightarrow> Inl [])"

definition int_field :: "string \<Rightarrow> (string \<times> json) list \<Rightarrow> int result" where
  "int_field name kvs = store dec_int 0 (field_values name kvs)"

definition dec_ptr :: "('a \<Rightarrow> json \<Rightarrow> 'a result) \<Rightarrow> 'a \<Rightarrow> 'a option \<Rightarrow> json \<Rightarrow> 'a option result" where
  \<comment> \<open>a pointer field: \<open>null\<close> sets it to nil\<close>
  "dec_ptr dec zero old v = (case v of
     JNull \<Rightarrow> Inr None
   | _ \<Rightarrow> and_then (dec (case old of None \<Rightarrow> zero | Some x \<Rightarrow> x) v) (\<lambda>y. Inr (Some y)))"

definition string_ptr_field :: "string \<Rightarrow> (string \<times> json) list \<Rightarrow> string option result" where
  "string_ptr_field name kvs = store (dec_ptr dec_string []) None (field_values name kvs)"

definition time_ptr_field :: "env \<Rightarrow> string \<Rightarrow> (string \<times> json) list \<Rightarrow> time option result" where
  "time_ptr_field E name kvs = store (dec_ptr (dec_text (time_ParseRFC3339 E)) 0) None (field_values name kvs)"

definition strings_of :: "json list \<Rightarrow> string list result" where
  "strings_of vs = all_results (dec_string []) vs"

definition decode_submit :: "bytes \<Rightarrow> (string \<times> json) list \<Rightarrow> SubmitInput result" where
  "decode_submit b kvs =
     and_then (string_field ''chain_id'' kvs) (\<lambda>c.
     and_then (string_field ''operator_address'' kvs) (\<lambda>a.
     and_then (string_field ''pubkey_b64'' kvs) (\<lambda>k.
     and_then (string_field ''peer_address'' kvs) (\<lambda>p.
     and_then (string_field ''rpc_endpoint'' kvs) (\<lambda>r.
     and_then (string_field ''memo'' kvs) (\<lambda>m.
     and_then (string_field ''timestamp'' kvs) (\<lambda>t.
     and_then (string_field ''nonce'' kvs) (\<lambda>n.
     and_then (string_field ''signature'' kvs) (\<lambda>s.
     Inr \<lparr>si_ChainID = c, si_OperatorAddress = a, si_PubKeyB64 = k, si_GentxJSON = raw_field ''gentx'' b,
          si_PeerAddress = p, si_RPCEndpoint = r, si_Memo = m, si_Timestamp = t, si_Nonce = n, si_Signature = s\<rparr>)))))))))"

definition decode_raise :: "bytes \<Rightarrow> (string \<times> json) list \<Rightarrow> RaiseInput result" where
  "decode_raise b kvs =
     and_then (string_field ''action_type'' kvs) (\<lambda>a.
     and_then (string_field ''member_address'' kvs) (\<lambda>m.
     and_then (string_field ''nonce'' kvs) (\<lambda>n.
     and_then (string_field ''timestamp'' kvs) (\<lambda>t.
     and_then (string_field ''signature'' kvs) (\<lambda>s.
     and_then (string_field ''pubkey_b64'' kvs) (\<lambda>k.
     Inr \<lparr>rin_ActionType = parse_action a, rin_Payload = raw_field ''payload'' b, rin_MemberAddr = m, rin_Nonce = n,
          rin_Timestamp = t, rin_Signature = s, rin_PubKeyB64 = k\<rparr>))))))"

definition decode_sign :: "(string \<times> json) list \<Rightarrow> SignInput result" where
  "decode_sign kvs =
     and_then (string_field ''member_address'' kvs) (\<lambda>m.
     and_then (string_field ''decision'' kvs) (\<lambda>d.
     and_then (string_field ''nonce'' kvs) (\<lambda>n.
     and_then (string_field ''timestamp'' kvs) (\<lambda>t.
     and_then (string_field ''signature'' kvs) (\<lambda>s.
     and_then (string_field ''pubkey_b64'' kvs) (\<lambda>k.
     Inr \<lparr>sin_MemberAddr = m, sin_Decision = parse_decision d, sin_Nonce = n, sin_Timestamp = t, sin_Signature = s,
          sin_PubKeyB64 = k\<rparr>))))))"

definition decode_confirm :: "(string \<times> json) list \<Rightarrow> ConfirmInput result" where
  "decode_confirm kvs =
     and_then (string_field ''operator_address'' kvs) (\<lambda>a.
     and_then (string_field ''pubkey_b64'' kvs) (\<lambda>k.
     and_then (string_field ''genesis_hash_confirmed'' kvs) (\<lambda>g.
     and_then (string_field ''binary_hash_confirmed'' kvs) (\<lambda>b.
     and_then (string_field ''nonce'' kvs) (\<lambda>n.
     and_then (string_field ''timestamp'' kvs) (\<lambda>t.
     and_then (string_field ''signature'' kvs) (\<lambda>s.
     Inr \<lparr>ci_OperatorAddress = a, ci_PubKeyB64 = k, ci_GenesisHashConfirmed = g, ci_BinaryHashConfirmed = b,
          ci_Nonce = n, ci_Timestamp = t, ci_Signature = s\<rparr>)))))))"

definition decode_verify :: "(string \<times> json) list \<Rightarrow> VerifyChallengeInput result" where
  "decode_verify kvs =
     and_then (string_field ''operator_address'' kvs) (\<lambda>a.
     and_then (string_field ''pubkey_b64'' kvs) (\<lambda>k.
     and_then (string_field ''challenge'' kvs) (\<lambda>c.
     and_then (string_field ''nonce'' kvs) (\<lambda>n.
     and_then (string_field ''timestamp'' kvs) (\<lambda>t.
     and_then (string_field ''signature'' kvs) (\<lambda>s.
     Inr \<lparr>vc_OperatorAddress = a, vc_PubKeyB64 = k, vc_Challenge = c, vc_Nonce = n, vc_Timestamp = t, vc_Signature = s\<rparr>))))))"

definition decode_step :: "json \<Rightarrow> RehearsalResultStep result" where
  "decode_step v = and_then (json_object v) (\<lambda>kvs.
     and_then (string_field ''name'' kvs) (\<lambda>n.
     and_then (string_field ''status'' kvs) (\<lambda>s.
     and_then (string_field ''detail'' kvs) (\<lambda>d. Inr \<lparr>rs_Name = n, rs_Status = s, rs_Detail = d\<rparr>))))"

definition decode_fact :: "(string \<times> json) list \<Rightarrow> RehearsalResultFact result" where
  "decode_fact kvs =
     and_then (int_field ''schema_version'' kvs) (\<lambda>sv.
     and_then (string_field ''launch_id'' kvs) (\<lambda>lid.
     and_then (string_field ''input_set_hash'' kvs) (\<lambda>h.
     and_then (string_ptr_field ''attempt_id'' kvs) (\<lambda>aid.
     and_then (string_field ''outcome'' kvs) (\<lambda>out.
     and_then (string_ptr_field ''failed_step'' kvs) (\<lambda>fstep.
     and_then (string_field ''summary'' kvs) (\<lambda>summary.
     and_then (and_then (array_field ''steps'' kvs) (all_results decode_step)) (\<lambda>steps.
     and_then (struct_field ''rehearsal'' kvs) (\<lambda>m.
     and_then (string_field ''engine_version'' m) (\<lambda>ev.
     and_then (string_field ''binary_name'' m) (\<lambda>bn.
     and_then (string_field ''binary_version'' m) (\<lambda>bv.
     and_then (string_field ''binary_sha256'' m) (\<lambda>bs.
     and_then (int_field ''validators'' m) (\<lambda>vals.
     and_then (int_field ''blocks_advanced'' m) (\<lambda>blocks.
     and_then (string_field ''started_at'' kvs) (\<lambda>st.
     and_then (string_field ''finished_at'' kvs) (\<lambda>fin.
     and_then (string_field ''service_pubkey'' kvs) (\<lambda>pk.
     and_then (string_field ''signature'' kvs) (\<lambda>sg.
     Inr \<lparr>f_SchemaVersion = sv, f_LaunchID = lid, f_InputSetHash = h, f_AttemptID = aid, f_Outcome = out,
          f_FailedStep = fstep, f_Summary = summary, f_Steps = steps, f_EngineVersion = ev, f_BinaryName = bn,
          f_BinaryVersion = bv, f_BinarySHA256 = bs, f_Validators = vals, f_BlocksAdvanced = blocks,
          f_StartedAt = st, f_FinishedAt = fin, f_ServicePubkey = pk, f_Signature = sg\<rparr>)))))))))))))))))))"

section \<open>Launch definitions\<close>

definition parseOperatorAddresses :: "env \<Rightarrow> string list \<Rightarrow> AccountID list result" where
  "parseOperatorAddresses E addrs = all_results (NewAccountID E) addrs"

record committeeRequestJSON =
  cq_Members :: "(string \<times> string) list"      \<comment> \<open>address and moniker\<close>
  cq_ThresholdM :: int
  cq_TotalN :: int
  cq_LeadAddress :: string

definition decode_member :: "json \<Rightarrow> (string \<times> string) result" where
  "decode_member v = and_then (json_object v) (\<lambda>kvs.
     and_then (string_field ''address'' kvs) (\<lambda>a. and_then (string_field ''moniker'' kvs) (\<lambda>m. Inr (a, m))))"

definition decode_committee :: "(string \<times> json) list \<Rightarrow> committeeRequestJSON result" where
  "decode_committee kvs =
     and_then (and_then (array_field ''members'' kvs) (all_results decode_member)) (\<lambda>ms.
     and_then (int_field ''threshold_m'' kvs) (\<lambda>m.
     and_then (int_field ''total_n'' kvs) (\<lambda>n.
     and_then (string_field ''lead_address'' kvs) (\<lambda>lead.
     Inr \<lparr>cq_Members = ms, cq_ThresholdM = m, cq_TotalN = n, cq_LeadAddress = lead\<rparr>))))"

definition parseCommittee :: "env \<Rightarrow> time \<Rightarrow> uuid \<Rightarrow> committeeRequestJSON \<Rightarrow> Committee result" where
  "parseCommittee E now cid b =
     and_then (NewAccountID E (cq_LeadAddress b)) (\<lambda>leadAddr.
     and_then (all_results (\<lambda>(a, m). and_then (NewAccountID E a) (\<lambda>addr.
        Inr \<lparr>cm_Address = addr, cm_Moniker = m\<rparr>)) (cq_Members b)) (\<lambda>members.
     Inr \<lparr>c_ID = cid, c_Members = members, c_ThresholdM = cq_ThresholdM b, c_TotalN = cq_TotalN b,
          c_LeadAddress = leadAddr, c_CreatedAt = now\<rparr>))"

record chain_record_request =
  \<comment> \<open>\<open>chainRecordJSON\<close> as it arrives: the commission rates are still text\<close>
  cj_Record :: ChainRecord
  cj_MaxCommissionRate :: string
  cj_MaxCommissionChangeRate :: string

definition decode_record :: "env \<Rightarrow> (string \<times> json) list \<Rightarrow> chain_record_request result" where
  "decode_record E kvs =
     and_then (string_field ''chain_id'' kvs) (\<lambda>cid.
     and_then (string_field ''chain_name'' kvs) (\<lambda>cn.
     and_then (string_field ''bech32_prefix'' kvs) (\<lambda>bp.
     and_then (string_field ''binary_name'' kvs) (\<lambda>bn.
     and_then (string_field ''binary_version'' kvs) (\<lambda>bv.
     and_then (string_field ''binary_sha256'' kvs) (\<lambda>bs.
     and_then (string_field ''repo_url'' kvs) (\<lambda>ru.
     and_then (string_field ''repo_commit'' kvs) (\<lambda>rc.
     and_then (time_ptr_field E ''genesis_time'' kvs) (\<lambda>gt.
     and_then (string_field ''denom'' kvs) (\<lambda>dn.
     and_then (string_field ''min_self_delegation'' kvs) (\<lambda>msd.
     and_then (string_field ''total_supply'' kvs) (\<lambda>ts.
     and_then (string_field ''max_commission_rate'' kvs) (\<lambda>mc.
     and_then (string_field ''max_commission_change_rate'' kvs) (\<lambda>mcc.
     and_then (time_field E ''gentx_deadline'' kvs) (\<lambda>dl.
     and_then (int_field ''min_validator_count'' kvs) (\<lambda>mv.
     Inr \<lparr>cj_Record = \<lparr>r_ChainID = cid, r_ChainName = cn, r_Bech32Prefix = bp, r_BinaryName = bn, r_BinaryVersion = bv,
            r_BinarySHA256 = bs, r_RepoURL = ru, r_RepoCommit = rc, r_GenesisTime = gt, r_Denom = dn,
            r_MinSelfDelegation = msd, r_TotalSupply = ts, r_MaxCommissionRate = \<lparr>cr_value = [], cr_f = Fin 0\<rparr>,
            r_MaxCommissionChangeRate = \<lparr>cr_value = [], cr_f = Fin 0\<rparr>, r_GentxDeadline = dl, r_MinValidatorCount = mv\<rparr>,
          cj_MaxCommissionRate = mc, cj_MaxCommissionChangeRate = mcc\<rparr>))))))))))))))))"

definition parseChainRecord :: "env \<Rightarrow> chain_record_request \<Rightarrow> ChainRecord result" where
  "parseChainRecord E r =
     and_then (NewCommissionRate E (cj_MaxCommissionRate r)) (\<lambda>maxComm.
     and_then (NewCommissionRate E (cj_MaxCommissionChangeRate r)) (\<lambda>maxCommChange.
     Inr ((cj_Record r)\<lparr>r_MaxCommissionRate := maxComm, r_MaxCommissionChangeRate := maxCommChange\<rparr>)))"

definition parseStringField :: "(string \<times> json) list \<Rightarrow> string \<Rightarrow> string option result" where
  \<comment> \<open>absent keys are left out; \<open>null\<close> is the empty string\<close>
  "parseStringField raw key = (case map_key key raw of
     None \<Rightarrow> Inr None | Some v \<Rightarrow> and_then (dec_string [] v) (\<lambda>s. Inr (Some s)))"

definition parse_patch_list :: "env \<Rightarrow> (string \<times> json) list \<Rightarrow> AccountID list option result" where
  "parse_patch_list E raw = (case map_key ''allowlist'' raw of
     None \<Rightarrow> Inr None
   | Some v \<Rightarrow> and_then (dec_array [] v) (\<lambda>vs. and_then (strings_of vs) (\<lambda>addrs.
       and_then (parseOperatorAddresses E addrs) (\<lambda>ids. Inr (Some ids)))))"

definition parsePatchInput :: "env \<Rightarrow> (string \<times> json) list \<Rightarrow> PatchLaunchInput result" where
  "parsePatchInput E raw =
     and_then (parseStringField raw ''chain_name'') (\<lambda>cn.
     and_then (parseStringField raw ''binary_version'') (\<lambda>bv.
     and_then (parseStringField raw ''binary_sha256'') (\<lambda>bs.
     and_then (parseStringField raw ''repo_url'') (\<lambda>ru.
     and_then (parseStringField raw ''repo_commit'') (\<lambda>rc.
     and_then (parseStringField raw ''monitor_rpc_url'') (\<lambda>mr.
     and_then (parseStringField raw ''total_supply'') (\<lambda>ts.
     and_then (parseStringField raw ''rehearsal_service_pubkey'') (\<lambda>rk.
     and_then (parseStringField raw ''rehearsal_endpoint'') (\<lambda>re.
     and_then (case map_key ''genesis_time'' raw of None \<Rightarrow> Inr None
               | Some v \<Rightarrow> and_then (dec_text (time_ParseRFC3339 E) 0 v) (\<lambda>t. Inr (Some t))) (\<lambda>gt.
     and_then (case map_key ''min_validator_count'' raw of None \<Rightarrow> Inr None
               | Some v \<Rightarrow> and_then (dec_int 0 v) (\<lambda>n. Inr (Some n))) (\<lambda>mv.
     and_then (parse_patch_list E raw) (\<lambda>al.
     Inr \<lparr>pt_ChainName = cn, pt_BinaryVersion = bv, pt_BinarySHA256 = bs, pt_RepoURL = ru, pt_RepoCommit = rc,
          pt_GenesisTime = gt, pt_MinValidatorCount = mv, pt_TotalSupply = ts, pt_Allowlist = al, pt_MonitorRPCURL = mr,
          pt_RehearsalServicePubKey = rk, pt_RehearsalEndpoint = re\<rparr>))))))))))))"

end
