(* ===== verification/ApiHandlers.thy ===== *)
theory ApiHandlers
  imports ApiJson
begin

text \<open>
  The handlers of the HTTP API (internal/infrastructure/api), one definition each.  A handler takes
  what it draws from the clock and the random source; a call of a service that returns an error ends in
  \<open>writeServiceError\<close>.
\<close>

record draw =
  dr_now :: time
  dr_id :: uuid
  dr_committee :: uuid
  dr_challenge :: string

section \<open>Authentication (auth.go)\<close>

definition handleAuthChallenge :: "env \<Rightarrow> Server \<Rightarrow> draw \<Rightarrow> handler" where
  "handleAuthChallenge E S dr r =
     decoded_body r (string_field ''operator_address'') (\<lambda>operatorAddress.
     if operatorAddress = [] then writeError 400 ''missing_field''
     else answer (IssueChallenge E (dr_now dr) (dr_challenge dr) operatorAddress) (\<lambda>challenge.
       writeJSON 200 (JObj [(''challenge'', JStr challenge)])))"

definition handleAuthVerify :: "env \<Rightarrow> Server \<Rightarrow> draw \<Rightarrow> handler" where
  \<comment> \<open>every failure is the same 401\<close>
  "handleAuthVerify E S dr r =
     decoded_body r decode_verify (\<lambda>input.
     calls (VerifyChallenge E (sc_auth (sv_cfg S)) (dr_now dr) (dr_id dr) input)
       (\<lambda>_. writeError 401 ''auth_failed'')
       (\<lambda>token. writeJSON 200 (JObj [(''token'', JStr token)])))"

definition handleAuthRevoke :: handler where
  "handleAuthRevoke r = (let token = bearerToken r in
     if token = [] then writeError 401 ''missing_token''
     else answer (RevokeSession token) (\<lambda>_. respond 204 EmptyBody))"

definition handleAuthSessionInfo :: "env \<Rightarrow> Server \<Rightarrow> draw \<Rightarrow> handler" where
  "handleAuthSessionInfo E S dr r = (let token = bearerToken r in
     if token = [] then writeError 401 ''missing_token''
     else calls (GetSessionInfo E (sc_auth (sv_cfg S)) (dr_now dr) token) (\<lambda>_. writeError 401 ''invalid_token'')
       (\<lambda>(operatorAddress, expiresAt) w. case coordinators_Contains E operatorAddress w of (c, w') \<Rightarrow>
          writeJSON 200 (JObj [(''operator_address'', JStr operatorAddress),
            (''expires_at'', JStr (time_FormatRFC3339 E expiresAt)),
            (''is_coordinator'', JBool (case c of Inl _ \<Rightarrow> False | Inr b \<Rightarrow> b))]) w'))"

definition handleAuthRevokeAll :: "env \<Rightarrow> draw \<Rightarrow> handler" where
  "handleAuthRevokeAll E dr r = (let operatorAddr = operatorFromContext r in
     answer (RevokeAllSessions E (dr_now dr) operatorAddr operatorAddr) (\<lambda>_. respond 204 EmptyBody))"

definition handleAdminRevokeAllSessions :: "env \<Rightarrow> draw \<Rightarrow> handler" where
  "handleAdminRevokeAllSessions E dr r = (let address = URLParam r ''address'' in
     if address = [] then writeError 400 ''missing_param''
     else answer (RevokeAllSessions E (dr_now dr) address (operatorFromContext r)) (\<lambda>_. respond 204 EmptyBody))"

section \<open>Administration (admin.go)\<close>

definition coordinatorEntryToJSON :: "env \<Rightarrow> string \<times> string \<times> time \<Rightarrow> json" where
  "coordinatorEntryToJSON E e = (case e of (address, addedBy, addedAt) \<Rightarrow>
     JObj [(''address'', JStr address), (''added_by'', JStr addedBy), (''added_at'', JStr (timeToStr E addedAt))])"

definition handleCoordinatorAdd :: "env \<Rightarrow> draw \<Rightarrow> handler" where
  "handleCoordinatorAdd E dr r =
     decoded_body r (string_field ''address'') (\<lambda>address.
     if address = [] then writeError 400 ''invalid_param''
     else let addedBy = operatorFromContext r in
       answer (AddCoordinator E (dr_now dr) address addedBy) (\<lambda>_.
       writeJSON 201 (JObj [(''address'', JStr (accountLookupKey E address)), (''added_by'', JStr addedBy),
         (''added_at'', JStr [])])))"

definition handleCoordinatorRemove :: "env \<Rightarrow> draw \<Rightarrow> handler" where
  "handleCoordinatorRemove E dr r = (let address = URLParam r ''address'' in
     if address = [] then writeError 400 ''invalid_param''
     else answer (RemoveCoordinator E (dr_now dr) address (operatorFromContext r)) (\<lambda>_. respond 204 EmptyBody))"

definition handleCoordinatorList :: "env \<Rightarrow> handler" where
  "handleCoordinatorList E r = paginated r (\<lambda>pg.
     answer (coordinators_List E (fst pg) (snd pg)) (\<lambda>(entries, n).
     writeJSON 200 (pageEnvelope (map (coordinatorEntryToJSON E) entries) n pg)))"

definition settableLogLevels :: "string list" where
  "settableLogLevels = [''trace'', ''debug'', ''info'', ''warn'', ''error'']"

definition handleLogLevelGet :: "string \<Rightarrow> handler" where
  \<comment> \<open>the argument is zerolog's global level\<close>
  "handleLogLevelGet level r = writeJSON 200 (JObj [(''level'', JStr level)])"

definition log_level_request :: "http_request \<Rightarrow> string option" where
  \<comment> \<open>the level a body asks for, when it can be set\<close>
  "log_level_request r = (case json_first (rq_Body r) of
     None \<Rightarrow> None
   | Some v \<Rightarrow> (case and_then (json_object v) (string_field ''level'') of
       Inl _ \<Rightarrow> None
     | Inr s \<Rightarrow> let level = ToLower (TrimSpace s) in if level \<in> set settableLogLevels then Some level else None))"

definition handleLogLevelSet :: "string \<Rightarrow> http_request \<Rightarrow> world \<Rightarrow> (http_response \<times> world) \<times> string" where
  \<comment> \<open>the response and the new global level\<close>
  "handleLogLevelSet old r w =
     (case log_level_request r of
        Some level \<Rightarrow> (writeJSON 200 (JObj [(''level'', JStr level)]) w, level)
      | None \<Rightarrow> (decoded_body r (string_field ''level'') (\<lambda>_. writeError 400 ''invalid_param'') w, old))"

section \<open>Committee and members (committee.go, members.go)\<close>

definition handleCommitteeCreate :: "env \<Rightarrow> draw \<Rightarrow> handler" where
  "handleCommitteeCreate E dr r = with_uuid E r ''id'' (\<lambda>launchID.
     decoded_body r decode_committee (\<lambda>b.
     case parseCommittee E (dr_now dr) (dr_committee dr) b of
       Inl _ \<Rightarrow> writeError 400 ''invalid_field''
     | Inr committee \<Rightarrow>
       answer (SetCommittee E (dr_now dr) launchID committee (operatorFromContext r)) (\<lambda>_.
       writeJSON 200 (committeeToJSON E committee))))"

definition handleCommitteeGet :: "env \<Rightarrow> handler" where
  "handleCommitteeGet E r = with_uuid E r ''id'' (\<lambda>launchID.
     answer (GetCommittee E launchID (operatorFromContext r)) (\<lambda>c. writeJSON 200 (committeeToJSON E c)))"

definition decode_member_add :: "(string \<times> json) list \<Rightarrow> (string \<times> string) result" where
  "decode_member_add kvs = and_then (string_field ''address'' kvs) (\<lambda>a. and_then (string_field ''label'' kvs) (\<lambda>l. Inr (a, l)))"

definition handleMemberAdd :: "env \<Rightarrow> draw \<Rightarrow> handler" where
  "handleMemberAdd E dr r = with_uuid E r ''id'' (\<lambda>launchID.
     decoded_body r decode_member_add (\<lambda>(address, label).
     if address = [] then writeError 400 ''invalid_param''
     else answer (AddMemberToLaunch E (dr_now dr) launchID address label (operatorFromContext r)) (\<lambda>m.
       writeJSON 201 (memberToJSON E m))))"

definition handleMemberRemove :: "env \<Rightarrow> draw \<Rightarrow> handler" where
  "handleMemberRemove E dr r = with_uuid E r ''id'' (\<lambda>launchID.
     let address = URLParam r ''address'' in
     if address = [] then writeError 400 ''invalid_param''
     else answer (RemoveMemberFromLaunch E (dr_now dr) launchID address (operatorFromContext r)) (\<lambda>_. respond 204 EmptyBody))"

definition handleMemberList :: "env \<Rightarrow> handler" where
  "handleMemberList E r = with_uuid E r ''id'' (\<lambda>launchID.
     answer (ListMembers E launchID (operatorFromContext r)) (\<lambda>ms. writeJSON 200 (JArr (map (memberToJSON E) ms))))"

section \<open>Launches (launch.go)\<close>

definition decode_create :: "env \<Rightarrow> (string \<times> json) list \<Rightarrow> (chain_record_request \<times> string \<times> string list \<times> committeeRequestJSON) result" where
  "decode_create E kvs =
     and_then (and_then (struct_field ''record'' kvs) (decode_record E)) (\<lambda>rec'.
     and_then (string_field ''launch_type'' kvs) (\<lambda>lt.
     and_then (and_then (array_field ''allowlist'' kvs) strings_of) (\<lambda>al.
     and_then (and_then (struct_field ''committee'' kvs) decode_committee) (\<lambda>c.
     Inr (rec', lt, al, c)))))"

definition create_input :: "env \<Rightarrow> time \<Rightarrow> uuid \<Rightarrow> chain_record_request \<times> string \<times> string list \<times> committeeRequestJSON \<Rightarrow> CreateLaunchInput result" where
  "create_input E now cid b = (case b of (rec', lt, al, c) \<Rightarrow>
     and_then (parseChainRecord E rec') (\<lambda>record'.
     and_then (parseCommittee E now cid c) (\<lambda>committee.
     and_then (parseOperatorAddresses E al) (\<lambda>allowlist.
     Inr \<lparr>cl_Record = record', cl_LaunchType = parse_launch_type lt, cl_Allowlist = allowlist, cl_Committee = committee\<rparr>))))"

definition create_launch :: "env \<Rightarrow> draw \<Rightarrow> handler" where
  \<comment> \<open>the part after the policy check\<close>
  "create_launch E dr r = decoded_body r (decode_create E) (\<lambda>b.
     case create_input E (dr_now dr) (dr_committee dr) b of
       Inl _ \<Rightarrow> writeError 400 ''invalid_field''
     | Inr input \<Rightarrow> answer (CreateLaunch E (dr_now dr) (dr_id dr) input) (\<lambda>l. writeJSON 201 (launchToJSON E l)))"

definition handleLaunchCreate :: "env \<Rightarrow> Server \<Rightarrow> draw \<Rightarrow> handler" where
  "handleLaunchCreate E S dr r =
     (if sv_launchPolicy S = ''restricted'' then
        answer (coordinators_Contains E (operatorFromContext r)) (\<lambda>allowed.
          if \<not> allowed then writeError 403 ''forbidden'' else create_launch E dr r)
      else create_launch E dr r)"

definition handleLaunchList :: "env \<Rightarrow> handler" where
  "handleLaunchList E r = paginated r (\<lambda>pg.
     answer (launches_FindAll E (operatorFromContext r) (fst pg) (snd pg)) (\<lambda>(items, n).
     writeJSON 200 (pageEnvelope (map (launchToJSON E) items) n pg)))"

definition handleLaunchGet :: "env \<Rightarrow> handler" where
  "handleLaunchGet E r = with_uuid E r ''id'' (\<lambda>launchID.
     answer (GetLaunch E launchID (operatorFromContext r)) (\<lambda>l. writeJSON 200 (launchToJSON E l)))"

definition handleLaunchPatch :: "env \<Rightarrow> Server \<Rightarrow> draw \<Rightarrow> handler" where
  "handleLaunchPatch E S dr r = with_uuid E r ''id'' (\<lambda>launchID.
     decoded_body r Inr (\<lambda>raw.
     case parsePatchInput E raw of
       Inl _ \<Rightarrow> writeError 400 ''invalid_field''
     | Inr input \<Rightarrow>
       answer (PatchLaunch E (sc_launch (sv_cfg S)) (dr_now dr) launchID input (operatorFromContext r)) (\<lambda>l.
       writeJSON 200 (launchToJSON E l))))"

definition handleLaunchAction :: "env \<Rightarrow> (uuid \<Rightarrow> string \<Rightarrow> unit io) \<Rightarrow> handler" where
  "handleLaunchAction E action r = with_uuid E r ''id'' (\<lambda>launchID.
     let callerAddr = operatorFromContext r in
     answer (action launchID callerAddr) (\<lambda>_.
     answer (GetLaunch E launchID callerAddr) (\<lambda>l. writeJSON 200 (launchToJSON E l))))"

definition handleOpenWindow :: "env \<Rightarrow> draw \<Rightarrow> handler" where
  "handleOpenWindow E dr = handleLaunchAction E (OpenWindowService E (dr_now dr))"

definition handleLaunchCancel :: "env \<Rightarrow> draw \<Rightarrow> handler" where
  "handleLaunchCancel E dr = handleLaunchAction E (CancelLaunch E (dr_now dr))"

definition handleChainHint :: "env \<Rightarrow> handler" where
  "handleChainHint E r = with_uuid E r ''id'' (\<lambda>launchID.
     answer (GetChainHint E launchID (operatorFromContext r)) (\<lambda>h.
     writeJSON 200 (JObj [(''chain_id'', JStr (h_ChainID h)), (''chain_name'', JStr (h_ChainName h)),
       (''bech32_prefix'', JStr (h_Bech32Prefix h)), (''denom'', JStr (h_Denom h))])))"

section \<open>Genesis (genesis.go)\<close>

definition sha_response :: "string \<Rightarrow> json" where
  "sha_response h = JObj [(''sha256'', JStr h)]"

definition decode_ref :: "(string \<times> json) list \<Rightarrow> (string \<times> string \<times> string) result" where
  "decode_ref kvs = and_then (string_field ''url'' kvs) (\<lambda>u. and_then (string_field ''sha256'' kvs) (\<lambda>h.
     and_then (string_field ''genesis_time'' kvs) (\<lambda>t. Inr (u, h, t))))"

definition handleGenesisUploadRef :: "env \<Rightarrow> Server \<Rightarrow> draw \<Rightarrow> http_request \<Rightarrow> uuid \<Rightarrow> string \<Rightarrow> string \<Rightarrow> world \<Rightarrow> http_response \<times> world" where
  "handleGenesisUploadRef E S dr r0 launchID genesisType callerAddr =
     (let r = r0\<lparr>rq_Body := take maxJSONBody (rq_Body r0)\<rparr>; cfg = sc_launch (sv_cfg S) in
      decoded_body r decode_ref (\<lambda>(url, sha, gtime).
      if url = [] then writeError 400 ''missing_url''
      else if sha = [] then writeError 400 ''missing_sha256''
      else if genesisType = ''final'' then
        (if gtime = [] then writeError 400 ''missing_genesis_time''
         else case time_ParseRFC3339 E gtime of
           None \<Rightarrow> writeError 400 ''invalid_genesis_time''
         | Some gt \<Rightarrow> answer (UploadFinalGenesisRef E cfg (dr_now dr) launchID url sha gt callerAddr) (\<lambda>_.
             writeJSON 200 (sha_response sha)))
      else answer (UploadInitialGenesisRef E cfg (dr_now dr) launchID url sha callerAddr) (\<lambda>_.
        writeJSON 200 (sha_response sha))))"

definition raw_upload :: "Server \<Rightarrow> http_request \<Rightarrow> (bytes \<Rightarrow> world \<Rightarrow> http_response \<times> world) \<Rightarrow> world \<Rightarrow> http_response \<times> world" where
  \<comment> \<open>the checks of a host-mode upload, shared by genesis and allocation files\<close>
  "raw_upload S r k =
     (if \<not> sv_genesisHostMode S then writeError 400 ''host_mode_disabled''
      else let data = take (nat (sv_genesisMaxBytes S + 1)) (rq_Body r) in
        if int (length data) > sv_genesisMaxBytes S then writeError 413 ''too_large''
        else if data = [] then writeError 400 ''empty_body'' else k data)"

definition handleGenesisUploadBytes :: "env \<Rightarrow> Server \<Rightarrow> draw \<Rightarrow> http_request \<Rightarrow> uuid \<Rightarrow> string \<Rightarrow> string \<Rightarrow> world \<Rightarrow> http_response \<times> world" where
  "handleGenesisUploadBytes E S dr r launchID genesisType callerAddr = raw_upload S r (\<lambda>data.
     answer (if genesisType = ''final'' then UploadFinalGenesis E (dr_now dr) launchID data callerAddr
             else UploadInitialGenesis E (dr_now dr) launchID data callerAddr) (\<lambda>hash.
     writeJSON 200 (sha_response hash)))"

definition handleGenesisUpload :: "env \<Rightarrow> Server \<Rightarrow> draw \<Rightarrow> handler" where
  "handleGenesisUpload E S dr r = with_uuid E r ''id'' (\<lambda>launchID.
     let genesisType = query_Get r ''type''; callerAddr = operatorFromContext r in
     if HasPrefix (rq_ContentType r) ''application/json''
     then handleGenesisUploadRef E S dr r launchID genesisType callerAddr
     else handleGenesisUploadBytes E S dr r launchID genesisType callerAddr)"

definition open_file :: "string \<Rightarrow> string \<Rightarrow> bytes option io" where
  \<comment> \<open>\<open>os.Open\<close> and the copy of the file: \<open>None\<close> when it does not exist\<close>
  "open_file launchID fileName w = (case w_faults w of
     True # fs \<Rightarrow> (Inl [], w\<lparr>w_faults := fs\<rparr>)
   | _ \<Rightarrow> (Inr (case fmlookup (w_files w) (launchID, fileName) of Some (FileBytes b) \<Rightarrow> Some b | _ \<Rightarrow> None),
           w\<lparr>w_faults := tl (w_faults w)\<rparr>))"

definition serve_ref :: "StoredFileRef io \<Rightarrow> world \<Rightarrow> http_response \<times> world" where
  \<comment> \<open>a redirect to the external URL, or the bytes of the local file\<close>
  "serve_ref lookup = answer lookup (\<lambda>ref. case ref of
     External url sha \<Rightarrow> if url \<noteq> [] then respond 302 (Redirect url) else writeServiceError []
   | LocalPath dir fileName \<Rightarrow> answer (open_file dir fileName) (\<lambda>f. case f of
       None \<Rightarrow> writeError 404 ''not_found'' | Some b \<Rightarrow> respond 200 (FileBody b)))"

definition handleGenesisGet :: "env \<Rightarrow> handler" where
  "handleGenesisGet E r = with_uuid E r ''id'' (\<lambda>launchID.
     answer (GetLaunch E launchID (operatorFromContext r)) (\<lambda>l.
     if l_InitialGenesisSHA256 l = [] then writeError 404 ''not_found''
     else let dir = uuid_String E launchID; t = query_Get r ''type'' in
       if t = ''initial'' then serve_ref (GetInitialRef dir)
       else if t = ''final'' then
         (if l_FinalGenesisSHA256 l = [] then writeError 404 ''not_found'' else serve_ref (GetFinalRef dir))
       else if t = [] then
         (if l_FinalGenesisSHA256 l \<noteq> [] then serve_ref (GetFinalRef dir) else serve_ref (GetInitialRef dir))
       else writeError 400 ''invalid_type''))"

definition handleGenesisHashGet :: "env \<Rightarrow> handler" where
  "handleGenesisHashGet E r = with_uuid E r ''id'' (\<lambda>launchID.
     answer (GetLaunch E launchID (operatorFromContext r)) (\<lambda>l.
     writeJSON 200 (JObj [(''initial_sha256'', JStr (l_InitialGenesisSHA256 l)), (''final_sha256'', JStr (l_FinalGenesisSHA256 l))])))"

section \<open>Allocation files (allocation.go)\<close>

definition decode_allocation_ref :: "(string \<times> json) list \<Rightarrow> (string \<times> string) result" where
  "decode_allocation_ref kvs = and_then (string_field ''url'' kvs) (\<lambda>u. and_then (string_field ''sha256'' kvs) (\<lambda>h. Inr (u, h)))"

definition handleAllocationUploadRef :: "env \<Rightarrow> Server \<Rightarrow> draw \<Rightarrow> http_request \<Rightarrow> uuid \<Rightarrow> string \<Rightarrow> string \<Rightarrow> world \<Rightarrow> http_response \<times> world" where
  "handleAllocationUploadRef E S dr r0 launchID allocType callerAddr =
     (let r = r0\<lparr>rq_Body := take maxJSONBody (rq_Body r0)\<rparr> in
      decoded_body r decode_allocation_ref (\<lambda>(url, sha).
      if url = [] then writeError 400 ''missing_url''
      else if sha = [] then writeError 400 ''missing_sha256''
      else answer (UploadAllocationFileRef E (sc_launch (sv_cfg S)) (dr_now dr) launchID allocType url sha callerAddr) (\<lambda>_.
        writeJSON 200 (sha_response sha))))"

definition handleAllocationUploadBytes :: "env \<Rightarrow> Server \<Rightarrow> draw \<Rightarrow> http_request \<Rightarrow> uuid \<Rightarrow> string \<Rightarrow> string \<Rightarrow> world \<Rightarrow> http_response \<times> world" where
  "handleAllocationUploadBytes E S dr r launchID allocType callerAddr = raw_upload S r (\<lambda>data.
     answer (UploadAllocationFileBytes E (dr_now dr) launchID allocType data callerAddr) (\<lambda>hash.
     writeJSON 200 (sha_response hash)))"

definition handleAllocationUpload :: "env \<Rightarrow> Server \<Rightarrow> draw \<Rightarrow> handler" where
  "handleAllocationUpload E S dr r = with_uuid E r ''id'' (\<lambda>launchID.
     let allocType = URLParam r ''type''; callerAddr = operatorFromContext r in
     if HasPrefix (rq_ContentType r) ''application/json''
     then handleAllocationUploadRef E S dr r launchID allocType callerAddr
     else handleAllocationUploadBytes E S dr r launchID allocType callerAddr)"

definition handleAllocationList :: "env \<Rightarrow> handler" where
  "handleAllocationList E r = with_uuid E r ''id'' (\<lambda>launchID.
     answer (GetLaunch E launchID (operatorFromContext r)) (\<lambda>l.
     writeJSON 200 (JObj [(''allocations'', JArr (map (allocationFileMeta E) (l_AllocationFiles l)))])))"

definition serveAllocationRef :: "string \<Rightarrow> string \<Rightarrow> world \<Rightarrow> http_response \<times> world" where
  "serveAllocationRef launchID allocType = serve_ref (allocation_GetRef launchID allocType)"

definition handleAllocationGet :: "env \<Rightarrow> handler" where
  "handleAllocationGet E r = with_uuid E r ''id'' (\<lambda>launchID.
     answer (GetLaunch E launchID (operatorFromContext r)) (\<lambda>_.
     serveAllocationRef (uuid_String E launchID) (URLParam r ''type'')))"

section \<open>Join requests (joinrequest.go)\<close>

definition handleJoinSubmit :: "env \<Rightarrow> Server \<Rightarrow> draw \<Rightarrow> handler" where
  "handleJoinSubmit E S dr r = with_uuid E r ''id'' (\<lambda>launchID.
     decoded_body r (decode_submit (rq_Body r)) (\<lambda>input.
     answer (Submit E (sc_join (sv_cfg S)) (dr_now dr) (dr_id dr) launchID input) (\<lambda>jr.
     writeJSON 201 (joinRequestToJSON E jr))))"

definition committee_only :: "env \<Rightarrow> uuid \<Rightarrow> string \<Rightarrow> (world \<Rightarrow> http_response \<times> world) \<Rightarrow> world \<Rightarrow> http_response \<times> world" where
  "committee_only E launchID callerAddr k = answer (IsCommitteeMember E launchID callerAddr) (\<lambda>isCommitteeMember.
     if \<not> isCommitteeMember then writeError 403 ''forbidden'' else k)"

definition list_join_requests :: "env \<Rightarrow> uuid \<Rightarrow> string \<Rightarrow> int \<Rightarrow> int \<Rightarrow> (JoinRequest list \<times> int) io" where
  \<comment> \<open>\<open>ListForLaunch\<close> with the status as text: no row has a status outside the four\<close>
  "list_join_requests E launchID st page perPage =
     (if st = [] then joinrequests_FindByLaunch E launchID None page perPage
      else case find (\<lambda>s. jr_status_string s = st) [JRPending, JRApproved, JRRejected, JRExpired] of
        Some s \<Rightarrow> joinrequests_FindByLaunch E launchID (Some s) page perPage
      | None \<Rightarrow> bnd (reads (\<lambda>d. Inr ())) (\<lambda>_. bnd (reads (\<lambda>d. Inr ())) (\<lambda>_. ret ([], 0))))"

definition handleJoinList :: "env \<Rightarrow> handler" where
  "handleJoinList E r = with_uuid E r ''id'' (\<lambda>launchID.
     committee_only E launchID (operatorFromContext r)
       (paginated r (\<lambda>pg. answer (list_join_requests E launchID (query_Get r ''status'') (fst pg) (snd pg)) (\<lambda>(items, n).
          writeJSON 200 (pageEnvelope (map (joinRequestToJSON E) items) n pg)))))"

definition handleJoinGrouped :: "env \<Rightarrow> handler" where
  "handleJoinGrouped E r = with_uuid E r ''id'' (\<lambda>launchID.
     answer (ListGroupedBySubmitter E launchID (operatorFromContext r)) (\<lambda>groups.
     writeJSON 200 (JArr (map (submitterGroupJSON E) groups))))"

definition maxGentxDownloadCount :: int where "maxGentxDownloadCount = 10000"

definition handleGentxsGet :: "env \<Rightarrow> handler" where
  "handleGentxsGet E r = with_uuid E r ''id'' (\<lambda>launchID.
     committee_only E launchID (operatorFromContext r)
       (answer (joinrequests_FindByLaunch E launchID (Some JRApproved) 1 maxGentxDownloadCount) (\<lambda>(items, _).
        writeJSON 200 (JObj [(''gentxs'', JArr (map (gentxEntry E) items))]))))"

definition handleJoinGet :: "env \<Rightarrow> handler" where
  "handleJoinGet E r = with_uuid E r ''id'' (\<lambda>launchID. with_uuid E r ''req_id'' (\<lambda>reqID.
     let callerAddr = operatorFromContext r in
     answer (IsCommitteeMember E launchID callerAddr) (\<lambda>isCommitteeMember.
     answer (GetJoinRequestByID E reqID callerAddr isCommitteeMember) (\<lambda>jr.
     writeJSON 200 (joinRequestToJSON E jr)))))"

section \<open>Proposals (proposal.go)\<close>

definition handleProposalRaise :: "env \<Rightarrow> Server \<Rightarrow> draw \<Rightarrow> handler" where
  "handleProposalRaise E S dr r = with_uuid E r ''id'' (\<lambda>launchID.
     decoded_body r (decode_raise (rq_Body r)) (\<lambda>input.
     if rin_MemberAddr input \<noteq> operatorFromContext r then writeError 403 ''forbidden''
     else answer (Raise E (sc_proposal (sv_cfg S)) (dr_now dr) (dr_id dr) launchID input) (\<lambda>p.
       writeJSON 201 (proposalToJSON E p))))"

definition handleProposalList :: "env \<Rightarrow> handler" where
  "handleProposalList E r = with_uuid E r ''id'' (\<lambda>launchID. paginated r (\<lambda>pg.
     answer (proposals_FindByLaunch E launchID (fst pg) (snd pg)) (\<lambda>(items, n).
     writeJSON 200 (pageEnvelope (map (proposalToJSON E) items) n pg))))"

definition handleProposalGet :: "env \<Rightarrow> handler" where
  "handleProposalGet E r = with_uuid E r ''id'' (\<lambda>launchID. with_uuid E r ''prop_id'' (\<lambda>propID.
     answer (GetProposalByID E launchID propID) (\<lambda>p. writeJSON 200 (proposalToJSON E p))))"

definition handleProposalSign :: "env \<Rightarrow> Server \<Rightarrow> draw \<Rightarrow> handler" where
  "handleProposalSign E S dr r = with_uuid E r ''id'' (\<lambda>launchID. with_uuid E r ''prop_id'' (\<lambda>propID.
     decoded_body r decode_sign (\<lambda>input.
     if sin_MemberAddr input \<noteq> operatorFromContext r then writeError 403 ''forbidden''
     else answer (SignProposal E (sc_proposal (sv_cfg S)) (dr_now dr) launchID propID input) (\<lambda>p.
       writeJSON 200 (proposalToJSON E p)))))"

section \<open>Readiness (readiness.go)\<close>

definition handleReadinessConfirm :: "env \<Rightarrow> Server \<Rightarrow> draw \<Rightarrow> handler" where
  "handleReadinessConfirm E S dr r = with_uuid E r ''id'' (\<lambda>launchID.
     decoded_body r decode_confirm (\<lambda>input.
     answer (Confirm E (sc_readiness (sv_cfg S)) (dr_now dr) (dr_id dr) launchID input) (\<lambda>rc.
     writeJSON 201 (JObj [(''id'', j_uuid E (rc_ID rc)), (''launch_id'', j_uuid E (rc_LaunchID rc)),
       (''confirmed_at'', JStr (time_FormatRFC3339 E (rc_ConfirmedAt rc)))]))))"

definition handleDashboard :: "env \<Rightarrow> Server \<Rightarrow> draw \<Rightarrow> handler" where
  "handleDashboard E S dr r = with_uuid E r ''id'' (\<lambda>launchID.
     answer (GetDashboard E (dr_now dr) launchID (operatorFromContext r)) (\<lambda>launchDash.
     answer (GetReadinessDashboard E launchID) (\<lambda>readinessDash.
     writeJSON 200 (dashboardJSON E S launchDash readinessDash))))"

definition handlePeers :: "env \<Rightarrow> handler" where
  "handlePeers E r = with_uuid E r ''id'' (\<lambda>launchID.
     answer (GetLaunch E launchID (operatorFromContext r)) (\<lambda>_.
     answer (GetPeers E launchID) (\<lambda>peers.
     if query_Get r ''format'' = ''text'' then respond 200 (TextBody (join_comma (map snd peers)))
     else writeJSON 200 (JObj [(''peers'', JArr (map (\<lambda>(a, p). JObj [(''operator_address'', JStr a),
       (''peer_address'', JStr p)]) peers))]))))"

section \<open>Audit and events (audit.go, events.go)\<close>

definition handleAudit :: "env \<Rightarrow> Server \<Rightarrow> handler" where
  "handleAudit E S r = with_uuid E r ''id'' (\<lambda>launchID.
     answer (GetLaunch E launchID (operatorFromContext r)) (\<lambda>_.
     answer (\<lambda>w. (ReadForLaunch E (uuid_String E launchID) (sv_auditFile S w), w)) (\<lambda>entries.
     writeJSON 200 (JObj [(''entries'', JArr (map (audit_json E) entries))]))))"

definition handleEvents :: "env \<Rightarrow> handler" where
  \<comment> \<open>the stream itself is the broker's\<close>
  "handleEvents E r = with_uuid E r ''id'' (\<lambda>launchID.
     answer (GetLaunch E launchID (operatorFromContext r)) (\<lambda>_. respond 200 (StreamBody (uuid_String E launchID))))"

section \<open>Rehearsals (rehearsal_governance.go, bridge.go)\<close>

definition handleRehearsalResultsList :: "env \<Rightarrow> handler" where
  "handleRehearsalResultsList E r = with_uuid E r ''id'' (\<lambda>launchID.
     answer (ListRehearsalResults E launchID (operatorFromContext r)) (\<lambda>results.
     writeJSON 200 (JArr (map (rehearsalResultToJSON E) results))))"

definition handleRehearsalReset :: "env \<Rightarrow> draw \<Rightarrow> handler" where
  "handleRehearsalReset E dr r = with_uuid E r ''id'' (\<lambda>launchID. with_uuid E r ''attempt_id'' (\<lambda>attemptID.
     answer (ResetRehearsalAttempt E (dr_now dr) launchID attemptID (operatorFromContext r)) (\<lambda>_. respond 204 EmptyBody)))"

definition handleRehearsalInput :: "env \<Rightarrow> draw \<Rightarrow> handler" where
  "handleRehearsalInput E dr r = with_uuid E r ''id'' (\<lambda>launchID.
     answer (PreviewRehearsalInput E (dr_now dr) launchID) (\<lambda>i. writeJSON 200 (rehearsalInputToJSON E i)))"

definition lease_of :: "goerror \<Rightarrow> (string \<times> time \<times> time) option" where
  \<comment> \<open>\<open>errors.As(err, &leased)\<close>\<close>
  "lease_of e = (case filter (\<lambda>s. case s of RehearsalLeasedError _ _ _ \<Rightarrow> True | _ \<Rightarrow> False) e of
     RehearsalLeasedError runner since until # _ \<Rightarrow> Some (runner, since, until) | _ \<Rightarrow> None)"

definition handleRehearsalClaim :: "env \<Rightarrow> Server \<Rightarrow> draw \<Rightarrow> handler" where
  "handleRehearsalClaim E S dr r = with_uuid E r ''id'' (\<lambda>launchID.
     decoded_body r (string_field ''runner_id'') (\<lambda>runnerID.
     if runnerID = [] then writeError 400 ''invalid_body''
     else calls (ClaimRehearsalRun E (sc_rehearsal (sv_cfg S)) (dr_now dr) (dr_id dr) launchID runnerID)
       (\<lambda>e. case lease_of e of
          Some (runner, since, until) \<Rightarrow> writeJSON 409 (JObj [(''claimed_by'', JStr runner),
            (''claimed_at'', JStr (time_FormatRFC3339 E since)), (''lease_expires_at'', JStr (time_FormatRFC3339 E until))])
        | None \<Rightarrow> writeServiceError e)
       (\<lambda>i. writeJSON 200 (rehearsalInputToJSON E i))))"

definition handleBridgeAllocationGet :: "env \<Rightarrow> handler" where
  "handleBridgeAllocationGet E r = with_uuid E r ''id'' (\<lambda>launchID.
     serveAllocationRef (uuid_String E launchID) (URLParam r ''type''))"

definition handleRehearsalResults :: "env \<Rightarrow> Server \<Rightarrow> draw \<Rightarrow> handler" where
  "handleRehearsalResults E S dr r = with_uuid E r ''id'' (\<lambda>launchID.
     decoded_body r decode_fact (\<lambda>rfact.
     answer (RecordRehearsalResult E (sc_rehearsal (sv_cfg S)) (dr_now dr) (dr_id dr) launchID rfact) (\<lambda>res.
     writeJSON 200 (JObj [(''launch_id'', j_uuid E (rr_LaunchID res)), (''attempt_id'', j_uuid E (rr_AttemptID res)),
       (''outcome'', JStr (outcome_string (rr_Outcome res))), (''stale'', JBool (rr_Stale res)),
       (''recorded_at'', JStr (time_FormatRFC3339 E (rr_RecordedAt res)))]))))"

section \<open>Server endpoints (server.go, audit.go)\<close>

definition handleHealthz :: "Server \<Rightarrow> handler" where
  "handleHealthz S r w = (case sv_healthCheck S of
     Some check \<Rightarrow> if \<not> check w then writeJSON 503 (JObj [(''status'', JStr ''unavailable'')]) w
                   else writeJSON 200 (JObj [(''status'', JStr ''ok'')]) w
   | None \<Rightarrow> writeJSON 200 (JObj [(''status'', JStr ''ok'')]) w)"

definition audit_pubkey_endpoint :: "Server \<Rightarrow> handler" where
  \<comment> \<open>\<open>handleAuditPubKey\<close> as a handler of the server\<close>
  "audit_pubkey_endpoint S r = (case sv_auditPubKey S of
     None \<Rightarrow> writeError 503 ''no_audit_key''
   | Some key \<Rightarrow> writeJSON 200 (auditPubKeyResponse key))"

end
