(* ===== verification/ApiRoutes.thy ===== *)
theory ApiRoutes
  imports ApiHandlers
begin

text \<open>
  The router (api/server.go): the routes under \<open>/api/v1\<close> with their middleware, in the order of their
  registration, and their dispatch by method and path segments.  A static segment is registered before
  a parameter in the same place, as the router prefers it.  The per-address limiter of httprate is a
  parameter of the server; CORS and the response headers are not modelled.
\<close>

datatype seg = Lit string | Par string

fun match_path :: "seg list \<Rightarrow> string list \<Rightarrow> (string \<times> string) list option" where
  "match_path [] [] = Some []"
| "match_path (Lit a # ps) (b # bs) = (if a = b then match_path ps bs else None)"
| "match_path (Par k # ps) (b # bs) = map_option (\<lambda>kvs. (k, b) # kvs) (match_path ps bs)"
| "match_path _ _ = None"

record route =
  rt_Method :: string
  rt_Path :: "seg list"
  rt_Handler :: handler

definition route_to :: "string \<Rightarrow> seg list \<Rightarrow> handler \<Rightarrow> route" where
  "route_to m p h = \<lparr>rt_Method = m, rt_Path = p, rt_Handler = h\<rparr>"

definition challengeRatePerMin :: nat where "challengeRatePerMin = 10"
definition validatorRatePerMin :: nat where "validatorRatePerMin = 60"

definition rate_limited :: "Server \<Rightarrow> nat \<Rightarrow> handler \<Rightarrow> handler" where
  "rate_limited S n h r = (if \<not> sv_disableRateLimit S \<and> sv_LimitByIP S n r
     then respond 429 (TextBody ''Too Many Requests'') else h r)"

definition launch_path :: "seg list \<Rightarrow> seg list" where
  "launch_path rest = Lit ''launch'' # Par ''id'' # rest"

definition registerAPIRoutes :: "env \<Rightarrow> Server \<Rightarrow> string \<Rightarrow> draw \<Rightarrow> route list" where
  "registerAPIRoutes E S level dr = (let now = dr_now dr in [
     route_to ''GET'' [Lit ''audit'', Lit ''pubkey''] (audit_pubkey_endpoint S),
     route_to ''POST'' [Lit ''admin'', Lit ''coordinators''] (jsonAdminPOST E S now (handleCoordinatorAdd E dr)),
     route_to ''DELETE'' [Lit ''admin'', Lit ''coordinators'', Par ''address''] (requireAdmin E S now (handleCoordinatorRemove E dr)),
     route_to ''GET'' [Lit ''admin'', Lit ''coordinators''] (requireAdmin E S now (handleCoordinatorList E)),
     route_to ''DELETE'' [Lit ''admin'', Lit ''sessions'', Par ''address''] (requireAdmin E S now (handleAdminRevokeAllSessions E dr)),
     route_to ''GET'' [Lit ''admin'', Lit ''log-level''] (requireAdmin E S now (handleLogLevelGet level)),
     route_to ''POST'' [Lit ''admin'', Lit ''log-level''] (jsonAdminPOST E S now (\<lambda>r w. fst (handleLogLevelSet level r w))),
     route_to ''POST'' [Lit ''auth'', Lit ''challenge''] (rate_limited S challengeRatePerMin (requireJSONBody (handleAuthChallenge E S dr))),
     route_to ''POST'' [Lit ''auth'', Lit ''verify''] (requireJSONBody (handleAuthVerify E S dr)),
     route_to ''DELETE'' [Lit ''auth'', Lit ''session''] handleAuthRevoke,
     route_to ''GET'' [Lit ''auth'', Lit ''session''] (handleAuthSessionInfo E S dr),
     route_to ''DELETE'' [Lit ''auth'', Lit ''sessions'', Lit ''all''] (requireAuth E S now (handleAuthRevokeAll E dr)),
     route_to ''POST'' (launch_path [Lit ''committee'']) (jsonPOST E S now (handleCommitteeCreate E dr)),
     route_to ''GET'' (launch_path [Lit ''committee'']) (optionalAuth E S now (handleCommitteeGet E)),
     route_to ''POST'' [Lit ''launch''] (jsonPOST E S now (handleLaunchCreate E S dr)),
     route_to ''GET'' [Lit ''launches''] (optionalAuth E S now (handleLaunchList E)),
     route_to ''GET'' (launch_path []) (optionalAuth E S now (handleLaunchGet E)),
     route_to ''PATCH'' (launch_path []) (jsonPOST E S now (handleLaunchPatch E S dr)),
     route_to ''POST'' (launch_path [Lit ''open-window'']) (requireAuth E S now (handleOpenWindow E dr)),
     route_to ''POST'' (launch_path [Lit ''cancel'']) (requireAuth E S now (handleLaunchCancel E dr)),
     route_to ''POST'' (launch_path [Lit ''members'']) (jsonPOST E S now (handleMemberAdd E dr)),
     route_to ''DELETE'' (launch_path [Lit ''members'', Par ''address'']) (requireAuth E S now (handleMemberRemove E dr)),
     route_to ''POST'' (launch_path [Lit ''rehearsal'', Par ''attempt_id'', Lit ''reset'']) (requireAuth E S now (handleRehearsalReset E dr)),
     route_to ''GET'' (launch_path [Lit ''members'']) (requireAuth E S now (handleMemberList E)),
     route_to ''GET'' (launch_path [Lit ''chain-hint'']) (optionalAuth E S now (handleChainHint E)),
     route_to ''POST'' (launch_path [Lit ''genesis'']) (requireAuth E S now (handleGenesisUpload E S dr)),
     route_to ''GET'' (launch_path [Lit ''genesis'']) (optionalAuth E S now (handleGenesisGet E)),
     route_to ''GET'' (launch_path [Lit ''genesis'', Lit ''hash'']) (optionalAuth E S now (handleGenesisHashGet E)),
     route_to ''POST'' (launch_path [Lit ''allocations'', Par ''type'']) (requireAuth E S now (handleAllocationUpload E S dr)),
     route_to ''GET'' (launch_path [Lit ''allocations'']) (optionalAuth E S now (handleAllocationList E)),
     route_to ''GET'' (launch_path [Lit ''allocations'', Par ''type'']) (optionalAuth E S now (handleAllocationGet E)),
     route_to ''POST'' (launch_path [Lit ''join'']) (rate_limited S validatorRatePerMin (jsonPOST E S now (handleJoinSubmit E S dr))),
     route_to ''POST'' (launch_path [Lit ''proposal'']) (rate_limited S validatorRatePerMin (jsonPOST E S now (handleProposalRaise E S dr))),
     route_to ''POST'' (launch_path [Lit ''proposal'', Par ''prop_id'', Lit ''sign''])
       (rate_limited S validatorRatePerMin (jsonPOST E S now (handleProposalSign E S dr))),
     route_to ''POST'' (launch_path [Lit ''ready'']) (rate_limited S validatorRatePerMin (jsonPOST E S now (handleReadinessConfirm E S dr)))])"

definition registerBridgeRoutes :: "env \<Rightarrow> Server \<Rightarrow> draw \<Rightarrow> route list" where
  "registerBridgeRoutes E S dr = (let base = (\<lambda>rest. Lit ''bridge'' # Lit ''launches'' # Par ''id'' # rest) in [
     route_to ''GET'' (base [Lit ''rehearsal-input'']) (requireOps S (handleRehearsalInput E dr)),
     route_to ''POST'' (base [Lit ''rehearsal-claim'']) (requireOps S (requireJSONBody (handleRehearsalClaim E S dr))),
     route_to ''GET'' (base [Lit ''allocations'', Par ''type'']) (requireOps S (handleBridgeAllocationGet E)),
     route_to ''POST'' (base [Lit ''rehearsal-results'']) (requireOps S (requireJSONBody (handleRehearsalResults E S dr)))])"

definition registerLaunchReadRoutes :: "env \<Rightarrow> Server \<Rightarrow> draw \<Rightarrow> route list" where
  "registerLaunchReadRoutes E S dr = (let now = dr_now dr in [
     route_to ''GET'' (launch_path [Lit ''join'']) (requireAuth E S now (handleJoinList E)),
     route_to ''GET'' (launch_path [Lit ''join'', Lit ''grouped'']) (requireAuth E S now (handleJoinGrouped E)),
     route_to ''GET'' (launch_path [Lit ''join'', Par ''req_id'']) (requireAuth E S now (handleJoinGet E)),
     route_to ''GET'' (launch_path [Lit ''gentxs'']) (requireAuth E S now (handleGentxsGet E)),
     route_to ''GET'' (launch_path [Lit ''proposals'']) (requireAuth E S now (handleProposalList E)),
     route_to ''GET'' (launch_path [Lit ''proposal'', Par ''prop_id'']) (requireAuth E S now (handleProposalGet E)),
     route_to ''GET'' (launch_path [Lit ''dashboard'']) (optionalAuth E S now (handleDashboard E S dr)),
     route_to ''GET'' (launch_path [Lit ''peers'']) (optionalAuth E S now (handlePeers E)),
     route_to ''GET'' (launch_path [Lit ''audit'']) (optionalAuth E S now (handleAudit E S)),
     route_to ''GET'' (launch_path [Lit ''events'']) (optionalAuth E S now (handleEvents E)),
     route_to ''GET'' (launch_path [Lit ''rehearsal'']) (requireAuth E S now (handleRehearsalResultsList E))])"

definition routes :: "env \<Rightarrow> Server \<Rightarrow> string \<Rightarrow> draw \<Rightarrow> route list" where
  "routes E S level dr = registerAPIRoutes E S level dr @ registerBridgeRoutes E S dr @ registerLaunchReadRoutes E S dr"

definition dispatch :: "route list \<Rightarrow> string \<Rightarrow> string list \<Rightarrow> http_request \<Rightarrow> world \<Rightarrow> http_response \<times> world" where
  \<comment> \<open>the first route of the method and the path; 405 for a path that only other methods serve\<close>
  "dispatch rts verb path r =
     (let hits = filter (\<lambda>rt. match_path (rt_Path rt) path \<noteq> None) rts in
      case find (\<lambda>rt. rt_Method rt = verb) hits of
        Some rt \<Rightarrow> rt_Handler rt (r\<lparr>rq_Params := the (match_path (rt_Path rt) path), rq_Operator := []\<rparr>)
      | None \<Rightarrow> respond (if hits = [] then 404 else 405) EmptyBody)"

definition Handler :: "env \<Rightarrow> Server \<Rightarrow> string \<Rightarrow> draw \<Rightarrow> string \<Rightarrow> string list \<Rightarrow> http_request \<Rightarrow> world \<Rightarrow> http_response \<times> world" where
  \<comment> \<open>the whole server: the path split at its slashes\<close>
  "Handler E S level dr verb path r =
     (if path = [''healthz''] then (if verb = ''GET'' then handleHealthz S r else respond 405 EmptyBody)
      else if path = [''metrics''] then (if verb = ''GET'' then respond 200 (sv_metrics S) else respond 405 EmptyBody)
      else if take 2 path = [''api'', ''v1''] then dispatch (routes E S level dr) verb (drop 2 path) r
      else respond 404 EmptyBody)"

end
