(* ===== verification/AuthProperties.thy ===== *)
theory AuthProperties
  imports Auth GovernanceProperties
begin

text \<open>
  Properties of authentication: the life of a session token under expiry and revocation, what a
  successful login has established, the rate of challenges, and the allowlist of coordinators as a
  directory of accounts.  The laws of the JWT library and of the time format are stated here.
\<close>

section \<open>Session tokens\<close>

definition jwt_laws :: "jwt \<Rightarrow> bool" where
  \<comment> \<open>a token that was signed parses to its claims until its expiry\<close>
  "jwt_laws J \<longleftrightarrow> (\<forall>c tok now. jwt_SignedString J c = Some tok \<longrightarrow>
     jwt_ParseWithClaims J now tok =
       (if case cl_ExpiresAt c of None \<Rightarrow> True | Some e \<Rightarrow> now < e then Some c else None))"

definition fence_of :: "env \<Rightarrow> db \<Rightarrow> string \<Rightarrow> time option" where
  "fence_of E d addr = map_of (at_revocations (db_auth d)) (accountFenceKey E addr)"

lemma parseClaims_issued:
  assumes "jwt_laws J" "sessions_Issue J t0 tid addr w = (Inr tok, w')" "addr \<noteq> []"
  shows "parseClaims J now tok = (if now < to_second (t0 + jwtTTL)
     then Inr (addr, to_second t0, to_second (t0 + jwtTTL)) else Inl [])"
  using assms by (auto simp: sessions_Issue_def jwt_laws_def parseClaims_def split: option.splits)

lemma sessions_Validate_issued:
  assumes "jwt_laws J" "sessions_Issue J t0 tid addr w = (Inr tok, w')" "addr \<noteq> []"
  shows "sessions_Validate E J now tok w1 =
    (if \<not> now < to_second (t0 + jwtTTL) then (Inl [ErrUnauthorized], w1)
     else bnd (reads (\<lambda>d. Inr (fence_of E d addr))) (\<lambda>f.
       if (\<exists>b. f = Some b \<and> \<not> to_second t0 > b) then fail [ErrUnauthorized] else ret addr) w1)"
  by (simp add: sessions_Validate_def parseClaims_issued [OF assms] fence_of_def fail_def bnd_def
      split: prod.split sum.split option.split)

lemma to_second_mono: "s \<le> t \<Longrightarrow> to_second s \<le> to_second t"
  by (simp add: to_second_def Second_def minus_mod_eq_mult_div zdiv_mono1)

lemma map_of_upsert: "map_of (upsert fst (\<lambda>old new. new) r rows) k = (if k = fst r then Some (snd r) else map_of rows k)"
  by (induction rows) auto

lemma fence_after_revoke:
  assumes "NewAccountID E addr = Inr x" "NewAccountID E other = Inr y" "AccountID_Equal x y"
    and "RevokeAllForOperator E t1 other w1 = (Inr (), w2)"
  shows "fence_of E (w_db w2) addr = Some (to_second t1)"
  using assms(1-3) stmt_Inr [OF assms(4) [unfolded RevokeAllForOperator_def]]
  by (auto simp: fence_of_def accountFenceKey_def on_auth_def map_of_upsert account_defs)

definition token_good :: "env \<Rightarrow> db \<Rightarrow> string \<Rightarrow> time \<Rightarrow> time \<Rightarrow> bool" where
  \<comment> \<open>a token of an address, issued at a time, is accepted at another\<close>
  "token_good E d addr t0 now \<longleftrightarrow> now < to_second (t0 + jwtTTL) \<and>
     (case fence_of E d addr of None \<Rightarrow> True | Some b \<Rightarrow> b < to_second t0)"

lemma sessions_Validate_good:
  assumes "jwt_laws J" "sessions_Issue J t0 tid addr w = (Inr tok, w')" "NewAccountID E addr = Inr x"
  shows "w_faults w1 = [] \<Longrightarrow> fst (sessions_Validate E J now tok w1) =
           (if token_good E (w_db w1) addr t0 now then Inr addr else Inl [ErrUnauthorized])"
    and "sessions_Validate E J now tok w1 = (Inr a, w2) \<Longrightarrow> a = addr \<and> token_good E (w_db w1) addr t0 now"
proof -
  have "addr \<noteq> []" using assms(3) by (auto simp: NewAccountID_def TrimSpace_def)
  note v = sessions_Validate_issued [OF assms(1,2) this, of E now w1]
  show "fst (sessions_Validate E J now tok w1) =
      (if token_good E (w_db w1) addr t0 now then Inr addr else Inl [ErrUnauthorized])" if "w_faults w1 = []"
    unfolding v using that by (auto simp: bnd_def reads_def token_good_def fail_def ret_def split: option.splits)
  show "a = addr \<and> token_good E (w_db w1) addr t0 now" if "sessions_Validate E J now tok w1 = (Inr a, w2)"
    using that [unfolded v] by (auto simp: bnd_Inr token_good_def dest!: reads_Inr split: if_splits option.splits)
qed

text \<open>
  C23. A session token is good for exactly the account it was issued to, from its issue until its
  expiry an hour later (to the second), and only while no revocation fence of the account lies at or
  after the second of its issue.  Revoking all sessions of the account at or after the issue, under
  whatever bech32 prefix of the account, ends the token at once, whatever fails afterwards.
\<close>

theorem session_token_life:
  assumes "jwt_laws J" "sessions_Issue J t0 tid addr w = (Inr tok, w')" "NewAccountID E addr = Inr x"
  shows "(\<forall>now w1. w_faults w1 = [] \<longrightarrow> fst (sessions_Validate E J now tok w1) =
           (if token_good E (w_db w1) addr t0 now then Inr addr else Inl [ErrUnauthorized])) \<and>
    (\<forall>now w1 a w2. sessions_Validate E J now tok w1 = (Inr a, w2) \<longrightarrow> a = addr \<and> token_good E (w_db w1) addr t0 now) \<and>
    (\<forall>other y t1 now w1 w2 a. NewAccountID E other = Inr y \<and> AccountID_Equal x y \<and> t0 \<le> t1 \<and>
       RevokeAllForOperator E t1 other w1 = (Inr (), w2) \<longrightarrow> fst (sessions_Validate E J now tok w2) \<noteq> Inr a)"
proof (intro conjI allI impI)
  fix other y t1 now w1 w2 a
  assume rev: "NewAccountID E other = Inr y \<and> AccountID_Equal x y \<and> t0 \<le> t1 \<and>
    RevokeAllForOperator E t1 other w1 = (Inr (), w2)"
  then have "fence_of E (w_db w2) addr = Some (to_second t1)" using fence_after_revoke [OF assms(3)] by blast
  moreover have "to_second t0 \<le> to_second t1" using rev by (simp add: to_second_mono)
  ultimately have "\<not> token_good E (w_db w2) addr t0 now" by (simp add: token_good_def)
  then show "fst (sessions_Validate E J now tok w2) \<noteq> Inr a"
    using sessions_Validate_good(2) [OF assms] by (metis prod.collapse)
qed (use sessions_Validate_good [OF assms] in blast)+

definition plain_claims :: "string \<Rightarrow> Claims" where
  "plain_claims s = \<lparr>cl_Subject = s, cl_IssuedAt = Some 0, cl_ExpiresAt = Some Hour, cl_ID = 0\<rparr>"

definition plain_jwt :: jwt where
  \<comment> \<open>tokens that show their subject, for the examples\<close>
  "plain_jwt = \<lparr>jwt_SignedString = (\<lambda>c. if c = plain_claims (cl_Subject c) then Some (cl_Subject c) else None),
     jwt_ParseWithClaims = (\<lambda>now s. if now < Hour then Some (plain_claims s) else None)\<rparr>"

lemma plain_jwt_laws: "jwt_laws plain_jwt"
  unfolding jwt_laws_def
proof (intro allI impI)
  fix c tok now
  assume "jwt_SignedString plain_jwt c = Some tok"
  then have c: "c = plain_claims (cl_Subject c)" and tok: "tok = cl_Subject c"
    by (simp_all add: plain_jwt_def split: if_splits)
  show "jwt_ParseWithClaims plain_jwt now tok =
      (if case cl_ExpiresAt c of None \<Rightarrow> True | Some e \<Rightarrow> now < e then Some c else None)"
    unfolding tok by (subst (2 3) c) (simp add: plain_jwt_def plain_claims_def)
qed

theorem session_token_life_witness:
  "fst (sessions_Validate service_env plain_jwt 5 ''c1X'' (snd (RevokeAllForOperator service_env 1 ''d1X'' service_world)))
     \<noteq> Inr ''c1X''"
proof -
  have issue: "sessions_Issue plain_jwt 0 0 ''c1X'' service_world = (Inr ''c1X'', service_world)"
    by (simp add: sessions_Issue_def plain_jwt_def plain_claims_def to_second_def jwtTTL_def duration_defs ret_def)
  obtain x where x: "NewAccountID service_env ''c1X'' = Inr x"
    by (simp add: service_env_def example_env_def NewAccountID_def TrimSpace_def is_space_def HasSuffix_def)
  obtain y where y: "NewAccountID service_env ''d1X'' = Inr y" "AccountID_Equal x y"
    using x by (auto simp: service_env_def example_env_def NewAccountID_def TrimSpace_def is_space_def HasSuffix_def account_defs)
  obtain w2 where w2: "RevokeAllForOperator service_env 1 ''d1X'' service_world = (Inr (), w2)"
    by (simp add: RevokeAllForOperator_def stmt_def execs_def service_world_def fresh_world_def Let_def)
  have le: "0 \<le> (1 :: time)" by simp
  from session_token_life [OF plain_jwt_laws issue x] y w2 le show ?thesis by (metis snd_conv)
qed

section \<open>Login\<close>

lemma challenges_Consume_Inr:
  assumes "challenges_Consume now ac w = (Inr c, w')"
  shows "\<exists>e. map_of (at_challenges (db_auth (w_db w))) ac = Some (c, e) \<and> now \<le> e"
  using assms by (auto simp: challenges_Consume_def bnd_Inr dest!: reads_Inr split: option.splits if_splits)

lemma challenges_Consume_gone:
  assumes "challenges_Consume now ac w = (r, w')" "w_faults w = []"
  shows "w_faults w' = [] \<and> map_of (at_challenges (db_auth (w_db w'))) ac = None"
  using assms by (auto simp: challenges_Consume_def bnd_def reads_def stmt_def execs_def on_auth_def Let_def fail_def ret_def
      map_of_eq_None_iff split: option.splits if_splits prod.splits)

definition login_proven :: "env \<Rightarrow> auth_cfg \<Rightarrow> time \<Rightarrow> db \<Rightarrow> VerifyChallengeInput \<Rightarrow> bool" where
  \<comment> \<open>the caller answered the challenge of the account, in time, with its key and a fresh nonce\<close>
  "login_proven E cfg now d i \<longleftrightarrow> (\<exists>ac t e message sg. accountKey E (vc_OperatorAddress i) = Inr ac \<and>
     (ac, vc_Nonce i) \<notin> fst ` set (db_nonces d) \<and>
     time_ParseRFC3339 E (vc_Timestamp i) = Some t \<and> validateTimestamp E now (vc_Timestamp i) = Inr () \<and>
     map_of (at_challenges (db_auth d)) ac = Some (vc_Challenge i, e) \<and> now \<le> e \<and>
     signing_bytes E (verify_json i) = Inr message \<and> decodeBase64Sig (vc_Signature i) = Inr sg \<and>
     au_Verify cfg (vc_OperatorAddress i) (vc_PubKeyB64 i) message sg)"

lemma Consume_success:
  assumes "Consume E now a n w = (Inr u, w')"
  shows "same_but_nonces w w'" "(a, n) \<notin> fst ` set (db_nonces (w_db w))"
  using hoareD1 [OF hoare_Consume [of w E now a n] refl assms] by simp_all

lemma Consume_no_faults: "Consume E now a n w = (r, w') \<Longrightarrow> w_faults w = [] \<Longrightarrow> w_faults w' = []"
  by (auto simp: Consume_def bnd_def stmt_def execs_def Let_def split: if_splits prod.splits sum.splits)

lemma VerifyChallenge_Inr:
  assumes "VerifyChallenge E cfg now tid i w = (Inr tok, w')"
  shows "login_proven E cfg now (w_db w) i"
    and "sessions_Issue (au_jwt cfg) now tid (vc_OperatorAddress i) w' = (Inr tok, w')"
    and "w_faults w = [] \<Longrightarrow> accountKey E (vc_OperatorAddress i) = Inr ac \<Longrightarrow>
           map_of (at_challenges (db_auth (w_db w'))) ac = None"
proof -
  from assms obtain k w1 w2 c message sg where
    k: "accountKey E (vc_OperatorAddress i) = Inr k" and n: "Consume E now k (vc_Nonce i) w = (Inr (), w1)"
    and t: "validateTimestamp E now (vc_Timestamp i) = Inr ()"
    and c: "challenges_Consume now k w1 = (Inr (vc_Challenge i), w2)"
    and m: "signing_bytes E (verify_json i) = Inr message" "decodeBase64Sig (vc_Signature i) = Inr sg"
      "au_Verify cfg (vc_OperatorAddress i) (vc_PubKeyB64 i) message sg"
    and iss: "sessions_Issue (au_jwt cfg) now tid (vc_OperatorAddress i) w2 = (Inr tok, w')"
    by (auto simp: VerifyChallenge_def bnd_Inr)
  have w': "w' = w2" using iss by (auto simp: sessions_Issue_def split: option.splits)
  have same: "at_challenges (db_auth (w_db w1)) = at_challenges (db_auth (w_db w))"
    using Consume_success(1) [OF n] by (auto simp: same_but_nonces_def)
  show "login_proven E cfg now (w_db w) i"
    using k Consume_success(2) [OF n] t challenges_Consume_Inr [OF c] m
    by (auto simp: login_proven_def same validateTimestamp_def split: if_splits option.splits)
  show "sessions_Issue (au_jwt cfg) now tid (vc_OperatorAddress i) w' = (Inr tok, w')" using iss w' by simp
  show "map_of (at_challenges (db_auth (w_db w'))) ac = None"
    if "w_faults w = []" "accountKey E (vc_OperatorAddress i) = Inr ac"
    using challenges_Consume_gone [OF c] Consume_no_faults [OF n that(1)] that(2) k w' by simp
qed


definition login_request :: VerifyChallengeInput where
  "login_request = \<lparr>vc_OperatorAddress = ''c1X'', vc_PubKeyB64 = ''key'', vc_Challenge = ''abc'', vc_Nonce = ''n1'',
     vc_Timestamp = ''now'', vc_Signature = example_sig\<rparr>"

definition login_cfg :: auth_cfg where
  "login_cfg = \<lparr>au_Verify = (\<lambda>a k m s. k = ''key''), au_jwt = plain_jwt\<rparr>"

definition challenged_world :: world where
  \<comment> \<open>a challenge is out for the account of \<open>c1X\<close>\<close>
  "challenged_world = fresh_world\<lparr>w_db := on_auth (\<lambda>a. a\<lparr>at_challenges := [(''58'', ''abc'', 5000)]\<rparr>) empty_db\<rparr>"

lemma login_request_accepted:
  "\<exists>w'. VerifyChallenge service_env login_cfg 0 0 login_request challenged_world = (Inr ''c1X'', w')"
proof -
  have "fst (VerifyChallenge service_env login_cfg 0 0 login_request challenged_world) = Inr ''c1X''" by code_simp
  then show ?thesis by (metis prod.collapse)
qed


section \<open>Challenges\<close>

definition rfc3339_seconds :: "env \<Rightarrow> bool" where
  \<comment> \<open>RFC 3339 text of four-digit years orders as the times do, up to the second: the fraction drops
     its trailing zeros, so within a second the order of the text is not the order of time\<close>
  "rfc3339_seconds E \<longleftrightarrow> (\<forall>t u. 0 \<le> t \<and> u < 315537897600 * Second \<and> t div Second < u div Second \<longrightarrow>
     time_FormatRFC3339Nano E t < time_FormatRFC3339Nano E u)"

lemma rfc3339_secondsD:
  assumes "rfc3339_seconds E" "0 \<le> t" "u < 315537897600 * Second" "t + Second \<le> u"
  shows "timeToStr E t < timeToStr E u"
proof -
  have "(t + Second) div Second \<le> u div Second"
    using assms(4) by (rule zdiv_mono1) (simp add: Second_def)
  then have "t div Second < u div Second" by (simp add: Second_def)
  then show ?thesis using assms by (simp add: rfc3339_seconds_def timeToStr_def)
qed

lemma replicate_less: "m < n \<Longrightarrow> replicate m (c :: char) < replicate n c"
proof (induction m arbitrary: n)
  case (Suc m)
  then obtain k where "n = Suc k" "m < k" by (cases n) auto
  then show ?case using Suc.IH by simp
qed (auto simp: gr0_conv_Suc)

lemma example_env_seconds: "rfc3339_seconds example_env"
proof -
  have fmt: "time_FormatRFC3339Nano example_env t = replicate (nat t) (CHR ''9'')" for t by (simp add: example_env_def)
  have nats: "nat t < nat u" if "0 \<le> t" "t div Second < u div Second" for t u
  proof -
    have "\<not> u \<le> t" using that(2) zdiv_mono1 [of u t Second] by (force simp: Second_def)
    then show ?thesis using that(1) by simp
  qed
  have "time_FormatRFC3339Nano example_env t < time_FormatRFC3339Nano example_env u"
    if "0 \<le> t" "t div Second < u div Second" for t u
    unfolding fmt by (intro replicate_less nats that)
  then show ?thesis unfolding rfc3339_seconds_def by blast
qed

text \<open>The requests of a sequence that the limiter lets through, with their times.\<close>

fun allowed :: "env \<Rightarrow> (time \<times> string) list \<Rightarrow> world \<Rightarrow> (time \<times> string) list" where
  "allowed E [] w = []"
| "allowed E ((t, a) # rs) w = (case Allow E t a w of
     (Inr _, w') \<Rightarrow> (t, a) # allowed E rs w' | (Inl _, w') \<Rightarrow> allowed E rs w')"

definition rate_rows :: "world \<Rightarrow> (string \<times> time) list" where
  "rate_rows w = at_rate (db_auth (w_db w))"

definition recent :: "env \<Rightarrow> time \<Rightarrow> time \<Rightarrow> bool" where
  "recent E now t \<longleftrightarrow> \<not> timeToStr E t < timeToStr E (now - challengeRateWindow)"

lemma Allow_run:
  assumes "w_faults w = []"
  shows "Allow E now a w = (if length (filter (\<lambda>(b, t). b = a \<and> recent E now t) (rate_rows w)) \<ge> 5
     then (Inl [ErrTooManyRequests], w)
     else (Inr (), w\<lparr>w_db := on_auth (\<lambda>x. x\<lparr>at_rate :=
        filter (\<lambda>(_, t). recent E now t) (at_rate x @ [(a, now)])\<rparr>) (w_db w)\<rparr>))"
  using assms
  by (simp add: Allow_def bnd_def reads_def ensure_def lift_def require_def stmt_def execs_def Let_def on_auth_def
      challengeRateMaxReqs_def rate_rows_def recent_def fail_def)

lemma recent_window:
  assumes "rfc3339_seconds E" "challengeRateWindow \<le> now" "t < 315537897600 * Second"
    and "now - challengeRateWindow + Second \<le> t"
  shows "recent E now t"
  using rfc3339_secondsD [of E "now - challengeRateWindow" t] assms by (auto simp: recent_def)

definition in_window :: "string \<Rightarrow> time \<Rightarrow> time \<times> string \<Rightarrow> bool" where
  \<comment> \<open>a grant to the account in the four minutes and 59 seconds up to a time\<close>
  "in_window a t g \<longleftrightarrow> snd g = a \<and> t - challengeRateWindow + Second \<le> fst g \<and> fst g \<le> t"

definition rate_history :: "time \<Rightarrow> (time \<times> string) list \<Rightarrow> world \<Rightarrow> bool" where
  \<comment> \<open>the grants so far, none after \<open>t0\<close>: the window bound, and the rows still cover what counts from \<open>t0\<close> on\<close>
  "rate_history t0 h w \<longleftrightarrow> w_faults w = [] \<and> (\<forall>g \<in> set h. fst g \<le> t0) \<and>
     (\<forall>r \<in> set (rate_rows w). snd r \<le> t0) \<and>
     (\<forall>a t. length (filter (in_window a t) h) \<le> 5) \<and>
     (\<forall>a c. t0 - challengeRateWindow + Second \<le> c \<longrightarrow>
        length (filter (\<lambda>g. snd g = a \<and> c \<le> fst g) h) \<le> length (filter (\<lambda>r. fst r = a \<and> c \<le> snd r) (rate_rows w)))"

lemma rate_history_later: "rate_history t0 h w \<Longrightarrow> t0 \<le> t \<Longrightarrow> rate_history t h w"
  unfolding rate_history_def by (smt (verit))

lemma length_filter_mono: "(\<And>x. x \<in> set xs \<Longrightarrow> P x \<Longrightarrow> Q x) \<Longrightarrow> length (filter P xs) \<le> length (filter Q xs)"
  by (induction xs) auto

lemma rate_history_Allow:
  assumes "rate_history now h w" "rfc3339_seconds E" "challengeRateWindow \<le> now" "now < 315537897600 * Second"
  shows "case Allow E now a w of (Inr _, w') \<Rightarrow> rate_history now (h @ [(now, a)]) w' | (Inl _, w') \<Rightarrow> rate_history now h w'"
proof -
  let ?c = "now - challengeRateWindow + Second"
  have nf: "w_faults w = []" and old: "\<forall>r \<in> set (rate_rows w). snd r \<le> now" and hle: "\<forall>g \<in> set h. fst g \<le> now"
    and win: "\<And>a t. length (filter (in_window a t) h) \<le> 5"
    and cov: "\<And>a c. ?c \<le> c \<Longrightarrow> length (filter (\<lambda>g. snd g = a \<and> c \<le> fst g) h) \<le>
        length (filter (\<lambda>r. fst r = a \<and> c \<le> snd r) (rate_rows w))"
    using assms(1) by (auto simp: rate_history_def)
  have rec: "recent E now t" if "?c \<le> t" "t \<le> now" for t using recent_window [of E now t] assms that by simp
  show ?thesis
  proof (cases "length (filter (\<lambda>(b, t). b = a \<and> recent E now t) (rate_rows w)) \<ge> 5")
    case True
    then show ?thesis using assms(1) Allow_run [OF nf, of E now a] by simp
  next
    case False
    let ?w = "w\<lparr>w_db := on_auth (\<lambda>x. x\<lparr>at_rate := filter (\<lambda>(_, t). recent E now t) (at_rate x @ [(a, now)])\<rparr>) (w_db w)\<rparr>"
    have rows: "rate_rows ?w = filter (\<lambda>(_, t). recent E now t) (rate_rows w @ [(a, now)])"
      by (simp add: rate_rows_def on_auth_def)
    have few: "length (filter (\<lambda>g. snd g = a \<and> ?c \<le> fst g) h) < 5"
    proof -
      have "length (filter (\<lambda>r. fst r = a \<and> ?c \<le> snd r) (rate_rows w)) \<le>
          length (filter (\<lambda>(b, t). b = a \<and> recent E now t) (rate_rows w))"
        using old rec by (intro length_filter_mono) force
      then show ?thesis using cov [of ?c a] False by simp
    qed
    have "length (filter (in_window b t) (h @ [(now, a)])) \<le> 5" for b t
    proof (cases "in_window b t (now, a)")
      case True
      then have "length (filter (in_window b t) h) \<le> length (filter (\<lambda>g. snd g = a \<and> ?c \<le> fst g) h)"
        by (intro length_filter_mono) (auto simp: in_window_def)
      then show ?thesis using few by simp
    qed (simp add: win)
    moreover have "length (filter (\<lambda>g. snd g = b \<and> c \<le> fst g) (h @ [(now, a)])) \<le>
        length (filter (\<lambda>r. fst r = b \<and> c \<le> snd r) (rate_rows ?w))" if "?c \<le> c" for b c
    proof -
      have "filter (\<lambda>r. fst r = b \<and> c \<le> snd r) (rate_rows ?w) = filter (\<lambda>r. fst r = b \<and> c \<le> snd r) (rate_rows w @ [(a, now)])"
        using old rec that unfolding rows filter_filter by (intro filter_cong) force+
      then show ?thesis using cov [OF that, of b] by simp
    qed
    ultimately have "rate_history now (h @ [(now, a)]) ?w"
      using nf hle old unfolding rate_history_def rows by auto
    then show ?thesis using False Allow_run [OF nf, of E now a] by simp
  qed
qed

lemma rate_history_allowed:
  assumes "rate_history t0 h w" "rfc3339_seconds E" "sorted (t0 # map fst rs)"
    and "\<forall>r \<in> set rs. challengeRateWindow \<le> fst r \<and> fst r < 315537897600 * Second"
  shows "length (filter (in_window a t) (h @ allowed E rs w)) \<le> 5"
  using assms
proof (induction rs arbitrary: h w t0)
  case Nil
  then show ?case by (simp add: rate_history_def)
next
  case (Cons r rs)
  obtain now b where r: "r = (now, b)" by force
  have h: "rate_history now h w" using Cons.prems(1,3) rate_history_later r by auto
  have bounds: "challengeRateWindow \<le> now" "now < 315537897600 * Second" using Cons.prems(4) r by auto
  obtain x w' where run: "Allow E now b w = (x, w')" by force
  have next': "sorted (now # map fst rs)" using Cons.prems(3) r by simp
  show ?case
  proof (cases x)
    case (Inl e)
    then have "rate_history now h w'" using rate_history_Allow [OF h Cons.prems(2) bounds, of b] run by simp
    from Cons.IH [OF this Cons.prems(2) next'] show ?thesis using Cons.prems(4) run Inl r by simp
  next
    case (Inr u)
    then have "rate_history now (h @ [(now, b)]) w'" using rate_history_Allow [OF h Cons.prems(2) bounds, of b] run by simp
    from Cons.IH [OF this Cons.prems(2) next'] show ?thesis using Cons.prems(4) run Inr r by simp
  qed
qed


definition burst :: "(time \<times> string) list" where
  \<comment> \<open>seven requests in the same nanosecond\<close>
  "burst = replicate 7 (challengeRateWindow, ''58'')"


section \<open>The coordinator allowlist\<close>

definition listed_keys :: "auth_tables \<Rightarrow> string set" where
  "listed_keys a = fst ` set (at_coordinators a)"

definition listed :: "auth_tables \<Rightarrow> AccountID \<Rightarrow> bool" where
  "listed a x \<longleftrightarrow> Hex x \<in> listed_keys a"

lemma listed_keys_simps [simp]:
  "listed_keys (coordinator_insert k addedBy now a) = insert k (listed_keys a)"
  "listed_keys (coordinator_delete k a) = listed_keys a - {k}"
  by (auto simp: listed_keys_def coordinator_insert_def coordinator_delete_def)

text \<open>The allowlist is the second provider of the directory contract.\<close>

interpretation coordinator_list: member_directory listed
  "\<lambda>a x. coordinator_insert (Hex x) addedBy now a" "\<lambda>a x. coordinator_delete (Hex x) a" for addedBy now
  by unfold_locales (auto simp: listed_def account_defs)

datatype coordinator_op = AddOp time string string | RemoveOp time string string

fun coordinator_step :: "env \<Rightarrow> coordinator_op \<Rightarrow> unit io" where
  "coordinator_step E (AddOp now address addedBy) = AddCoordinator E now address addedBy"
| "coordinator_step E (RemoveOp now address removedBy) = RemoveCoordinator E now address removedBy"

definition coordinator_accounts :: "world \<Rightarrow> string set" where
  "coordinator_accounts w = listed_keys (db_auth (w_db w))"

fun allowlist_spec :: "env \<Rightarrow> coordinator_op \<Rightarrow> string set \<Rightarrow> unit result \<times> string set" where
  \<comment> \<open>a set of accounts, whatever the prefix of the address\<close>
  "allowlist_spec E (AddOp now address addedBy) S = (case NewAccountID E address of
     Inl _ \<Rightarrow> (Inl [ErrBadRequest], S) | Inr x \<Rightarrow> (Inr (), insert (Hex x) S))"
| "allowlist_spec E (RemoveOp now address removedBy) S = (case NewAccountID E address of
     Inl _ \<Rightarrow> (Inl [ErrNotFound], S)
   | Inr x \<Rightarrow> if Hex x \<in> S then (Inr (), S - {Hex x}) else (Inl [ErrNotFound], S))"

lemma recordAudit_accounts: "recordAudit now scope ev w = (r, w') \<Longrightarrow> r = Inr () \<and> coordinator_accounts w' = coordinator_accounts w"
  using audit_Append_db [OF surjective_pairing] by (auto simp: recordAudit_def writeAuditEvent_def coordinator_accounts_def)

lemma bnd_recordAudit:
  "bnd m (\<lambda>_. recordAudit now scope ev) w = (r, w') \<Longrightarrow>
     \<exists>w1. m w = (r, w1) \<and> coordinator_accounts w' = coordinator_accounts w1"
  by (cases "m w") (auto simp: bnd_def dest: recordAudit_accounts split: sum.splits)

lemma execs_faultless:
  "execs f w = (r, w') \<Longrightarrow> f (w_db w) = Inr (x, d) \<Longrightarrow>
     r = Inr x \<and> w_db w' = d \<or> w_faults w \<noteq> [] \<and> r = Inl [] \<and> w_db w' = w_db w"
  by (auto simp: execs_def Let_def split: list.splits bool.splits)

lemma coordinators_Add_accounts:
  assumes "coordinators_Add E now ad addedBy w = (r, w')"
  shows "(r, coordinator_accounts w') = allowlist_spec E (AddOp now ad addedBy) (coordinator_accounts w) \<or>
      w_faults w \<noteq> [] \<and> r = Inl [] \<and> coordinator_accounts w' = coordinator_accounts w"
proof (cases "NewAccountID E ad")
  case (Inl e)
  then show ?thesis using assms by (simp add: coordinators_Add_def accountHex_def fail_def)
next
  case (Inr x)
  then have "execs (\<lambda>d. Inr ((), on_auth (coordinator_insert (Hex x) addedBy now) d)) w = (r, w')"
    using assms by (simp add: coordinators_Add_def accountHex_def stmt_def)
  from execs_faultless [OF this refl] show ?thesis
    by (elim disjE conjE) (simp_all add: Inr coordinator_accounts_def on_auth_def)
qed

lemma coordinators_Remove_accounts:
  assumes "coordinators_Remove E ad w = (r, w')"
  shows "(r, coordinator_accounts w') = allowlist_spec E (RemoveOp now ad removedBy) (coordinator_accounts w) \<or>
      w_faults w \<noteq> [] \<and> r = Inl [] \<and> coordinator_accounts w' = coordinator_accounts w"
proof (cases "NewAccountID E ad")
  case (Inl e)
  then show ?thesis using assms by (simp add: coordinators_Remove_def accountHex_def fail_def)
next
  case (Inr x)
  let ?f = "\<lambda>d. Inr (Hex x \<in> listed_keys (db_auth d), on_auth (coordinator_delete (Hex x)) d)"
  obtain b w1 where run: "execs ?f w = (b, w1)" by force
  have "r = (case b of Inl e \<Rightarrow> Inl e | Inr found \<Rightarrow> require found [ErrNotFound]) \<and> w' = w1"
    using assms Inr run
    by (auto simp: coordinators_Remove_def accountHex_def listed_keys_def bnd_def ensure_def lift_def split: sum.splits)
  with execs_faultless [OF run refl] show ?thesis
    by (elim disjE conjE) (simp_all add: Inr coordinator_accounts_def on_auth_def require_def)
qed

text \<open>
  C26. The coordinator allowlist implements a set of accounts: adding an address inserts its account
  and removing it deletes the account, or fails when it is not there, an invalid address changes
  nothing, a failed statement leaves the set as it was, and a lookup answers whether the account is
  in the set, under whatever prefix it was added, removed or asked for.
\<close>

theorem coordinator_allowlist_refines_set:
  assumes "coordinator_step E op w = (r, w')"
  shows "((r, coordinator_accounts w') = allowlist_spec E op (coordinator_accounts w) \<or>
      w_faults w \<noteq> [] \<and> r = Inl [] \<and> coordinator_accounts w' = coordinator_accounts w) \<and>
    (\<forall>b. fst (coordinators_Contains E address w) = Inr b \<longrightarrow>
      b = (case NewAccountID E address of Inl _ \<Rightarrow> False | Inr x \<Rightarrow> Hex x \<in> coordinator_accounts w))"
proof
  show "\<forall>b. fst (coordinators_Contains E address w) = Inr b \<longrightarrow>
      b = (case NewAccountID E address of Inl _ \<Rightarrow> False | Inr x \<Rightarrow> Hex x \<in> coordinator_accounts w)"
    by (auto simp: coordinators_Contains_def listed_keys_def accountHex_def coordinator_accounts_def ret_def reads_def
        split: sum.splits list.splits bool.splits)
next
  show "(r, coordinator_accounts w') = allowlist_spec E op (coordinator_accounts w) \<or>
      w_faults w \<noteq> [] \<and> r = Inl [] \<and> coordinator_accounts w' = coordinator_accounts w"
  proof (cases op)
    case (AddOp now ad addedBy)
    obtain w1 where "coordinators_Add E now ad addedBy w = (r, w1)" "coordinator_accounts w' = coordinator_accounts w1"
      using bnd_recordAudit assms unfolding AddOp coordinator_step.simps AddCoordinator_def by blast
    then show ?thesis using coordinators_Add_accounts unfolding AddOp by metis
  next
    case (RemoveOp now ad removedBy)
    obtain w1 where "coordinators_Remove E ad w = (r, w1)" "coordinator_accounts w' = coordinator_accounts w1"
      using bnd_recordAudit assms unfolding RemoveOp coordinator_step.simps RemoveCoordinator_def by blast
    then show ?thesis using coordinators_Remove_accounts unfolding RemoveOp by metis
  qed
qed

theorem coordinator_allowlist_refines_set_witness:
  "fst (coordinator_step service_env (RemoveOp 2 ''d1X'' ''c1Y'') (snd (coordinator_step service_env (AddOp 1 ''c1X'' ''c1Y'') fresh_world)))
     = Inr () \<and> coordinator_accounts (snd (coordinator_step service_env (AddOp 1 ''c1X'' ''c1Y'') fresh_world)) = {''58''}"
proof -
  let ?add = "coordinator_step service_env (AddOp 1 ''c1X'' ''c1Y'') fresh_world"
  have acc: "NewAccountID service_env ''c1X'' = Inr \<lparr>acct = ''58'', orig = ''c1X''\<rparr>"
    "NewAccountID service_env ''d1X'' = Inr \<lparr>acct = ''58'', orig = ''d1X''\<rparr>" by code_simp+
  have w0: "w_faults fresh_world = []" "coordinator_accounts fresh_world = {}"
    by (simp_all add: fresh_world_def coordinator_accounts_def listed_keys_def empty_db_def)
  have add: "coordinator_accounts (snd ?add) = {''58''}"
    using coordinator_allowlist_refines_set [of service_env "AddOp 1 ''c1X'' ''c1Y''" fresh_world "fst ?add" "snd ?add"]
    by (simp add: acc w0 Hex_def)
  have "w_faults (snd ?add) = []" by code_simp
  then show ?thesis
    using add coordinator_allowlist_refines_set [of service_env "RemoveOp 2 ''d1X'' ''c1Y''" "snd ?add"
        "fst (coordinator_step service_env (RemoveOp 2 ''d1X'' ''c1Y'') (snd ?add))"
        "snd (coordinator_step service_env (RemoveOp 2 ''d1X'' ''c1Y'') (snd ?add))"]
    by (simp add: acc Hex_def)
qed

end
