(* ===== verification/ApiProperties.thy ===== *)
theory ApiProperties
  imports ApiRoutes AuthProperties
begin

text \<open>
  Properties of the HTTP API: what a request may change without a credential, what a GET may change,
  what a caller outside a launch learns of it, and the statuses of errors.
\<close>

section \<open>Frames of handlers\<close>

definition leaves :: "(world \<Rightarrow> world \<Rightarrow> bool) \<Rightarrow> (world \<Rightarrow> 'r \<times> world) \<Rightarrow> bool" where
  "leaves R m \<longleftrightarrow> (\<forall>w. R w (snd (m w)))"

locale frame_relation =
  fixes R :: "world \<Rightarrow> world \<Rightarrow> bool"
  assumes refl: "R w w" and trans: "R u v \<Longrightarrow> R v w \<Longrightarrow> R u w"
    and faults: "same_but_faults v w \<Longrightarrow> R v w"
begin

lemma leaves_respond: "leaves R (respond st b)" "leaves R (writeJSON st v)" "leaves R (writeError st code)"
  "leaves R recoveryMiddleware"
  by (simp_all add: leaves_def respond_def writeJSON_def writeError_def recoveryMiddleware_def refl)

lemma leaves_service_error: "leaves R (writeServiceError e)"
  by (auto simp: writeServiceError_def leaves_respond split: option.split prod.split)

lemma leaves_calls:
  assumes "leaves R m" "\<And>e. leaves R (onError e)" "\<And>x. leaves R (k x)"
  shows "leaves R (calls m onError k)"
  unfolding leaves_def
proof
  fix w
  obtain r w' where run: "m w = (r, w')" by force
  have m: "R w w'" using assms(1) run by (metis leaves_def snd_conv)
  have "R w' (snd (recoveryMiddleware w'))" "\<And>e. R w' (snd (onError e w'))" "\<And>x. R w' (snd (k x w'))"
    using assms(2,3) leaves_respond(4) by (simp_all add: leaves_def)
  then show "R w (snd (calls m onError k w))"
    using trans [OF m] by (auto simp: calls_def run split: sum.split)
qed

lemma leaves_answer: "leaves R m \<Longrightarrow> (\<And>x. leaves R (k x)) \<Longrightarrow> leaves R (answer m k)"
  unfolding answer_def by (intro leaves_calls leaves_service_error)

lemma leaves_with_uuid: "(\<And>u. leaves R (k u)) \<Longrightarrow> leaves R (with_uuid E r name k)"
  by (simp add: with_uuid_def leaves_respond split: option.split)

lemma leaves_decoded: "(\<And>x. leaves R (k x)) \<Longrightarrow> leaves R (decoded_body r dec k)"
  by (auto simp: decoded_body_def leaves_respond split: option.split sum.split)

lemma leaves_paginated: "(\<And>x. leaves R (k x)) \<Longrightarrow> leaves R (paginated r k)"
  by (simp add: paginated_def leaves_respond split: option.split)

lemma leaves_read_only: "read_only m \<Longrightarrow> leaves R m"
  unfolding leaves_def read_only_def by (metis faults prod.collapse)

lemma leaves_split: "(\<And>a b. leaves R (f a b)) \<Longrightarrow> leaves R (case p of (a, b) \<Rightarrow> f a b)"
  by (cases p) simp

lemma leaves_if: "leaves R m \<Longrightarrow> leaves R n \<Longrightarrow> leaves R (if b then m else n)"
  by simp

lemma leaves_Let: "leaves R (f v) \<Longrightarrow> leaves R (Let v f)"
  by simp

lemmas leaves_intros = leaves_respond leaves_service_error leaves_answer leaves_with_uuid leaves_decoded leaves_paginated
  leaves_split leaves_if leaves_Let

end

interpretation same_faults: frame_relation same_but_faults
  by unfold_locales (auto intro: same_but_faults_trans)

section \<open>Reads\<close>

lemma read_only_if: "read_only m \<Longrightarrow> read_only n \<Longrightarrow> read_only (if b then m else n)"
  by simp

lemma read_only_case_sum: "(\<And>x. read_only (f x)) \<Longrightarrow> (\<And>y. read_only (g y)) \<Longrightarrow> read_only (case r of Inl x \<Rightarrow> f x | Inr y \<Rightarrow> g y)"
  by (cases r) simp_all

lemma read_only_services:
  "read_only (GetLaunch E lid a)" "read_only (GetCommittee E lid a)" "read_only (GetChainHint E lid a)"
  "read_only (GetDashboard E now lid a)" "read_only (IsCommitteeMember E lid a)" "read_only (ListMembers E lid a)"
  "read_only (GetJoinRequestByID E jid a b)" "read_only (ListGroupedBySubmitter E lid a)" "read_only (GetPeers E lid)"
  "read_only (GetReadinessDashboard E lid)" "read_only (PreviewRehearsalInput E now lid)" "read_only (ListRehearsalResults E lid a)"
  "read_only (coordinators_List E page perPage)" "read_only (coordinators_Contains E a)" "read_only (GetProposalByID E lid pid)"
  "read_only (joinrequests_FindByLaunch E lid st page perPage)" "read_only (proposals_FindByLaunch E lid page perPage)"
  "read_only (list_join_requests E lid stt page perPage)" "read_only (sessions_Validate E J now tok)"
  "read_only (GetSessionInfo E acfg now tok)"
  unfolding GetLaunch_def GetCommittee_def GetChainHint_def GetDashboard_def IsCommitteeMember_def ListMembers_def
    GetJoinRequestByID_def ListGroupedBySubmitter_def GetPeers_def GetReadinessDashboard_def PreviewRehearsalInput_def
    ListRehearsalResults_def coordinators_List_def coordinators_Contains_def GetProposalByID_def sessions_Validate_def
    GetSessionInfo_def list_join_requests_def requireCommittee_def
  by (auto intro!: frame_intros read_only_if split: sum.split option.split)

lemma read_only_hydrate: "read_only (hydrate l)"
  unfolding hydrate_def loadCommittee_def loadAllowlist_def loadVotingPower_def loadAllocationFiles_def
  by (auto intro!: frame_intros split: option.split)

lemma read_only_FindAll: "read_only (launches_FindAll E a page perPage)"
proof -
  have "read_only (foldr (\<lambda>r rest. bnd (hydrate r) (\<lambda>l. bnd rest (\<lambda>ls. ret (l # ls)))) rows (ret []))" for rows
    by (induction rows) (auto intro!: frame_intros read_only_hydrate)
  then show ?thesis unfolding launches_FindAll_def by (auto intro!: frame_intros split: sum.split)
qed

lemma read_only_files:
  "read_only (open_file dir fn)" "read_only (GetInitialRef dir)" "read_only (GetFinalRef dir)" "read_only (allocation_GetRef dir t)"
  by (auto simp: read_only_def open_file_def GetInitialRef_def GetFinalRef_def allocation_GetRef_def getRef_def
      same_but_faults_def split: list.splits bool.splits)

lemma read_only_audit_read: "read_only (\<lambda>w. (f w, w))"
  by (auto simp: read_only_def)

lemmas read_only_calls = read_only_services read_only_FindAll read_only_files read_only_audit_read

context frame_relation
begin

lemma leaves_serve_ref: "read_only m \<Longrightarrow> leaves R (serve_ref m)"
  unfolding serve_ref_def
  by (auto intro!: leaves_intros leaves_read_only read_only_calls split: StoredFileRef.split option.split)

lemmas leaves_reads = leaves_intros leaves_read_only read_only_calls leaves_serve_ref

lemma leaves_read_handlers:
  "leaves R (handleCommitteeGet E r)" "leaves R (handleLaunchList E r)" "leaves R (handleLaunchGet E r)"
  "leaves R (handleChainHint E r)" "leaves R (handleGenesisGet E r)" "leaves R (handleGenesisHashGet E r)"
  "leaves R (handleAllocationList E r)" "leaves R (handleAllocationGet E r)" "leaves R (handleDashboard E S dr r)"
  "leaves R (handlePeers E r)" "leaves R (handleAudit E S r)" "leaves R (handleEvents E r)"
  unfolding handleCommitteeGet_def handleLaunchList_def handleLaunchGet_def handleChainHint_def handleGenesisGet_def
    handleGenesisHashGet_def handleAllocationList_def handleAllocationGet_def handleDashboard_def handlePeers_def
    handleAudit_def handleEvents_def serveAllocationRef_def
  by (intro leaves_reads)+

lemma leaves_member_reads:
  "leaves R (handleMemberList E r)" "leaves R (handleJoinList E r)" "leaves R (handleJoinGrouped E r)"
  "leaves R (handleJoinGet E r)" "leaves R (handleGentxsGet E r)" "leaves R (handleProposalList E r)"
  "leaves R (handleProposalGet E r)" "leaves R (handleRehearsalResultsList E r)" "leaves R (handleRehearsalInput E dr r)"
  "leaves R (handleBridgeAllocationGet E r)" "leaves R (handleCoordinatorList E r)" "leaves R (handleLogLevelGet level r)"
  "leaves R (audit_pubkey_endpoint S r)"
  unfolding handleMemberList_def handleJoinList_def handleJoinGrouped_def handleJoinGet_def handleGentxsGet_def
    handleProposalList_def handleProposalGet_def handleRehearsalResultsList_def handleRehearsalInput_def
    handleBridgeAllocationGet_def serveAllocationRef_def handleCoordinatorList_def handleLogLevelGet_def committee_only_def
    audit_pubkey_endpoint_def
  by (auto intro!: leaves_reads split: option.split)

lemma leaves_session_info: "leaves R (handleAuthSessionInfo E S dr r)"
proof -
  have "leaves R (\<lambda>w. case coordinators_Contains E a w of (c, w') \<Rightarrow> writeJSON 200 (f c) w')" for a and f :: "bool result \<Rightarrow> json"
    unfolding leaves_def
  proof
    fix w
    have "R w (snd (coordinators_Contains E a w))" using leaves_read_only [OF read_only_services(14)] by (simp add: leaves_def)
    then show "R w (snd (case coordinators_Contains E a w of (c, w') \<Rightarrow> writeJSON 200 (f c) w'))"
      by (auto simp: writeJSON_def respond_def split: prod.split)
  qed
  note c = this
  show ?thesis unfolding handleAuthSessionInfo_def
    by (auto simp: Let_def intro!: leaves_calls leaves_respond leaves_read_only read_only_services(20) c)
qed

lemma leaves_optionalAuth:
  assumes "\<And>r. leaves R (h r)"
  shows "leaves R (optionalAuth E S now h r)"
  unfolding leaves_def
proof
  fix w
  have v: "R w (snd (sessions_Validate E J now tok w))" for J tok
    using leaves_read_only [OF read_only_services(19)] by (simp add: leaves_def)
  have "R u (snd (h r' u))" for r' u using assms by (simp add: leaves_def)
  then show "R w (snd (optionalAuth E S now h r w))"
    using v by (auto simp: optionalAuth_def Let_def split: prod.split sum.split) (metis snd_conv trans)+
qed

end

section \<open>What a request without a credential may change\<close>

definition lasting_db :: "db \<Rightarrow> db" where
  \<comment> \<open>the database without the three tables of pending logins: nonces, challenges and the rate limit\<close>
  "lasting_db d = d\<lparr>db_nonces := [], db_auth := (db_auth d)\<lparr>at_challenges := [], at_rate := []\<rparr>\<rparr>"

definition lasting :: "world \<Rightarrow> world" where
  "lasting w = w\<lparr>w_db := lasting_db (w_db w), w_faults := []\<rparr>"

definition public_change :: "world \<Rightarrow> world \<Rightarrow> bool" where
  "public_change w w' \<longleftrightarrow> lasting w' = lasting w"

interpretation login_tables: frame_relation public_change
  by unfold_locales (auto simp: public_change_def same_but_faults_def lasting_def)

lemma public_change_bnd:
  assumes "leaves public_change m" "\<And>x. leaves public_change (f x)"
  shows "leaves public_change (bnd m f)"
  unfolding leaves_def
proof
  fix w
  obtain r w' where run: "m w = (r, w')" by force
  have "public_change w w'" using assms(1) run by (metis leaves_def snd_conv)
  moreover have "public_change w' (snd (f x w'))" for x using assms(2) by (simp add: leaves_def)
  ultimately show "public_change w (snd (bnd m f w))"
    by (cases r) (auto simp: bnd_def run intro: login_tables.trans)
qed

lemma public_change_execs:
  assumes "\<And>d x d'. f d = Inr (x, d') \<Longrightarrow> lasting_db d' = lasting_db d"
  shows "leaves public_change (execs f)"
  using assms
  by (auto simp: leaves_def public_change_def lasting_def execs_def Let_def split: list.split bool.split sum.split)

lemma public_change_stmt: "(\<And>d. lasting_db (f d) = lasting_db d) \<Longrightarrow> leaves public_change (stmt f)"
  unfolding stmt_def by (rule public_change_execs) auto

lemma public_change_ignore: "leaves public_change m \<Longrightarrow> leaves public_change (\<lambda>w. (Inr x, snd (m w)))"
  by (simp add: leaves_def)

lemma public_change_basic:
  "leaves public_change (ret x)" "leaves public_change (fail e)" "leaves public_change (lift q)"
  "leaves public_change (ensure b e)" "leaves public_change (reads f)"
  by (intro login_tables.leaves_read_only read_only_basic read_only_reads)+

lemma public_change_nonce:
  "leaves public_change (Consume E now a n)"
proof -
  have "public_change w w'" if "same_but_nonces w w'" for w w'
    using that by (auto simp: same_but_nonces_def public_change_def lasting_def lasting_db_def)
  moreover have "same_but_nonces w (snd (Consume E now a n w))" for w
    using hoare_Consume [of w E now a n] by (auto simp: hoare_def split: prod.splits sum.splits)
  ultimately show ?thesis by (simp add: leaves_def)
qed

lemma public_change_logins:
  "leaves public_change (IssueChallenge E now c addr)" "leaves public_change (VerifyChallenge E acfg now tid i)"
proof -
  have up: "leaves public_change (execs (challenge_upsert E now c a))" for a
    by (rule public_change_execs)
      (auto simp: challenge_upsert_def on_auth_def lasting_db_def Let_def split: option.splits if_splits)
  show "leaves public_change (IssueChallenge E now c addr)"
    unfolding IssueChallenge_def limited_Issue_def Allow_def challenges_Issue_def
    by (auto simp: on_auth_def lasting_db_def
        intro!: public_change_bnd public_change_basic up public_change_ignore public_change_stmt)
  show "leaves public_change (VerifyChallenge E acfg now tid i)"
    unfolding VerifyChallenge_def challenges_Consume_def sessions_Issue_def
    by (auto simp: on_auth_def lasting_db_def split: option.split
        intro!: public_change_bnd public_change_basic public_change_nonce public_change_ignore public_change_stmt)
qed

definition no_session :: "env \<Rightarrow> Server \<Rightarrow> time \<Rightarrow> http_request \<Rightarrow> world \<Rightarrow> bool" where
  "no_session E S now r w \<longleftrightarrow> bearerToken r = [] \<or>
     \<not> (\<exists>a. fst (sessions_Validate E (au_jwt (sc_auth (sv_cfg S))) now (bearerToken r) w) = Inr a)"

definition no_ops_credential :: "Server \<Rightarrow> http_request \<Rightarrow> bool" where
  "no_ops_credential S r \<longleftrightarrow> sv_rehearsalOpsToken S = [] \<or> bearerToken r \<noteq> sv_rehearsalOpsToken S"

lemma bearerToken_routed: "bearerToken (r\<lparr>rq_Params := p, rq_Operator := a\<rparr>) = bearerToken r"
  by (simp add: bearerToken_def)

lemma credential_routed:
  "no_session E S now (r\<lparr>rq_Params := p, rq_Operator := a\<rparr>) w = no_session E S now r w"
  "no_ops_credential S (r\<lparr>rq_Params := p, rq_Operator := a\<rparr>) = no_ops_credential S r"
  by (simp_all add: no_session_def no_ops_credential_def bearerToken_routed)

lemma authenticated_denied:
  assumes "no_session E S now r w"
  shows "same_but_faults w (snd (authenticated E S now r k w))"
proof -
  obtain q w' where run: "sessions_Validate E (au_jwt (sc_auth (sv_cfg S))) now (bearerToken r) w = (q, w')" by force
  have "same_but_faults w w'" using read_only_services(19) run unfolding read_only_def by blast
  then show ?thesis using assms
    by (cases q) (auto simp: authenticated_def no_session_def calls_def run writeError_def respond_def recoveryMiddleware_def Let_def)
qed

definition quiet :: "world \<Rightarrow> http_request \<Rightarrow> handler \<Rightarrow> bool" where
  "quiet w r h \<longleftrightarrow> public_change w (snd (h r w))"

lemma gates_denied:
  assumes "no_session E S now r w"
  shows "quiet w r (requireAuth E S now h)" "quiet w r (requireAdmin E S now h)"
    "quiet w r (jsonPOST E S now h)" "quiet w r (jsonAdminPOST E S now h)"
  unfolding requireAuth_def requireAdmin_def jsonPOST_def jsonAdminPOST_def quiet_def
  by (intro login_tables.faults authenticated_denied assms)+

lemma requireOps_denied: "no_ops_credential S r \<Longrightarrow> quiet w r (requireOps S h)"
  by (auto simp: quiet_def requireOps_def no_ops_credential_def writeError_def respond_def Let_def login_tables.refl)

lemma rate_limited_public: "quiet w r h \<Longrightarrow> quiet w r (rate_limited S n h)"
  by (simp add: quiet_def rate_limited_def respond_def login_tables.refl)

lemma leaves_requireJSON:
  "(\<And>r. leaves public_change (h r)) \<Longrightarrow> leaves public_change (requireJSONBody h r)"
  by (simp add: requireJSONBody_def login_tables.leaves_respond)

lemma public_handlers:
  "leaves public_change (handleAuthChallenge E S dr r)" "leaves public_change (handleAuthVerify E S dr r)"
  "leaves public_change (handleAuthRevoke r)"
  unfolding handleAuthChallenge_def handleAuthVerify_def handleAuthRevoke_def RevokeSession_def sessions_Revoke_def
  by (auto simp: Let_def intro!: login_tables.leaves_intros login_tables.leaves_calls public_change_logins public_change_basic)

lemma quiet_leaves: "(\<And>r. leaves public_change (h r)) \<Longrightarrow> quiet w r h"
  by (simp add: quiet_def leaves_def)

lemma open_routes:
  "quiet w r (audit_pubkey_endpoint S)" "quiet w r (requireJSONBody (handleAuthChallenge E S dr))"
  "quiet w r (requireJSONBody (handleAuthVerify E S dr))" "quiet w r handleAuthRevoke" "quiet w r (handleAuthSessionInfo E S dr)"
  "quiet w r (optionalAuth E S now (handleCommitteeGet E))" "quiet w r (optionalAuth E S now (handleLaunchList E))"
  "quiet w r (optionalAuth E S now (handleLaunchGet E))" "quiet w r (optionalAuth E S now (handleChainHint E))"
  "quiet w r (optionalAuth E S now (handleGenesisGet E))" "quiet w r (optionalAuth E S now (handleGenesisHashGet E))"
  "quiet w r (optionalAuth E S now (handleAllocationList E))" "quiet w r (optionalAuth E S now (handleAllocationGet E))"
  "quiet w r (optionalAuth E S now (handleDashboard E S dr))" "quiet w r (optionalAuth E S now (handlePeers E))"
  "quiet w r (optionalAuth E S now (handleAudit E S))" "quiet w r (optionalAuth E S now (handleEvents E))"
  by (rule quiet_leaves, (rule leaves_requireJSON login_tables.leaves_optionalAuth)?,
      rule public_handlers login_tables.leaves_read_handlers login_tables.leaves_member_reads login_tables.leaves_session_info)+

lemma routes_denied:
  assumes "no_session E S (dr_now dr) r w" "no_ops_credential S r"
  shows "list_all (\<lambda>rt. quiet w r (rt_Handler rt)) (routes E S level dr)"
  unfolding routes_def registerAPIRoutes_def registerBridgeRoutes_def registerLaunchReadRoutes_def Let_def
    route_to_def list_all_append list.pred_inject(2) route.select_convs
  by (intro conjI list.pred_inject(1) rate_limited_public gates_denied [OF assms(1)] requireOps_denied [OF assms(2)] open_routes)

lemma dispatch_frame:
  assumes "R w w" "\<And>rt p. rt \<in> set rts \<Longrightarrow> rt_Method rt = verb \<Longrightarrow> R w (snd (rt_Handler rt (r\<lparr>rq_Params := p, rq_Operator := []\<rparr>) w))"
  shows "R w (snd (dispatch rts verb path r w))"
proof -
  have "R w (snd (rt_Handler rt (r\<lparr>rq_Params := p, rq_Operator := []\<rparr>) w))"
    if "find (\<lambda>rt. rt_Method rt = verb) (filter Q rts) = Some rt" for rt p Q
    using that assms(2) by (auto simp: find_Some_iff dest!: nth_mem)
  then show ?thesis using assms(1) by (auto simp: dispatch_def Let_def respond_def split: option.split)
qed

lemma Handler_frame:
  assumes "\<And>st b. R w (snd (respond st b w))" "R w (snd (dispatch (routes E S level dr) verb (drop 2 path) r w))"
  shows "R w (snd (Handler E S level dr verb path r w))"
proof -
  have "R w w" using assms(1) [of 200 EmptyBody] by (simp add: respond_def)
  then have "R w (snd (handleHealthz S r w))"
    by (simp add: handleHealthz_def writeJSON_def respond_def split: option.split)
  then show ?thesis using assms
    by (simp add: Handler_def)
qed

section \<open>Reads are safe\<close>

definition safe_get :: "route \<Rightarrow> bool" where
  "safe_get rt \<longleftrightarrow> (rt_Method rt = ''GET'' \<longrightarrow> (\<forall>r. leaves same_but_faults (rt_Handler rt r)))"

lemma safe_getI: "(\<And>r. leaves same_but_faults (h r)) \<Longrightarrow> safe_get (route_to m p h)"
  by (simp add: safe_get_def route_to_def)

lemma safe_other: "safe_get (route_to ''POST'' p h)" "safe_get (route_to ''DELETE'' p h)" "safe_get (route_to ''PATCH'' p h)"
  by (simp_all add: safe_get_def route_to_def)

lemma leaves_authenticated:
  "(\<And>a. leaves same_but_faults (k a)) \<Longrightarrow> leaves same_but_faults (authenticated E S now r k)"
  unfolding authenticated_def Let_def
  by (auto intro!: same_faults.leaves_intros same_faults.leaves_calls same_faults.leaves_read_only read_only_services)

lemma leaves_gates:
  assumes "\<And>r. leaves same_but_faults (h r)"
  shows "leaves same_but_faults (requireAuth E S now h r)" "leaves same_but_faults (requireAdmin E S now h r)"
    "leaves same_but_faults (requireOps S h r)"
  using assms by (auto simp: requireAuth_def requireAdmin_def requireOps_def Let_def
      intro!: leaves_authenticated same_faults.leaves_intros)

lemma routes_safe: "list_all safe_get (routes E S level dr)"
  unfolding routes_def registerAPIRoutes_def registerBridgeRoutes_def registerLaunchReadRoutes_def Let_def
    list_all_append list.pred_inject(2)
  by (intro conjI list.pred_inject(1) safe_other; rule safe_getI; intro leaves_gates same_faults.leaves_optionalAuth
      same_faults.leaves_read_handlers same_faults.leaves_member_reads same_faults.leaves_session_info)

section \<open>Launches hidden from a caller\<close>

lemma launches_FindByID_run:
  "w_faults w = [] \<Longrightarrow> launches_FindByID lid w = (row_result (load_launch (w_db w) lid), w)"
  by (cases "find (\<lambda>r. l_ID r = lid) (db_launches (w_db w))")
    (simp_all add: launches_FindByID_def hydrate_def loadCommittee_def loadAllowlist_def loadVotingPower_def
      loadAllocationFiles_def bnd_def reads_def ret_def load_launch_def InitVotingPower_def Let_def row_result_def
      split: option.split prod.split)

definition hidden :: "env \<Rightarrow> db \<Rightarrow> uuid \<Rightarrow> string \<Rightarrow> bool" where
  "hidden E d lid addr \<longleftrightarrow> (case load_launch d lid of None \<Rightarrow> True | Some l \<Rightarrow> \<not> IsVisibleTo E l addr)"

definition not_found_response :: http_response where
  "not_found_response = \<lparr>hs_Status = 404, hs_Body = ErrorBody ''not_found''\<rparr>"

lemma hidden_services:
  assumes "hidden E (w_db w) lid addr" "w_faults w = []"
  shows "GetLaunch E lid addr w = (Inl [ErrNotFound], w)" "GetCommittee E lid addr w = (Inl [ErrNotFound], w)"
    "GetChainHint E lid addr w = (Inl [ErrNotFound], w)" "GetDashboard E now lid addr w = (Inl [ErrNotFound], w)"
  using assms by (auto simp: GetLaunch_def GetCommittee_def GetChainHint_def GetDashboard_def launches_FindByID_run bnd_def
      hidden_def row_result_def fail_def split: option.splits)

lemma answer_not_found: "m w = (Inl [ErrNotFound], w) \<Longrightarrow> answer m k w = (not_found_response, w)"
  by (simp add: answer_def calls_def writeServiceError_def gentx_results_def service_status_def writeError_def respond_def
      not_found_response_def errors_Is_def)

definition launch_read_handlers :: "env \<Rightarrow> Server \<Rightarrow> draw \<Rightarrow> handler set" where
  "launch_read_handlers E S dr = {handleCommitteeGet E, handleLaunchGet E, handleChainHint E, handleGenesisGet E, handleGenesisHashGet E,
      handleAllocationList E, handleAllocationGet E, handleDashboard E S dr, handlePeers E, handleAudit E S, handleEvents E}"

lemma hidden_handlers:
  assumes "hidden E (w_db w) lid (rq_Operator r)" "w_faults w = []" "uuid_Parse E (URLParam r ''id'') = Some lid"
    and "h \<in> launch_read_handlers E S dr"
  shows "h r w = (not_found_response, w)"
proof -
  note gone = answer_not_found hidden_services [OF assms(1,2)]
  have op: "operatorFromContext r = rq_Operator r" by (simp add: operatorFromContext_def)
  have u: "with_uuid E r ''id'' k = k lid" for k by (simp add: with_uuid_def assms(3))
  show ?thesis using assms(4)
    by (auto simp: launch_read_handlers_def handleCommitteeGet_def handleLaunchGet_def handleChainHint_def handleGenesisGet_def handleGenesisHashGet_def
        handleAllocationList_def handleAllocationGet_def handleDashboard_def handlePeers_def handleAudit_def handleEvents_def
        op u gone)
qed

definition caller :: "env \<Rightarrow> Server \<Rightarrow> time \<Rightarrow> http_request \<Rightarrow> world \<Rightarrow> string" where
  \<comment> \<open>the address a request is made for: the subject of its token when that is valid, else none\<close>
  "caller E S now r w = (if bearerToken r = [] then []
     else case fst (sessions_Validate E (au_jwt (sc_auth (sv_cfg S))) now (bearerToken r) w) of Inl _ \<Rightarrow> [] | Inr a \<Rightarrow> a)"

lemma sessions_Validate_no_faults: "w_faults w = [] \<Longrightarrow> snd (sessions_Validate E J now tok w) = w"
  by (auto simp: sessions_Validate_def bnd_def reads_def fail_def ret_def split: sum.split option.split prod.split)

lemma optionalAuth_caller:
  assumes "w_faults w = []" "rq_Operator r = []"
  shows "optionalAuth E S now h r w = h (r\<lparr>rq_Operator := caller E S now r w\<rparr>) w"
proof -
  have r: "r\<lparr>rq_Operator := []\<rparr> = r" using assms(2) by simp
  obtain q where "sessions_Validate E (au_jwt (sc_auth (sv_cfg S))) now (bearerToken r) w = (q, w)"
    using sessions_Validate_no_faults [OF assms(1)] by (metis prod.collapse)
  then show ?thesis by (cases q) (simp_all add: optionalAuth_def caller_def Let_def r)
qed

definition launch_reads :: "string list \<Rightarrow> bool" where
  \<comment> \<open>what follows the launch id in the paths of the public reads of a launch\<close>
  "launch_reads rest \<longleftrightarrow> rest \<in> {[''committee''], [], [''chain-hint''], [''genesis''], [''genesis'', ''hash''], [''allocations''],
     [''dashboard''], [''peers''], [''audit''], [''events'']} \<or> (\<exists>t. rest = [''allocations'', t])"

lemma launch_read_dispatch:
  "dispatch (routes E S level dr) ''GET'' [''launch'', i, ''committee''] r = optionalAuth E S (dr_now dr) (handleCommitteeGet E) (r\<lparr>rq_Params := [(''id'', i)], rq_Operator := []\<rparr>)"
  "dispatch (routes E S level dr) ''GET'' [''launch'', i] r = optionalAuth E S (dr_now dr) (handleLaunchGet E) (r\<lparr>rq_Params := [(''id'', i)], rq_Operator := []\<rparr>)"
  "dispatch (routes E S level dr) ''GET'' [''launch'', i, ''chain-hint''] r = optionalAuth E S (dr_now dr) (handleChainHint E) (r\<lparr>rq_Params := [(''id'', i)], rq_Operator := []\<rparr>)"
  "dispatch (routes E S level dr) ''GET'' [''launch'', i, ''genesis''] r = optionalAuth E S (dr_now dr) (handleGenesisGet E) (r\<lparr>rq_Params := [(''id'', i)], rq_Operator := []\<rparr>)"
  "dispatch (routes E S level dr) ''GET'' [''launch'', i, ''genesis'', ''hash''] r = optionalAuth E S (dr_now dr) (handleGenesisHashGet E) (r\<lparr>rq_Params := [(''id'', i)], rq_Operator := []\<rparr>)"
  "dispatch (routes E S level dr) ''GET'' [''launch'', i, ''allocations''] r = optionalAuth E S (dr_now dr) (handleAllocationList E) (r\<lparr>rq_Params := [(''id'', i)], rq_Operator := []\<rparr>)"
  "dispatch (routes E S level dr) ''GET'' [''launch'', i, ''dashboard''] r = optionalAuth E S (dr_now dr) (handleDashboard E S dr) (r\<lparr>rq_Params := [(''id'', i)], rq_Operator := []\<rparr>)"
  "dispatch (routes E S level dr) ''GET'' [''launch'', i, ''peers''] r = optionalAuth E S (dr_now dr) (handlePeers E) (r\<lparr>rq_Params := [(''id'', i)], rq_Operator := []\<rparr>)"
  "dispatch (routes E S level dr) ''GET'' [''launch'', i, ''audit''] r = optionalAuth E S (dr_now dr) (handleAudit E S) (r\<lparr>rq_Params := [(''id'', i)], rq_Operator := []\<rparr>)"
  "dispatch (routes E S level dr) ''GET'' [''launch'', i, ''events''] r = optionalAuth E S (dr_now dr) (handleEvents E) (r\<lparr>rq_Params := [(''id'', i)], rq_Operator := []\<rparr>)"
  "dispatch (routes E S level dr) ''GET'' [''launch'', i, ''allocations'', t] r =
     optionalAuth E S (dr_now dr) (handleAllocationGet E) (r\<lparr>rq_Params := [(''id'', i), (''type'', t)], rq_Operator := []\<rparr>)"
  by (simp_all add: dispatch_def routes_def registerAPIRoutes_def registerBridgeRoutes_def registerLaunchReadRoutes_def
      Let_def route_to_def launch_path_def)

lemma launch_reads_dispatched:
  assumes "launch_reads rest"
  shows "\<exists>h ps. dispatch (routes E S level dr) ''GET'' (''launch'' # i # rest) r =
      optionalAuth E S (dr_now dr) h (r\<lparr>rq_Params := (''id'', i) # ps, rq_Operator := []\<rparr>) \<and>
    h \<in> launch_read_handlers E S dr"
  using assms unfolding launch_reads_def launch_read_handlers_def
  by (elim disjE exE insertE emptyE) (simp_all only: launch_read_dispatch, blast+)

section \<open>Properties\<close>

text \<open>
  C27. A request that carries neither a valid session token nor the ops credential, whatever its method,
  path, parameters and body, changes nothing but the login tables (nonces, pending challenges and the
  rate limit): no launch, committee, request, proposal, rehearsal, revocation or coordinator row, no
  audit entry, no published event and no stored file.
\<close>

theorem unauthenticated_harmless:
  assumes "no_session E S (dr_now dr) r w" "no_ops_credential S r"
  shows "public_change w (snd (Handler E S level dr verb path r w))"
proof (rule Handler_frame)
  show "public_change w (snd (respond st b w))" for st b by (simp add: respond_def login_tables.refl)
  show "public_change w (snd (dispatch (routes E S level dr) verb (drop 2 path) r w))"
  proof (rule dispatch_frame)
    fix rt p
    assume "rt \<in> set (routes E S level dr)"
    then show "public_change w (snd (rt_Handler rt (r\<lparr>rq_Params := p, rq_Operator := []\<rparr>) w))"
      using routes_denied [of E S dr "r\<lparr>rq_Params := p, rq_Operator := []\<rparr>" w level] assms
      by (simp add: credential_routed list_all_iff quiet_def)
  qed (rule login_tables.refl)
qed

definition api_server :: Server where
  "api_server = \<lparr>sv_adminAddresses = {}, sv_launchPolicy = ''open'', sv_genesisHostMode = True, sv_genesisMaxBytes = 1000,
     sv_disableRateLimit = True, sv_cfg = service_cfgs\<lparr>sc_auth := login_cfg\<rparr>, sv_auditPubKey = None, sv_rehearsalOpsToken = ''ops'',
     sv_healthCheck = None, sv_LimitByIP = (\<lambda>n r. False), sv_auditFile = (\<lambda>w. []), sv_metrics = EmptyBody,
     sv_FormatFloat = (\<lambda>q. ''0'')\<rparr>"

definition api_draw :: draw where
  "api_draw = \<lparr>dr_now = 5, dr_id = 90, dr_committee = 91, dr_challenge = ''abc''\<rparr>"

definition bare_request :: http_request where
  "bare_request = \<lparr>rq_Params = [], rq_Query = [], rq_Authorization = [], rq_ContentType = ''application/json'', rq_Body = [],
     rq_Operator = []\<rparr>"

theorem unauthenticated_harmless_witness:
  "public_change service_world (snd (Handler service_env api_server ''info'' api_draw ''POST''
     [''api'', ''v1'', ''launch'', ''x'', ''cancel''] bare_request service_world))"
proof (rule unauthenticated_harmless)
  have "bearerToken bare_request = []" by (simp add: bearerToken_def bare_request_def HasPrefix_def)
  then show "no_session service_env api_server (dr_now api_draw) bare_request service_world" "no_ops_credential api_server bare_request"
    by (simp_all add: no_session_def no_ops_credential_def api_server_def)
qed

text \<open>
  C28. A GET request changes nothing at all: no table, no file, no audit entry, no event, whoever sends
  it and whichever of the router's paths it names; only the schedule of failures has advanced.
\<close>

theorem get_is_safe: "same_but_faults w (snd (Handler E S level dr ''GET'' path r w))"
proof (rule Handler_frame)
  show "same_but_faults w (snd (dispatch (routes E S level dr) ''GET'' (drop 2 path) r w))"
  proof (rule dispatch_frame)
    fix rt p
    assume "rt \<in> set (routes E S level dr)" "rt_Method rt = ''GET''"
    then show "same_but_faults w (snd (rt_Handler rt (r\<lparr>rq_Params := p, rq_Operator := []\<rparr>) w))"
      using routes_safe [of E S level dr] unfolding list_all_iff safe_get_def leaves_def by blast
  qed simp
qed (simp add: respond_def)

text \<open>
  C29. A launch that the caller may not see is indistinguishable from one that does not exist: each of
  the eleven reads of a launch answers the same 404 in both cases, whatever token the request carries.
\<close>

theorem hidden_launch_not_disclosed:
  assumes "w_faults w = []" "uuid_Parse E i = Some lid" "hidden E (w_db w) lid (caller E S (dr_now dr) r w)" "launch_reads rest"
  shows "Handler E S level dr ''GET'' (''api'' # ''v1'' # ''launch'' # i # rest) r w =
    (\<lparr>hs_Status = 404, hs_Body = ErrorBody ''not_found''\<rparr>, w)"
proof -
  obtain h ps where d: "dispatch (routes E S level dr) ''GET'' (''launch'' # i # rest) r =
      optionalAuth E S (dr_now dr) h (r\<lparr>rq_Params := (''id'', i) # ps, rq_Operator := []\<rparr>)"
    and h: "h \<in> launch_read_handlers E S dr"
    using launch_reads_dispatched [OF assms(4)] by blast
  let ?r = "r\<lparr>rq_Params := (''id'', i) # ps, rq_Operator := []\<rparr>"
  have c: "caller E S now ?r w = caller E S now r w" for now by (simp add: caller_def bearerToken_routed)
  have "h (?r\<lparr>rq_Operator := caller E S (dr_now dr) r w\<rparr>) w = (not_found_response, w)"
    by (rule hidden_handlers [OF _ assms(1) _ h]) (use assms(2,3) in \<open>simp_all add: URLParam_def\<close>)
  then show ?thesis
    by (simp add: Handler_def d optionalAuth_caller assms(1) c not_found_response_def)
qed

definition api_env :: env where
  "api_env = service_env\<lparr>uuid_Parse := (\<lambda>s. Some 7)\<rparr>"

definition outsider_request :: http_request where
  \<comment> \<open>with a valid token of an account that is neither on the committee nor on the members list\<close>
  "outsider_request = bare_request\<lparr>rq_Authorization := ''Bearer c1Q''\<rparr>"

theorem hidden_launch_not_disclosed_witness:
  "load_launch (w_db service_world) 7 \<noteq> None \<and> caller api_env api_server 5 outsider_request service_world = ''c1Q'' \<and>
   hs_Status (fst (Handler api_env api_server ''info'' api_draw ''GET'' [''api'', ''v1'', ''launch'', ''x'', ''committee'']
     outsider_request service_world)) = 404"
proof -
  have c: "caller api_env api_server 5 outsider_request service_world = ''c1Q''" by code_simp
  have l: "load_launch (w_db service_world) 7 \<noteq> None" by code_simp
  have h: "hidden api_env (w_db service_world) 7 ''c1Q''" by code_simp
  have "w_faults service_world = []" "uuid_Parse api_env ''x'' = Some 7" "launch_reads [''committee'']" "dr_now api_draw = 5"
    by (simp_all add: service_world_def fresh_world_def api_env_def launch_reads_def api_draw_def)
  then show ?thesis using hidden_launch_not_disclosed [of service_world api_env "''x''" 7 api_server api_draw outsider_request
      "[''committee'']" "''info''"] h c l by simp
qed

end
