(* ===== verification/Database.thy ===== *)
theory Database
  imports Auth
begin

text \<open>
  Opening the database (internal/infrastructure/storage/sqlite/db.go and backfill.go): the migrations,
  each applied in a transaction with the record of its version, and the rewriting of legacy address
  columns that follows on every start.  The scripts are arguments, and so is whether SQLite accepts one;
  every statement may fail, by the same schedule as in theory Store.
\<close>

section \<open>Migrations (db.go)\<close>

record schema =
  sm_versions :: "int list"            \<comment> \<open>\<open>schema_migrations\<close>, in the order of insertion\<close>
  sm_executed :: "string list"         \<comment> \<open>the scripts that were committed\<close>

definition Sscanf_d :: "string \<Rightarrow> int option" where
  \<comment> \<open>\<open>fmt.Sscanf(s, "%d", &v)\<close>: the leading integer\<close>
  "Sscanf_d s0 =
     (let s = dropWhile (\<lambda>c. is_space c \<and> c \<noteq> CHR 0x0A) s0;
          (neg, t) = (case s of
            c # r \<Rightarrow> if c = CHR ''-'' then (True, r) else if c = CHR ''+'' then (False, r) else (False, s)
          | [] \<Rightarrow> (False, s));
          ds = takeWhile is_digit t; n = int (decimal ds); i = (if neg then - n else n) in
      if ds = [] then None else if - (2 ^ 63) \<le> i \<and> i < 2 ^ 63 then Some i else None)"

definition versionFromFilename :: "string \<Rightarrow> int result" where
  "versionFromFilename path = (let base = rev (takeWhile (\<lambda>c. c \<noteq> CHR ''/'') (rev path)) in
     case Sscanf_d base of None \<Rightarrow> Inl [] | Some v \<Rightarrow> Inr v)"

definition attempt :: "bool list \<Rightarrow> bool \<times> bool list" where
  \<comment> \<open>whether the next statement goes through, and the rest of the schedule\<close>
  "attempt fs = (case fs of [] \<Rightarrow> (True, []) | b # r \<Rightarrow> (\<not> b, r))"

definition apply_migration ::
  "(string \<Rightarrow> schema \<Rightarrow> bool) \<Rightarrow> int \<Rightarrow> string \<Rightarrow> schema \<Rightarrow> bool list \<Rightarrow> unit result \<times> schema \<times> bool list" where
  \<comment> \<open>begin, run the script, record the version, commit; the version is the primary key\<close>
  "apply_migration accepts version content s fs =
     (let (begun, fs1) = attempt fs in
      if \<not> begun then (Inl [], s, fs1)
      else let (ran, fs2) = attempt fs1 in
      if \<not> ran \<or> \<not> accepts content s then (Inl [], s, fs2)
      else let (recorded, fs3) = attempt fs2 in
      if \<not> recorded \<or> version \<in> set (sm_versions s) then (Inl [], s, fs3)
      else let (committed, fs4) = attempt fs3 in
      if \<not> committed then (Inl [], s, fs4)
      else (Inr (), \<lparr>sm_versions = sm_versions s @ [version], sm_executed = sm_executed s @ [content]\<rparr>, fs4))"

fun migrate_files ::
  "(string \<Rightarrow> schema \<Rightarrow> bool) \<Rightarrow> (string \<times> string) list \<Rightarrow> schema \<Rightarrow> bool list \<Rightarrow> unit result \<times> schema \<times> bool list" where
  "migrate_files accepts [] s fs = (Inr (), s, fs)"
| "migrate_files accepts ((path, content) # files) s fs =
     (case versionFromFilename path of
        Inl e \<Rightarrow> (Inl e, s, fs)
      | Inr version \<Rightarrow>
        let (counted, fs1) = attempt fs in
        if \<not> counted then (Inl [], s, fs1)
        else if version \<in> set (sm_versions s) then migrate_files accepts files s fs1
        else case apply_migration accepts version content s fs1 of
          (Inl e, s', fs2) \<Rightarrow> (Inl e, s', fs2)
        | (Inr _, s', fs2) \<Rightarrow> migrate_files accepts files s' fs2)"

definition runMigrations ::
  "(string \<Rightarrow> schema \<Rightarrow> bool) \<Rightarrow> (string \<times> string) list \<Rightarrow> schema \<Rightarrow> bool list \<Rightarrow> unit result \<times> schema \<times> bool list" where
  "runMigrations accepts embedded s fs =
     (let (created, fs1) = attempt fs; files = sort_key fst embedded in
      if \<not> created then (Inl [], s, fs1) else migrate_files accepts files s fs1)"

section \<open>Backfill (backfill.go)\<close>

definition backfill_coordinator :: "env \<Rightarrow> string \<times> string \<times> time \<Rightarrow> unit io" where
  \<comment> \<open>the body of the loop; two statements, no transaction\<close>
  "backfill_coordinator E = (\<lambda>(address, addedBy, addedAt).
     case NewAccountID E address of
       Inl _ \<Rightarrow> ret ()
     | Inr i \<Rightarrow> let ac = Hex i in
       if ac = address then ret ()
       else bnd (stmt (on_auth (coordinator_delete address))) (\<lambda>_.
         stmt (on_auth (coordinator_insert ac addedBy addedAt))))"

definition backfillCoordinatorAccounts :: "env \<Rightarrow> unit io" where
  "backfillCoordinatorAccounts E =
     bnd (reads (\<lambda>d. Inr (at_coordinators (db_auth d)))) (\<lambda>all. each (backfill_coordinator E) all)"

definition backfill_launch :: "env \<Rightarrow> uuid \<Rightarrow> unit io" where
  "backfill_launch E lid =
     bnd (launches_FindByID lid) (\<lambda>l.
     bnd (saveAllowlist E l) (\<lambda>_.
     if c_TotalN (l_Committee l) > 0 then saveCommittee E l else ret ()))"

definition backfillLaunchScopedAddresses :: "env \<Rightarrow> unit io" where
  "backfillLaunchScopedAddresses E =
     bnd (reads (\<lambda>d. Inr (map l_ID (db_launches d)))) (\<lambda>ids. each (backfill_launch E) ids)"

definition submitter_rows :: "db \<Rightarrow> (uuid \<times> string \<times> string) list" where
  \<comment> \<open>the join of requests and launches: id, submitter and the launch's prefix\<close>
  "submitter_rows d = map (\<lambda>j. (jr_ID j, AccountID_String (jr_SubmitterAddress j), launchPrefix d (jr_LaunchID j)))
     (filter (\<lambda>j. jr_LaunchID j \<in> l_ID ` set (db_launches d)) (db_joinrequests d))"

definition set_submitter :: "uuid \<Rightarrow> AccountID \<Rightarrow> db \<Rightarrow> db" where
  "set_submitter jid a d = d\<lparr>db_joinrequests := map (\<lambda>j. if jr_ID j = jid then j\<lparr>jr_SubmitterAddress := a\<rparr> else j) (db_joinrequests d)\<rparr>"

definition backfill_submitter :: "env \<Rightarrow> uuid \<times> string \<times> string \<Rightarrow> unit io" where
  "backfill_submitter E = (\<lambda>(jid, submitter, prefix).
     case NewAccountID E submitter of
       Inl _ \<Rightarrow> ret ()
     | Inr i \<Rightarrow> let canonical = underPrefix E i prefix in
       if canonical = submitter then ret ()
       else stmt (set_submitter jid \<lparr>acct = acct i, orig = canonical\<rparr>))"

definition backfillJoinRequestSubmitters :: "env \<Rightarrow> unit io" where
  "backfillJoinRequestSubmitters E = bnd (reads (\<lambda>d. Inr (submitter_rows d))) (\<lambda>all. each (backfill_submitter E) all)"

definition backfillAccountForms :: "env \<Rightarrow> unit io" where
  "backfillAccountForms E =
     bnd (backfillCoordinatorAccounts E) (\<lambda>_.
     bnd (backfillLaunchScopedAddresses E) (\<lambda>_.
     backfillJoinRequestSubmitters E))"

definition sqlite_Open ::
  "env \<Rightarrow> (string \<Rightarrow> schema \<Rightarrow> bool) \<Rightarrow> (string \<times> string) list \<Rightarrow> schema \<Rightarrow> world \<Rightarrow> unit result \<times> schema \<times> world" where
  "sqlite_Open E accepts embedded s w =
     (let (pragmas, fs) = attempt (w_faults w) in
      if \<not> pragmas then (Inl [], s, w\<lparr>w_faults := fs\<rparr>)
      else case runMigrations accepts embedded s fs of
        (Inl e, s', fs') \<Rightarrow> (Inl e, s', w\<lparr>w_faults := fs'\<rparr>)
      | (Inr _, s', fs') \<Rightarrow> (case backfillAccountForms E (w\<lparr>w_faults := fs'\<rparr>) of (r, w') \<Rightarrow> (r, s', w')))"

definition runMigrate :: "env \<Rightarrow> (string \<Rightarrow> schema \<Rightarrow> bool) \<Rightarrow> (string \<times> string) list \<Rightarrow> string \<Rightarrow> schema \<Rightarrow> world \<Rightarrow>
    unit result \<times> schema \<times> world" where
  \<comment> \<open>the command \<open>coordd migrate\<close> (cmd/coordd/cmd/migrate.go)\<close>
  "runMigrate E accepts embedded dbPath s w = (if dbPath = [] then (Inl [], s, w) else sqlite_Open E accepts embedded s w)"

section \<open>Migrations are applied once and in order\<close>

definition applied :: "(string \<times> string) list \<Rightarrow> schema" where
  \<comment> \<open>the schema after exactly these scripts, in this order\<close>
  "applied files = \<lparr>sm_versions = map (\<lambda>f. projr (versionFromFilename (fst f))) files, sm_executed = map snd files\<rparr>"

definition numbered :: "(string \<times> string) list \<Rightarrow> bool" where
  "numbered files \<longleftrightarrow> list_all (\<lambda>f. \<not> isl (versionFromFilename (fst f))) files \<and>
     distinct (map (\<lambda>f. projr (versionFromFilename (fst f))) files)"

lemma apply_migration_cases:
  assumes "apply_migration accepts v c s fs = (r, s', fs')"
  shows "(\<exists>e. r = Inl e) \<and> s' = s \<or>
    r = Inr () \<and> s' = \<lparr>sm_versions = sm_versions s @ [v], sm_executed = sm_executed s @ [c]\<rparr>"
  using assms by (auto simp: apply_migration_def Let_def split: prod.splits if_splits)

lemma migrate_files_prefix:
  assumes "numbered (done @ files)" "s = applied (done @ take k files)" "k \<le> length files"
    "migrate_files accepts files s fs = (r, s', fs')"
  shows "\<exists>j. k \<le> j \<and> j \<le> length files \<and> s' = applied (done @ take j files) \<and> (r = Inr () \<longrightarrow> j = length files)"
  using assms
proof (induction files arbitrary: "done" s k fs)
  case (Cons f files)
  obtain path content where f: "f = (path, content)" by (cases f)
  obtain v where v: "versionFromFilename path = Inr v" "projr (versionFromFilename path) = v"
    using Cons.prems(1) by (cases "versionFromFilename path") (auto simp: f numbered_def)
  have rest: "numbered ((done @ [f]) @ files)" using Cons.prems(1) by simp
  show ?case
  proof (cases k)
    case 0
    then have s: "s = applied done" using Cons.prems(2) by simp
    then have new: "v \<notin> set (sm_versions s)" using Cons.prems(1) v(2) by (auto simp: f numbered_def applied_def)
    show ?thesis
    proof (cases "\<exists>u s1 fs1 fs2. attempt fs = (True, fs1) \<and> apply_migration accepts v content s fs1 = (Inr u, s1, fs2)")
      case False
      then have "s' = s \<and> (\<exists>e. r = Inl e)"
        using Cons.prems(4) new v(1) by (auto simp: f Let_def dest: apply_migration_cases split: prod.splits sum.splits if_splits)
      then show ?thesis using s by (intro exI [of _ 0]) (auto simp: 0)
    next
      case True
      then obtain s1 fs1 fs2 where ap: "attempt fs = (True, fs1)" "apply_migration accepts v content s fs1 = (Inr (), s1, fs2)" by auto
      then have s1: "s1 = applied ((done @ [f]) @ take 0 files)"
        using apply_migration_cases [OF ap(2)] s v(2) by (simp add: applied_def f)
      have "migrate_files accepts files s1 fs2 = (r, s', fs')" using Cons.prems(4) ap new v(1) by (simp add: f)
      from Cons.IH [OF rest s1 _ this] obtain j where "j \<le> length files" "s' = applied ((done @ [f]) @ take j files)"
        "r = Inr () \<longrightarrow> j = length files" by auto
      then show ?thesis by (intro exI [of _ "Suc j"]) (auto simp: 0)
    qed
  next
    case (Suc m)
    then have s: "s = applied ((done @ [f]) @ take m files)" using Cons.prems(2) by simp
    then have old: "v \<in> set (sm_versions s)" using v(2) by (simp add: applied_def f)
    show ?thesis
    proof (cases "attempt fs")
      case (Pair b fs1)
      show ?thesis
      proof (cases b)
        case False
        then have "s' = s" "r = Inl []" using Cons.prems(4) Pair v(1) by (auto simp: f)
        then show ?thesis using Suc Cons.prems(2,3) by (intro exI [of _ k]) auto
      next
        case True
        then have "migrate_files accepts files s fs1 = (r, s', fs')" using Cons.prems(4) Pair old v(1) by (simp add: f)
        from Cons.IH [OF rest s _ this] Cons.prems(3) Suc obtain j where "m \<le> j" "j \<le> length files"
          "s' = applied ((done @ [f]) @ take j files)" "r = Inr () \<longrightarrow> j = length files" by auto
        then show ?thesis using Suc by (intro exI [of _ "Suc j"]) auto
      qed
    qed
  qed
qed auto

lemma numbered_sort: "numbered files \<Longrightarrow> numbered (sort_key fst files)"
  unfolding numbered_def list_all_iff set_sort
  by (auto simp: distinct_map dest: distinct_map [THEN iffD1])

definition after_opens :: "(string \<Rightarrow> schema \<Rightarrow> bool) \<Rightarrow> (string \<times> string) list \<Rightarrow> bool list list \<Rightarrow> schema" where
  \<comment> \<open>a new database, opened once for every schedule\<close>
  "after_opens accepts files fss = fold (\<lambda>fs s. fst (snd (runMigrations accepts files s fs))) fss (applied [])"

lemma runMigrations_prefix:
  assumes "numbered files" "s = applied (take k (sort_key fst files))" "k \<le> length files" "runMigrations accepts files s fs = (r, s', fs')"
  shows "\<exists>j. k \<le> j \<and> j \<le> length files \<and> s' = applied (take j (sort_key fst files)) \<and> (r = Inr () \<longrightarrow> j = length files)"
proof (cases "attempt fs")
  case (Pair b fs1)
  show ?thesis
  proof (cases b)
    case True
    then have "migrate_files accepts (sort_key fst files) s fs1 = (r, s', fs')" using assms(4) Pair by (simp add: runMigrations_def)
    with migrate_files_prefix [of "[]" "sort_key fst files" s k accepts fs1 r s' fs'] show ?thesis
      using numbered_sort [OF assms(1)] assms(2,3) by simp
  next
    case False
    then show ?thesis using assms Pair by (intro exI [of _ k]) (auto simp: runMigrations_def)
  qed
qed

lemma after_opens_prefix:
  assumes "numbered files"
  shows "\<exists>k \<le> length files. after_opens accepts files fss = applied (take k (sort_key fst files))"
proof (induction fss rule: rev_induct)
  case Nil
  show ?case by (intro exI [of _ 0]) (simp add: after_opens_def)
next
  case (snoc fs fss)
  then obtain k where k: "k \<le> length files" "after_opens accepts files fss = applied (take k (sort_key fst files))" by blast
  obtain r s' fs' where r: "runMigrations accepts files (after_opens accepts files fss) fs = (r, s', fs')" by (metis prod_cases3)
  have "after_opens accepts files (fss @ [fs]) = s'" using r by (simp add: after_opens_def)
  then show ?case using runMigrations_prefix [OF assms k(2,1) r] by auto
qed

text \<open>
  C37. However often the database is opened and whatever statement fails on the way, the scripts that
  took effect are a prefix of the embedded ones in the order of their names, each once and each with its
  version on record; an opening that succeeds has applied them all.
\<close>

theorem migrations_exactly_once:
  assumes "numbered files"
  shows "\<exists>k \<le> length files. after_opens accepts files fss = applied (take k (sort_key fst files)) \<and>
    (fst (runMigrations accepts files (after_opens accepts files fss) fs) = Inr () \<longrightarrow>
       fst (snd (runMigrations accepts files (after_opens accepts files fss) fs)) = applied (sort_key fst files))"
proof -
  obtain k where k: "k \<le> length files" "after_opens accepts files fss = applied (take k (sort_key fst files))"
    using after_opens_prefix [OF assms] by blast
  obtain r s' fs' where r: "runMigrations accepts files (after_opens accepts files fss) fs = (r, s', fs')" by (metis prod_cases3)
  from runMigrations_prefix [OF assms k(2,1) r] show ?thesis using k r by auto
qed

definition two_scripts :: "(string \<times> string) list" where
  "two_scripts = [(''migrations/0002_add_bech32_prefix.sql'', ''b''), (''migrations/0001_initial_schema.sql'', ''a'')]"

theorem migrations_exactly_once_witness:
  "\<exists>k \<le> 2. after_opens (\<lambda>_ _. True) two_scripts [[], [False, True]] = applied (take k (sort_key fst two_scripts)) \<and>
     sm_executed (after_opens (\<lambda>_ _. True) two_scripts [[False, False, False, False, False, False, True]]) = [''a'']"
proof -
  have "numbered two_scripts" by code_simp
  note once = migrations_exactly_once [OF this, of "\<lambda>_ _. True" "[[], [False, True]]" "[]"]
  have "sm_executed (after_opens (\<lambda>_ _. True) two_scripts [[False, False, False, False, False, False, True]]) = [''a'']" by code_simp
  moreover have "length two_scripts = 2" by (simp add: two_scripts_def)
  ultimately show ?thesis using once by auto
qed

section \<open>The backfill of the coordinators\<close>

definition account_key :: "env \<Rightarrow> string \<Rightarrow> string" where
  "account_key E address = (case NewAccountID E address of Inl _ \<Rightarrow> address | Inr i \<Rightarrow> Hex i)"

definition hex_not_address :: "env \<Rightarrow> bool" where
  \<comment> \<open>the hex of an account is not itself a bech32 address\<close>
  "hex_not_address E \<longleftrightarrow> (\<forall>s i. NewAccountID E s = Inr i \<longrightarrow> isl (NewAccountID E (Hex i)))"

definition coordinator_keys :: "db \<Rightarrow> string set" where
  "coordinator_keys d = fst ` set (at_coordinators (db_auth d))"

lemma account_key_idem: "hex_not_address E \<Longrightarrow> account_key E (account_key E a) = account_key E a"
  by (cases "NewAccountID E a") (auto simp: account_key_def hex_not_address_def isl_def dest!: spec [of _ a])

lemma backfill_coordinator_step:
  assumes "w_faults w = []"
  shows "\<exists>w'. backfill_coordinator E row w = (Inr (), w') \<and> w_faults w' = [] \<and> (account_key E (fst row) = fst row \<longrightarrow> w' = w) \<and>
    coordinator_keys (w_db w') = (if account_key E (fst row) = fst row then coordinator_keys (w_db w)
      else insert (account_key E (fst row)) (coordinator_keys (w_db w) - {fst row}))"
  using assms
  by (cases row) (auto simp: backfill_coordinator_def account_key_def coordinator_keys_def bnd_def stmt_def execs_def ret_def on_auth_def
      coordinator_delete_def coordinator_insert_def Let_def image_iff split: sum.splits, blast?)

definition rewritten :: "(string \<Rightarrow> string) \<Rightarrow> string set \<Rightarrow> string list \<Rightarrow> string set" where
  "rewritten key K as = {x \<in> K. \<not> (x \<in> set as \<and> key x \<noteq> x)} \<union> key ` {a \<in> set as. key a \<noteq> a}"

lemma rewritten_all: "set as = K \<Longrightarrow> rewritten key K as = key ` K"
  by (auto simp: rewritten_def image_iff) metis

lemma backfill_coordinators_run:
  assumes "hex_not_address E" "w_faults w = []"
  shows "\<exists>w'. each (backfill_coordinator E) rows w = (Inr (), w') \<and> w_faults w' = [] \<and>
    ((\<forall>r \<in> set rows. account_key E (fst r) = fst r) \<longrightarrow> w' = w) \<and>
    coordinator_keys (w_db w') = rewritten (account_key E) (coordinator_keys (w_db w)) (map fst rows)"
  using assms(2)
proof (induction rows arbitrary: w)
  case (Cons row rows)
  obtain w1 where w1: "backfill_coordinator E row w = (Inr (), w1)" "w_faults w1 = []" "account_key E (fst row) = fst row \<longrightarrow> w1 = w"
    "coordinator_keys (w_db w1) = (if account_key E (fst row) = fst row then coordinator_keys (w_db w)
      else insert (account_key E (fst row)) (coordinator_keys (w_db w) - {fst row}))"
    using backfill_coordinator_step [OF Cons.prems] by blast
  obtain w' where w': "each (backfill_coordinator E) rows w1 = (Inr (), w')" "w_faults w' = []"
    "(\<forall>r \<in> set rows. account_key E (fst r) = fst r) \<longrightarrow> w' = w1"
    "coordinator_keys (w_db w') = rewritten (account_key E) (coordinator_keys (w_db w1)) (map fst rows)"
    using Cons.IH [OF w1(2)] by blast
  have "coordinator_keys (w_db w') = rewritten (account_key E) (coordinator_keys (w_db w)) (map fst (row # rows))"
    unfolding w'(4) w1(4) using account_key_idem [OF assms(1)] by (auto simp: rewritten_def)
  then show ?case using w1(1,3) w'(1-3) by (simp add: bnd_def)
qed (simp add: ret_def rewritten_def)

text \<open>
  Without a failure the backfill keeps the set of accounts and leaves every row in its canonical form, so
  that a second one changes nothing.
\<close>

lemma backfill_keeps_coordinators:
  assumes "hex_not_address E" "w_faults w = []"
  shows "\<exists>w'. backfillCoordinatorAccounts E w = (Inr (), w') \<and> w_faults w' = [] \<and>
    coordinator_keys (w_db w') = account_key E ` coordinator_keys (w_db w) \<and>
    (\<forall>addr. coordinators_Contains E addr w' = (Inr (\<exists>r \<in> set (at_coordinators (db_auth (w_db w))). accountHex E addr = Some (account_key E (fst r))), w')) \<and>
    backfillCoordinatorAccounts E w' = (Inr (), w')"
proof -
  have all: "backfillCoordinatorAccounts E v = each (backfill_coordinator E) (at_coordinators (db_auth (w_db v))) v"
    if "w_faults v = []" for v using that by (simp add: backfillCoordinatorAccounts_def bnd_def reads_def)
  obtain w' where w': "backfillCoordinatorAccounts E w = (Inr (), w')" "w_faults w' = []"
    "coordinator_keys (w_db w') = rewritten (account_key E) (coordinator_keys (w_db w)) (map fst (at_coordinators (db_auth (w_db w))))"
    using backfill_coordinators_run [OF assms] all [OF assms(2)] by metis
  have keys: "coordinator_keys (w_db w') = account_key E ` coordinator_keys (w_db w)"
    unfolding w'(3) by (rule rewritten_all) (simp add: coordinator_keys_def)
  then have "\<forall>r \<in> set (at_coordinators (db_auth (w_db w'))). account_key E (fst r) = fst r"
    using account_key_idem [OF assms(1)] by (force simp: coordinator_keys_def)
  then have "backfillCoordinatorAccounts E w' = (Inr (), w')"
    using backfill_coordinators_run [OF assms(1) w'(2)] all [OF w'(2)] by metis
  moreover have "coordinators_Contains E addr w' = (Inr (\<exists>r \<in> set (at_coordinators (db_auth (w_db w))). accountHex E addr = Some (account_key E (fst r))), w')"
    for addr
    using keys w'(2) by (auto simp: coordinators_Contains_def reads_def ret_def coordinator_keys_def split: option.splits)
  ultimately show ?thesis using w' keys by blast
qed

end
