(* ===== verification/Findings.thy ===== *)
theory Findings
  imports ApiProperties Database
begin

text \<open>
  Behaviours the model exhibits that differ from what the code or its documentation intends, each as a
  lemma: on concrete states where one run shows it, in general where the cause is arithmetic.
\<close>

section \<open>The timestamp window\<close>

text \<open>
  \<open>time.Since\<close> saturates at the smallest \<open>Duration\<close>, whose negation is itself, so a timestamp more than
  \<open>2 ^ 63\<close> nanoseconds (some 292 years) ahead passes the check that every closer one fails.
\<close>

text \<open>
  C30. A timestamp is accepted exactly when it parses and lies within five minutes of the clock, or so
  far ahead that the saturated difference wraps when it is negated.
\<close>

theorem timestamp_window_exact:
  "validateTimestamp E now ts = Inr () \<longleftrightarrow>
     ts \<noteq> [] \<and> (\<exists>t. time_ParseRFC3339 E ts = Some t \<and> (\<bar>now - t\<bar> \<le> 5 * Minute \<or> now + 2 ^ 63 \<le> t))"
proof (cases "time_ParseRFC3339 E ts")
  case (Some t)
  have "signedPayloadMaxAge = 5 * Minute" by (simp add: signedPayloadMaxAge_def)
  then show ?thesis using Some
    by (auto simp: validateTimestamp_def time_Sub_def neg_duration_def minDuration_def maxDuration_def Let_def
        duration_defs split: if_splits)
qed (simp add: validateTimestamp_def)

section \<open>Pages\<close>

text \<open>The offset \<open>(page - 1) * perPage\<close> wraps, and SQLite reads a negative offset as zero.\<close>

lemma huge_page_is_first_page: "page_of (2 ^ 62 + 1) 2 xs = page_of 1 2 xs"
proof -
  have "signed_take_bit 63 (2 ^ 62 * 2 :: int) = - (2 ^ 63)" by code_simp
  then show ?thesis by (simp add: page_of_def Let_def)
qed

section \<open>Reads across launches\<close>

text \<open>
  The account of \<open>c1Q\<close> is the whole committee of launch 8 and a stranger to launch 7, whose join request
  60 was submitted by someone else.  The request is served to it under the path of launch 8.
\<close>

definition two_launches_env :: env where
  "two_launches_env = service_env\<lparr>uuid_Parse := (\<lambda>s. if s = ''req'' then Some 60 else if s = ''L7'' then Some 7 else Some 8)\<rparr>"

definition foreign_request :: JoinRequest where
  "foreign_request = \<lparr>jr_ID = 60, jr_LaunchID = 7, jr_OperatorAddress = seat_account ''c1Y'', jr_SubmitterAddress = seat_account ''c1Y'',
     jr_ConsensusPubKey = ''k'', jr_GentxJSON = ''{}'', jr_PeerAddress = \<lparr>pa_value = []\<rparr>, jr_RPCEndpoint = \<lparr>rpc_value = []\<rparr>, jr_Memo = [], jr_SubmittedAt = 0,
     jr_OperatorSignature = \<lparr>sig_value = []\<rparr>, jr_Status = JRPending, jr_RejectionReason = [], jr_ApprovedByProposal = None\<rparr>"

definition two_launches_world :: world where
  "two_launches_world = service_world\<lparr>w_db := (w_db service_world)\<lparr>
     db_launches := db_launches (w_db service_world) @ [(launch_columns example_launch)\<lparr>l_ID := 8\<rparr>],
     db_committees := db_committees (w_db service_world) @
       [(8, service_committee\<lparr>c_ID := 2, c_Members := [\<lparr>cm_Address = seat_account ''c1Q'', cm_Moniker = ''q''\<rparr>],
          c_LeadAddress := seat_account ''c1Q'', c_ThresholdM := 1, c_TotalN := 1\<rparr>)],
     db_joinrequests := [foreign_request]\<rparr>\<rparr>"

definition q_request :: http_request where
  "q_request = bare_request\<lparr>rq_Authorization := ''Bearer c1Q''\<rparr>"

lemma stranger_to_launch_7:
  "hidden two_launches_env (w_db two_launches_world) 7 (caller two_launches_env api_server 5 q_request two_launches_world)"
  by code_simp

lemma join_request_of_another_launch_served:
  "hs_Status (fst (requireAuth two_launches_env api_server 5 (handleJoinGet two_launches_env)
     (q_request\<lparr>rq_Params := [(''id'', ''L8''), (''req_id'', ''req'')]\<rparr>) two_launches_world)) = 200"
  by code_simp

lemma proposals_of_hidden_launch_served:
  "hs_Status (fst (requireAuth two_launches_env api_server 5 (handleProposalList two_launches_env)
     (q_request\<lparr>rq_Params := [(''id'', ''L7'')]\<rparr>) two_launches_world)) = 200"
  by code_simp

section \<open>Sessions and challenges\<close>

lemma logout_keeps_token:
  "sessions_Validate E J now tok (snd (RevokeSession tok w)) = sessions_Validate E J now tok w"
  by (simp add: RevokeSession_def sessions_Revoke_def ret_def)

text \<open>A request with a wrong key uses up the challenge of the account it names.\<close>

lemma forged_login_consumes_challenge:
  "fst (VerifyChallenge service_env login_cfg 0 0 (login_request\<lparr>vc_PubKeyB64 := ''forged''\<rparr>) challenged_world) = Inl [ErrUnauthorized] \<and>
   at_challenges (db_auth (w_db (snd (VerifyChallenge service_env login_cfg 0 0 (login_request\<lparr>vc_PubKeyB64 := ''forged''\<rparr>) challenged_world)))) = []"
  by code_simp

section \<open>Committees\<close>

text \<open>
  A new committee is stored under a fresh id beside the old row, and the next load takes the old one:
  the request succeeds and changes nothing that is read.
\<close>

definition draft_world :: world where
  "draft_world = service_world\<lparr>w_db := (w_db service_world)\<lparr>db_launches := [launch_columns example_launch]\<rparr>\<rparr>"

definition new_committee :: Committee where
  "new_committee = service_committee\<lparr>c_ID := 99, c_Members := [\<lparr>cm_Address = seat_account ''c1X'', cm_Moniker = ''x''\<rparr>],
     c_ThresholdM := 1, c_TotalN := 1\<rparr>"

lemma set_committee_without_effect:
  "fst (SetCommittee api_env 5 7 new_committee ''c1X'' draft_world) = Inr () \<and>
   map_option (\<lambda>l. length (c_Members (l_Committee l)))
     (load_launch (w_db (snd (SetCommittee api_env 5 7 new_committee ''c1X'' draft_world))) 7) = Some 3"
  by code_simp

text \<open>A seat can be given to an account that already has one, which then holds two seats.\<close>

lemma replacement_already_seated:
  "map_sum id (\<lambda>l. seats (l_Committee l)) (ReplaceCommitteeMember 5 example_launch (example_account ''bb'') (example_member ''cc'')) =
     Inr [''aa'', ''cc'', ''cc'']"
  by code_simp

section \<open>Proposals about another launch's requests\<close>

text \<open>An executed proposal of launch 8 rejects the pending request of launch 7.\<close>

definition reject_foreign :: Proposal where
  "reject_foreign = example_proposal\<lparr>p_LaunchID := 8, p_ActionType := ActionRejectValidator, p_Status := PStatusExecuted,
     p_Payload := CHR ''{'' # json_quote ''join_request_id'' @ '':'' @ json_quote ''req'' @ '','' @ json_quote ''operator_address'' @ '':'' @
       json_quote ''c1Y'' @ '','' @ json_quote ''reason'' @ '':'' @ json_quote ''x'' @ ''}''\<rparr>"

lemma foreign_request_rejected:
  "map (\<lambda>r. (jr_LaunchID r, jr_Status r)) (db_joinrequests (w_db (snd
     (applyRejectValidator two_launches_env reject_foreign two_launches_world)))) = [(7, JRRejected)]"
  by code_simp

section \<open>Not a number\<close>

lemma nan_commission_accepted:
  "ParseFloat E s = Some NaN \<Longrightarrow> NewCommissionRate E s = Inr \<lparr>cr_value = s, cr_f = NaN\<rparr>"
  by (simp add: NewCommissionRate_def)

section \<open>The backfill at start-up\<close>

text \<open>The delete and the insert of a coordinator are two statements: when the second fails, the coordinator is gone.\<close>

definition legacy_world :: world where
  "legacy_world = draft_world\<lparr>w_db := (w_db draft_world)\<lparr>db_auth := \<lparr>at_challenges = [], at_rate = [], at_revocations = [],
     at_coordinators = [(''c1X'', ''admin'', 3)]\<rparr>\<rparr>\<rparr>"

lemma backfill_loses_coordinator:
  "at_coordinators (db_auth (w_db (snd (backfillAccountForms api_env (legacy_world\<lparr>w_faults := [False, False, True]\<rparr>))))) = []"
  by code_simp

text \<open>The same holds for the members of every launch, whose rows are deleted and inserted again on each start.\<close>

definition member_world :: world where
  "member_world = draft_world\<lparr>w_db := (w_db draft_world)\<lparr>db_launches := [(launch_columns example_launch)\<lparr>l_Allowlist :=
     NewAllowlist [seat_account ''c1X'', seat_account ''c1Y'']\<rparr>]\<rparr>\<rparr>"

definition load_faults :: "nat \<Rightarrow> bool list" where
  "load_faults n = replicate n False @ [True]"

lemma backfill_loses_members:
  "map (\<lambda>l. length (Members (l_Allowlist l))) (db_launches (w_db member_world)) = [2] \<and>
   map (\<lambda>l. length (Members (l_Allowlist l)))
     (db_launches (w_db (snd (backfillAccountForms api_env (member_world\<lparr>w_faults := load_faults 8\<rparr>))))) = [0]"
  by code_simp

text \<open>
  Saving the committee again moves its row to the end of the table, so of two committees of a launch the
  other one is loaded after each restart: a committee set before takes effect then.
\<close>

lemma restart_swaps_committee:
  "map_option (\<lambda>l. length (c_Members (l_Committee l)))
     (load_launch (w_db (snd (backfillAccountForms api_env (snd (SetCommittee api_env 5 7 new_committee ''c1X'' draft_world))))) 7) = Some 1"
  by code_simp

end
