(* ===== verification/Crypto.thy ===== *)
theory Crypto
  imports Values Base64
begin

text \<open>
  The signature verifiers (internal/infrastructure/crypto): an address is accepted for a public key only
  when it is the bech32 of the key's hash, and a signature only over the ADR-036 document that carries
  the payload and the address.  The curve, the hashes and bech32 are parameters; a key and a digest are
  lists of bytes.
\<close>

definition byte_list :: "bytes \<Rightarrow> nat list" where
  "byte_list s = map of_char s"

lemma byte_list_inject [simp]: "byte_list s = byte_list t \<longleftrightarrow> s = t"
  by (simp add: byte_list_def inj_map_eq_map inj_of_char)

lemma byte_list_bytes [simp]: "\<forall>b \<in> set (byte_list s). b < 256"
  by (auto simp: byte_list_def)

record crypto_lib =
  secp_ParsePubKey :: "nat list \<Rightarrow> bool"                              \<comment> \<open>the bytes are a point of the curve\<close>
  ecdsa_Verify :: "nat list \<Rightarrow> nat list \<Rightarrow> nat list \<Rightarrow> bool"         \<comment> \<open>key, digest, and the 64 bytes of r and s\<close>
  ed25519_Verify :: "nat list \<Rightarrow> bytes \<Rightarrow> nat list \<Rightarrow> bool"
  sha256_Sum256 :: "nat list \<Rightarrow> nat list"
  ripemd160_Sum :: "nat list \<Rightarrow> nat list"
  secp_PrivKeyFromBytes :: "nat list \<Rightarrow> nat list"                    \<comment> \<open>a private key, by its serialization\<close>
  secp_SerializeCompressed :: "nat list \<Rightarrow> nat list"                 \<comment> \<open>the public key of a private key\<close>
  ecdsa_SignCompact :: "nat list \<Rightarrow> nat list \<Rightarrow> nat list"           \<comment> \<open>a recovery byte, then r and s\<close>

section \<open>The ADR-036 document\<close>

definition dq :: "string \<Rightarrow> string" where
  "dq s = CHR 0x22 # s @ [CHR 0x22]"

definition adr036_head :: string where
  "adr036_head = ''{'' @ dq ''account_number'' @ '':'' @ dq ''0'' @ '','' @ dq ''chain_id'' @ '':'' @ dq [] @ '','' @
     dq ''fee'' @ '':{'' @ dq ''amount'' @ '':[],'' @ dq ''gas'' @ '':'' @ dq ''0'' @ ''},'' @ dq ''memo'' @ '':'' @ dq [] @ '','' @
     dq ''msgs'' @ '':[{'' @ dq ''type'' @ '':'' @ dq ''sign/MsgSignData'' @ '','' @ dq ''value'' @ '':{'' @ dq ''data'' @ '':''"

definition adr036_tail :: string where
  "adr036_tail = ''}}],'' @ dq ''sequence'' @ '':'' @ dq ''0'' @ ''}''"

definition BuildADR036AminoBytes :: "string \<Rightarrow> bytes \<Rightarrow> bytes" where
  "BuildADR036AminoBytes operatorAddr payload = (let data = base64_EncodeToString (byte_list payload) in
     adr036_head @ dq data @ '','' @ dq ''signer'' @ '':'' @ dq operatorAddr @ adr036_tail)"

section \<open>Verification\<close>

definition compressedPubKeySize :: nat where "compressedPubKeySize = 33"
definition compactSigSize :: nat where "compactSigSize = 64"

definition derived_address :: "env \<Rightarrow> string \<Rightarrow> nat list \<Rightarrow> string result" where
  \<comment> \<open>the bech32 of a key's hash under the prefix of an address\<close>
  "derived_address E operatorAddr addrBytes = (case bech32_Decode E operatorAddr 1023 of
     None \<Rightarrow> Inl []
   | Some (hrp, _) \<Rightarrow> (case bech32_ConvertBits E addrBytes 8 5 True of
       None \<Rightarrow> Inl []
     | Some converted \<Rightarrow> (case bech32_Encode E hrp converted of None \<Rightarrow> Inl [] | Some derived \<Rightarrow> Inr derived)))"

definition assertSecp256k1AddressMatches :: "env \<Rightarrow> crypto_lib \<Rightarrow> string \<Rightarrow> nat list \<Rightarrow> unit result" where
  "assertSecp256k1AddressMatches E L operatorAddr compressedPubKey =
     and_then (derived_address E operatorAddr (ripemd160_Sum L (sha256_Sum256 L compressedPubKey))) (\<lambda>derived.
     require (derived = operatorAddr) [])"

definition Secp256k1_Verify :: "env \<Rightarrow> crypto_lib \<Rightarrow> string \<Rightarrow> string \<Rightarrow> bytes \<Rightarrow> nat list \<Rightarrow> unit result" where
  "Secp256k1_Verify E L operatorAddr pubKeyB64 message sig =
     (if operatorAddr = [] then Inl []
      else if pubKeyB64 = [] then Inl []
      else case base64_DecodeString pubKeyB64 of
        None \<Rightarrow> Inl []
      | Some pubKeyBytes \<Rightarrow>
        if length pubKeyBytes \<noteq> compressedPubKeySize then Inl []
        else if \<not> secp_ParsePubKey L pubKeyBytes then Inl []
        else and_then (assertSecp256k1AddressMatches E L operatorAddr pubKeyBytes) (\<lambda>_.
          if length sig \<noteq> compactSigSize then Inl []
          else let msgHash = sha256_Sum256 L (byte_list (BuildADR036AminoBytes operatorAddr message)) in
            require (ecdsa_Verify L pubKeyBytes msgHash sig) []))"

definition assertAddressMatchesPubKey :: "env \<Rightarrow> crypto_lib \<Rightarrow> string \<Rightarrow> nat list \<Rightarrow> unit result" where
  "assertAddressMatchesPubKey E L operatorAddr pubKey =
     and_then (derived_address E operatorAddr (take 20 (sha256_Sum256 L pubKey))) (\<lambda>derived.
     require (derived = operatorAddr) [])"

definition Ed25519_Verify :: "env \<Rightarrow> crypto_lib \<Rightarrow> string \<Rightarrow> string \<Rightarrow> bytes \<Rightarrow> nat list \<Rightarrow> unit result" where
  "Ed25519_Verify E L operatorAddr pubKeyB64 message sig =
     (if operatorAddr = [] then Inl []
      else if pubKeyB64 = [] then Inl []
      else case base64_DecodeString pubKeyB64 of
        None \<Rightarrow> Inl []
      | Some pubKey \<Rightarrow>
        if length pubKey \<noteq> 32 then Inl []
        else and_then (assertAddressMatchesPubKey E L operatorAddr pubKey) (\<lambda>_.
          require (ed25519_Verify L pubKey message sig) []))"

definition verifier :: "env \<Rightarrow> crypto_lib \<Rightarrow> string \<Rightarrow> string \<Rightarrow> bytes \<Rightarrow> nat list \<Rightarrow> bool" where
  \<comment> \<open>the \<open>SignatureVerifier\<close> that \<open>runServe\<close> gives the services: the call returns no error\<close>
  "verifier E L operatorAddr pubKeyB64 message sig \<longleftrightarrow> Secp256k1_Verify E L operatorAddr pubKeyB64 message sig = Inr ()"

section \<open>What a signature is bound to\<close>

definition is_bytes :: "nat list \<Rightarrow> bool" where
  "is_bytes bs \<longleftrightarrow> (\<forall>b \<in> set bs. b < 256)"

definition bech32_laws :: "env \<Rightarrow> bool" where
  \<comment> \<open>decoding is the inverse of encoding, and rejects surrounding blanks; regrouping bits keeps the bytes\<close>
  "bech32_laws E \<longleftrightarrow>
     (\<forall>s n hrp d d'. bech32_Decode E s n = Some (hrp, d) \<and> bech32_Encode E hrp d' = Some s \<and> is_bytes d' \<longrightarrow> d = d') \<and>
     (\<forall>s n hd. bech32_Decode E s n = Some hd \<longrightarrow> TrimSpace s = s) \<and>
     (\<forall>bs d. bech32_ConvertBits E bs 8 5 True = Some d \<and> is_bytes bs \<longrightarrow>
        is_bytes d \<and> bech32_ConvertBits E d 5 8 False = Some bs)"

definition hash_laws :: "crypto_lib \<Rightarrow> bool" where
  "hash_laws L \<longleftrightarrow> (\<forall>x. is_bytes (ripemd160_Sum L x))"

lemma base64_no_quote:
  assumes "\<forall>b \<in> set bs. b < 256"
  shows "CHR 0x22 \<notin> set (base64_EncodeToString bs)"
proof -
  have "b64_char n \<noteq> CHR 0x22" if "n < 64" for n
    using that by (auto dest!: arg_cong [of _ _ "of_char :: char \<Rightarrow> nat"] simp: of_char_b64_char split: if_splits)
  note q = this
  show ?thesis
  proof
    assume "CHR 0x22 \<in> set (base64_EncodeToString bs)"
    then have "CHR 0x22 = CHR ''='' \<or> (\<exists>n < 64. CHR 0x22 = b64_char n)"
      using base64_alphabet [OF assms] unfolding list_all_iff by blast
    then show False using q by fastforce
  qed
qed

lemma quoted_prefix:
  assumes "CHR 0x22 \<notin> set a" "CHR 0x22 \<notin> set b" "a @ CHR 0x22 # x = b @ CHR 0x22 # y"
  shows "a = b \<and> x = y"
  using assms
proof (induction a arbitrary: b)
  case Nil
  then show ?case by (cases b) auto
next
  case (Cons c a)
  then show ?case by (cases b) auto
qed

lemma BuildADR036_inject: "BuildADR036AminoBytes a p = BuildADR036AminoBytes b q \<longleftrightarrow> a = b \<and> p = q"
proof
  assume "BuildADR036AminoBytes a p = BuildADR036AminoBytes b q"
  then have "base64_EncodeToString (byte_list p) @ CHR 0x22 # '','' @ dq ''signer'' @ '':'' @ dq a @ adr036_tail =
      base64_EncodeToString (byte_list q) @ CHR 0x22 # '','' @ dq ''signer'' @ '':'' @ dq b @ adr036_tail"
    by (simp add: BuildADR036AminoBytes_def Let_def dq_def)
  from quoted_prefix [OF base64_no_quote base64_no_quote this]
  have "base64_EncodeToString (byte_list p) = base64_EncodeToString (byte_list q)" "a = b"
    by (simp_all add: dq_def)
  moreover from this(1) have "byte_list p = byte_list q"
    using base64_decode_encode [OF byte_list_bytes] by (metis option.inject)
  ultimately show "a = b \<and> p = q" by simp
qed simp

lemma Secp256k1_Verify_Inr:
  assumes "Secp256k1_Verify E L addr pub msg sig = Inr ()"
  obtains key where "base64_DecodeString pub = Some key" "length key = 33" "length sig = 64"
    "derived_address E addr (ripemd160_Sum L (sha256_Sum256 L key)) = Inr addr"
    "ecdsa_Verify L key (sha256_Sum256 L (byte_list (BuildADR036AminoBytes addr msg))) sig"
  using assms that
  by (auto simp: Secp256k1_Verify_def assertSecp256k1AddressMatches_def compressedPubKeySize_def compactSigSize_def Let_def
      and_then_def require_def split: if_splits option.splits sum.splits)

lemma derived_account:
  assumes "bech32_laws E" "is_bytes bs" "derived_address E addr bs = Inr addr" "NewAccountID E addr = Inr a"
  shows "acct a = hex_EncodeToString bs"
proof -
  obtain hrp d converted where dec: "bech32_Decode E addr 1023 = Some (hrp, d)"
    and conv: "bech32_ConvertBits E bs 8 5 True = Some converted" and enc: "bech32_Encode E hrp converted = Some addr"
    using assms(3) by (auto simp: derived_address_def split: option.splits prod.splits)
  have c: "is_bytes converted" "bech32_ConvertBits E converted 5 8 False = Some bs" "TrimSpace addr = addr"
    using assms(1,2) dec conv unfolding bech32_laws_def by blast+
  moreover have "d = converted" using assms(1) dec enc c(1) unfolding bech32_laws_def by blast
  ultimately show ?thesis using assms(4) dec by (auto simp: NewAccountID_def Let_def split: if_splits)
qed

end
