(* ===== verification/SmokeSigner.thy ===== *)
theory SmokeSigner
  imports Crypto JsonPrint ServiceBase
begin

text \<open>
  The signing client (cmd/smoke-signer): key selection, address derivation and the \<open>sign\<close> command, which
  fills in the nonce, the timestamp, the signature and, where the payload has the field, the public key.
  The payload is handled by its parsed values; the nonce and the time are arguments.
\<close>

section \<open>Keys (keys.go)\<close>

definition seedPrefix :: string where "seedPrefix = ''chaincoord-smoke-signer-v1:''"
definition secp256k1PrivKeyLen :: nat where "secp256k1PrivKeyLen = 32"

definition privKeyFromIndex :: "crypto_lib \<Rightarrow> int \<Rightarrow> nat list" where
  "privKeyFromIndex L index = secp_PrivKeyFromBytes L (sha256_Sum256 L (byte_list (seedPrefix @ Itoa index)))"

definition privKeyFromHex :: "crypto_lib \<Rightarrow> string \<Rightarrow> nat list result" where
  "privKeyFromHex L h = (case hex_DecodeString (TrimSpace h) of
     None \<Rightarrow> Inl []
   | Some b \<Rightarrow> if length b \<noteq> secp256k1PrivKeyLen then Inl [] else Inr (secp_PrivKeyFromBytes L b))"

definition compressedPubKey :: "crypto_lib \<Rightarrow> nat list \<Rightarrow> nat list" where
  "compressedPubKey L priv = secp_SerializeCompressed L priv"

definition pubKeyB64 :: "crypto_lib \<Rightarrow> nat list \<Rightarrow> string" where
  "pubKeyB64 L priv = base64_EncodeToString (compressedPubKey L priv)"

definition privKeyHex :: "nat list \<Rightarrow> string" where
  "privKeyHex priv = hex_EncodeToString priv"

definition deriveAddress :: "env \<Rightarrow> crypto_lib \<Rightarrow> nat list \<Rightarrow> string \<Rightarrow> string result" where
  "deriveAddress E L priv hrp =
     (let addrBytes = ripemd160_Sum L (sha256_Sum256 L (compressedPubKey L priv)) in
      case bech32_ConvertBits E addrBytes 8 5 True of
        None \<Rightarrow> Inl []
      | Some converted \<Rightarrow> (case bech32_Encode E hrp converted of None \<Rightarrow> Inl [] | Some addr \<Rightarrow> Inr addr))"

definition buildADR036AminoBytes :: "string \<Rightarrow> bytes \<Rightarrow> bytes" where
  "buildADR036AminoBytes signerAddr payload =
     ''{'' @ dq ''account_number'' @ '':'' @ dq ''0'' @ '','' @ dq ''chain_id'' @ '':'' @ dq [] @ '','' @
     dq ''fee'' @ '':{'' @ dq ''amount'' @ '':[],'' @ dq ''gas'' @ '':'' @ dq ''0'' @ ''},'' @ dq ''memo'' @ '':'' @ dq [] @ '','' @
     dq ''msgs'' @ '':[{'' @ dq ''type'' @ '':'' @ dq ''sign/MsgSignData'' @ '','' @ dq ''value'' @ '':{'' @
     dq ''data'' @ '':'' @ dq (base64_EncodeToString (byte_list payload)) @ '','' @ dq ''signer'' @ '':'' @ dq signerAddr @
     ''}}],'' @ dq ''sequence'' @ '':'' @ dq ''0'' @ ''}''"

definition signADR036 :: "crypto_lib \<Rightarrow> nat list \<Rightarrow> string \<Rightarrow> bytes \<Rightarrow> string" where
  "signADR036 L priv signerAddr payload =
     (let msgHash = sha256_Sum256 L (byte_list (buildADR036AminoBytes signerAddr payload)) in
      base64_EncodeToString (tl (ecdsa_SignCompact L priv msgHash)))"

datatype key_flags = KeyIndex int | PrivkeyHex string    \<comment> \<open>the flags are mutually exclusive and one is required\<close>

fun resolvePrivKey :: "crypto_lib \<Rightarrow> key_flags \<Rightarrow> nat list result" where
  "resolvePrivKey L (PrivkeyHex h) = privKeyFromHex L h"
| "resolvePrivKey L (KeyIndex i) = Inr (privKeyFromIndex L i)"

definition runAddress :: "env \<Rightarrow> crypto_lib \<Rightarrow> key_flags \<Rightarrow> string \<Rightarrow> string result" where
  "runAddress E L flags hrp = and_then (resolvePrivKey L flags) (\<lambda>priv. deriveAddress E L priv hrp)"

definition runPubkey :: "crypto_lib \<Rightarrow> key_flags \<Rightarrow> string result" where
  "runPubkey L flags = and_then (resolvePrivKey L flags) (\<lambda>priv. Inr (pubKeyB64 L priv))"

definition runPrivkey :: "crypto_lib \<Rightarrow> int \<Rightarrow> string" where
  "runPrivkey L index = privKeyHex (privKeyFromIndex L index)"

section \<open>The sign command (sign.go)\<close>

definition put :: "string \<Rightarrow> json \<Rightarrow> (string \<times> json) list \<Rightarrow> (string \<times> json) list" where
  \<comment> \<open>\<open>m[key] = v\<close> on a map, kept as the list of its entries\<close>
  "put k v m = (k, v) # filter (\<lambda>e. fst e \<noteq> k) m"

definition entries_of :: "(string \<times> json) list \<Rightarrow> (string \<times> json) list" where
  \<comment> \<open>an object decoded into a map: the last duplicate of a key stays\<close>
  "entries_of kvs = fold (\<lambda>(k, v) m. put k v m) kvs []"

definition marshal_map :: "(string \<times> json) list \<Rightarrow> bytes" where
  \<comment> \<open>\<open>json.Marshal\<close> of a map sorts the keys\<close>
  "marshal_map m = json_print (JObj (sort_key fst m))"

definition sign_payload :: "env \<Rightarrow> crypto_lib \<Rightarrow> nat list \<Rightarrow> string \<Rightarrow> string \<Rightarrow> (string \<times> json) list \<Rightarrow> (string \<times> json) list result" where
  "sign_payload E L priv nonce timestamp m0 =
     and_then (deriveAddress E L priv ''cosmos'') (\<lambda>signerAddr.
     let hasPubKey = ''pubkey_b64'' \<in> fst ` set m0;
         m = put ''timestamp'' (JStr timestamp) (put ''nonce'' (JStr nonce) m0) in
     case canonicaljson_MarshalForSigning E (JObj m) of
       None \<Rightarrow> Inl []
     | Some signingBytes \<Rightarrow>
       let sig = signADR036 L priv signerAddr signingBytes;
           m1 = put ''signature'' (JStr sig) m in
       Inr (if hasPubKey then put ''pubkey_b64'' (JStr (pubKeyB64 L priv)) m1 else m1))"

definition runSign :: "env \<Rightarrow> crypto_lib \<Rightarrow> key_flags \<Rightarrow> string \<Rightarrow> string \<Rightarrow> bytes \<Rightarrow> bytes result" where
  \<comment> \<open>from standard input to standard output; a payload \<open>null\<close> leaves the map nil, and storing into it panics\<close>
  "runSign E L flags nonce timestamp raw =
     and_then (resolvePrivKey L flags) (\<lambda>priv.
     case json_parse raw of
       Some (JObj kvs) \<Rightarrow> and_then (sign_payload E L priv nonce timestamp (entries_of kvs)) (\<lambda>m.
         Inr (marshal_map m @ [CHR 0x0A]))
     | Some JNull \<Rightarrow> and_then (deriveAddress E L priv ''cosmos'') (\<lambda>_. Inl [GoPanic])
     | _ \<Rightarrow> Inl [])"

section \<open>The client agrees with the server\<close>

lemma adr036_same: "buildADR036AminoBytes a p = BuildADR036AminoBytes a p"
  by (simp add: buildADR036AminoBytes_def BuildADR036AminoBytes_def adr036_head_def adr036_tail_def dq_def)

definition ecdsa_laws :: "crypto_lib \<Rightarrow> bool" where
  \<comment> \<open>keys and signatures have their documented sizes, a key's own signature verifies\<close>
  "ecdsa_laws L \<longleftrightarrow> (\<forall>k. length (secp_SerializeCompressed L k) = 33 \<and> (\<forall>b \<in> set (secp_SerializeCompressed L k). b < 256) \<and>
       secp_ParsePubKey L (secp_SerializeCompressed L k)) \<and>
     (\<forall>k h. length (ecdsa_SignCompact L k h) = 65 \<and> (\<forall>b \<in> set (ecdsa_SignCompact L k h). b < 256) \<and>
       ecdsa_Verify L (secp_SerializeCompressed L k) h (tl (ecdsa_SignCompact L k h)))"

definition bech32_encode_laws :: "env \<Rightarrow> bool" where
  \<comment> \<open>an address encoded under the client's prefix decodes to that prefix\<close>
  "bech32_encode_laws E \<longleftrightarrow> (\<forall>d s. bech32_Encode E ''cosmos'' d = Some s \<and> is_bytes d \<longrightarrow> bech32_Decode E s 1023 = Some (''cosmos'', d))"

lemma signature_bytes:
  assumes "ecdsa_laws L"
  shows "base64_DecodeString (signADR036 L priv addr p) =
    Some (tl (ecdsa_SignCompact L priv (sha256_Sum256 L (byte_list (BuildADR036AminoBytes addr p)))))"
proof -
  let ?s = "ecdsa_SignCompact L priv (sha256_Sum256 L (byte_list (BuildADR036AminoBytes addr p)))"
  have "\<forall>b \<in> set ?s. b < 256" using assms unfolding ecdsa_laws_def by blast
  then have "\<forall>b \<in> set (tl ?s). b < 256" by (metis list.set_sel(2) tl_Nil)
  then show ?thesis by (simp add: signADR036_def Let_def adr036_same base64_decode_encode)
qed

lemma own_signature_verifies:
  assumes "ecdsa_laws L" "hash_laws L" "bech32_laws E" "bech32_encode_laws E" "deriveAddress E L priv ''cosmos'' = Inr addr" "addr \<noteq> []"
    and "base64_DecodeString (signADR036 L priv addr p) = Some sg"
  shows "Secp256k1_Verify E L addr (pubKeyB64 L priv) p sg = Inr ()"
proof -
  let ?k = "secp_SerializeCompressed L priv"
  have k: "length ?k = 33" "\<forall>b \<in> set ?k. b < 256" "secp_ParsePubKey L ?k" using assms(1) unfolding ecdsa_laws_def by blast+
  have key: "base64_DecodeString (pubKeyB64 L priv) = Some ?k" "pubKeyB64 L priv \<noteq> []"
    using k(1) base64_decode_encode [OF k(2)] by (auto simp: pubKeyB64_def compressedPubKey_def base64_DecodeString_def)
  obtain d where d: "bech32_ConvertBits E (ripemd160_Sum L (sha256_Sum256 L ?k)) 8 5 True = Some d" "bech32_Encode E ''cosmos'' d = Some addr"
    using assms(5) by (auto simp: deriveAddress_def compressedPubKey_def Let_def split: option.splits)
  then have "is_bytes d" using assms(2,3) unfolding bech32_laws_def hash_laws_def by blast
  then have "bech32_Decode E addr 1023 = Some (''cosmos'', d)" using assms(4) d(2) unfolding bech32_encode_laws_def by blast
  then have a: "assertSecp256k1AddressMatches E L addr ?k = Inr ()"
    using d by (simp add: assertSecp256k1AddressMatches_def derived_address_def and_then_def)
  have "length (ecdsa_SignCompact L priv h) = 65" "ecdsa_Verify L ?k h (tl (ecdsa_SignCompact L priv h))" for h
    using assms(1) unfolding ecdsa_laws_def by blast+
  moreover have "sg = tl (ecdsa_SignCompact L priv (sha256_Sum256 L (byte_list (BuildADR036AminoBytes addr p))))"
    using assms(7) by (simp add: signature_bytes [OF assms(1)])
  ultimately show ?thesis
    using assms(6) key k(1,3) a
    by (simp add: Secp256k1_Verify_def compressedPubKeySize_def compactSigSize_def and_then_def Let_def)
qed

end
