(* ===== verification/KeyProperties.thy ===== *)
theory KeyProperties
  imports SmokeSigner ApiProperties
begin

text \<open>
  Keys, addresses and sessions across the programs: what the verifier of the server makes of a login and
  of a governance request, and that the signing client can log in.
\<close>

section \<open>Signatures and accounts\<close>

definition signed_by_account :: "crypto_lib \<Rightarrow> AccountID \<Rightarrow> string \<Rightarrow> string \<Rightarrow> bytes \<Rightarrow> nat list \<Rightarrow> bool" where
  \<comment> \<open>the key hashes to the account and signed the ADR-036 document of this address and message\<close>
  "signed_by_account L a addr pub message sig \<longleftrightarrow> (\<exists>key. base64_DecodeString pub = Some key \<and>
     acct a = hex_EncodeToString (ripemd160_Sum L (sha256_Sum256 L key)) \<and>
     ecdsa_Verify L key (sha256_Sum256 L (byte_list (BuildADR036AminoBytes addr message))) sig)"

lemma verifier_account:
  assumes "bech32_laws E" "hash_laws L" "verifier E L addr pub message sig" "NewAccountID E addr = Inr a"
  shows "signed_by_account L a addr pub message sig"
proof -
  have "Secp256k1_Verify E L addr pub message sig = Inr ()" using assms(3) by (simp add: verifier_def)
  then show ?thesis
  proof (rule Secp256k1_Verify_Inr)
    fix key
    assume "base64_DecodeString pub = Some key"
      "derived_address E addr (ripemd160_Sum L (sha256_Sum256 L key)) = Inr addr"
      "ecdsa_Verify L key (sha256_Sum256 L (byte_list (BuildADR036AminoBytes addr message))) sig"
    then show ?thesis 
      using derived_account [OF assms(1) _ _ assms(4)] assms(2) unfolding signed_by_account_def hash_laws_def by blast
  qed
qed

text \<open>
  C33. With the secp256k1 verifier a session is opened only for the account whose bytes are the hash of
  the public key, and only when that key signed the ADR-036 document with the login's own canonical
  bytes and address; the document determines both, so a signature made for another address or another
  payload opens nothing.
\<close>

theorem login_owns_account:
  assumes "bech32_laws E" "hash_laws L"
    and "VerifyChallenge E \<lparr>au_Verify = verifier E L, au_jwt = J\<rparr> now tid i w = (Inr tok, w')"
  shows "\<exists>a message sig. NewAccountID E (vc_OperatorAddress i) = Inr a \<and>
    canonicaljson_MarshalForSigning E (verify_json i) = Some message \<and> base64_DecodeString (vc_Signature i) = Some sig \<and>
    signed_by_account L a (vc_OperatorAddress i) (vc_PubKeyB64 i) message sig \<and>
    (\<forall>addr m. BuildADR036AminoBytes addr m = BuildADR036AminoBytes (vc_OperatorAddress i) message \<longrightarrow>
       addr = vc_OperatorAddress i \<and> m = message)"
proof -
  obtain ac message sig where ac: "accountKey E (vc_OperatorAddress i) = Inr ac"
    and m: "signing_bytes E (verify_json i) = Inr message" and s: "decodeBase64Sig (vc_Signature i) = Inr sig"
    and v: "verifier E L (vc_OperatorAddress i) (vc_PubKeyB64 i) message sig"
    using VerifyChallenge_Inr(1) [OF assms(3)] by (auto simp: login_proven_def)
  obtain a where a: "NewAccountID E (vc_OperatorAddress i) = Inr a"
    using ac by (auto simp: accountKey_def split: sum.splits)
  have "canonicaljson_MarshalForSigning E (verify_json i) = Some message"
    using m by (simp add: signing_bytes_def split: option.splits)
  moreover have "base64_DecodeString (vc_Signature i) = Some sig"
    using s by (simp add: decodeBase64Sig_def split: option.splits)
  ultimately show ?thesis using a verifier_account [OF assms(1,2) v a] BuildADR036_inject by blast
qed

definition signing_laws :: "env \<Rightarrow> bool" where
  \<comment> \<open>the bytes to sign do not depend on the order of the members, nor on the two members that are left out\<close>
  "signing_laws E \<longleftrightarrow> (\<forall>kvs kvs'. (\<forall>k. k \<noteq> ''signature'' \<and> k \<noteq> ''pubkey_b64'' \<longrightarrow> map_of kvs k = map_of kvs' k) \<longrightarrow>
     canonicaljson_MarshalForSigning E (JObj kvs) = canonicaljson_MarshalForSigning E (JObj kvs'))"

definition key_env :: env where
  "key_env = service_env\<lparr>
     bech32_Decode := (\<lambda>s n. if TrimSpace s = s then map_option (\<lambda>(h, d). (h, map of_char d)) (split_at CHR ''1'' s) else None),
     bech32_Encode := (\<lambda>h d. let s = h @ CHR ''1'' # map char_of d in
        if CHR ''1'' \<in> set h \<or> TrimSpace s \<noteq> s then None else Some s)\<rparr>"

definition key_lib :: crypto_lib where
  "key_lib = \<lparr>secp_ParsePubKey = (\<lambda>_. True), ecdsa_Verify = (\<lambda>_ _ _. True), ed25519_Verify = (\<lambda>_ _ _. False),
     sha256_Sum256 = (\<lambda>x. x), ripemd160_Sum = (\<lambda>_. [88]), secp_PrivKeyFromBytes = (\<lambda>x. x),
     secp_SerializeCompressed = (\<lambda>_. replicate 33 0), ecdsa_SignCompact = (\<lambda>_ _. replicate 65 0)\<rparr>"

lemma split_at_first: "CHR ''1'' \<notin> set h \<Longrightarrow> split_at CHR ''1'' (h @ CHR ''1'' # d) = Some (h, d)"
  by (induction h) auto

lemma split_at_prefix: "split_at c s = Some (h, d) \<Longrightarrow> s = h @ c # d \<and> c \<notin> set h"
  by (induction s arbitrary: h) (auto split: if_splits option.splits)

lemma chars_back: "is_bytes d \<Longrightarrow> map (of_char \<circ> char_of) d = d"
  by (induction d) (simp_all add: is_bytes_def)

lemma key_env_laws: "bech32_laws key_env" "bech32_encode_laws key_env" "signing_laws key_env"
proof -
  have conv: "bech32_ConvertBits key_env = (\<lambda>d _ _ _. Some d)" by (simp add: key_env_def service_env_def example_env_def)
  have enc: "s = h @ CHR ''1'' # map char_of d \<and> CHR ''1'' \<notin> set h \<and> TrimSpace s = s"
    if "bech32_Encode key_env h d = Some s" for h d s
    using that by (simp add: key_env_def Let_def split: if_splits)
  have dec: "TrimSpace s = s \<and> (\<exists>t. split_at CHR ''1'' s = Some (h, t) \<and> d = map of_char t)"
    if "bech32_Decode key_env s n = Some (h, d)" for s n h d
    using that by (auto simp: key_env_def split: if_splits)
  have "d = d'" if "bech32_Decode key_env s n = Some (h, d)" "bech32_Encode key_env h d' = Some s" "is_bytes d'" for s n h d d'
    using dec [OF that(1)] enc [OF that(2)] chars_back [OF that(3)] by (auto simp: split_at_first)
  then show "bech32_laws key_env" using dec unfolding bech32_laws_def conv by force
  have "bech32_Decode key_env s 1023 = Some (''cosmos'', d)" if "bech32_Encode key_env ''cosmos'' d = Some s" "is_bytes d" for d s
  proof -
    have s: "s = ''cosmos'' @ CHR ''1'' # map char_of d" "TrimSpace s = s" using enc [OF that(1)] by blast+
    have "split_at CHR ''1'' s = Some (''cosmos'', map char_of d)" unfolding s(1) by (rule split_at_first) simp
    then show ?thesis using chars_back [OF that(2)] s(2) by (simp add: key_env_def)
  qed
  then show "bech32_encode_laws key_env" unfolding bech32_encode_laws_def by blast
  show "signing_laws key_env" by (simp add: signing_laws_def key_env_def service_env_def example_env_def)
qed

lemma key_lib_laws: "ecdsa_laws key_lib" "hash_laws key_lib"
  by (simp_all add: ecdsa_laws_def hash_laws_def key_lib_def is_bytes_def)

definition key_login :: VerifyChallengeInput where
  "key_login = \<lparr>vc_OperatorAddress = ''cosmos1X'', vc_PubKeyB64 = replicate 44 CHR ''A'', vc_Challenge = ''abc'', vc_Nonce = ''n1'',
     vc_Timestamp = ''now'', vc_Signature = example_sig\<rparr>"

theorem login_owns_account_witness:
  "\<exists>a. NewAccountID key_env ''cosmos1X'' = Inr a \<and> acct a = ''58''"
proof -
  have "fst (VerifyChallenge key_env \<lparr>au_Verify = verifier key_env key_lib, au_jwt = plain_jwt\<rparr> 0 0 key_login challenged_world)
      = Inr ''cosmos1X''" by code_simp
  then obtain w' where run: "VerifyChallenge key_env \<lparr>au_Verify = verifier key_env key_lib, au_jwt = plain_jwt\<rparr> 0 0 key_login
      challenged_world = (Inr ''cosmos1X'', w')" by (metis prod.collapse)
  have "hex_EncodeToString [88] = ''58''" by code_simp
  then show ?thesis using login_owns_account [OF key_env_laws(1) key_lib_laws(2) run]
    by (auto simp: signed_by_account_def key_lib_def key_login_def)
qed

section \<open>The client logs in\<close>

definition login_template :: "string \<Rightarrow> string \<Rightarrow> (string \<times> json) list" where
  \<comment> \<open>the payload of the \<open>sign\<close> command's example\<close>
  "login_template addr challenge = [(''operator_address'', JStr addr), (''challenge'', JStr challenge), (''nonce'', JStr []),
     (''timestamp'', JStr []), (''pubkey_b64'', JStr []), (''signature'', JStr [])]"

definition signed_login :: "crypto_lib \<Rightarrow> nat list \<Rightarrow> string \<Rightarrow> string \<Rightarrow> string \<Rightarrow> string \<Rightarrow> bytes \<Rightarrow> VerifyChallengeInput" where
  "signed_login L priv addr challenge nonce ts message = \<lparr>vc_OperatorAddress = addr, vc_PubKeyB64 = pubKeyB64 L priv,
     vc_Challenge = challenge, vc_Nonce = nonce, vc_Timestamp = ts, vc_Signature = signADR036 L priv addr message\<rparr>"

definition login_members :: "VerifyChallengeInput \<Rightarrow> (string \<times> json) list" where
  "login_members i = [(''challenge'', JStr (vc_Challenge i)), (''nonce'', JStr (vc_Nonce i)),
     (''operator_address'', JStr (vc_OperatorAddress i)), (''pubkey_b64'', JStr (vc_PubKeyB64 i)),
     (''signature'', JStr (vc_Signature i)), (''timestamp'', JStr (vc_Timestamp i))]"

lemma key_order:
  "''challenge'' \<le> ''nonce''" "''nonce'' \<le> ''operator_address''" "''operator_address'' \<le> ''pubkey_b64''"
  "''pubkey_b64'' \<le> ''signature''" "''signature'' \<le> ''timestamp''"
  by code_simp+

lemma sorted_login:
  assumes "mset m = mset (login_members i)"
  shows "sort_key fst m = login_members i"
proof (rule sort_key_inj_key_eq [OF assms])
  have "set m = set (login_members i)" using assms by (rule mset_eq_setD)
  then show "inj_on fst (set m)" by (simp add: login_members_def)
  have "sorted_wrt (\<le>) [''challenge'', ''nonce'', ''operator_address'', ''pubkey_b64'', ''signature'', ''timestamp'']"
    by code_simp
  then show "sorted (map fst (login_members i))" by (simp only: login_members_def list.map fst_conv)
qed

lemma client_payload:
  assumes "deriveAddress E L priv ''cosmos'' = Inr addr"
    and "sign_payload E L priv nonce ts (entries_of (login_template addr challenge)) = Inr m"
  shows "\<exists>message. canonicaljson_MarshalForSigning E (JObj (put ''timestamp'' (JStr ts) (put ''nonce'' (JStr nonce)
      (entries_of (login_template addr challenge))))) = Some message \<and>
    sort_key fst m = login_members (signed_login L priv addr challenge nonce ts message)"
proof -
  let ?m = "put ''timestamp'' (JStr ts) (put ''nonce'' (JStr nonce) (entries_of (login_template addr challenge)))"
  have pk: "''pubkey_b64'' \<in> fst ` set (entries_of (login_template addr challenge))"
    by (simp add: login_template_def entries_of_def put_def)
  obtain message where message: "canonicaljson_MarshalForSigning E (JObj ?m) = Some message"
    and m: "m = put ''pubkey_b64'' (JStr (pubKeyB64 L priv)) (put ''signature'' (JStr (signADR036 L priv addr message)) ?m)"
    using assms pk by (auto simp: sign_payload_def and_then_def Let_def split: option.splits)
  have "mset m = mset (login_members (signed_login L priv addr challenge nonce ts message))"
    by (simp add: m put_def login_template_def entries_of_def login_members_def signed_login_def)
  with message show ?thesis using sorted_login by blast
qed

lemma client_signs_server_bytes:
  assumes "signing_laws E"
  shows "canonicaljson_MarshalForSigning E (JObj (put ''timestamp'' (JStr ts) (put ''nonce'' (JStr nonce)
      (entries_of (login_template addr challenge))))) =
    canonicaljson_MarshalForSigning E (verify_json (signed_login L priv addr challenge nonce ts message))"
proof -
  have "map_of (put ''timestamp'' (JStr ts) (put ''nonce'' (JStr nonce) (entries_of (login_template addr challenge)))) k =
      map_of [(''operator_address'', JStr addr), (''pubkey_b64'', JStr (pubKeyB64 L priv)),
       (''challenge'', JStr challenge), (''nonce'', JStr nonce), (''timestamp'', JStr ts),
       (''signature'', JStr (signADR036 L priv addr message))] k" if "k \<noteq> ''signature''" "k \<noteq> ''pubkey_b64''" for k
  proof -
    have m: "put ''timestamp'' (JStr ts) (put ''nonce'' (JStr nonce) (entries_of (login_template addr challenge))) =
        [(''timestamp'', JStr ts), (''nonce'', JStr nonce), (''signature'', JStr []), (''pubkey_b64'', JStr []),
         (''challenge'', JStr challenge), (''operator_address'', JStr addr)]"
      by (simp add: put_def login_template_def entries_of_def)
    consider "k = ''timestamp''" | "k = ''nonce''" | "k = ''challenge''" | "k = ''operator_address''"
      | "k \<notin> {''timestamp'', ''nonce'', ''challenge'', ''operator_address''}" by blast
    then show ?thesis unfolding m using that by cases simp_all
  qed
  note same = this
  show ?thesis
    unfolding verify_json_def signed_login_def VerifyChallengeInput.select_convs
    by (rule assms [unfolded signing_laws_def, rule_format]) (elim conjE, rule same)
qed

lemma decode_login: "decode_verify (login_members i) = Inr i"
proof -
  have low: "ToLower ''challenge'' = ''challenge''" "ToLower ''nonce'' = ''nonce''" "ToLower ''operator_address'' = ''operator_address''"
    "ToLower ''pubkey_b64'' = ''pubkey_b64''" "ToLower ''signature'' = ''signature''" "ToLower ''timestamp'' = ''timestamp''"
    by code_simp+
  show ?thesis
    by (cases i) (simp add: decode_verify_def login_members_def string_field_def field_values_def low dec_string_def and_then_def)
qed

lemma login_run:
  assumes "w_faults w = []" "accountKey E (vc_OperatorAddress i) = Inr ac"
    and "(ac, vc_Nonce i) \<notin> fst ` set (db_nonces (w_db w))" "validateTimestamp E now (vc_Timestamp i) = Inr ()"
    and "map_of (at_challenges (db_auth (w_db w))) ac = Some (vc_Challenge i, e)" "now \<le> e"
    and "signing_bytes E (verify_json i) = Inr message" "decodeBase64Sig (vc_Signature i) = Inr sig"
    and "au_Verify cfg (vc_OperatorAddress i) (vc_PubKeyB64 i) message sig"
    and "jwt_SignedString (au_jwt cfg) \<lparr>cl_Subject = vc_OperatorAddress i, cl_IssuedAt = Some (to_second now),
      cl_ExpiresAt = Some (to_second (now + jwtTTL)), cl_ID = tid\<rparr> = Some tok"
  shows "\<exists>w'. VerifyChallenge E cfg now tid i w = (Inr tok, w')"
proof -
  obtain w1 where c: "Consume E now ac (vc_Nonce i) w = (Inr (), w1)" "w_faults w1 = []"
    "at_challenges (db_auth (w_db w1)) = at_challenges (db_auth (w_db w))"
    using assms(1,3) by (auto simp: Consume_def bnd_def execs_def stmt_def Let_def)
  have "\<exists>w2. challenges_Consume now ac w1 = (Inr (vc_Challenge i), w2)"
    using c(2,3) assms(5,6) by (simp add: challenges_Consume_def bnd_def reads_def ret_def)
  then show ?thesis using c(1) assms(2,4,7-10)
    by (auto simp: VerifyChallenge_def bnd_def lift_def ensure_def require_def sessions_Issue_def ret_def)
qed

text \<open>
  C34. The signing client can log in: when its account has an outstanding challenge, the nonce is unused
  and the timestamp timely, the output of \<open>smoke-signer sign\<close> on the login payload, sent as the body of
  \<open>POST /auth/verify\<close>, is answered with 200 and a session token.
\<close>

theorem smoke_signer_logs_in:
  assumes "ecdsa_laws L" "hash_laws L" "bech32_laws E" "bech32_encode_laws E" "signing_laws E"
    and "sc_auth (sv_cfg S) = \<lparr>au_Verify = verifier E L, au_jwt = J\<rparr>"
    and "resolvePrivKey L flags = Inr priv" "deriveAddress E L priv ''cosmos'' = Inr addr" "NewAccountID E addr = Inr a"
    and "w_faults w = []" "map_of (at_challenges (db_auth (w_db w))) (Hex a) = Some (challenge, e)" "dr_now dr \<le> e"
    and "(Hex a, nonce) \<notin> fst ` set (db_nonces (w_db w))" "validateTimestamp E (dr_now dr) ts = Inr ()"
    and "jwt_SignedString J \<lparr>cl_Subject = addr, cl_IssuedAt = Some (to_second (dr_now dr)),
      cl_ExpiresAt = Some (to_second (dr_now dr + jwtTTL)), cl_ID = dr_id dr\<rparr> = Some tok"
    and "runSign E L flags nonce ts (json_print (JObj (login_template addr challenge))) = Inr out" "rq_Body r = out"
  shows "fst (handleAuthVerify E S dr r w) = \<lparr>hs_Status = 200, hs_Body = JSONBody (JObj [(''token'', JStr tok)])\<rparr>"
proof -
  have "json_parse (json_print (JObj (login_template addr challenge))) = Some (JObj (login_template addr challenge))"
    by (rule json_parse_print) (simp add: login_template_def)
  then obtain m where m: "sign_payload E L priv nonce ts (entries_of (login_template addr challenge)) = Inr m"
    and out: "out = json_Encode (JObj (sort_key fst m))"
    using assms(7,16) by (auto simp: runSign_def and_then_def marshal_map_def json_Encode_def split: sum.splits)
  from client_payload [OF assms(8) m] obtain message where
    message: "canonicaljson_MarshalForSigning E (JObj (put ''timestamp'' (JStr ts) (put ''nonce'' (JStr nonce)
      (entries_of (login_template addr challenge))))) = Some message"
    and sorted: "sort_key fst m = login_members (signed_login L priv addr challenge nonce ts message)" by blast
  let ?i = "signed_login L priv addr challenge nonce ts message"
  have body: "json_first (rq_Body r) = Some (JObj (login_members ?i))"
    unfolding assms(17) out sorted by (rule json_first_Encode) (simp add: login_members_def)
  obtain sg where sg: "base64_DecodeString (vc_Signature ?i) = Some sg"
    using signature_bytes [OF assms(1), of priv addr message] by (auto simp: signed_login_def)
  have "addr \<noteq> []" using assms(9) by (auto simp: NewAccountID_def TrimSpace_def)
  then have v: "verifier E L addr (pubKeyB64 L priv) message sg"
    using own_signature_verifies [OF assms(1-4,8)] sg by (simp add: verifier_def signed_login_def)
  have "\<exists>w'. VerifyChallenge E (sc_auth (sv_cfg S)) (dr_now dr) (dr_id dr) ?i w = (Inr tok, w')"
  proof (rule login_run)
    show "accountKey E (vc_OperatorAddress ?i) = Inr (Hex a)" by (simp add: accountKey_def signed_login_def assms(9))
    show "signing_bytes E (verify_json ?i) = Inr message"
      using client_signs_server_bytes [OF assms(5)] message by (simp add: signing_bytes_def)
    show "decodeBase64Sig (vc_Signature ?i) = Inr sg" using sg by (simp add: decodeBase64Sig_def)
  qed (use assms(6,10-15) v in \<open>simp_all add: signed_login_def\<close>)
  then show ?thesis using body
    by (auto simp: handleAuthVerify_def decoded_body_def json_object_def and_then_def decode_login calls_def writeJSON_def respond_def)
qed

definition key_server :: Server where
  "key_server = api_server\<lparr>sv_cfg := service_cfgs\<lparr>sc_auth := \<lparr>au_Verify = verifier key_env key_lib, au_jwt = plain_jwt\<rparr>\<rparr>\<rparr>"

definition client_result :: "bytes result" where
  "client_result = runSign key_env key_lib (KeyIndex 1) ''n1'' ''now'' (json_print (JObj (login_template ''cosmos1X'' ''abc'')))"

definition client_output :: bytes where
  "client_output = (case client_result of Inr out \<Rightarrow> out | Inl _ \<Rightarrow> [])"

lemma client_output_run: "client_result = Inr client_output"
proof -
  have "\<not> isl client_result" by code_simp
  then obtain out where out: "client_result = Inr out" by (metis isl_def obj_sumE)
  show ?thesis unfolding client_output_def out sum.case ..
qed

theorem smoke_signer_logs_in_witness:
  "fst (handleAuthVerify key_env key_server \<lparr>dr_now = 0, dr_id = 0, dr_committee = 0, dr_challenge = []\<rparr>
     (bare_request\<lparr>rq_Body := client_output\<rparr>) challenged_world) =
   \<lparr>hs_Status = 200, hs_Body = JSONBody (JObj [(''token'', JStr ''cosmos1X'')])\<rparr>"
proof (rule smoke_signer_logs_in [OF key_lib_laws key_env_laws])
  show "resolvePrivKey key_lib (KeyIndex 1) = Inr (privKeyFromIndex key_lib 1)" by simp
  show "deriveAddress key_env key_lib (privKeyFromIndex key_lib 1) ''cosmos'' = Inr ''cosmos1X''" by code_simp
  show "NewAccountID key_env ''cosmos1X'' = Inr \<lparr>acct = ''58'', orig = ''cosmos1X''\<rparr>" by code_simp
  show "map_of (at_challenges (db_auth (w_db challenged_world))) (Hex \<lparr>acct = ''58'', orig = ''cosmos1X''\<rparr>) = Some (''abc'', 5000)"
    by code_simp
  show "(Hex \<lparr>acct = ''58'', orig = ''cosmos1X''\<rparr>, ''n1'') \<notin> fst ` set (db_nonces (w_db challenged_world))" by code_simp
  show "validateTimestamp key_env (dr_now \<lparr>dr_now = 0, dr_id = 0, dr_committee = 0, dr_challenge = []\<rparr>) ''now'' = Inr ()" by code_simp
  show "sc_auth (sv_cfg key_server) = \<lparr>au_Verify = verifier key_env key_lib, au_jwt = plain_jwt\<rparr>" by (simp add: key_server_def)
  show "jwt_SignedString plain_jwt \<lparr>cl_Subject = ''cosmos1X'',
      cl_IssuedAt = Some (to_second (dr_now \<lparr>dr_now = 0, dr_id = 0, dr_committee = 0, dr_challenge = []\<rparr>)),
      cl_ExpiresAt = Some (to_second (dr_now \<lparr>dr_now = 0, dr_id = 0, dr_committee = 0, dr_challenge = []\<rparr> + jwtTTL)),
      cl_ID = dr_id \<lparr>dr_now = 0, dr_id = 0, dr_committee = 0, dr_challenge = []\<rparr>\<rparr> = Some ''cosmos1X''"
    by (simp add: plain_jwt_def plain_claims_def to_second_def jwtTTL_def duration_defs)
  show "runSign key_env key_lib (KeyIndex 1) ''n1'' ''now'' (json_print (JObj (login_template ''cosmos1X'' ''abc''))) = Inr client_output"
    using client_output_run unfolding client_result_def .
qed (simp_all add: challenged_world_def fresh_world_def bare_request_def)

end
