(* ===== verification/Config.thy ===== *)
theory Config
  imports Base64 Values
begin

text \<open>
  Configuration (internal/config/config.go) and the key generator (cmd/coordd/cmd/keygen.go): what viper
  is told, the admin list, the key files and the validation.  Viper itself is a parameter: given the
  defaults and the bindings it yields the values of the keys.
\<close>

record Config =
  c_ListenAddr :: string
  c_DBPath :: string
  c_AuditLogPath :: string
  c_AuditPrivKeyB64 :: string
  c_FilesPath :: string
  c_LogLevel :: string
  c_CORSOrigins :: string
  c_AdminAddresses :: "string list"
  c_LaunchPolicy :: string
  c_AuditStartupVerify :: string
  c_GenesisHostMode :: bool
  c_GenesisMaxBytes :: int
  c_AuditPrivKeyFile :: string
  c_TLSCert :: string
  c_TLSKey :: string
  c_InsecureNoTLS :: bool
  c_InsecureNoSSRFCheck :: bool
  c_InsecureNoRateLimit :: bool
  c_JWTPrivKeyB64 :: string
  c_JWTPrivKeyFile :: string
  c_RehearsalOpsToken :: string
  c_RehearsalOpsTokenFile :: string
  c_RehearsalLeaseTTL :: int
  c_RehearsalGate :: string

definition LaunchPolicyOpen :: string where "LaunchPolicyOpen = ''open''"
definition LaunchPolicyRestricted :: string where "LaunchPolicyRestricted = ''restricted''"
definition AuditStartupVerifyFull :: string where "AuditStartupVerifyFull = ''full''"
definition AuditStartupVerifyTail :: string where "AuditStartupVerifyTail = ''tail''"
definition genesisMaxMiB :: int where "genesisMaxMiB = 700"
definition mibShift :: nat where "mibShift = 20"

section \<open>Loading\<close>

datatype setting = SStr string | SInt int

definition default_settings :: "(string \<times> setting) list" where
  "default_settings = [(''listen_addr'', SStr '':8080''), (''log_level'', SStr ''info''), (''launch_policy'', SStr LaunchPolicyRestricted),
     (''genesis_max_bytes'', SInt (push_bit mibShift genesisMaxMiB)), (''rehearsal_gate'', SStr ''off''),
     (''audit_startup_verify'', SStr AuditStartupVerifyFull)]"

definition env_bindings :: "(string \<times> string) list" where
  "env_bindings = [(''db_path'', ''COORD_DB_PATH''), (''audit_log_path'', ''COORD_AUDIT_LOG_PATH''),
     (''audit_private_key'', ''COORD_AUDIT_PRIVATE_KEY''), (''audit_private_key_file'', ''COORD_AUDIT_PRIVATE_KEY_FILE''),
     (''files_path'', ''COORD_FILES_PATH''), (''listen_addr'', ''COORD_LISTEN_ADDR''), (''log_level'', ''COORD_LOG_LEVEL''),
     (''cors_origins'', ''COORD_CORS_ORIGINS''), (''admin_addresses'', ''COORD_ADMIN_ADDRESSES''),
     (''launch_policy'', ''COORD_LAUNCH_POLICY''), (''tls_cert'', ''COORD_TLS_CERT''), (''tls_key'', ''COORD_TLS_KEY''),
     (''insecure_no_tls'', ''COORD_INSECURE_NO_TLS''), (''insecure_no_ssrf_check'', ''COORD_INSECURE_NO_SSRF_CHECK''),
     (''insecure_no_rate_limit'', ''COORD_INSECURE_NO_RATE_LIMIT''), (''genesis_host_mode'', ''COORD_GENESIS_HOST_MODE''),
     (''genesis_max_bytes'', ''COORD_GENESIS_MAX_BYTES''), (''jwt_private_key'', ''COORD_JWT_PRIVATE_KEY''),
     (''jwt_private_key_file'', ''COORD_JWT_PRIVATE_KEY_FILE''), (''rehearsal_ops_token'', ''COORD_REHEARSAL_OPS_TOKEN''),
     (''rehearsal_ops_token_file'', ''COORD_REHEARSAL_OPS_TOKEN_FILE''), (''rehearsal_lease_ttl'', ''COORD_REHEARSAL_LEASE_TTL''),
     (''rehearsal_gate'', ''COORD_REHEARSAL_GATE''), (''audit_startup_verify'', ''COORD_AUDIT_STARTUP_VERIFY'')]"

record viper =                             \<comment> \<open>viper after the settings were made, and the files\<close>
  vp_ReadInConfig :: bool                  \<comment> \<open>the configuration file was read, or not found\<close>
  vp_Unmarshal :: "Config option"
  vp_GetString :: "string \<Rightarrow> string"

fun strings_Split :: "char \<Rightarrow> string \<Rightarrow> string list" where
  "strings_Split c [] = [[]]"
| "strings_Split c (x # s) = (if x = c then [] # strings_Split c s
     else case strings_Split c s of p # ps \<Rightarrow> (x # p) # ps | [] \<Rightarrow> [[x]])"

definition split_trimmed :: "string \<Rightarrow> string list" where
  \<comment> \<open>the non-blank parts of a comma-separated list\<close>
  "split_trimmed raw = filter (\<lambda>a. a \<noteq> []) (map TrimSpace (strings_Split CHR '','' raw))"

definition key_of_file :: "(string \<Rightarrow> bytes option) \<Rightarrow> string \<Rightarrow> string \<Rightarrow> string result" where
  \<comment> \<open>the inline value, or the trimmed contents of the file\<close>
  "key_of_file ReadFile inline path =
     (if inline = [] \<and> path \<noteq> [] then (case ReadFile path of None \<Rightarrow> Inl [] | Some d \<Rightarrow> Inr (TrimSpace d)) else Inr inline)"

definition loadKeyFiles :: "(string \<Rightarrow> bytes option) \<Rightarrow> Config \<Rightarrow> Config result" where
  "loadKeyFiles ReadFile c =
     and_then (key_of_file ReadFile (c_AuditPrivKeyB64 c) (c_AuditPrivKeyFile c)) (\<lambda>audit.
     and_then (key_of_file ReadFile (c_JWTPrivKeyB64 c) (c_JWTPrivKeyFile c)) (\<lambda>jwt.
     and_then (key_of_file ReadFile (c_RehearsalOpsToken c) (c_RehearsalOpsTokenFile c)) (\<lambda>token.
     Inr (c\<lparr>c_AuditPrivKeyB64 := audit, c_JWTPrivKeyB64 := jwt, c_RehearsalOpsToken := token\<rparr>))))"

section \<open>Validation\<close>

definition SeedSize :: nat where "SeedSize = 32"

definition seed_of :: "string \<Rightarrow> nat list result" where
  "seed_of b64 = (case base64_DecodeString (TrimSpace b64) of
     None \<Rightarrow> Inl []
   | Some keyBytes \<Rightarrow> if length keyBytes \<noteq> SeedSize then Inl [] else Inr keyBytes)"

definition validate :: "Config \<Rightarrow> unit result" where
  "validate c =
     and_then (require (c_DBPath c \<noteq> []) []) (\<lambda>_.
     and_then (require (c_AuditLogPath c \<noteq> []) []) (\<lambda>_.
     and_then (require (c_AuditPrivKeyB64 c \<noteq> []) []) (\<lambda>_.
     and_then (seed_of (c_AuditPrivKeyB64 c)) (\<lambda>keyBytes.
     and_then (require (c_FilesPath c \<noteq> []) []) (\<lambda>_.
     and_then (require (c_LaunchPolicy c = LaunchPolicyOpen \<or> c_LaunchPolicy c = LaunchPolicyRestricted) []) (\<lambda>_.
     and_then (require (c_RehearsalGate c \<in> {[], ''off'', ''advisory'', ''required''}) []) (\<lambda>_.
     and_then (require (c_AuditStartupVerify c \<in> {[], AuditStartupVerifyFull, AuditStartupVerifyTail}) []) (\<lambda>_.
     and_then (require (\<not> (c_RehearsalGate c = ''required'' \<and> c_RehearsalOpsToken c = [] \<and> c_RehearsalOpsTokenFile c = [])) []) (\<lambda>_.
     and_then (require ((c_TLSCert c = []) = (c_TLSKey c = [])) []) (\<lambda>_.
     and_then (require (c_JWTPrivKeyB64 c \<noteq> []) []) (\<lambda>_.
     and_then (seed_of (c_JWTPrivKeyB64 c)) (\<lambda>jwtKeyBytes.
     require (keyBytes \<noteq> jwtKeyBytes) []))))))))))))"

definition config_Load ::
  "((string \<times> setting) list \<Rightarrow> (string \<times> string) list \<Rightarrow> viper) \<Rightarrow> (string \<Rightarrow> bytes option) \<Rightarrow> Config result" where
  "config_Load v ReadFile = (let V = v default_settings env_bindings in
     if \<not> vp_ReadInConfig V then Inl []
     else case vp_Unmarshal V of
       None \<Rightarrow> Inl []
     | Some cfg0 \<Rightarrow>
       let cfg = cfg0\<lparr>c_AdminAddresses := split_trimmed (vp_GetString V ''admin_addresses'')\<rparr> in
       and_then (loadKeyFiles ReadFile cfg) (\<lambda>c. and_then (validate c) (\<lambda>_. Inr c)))"

section \<open>Key generation (keygen.go)\<close>

definition runKeygen :: "nat list option \<Rightarrow> string result" where
  \<comment> \<open>the random seed is an argument; what the command prints\<close>
  "runKeygen rand = (case rand of None \<Rightarrow> Inl [] | Some seed \<Rightarrow> Inr (base64_EncodeToString seed @ [CHR 0x0A]))"

end
