(* ===== verification/Netutil.thy ===== *)
theory Netutil
  imports Values "HOL-Library.Word"
begin

unbundle bit_operations_syntax

text \<open>
  The guard on user-supplied RPC URLs (internal/netutil/ssrf.go), with the parts of the packages \<open>net\<close>,
  \<open>net/netip\<close> and \<open>net/url\<close> it uses: the text forms of addresses and networks, masks and membership, and
  the host name of a URL.  The resolver is a parameter, and so is the URL parser.
\<close>

type_synonym byte = "8 word"

definition bval :: "byte list \<Rightarrow> nat" where
  \<comment> \<open>the number an address stands for, big endian\<close>
  "bval bs = foldl (\<lambda>v b. v * 256 + unat b) 0 bs"

section \<open>Addresses (netip.ParseAddr, net.ParseIP)\<close>

fun ipv4_fields :: "string \<Rightarrow> nat \<Rightarrow> nat \<Rightarrow> byte list \<Rightarrow> byte list option" where
  \<comment> \<open>\<open>parseIPv4Fields\<close>: value and digits of the current octet, and the octets so far; a dot needs a digit front it\<close>
  "ipv4_fields [] val digLen octets =
     (if length octets < 3 \<or> digLen = 0 then None else Some (octets @ [of_nat val]))"
| "ipv4_fields (c # s) val digLen octets =
     (if is_digit c then
        let val' = val * 10 + digit_val c in
        if digLen = 1 \<and> val = 0 then None
        else if val' > 255 then None
        else ipv4_fields s val' (Suc digLen) octets
      else if c = CHR ''.'' then
        if digLen = 0 \<or> s = [] then None
        else if length octets = 3 then None
        else ipv4_fields s 0 0 (octets @ [of_nat val])
      else None)"

definition hex_value :: "char \<Rightarrow> nat option" where
  "hex_value c = (let n = of_char c in
     if 48 \<le> n \<and> n \<le> 57 then Some (n - 48)
     else if 97 \<le> n \<and> n \<le> 102 then Some (n - 87)
     else if 65 \<le> n \<and> n \<le> 70 then Some (n - 55) else None)"

fun hex_number :: "string \<Rightarrow> nat \<Rightarrow> nat \<Rightarrow> (nat \<times> nat \<times> string) option" where
  \<comment> \<open>the value, the digits read (at most four) and the rest\<close>
  "hex_number [] off acc = Some (acc, off, [])"
| "hex_number (c # s) off acc = (case hex_value c of
     None \<Rightarrow> Some (acc, off, c # s)
   | Some d \<Rightarrow> if off > 3 then None else hex_number s (Suc off) (acc * 16 + d))"

lemma hex_number_rest: "hex_number s off acc = Some (v, n, r) \<Longrightarrow> length s + off = length r + n \<and> off \<le> n"
  by (induction s off acc rule: hex_number.induct) (force split: option.splits if_splits)+

function ipv6_groups :: "string \<Rightarrow> byte list \<Rightarrow> nat option \<Rightarrow> (byte list \<times> nat option) option" where
  \<comment> \<open>the loop of \<open>parseIPv6\<close>: the bytes so far and the place of the ellipsis; the whole text must be used\<close>
  "ipv6_groups s ip ellipsis =
     (if length ip \<ge> 16 then (if s = [] then Some (ip, ellipsis) else None)
      else case hex_number s 0 0 of
        None \<Rightarrow> None
      | Some (acc, off, r) \<Rightarrow>
        if off = 0 then None
        else if r \<noteq> [] \<and> hd r = CHR ''.'' then
          if ellipsis = None \<and> length ip \<noteq> 12 then None
          else if length ip + 4 > 16 then None
          else (case ipv4_fields s 0 0 [] of None \<Rightarrow> None | Some f \<Rightarrow> Some (ip @ f, ellipsis))
        else let ip' = ip @ [of_nat (acc div 256), of_nat (acc mod 256)] in
          if r = [] then Some (ip', ellipsis)
          else if hd r \<noteq> CHR '':'' then None
          else if tl r = [] then None
          else if hd (tl r) = CHR '':'' then
            if ellipsis \<noteq> None then None
            else if tl (tl r) = [] then Some (ip', Some (length ip'))
            else ipv6_groups (tl (tl r)) ip' (Some (length ip'))
          else ipv6_groups (tl r) ip' ellipsis)"
  by pat_completeness auto
termination by (relation "measure (\<lambda>(s, _, _). length s)") (auto dest!: hex_number_rest)

declare ipv6_groups.simps [simp del]

definition expand_ellipsis :: "byte list \<Rightarrow> nat option \<Rightarrow> byte list option" where
  "expand_ellipsis ip ellipsis =
     (if length ip < 16 then
        (case ellipsis of
           None \<Rightarrow> None
         | Some e \<Rightarrow> Some (take e ip @ replicate (16 - length ip) 0 @ drop e ip))
      else if ellipsis \<noteq> None then None else Some ip)"

datatype Addr = Addr4 "byte list" | Addr6 "byte list" string     \<comment> \<open>bytes, and the zone of an IPv6 address\<close>

definition parseIPv6 :: "string \<Rightarrow> Addr option" where
  "parseIPv6 i = (let s = takeWhile (\<lambda>c. c \<noteq> CHR ''%'') i; z = dropWhile (\<lambda>c. c \<noteq> CHR ''%'') i; zone = tl z in
     if z \<noteq> [] \<and> zone = [] then None
     else let lead = take 2 s = ''::''; s1 = (if lead then drop 2 s else s) in
       if lead \<and> s1 = [] then Some (Addr6 (replicate 16 0) zone)
       else case ipv6_groups s1 [] (if lead then Some 0 else None) of
         None \<Rightarrow> None
       | Some (ip, ellipsis) \<Rightarrow> map_option (\<lambda>ip'. Addr6 ip' zone) (expand_ellipsis ip ellipsis))"

fun addr_kind :: "string \<Rightarrow> char option" where
  "addr_kind [] = None"
| "addr_kind (c # s) = (if c \<in> {CHR ''.'', CHR '':'', CHR ''%''} then Some c else addr_kind s)"

definition ParseAddr :: "string \<Rightarrow> Addr option" where
  "ParseAddr s =
     (if addr_kind s = Some CHR ''.'' then map_option Addr4 (ipv4_fields s 0 0 [])
      else if addr_kind s = Some CHR '':'' then parseIPv6 s else None)"

definition v4InV6Prefix :: "byte list" where
  "v4InV6Prefix = replicate 10 0 @ [255, 255]"

fun As16 :: "Addr \<Rightarrow> byte list" where
  "As16 (Addr4 b) = v4InV6Prefix @ b"
| "As16 (Addr6 b z) = b"

fun Zone :: "Addr \<Rightarrow> string" where
  "Zone (Addr4 b) = []"
| "Zone (Addr6 b z) = z"

definition ParseIP :: "string \<Rightarrow> byte list option" where
  \<comment> \<open>sixteen bytes; an address with a zone is refused\<close>
  "ParseIP s = (case ParseAddr s of None \<Rightarrow> None | Some a \<Rightarrow> if Zone a \<noteq> [] then None else Some (As16 a))"

definition To4 :: "byte list \<Rightarrow> byte list option" where
  "To4 ip = (if length ip = 4 then Some ip
     else if length ip = 16 \<and> take 12 ip = v4InV6Prefix then Some (drop 12 ip) else None)"

section \<open>Networks (net.ParseCIDR, net.IPNet)\<close>

record IPNet =
  net_IP :: "byte list"
  net_Mask :: "byte list"

fun mask_bytes :: "nat \<Rightarrow> nat \<Rightarrow> byte list" where
  "mask_bytes 0 n = []"
| "mask_bytes (Suc l) n = (if n \<ge> 8 then 255 # mask_bytes l (n - 8) else NOT (drop_bit n 255) # mask_bytes l 0)"

definition CIDRMask :: "nat \<Rightarrow> nat \<Rightarrow> byte list" where
  "CIDRMask ones bits = mask_bytes (bits div 8) ones"

definition dtoi :: "string \<Rightarrow> nat option" where
  "dtoi s = (if s = [] \<or> \<not> list_all is_digit s then None else Some (decimal s))"

definition ParseCIDR :: "string \<Rightarrow> IPNet option" where
  "ParseCIDR s = (let a = takeWhile (\<lambda>c. c \<noteq> CHR ''/'') s; m = dropWhile (\<lambda>c. c \<noteq> CHR ''/'') s in
     if m = [] then None
     else case ParseAddr a of
       None \<Rightarrow> None
     | Some addr \<Rightarrow>
       if Zone addr \<noteq> [] then None
       else let bits = (case addr of Addr4 _ \<Rightarrow> 32 | Addr6 _ _ \<Rightarrow> 128) in
         case dtoi (tl m) of
           None \<Rightarrow> None
         | Some n \<Rightarrow>
           if n > bits then None
           else let mk = CIDRMask n bits; ip = (case addr of Addr4 b \<Rightarrow> b | Addr6 b _ \<Rightarrow> b) in
             Some \<lparr>net_IP = map2 (AND) ip mk, net_Mask = mk\<rparr>)"

definition IPNet_Contains :: "IPNet \<Rightarrow> byte list \<Rightarrow> bool" where
  \<comment> \<open>the networks of this program have an address and a mask of the same length\<close>
  "IPNet_Contains n ip = (let x = (case To4 ip of Some b \<Rightarrow> b | None \<Rightarrow> ip) in
     length x = length (net_IP n) \<and> map2 (AND) (net_IP n) (net_Mask n) = map2 (AND) x (net_Mask n))"

section \<open>The guard (ssrf.go)\<close>

definition private_cidrs :: "string list" where
  "private_cidrs = [''10.0.0.0/8'', ''172.16.0.0/12'', ''192.168.0.0/16'', ''127.0.0.0/8'', ''169.254.0.0/16'', ''100.64.0.0/10'',
     ''0.0.0.0/8'', ''224.0.0.0/4'', ''::1/128'', ''::/128'', ''fc00::/7'', ''fe80::/10'', ''ff00::/8'']"

definition mustParsePrivateRanges :: "IPNet list option" where
  \<comment> \<open>\<open>None\<close>: the package panics when it is initialised\<close>
  "mustParsePrivateRanges = those (map ParseCIDR private_cidrs)"

definition privateRanges :: "IPNet list" where
  "privateRanges = (case mustParsePrivateRanges of None \<Rightarrow> [] | Some ns \<Rightarrow> ns)"

definition validOptionalPort :: "string \<Rightarrow> bool" where
  "validOptionalPort port \<longleftrightarrow> port = [] \<or> hd port = CHR '':'' \<and> list_all is_digit (tl port)"

definition Hostname :: "string \<Rightarrow> string" where
  \<comment> \<open>\<open>URL.Hostname\<close> of the URL's host: without a port and without brackets\<close>
  "Hostname hostPort =
     (let tail = takeWhile (\<lambda>c. c \<noteq> CHR '':'') (rev hostPort);
          front = dropWhile (\<lambda>c. c \<noteq> CHR '':'') (rev hostPort);
          host = (if front \<noteq> [] \<and> validOptionalPort (CHR '':'' # rev tail) then rev (tl front) else hostPort) in
      if host \<noteq> [] \<and> hd host = CHR ''['' \<and> last host = CHR '']'' then butlast (tl host) else host)"

definition ValidateRPCURLFormat :: "env \<Rightarrow> string \<Rightarrow> unit result" where
  "ValidateRPCURLFormat E rawURL =
     (if rawURL = [] then Inr ()
      else case url_Parse E rawURL of
        None \<Rightarrow> Inl []
      | Some (scheme, host) \<Rightarrow>
        if scheme \<noteq> ''http'' \<and> scheme \<noteq> ''https'' then Inl []
        else if Hostname host = [] then Inl []
        else Inr ())"

definition is_private :: "string \<Rightarrow> bool" where
  \<comment> \<open>the check of one resolved address; one that does not parse is passed over\<close>
  "is_private addr = (case ParseIP addr of None \<Rightarrow> False | Some ip \<Rightarrow> list_ex (\<lambda>network. IPNet_Contains network ip) privateRanges)"

definition ValidateRPCURL :: "env \<Rightarrow> (string \<Rightarrow> string list option) \<Rightarrow> string \<Rightarrow> unit result" where
  "ValidateRPCURL E LookupHost rawURL =
     (if rawURL = [] then Inr ()
      else case url_Parse E rawURL of
        None \<Rightarrow> Inl []
      | Some (scheme, u_Host) \<Rightarrow>
        if scheme \<noteq> ''http'' \<and> scheme \<noteq> ''https'' then Inl []
        else let host = Hostname u_Host in
          if host = [] then Inl []
          else case LookupHost host of
            None \<Rightarrow> Inl []
          | Some addrs \<Rightarrow>
            if addrs = [] then Inl []
            else if list_ex is_private addrs then Inl []
            else Inr ())"

section \<open>Networks as intervals\<close>

lemma bval_Nil [simp]: "bval [] = 0"
  by (simp add: bval_def)

lemma foldl_bytes: "foldl (\<lambda>v b. v * 256 + unat (b :: byte)) a bs = a * 256 ^ length bs + bval bs"
proof (induction bs arbitrary: a)
  case (Cons b bs)
  have "bval (b # bs) = unat b * 256 ^ length bs + bval bs" using Cons.IH [of "unat b"] by (simp add: bval_def)
  then show ?case using Cons.IH [of "a * 256 + unat b"] by (simp add: algebra_simps)
qed (simp add: bval_def)

lemma bval_Cons [simp]: "bval (b # bs) = unat b * 256 ^ length bs + bval bs"
  using foldl_bytes [of 0 "b # bs"] foldl_bytes [of "unat b" bs] by simp

lemma bval_less: "bval bs < 256 ^ length bs"
proof (induction bs)
  case (Cons b bs)
  have "unat b < 256" using unsigned_less [of b] by simp
  then have "Suc (unat b) * 256 ^ length bs \<le> 256 * 256 ^ length bs" by (intro mult_right_mono) simp_all
  then show ?case using Cons unfolding bval_Cons list.size mult_Suc add_Suc_right add_0_right power_Suc by linarith
qed simp

lemma all_ones: "(255 :: byte) = - 1"
  by simp

lemma and_all_ones [simp]: "(x :: byte) AND 255 = x"
  unfolding all_ones by simp

lemma high_bits_eq:
  fixes x y :: byte
  assumes "n \<le> 8"
  shows "x AND NOT (drop_bit n 255) = y AND NOT (drop_bit n 255) \<longleftrightarrow> unat x div 2 ^ (8 - n) = unat y div 2 ^ (8 - n)"
proof -
  have "drop_bit n (mask 8 :: byte) = mask (8 - n)" by (rule bit_eqI) (use assms in \<open>auto simp: bit_simps\<close>)
  moreover have "(255 :: byte) = mask 8" by (simp add: mask_eq_exp_minus_1)
  ultimately have m: "drop_bit n (255 :: byte) = mask (8 - n)" by simp
  have "z AND NOT (mask k) = push_bit k (drop_bit k z)" "drop_bit k (z AND NOT (mask k)) = drop_bit k z" for z :: byte and k
    by (rule bit_eqI, auto simp: bit_simps not_less dest: bit_imp_le_length)+
  then have "x AND NOT (mask (8 - n)) = y AND NOT (mask (8 - n)) \<longleftrightarrow> drop_bit (8 - n) x = drop_bit (8 - n) y"
    by metis
  also have "\<dots> \<longleftrightarrow> unat (drop_bit (8 - n) x) = unat (drop_bit (8 - n) y)" by (rule word_unat_eq_iff)
  finally show ?thesis unfolding m by (simp only: unat_drop_bit_eq) (simp only: drop_bit_eq_div)
qed

lemma div_prefix:
  fixes x y u v :: nat
  assumes "u < 2 ^ (k + j)" "v < 2 ^ (k + j)"
  shows "(x * 2 ^ (k + j) + u) div 2 ^ k = (y * 2 ^ (k + j) + v) div 2 ^ k \<longleftrightarrow> x = y \<and> u div 2 ^ k = v div 2 ^ k"
proof -
  have split: "(z * 2 ^ (k + j) + w) div 2 ^ k = z * 2 ^ j + w div 2 ^ k" for z w :: nat
    by (simp add: power_add mult.assoc div_mult_self4 mult.commute [of _ "2 ^ k"] mult.left_commute [of _ "2 ^ k"])
  have "u div 2 ^ k < 2 ^ j" "v div 2 ^ k < 2 ^ j"
    using assms by (simp_all add: power_add mult.commute less_mult_imp_div_less)
  moreover have "(a * m + b) div m = a \<and> (a * m + b) mod m = b" if "b < m" for a b m :: nat using that by simp
  ultimately show ?thesis unfolding split by metis
qed

definition masked :: "byte list \<Rightarrow> nat \<Rightarrow> byte list" where
  "masked bs n = map2 (AND) bs (mask_bytes (length bs) n)"

lemma masked_zero: "masked bs 0 = replicate (length bs) 0"
  by (induction bs) (simp_all add: masked_def all_ones del: numeral_One)

lemma masked_eq:
  assumes "length xs = length ys" "n \<le> 8 * length xs"
  shows "masked xs n = masked ys n \<longleftrightarrow> bval xs div 2 ^ (8 * length xs - n) = bval ys div 2 ^ (8 * length xs - n)"
  using assms
proof (induction xs ys arbitrary: n rule: list_induct2)
  case (Cons x xs y ys)
  have p: "(256 :: nat) ^ length xs = 2 ^ (8 * length xs)" by (simp add: power_mult)
  note less = bval_less [of xs] bval_less [of ys, folded Cons.hyps]
  show ?case
  proof (cases "8 \<le> n")
    case True
    then obtain j where j: "n = 8 + j" using le_Suc_ex by blast
    then have "8 * length xs = (8 * length xs - j) + j" using Cons.prems by simp
    then have "bval (x # xs) div 2 ^ (8 * length xs - j) = bval (y # ys) div 2 ^ (8 * length xs - j) \<longleftrightarrow>
        unat x = unat y \<and> bval xs div 2 ^ (8 * length xs - j) = bval ys div 2 ^ (8 * length xs - j)"
      using div_prefix [of "bval xs" "8 * length xs - j" j "bval ys" "unat x" "unat y"] less
      unfolding bval_Cons Cons.hyps [symmetric] p by metis
    then show ?thesis using Cons.IH [of j] Cons.prems j by (simp add: masked_def unsigned_word_eqI flip: word_unat_eq_iff)
  next
    case False
    then obtain j where j: "8 = n + j" "0 < j" by (metis add_diff_inverse_nat not_le less_imp_le_nat zero_less_diff linorder_not_less)
    have "(a * m + b) div (m * k) = a div k" if "b < m" for a b m k :: nat using that by (simp add: div_mult2_eq)
    then have d: "(a * 256 ^ length xs + b) div 2 ^ (j + 8 * length xs) = a div 2 ^ j" if "b < 256 ^ length xs" for a b :: nat
      using that unfolding p power_add by (metis mult.commute)
    have "bval (x # xs) div 2 ^ (j + 8 * length xs) = bval (y # ys) div 2 ^ (j + 8 * length xs) \<longleftrightarrow> unat x div 2 ^ j = unat y div 2 ^ j"
      unfolding bval_Cons Cons.hyps [symmetric] using d less by simp
    moreover have "8 * length (x # xs) - n = j + 8 * length xs" "8 - n = j" using j by simp_all
    moreover have "masked (x # xs) n = masked (y # ys) n \<longleftrightarrow> x AND NOT (drop_bit n 255) = y AND NOT (drop_bit n 255)"
      using False masked_zero [of xs] masked_zero [of ys] Cons.hyps by (simp add: masked_def)
    ultimately show ?thesis using high_bits_eq [of n x y] j(1) by (simp only: le_add1 simp_thms)
  qed
qed (simp add: masked_def)


definition cidr :: "byte list \<Rightarrow> nat \<Rightarrow> IPNet" where
  \<comment> \<open>the network of the addresses that share the first \<open>n\<close> bits with \<open>ip\<close>\<close>
  "cidr ip n = \<lparr>net_IP = masked ip n, net_Mask = mask_bytes (length ip) n\<rparr>"

definition canonical_ip :: "byte list \<Rightarrow> byte list" where
  "canonical_ip ip = (case To4 ip of Some b \<Rightarrow> b | None \<Rightarrow> ip)"

lemma length_mask_bytes [simp]: "length (mask_bytes l n) = l"
  by (induction l n rule: mask_bytes.induct) simp_all

lemma mask_twice: "length ms = length bs \<Longrightarrow> map2 (AND) (map2 (AND) bs ms) ms = map2 (AND) bs (ms :: byte list)"
  by (induction bs ms rule: list_induct2') (simp_all add: and.assoc)

lemma Contains_cidr:
  assumes "n \<le> 8 * length ip"
  shows "IPNet_Contains (cidr ip n) x \<longleftrightarrow> length (canonical_ip x) = length ip \<and>
    bval (canonical_ip x) div 2 ^ (8 * length ip - n) = bval ip div 2 ^ (8 * length ip - n)"
proof -
  have "masked (canonical_ip x) n = masked ip n \<longleftrightarrow>
      bval (canonical_ip x) div 2 ^ (8 * length ip - n) = bval ip div 2 ^ (8 * length ip - n)"
    if "length (canonical_ip x) = length ip" using that assms masked_eq [of "canonical_ip x" ip n] by simp
  then show ?thesis
    by (auto simp: IPNet_Contains_def cidr_def canonical_ip_def [symmetric] masked_def mask_twice Let_def)
qed

lemma mask_bytes_numeral:
  "mask_bytes (numeral k) n = (if n \<ge> 8 then 255 # mask_bytes (pred_numeral k) (n - 8)
     else NOT (drop_bit n 255) # mask_bytes (pred_numeral k) 0)"
  by (simp add: numeral_eq_Suc)

lemmas parse_text = ParseCIDR_def ParseAddr_def parseIPv6_def ipv6_groups.simps [of "_ # _"] expand_ellipsis_def is_digit_def
  hex_value_def CIDRMask_def dtoi_def decimal_def digit_val_def Let_def cidr_def masked_def

definition private_networks :: "IPNet list" where
  "private_networks = [cidr [10, 0, 0, 0] 8, cidr [172, 16, 0, 0] 12, cidr [192, 168, 0, 0] 16, cidr [127, 0, 0, 0] 8,
     cidr [169, 254, 0, 0] 16, cidr [100, 64, 0, 0] 10, cidr [0, 0, 0, 0] 8, cidr [224, 0, 0, 0] 4,
     cidr (replicate 14 0 @ [0, 1]) 128, cidr (replicate 16 0) 128, cidr (0xFC # 0 # replicate 14 0) 7,
     cidr (0xFE # 0x80 # replicate 14 0) 10, cidr (0xFF # 0 # replicate 14 0) 8]"

lemma parse_networks4:
  "ParseCIDR ''10.0.0.0/8'' = Some (cidr [10, 0, 0, 0] 8)"
  "ParseCIDR ''172.16.0.0/12'' = Some (cidr [172, 16, 0, 0] 12)"
  "ParseCIDR ''192.168.0.0/16'' = Some (cidr [192, 168, 0, 0] 16)"
  "ParseCIDR ''127.0.0.0/8'' = Some (cidr [127, 0, 0, 0] 8)"
  "ParseCIDR ''169.254.0.0/16'' = Some (cidr [169, 254, 0, 0] 16)"
  "ParseCIDR ''100.64.0.0/10'' = Some (cidr [100, 64, 0, 0] 10)"
  "ParseCIDR ''0.0.0.0/8'' = Some (cidr [0, 0, 0, 0] 8)"
  "ParseCIDR ''224.0.0.0/4'' = Some (cidr [224, 0, 0, 0] 4)"
  by (simp_all add: parse_text mask_bytes_numeral)

lemma parse_networks6:
  "ParseCIDR ''::1/128'' = Some (cidr (replicate 14 0 @ [0, 1]) 128)"
  "ParseCIDR ''::/128'' = Some (cidr (replicate 16 0) 128)"
  "ParseCIDR ''fc00::/7'' = Some (cidr (0xFC # 0 # replicate 14 0) 7)"
  "ParseCIDR ''fe80::/10'' = Some (cidr (0xFE # 0x80 # replicate 14 0) 10)"
  "ParseCIDR ''ff00::/8'' = Some (cidr (0xFF # 0 # replicate 14 0) 8)"
  by (simp_all add: parse_text)

lemma private_ranges_parse: "mustParsePrivateRanges = Some private_networks"
  by (simp add: mustParsePrivateRanges_def private_cidrs_def private_networks_def parse_networks4 parse_networks6)

definition reserved4 :: "nat \<Rightarrow> bool" where
  "reserved4 v \<longleftrightarrow> v \<le> 0x00FFFFFF \<or> 0x0A000000 \<le> v \<and> v \<le> 0x0AFFFFFF \<or> 0x64400000 \<le> v \<and> v \<le> 0x647FFFFF \<or>
     0x7F000000 \<le> v \<and> v \<le> 0x7FFFFFFF \<or> 0xA9FE0000 \<le> v \<and> v \<le> 0xA9FEFFFF \<or> 0xAC100000 \<le> v \<and> v \<le> 0xAC1FFFFF \<or>
     0xC0A80000 \<le> v \<and> v \<le> 0xC0A8FFFF \<or> 0xE0000000 \<le> v \<and> v \<le> 0xEFFFFFFF"

definition reserved6 :: "nat \<Rightarrow> bool" where
  "reserved6 v \<longleftrightarrow> v \<le> 1 \<or> 0xFC * 2 ^ 120 \<le> v \<and> v < 0xFE * 2 ^ 120 \<or> 0xFE80 * 2 ^ 112 \<le> v \<and> v < 0xFEC0 * 2 ^ 112 \<or>
     0xFF * 2 ^ 120 \<le> v \<and> v < 2 ^ 128"

lemma div_between: "0 < m \<Longrightarrow> v div m = k \<longleftrightarrow> k * m \<le> v \<and> v < Suc k * m" for v m k :: nat
  by (metis div_nat_eqI dividend_less_times_div times_div_less_eq_dividend mult.commute mult_Suc add.commute)

lemma bval_zeros [simp]: "bval (replicate n 0) = 0"
  by (induction n) simp_all

lemma bval_append: "bval (xs @ ys) = bval xs * 256 ^ length ys + bval ys"
  using foldl_bytes [of "foldl (\<lambda>v b. v * 256 + unat b) 0 xs" ys] by (simp add: bval_def)

lemma Contains_interval:
  assumes "n \<le> 8 * length ip" "bval ip div 2 ^ (8 * length ip - n) = k"
  shows "IPNet_Contains (cidr ip n) x \<longleftrightarrow> length (canonical_ip x) = length ip \<and>
    k * 2 ^ (8 * length ip - n) \<le> bval (canonical_ip x) \<and> bval (canonical_ip x) < Suc k * 2 ^ (8 * length ip - n)"
  unfolding Contains_cidr [OF assms(1)] assms(2) by (rule conj_cong [OF refl div_between]) simp

lemma contains4:
  "IPNet_Contains (cidr [10, 0, 0, 0] 8) x \<longleftrightarrow> length (canonical_ip x) = 4 \<and> 0x0A000000 \<le> bval (canonical_ip x) \<and> bval (canonical_ip x) \<le> 0x0AFFFFFF"
  "IPNet_Contains (cidr [172, 16, 0, 0] 12) x \<longleftrightarrow> length (canonical_ip x) = 4 \<and> 0xAC100000 \<le> bval (canonical_ip x) \<and> bval (canonical_ip x) \<le> 0xAC1FFFFF"
  "IPNet_Contains (cidr [192, 168, 0, 0] 16) x \<longleftrightarrow> length (canonical_ip x) = 4 \<and> 0xC0A80000 \<le> bval (canonical_ip x) \<and> bval (canonical_ip x) \<le> 0xC0A8FFFF"
  "IPNet_Contains (cidr [127, 0, 0, 0] 8) x \<longleftrightarrow> length (canonical_ip x) = 4 \<and> 0x7F000000 \<le> bval (canonical_ip x) \<and> bval (canonical_ip x) \<le> 0x7FFFFFFF"
  "IPNet_Contains (cidr [169, 254, 0, 0] 16) x \<longleftrightarrow> length (canonical_ip x) = 4 \<and> 0xA9FE0000 \<le> bval (canonical_ip x) \<and> bval (canonical_ip x) \<le> 0xA9FEFFFF"
  "IPNet_Contains (cidr [100, 64, 0, 0] 10) x \<longleftrightarrow> length (canonical_ip x) = 4 \<and> 0x64400000 \<le> bval (canonical_ip x) \<and> bval (canonical_ip x) \<le> 0x647FFFFF"
  "IPNet_Contains (cidr [0, 0, 0, 0] 8) x \<longleftrightarrow> length (canonical_ip x) = 4 \<and> bval (canonical_ip x) \<le> 0x00FFFFFF"
  "IPNet_Contains (cidr [224, 0, 0, 0] 4) x \<longleftrightarrow> length (canonical_ip x) = 4 \<and> 0xE0000000 \<le> bval (canonical_ip x) \<and> bval (canonical_ip x) \<le> 0xEFFFFFFF"
  by (simp_all add: Contains_interval [OF _ refl] less_Suc_eq_le del: One_nat_def) (auto)

lemma contains6:
  "IPNet_Contains (cidr (replicate 14 0 @ [0, 1]) 128) x \<longleftrightarrow> length (canonical_ip x) = 16 \<and> bval (canonical_ip x) = 1"
  "IPNet_Contains (cidr (replicate 16 0) 128) x \<longleftrightarrow> length (canonical_ip x) = 16 \<and> bval (canonical_ip x) = 0"
  "IPNet_Contains (cidr (0xFC # 0 # replicate 14 0) 7) x \<longleftrightarrow>
    length (canonical_ip x) = 16 \<and> 0xFC * 2 ^ 120 \<le> bval (canonical_ip x) \<and> bval (canonical_ip x) < 0xFE * 2 ^ 120"
  "IPNet_Contains (cidr (0xFE # 0x80 # replicate 14 0) 10) x \<longleftrightarrow>
    length (canonical_ip x) = 16 \<and> 0xFE80 * 2 ^ 112 \<le> bval (canonical_ip x) \<and> bval (canonical_ip x) < 0xFEC0 * 2 ^ 112"
  "IPNet_Contains (cidr (0xFF # 0 # replicate 14 0) 8) x \<longleftrightarrow>
    length (canonical_ip x) = 16 \<and> 0xFF * 2 ^ 120 \<le> bval (canonical_ip x) \<and> bval (canonical_ip x) < 2 ^ 128"
  by (auto simp: Contains_interval [OF _ refl] bval_append)

lemma private_networks_reserved:
  assumes "length (canonical_ip x) = 4 \<or> length (canonical_ip x) = 16"
  shows "list_ex (\<lambda>n. IPNet_Contains n x) private_networks \<longleftrightarrow>
    (if length (canonical_ip x) = 4 then reserved4 (bval (canonical_ip x)) else reserved6 (bval (canonical_ip x)))"
proof (cases "length (canonical_ip x) = 4")
  case True
  then show ?thesis
    unfolding private_networks_def reserved4_def contains4 contains6 list_ex_Cons_iff list_ex_Nil_iff by (simp only: simp_thms if_True) auto
next
  case False
  then show ?thesis using assms
    unfolding private_networks_def reserved6_def contains4 contains6 list_ex_Cons_iff list_ex_Nil_iff by (simp only: simp_thms if_False) auto
qed

section \<open>The guard decides by the numbers\<close>

lemma ipv4_fields_length: "ipv4_fields s v d f = Some r \<Longrightarrow> length f \<le> 3 \<Longrightarrow> length r = 4"
  by (induction s v d f rule: ipv4_fields.induct) (auto simp: Let_def split: if_splits)

lemma group_branches:
  \<comment> \<open>the branches of \<open>ipv6_groups\<close> after a group that is not the start of an IPv4 suffix\<close>
  assumes "(if a then None else if b then Some x else if c then None else if d then None
      else if f then (if g then None else if h then Some y else m) else n) = Some z"
  shows "\<not> a \<and> (b \<and> z = x \<or> f \<and> \<not> g \<and> h \<and> z = y \<or> \<not> b \<and> \<not> c \<and> \<not> d \<and> f \<and> \<not> g \<and> \<not> h \<and> m = Some z \<or>
      \<not> b \<and> \<not> c \<and> \<not> d \<and> \<not> f \<and> n = Some z)"
  using assms by (simp split: if_splits)

lemma ipv6_groups_length:
  assumes "ipv6_groups s ip e = Some (r, e')" "even (length ip)" "length ip \<le> 16" "\<forall>k. e = Some k \<longrightarrow> k \<le> length ip"
  shows "length r \<le> 16 \<and> (\<forall>k. e' = Some k \<longrightarrow> k \<le> length r)"
  using assms
proof (induction s ip e rule: ipv6_groups.induct)
  case (1 s ip e)
  have two: "length ip + 2 \<le> 16" if "length ip < 16" using that 1(4) by presburger
  show ?case
  proof (cases "16 \<le> length ip")
    case True
    then show ?thesis using 1(3-6) by (auto simp: ipv6_groups.simps [of s] split: if_splits)
  next
    case False
    then obtain acc off t where n: "hex_number s 0 0 = Some (acc, off, t)"
      using 1(3) by (auto simp: ipv6_groups.simps [of s] split: option.splits)
    have e: "\<forall>k. e = Some k \<longrightarrow> k \<le> Suc (Suc (length ip))" using 1(6) by auto
    let ?ip = "ip @ [of_nat (acc div 256), of_nat (acc mod 256)]"
    note unfolded = 1(3) [unfolded ipv6_groups.simps [of s], simplified False n if_False option.case prod.case Let_def]
    show ?thesis
    proof (cases "t \<noteq> [] \<and> hd t = CHR ''.''")
      case True
      then show ?thesis using unfolded 1(5,6) by (auto dest!: ipv4_fields_length split: if_splits option.splits)
    next
      case noDot: False
      have len: "even (length ?ip)" "length ?ip \<le> 16" using 1(4) two False by auto
      consider "r = ?ip" "e' = e" | "r = ?ip" "e' = Some (length ?ip)"
        | "off \<noteq> 0" "t \<noteq> []" "hd t = CHR '':''" "tl t \<noteq> []" "hd (tl t) = CHR '':''" "e = None" "tl (tl t) \<noteq> []"
          "ipv6_groups (tl (tl t)) ?ip (Some (length ?ip)) = Some (r, e')"
        | "off \<noteq> 0" "t \<noteq> []" "hd t = CHR '':''" "tl t \<noteq> []" "hd (tl t) \<noteq> CHR '':''" "ipv6_groups (tl t) ?ip e = Some (r, e')"
        using group_branches [OF unfolded [simplified noDot if_False]] by (simp only: prod.inject not_not) blast
      then show ?thesis
      proof cases
        case 3
        then show ?thesis using 1(1) [OF False n refl refl _ noDot refl] len by simp
      next
        case 4
        then show ?thesis using 1(2) [OF False n refl refl _ noDot refl] len e by simp
      qed (use len e in auto)
    qed
  qed
qed

lemma ParseIP_length:
  assumes "ParseIP s = Some ip"
  shows "length ip = 16"
proof -
  have "length b = 16" if "parseIPv6 s = Some (Addr6 b z)" for b z
    using that by (auto simp: parseIPv6_def expand_ellipsis_def Let_def dest!: ipv6_groups_length split: if_splits option.splits)
  moreover have "\<exists>b z. a = Addr6 b z" if "parseIPv6 s = Some a" for a
    using that by (auto simp: parseIPv6_def Let_def split: if_splits option.splits)
  ultimately show ?thesis using assms
    by (auto simp: ParseIP_def ParseAddr_def v4InV6Prefix_def dest!: ipv4_fields_length split: if_splits option.splits)
qed

definition reserved :: "byte list \<Rightarrow> bool" where
  \<comment> \<open>by the number of the address, an IPv4 one also when it is written as an IPv6 address\<close>
  "reserved ip = (case To4 ip of Some b \<Rightarrow> reserved4 (bval b) | None \<Rightarrow> reserved6 (bval ip))"

lemma is_private_reserved: "is_private a \<longleftrightarrow> (\<exists>ip. ParseIP a = Some ip \<and> reserved ip)"
proof (cases "ParseIP a")
  case (Some ip)
  have "length ip = 16" using Some by (rule ParseIP_length)
  then have "length (canonical_ip ip) = (if To4 ip = None then 16 else 4)"
    by (auto simp: canonical_ip_def To4_def split: option.splits)
  then show ?thesis
    using Some private_networks_reserved [of ip]
    by (cases "To4 ip") (simp_all add: is_private_def privateRanges_def private_ranges_parse reserved_def canonical_ip_def)
qed (simp add: is_private_def)


lemma zoned_address_passes:
  \<comment> \<open>a host that is an IPv6 literal with a zone resolves to itself, does not parse as an address, and is accepted\<close>
  assumes "url_Parse E u = Some (''http'', ''[::1%lo]:26657'')" "LookupHost ''::1%lo'' = Some [''::1%lo'']" "u \<noteq> []"
  shows "ParseAddr ''::1%lo'' = Some (Addr6 (replicate 14 0 @ [0, 1]) ''lo'')" "ValidateRPCURL E LookupHost u = Inr ()"
proof -
  show p: "ParseAddr ''::1%lo'' = Some (Addr6 (replicate 14 0 @ [0, 1]) ''lo'')" by (simp add: parse_text)
  have "Hostname ''[::1%lo]:26657'' = ''::1%lo''" by (simp add: Hostname_def validOptionalPort_def is_digit_def Let_def)
  moreover have "\<not> is_private ''::1%lo''" by (simp add: is_private_def ParseIP_def p)
  ultimately show "ValidateRPCURL E LookupHost u = Inr ()" using assms by (simp add: ValidateRPCURL_def Let_def)
qed

end
