(* ===== verification/Serve.thy ===== *)
theory Serve
  imports Config Netutil Crypto AuditLog ApiRoutes
begin

text \<open>
  Start-up (cmd/coordd/cmd/serve.go): the configuration is loaded and validated, the session store, the
  audit log and the file stores are opened, the services are wired, and the server record of the HTTP
  layer and the configuration of the background jobs result.  The operating system, the network and the
  third-party libraries are parameters.  Logging and the listener are left out, but for the choice of
  the transport.
\<close>

section \<open>The gentx validator (gentxvalidation)\<close>

record gentx_lib =                                  \<comment> \<open>gentxvalidate\<close>
  gl_RunAll :: "bytes \<Rightarrow> GentxParams \<Rightarrow> (string \<times> bool \<times> string) list"
  gl_AllOK :: "(string \<times> bool \<times> string) list \<Rightarrow> bool"
  gl_Decode :: "bytes \<Rightarrow> (nat list \<times> (string \<Rightarrow> string option)) option"   \<comment> \<open>the consensus key, and the account address under a prefix\<close>

definition gentx_Validate :: "gentx_lib \<Rightarrow> bytes \<Rightarrow> GentxParams \<Rightarrow> GentxValidationOutcome" where
  "gentx_Validate G gentxJSON p =
     (let results = gl_RunAll G gentxJSON p;
          out = \<lparr>go_AllOK = gl_AllOK G results, go_Results = results, go_ConsensusPubKeyB64 = [], go_ValidatorAddress = []\<rparr> in
      if gl_AllOK G results then
        (case gl_Decode G gentxJSON of
           None \<Rightarrow> out
         | Some (key, AccountAddress) \<Rightarrow>
             let out1 = out\<lparr>go_ConsensusPubKeyB64 := base64_EncodeToString key\<rparr> in
             (case AccountAddress (gp_Bech32Prefix p) of None \<Rightarrow> out1 | Some addr \<Rightarrow> out1\<lparr>go_ValidatorAddress := addr\<rparr>))
      else out)"

section \<open>Keys\<close>

fun b64_prefix :: "string \<Rightarrow> nat list" where
  \<comment> \<open>the bytes the decoder returns beside an error: those of the groups before it\<close>
  "b64_prefix (a # b # c # d # r) =
     (case (b64_val a, b64_val b) of
        (Some x, Some y) \<Rightarrow>
          (if c = CHR ''='' then (if d = CHR ''='' then [4 * x + y div 16] else [])
           else (case b64_val c of
             None \<Rightarrow> []
           | Some z \<Rightarrow>
             (if d = CHR ''='' then [4 * x + y div 16, 16 * (y mod 16) + z div 4]
              else (case b64_val d of
                None \<Rightarrow> []
              | Some w \<Rightarrow> (4 * x + y div 16) # (16 * (y mod 16) + z div 4) # (64 * (z mod 4) + w) # b64_prefix r))))
      | _ \<Rightarrow> [])"
| "b64_prefix _ = []"

definition base64_bytes :: "string \<Rightarrow> nat list" where
  \<comment> \<open>\<open>b, _ := DecodeString(s)\<close>: the error is dropped\<close>
  "base64_bytes s = (case base64_DecodeString s of
     Some bs \<Rightarrow> bs
   | None \<Rightarrow> b64_prefix (filter (\<lambda>c. c \<noteq> CHR 0x0A \<and> c \<noteq> CHR 0x0D) s))"

definition NewKeyFromSeed :: "nat list \<Rightarrow> nat list result" where
  \<comment> \<open>a private key is represented by its seed\<close>
  "NewKeyFromSeed seed = (if length seed \<noteq> SeedSize then Inl [GoPanic] else Inr seed)"

definition NewJWTSessionStore :: "(nat list \<Rightarrow> jwt) \<Rightarrow> string \<Rightarrow> jwt result" where
  "NewJWTSessionStore mk privKeyB64 = (case base64_DecodeString privKeyB64 of
     None \<Rightarrow> Inl []
   | Some seed \<Rightarrow> if length seed \<noteq> SeedSize then Inl [] else map_sum id mk (NewKeyFromSeed seed))"

section \<open>Parts\<close>

record platform =
  pf_viper :: "(string \<times> string) list \<Rightarrow> (string \<times> setting) list \<Rightarrow> (string \<times> string) list \<Rightarrow> viper"
    \<comment> \<open>by the flags bound to keys, the defaults and the environment bindings\<close>
  pf_Getenv :: "string \<Rightarrow> string"
  pf_ReadFile :: "string \<Rightarrow> bytes option"
  pf_sqliteOpen :: "string \<Rightarrow> bool"                     \<comment> \<open>the database opens, its migrations and backfills run\<close>
  pf_chainTip :: string                                 \<comment> \<open>row 1 of \<open>audit_state\<close>\<close>
  pf_OpenFile :: "string \<Rightarrow> bytes option"                \<comment> \<open>the audit log opens, with its contents\<close>
  pf_MkdirAll :: "string \<Rightarrow> bool"
  pf_LookupHost :: "string \<Rightarrow> string list option"
  pf_Get :: "string \<Rightarrow> (nat \<times> bytes) option"
  pf_jwt :: "nat list \<Rightarrow> jwt"
  pf_ed25519 :: ed25519
  pf_crypto :: crypto_lib
  pf_gentx :: gentx_lib
  pf_SelectOne :: "world \<Rightarrow> bool"
  pf_Stat :: "string \<Rightarrow> world \<Rightarrow> bool"
  pf_LimitByIP :: "nat \<Rightarrow> http_request \<Rightarrow> bool"
  pf_auditFile :: "world \<Rightarrow> bytes"
  pf_metrics :: http_body
  pf_FormatFloat :: "rat \<Rightarrow> string"

definition isLoopback :: "string \<Rightarrow> bool" where
  "isLoopback addr = (case SplitHostPort addr of
     None \<Rightarrow> False
   | Some (host, _) \<Rightarrow>
     if host = [] then False
     else case ParseIP host of
       None \<Rightarrow> False
     | Some ip \<Rightarrow> (case To4 ip of Some b \<Rightarrow> hd b = 127 | None \<Rightarrow> ip = replicate 15 0 @ [1]))"

datatype transport = TLS string string | Plain bool     \<comment> \<open>certificate and key, or plain HTTP with a warning or without\<close>

definition transport_of :: "Config \<Rightarrow> transport" where
  "transport_of cfg = (if c_TLSCert cfg \<noteq> [] then TLS (c_TLSCert cfg) (c_TLSKey cfg)
     else Plain (\<not> c_InsecureNoTLS cfg \<and> \<not> isLoopback (c_ListenAddr cfg)))"

definition flag_bindings :: "(string \<times> string) list" where
  "flag_bindings = [(''listen-addr'', ''listen_addr''), (''db-path'', ''db_path''), (''audit-log-path'', ''audit_log_path''),
     (''files-path'', ''files_path''), (''log-level'', ''log_level''), (''cors-origins'', ''cors_origins''), (''tls-cert'', ''tls_cert''),
     (''tls-key'', ''tls_key''), (''insecure-no-tls'', ''insecure_no_tls''), (''insecure-no-rate-limit'', ''insecure_no_rate_limit''),
     (''genesis-host-mode'', ''genesis_host_mode''), (''genesis-max-bytes'', ''genesis_max_bytes'')]"

definition loadServeConfig :: "platform \<Rightarrow> Config result" where
  "loadServeConfig P = config_Load (pf_viper P flag_bindings) (pf_ReadFile P)"

definition monitorURLValidatorFor :: "env \<Rightarrow> platform \<Rightarrow> bool \<Rightarrow> string \<Rightarrow> unit result" where
  "monitorURLValidatorFor E P insecureNoSSRFCheck =
     (if insecureNoSSRFCheck then ValidateRPCURLFormat E else ValidateRPCURL E (pf_LookupHost P))"

definition openFileStores :: "platform \<Rightarrow> string \<Rightarrow> unit result" where
  \<comment> \<open>both stores create the same root directory\<close>
  "openFileStores P path = require (pf_MkdirAll P path) []"

definition configureLaunchService :: "env \<Rightarrow> platform \<Rightarrow> Config \<Rightarrow> launch_cfg \<times> duration" where
  \<comment> \<open>the validator and the lease of \<open>NewLaunchService\<close>, overridden from the configuration\<close>
  "configureLaunchService E P cfg =
     (\<lparr>lc_urlValidator = (\<lambda>u. (if c_InsecureNoSSRFCheck cfg then ValidateRPCURLFormat E u else ValidateRPCURL E (pf_LookupHost P) u) = Inr ())\<rparr>,
      if c_RehearsalLeaseTTL cfg > 0 then c_RehearsalLeaseTTL cfg else defaultRehearsalLeaseTTL)"

definition openAuditLog :: "env \<Rightarrow> platform \<Rightarrow> Config \<Rightarrow> nat list \<Rightarrow> JSONLWriter result" where
  "openAuditLog E P cfg privKey = (case pf_OpenFile P (c_AuditLogPath cfg) of
     None \<Rightarrow> Inl []
   | Some contents \<Rightarrow>
     and_then (WithPrevHashStore E (audit_Open contents (Some privKey) (pf_chainTip P))) (\<lambda>auditLog.
     VerifyOnStart E (pf_ed25519 P) (c_AuditStartupVerify cfg \<noteq> AuditStartupVerifyTail) auditLog))"

definition newHealthCheck :: "platform \<Rightarrow> string \<Rightarrow> world \<Rightarrow> bool" where
  "newHealthCheck P auditLogPath w \<longleftrightarrow> pf_SelectOne P w \<and> pf_Stat P auditLogPath w"

definition WithRehearsalGate :: "string \<Rightarrow> proposal_cfg \<Rightarrow> proposal_cfg" where
  "WithRehearsalGate mode p = p\<lparr>pc_rehearsalGate := (case ParseRehearsalGateMode mode of Inr g \<Rightarrow> g | Inl _ \<Rightarrow> RehearsalGateOff),
     pc_results := True\<rparr>"

definition wire_services :: "env \<Rightarrow> platform \<Rightarrow> Config \<Rightarrow> jwt \<Rightarrow> service_cfg" where
  "wire_services E P cfg sessions =
     (let v = verifier E (pf_crypto P); (launchSvc, lease) = configureLaunchService E P cfg in
      \<lparr>sc_proposal = WithRehearsalGate (c_RehearsalGate cfg)
         \<lparr>pc_Verify = v, pc_rehearsalGate = RehearsalGateOff, pc_results = False\<rparr>,
       sc_launch = launchSvc,
       sc_join = \<lparr>jc_Verify = v, jc_Validate = gentx_Validate (pf_gentx P)\<rparr>,
       sc_readiness = \<lparr>rcfg_Verify = v\<rparr>,
       sc_rehearsal = \<lparr>rh_leaseTTL = lease, rh_Verify = ed_Verify (pf_ed25519 P)\<rparr>,
       sc_monitor = \<lparr>mc_Get = pf_Get P, mc_validateURL = Some (\<lambda>u. monitorURLValidatorFor E P (c_InsecureNoSSRFCheck cfg) u = Inr ())\<rparr>,
       sc_auth = \<lparr>au_Verify = v, au_jwt = sessions\<rparr>\<rparr>)"

definition NewServer :: "env \<Rightarrow> platform \<Rightarrow> Config \<Rightarrow> service_cfg \<Rightarrow> nat list option \<Rightarrow> Server" where
  "NewServer E P cfg services auditPubKey =
     \<lparr>sv_adminAddresses = admin_set E (c_AdminAddresses cfg), sv_launchPolicy = c_LaunchPolicy cfg,
      sv_genesisHostMode = c_GenesisHostMode cfg, sv_genesisMaxBytes = c_GenesisMaxBytes cfg,
      sv_disableRateLimit = c_InsecureNoRateLimit cfg, sv_cfg = services, sv_auditPubKey = auditPubKey,
      sv_rehearsalOpsToken = c_RehearsalOpsToken cfg, sv_healthCheck = Some (newHealthCheck P (c_AuditLogPath cfg)),
      sv_LimitByIP = pf_LimitByIP P, sv_auditFile = pf_auditFile P, sv_metrics = pf_metrics P, sv_FormatFloat = pf_FormatFloat P\<rparr>"

section \<open>Start-up\<close>

record started =
  st_config :: Config
  st_server :: Server
  st_audit :: JSONLWriter
  st_challengeLimiter :: bool           \<comment> \<open>the challenge store is wrapped in the rate limiter\<close>
  st_transport :: transport

definition runServe :: "env \<Rightarrow> platform \<Rightarrow> started result" where
  "runServe E P =
     and_then (loadServeConfig P) (\<lambda>cfg0.
     let cfg = (if pf_Getenv P ''COORD_INSECURE_NO_RATE_LIMIT'' = ''true'' then cfg0\<lparr>c_InsecureNoRateLimit := True\<rparr> else cfg0) in
     and_then (require (pf_sqliteOpen P (c_DBPath cfg)) []) (\<lambda>_.
     and_then (NewJWTSessionStore (pf_jwt P) (c_JWTPrivKeyB64 cfg)) (\<lambda>sessionStore.
     and_then (NewKeyFromSeed (base64_bytes (c_AuditPrivKeyB64 cfg))) (\<lambda>auditPrivKey.
     and_then (openAuditLog E P cfg auditPrivKey) (\<lambda>auditLog.
     and_then (openFileStores P (c_FilesPath cfg)) (\<lambda>_.
     Inr \<lparr>st_config = cfg,
          st_server = NewServer E P cfg (wire_services E P cfg sessionStore) (PubKey (pf_ed25519 P) auditLog),
          st_audit = auditLog, st_challengeLimiter = (\<not> c_InsecureNoRateLimit cfg), st_transport = transport_of cfg\<rparr>))))))"

end
