(* ===== verification/ServeProperties.thy ===== *)
theory ServeProperties
  imports Serve ApiProperties
begin

text \<open>
  What a server that has started rests on: two different keys of full length, an audit log that passed its
  check, and the guard against private addresses at both places where a monitor URL is used.
\<close>

section \<open>Keys as validated and as used\<close>

definition no_break :: "string \<Rightarrow> string" where
  "no_break s = filter (\<lambda>c. c \<noteq> CHR 0x0A \<and> c \<noteq> CHR 0x0D) s"

lemma space_no_value: "is_space c \<Longrightarrow> b64_val c = None"
  by (auto simp: is_space_def b64_val_def Let_def)

lemma b64_prefix_quads:
  assumes "b64_quads s = Some bs" "list_all (\<lambda>c. b64_val c = None) t"
  shows "b64_prefix (s @ t) = bs"
  using assms
proof (induction s arbitrary: bs rule: b64_quads.induct)
  case 1
  then show ?case by (cases t rule: b64_prefix.cases) simp_all
next
  case (2 a b c d r)
  then show ?case by (auto split: option.splits if_splits prod.splits simp: b64_val_def)
qed simp_all

lemma bad_start:
  assumes "b64_val c = None"
  shows "b64_quads (c # t) = None" "b64_prefix (c # t) = []"
proof -
  show "b64_quads (c # t) = None" using assms by (cases "c # t" rule: b64_quads.cases) simp_all
  show "b64_prefix (c # t) = []" using assms by (cases "c # t" rule: b64_prefix.cases) simp_all
qed

lemma trimmed_shape:
  obtains x y where "s = x @ TrimSpace s @ y" "list_all is_space x" "list_all is_space y"
proof
  let ?m = "dropWhile is_space s"
  show "s = takeWhile is_space s @ TrimSpace s @ rev (takeWhile is_space (rev ?m))"
    by (simp add: TrimSpace_def flip: rev_append)
  show "list_all is_space (takeWhile is_space s)" "list_all is_space (rev (takeWhile is_space (rev ?m)))"
    by (auto simp: list_all_iff dest: set_takeWhileD)
qed

lemma seed_used_is_validated:
  assumes "seed_of s = Inr k" "length (base64_bytes s) = SeedSize"
  shows "base64_bytes s = k"
proof -
  obtain x y where s: "s = x @ TrimSpace s @ y" "list_all is_space x" "list_all is_space y" by (rule trimmed_shape)
  have k: "b64_quads (no_break (TrimSpace s)) = Some k" "length k = SeedSize"
    using assms(1) by (auto simp: seed_of_def base64_DecodeString_def no_break_def split: option.splits if_splits)
  have y: "list_all (\<lambda>c. b64_val c = None) (no_break y)"
    using s(3) space_no_value by (auto simp: list_all_iff no_break_def)
  have split: "no_break s = no_break x @ no_break (TrimSpace s) @ no_break y"
    by (subst s(1)) (simp add: no_break_def)
  show ?thesis
  proof (cases "no_break x")
    case Nil
    then show ?thesis
      using b64_prefix_quads [OF k(1) y] b64_prefix_quads [of "no_break s" _ "[]"] split
      by (auto simp: base64_bytes_def base64_DecodeString_def no_break_def split: option.splits)
  next
    case (Cons c r)
    then have "c \<in> set (no_break x)" by simp
    then have "is_space c" using s(2) by (simp add: no_break_def list_all_iff)
    then have "b64_val c = None" by (rule space_no_value)
    note bad_start [OF this]
    then have "base64_bytes s = []"
      using Cons split by (simp add: base64_bytes_def base64_DecodeString_def no_break_def)
    then show ?thesis using assms(2) by (simp add: SeedSize_def)
  qed
qed

section \<open>A started server\<close>

lemma validate_keys:
  assumes "validate c = Inr ()"
  shows "\<exists>k j. seed_of (c_AuditPrivKeyB64 c) = Inr k \<and> seed_of (c_JWTPrivKeyB64 c) = Inr j \<and> k \<noteq> j"
    "c_LaunchPolicy c \<in> {''open'', ''restricted''}" "c_RehearsalGate c \<in> {[], ''off'', ''advisory'', ''required''}"
  using assms by (auto simp: validate_def result_simps LaunchPolicyOpen_def LaunchPolicyRestricted_def)

lemma seed_of_length: "seed_of s = Inr k \<Longrightarrow> length k = SeedSize"
  by (auto simp: seed_of_def split: option.splits if_splits)

lemma loaded_valid: "config_Load v R = Inr c \<Longrightarrow> validate c = Inr ()"
  by (auto simp: config_Load_def result_simps Let_def split: if_splits option.splits)

lemma validate_rate_limit [simp]: "validate (c\<lparr>c_InsecureNoRateLimit := b\<rparr>) = validate c"
  by (simp add: validate_def)

lemma runServe_Inr:
  assumes "runServe E P = Inr st"
  obtains auditSeed jwtSeed where "validate (st_config st) = Inr ()"
    "seed_of (c_AuditPrivKeyB64 (st_config st)) = Inr auditSeed" "seed_of (c_JWTPrivKeyB64 (st_config st)) = Inr jwtSeed"
    "openAuditLog E P (st_config st) auditSeed = Inr (st_audit st)"
    "st_server st = NewServer E P (st_config st) (wire_services E P (st_config st) (pf_jwt P jwtSeed)) (PubKey (pf_ed25519 P) (st_audit st))"
proof -
  obtain c0 ss k where c0: "config_Load (pf_viper P flag_bindings) (pf_ReadFile P) = Inr c0"
    and c: "st_config st = c0 \<or> st_config st = c0\<lparr>c_InsecureNoRateLimit := True\<rparr>"
    and ss: "NewJWTSessionStore (pf_jwt P) (c_JWTPrivKeyB64 (st_config st)) = Inr ss"
    and k: "NewKeyFromSeed (base64_bytes (c_AuditPrivKeyB64 (st_config st))) = Inr k"
    and log: "openAuditLog E P (st_config st) k = Inr (st_audit st)"
    and S: "st_server st = NewServer E P (st_config st) (wire_services E P (st_config st) ss) (PubKey (pf_ed25519 P) (st_audit st))"
  proof -
    let ?c = "\<lambda>c0. if pf_Getenv P ''COORD_INSECURE_NO_RATE_LIMIT'' = ''true'' then c0\<lparr>c_InsecureNoRateLimit := True\<rparr> else c0"
    obtain c0 ss k log where r: "config_Load (pf_viper P flag_bindings) (pf_ReadFile P) = Inr c0"
      "NewJWTSessionStore (pf_jwt P) (c_JWTPrivKeyB64 (?c c0)) = Inr ss"
      "NewKeyFromSeed (base64_bytes (c_AuditPrivKeyB64 (?c c0))) = Inr k" "openAuditLog E P (?c c0) k = Inr log"
      and st: "st = \<lparr>st_config = ?c c0, st_server = NewServer E P (?c c0) (wire_services E P (?c c0) ss) (PubKey (pf_ed25519 P) log),
        st_audit = log, st_challengeLimiter = (\<not> c_InsecureNoRateLimit (?c c0)), st_transport = transport_of (?c c0)\<rparr>"
      using assms unfolding runServe_def loadServeConfig_def result_simps Let_def by blast
    define c where "c = ?c c0"
    have "c = c0 \<or> c = c0\<lparr>c_InsecureNoRateLimit := True\<rparr>" unfolding c_def by (rule if_split [THEN iffD2]) blast
    moreover have "st_config st = c" "st_audit st = log"
      "st_server st = NewServer E P c (wire_services E P c ss) (PubKey (pf_ed25519 P) log)" unfolding st c_def by simp_all
    ultimately show ?thesis using that [OF r(1)] r(2-4) unfolding c_def [symmetric] by metis
  qed
  have v: "validate (st_config st) = Inr ()" using loaded_valid [OF c0] c by auto
  from validate_keys(1) [OF v] obtain a j where a: "seed_of (c_AuditPrivKeyB64 (st_config st)) = Inr a"
    and j: "seed_of (c_JWTPrivKeyB64 (st_config st)) = Inr j" by blast
  have "base64_bytes (c_AuditPrivKeyB64 (st_config st)) = k" "length k = SeedSize"
    using k by (auto simp: NewKeyFromSeed_def split: if_splits)
  then have "k = a" using seed_used_is_validated [OF a] by simp
  obtain js where js: "base64_DecodeString (c_JWTPrivKeyB64 (st_config st)) = Some js" "length js = SeedSize" "ss = pf_jwt P js"
    using ss by (auto simp: NewJWTSessionStore_def NewKeyFromSeed_def split: option.splits if_splits)
  then have "js = j" using seed_used_is_validated [OF j] by (simp add: base64_bytes_def)
  show ?thesis using that v a j log S js(3) \<open>k = a\<close> \<open>js = j\<close> by blast
qed

lemma openAuditLog_Inr:
  assumes "openAuditLog E P cfg k = Inr w"
  shows "PubKey (pf_ed25519 P) w = Some (ed_Public (pf_ed25519 P) k)" "jw_prevHash w = pf_chainTip P"
    "pf_chainTip P \<noteq> [] \<Longrightarrow> verifyLastLineHash E (jw_file w) (pf_chainTip P) = Inr ()"
    "c_AuditStartupVerify cfg \<noteq> ''tail'' \<Longrightarrow> \<not> HasTamper (fst (Scan E (pf_ed25519 P) (Some (ed_Public (pf_ed25519 P) k)) (jw_file w)))"
proof -
  obtain f w0 where f: "WithPrevHashStore E (audit_Open f (Some k) (pf_chainTip P)) = Inr w0"
    and v: "VerifyOnStart E (pf_ed25519 P) (c_AuditStartupVerify cfg \<noteq> ''tail'') w0 = Inr w"
    using assms by (auto simp: openAuditLog_def result_simps AuditStartupVerifyTail_def split: option.splits)
  have w0: "jw_file w0 = f" "jw_privKey w0 = Some k" "jw_prevHash w0 = pf_chainTip P"
    "pf_chainTip P \<noteq> [] \<Longrightarrow> verifyLastLineHash E f (pf_chainTip P) = Inr ()"
    using f by (auto simp: WithPrevHashStore_def LoadPrevHash_def audit_Open_def result_simps Let_def)
  obtain t where w: "w = w0\<lparr>jw_lastOccurredAt := t\<rparr>"
    and s: "c_AuditStartupVerify cfg \<noteq> ''tail'' \<Longrightarrow> \<not> HasTamper (fst (Scan E (pf_ed25519 P) (PubKey (pf_ed25519 P) w) (jw_file w)))"
    using v by (auto simp: VerifyOnStart_def result_simps Let_def split: if_splits prod.splits)
  show p: "PubKey (pf_ed25519 P) w = Some (ed_Public (pf_ed25519 P) k)" by (simp add: PubKey_def w w0)
  show "jw_prevHash w = pf_chainTip P" "pf_chainTip P \<noteq> [] \<Longrightarrow> verifyLastLineHash E (jw_file w) (pf_chainTip P) = Inr ()"
    using w0 by (simp_all add: w)
  show "c_AuditStartupVerify cfg \<noteq> ''tail'' \<Longrightarrow> \<not> HasTamper (fst (Scan E (pf_ed25519 P) (Some (ed_Public (pf_ed25519 P) k)) (jw_file w)))"
    using s p by simp
qed

lemma wired:
  "au_jwt (sc_auth (wire_services E P cfg s)) = s" "sc_launch (wire_services E P cfg s) = fst (configureLaunchService E P cfg)"
  "mc_validateURL (sc_monitor (wire_services E P cfg s)) = Some (\<lambda>u. monitorURLValidatorFor E P (c_InsecureNoSSRFCheck cfg) u = Inr ())"
  by (simp_all add: wire_services_def Let_def split: prod.split)

lemma patch_refused:
  assumes "pt_MonitorRPCURL i = Some u" "\<not> lc_urlValidator cfg u"
  shows "isl (fst (PatchLaunch E cfg now lid i who w)) \<and> w_db (snd (PatchLaunch E cfg now lid i who w)) = w_db w"
proof -
  have "read_only (requireCommittee E lid who)"
    unfolding requireCommittee_def by (intro frame_intros)
  then have "w_db w' = w_db w" if "requireCommittee E lid who w = (r, w')" for r w'
    using that unfolding read_only_def same_but_faults_def by fastforce
  moreover obtain r w' where "requireCommittee E lid who w = (r, w')" by (cases "requireCommittee E lid who w")
  ultimately show ?thesis using assms by (cases r) (simp_all add: PatchLaunch_def bnd_def ensure_def lift_def require_def)
qed

text \<open>
  C36. A server that has started signs its audit log and its sessions with two different keys of 32
  bytes, the ones the configuration was validated with; its log ends in the line of the stored tip and,
  unless the check was reduced to that, a scan with the key finds no tampering in it; and unless the
  operator has switched the guard off, a monitor URL the guard refuses is neither stored by a patch nor
  polled by the monitor.
\<close>

theorem started_server:
  assumes "runServe E P = Inr st"
  shows "(\<exists>auditSeed jwtSeed. length auditSeed = 32 \<and> length jwtSeed = 32 \<and> auditSeed \<noteq> jwtSeed \<and>
       sv_auditPubKey (st_server st) = Some (ed_Public (pf_ed25519 P) auditSeed) \<and>
       au_jwt (sc_auth (sv_cfg (st_server st))) = pf_jwt P jwtSeed \<and>
       (c_AuditStartupVerify (st_config st) \<noteq> ''tail'' \<longrightarrow>
          \<not> HasTamper (fst (Scan E (pf_ed25519 P) (Some (ed_Public (pf_ed25519 P) auditSeed)) (jw_file (st_audit st)))))) \<and>
     jw_prevHash (st_audit st) = pf_chainTip P \<and>
     (pf_chainTip P \<noteq> [] \<longrightarrow> verifyLastLineHash E (jw_file (st_audit st)) (pf_chainTip P) = Inr ()) \<and>
     (\<forall>u. \<not> c_InsecureNoSSRFCheck (st_config st) \<and> ValidateRPCURL E (pf_LookupHost P) u \<noteq> Inr () \<longrightarrow>
       (\<forall>now lid i who w. pt_MonitorRPCURL i = Some u \<longrightarrow>
          isl (fst (PatchLaunch E (sc_launch (sv_cfg (st_server st))) now lid i who w)) \<and>
          w_db (snd (PatchLaunch E (sc_launch (sv_cfg (st_server st))) now lid i who w)) = w_db w) \<and>
       (\<forall>now l. l_MonitorRPCURL l = u \<longrightarrow> monitor_launch E (sc_monitor (sv_cfg (st_server st))) now l = ret ()))"
proof -
  let ?S = "st_server st"
  from assms obtain a j where v: "validate (st_config st) = Inr ()"
    and a: "seed_of (c_AuditPrivKeyB64 (st_config st)) = Inr a" and j: "seed_of (c_JWTPrivKeyB64 (st_config st)) = Inr j"
    and log: "openAuditLog E P (st_config st) a = Inr (st_audit st)"
    and S: "?S = NewServer E P (st_config st) (wire_services E P (st_config st) (pf_jwt P j)) (PubKey (pf_ed25519 P) (st_audit st))"
    by (rule runServe_Inr)
  note audit = openAuditLog_Inr [OF log]
  have "a \<noteq> j" using validate_keys(1) [OF v] a j by auto
  moreover have "sv_auditPubKey ?S = Some (ed_Public (pf_ed25519 P) a)" "au_jwt (sc_auth (sv_cfg ?S)) = pf_jwt P j"
    using audit(1) by (simp_all add: S NewServer_def wired)
  moreover have "isl (fst (PatchLaunch E (sc_launch (sv_cfg ?S)) now lid i who w)) \<and>
      w_db (snd (PatchLaunch E (sc_launch (sv_cfg ?S)) now lid i who w)) = w_db w"
    if "\<not> c_InsecureNoSSRFCheck (st_config st)" "ValidateRPCURL E (pf_LookupHost P) u \<noteq> Inr ()" "pt_MonitorRPCURL i = Some u"
    for u i now lid who w
  proof (rule patch_refused [OF that(3)])
    show "\<not> lc_urlValidator (sc_launch (sv_cfg ?S)) u"
      using that(1,2) by (simp add: S NewServer_def wired configureLaunchService_def)
  qed
  moreover have "monitor_launch E (sc_monitor (sv_cfg ?S)) now l = ret ()"
    if "\<not> c_InsecureNoSSRFCheck (st_config st)" "ValidateRPCURL E (pf_LookupHost P) (l_MonitorRPCURL l) \<noteq> Inr ()" for now l
    using that by (simp add: S NewServer_def wired configureLaunchService_def monitor_launch_def monitorURLValidatorFor_def)
  ultimately show ?thesis
    using seed_of_length [OF a] seed_of_length [OF j] audit unfolding SeedSize_def by blast
qed

section \<open>Examples\<close>

definition example_audit_key :: string where
  "example_audit_key = base64_EncodeToString (replicate 32 1)"

definition example_jwt_key :: string where
  "example_jwt_key = base64_EncodeToString (replicate 32 2)"

definition example_config :: Config where
  "example_config = \<lparr>c_ListenAddr = ''127.0.0.1:8080'', c_DBPath = ''db'', c_AuditLogPath = ''log'', c_AuditPrivKeyB64 = example_audit_key,
     c_FilesPath = ''files'', c_LogLevel = ''info'', c_CORSOrigins = [], c_AdminAddresses = [], c_LaunchPolicy = ''restricted'',
     c_AuditStartupVerify = ''full'', c_GenesisHostMode = False, c_GenesisMaxBytes = 0, c_AuditPrivKeyFile = [], c_TLSCert = ''c'', c_TLSKey = ''k'',
     c_InsecureNoTLS = False, c_InsecureNoSSRFCheck = False, c_InsecureNoRateLimit = False,
     c_JWTPrivKeyB64 = example_jwt_key, c_JWTPrivKeyFile = [], c_RehearsalOpsToken = [], c_RehearsalOpsTokenFile = [],
     c_RehearsalLeaseTTL = 0, c_RehearsalGate = ''off''\<rparr>"

definition example_platform :: "Config \<Rightarrow> platform" where
  "example_platform cfg = \<lparr>pf_viper = (\<lambda>_ _ _. \<lparr>vp_ReadInConfig = True, vp_Unmarshal = Some cfg, vp_GetString = (\<lambda>_. [])\<rparr>),
     pf_Getenv = (\<lambda>_. []), pf_ReadFile = (\<lambda>_. Some []), pf_sqliteOpen = (\<lambda>_. True), pf_chainTip = [], pf_OpenFile = (\<lambda>_. Some []),
     pf_MkdirAll = (\<lambda>_. True), pf_LookupHost = (\<lambda>_. None), pf_Get = (\<lambda>_. None), pf_jwt = (\<lambda>_. plain_jwt),
     pf_ed25519 = \<lparr>ed_Sign = (\<lambda>k m. []), ed_Public = (\<lambda>k. k), ed_Verify = (\<lambda>k m s. False)\<rparr>,
     pf_crypto = \<lparr>secp_ParsePubKey = (\<lambda>_. False), ecdsa_Verify = (\<lambda>_ _ _. False), ed25519_Verify = (\<lambda>_ _ _. False),
       sha256_Sum256 = (\<lambda>x. x), ripemd160_Sum = (\<lambda>x. x), secp_PrivKeyFromBytes = (\<lambda>x. x), secp_SerializeCompressed = (\<lambda>x. x),
       ecdsa_SignCompact = (\<lambda>_ _. [])\<rparr>,
     pf_gentx = \<lparr>gl_RunAll = (\<lambda>_ _. []), gl_AllOK = (\<lambda>_. False), gl_Decode = (\<lambda>_. None)\<rparr>,
     pf_SelectOne = (\<lambda>_. True), pf_Stat = (\<lambda>_ _. True), pf_LimitByIP = (\<lambda>_ _. False), pf_auditFile = (\<lambda>_. []), pf_metrics = EmptyBody,
     pf_FormatFloat = (\<lambda>_. ''0'')\<rparr>"

lemma openAuditLog_empty:
  assumes "pf_OpenFile P (c_AuditLogPath cfg) = Some []" "pf_chainTip P = []"
  shows "\<exists>w. openAuditLog E P cfg k = Inr w"
  using assms by (simp add: openAuditLog_def WithPrevHashStore_def LoadPrevHash_def audit_Open_def VerifyOnStart_def lastEntryOccurredAt_def
      readLastLine_def Scan_def scan_lines_def scan_init_def HasTamper_def Let_def)

lemma example_starts:
  assumes "loadServeConfig (example_platform cfg) = Inr c" "base64_DecodeString (c_JWTPrivKeyB64 c) = Some j" "length j = 32"
    "base64_DecodeString (c_AuditPrivKeyB64 c) = Some a" "length a = 32"
  shows "\<exists>st. runServe E (example_platform cfg) = Inr st \<and> st_config st = c \<and>
    st_server st = NewServer E (example_platform cfg) c (wire_services E (example_platform cfg) c plain_jwt)
      (PubKey (pf_ed25519 (example_platform cfg)) (st_audit st))"
proof -
  let ?P = "example_platform cfg"
  have p: "pf_Getenv ?P = (\<lambda>_. [])" "pf_sqliteOpen ?P = (\<lambda>_. True)" "pf_MkdirAll ?P = (\<lambda>_. True)" "pf_jwt ?P = (\<lambda>_. plain_jwt)"
    "pf_OpenFile ?P = (\<lambda>_. Some [])" "pf_chainTip ?P = []" by (simp_all add: example_platform_def)
  obtain w where w: "openAuditLog E ?P c a = Inr w" using openAuditLog_empty [of ?P c E a] p by auto
  have "NewJWTSessionStore (pf_jwt ?P) (c_JWTPrivKeyB64 c) = Inr plain_jwt" "NewKeyFromSeed (base64_bytes (c_AuditPrivKeyB64 c)) = Inr a"
    using assms by (simp_all add: NewJWTSessionStore_def NewKeyFromSeed_def base64_bytes_def SeedSize_def p)
  then show ?thesis using assms(1) w by (simp add: runServe_def openFileStores_def require_def p)
qed

definition url_patch :: "string \<Rightarrow> PatchLaunchInput" where
  "url_patch u = \<lparr>pt_ChainName = None, pt_BinaryVersion = None, pt_BinarySHA256 = None, pt_RepoURL = None, pt_RepoCommit = None,
     pt_GenesisTime = None, pt_MinValidatorCount = None, pt_TotalSupply = None, pt_Allowlist = None, pt_MonitorRPCURL = Some u,
     pt_RehearsalServicePubKey = None, pt_RehearsalEndpoint = None\<rparr>"

definition blank_config :: Config where
  "blank_config = example_config\<lparr>c_AuditPrivKeyB64 := CHR '' '' # example_audit_key\<rparr>"

definition gated_config :: Config where
  "gated_config = example_config\<lparr>c_RehearsalGate := ''required'', c_RehearsalOpsTokenFile := ''token''\<rparr>"

lemma keys_evaluated:
  "example_audit_key \<noteq> [] \<and> TrimSpace example_audit_key = example_audit_key \<and>
   example_jwt_key \<noteq> [] \<and> TrimSpace example_jwt_key = example_jwt_key \<and>
   TrimSpace (CHR '' '' # example_audit_key) = example_audit_key \<and>
   length (base64_bytes (CHR '' '' # example_audit_key)) \<noteq> SeedSize"
  by code_simp

lemma keys_decoded:
  "base64_DecodeString example_audit_key = Some (replicate 32 1)" "base64_DecodeString example_jwt_key = Some (replicate 32 2)"
  unfolding example_audit_key_def example_jwt_key_def by (rule base64_decode_encode; simp)+

lemma example_loads:
  assumes "validate cfg = Inr ()" "c_AdminAddresses cfg = []" "c_AuditPrivKeyB64 cfg \<noteq> []" "c_JWTPrivKeyB64 cfg \<noteq> []"
  shows "loadServeConfig (example_platform cfg) = Inr cfg"
proof -
  have "TrimSpace [] = []" by code_simp
  then show ?thesis using assms
    by (cases cfg) (auto simp: loadServeConfig_def config_Load_def loadKeyFiles_def key_of_file_def example_platform_def split_trimmed_def Let_def)
qed

lemma configs_valid: "validate example_config = Inr ()" "validate blank_config = Inr ()" "validate gated_config = Inr ()"
  using keys_evaluated
  by (simp_all add: validate_def require_def seed_of_def SeedSize_def keys_decoded example_config_def blank_config_def gated_config_def
      LaunchPolicyRestricted_def AuditStartupVerifyFull_def)

lemma example_fields:
  "c_AdminAddresses example_config = []" "c_AuditPrivKeyB64 example_config = example_audit_key" "c_JWTPrivKeyB64 example_config = example_jwt_key"
  by (simp_all add: example_config_def)

lemma examples_load:
  "loadServeConfig (example_platform example_config) = Inr example_config"
  "loadServeConfig (example_platform blank_config) = Inr blank_config"
  "loadServeConfig (example_platform gated_config) = Inr gated_config"
  by (rule example_loads; use configs_valid keys_evaluated in \<open>simp add: blank_config_def gated_config_def example_fields\<close>)+

theorem started_server_witness:
  "\<exists>st. runServe service_env (example_platform example_config) = Inr st \<and> jw_prevHash (st_audit st) = [] \<and>
     isl (fst (PatchLaunch service_env (sc_launch (sv_cfg (st_server st))) 5 7 (url_patch ''http://10.0.0.1'') [] fresh_world))"
proof -
  have "loadServeConfig (example_platform example_config) = Inr example_config" by (rule examples_load)
  from example_starts [OF this, of "replicate 32 2" "replicate 32 1" service_env]
  obtain st where st: "runServe service_env (example_platform example_config) = Inr st" "st_config st = example_config"
    by (auto simp: example_fields keys_decoded)
  have "ValidateRPCURL service_env (pf_LookupHost (example_platform example_config)) ''http://10.0.0.1'' \<noteq> Inr ()"
  proof -
    have "isl (ValidateRPCURL service_env (pf_LookupHost (example_platform example_config)) ''http://10.0.0.1'')" by code_simp
    then show ?thesis by (auto simp: isl_def)
  qed
  moreover have "pt_MonitorRPCURL (url_patch u) = Some u" for u by (simp add: url_patch_def)
  moreover have "\<not> c_InsecureNoSSRFCheck (st_config st)" by (simp add: st(2) example_config_def)
  ultimately have "isl (fst (PatchLaunch service_env (sc_launch (sv_cfg (st_server st))) 5 7
      (url_patch ''http://10.0.0.1'') [] fresh_world))" using started_server [OF st(1)] by blast
  moreover have "jw_prevHash (st_audit st) = []"
    using conjunct1 [OF conjunct2 [OF started_server [OF st(1)]]] by (simp add: example_platform_def)
  ultimately show ?thesis using st(1) by blast
qed

lemma blank_before_key_panics:
  \<comment> \<open>a blank before the audit key passes the validation, which trims it, and stops the start-up with a panic\<close>
  "validate blank_config = Inr () \<and> runServe service_env (example_platform blank_config) = Inl [GoPanic]"
proof
  show "validate blank_config = Inr ()" by (rule configs_valid)
  have "loadServeConfig (example_platform blank_config) = Inr blank_config"
    "NewKeyFromSeed (base64_bytes (c_AuditPrivKeyB64 blank_config)) = Inl [GoPanic]"
    by (rule examples_load) (use keys_evaluated in \<open>simp add: blank_config_def NewKeyFromSeed_def\<close>)
  moreover have "base64_DecodeString (c_JWTPrivKeyB64 blank_config) = Some (replicate 32 2)"
    by (simp add: blank_config_def example_fields keys_decoded)
  moreover have "pf_Getenv (example_platform blank_config) = (\<lambda>_. [])" "pf_sqliteOpen (example_platform blank_config) = (\<lambda>_. True)"
    by (simp_all add: example_platform_def)
  ultimately show "runServe service_env (example_platform blank_config) = Inl [GoPanic]"
    by (simp add: runServe_def require_def NewJWTSessionStore_def NewKeyFromSeed_def SeedSize_def)
qed

lemma required_gate_without_bridge:
  \<comment> \<open>an empty token file passes the validation of a required gate, and leaves the bridge closed\<close>
  "\<exists>st. runServe service_env (example_platform gated_config) = Inr st \<and>
     pc_rehearsalGate (sc_proposal (sv_cfg (st_server st))) = RehearsalGateRequired \<and> sv_rehearsalOpsToken (st_server st) = []"
proof -
  have "loadServeConfig (example_platform gated_config) = Inr gated_config" by (rule examples_load)
  then have "\<exists>st. runServe service_env (example_platform gated_config) = Inr st \<and> st_config st = gated_config \<and>
      st_server st = NewServer service_env (example_platform gated_config) gated_config (wire_services service_env (example_platform gated_config) gated_config plain_jwt)
      (PubKey (pf_ed25519 (example_platform gated_config)) (st_audit st))"
    by (rule example_starts [where j = "replicate 32 2" and a = "replicate 32 1"]) (simp_all add: gated_config_def example_fields keys_decoded)
  moreover have "c_RehearsalOpsToken gated_config = []" "c_RehearsalGate gated_config = ''required''" by (simp_all add: gated_config_def example_config_def)
  ultimately show ?thesis
    by (auto simp: NewServer_def wire_services_def WithRehearsalGate_def ParseRehearsalGateMode_def Let_def split: prod.split)
qed

end
