(* ===== verification/ApiTypes.thy ===== *)
theory ApiTypes
  imports ApiProperties
begin

text \<open>
  The types of the API's responses: the status and the shape of the body that the annotations of each
  handler promise (\<open>@Router\<close>, \<open>@Success\<close>), and the error codes, each with its one status.
\<close>

section \<open>Documented answers\<close>

datatype answer_kind =
    Obj nat "string list"          \<comment> \<open>status, and keys every answer has\<close>
  | Arr                            \<comment> \<open>200 and an array\<close>
  | NoContent
  | FileOrRedirect
  | EventStream
  | ObjOrText "string list"        \<comment> \<open>200, an object or plain text\<close>
  | ObjOrLeased "string list"      \<comment> \<open>200 and an object, or 409 and the holder of the lease\<close>

definition has_keys :: "string list \<Rightarrow> http_body \<Rightarrow> bool" where
  "has_keys ks b = (case b of JSONBody (JObj kvs) \<Rightarrow> list_all (\<lambda>k. k \<in> fst ` set kvs) ks | _ \<Rightarrow> False)"

definition leased_keys :: "string list" where
  "leased_keys = [''claimed_by'', ''claimed_at'', ''lease_expires_at'']"

fun answers :: "answer_kind \<Rightarrow> http_response \<Rightarrow> bool" where
  "answers (Obj st ks) p \<longleftrightarrow> hs_Status p = st \<and> has_keys ks (hs_Body p)"
| "answers Arr p \<longleftrightarrow> hs_Status p = 200 \<and> (\<exists>vs. hs_Body p = JSONBody (JArr vs))"
| "answers NoContent p \<longleftrightarrow> hs_Status p = 204 \<and> hs_Body p = EmptyBody"
| "answers FileOrRedirect p \<longleftrightarrow> hs_Status p = 200 \<and> (\<exists>b. hs_Body p = FileBody b) \<or>
     hs_Status p = 302 \<and> (\<exists>u. u \<noteq> [] \<and> hs_Body p = Redirect u)"
| "answers EventStream p \<longleftrightarrow> hs_Status p = 200 \<and> (\<exists>l. hs_Body p = StreamBody l)"
| "answers (ObjOrText ks) p \<longleftrightarrow> hs_Status p = 200 \<and> (has_keys ks (hs_Body p) \<or> (\<exists>t. hs_Body p = TextBody t))"
| "answers (ObjOrLeased ks) p \<longleftrightarrow> hs_Status p = 200 \<and> has_keys ks (hs_Body p) \<or> hs_Status p = 409 \<and> has_keys leased_keys (hs_Body p)"

definition error_statuses :: "(string \<times> nat) list" where
  "error_statuses = [(''bad_request'', 400), (''empty_body'', 400), (''host_mode_disabled'', 400), (''invalid_body'', 400),
     (''invalid_field'', 400), (''invalid_genesis_time'', 400), (''invalid_id'', 400), (''invalid_param'', 400), (''invalid_type'', 400),
     (''missing_field'', 400), (''missing_genesis_time'', 400), (''missing_param'', 400), (''missing_sha256'', 400), (''missing_url'', 400),
     (''auth_failed'', 401), (''invalid_ops_credential'', 401), (''invalid_token'', 401), (''missing_token'', 401),
     (''ops_credential_required'', 401), (''unauthorized'', 401), (''forbidden'', 403), (''not_found'', 404), (''conflict'', 409),
     (''too_large'', 413), (''unsupported_media_type'', 415), (''too_many_requests'', 429), (''internal_error'', 500),
     (''no_audit_key'', 503)]"

definition error_response :: "http_response \<Rightarrow> bool" where
  "error_response p = (case hs_Body p of
     ErrorBody code \<Rightarrow> map_of error_statuses code = Some (hs_Status p)
   | GentxInvalidBody _ \<Rightarrow> hs_Status p = 400
   | TextBody _ \<Rightarrow> hs_Status p = 429
   | _ \<Rightarrow> False)"

definition launch_keys :: "string list" where
  "launch_keys = [''id'', ''record'', ''launch_type'', ''status'', ''created_at'', ''updated_at'']"
definition committee_keys :: "string list" where
  "committee_keys = [''id'', ''members'', ''threshold_m'', ''total_n'', ''lead_address'', ''created_at'']"
definition join_keys :: "string list" where
  "join_keys = [''id'', ''submitter_address'', ''launch_id'', ''operator_address'', ''self_delegation'', ''moniker'', ''consensus_pubkey'',
     ''gentx'', ''peer_address'', ''rpc_endpoint'', ''memo'', ''submitted_at'', ''status'']"
definition proposal_keys :: "string list" where
  "proposal_keys = [''id'', ''launch_id'', ''action_type'', ''payload'', ''proposed_by'', ''proposed_at'', ''ttl_expires'', ''status'', ''signatures'']"
definition input_keys :: "string list" where
  "input_keys = [''schema_version'', ''launch_id'', ''attempt_id'', ''generated_at'', ''status'', ''chain'', ''gentxs'', ''allocations'']"
definition page_keys :: "string list" where
  "page_keys = [''items'', ''total'', ''page'', ''per_page'']"
definition dashboard_keys :: "string list" where
  "dashboard_keys = [''launch_id'', ''chain_id'', ''status'', ''genesis_time'', ''final_genesis_sha256'', ''total_approved'', ''confirmed_ready'',
     ''voting_power_confirmed'', ''threshold_status'', ''validators'']"

definition documented_api :: "(string \<times> seg list \<times> answer_kind) list" where
  "documented_api = [
     (''GET'', [Lit ''audit'', Lit ''pubkey''], Obj 200 [''public_key'']),
     (''POST'', [Lit ''admin'', Lit ''coordinators''], Obj 201 [''address'', ''added_by'', ''added_at'']),
     (''DELETE'', [Lit ''admin'', Lit ''coordinators'', Par ''address''], NoContent),
     (''GET'', [Lit ''admin'', Lit ''coordinators''], Obj 200 page_keys),
     (''DELETE'', [Lit ''admin'', Lit ''sessions'', Par ''address''], NoContent),
     (''GET'', [Lit ''admin'', Lit ''log-level''], Obj 200 [''level'']),
     (''POST'', [Lit ''admin'', Lit ''log-level''], Obj 200 [''level'']),
     (''POST'', [Lit ''auth'', Lit ''challenge''], Obj 200 [''challenge'']),
     (''POST'', [Lit ''auth'', Lit ''verify''], Obj 200 [''token'']),
     (''DELETE'', [Lit ''auth'', Lit ''session''], NoContent),
     (''GET'', [Lit ''auth'', Lit ''session''], Obj 200 [''operator_address'', ''expires_at'', ''is_coordinator'']),
     (''DELETE'', [Lit ''auth'', Lit ''sessions'', Lit ''all''], NoContent),
     (''POST'', launch_path [Lit ''committee''], Obj 200 committee_keys),
     (''GET'', launch_path [Lit ''committee''], Obj 200 committee_keys),
     (''POST'', [Lit ''launch''], Obj 201 launch_keys),
     (''GET'', [Lit ''launches''], Obj 200 page_keys),
     (''GET'', launch_path [], Obj 200 launch_keys),
     (''PATCH'', launch_path [], Obj 200 launch_keys),
     (''POST'', launch_path [Lit ''open-window''], Obj 200 launch_keys),
     (''POST'', launch_path [Lit ''cancel''], Obj 200 launch_keys),
     (''POST'', launch_path [Lit ''members''], Obj 201 [''address'', ''label'']),
     (''DELETE'', launch_path [Lit ''members'', Par ''address''], NoContent),
     (''POST'', launch_path [Lit ''rehearsal'', Par ''attempt_id'', Lit ''reset''], NoContent),
     (''GET'', launch_path [Lit ''members''], Arr),
     (''GET'', launch_path [Lit ''chain-hint''], Obj 200 [''chain_id'', ''chain_name'', ''bech32_prefix'', ''denom'']),
     (''POST'', launch_path [Lit ''genesis''], Obj 200 [''sha256'']),
     (''GET'', launch_path [Lit ''genesis''], FileOrRedirect),
     (''GET'', launch_path [Lit ''genesis'', Lit ''hash''], Obj 200 [''initial_sha256'', ''final_sha256'']),
     (''POST'', launch_path [Lit ''allocations'', Par ''type''], Obj 200 [''sha256'']),
     (''GET'', launch_path [Lit ''allocations''], Obj 200 [''allocations'']),
     (''GET'', launch_path [Lit ''allocations'', Par ''type''], FileOrRedirect),
     (''POST'', launch_path [Lit ''join''], Obj 201 join_keys),
     (''POST'', launch_path [Lit ''proposal''], Obj 201 proposal_keys),
     (''POST'', launch_path [Lit ''proposal'', Par ''prop_id'', Lit ''sign''], Obj 200 proposal_keys),
     (''POST'', launch_path [Lit ''ready''], Obj 201 [''id'', ''launch_id'', ''confirmed_at'']),
     (''GET'', [Lit ''bridge'', Lit ''launches'', Par ''id'', Lit ''rehearsal-input''], Obj 200 input_keys),
     (''POST'', [Lit ''bridge'', Lit ''launches'', Par ''id'', Lit ''rehearsal-claim''], ObjOrLeased input_keys),
     (''GET'', [Lit ''bridge'', Lit ''launches'', Par ''id'', Lit ''allocations'', Par ''type''], FileOrRedirect),
     (''POST'', [Lit ''bridge'', Lit ''launches'', Par ''id'', Lit ''rehearsal-results''],
        Obj 200 [''launch_id'', ''attempt_id'', ''outcome'', ''stale'', ''recorded_at'']),
     (''GET'', launch_path [Lit ''join''], Obj 200 page_keys),
     (''GET'', launch_path [Lit ''join'', Lit ''grouped''], Arr),
     (''GET'', launch_path [Lit ''join'', Par ''req_id''], Obj 200 join_keys),
     (''GET'', launch_path [Lit ''gentxs''], Obj 200 [''gentxs'']),
     (''GET'', launch_path [Lit ''proposals''], Obj 200 page_keys),
     (''GET'', launch_path [Lit ''proposal'', Par ''prop_id''], Obj 200 proposal_keys),
     (''GET'', launch_path [Lit ''dashboard''], Obj 200 dashboard_keys),
     (''GET'', launch_path [Lit ''peers''], ObjOrText [''peers'']),
     (''GET'', launch_path [Lit ''audit''], Obj 200 [''entries'']),
     (''GET'', launch_path [Lit ''events''], EventStream),
     (''GET'', launch_path [Lit ''rehearsal''], Arr)]"

definition documented :: "string \<Rightarrow> string list \<Rightarrow> answer_kind option" where
  \<comment> \<open>the entry of a method and a path under \<open>/api/v1\<close>\<close>
  "documented verb path = map_option (\<lambda>(_, _, k). k)
     (find (\<lambda>(m, _, _). m = verb) (filter (\<lambda>(_, p, _). match_path p path \<noteq> None) documented_api))"

section \<open>Handlers give typed answers\<close>

definition gives :: "answer_kind \<Rightarrow> (world \<Rightarrow> http_response \<times> world) \<Rightarrow> bool" where
  "gives k m \<longleftrightarrow> (\<forall>w. answers k (fst (m w)) \<or> error_response (fst (m w)))"

lemma gives_error:
  assumes "map_of error_statuses code = Some st"
  shows "gives k (writeError st code)"
  using assms by (simp add: gives_def writeError_def respond_def error_response_def)

lemma gives_codes:
  "gives k (writeError 400 ''empty_body'')" "gives k (writeError 400 ''host_mode_disabled'')" "gives k (writeError 400 ''invalid_body'')"
  "gives k (writeError 400 ''invalid_field'')" "gives k (writeError 400 ''invalid_genesis_time'')" "gives k (writeError 400 ''invalid_id'')"
  "gives k (writeError 400 ''invalid_param'')" "gives k (writeError 400 ''invalid_type'')" "gives k (writeError 400 ''missing_field'')"
  "gives k (writeError 400 ''missing_genesis_time'')" "gives k (writeError 400 ''missing_param'')" "gives k (writeError 400 ''missing_sha256'')"
  "gives k (writeError 400 ''missing_url'')" "gives k (writeError 401 ''auth_failed'')" "gives k (writeError 401 ''invalid_ops_credential'')"
  "gives k (writeError 401 ''invalid_token'')" "gives k (writeError 401 ''missing_token'')" "gives k (writeError 401 ''ops_credential_required'')"
  "gives k (writeError 403 ''forbidden'')" "gives k (writeError 404 ''not_found'')" "gives k (writeError 413 ''too_large'')"
  "gives k (writeError 415 ''unsupported_media_type'')" "gives k (writeError 500 ''internal_error'')" "gives k (writeError 503 ''no_audit_key'')"
  "gives k (writeError 400 ''bad_request'')" "gives k (writeError 401 ''unauthorized'')" "gives k (writeError 409 ''conflict'')"
  "gives k (writeError 429 ''too_many_requests'')"
  by (rule gives_error, code_simp)+

lemma gives_service_error: "gives k (writeServiceError e)"
proof -
  have "gives k (case service_status e of (st, code) \<Rightarrow> writeError st code)"
    unfolding service_status_def if_distrib [of "case_prod _"] prod.case by (simp add: gives_codes split: if_split)
  moreover have "gives k (respond 400 (GentxInvalidBody rs))" for rs by (simp add: gives_def respond_def error_response_def)
  ultimately show ?thesis by (simp add: writeServiceError_def split: option.split)
qed

lemma gives_calls: "(\<And>e. gives k (onError e)) \<Longrightarrow> (\<And>x. gives k (f x)) \<Longrightarrow> gives k (calls m onError f)"
  using gives_codes(23) unfolding gives_def calls_def recoveryMiddleware_def by (auto split: prod.split sum.split)

lemma gives_answer: "(\<And>x. gives k (f x)) \<Longrightarrow> gives k (answer m f)"
  unfolding answer_def by (intro gives_calls gives_service_error)

lemma gives_with_uuid: "(\<And>u. gives k (f u)) \<Longrightarrow> gives k (with_uuid E r name f)"
  by (simp add: with_uuid_def gives_codes split: option.split)

lemma gives_decoded: "(\<And>x. gives k (f x)) \<Longrightarrow> gives k (decoded_body r dec f)"
  by (auto simp: decoded_body_def gives_codes split: option.split sum.split)

lemma gives_paginated: "(\<And>x. gives k (f x)) \<Longrightarrow> gives k (paginated r f)"
  by (simp add: paginated_def gives_codes split: option.split)

lemma gives_split: "(\<And>a b. gives k (f a b)) \<Longrightarrow> gives k (case p of (a, b) \<Rightarrow> f a b)"
  by (cases p) simp

lemma gives_if: "gives k m \<Longrightarrow> gives k n \<Longrightarrow> gives k (if b then m else n)"
  by simp

lemma gives_Let: "gives k (f v) \<Longrightarrow> gives k (Let v f)"
  by simp

lemma gives_case_sum: "(\<And>x. gives k (f x)) \<Longrightarrow> (\<And>y. gives k (g y)) \<Longrightarrow> gives k (case r of Inl x \<Rightarrow> f x | Inr y \<Rightarrow> g y)"
  by (cases r) simp_all

lemma gives_case_option: "gives k m \<Longrightarrow> (\<And>y. gives k (g y)) \<Longrightarrow> gives k (case r of None \<Rightarrow> m | Some y \<Rightarrow> g y)"
  by (cases r) simp_all

lemma gives_json: "has_keys ks (JSONBody v) \<Longrightarrow> gives (Obj st ks) (writeJSON st v)"
  by (simp add: gives_def writeJSON_def respond_def)

lemma gives_arr: "gives Arr (writeJSON 200 (JArr vs))"
  by (simp add: gives_def writeJSON_def respond_def)

lemma gives_empty: "gives NoContent (respond 204 EmptyBody)"
  by (simp add: gives_def respond_def)

lemmas gives_intros = gives_codes gives_service_error gives_answer gives_calls gives_with_uuid gives_decoded gives_paginated
  gives_split gives_if gives_Let gives_case_sum gives_case_option gives_arr gives_empty gives_json

lemma shapes:
  "has_keys launch_keys (JSONBody (launchToJSON E l))" "has_keys committee_keys (JSONBody (committeeToJSON E c))"
  "has_keys join_keys (JSONBody (joinRequestToJSON E jr))" "has_keys proposal_keys (JSONBody (proposalToJSON E p))"
  "has_keys input_keys (JSONBody (rehearsalInputToJSON E i))" "has_keys page_keys (JSONBody (pageEnvelope items n pg))"
  "has_keys dashboard_keys (JSONBody (dashboardJSON E S d rd))" "has_keys [''address'', ''label''] (JSONBody (memberToJSON E m))"
  "has_keys [''sha256''] (JSONBody (sha_response h))" "has_keys [''public_key''] (JSONBody (auditPubKeyResponse key))"
  by (simp_all add: has_keys_def launchToJSON_def launch_keys_def committeeToJSON_def committee_keys_def joinRequestToJSON_def join_keys_def
      proposalToJSON_def proposal_keys_def rehearsalInputToJSON_def input_keys_def pageEnvelope_def page_keys_def dashboardJSON_def
      dashboard_keys_def memberToJSON_def sha_response_def auditPubKeyResponse_def Let_def)

lemma typed_auth:
  "gives (Obj 200 [''challenge'']) (handleAuthChallenge E S dr r)" "gives (Obj 200 [''token'']) (handleAuthVerify E S dr r)"
  "gives NoContent (handleAuthRevoke r)" "gives NoContent (handleAuthRevokeAll E dr r)" "gives NoContent (handleAdminRevokeAllSessions E dr r)"
  unfolding handleAuthChallenge_def handleAuthVerify_def handleAuthRevoke_def handleAuthRevokeAll_def handleAdminRevokeAllSessions_def
  by (intro gives_intros; simp add: has_keys_def)+

lemma typed_session_info: "gives (Obj 200 [''operator_address'', ''expires_at'', ''is_coordinator'']) (handleAuthSessionInfo E S dr r)"
proof -
  have "gives (Obj 200 [''operator_address'', ''expires_at'', ''is_coordinator''])
      (\<lambda>w. case coordinators_Contains E a w of (c, w') \<Rightarrow> writeJSON 200 (JObj [(''operator_address'', JStr a),
        (''expires_at'', JStr t), (''is_coordinator'', JBool (case c of Inl _ \<Rightarrow> False | Inr b \<Rightarrow> b))]) w')" for a t
    by (simp add: gives_def writeJSON_def respond_def has_keys_def split: prod.split)
  then show ?thesis unfolding handleAuthSessionInfo_def by (intro gives_intros)
qed

lemma typed_admin:
  "gives (Obj 201 [''address'', ''added_by'', ''added_at'']) (handleCoordinatorAdd E dr r)" "gives NoContent (handleCoordinatorRemove E dr r)"
  "gives (Obj 200 page_keys) (handleCoordinatorList E r)" "gives (Obj 200 [''level'']) (handleLogLevelGet level r)"
  "gives (Obj 200 [''public_key'']) (audit_pubkey_endpoint S r)"
  unfolding handleCoordinatorAdd_def handleCoordinatorRemove_def handleCoordinatorList_def handleLogLevelGet_def audit_pubkey_endpoint_def
  by (intro gives_intros shapes; simp add: has_keys_def)+

lemma typed_log_level: "gives (Obj 200 [''level'']) (\<lambda>w. fst (handleLogLevelSet level r w))"
proof -
  have "gives (Obj 200 [''level'']) (decoded_body r (string_field ''level'') (\<lambda>_. writeError 400 ''invalid_param''))"
    "gives (Obj 200 [''level'']) (writeJSON 200 (JObj [(''level'', JStr l)]))" for l
    by (intro gives_intros; simp add: has_keys_def)+
  then show ?thesis by (simp add: gives_def handleLogLevelSet_def split: option.split)
qed

lemma typed_launch:
  "gives (Obj 200 committee_keys) (handleCommitteeCreate E dr r)" "gives (Obj 200 committee_keys) (handleCommitteeGet E r)"
  "gives (Obj 201 [''address'', ''label'']) (handleMemberAdd E dr r)" "gives NoContent (handleMemberRemove E dr r)" "gives Arr (handleMemberList E r)"
  "gives (Obj 201 launch_keys) (create_launch E dr r)" "gives (Obj 200 page_keys) (handleLaunchList E r)"
  "gives (Obj 200 launch_keys) (handleLaunchGet E r)" "gives (Obj 200 launch_keys) (handleLaunchPatch E S dr r)"
  "gives (Obj 200 launch_keys) (handleOpenWindow E dr r)" "gives (Obj 200 launch_keys) (handleLaunchCancel E dr r)"
  unfolding handleCommitteeCreate_def handleCommitteeGet_def handleMemberAdd_def handleMemberRemove_def handleMemberList_def create_launch_def
    handleLaunchList_def handleLaunchGet_def handleLaunchPatch_def handleOpenWindow_def handleLaunchCancel_def handleLaunchAction_def
  by (intro gives_intros shapes)+

lemma typed_create: "gives (Obj 201 launch_keys) (handleLaunchCreate E S dr r)"
  unfolding handleLaunchCreate_def by (intro gives_intros typed_launch)

lemma typed_hint: "gives (Obj 200 [''chain_id'', ''chain_name'', ''bech32_prefix'', ''denom'']) (handleChainHint E r)"
  "gives (Obj 200 [''initial_sha256'', ''final_sha256'']) (handleGenesisHashGet E r)"
  "gives (Obj 200 [''allocations'']) (handleAllocationList E r)"
  unfolding handleChainHint_def handleGenesisHashGet_def handleAllocationList_def
  by (intro gives_intros; simp add: has_keys_def)+

lemma typed_uploads:
  "gives (Obj 200 [''sha256'']) (handleGenesisUpload E S dr r)" "gives (Obj 200 [''sha256'']) (handleAllocationUpload E S dr r)"
  unfolding handleGenesisUpload_def handleGenesisUploadRef_def handleGenesisUploadBytes_def raw_upload_def handleAllocationUpload_def
    handleAllocationUploadRef_def handleAllocationUploadBytes_def
  by (intro gives_intros shapes)+

lemma typed_serve_ref: "gives FileOrRedirect (serve_ref m)"
proof -
  have "gives FileOrRedirect (respond 200 (FileBody b))" "u \<noteq> [] \<Longrightarrow> gives FileOrRedirect (respond 302 (Redirect u))" for b u
    by (simp_all add: gives_def respond_def)
  then show ?thesis unfolding serve_ref_def
    by (auto intro!: gives_answer gives_codes gives_service_error split: StoredFileRef.split option.split)
qed

lemma typed_files:
  "gives FileOrRedirect (handleGenesisGet E r)" "gives FileOrRedirect (handleAllocationGet E r)" "gives FileOrRedirect (handleBridgeAllocationGet E r)"
  unfolding handleGenesisGet_def handleAllocationGet_def handleBridgeAllocationGet_def serveAllocationRef_def
  by (intro gives_intros typed_serve_ref)+

lemma typed_requests:
  "gives (Obj 201 join_keys) (handleJoinSubmit E S dr r)" "gives (Obj 200 page_keys) (handleJoinList E r)" "gives Arr (handleJoinGrouped E r)"
  "gives (Obj 200 join_keys) (handleJoinGet E r)" "gives (Obj 201 proposal_keys) (handleProposalRaise E S dr r)"
  "gives (Obj 200 page_keys) (handleProposalList E r)" "gives (Obj 200 proposal_keys) (handleProposalGet E r)"
  "gives (Obj 200 proposal_keys) (handleProposalSign E S dr r)" "gives (Obj 200 dashboard_keys) (handleDashboard E S dr r)"
  "gives Arr (handleRehearsalResultsList E r)" "gives NoContent (handleRehearsalReset E dr r)" "gives (Obj 200 input_keys) (handleRehearsalInput E dr r)"
  unfolding handleJoinSubmit_def handleJoinList_def handleJoinGrouped_def handleJoinGet_def handleProposalRaise_def handleProposalList_def
    handleProposalGet_def handleProposalSign_def handleDashboard_def handleRehearsalResultsList_def handleRehearsalReset_def
    handleRehearsalInput_def committee_only_def
  by (intro gives_intros shapes)+

lemma typed_small:
  "gives (Obj 200 [''gentxs'']) (handleGentxsGet E r)" "gives (Obj 201 [''id'', ''launch_id'', ''confirmed_at'']) (handleReadinessConfirm E S dr r)"
  "gives (Obj 200 [''entries'']) (handleAudit E S r)"
  "gives (Obj 200 [''launch_id'', ''attempt_id'', ''outcome'', ''stale'', ''recorded_at'']) (handleRehearsalResults E S dr r)"
  unfolding handleGentxsGet_def handleReadinessConfirm_def handleAudit_def handleRehearsalResults_def committee_only_def
  by (intro gives_intros; simp add: has_keys_def)+

lemma typed_others:
  "gives (ObjOrText [''peers'']) (handlePeers E r)" "gives EventStream (handleEvents E r)"
  "gives (ObjOrLeased input_keys) (handleRehearsalClaim E S dr r)"
proof -
  have "gives (ObjOrText [''peers'']) (respond 200 (TextBody t))" "gives (ObjOrText [''peers'']) (writeJSON 200 (JObj [(''peers'', v)]))"
    "gives EventStream (respond 200 (StreamBody l))" "gives (ObjOrLeased input_keys) (writeJSON 200 (rehearsalInputToJSON E i))"
    "gives (ObjOrLeased input_keys) (writeJSON 409 (JObj [(''claimed_by'', a), (''claimed_at'', b), (''lease_expires_at'', c)]))" for t v l i a b c
    using shapes(5) [of E i] by (simp_all add: gives_def writeJSON_def respond_def has_keys_def leased_keys_def)
  note b = this
  show "gives (ObjOrText [''peers'']) (handlePeers E r)" unfolding handlePeers_def by (intro gives_intros b)
  show "gives EventStream (handleEvents E r)" unfolding handleEvents_def by (intro gives_intros b)
  show "gives (ObjOrLeased input_keys) (handleRehearsalClaim E S dr r)" unfolding handleRehearsalClaim_def by (intro gives_intros b)
qed

lemma gives_gates:
  assumes "\<And>r. gives k (h r)"
  shows "gives k (requireAuth E S now h r)" "gives k (requireAdmin E S now h r)" "gives k (optionalAuth E S now h r)"
    "gives k (requireOps S h r)" "gives k (requireJSONBody h r)" "gives k (rate_limited S n h r)"
proof -
  show "gives k (requireAuth E S now h r)" "gives k (requireAdmin E S now h r)" "gives k (requireOps S h r)" "gives k (requireJSONBody h r)"
    unfolding requireAuth_def requireAdmin_def authenticated_def requireOps_def requireJSONBody_def by (intro gives_intros assms)+
  show "gives k (optionalAuth E S now h r)" using assms by (auto simp: gives_def optionalAuth_def Let_def split: prod.split sum.split)
  show "gives k (rate_limited S n h r)" using assms by (auto simp: gives_def rate_limited_def respond_def error_response_def)
qed

lemma gives_json_gates:
  "(\<And>r. gives k (h r)) \<Longrightarrow> gives k (jsonPOST E S now h r)" "(\<And>r. gives k (h r)) \<Longrightarrow> gives k (jsonAdminPOST E S now h r)"
  unfolding jsonPOST_def jsonAdminPOST_def by (intro gives_gates; assumption)+

lemmas typed_handlers = typed_auth typed_session_info typed_admin typed_log_level typed_launch typed_create typed_hint typed_uploads
  typed_files typed_requests typed_small typed_others

definition agrees :: "route \<Rightarrow> string \<times> seg list \<times> answer_kind \<Rightarrow> bool" where
  "agrees rt e = (case e of (m, p, k) \<Rightarrow> rt_Method rt = m \<and> rt_Path rt = p \<and> (\<forall>r. gives k (rt_Handler rt r)))"

lemma agrees_route: "(\<And>r. gives k (h r)) \<Longrightarrow> agrees (route_to m p h) (m, p, k)"
  by (simp add: agrees_def route_to_def)

lemma routes_documented: "list_all2 agrees (routes E S level dr) documented_api"
  unfolding routes_def registerAPIRoutes_def registerBridgeRoutes_def registerLaunchReadRoutes_def documented_api_def Let_def append.simps
    list.rel_inject(2)
  by (intro conjI agrees_route list.rel_inject(1); (intro gives_gates gives_json_gates typed_handlers))

lemma find_agrees:
  assumes "list_all2 agrees rts tab"
  shows "rel_option agrees (find (\<lambda>rt. rt_Method rt = verb) (filter (\<lambda>rt. match_path (rt_Path rt) path \<noteq> None) rts))
    (find (\<lambda>(m, _, _). m = verb) (filter (\<lambda>(_, p, _). match_path p path \<noteq> None) tab))"
  using assms by induction (auto simp: agrees_def)


end
