(* ===== verification/VotingTermination.thy ===== *)
theory VotingTermination
  imports DomainProperties
begin

text \<open>
  Voting on a proposal ends: the operations that change it form a terminating relation, with a bound by
  the number of seats that have not voted, and the deadline decides what the votes leave open.
\<close>

inductive vote_step :: "env \<Rightarrow> string set \<Rightarrow> Proposal \<Rightarrow> Proposal \<Rightarrow> bool" for E A where
  vote: "acct a \<in> A \<Longrightarrow> Sign E p a d sig m now = Inr p' \<Longrightarrow> vote_step E A p p'"
| requorum: "CheckQuorum E p m now = Inr p' \<Longrightarrow> p_Status p' \<noteq> p_Status p \<Longrightarrow> vote_step E A p p'"
| expiry: "ExpireIfStale p now = (p', True) \<Longrightarrow> vote_step E A p p'"

definition open_votes :: "string set \<Rightarrow> Proposal \<Rightarrow> nat" where
  \<comment> \<open>the seats that can still vote, and one for the decision; nothing once it is decided\<close>
  "open_votes A p = (if p_Status p = PStatusPendingSignatures then Suc (card (A - set (signers p))) else 0)"

lemma Sign_signers:
  assumes "Sign E p a d sig m now = Inr p'"
  shows "p_Status p = PStatusPendingSignatures" "acct a \<notin> set (signers p)" "signers p' = signers p @ [acct a]"
proof -
  show "p_Status p = PStatusPendingSignatures" "acct a \<notin> set (signers p)"
    using assms by (auto simp: Sign_def list_ex_iff signers_def account_defs split: if_splits)
  show "signers p' = signers p @ [acct a]"
    using assms by (auto simp: Sign_def signers_def Let_def dest!: execute_at_quorum_Inr split: if_splits)
qed

lemma vote_step_decreases:
  assumes "vote_step E A p p'" "finite A"
  shows "open_votes A p' < open_votes A p"
  using assms(1)
proof cases
  case (vote a d sig m now)
  note s = Sign_signers [OF vote(2)]
  have "A - set (signers p') \<subset> A - set (signers p)" using vote(1) s by auto
  then have "card (A - set (signers p')) < card (A - set (signers p))" using assms(2) by (simp add: psubset_card_mono)
  then show ?thesis using s(1) by (simp add: open_votes_def)
next
  case (requorum m now)
  then have "p_Status p = PStatusPendingSignatures" by (auto simp: CheckQuorum_def split: if_splits)
  then show ?thesis using requorum by (simp add: open_votes_def)
next
  case (expiry now)
  then show ?thesis by (auto simp: ExpireIfStale_def open_votes_def split: if_splits)
qed

lemma vote_run_bound:
  assumes "(vote_step E A ^^ n) p p'" "finite A"
  shows "n + open_votes A p' \<le> open_votes A p"
  using assms(1)
proof (induction n arbitrary: p')
  case (Suc n)
  then obtain q where "(vote_step E A ^^ n) p q" "vote_step E A q p'" by auto
  then show ?case using Suc.IH [of q] vote_step_decreases [OF _ assms(2)] by fastforce
qed simp

text \<open>
  C39. No proposal is voted on for ever: the effective operations (votes of seated accounts, a quorum
  check that changes the status, an expiry) form a well-founded relation, at most one more of them than
  there are seats that have not voted can follow each other, and past the deadline no vote is accepted
  and the expiry leaves no proposal pending.
\<close>

theorem voting_terminates:
  assumes "finite A"
  shows "wf {(p', p). vote_step E A p p'} \<and>
    (\<forall>n p p'. (vote_step E A ^^ n) p p' \<longrightarrow> n \<le> Suc (card (A - set (signers p)))) \<and>
    (\<forall>p now. p_TTLExpires p < now \<longrightarrow> p_Status (fst (ExpireIfStale p now)) \<noteq> PStatusPendingSignatures \<and>
       (\<forall>a d sig m. isl (Sign E p a d sig m now)))"
proof -
  have "{(p', p). vote_step E A p p'} \<subseteq> measure (open_votes A)" using vote_step_decreases [OF _ assms] by auto
  then have "wf {(p', p). vote_step E A p p'}" by (rule wf_subset [OF wf_measure])
  moreover have "n \<le> Suc (card (A - set (signers p)))" if "(vote_step E A ^^ n) p p'" for n p p'
    using vote_run_bound [OF that assms] by (auto simp: open_votes_def split: if_splits)
  moreover have "p_Status (fst (ExpireIfStale p now)) \<noteq> PStatusPendingSignatures" "isl (Sign E p a d sig m now)"
    if "p_TTLExpires p < now" for p now a d sig m using that by (simp_all add: ExpireIfStale_def Sign_def)
  ultimately show ?thesis by blast
qed

theorem voting_terminates_witness:
  "\<exists>p'. vote_step example_env {''aa'', ''bb'', ''cc''} example_proposal p' \<and>
     (\<forall>n q. (vote_step example_env {''aa'', ''bb'', ''cc''} ^^ n) example_proposal q \<longrightarrow> n \<le> 3)"
proof -
  obtain p' where "Sign example_env example_proposal (example_account ''bb'') DecisionSign \<lparr>sig_value = ''y''\<rparr> 2 50 = Inr p'"
    using example_proposal_signed by blast
  then have "vote_step example_env {''aa'', ''bb'', ''cc''} example_proposal p'"
    by (intro vote_step.vote) (simp_all add: example_account_def)
  moreover have "n \<le> 3" if "(vote_step example_env {''aa'', ''bb'', ''cc''} ^^ n) example_proposal q" for n q
  proof -
    have "card ({''aa'', ''bb'', ''cc''} - set (signers example_proposal)) = 2" by code_simp
    moreover have "n \<le> Suc (card ({''aa'', ''bb'', ''cc''} - set (signers example_proposal)))"
      using voting_terminates [of "{''aa'', ''bb'', ''cc''}" example_env] that by blast
    ultimately show ?thesis by simp
  qed
  ultimately show ?thesis by blast
qed

end
