(* ===== verification/SqlRows.thy ===== *)
theory SqlRows
  imports ApiJson
begin

text \<open>
  The rows behind the repositories (internal/infrastructure/storage/sqlite): the columns each \<open>Save\<close>
  binds to its statement, the scans that rebuild an aggregate from its columns, and the statements as
  operations on tables of such rows.  Identifiers, times, statuses and the steps of a rehearsal are
  text here; SQL compares and orders the text.

  A table is the list of its rows in rowid order.  Primary keys, unique indexes and foreign keys are
  checked as the migrations declare them.
\<close>

section \<open>Columns (helpers.go)\<close>

definition strToTime :: "env \<Rightarrow> string \<Rightarrow> time result" where
  \<comment> \<open>the two layouts that are tried accept the same texts: a fraction of a second is always optional\<close>
  "strToTime E s = (case time_ParseRFC3339 E s of None \<Rightarrow> Inl [] | Some t \<Rightarrow> Inr t)"

definition nullTimeToStr :: "env \<Rightarrow> time option \<Rightarrow> string option" where
  "nullTimeToStr E t = (case t of None \<Rightarrow> None | Some x \<Rightarrow> Some (timeToStr E x))"

definition nullStrToTime :: "env \<Rightarrow> string option \<Rightarrow> time option result" where
  "nullStrToTime E s = (case s of None \<Rightarrow> Inr None | Some x \<Rightarrow> and_then (strToTime E x) (\<lambda>t. Inr (Some t)))"

definition uuidToStr :: "env \<Rightarrow> uuid \<Rightarrow> string" where
  "uuidToStr E i = uuid_String E i"

definition strToUUID :: "env \<Rightarrow> string \<Rightarrow> uuid result" where
  "strToUUID E s = (case uuid_Parse E s of None \<Rightarrow> Inl [] | Some i \<Rightarrow> Inr i)"

definition nullStrToUUID :: "env \<Rightarrow> string option \<Rightarrow> uuid option result" where
  "nullStrToUUID E s = (case s of None \<Rightarrow> Inr None | Some x \<Rightarrow> and_then (strToUUID E x) (\<lambda>i. Inr (Some i)))"

definition boolToInt :: "bool \<Rightarrow> int" where
  "boolToInt b = (if b then 1 else 0)"

definition constant_of :: "('a \<Rightarrow> string) \<Rightarrow> 'a list \<Rightarrow> string \<Rightarrow> 'a result" where
  \<comment> \<open>the conversion of a text to an enumeration of the model; no statement writes any other text\<close>
  "constant_of str cs s = (case find (\<lambda>c. str c = s) cs of None \<Rightarrow> Inl [] | Some c \<Rightarrow> Inr c)"

section \<open>Tables\<close>

record launch_cols =                        \<comment> \<open>launches, in the order \<open>SELECT *\<close> gives after the migrations\<close>
  lac_id :: string
  lac_chain_id :: string
  lac_chain_name :: string
  lac_binary_name :: string
  lac_binary_version :: string
  lac_binary_sha256 :: string
  lac_repo_url :: string
  lac_repo_commit :: string
  lac_genesis_time :: "string option"
  lac_denom :: string
  lac_min_self_delegation :: string
  lac_max_commission_rate :: string
  lac_max_commission_change_rate :: string
  lac_gentx_deadline :: string
  lac_min_validator_count :: int
  lac_launch_type :: string
  lac_status :: string
  lac_initial_genesis_sha256 :: string
  lac_final_genesis_sha256 :: string
  lac_monitor_rpc_url :: string
  lac_created_at :: string
  lac_updated_at :: string
  lac_version :: int
  lac_bech32_prefix :: string
  lac_total_supply :: string
  lac_rehearsal_service_pubkey :: string
  lac_rehearsal_endpoint :: string
  lac_final_genesis_input_set_hash :: string

record committee_cols =                     \<comment> \<open>committees\<close>
  coc_id :: string
  coc_launch_id :: string
  coc_threshold_m :: int
  coc_total_n :: int
  coc_lead_address :: string
  coc_created_at :: string

record member_cols =                        \<comment> \<open>committee_members\<close>
  cmc_committee_id :: string
  cmc_position :: nat
  cmc_address :: string
  cmc_account :: string
  cmc_moniker :: string

record allow_cols =                         \<comment> \<open>allowlist\<close>
  alc_launch_id :: string
  alc_address :: string
  alc_account :: string
  alc_label :: string
  alc_added_by :: string
  alc_added_at :: string

record afile_cols =                         \<comment> \<open>launch_allocation_files\<close>
  afc_launch_id :: string
  afc_alloc_type :: string
  afc_sha256 :: string
  afc_status :: string
  afc_approved_by_proposal :: "string option"
  afc_uploaded_at :: string

record jr_cols =                            \<comment> \<open>join_requests\<close>
  jrc_id :: string
  jrc_launch_id :: string
  jrc_operator_address :: string
  jrc_consensus_pubkey :: string
  jrc_gentx_json :: string
  jrc_peer_address :: string
  jrc_rpc_endpoint :: string
  jrc_memo :: string
  jrc_submitted_at :: string
  jrc_operator_signature :: string
  jrc_status :: string
  jrc_rejection_reason :: string
  jrc_approved_by_proposal :: "string option"
  jrc_self_delegation_amount :: "64 word"
  jrc_submitter_address :: string

record prop_cols =                          \<comment> \<open>proposals\<close>
  prc_id :: string
  prc_launch_id :: string
  prc_action_type :: string
  prc_payload :: string
  prc_proposed_by :: string
  prc_proposed_at :: string
  prc_ttl_expires :: string
  prc_status :: string
  prc_executed_at :: "string option"

record sig_cols =                           \<comment> \<open>proposal_signatures\<close>
  sgc_proposal_id :: string
  sgc_member_address :: string
  sgc_decision :: string
  sgc_signed_at :: string
  sgc_signature :: string

record rc_cols =                            \<comment> \<open>readiness_confirmations\<close>
  rcc_id :: string
  rcc_launch_id :: string
  rcc_join_request_id :: string
  rcc_operator_address :: string
  rcc_genesis_hash_confirmed :: string
  rcc_binary_hash_confirmed :: string
  rcc_confirmed_at :: string
  rcc_operator_signature :: string
  rcc_invalidated_at :: "string option"

record att_cols =                           \<comment> \<open>rehearsal_attempts\<close>
  atc_id :: string
  atc_launch_id :: string
  atc_input_set_hash :: string
  atc_issued_at :: string
  atc_status :: string
  atc_claimed_at :: "string option"
  atc_lease_expires_at :: "string option"
  atc_runner_id :: string

record res_cols =                           \<comment> \<open>rehearsal_results\<close>
  rec_id :: string
  rec_attempt_id :: string
  rec_launch_id :: string
  rec_input_set_hash :: string
  rec_outcome :: string
  rec_failed_step :: string
  rec_summary :: string
  rec_steps :: string
  rec_engine_version :: string
  rec_binary_name :: string
  rec_binary_version :: string
  rec_binary_sha256 :: string
  rec_validators :: int
  rec_blocks_advanced :: int
  rec_started_at :: string
  rec_finished_at :: string
  rec_service_pubkey :: string
  rec_signature :: string
  rec_stale :: int
  rec_recorded_at :: string

record sqldb =
  sq_launches :: "launch_cols list"
  sq_committees :: "committee_cols list"
  sq_members :: "member_cols list"
  sq_allowlist :: "allow_cols list"
  sq_files :: "afile_cols list"
  sq_join_requests :: "jr_cols list"
  sq_proposals :: "prop_cols list"
  sq_signatures :: "sig_cols list"
  sq_readiness :: "rc_cols list"
  sq_attempts :: "att_cols list"
  sq_results :: "res_cols list"

type_synonym 'a sql = "sqldb \<Rightarrow> 'a result \<times> sqldb"

definition query :: "(sqldb \<Rightarrow> 'a result) \<Rightarrow> 'a sql" where
  "query q s = (q s, s)"

definition sql_then :: "'a sql \<Rightarrow> ('a \<Rightarrow> 'b sql) \<Rightarrow> 'b sql" where
  "sql_then m f s = (case m s of (Inl e, s') \<Rightarrow> (Inl e, s') | (Inr x, s') \<Rightarrow> f x s')"

definition query_row :: "('r \<Rightarrow> 'a result) \<Rightarrow> 'r list \<Rightarrow> 'a result" where
  \<comment> \<open>\<open>QueryRowContext\<close> and a scan that turns \<open>sql.ErrNoRows\<close> into \<open>ports.ErrNotFound\<close>\<close>
  "query_row scan rows = (case rows of [] \<Rightarrow> Inl [ErrNotFound] | r # _ \<Rightarrow> scan r)"

section \<open>Join requests (joinrequest.go)\<close>

definition jr_statuses :: "JRStatus list" where
  "jr_statuses = [JRPending, JRApproved, JRRejected, JRExpired]"

definition jr_args :: "env \<Rightarrow> string \<Rightarrow> JoinRequest \<Rightarrow> jr_cols" where
  \<comment> \<open>the values bound by \<open>Save\<close>, the submitter rendered under the launch's prefix\<close>
  "jr_args E prefix jr = \<lparr>jrc_id = uuidToStr E (jr_ID jr), jrc_launch_id = uuidToStr E (jr_LaunchID jr),
     jrc_operator_address = AccountID_String (jr_OperatorAddress jr), jrc_consensus_pubkey = jr_ConsensusPubKey jr,
     jrc_gentx_json = jr_GentxJSON jr, jrc_peer_address = pa_value (jr_PeerAddress jr), jrc_rpc_endpoint = rpc_value (jr_RPCEndpoint jr),
     jrc_memo = jr_Memo jr, jrc_submitted_at = timeToStr E (jr_SubmittedAt jr), jrc_operator_signature = sig_value (jr_OperatorSignature jr),
     jrc_status = jr_status_string (jr_Status jr), jrc_rejection_reason = jr_RejectionReason jr,
     jrc_approved_by_proposal = map_option (uuidToStr E) (jr_ApprovedByProposal jr),
     jrc_self_delegation_amount = SelfDelegationAmount jr, jrc_submitter_address = underPrefix E (jr_SubmitterAddress jr) prefix\<rparr>"

definition scanJoinRequest :: "env \<Rightarrow> jr_cols \<Rightarrow> JoinRequest result" where
  "scanJoinRequest E c =
     and_then (strToUUID E (jrc_id c)) (\<lambda>i.
     and_then (strToUUID E (jrc_launch_id c)) (\<lambda>launchID.
     and_then (NewAccountID E (jrc_operator_address c)) (\<lambda>oa.
     and_then (NewPeerAddress (jrc_peer_address c)) (\<lambda>pa.
     and_then (if jrc_rpc_endpoint c \<noteq> [] then NewRPCEndpoint E (jrc_rpc_endpoint c) else Inr \<lparr>rpc_value = []\<rparr>) (\<lambda>rpc.
     and_then (strToTime E (jrc_submitted_at c)) (\<lambda>sa.
     and_then (NewSignature (jrc_operator_signature c)) (\<lambda>sig.
     and_then (nullStrToUUID E (jrc_approved_by_proposal c)) (\<lambda>approvedBy.
     and_then (if jrc_submitter_address c \<noteq> [] then NewAccountID E (jrc_submitter_address c)
               else Inr \<lparr>acct = [], orig = []\<rparr>) (\<lambda>submitter.
     and_then (constant_of jr_status_string jr_statuses (jrc_status c)) (\<lambda>st.
     Inr \<lparr>jr_ID = i, jr_LaunchID = launchID, jr_OperatorAddress = oa, jr_SubmitterAddress = submitter,
          jr_ConsensusPubKey = jrc_consensus_pubkey c, jr_GentxJSON = jrc_gentx_json c, jr_PeerAddress = pa, jr_RPCEndpoint = rpc,
          jr_Memo = jrc_memo c, jr_SubmittedAt = sa, jr_OperatorSignature = sig, jr_Status = st,
          jr_RejectionReason = jrc_rejection_reason c, jr_ApprovedByProposal = approvedBy\<rparr>))))))))))"

definition sql_launchPrefix :: "env \<Rightarrow> sqldb \<Rightarrow> uuid \<Rightarrow> string" where
  "sql_launchPrefix E s lid = (case row_of lac_id (uuidToStr E lid) (sq_launches s) of None \<Rightarrow> [] | Some r \<Rightarrow> lac_bech32_prefix r)"

definition jrc_active :: "jr_cols \<Rightarrow> bool" where
  "jrc_active c \<longleftrightarrow> jrc_status c \<in> {''PENDING'', ''APPROVED''}"

definition jrc_conflict :: "jr_cols \<Rightarrow> jr_cols \<Rightarrow> bool" where
  \<comment> \<open>idx_jr_active_validator and idx_jr_consensus_pubkey of migration 0006\<close>
  "jrc_conflict a b \<longleftrightarrow> jrc_id a \<noteq> jrc_id b \<and> jrc_launch_id a = jrc_launch_id b \<and> jrc_active a \<and> jrc_active b \<and>
     (jrc_operator_address a = jrc_operator_address b \<or> jrc_consensus_pubkey a = jrc_consensus_pubkey b)"

definition jrc_set :: "jr_cols \<Rightarrow> jr_cols \<Rightarrow> jr_cols" where
  "jrc_set old new = old\<lparr>jrc_status := jrc_status new, jrc_rejection_reason := jrc_rejection_reason new,
     jrc_approved_by_proposal := jrc_approved_by_proposal new\<rparr>"

definition known :: "('r \<Rightarrow> string) \<Rightarrow> string \<Rightarrow> 'r list \<Rightarrow> bool" where
  \<comment> \<open>the row a foreign key refers to exists\<close>
  "known key k rows \<longleftrightarrow> list_ex (\<lambda>r. key r = k) rows"

definition sql_joinrequests_Save :: "env \<Rightarrow> JoinRequest \<Rightarrow> unit sql" where
  \<comment> \<open>a violated index or foreign key is a constraint violation, reported as a conflict\<close>
  "sql_joinrequests_Save E jr s =
     (let row = jr_args E (sql_launchPrefix E s (jr_LaunchID jr)) jr;
          rows = upsert jrc_id jrc_set row (sq_join_requests s) in
      if \<not> known jrc_id (jrc_id row) (sq_join_requests s) \<and> \<not> known lac_id (jrc_launch_id row) (sq_launches s)
        \<or> (case row_of jrc_id (jrc_id row) rows of None \<Rightarrow> False | Some r \<Rightarrow> list_ex (jrc_conflict r) rows)
      then (Inl [ErrConflict], s)
      else (Inr (), s\<lparr>sq_join_requests := rows\<rparr>))"

definition sql_joinrequests_FindByID :: "env \<Rightarrow> uuid \<Rightarrow> JoinRequest sql" where
  "sql_joinrequests_FindByID E i = query (\<lambda>s.
     query_row (scanJoinRequest E) (filter (\<lambda>r. jrc_id r = uuidToStr E i) (sq_join_requests s)))"

definition sql_joinrequests_FindByLaunch ::
  "env \<Rightarrow> uuid \<Rightarrow> JRStatus option \<Rightarrow> int \<Rightarrow> int \<Rightarrow> (JoinRequest list \<times> int) sql" where
  "sql_joinrequests_FindByLaunch E lid st page perPage = query (\<lambda>s.
     let rows = filter (\<lambda>r. jrc_launch_id r = uuidToStr E lid \<and>
           (case st of None \<Rightarrow> True | Some x \<Rightarrow> jrc_status r = jr_status_string x)) (sq_join_requests s) in
     and_then (all_results (scanJoinRequest E) (page_of page perPage (rev (sort_key jrc_submitted_at rows)))) (\<lambda>jrs.
     Inr (jrs, int (length rows))))"

definition sql_joinrequests_FindByOperator :: "env \<Rightarrow> uuid \<Rightarrow> string \<Rightarrow> JoinRequest sql" where
  "sql_joinrequests_FindByOperator E lid operatorAddr = query (\<lambda>s.
     query_row (scanJoinRequest E) (rev (sort_key jrc_submitted_at (filter (\<lambda>r.
       jrc_launch_id r = uuidToStr E lid \<and> jrc_operator_address r = operatorAddr) (sq_join_requests s)))))"

definition sql_joinrequests_FindApprovedByLaunch :: "env \<Rightarrow> uuid \<Rightarrow> JoinRequest list sql" where
  "sql_joinrequests_FindApprovedByLaunch E lid = query (\<lambda>s.
     all_results (scanJoinRequest E) (sort_key jrc_submitted_at (filter (\<lambda>r.
       jrc_launch_id r = uuidToStr E lid \<and> jrc_status r = ''APPROVED'') (sq_join_requests s))))"

definition sql_joinrequests_AllByLaunch :: "env \<Rightarrow> uuid \<Rightarrow> JoinRequest list sql" where
  "sql_joinrequests_AllByLaunch E lid = query (\<lambda>s.
     all_results (scanJoinRequest E) (sort_key jrc_submitted_at (filter (\<lambda>r.
       jrc_launch_id r = uuidToStr E lid) (sq_join_requests s))))"

definition sql_joinrequests_CountBySubmitter :: "env \<Rightarrow> uuid \<Rightarrow> string \<Rightarrow> int sql" where
  "sql_joinrequests_CountBySubmitter E lid submitterAddr = query (\<lambda>s.
     and_then (NewAccountID E submitterAddr) (\<lambda>a.
     Inr (int (length (filter (\<lambda>r. jrc_launch_id r = uuidToStr E lid \<and>
       jrc_submitter_address r = underPrefix E a (sql_launchPrefix E s lid)) (sq_join_requests s))))))"

definition sql_joinrequests_CountByConsensusPubKey :: "env \<Rightarrow> uuid \<Rightarrow> string \<Rightarrow> int sql" where
  "sql_joinrequests_CountByConsensusPubKey E lid key = query (\<lambda>s. Inr (int (length (filter (\<lambda>r.
     jrc_launch_id r = uuidToStr E lid \<and> jrc_consensus_pubkey r = key \<and> jrc_active r) (sq_join_requests s)))))"

definition sql_joinrequests_FindActiveByValidator :: "env \<Rightarrow> uuid \<Rightarrow> string \<Rightarrow> JoinRequest sql" where
  "sql_joinrequests_FindActiveByValidator E lid validatorAddr = query (\<lambda>s.
     query_row (scanJoinRequest E) (rev (sort_key jrc_submitted_at (filter (\<lambda>r.
       jrc_launch_id r = uuidToStr E lid \<and> jrc_operator_address r = validatorAddr \<and> jrc_active r) (sq_join_requests s)))))"

definition sql_loadVotingPower :: "env \<Rightarrow> Launch \<Rightarrow> Launch sql" where
  \<comment> \<open>the stored amounts of the approved requests, by account\<close>
  "sql_loadVotingPower E l = query (\<lambda>s.
     and_then (all_results (\<lambda>r. and_then (NewAccountID E (jrc_operator_address r)) (\<lambda>i. Inr (Hex i, jrc_self_delegation_amount r)))
       (filter (\<lambda>r. jrc_launch_id r = uuidToStr E (l_ID l) \<and> jrc_status r = ''APPROVED'') (sq_join_requests s))) (\<lambda>powers.
     Inr (InitVotingPower l (fold (\<lambda>(k, v). fmupd k v) powers fmempty))))"

section \<open>Proposals (proposal.go)\<close>

definition p_statuses :: "PStatus list" where
  "p_statuses = [PStatusPendingSignatures, PStatusExecuted, PStatusVetoed, PStatusExpired]"

definition prop_args :: "env \<Rightarrow> Proposal \<Rightarrow> prop_cols" where
  "prop_args E p = \<lparr>prc_id = uuidToStr E (p_ID p), prc_launch_id = uuidToStr E (p_LaunchID p),
     prc_action_type = action_string (p_ActionType p), prc_payload = p_Payload p, prc_proposed_by = AccountID_String (p_ProposedBy p),
     prc_proposed_at = timeToStr E (p_ProposedAt p), prc_ttl_expires = timeToStr E (p_TTLExpires p),
     prc_status = proposal_status_string (p_Status p), prc_executed_at = nullTimeToStr E (p_ExecutedAt p)\<rparr>"

definition sig_args :: "env \<Rightarrow> uuid \<Rightarrow> SignatureEntry \<Rightarrow> sig_cols" where
  "sig_args E pid e = \<lparr>sgc_proposal_id = uuidToStr E pid, sgc_member_address = AccountID_String (se_MemberAddress e),
     sgc_decision = decision_string (se_Decision e), sgc_signed_at = timeToStr E (se_Timestamp e),
     sgc_signature = sig_value (se_Signature e)\<rparr>"

definition scanProposal :: "env \<Rightarrow> prop_cols \<Rightarrow> Proposal result" where
  "scanProposal E c =
     and_then (strToUUID E (prc_id c)) (\<lambda>i.
     and_then (strToUUID E (prc_launch_id c)) (\<lambda>launchID.
     and_then (NewAccountID E (prc_proposed_by c)) (\<lambda>pb.
     and_then (strToTime E (prc_proposed_at c)) (\<lambda>pa.
     and_then (strToTime E (prc_ttl_expires c)) (\<lambda>ttl.
     and_then (nullStrToTime E (prc_executed_at c)) (\<lambda>ea.
     and_then (constant_of proposal_status_string p_statuses (prc_status c)) (\<lambda>st.
     Inr \<lparr>p_ID = i, p_LaunchID = launchID, p_ActionType = parse_action (prc_action_type c), p_Payload = prc_payload c,
          p_ProposedBy = pb, p_ProposedAt = pa, p_TTLExpires = ttl, p_Status = st, p_ExecutedAt = ea,
          p_Signatures = [], p_events = []\<rparr>)))))))"

definition scan_signature :: "env \<Rightarrow> sig_cols \<Rightarrow> SignatureEntry result" where
  "scan_signature E c =
     and_then (NewAccountID E (sgc_member_address c)) (\<lambda>a.
     and_then (strToTime E (sgc_signed_at c)) (\<lambda>t.
     and_then (NewSignature (sgc_signature c)) (\<lambda>sig.
     Inr \<lparr>se_MemberAddress = a, se_Decision = parse_decision (sgc_decision c), se_Timestamp = t, se_Signature = sig\<rparr>)))"

definition prc_set :: "prop_cols \<Rightarrow> prop_cols \<Rightarrow> prop_cols" where
  "prc_set old new = old\<lparr>prc_status := prc_status new, prc_executed_at := prc_executed_at new\<rparr>"

definition sql_insert_signature :: "env \<Rightarrow> uuid \<Rightarrow> SignatureEntry \<Rightarrow> sqldb \<Rightarrow> sqldb" where
  \<comment> \<open>\<open>INSERT OR IGNORE\<close>, with the key (proposal_id, member_address)\<close>
  "sql_insert_signature E pid e s = (let row = sig_args E pid e in
     if list_ex (\<lambda>r. sgc_proposal_id r = sgc_proposal_id row \<and> sgc_member_address r = sgc_member_address row) (sq_signatures s)
     then s else s\<lparr>sq_signatures := sq_signatures s @ [row]\<rparr>)"

definition sql_proposals_Save :: "env \<Rightarrow> Proposal \<Rightarrow> unit sql" where
  "sql_proposals_Save E p s =
     (let row = prop_args E p in
      if \<not> known prc_id (prc_id row) (sq_proposals s) \<and> \<not> known lac_id (prc_launch_id row) (sq_launches s) then (Inl [], s)
      else (Inr (), fold (sql_insert_signature E (p_ID p)) (p_Signatures p)
              (s\<lparr>sq_proposals := upsert prc_id prc_set row (sq_proposals s)\<rparr>)))"

definition sql_loadSignatures :: "env \<Rightarrow> Proposal \<Rightarrow> Proposal sql" where
  "sql_loadSignatures E p = query (\<lambda>s.
     and_then (all_results (scan_signature E) (sort_key sgc_signed_at
       (filter (\<lambda>r. sgc_proposal_id r = uuidToStr E (p_ID p)) (sq_signatures s)))) (\<lambda>sigs.
     Inr (p\<lparr>p_Signatures := p_Signatures p @ sigs\<rparr>)))"

fun sql_each :: "('a \<Rightarrow> 'b sql) \<Rightarrow> 'a list \<Rightarrow> 'b list sql" where
  "sql_each f [] s = (Inr [], s)"
| "sql_each f (x # xs) s = sql_then (f x) (\<lambda>y. sql_then (sql_each f xs) (\<lambda>ys. query (\<lambda>_. Inr (y # ys)))) s"

definition scanProposalRows :: "env \<Rightarrow> prop_cols list \<Rightarrow> Proposal list sql" where
  "scanProposalRows E rows = sql_then (query (\<lambda>_. all_results (scanProposal E) rows)) (sql_each (sql_loadSignatures E))"

definition sql_proposals_FindByID :: "env \<Rightarrow> uuid \<Rightarrow> Proposal sql" where
  "sql_proposals_FindByID E i =
     sql_then (query (\<lambda>s. query_row (scanProposal E) (filter (\<lambda>r. prc_id r = uuidToStr E i) (sq_proposals s)))) (sql_loadSignatures E)"

definition sql_proposals_FindByLaunch :: "env \<Rightarrow> uuid \<Rightarrow> int \<Rightarrow> int \<Rightarrow> (Proposal list \<times> int) sql" where
  "sql_proposals_FindByLaunch E lid page perPage s =
     (let rows = filter (\<lambda>r. prc_launch_id r = uuidToStr E lid) (sq_proposals s) in
      sql_then (scanProposalRows E (page_of page perPage (rev (sort_key prc_proposed_at rows))))
        (\<lambda>ps. query (\<lambda>_. Inr (ps, int (length rows)))) s)"

definition sql_proposals_FindPending :: "env \<Rightarrow> Proposal list sql" where
  "sql_proposals_FindPending E s =
     scanProposalRows E (sort_key prc_proposed_at (filter (\<lambda>r. prc_status r = ''PENDING_SIGNATURES'') (sq_proposals s))) s"

definition sql_ExpireAllPending :: "env \<Rightarrow> uuid \<Rightarrow> unit sql" where
  "sql_ExpireAllPending E lid s = (Inr (), s\<lparr>sq_proposals := map (\<lambda>r.
     if prc_launch_id r = uuidToStr E lid \<and> prc_status r = ''PENDING_SIGNATURES'' then r\<lparr>prc_status := ''EXPIRED''\<rparr> else r)
     (sq_proposals s)\<rparr>)"

section \<open>Readiness confirmations (readiness.go)\<close>

definition rc_args :: "env \<Rightarrow> ReadinessConfirmation \<Rightarrow> rc_cols" where
  "rc_args E rc = \<lparr>rcc_id = uuidToStr E (rc_ID rc), rcc_launch_id = uuidToStr E (rc_LaunchID rc),
     rcc_join_request_id = uuidToStr E (rc_JoinRequestID rc), rcc_operator_address = AccountID_String (rc_OperatorAddress rc),
     rcc_genesis_hash_confirmed = rc_GenesisHashConfirmed rc, rcc_binary_hash_confirmed = rc_BinaryHashConfirmed rc,
     rcc_confirmed_at = timeToStr E (rc_ConfirmedAt rc), rcc_operator_signature = sig_value (rc_OperatorSignature rc),
     rcc_invalidated_at = nullTimeToStr E (rc_InvalidatedAt rc)\<rparr>"

definition scanReadiness :: "env \<Rightarrow> rc_cols \<Rightarrow> ReadinessConfirmation result" where
  "scanReadiness E c =
     and_then (strToUUID E (rcc_id c)) (\<lambda>i.
     and_then (strToUUID E (rcc_launch_id c)) (\<lambda>launchID.
     and_then (strToUUID E (rcc_join_request_id c)) (\<lambda>jrID.
     and_then (NewAccountID E (rcc_operator_address c)) (\<lambda>oa.
     and_then (strToTime E (rcc_confirmed_at c)) (\<lambda>ca.
     and_then (NewSignature (rcc_operator_signature c)) (\<lambda>sig.
     and_then (nullStrToTime E (rcc_invalidated_at c)) (\<lambda>ia.
     Inr \<lparr>rc_ID = i, rc_LaunchID = launchID, rc_JoinRequestID = jrID, rc_OperatorAddress = oa,
          rc_GenesisHashConfirmed = rcc_genesis_hash_confirmed c, rc_BinaryHashConfirmed = rcc_binary_hash_confirmed c,
          rc_ConfirmedAt = ca, rc_OperatorSignature = sig, rc_InvalidatedAt = ia\<rparr>)))))))"

definition rcc_set :: "rc_cols \<Rightarrow> rc_cols \<Rightarrow> rc_cols" where
  "rcc_set old new = old\<lparr>rcc_invalidated_at := rcc_invalidated_at new\<rparr>"

definition sql_readiness_Save :: "env \<Rightarrow> ReadinessConfirmation \<Rightarrow> unit sql" where
  "sql_readiness_Save E rc s =
     (let row = rc_args E rc in
      if \<not> known rcc_id (rcc_id row) (sq_readiness s) \<and>
         \<not> (known lac_id (rcc_launch_id row) (sq_launches s) \<and> known jrc_id (rcc_join_request_id row) (sq_join_requests s))
      then (Inl [], s)
      else (Inr (), s\<lparr>sq_readiness := upsert rcc_id rcc_set row (sq_readiness s)\<rparr>))"

definition sql_readiness_FindByLaunch :: "env \<Rightarrow> uuid \<Rightarrow> ReadinessConfirmation list sql" where
  "sql_readiness_FindByLaunch E lid = query (\<lambda>s.
     all_results (scanReadiness E) (sort_key rcc_confirmed_at (filter (\<lambda>r. rcc_launch_id r = uuidToStr E lid) (sq_readiness s))))"

definition sql_readiness_FindByOperator :: "env \<Rightarrow> uuid \<Rightarrow> string \<Rightarrow> ReadinessConfirmation sql" where
  "sql_readiness_FindByOperator E lid operatorAddr = query (\<lambda>s.
     query_row (scanReadiness E) (rev (sort_key rcc_confirmed_at (filter (\<lambda>r.
       rcc_launch_id r = uuidToStr E lid \<and> rcc_operator_address r = operatorAddr) (sq_readiness s)))))"

definition sql_InvalidateByLaunch :: "env \<Rightarrow> time \<Rightarrow> uuid \<Rightarrow> unit sql" where
  "sql_InvalidateByLaunch E now lid s = (Inr (), s\<lparr>sq_readiness := map (\<lambda>r.
     if rcc_launch_id r = uuidToStr E lid \<and> rcc_invalidated_at r = None
     then r\<lparr>rcc_invalidated_at := Some (timeToStr E now)\<rparr> else r) (sq_readiness s)\<rparr>)"

section \<open>Rehearsals (rehearsal.go)\<close>

fun attempt_status_string :: "AttemptStatus \<Rightarrow> string" where
  "attempt_status_string AttemptOpen = ''OPEN''"
| "attempt_status_string AttemptRunning = ''RUNNING''"
| "attempt_status_string AttemptDone = ''DONE''"

definition att_args :: "env \<Rightarrow> RehearsalAttempt \<Rightarrow> att_cols" where
  "att_args E a = \<lparr>atc_id = uuidToStr E (ra_ID a), atc_launch_id = uuidToStr E (ra_LaunchID a),
     atc_input_set_hash = ra_InputSetHash a, atc_issued_at = timeToStr E (ra_IssuedAt a),
     atc_status = attempt_status_string (ra_Status a), atc_claimed_at = nullTimeToStr E (ra_ClaimedAt a),
     atc_lease_expires_at = nullTimeToStr E (ra_LeaseExpiresAt a), atc_runner_id = ra_RunnerID a\<rparr>"

definition scanAttempt :: "env \<Rightarrow> att_cols \<Rightarrow> RehearsalAttempt result" where
  "scanAttempt E c =
     and_then (strToUUID E (atc_id c)) (\<lambda>i.
     and_then (strToUUID E (atc_launch_id c)) (\<lambda>launchID.
     and_then (strToTime E (atc_issued_at c)) (\<lambda>issued.
     and_then (nullStrToTime E (atc_claimed_at c)) (\<lambda>claimed.
     and_then (nullStrToTime E (atc_lease_expires_at c)) (\<lambda>lease.
     and_then (constant_of attempt_status_string [AttemptOpen, AttemptRunning, AttemptDone] (atc_status c)) (\<lambda>st.
     Inr \<lparr>ra_ID = i, ra_LaunchID = launchID, ra_InputSetHash = atc_input_set_hash c, ra_IssuedAt = issued, ra_Status = st,
          ra_ClaimedAt = claimed, ra_LeaseExpiresAt = lease, ra_RunnerID = atc_runner_id c\<rparr>))))))"

definition sql_GetOrCreate :: "env \<Rightarrow> uuid \<Rightarrow> uuid \<Rightarrow> string \<Rightarrow> time \<Rightarrow> RehearsalAttempt sql" where
  \<comment> \<open>the insert, which a conflict on (launch_id, input_set_hash) leaves undone, and the row of that key\<close>
  "sql_GetOrCreate E aid lid hash issuedAt s =
     (let key = (\<lambda>r. atc_launch_id r = uuidToStr E lid \<and> atc_input_set_hash r = hash);
          row = \<lparr>atc_id = uuidToStr E aid, atc_launch_id = uuidToStr E lid, atc_input_set_hash = hash, atc_issued_at = timeToStr E issuedAt,
                 atc_status = ''OPEN'', atc_claimed_at = None, atc_lease_expires_at = None, atc_runner_id = []\<rparr> in
      if \<not> list_ex key (sq_attempts s) \<and> known atc_id (atc_id row) (sq_attempts s) then (Inl [], s)
      else let s' = (if list_ex key (sq_attempts s) then s else s\<lparr>sq_attempts := sq_attempts s @ [row]\<rparr>) in
        (case filter key (sq_attempts s') of [] \<Rightarrow> Inl [] | r # _ \<Rightarrow> scanAttempt E r, s'))"

definition sql_attempts_FindByID :: "env \<Rightarrow> uuid \<Rightarrow> RehearsalAttempt sql" where
  "sql_attempts_FindByID E i = query (\<lambda>s. query_row (scanAttempt E) (filter (\<lambda>r. atc_id r = uuidToStr E i) (sq_attempts s)))"

definition sql_attempts_Save :: "env \<Rightarrow> RehearsalAttempt \<Rightarrow> unit sql" where
  "sql_attempts_Save E a s = (Inr (), s\<lparr>sq_attempts := map (\<lambda>r. if atc_id r = uuidToStr E (ra_ID a)
     then r\<lparr>atc_status := attempt_status_string (ra_Status a), atc_claimed_at := nullTimeToStr E (ra_ClaimedAt a),
            atc_lease_expires_at := nullTimeToStr E (ra_LeaseExpiresAt a), atc_runner_id := ra_RunnerID a\<rparr> else r) (sq_attempts s)\<rparr>)"

definition steps_json :: "RehearsalResultStep list \<Rightarrow> string" where
  \<comment> \<open>\<open>json.Marshal\<close> of structs without tags\<close>
  "steps_json steps = json_print (JArr (map (\<lambda>st. JObj [(''Name'', JStr (rs_Name st)), (''Status'', JStr (rs_Status st)),
     (''Detail'', JStr (rs_Detail st))]) steps))"

definition unmarshal_steps :: "string \<Rightarrow> RehearsalResultStep list result" where
  \<comment> \<open>\<open>decode_step\<close> matches the names whatever their case, as encoding/json does\<close>
  "unmarshal_steps s = (case json_parse s of None \<Rightarrow> Inl [] | Some v \<Rightarrow> and_then (dec_array [] v) (all_results decode_step))"

definition res_args :: "env \<Rightarrow> RehearsalResult \<Rightarrow> res_cols" where
  "res_args E r = \<lparr>rec_id = uuidToStr E (rr_ID r), rec_attempt_id = uuidToStr E (rr_AttemptID r), rec_launch_id = uuidToStr E (rr_LaunchID r),
     rec_input_set_hash = rr_InputSetHash r, rec_outcome = outcome_string (rr_Outcome r), rec_failed_step = rr_FailedStep r,
     rec_summary = rr_Summary r, rec_steps = steps_json (rr_Steps r), rec_engine_version = rr_EngineVersion r,
     rec_binary_name = rr_BinaryName r, rec_binary_version = rr_BinaryVersion r, rec_binary_sha256 = rr_BinarySHA256 r,
     rec_validators = rr_Validators r, rec_blocks_advanced = rr_BlocksAdvanced r, rec_started_at = timeToStr E (rr_StartedAt r),
     rec_finished_at = timeToStr E (rr_FinishedAt r), rec_service_pubkey = rr_ServicePubKey r, rec_signature = rr_Signature r,
     rec_stale = boolToInt (rr_Stale r), rec_recorded_at = timeToStr E (rr_RecordedAt r)\<rparr>"

definition scanResult :: "env \<Rightarrow> res_cols \<Rightarrow> RehearsalResult result" where
  "scanResult E c =
     and_then (strToUUID E (rec_id c)) (\<lambda>i.
     and_then (strToUUID E (rec_attempt_id c)) (\<lambda>attemptID.
     and_then (strToUUID E (rec_launch_id c)) (\<lambda>launchID.
     and_then (unmarshal_steps (rec_steps c)) (\<lambda>steps.
     and_then (strToTime E (rec_started_at c)) (\<lambda>started.
     and_then (strToTime E (rec_finished_at c)) (\<lambda>finished.
     and_then (strToTime E (rec_recorded_at c)) (\<lambda>recorded.
     Inr \<lparr>rr_ID = i, rr_AttemptID = attemptID, rr_LaunchID = launchID, rr_InputSetHash = rec_input_set_hash c,
          rr_Outcome = parse_outcome (rec_outcome c), rr_FailedStep = rec_failed_step c, rr_Summary = rec_summary c, rr_Steps = steps,
          rr_EngineVersion = rec_engine_version c, rr_BinaryName = rec_binary_name c, rr_BinaryVersion = rec_binary_version c,
          rr_BinarySHA256 = rec_binary_sha256 c, rr_Validators = rec_validators c, rr_BlocksAdvanced = rec_blocks_advanced c,
          rr_StartedAt = started, rr_FinishedAt = finished, rr_ServicePubKey = rec_service_pubkey c, rr_Signature = rec_signature c,
          rr_Stale = (rec_stale c \<noteq> 0), rr_RecordedAt = recorded\<rparr>)))))))"

definition sql_results_Save :: "env \<Rightarrow> RehearsalResult \<Rightarrow> unit sql" where
  "sql_results_Save E r s =
     (let row = res_args E r in
      if list_ex (\<lambda>o'. rec_signature o' = rec_signature row) (sq_results s) then (Inr (), s)
      else if known rec_id (rec_id row) (sq_results s) then (Inl [], s)
      else (Inr (), s\<lparr>sq_results := sq_results s @ [row]\<rparr>))"

definition sql_results_FindByLaunch :: "env \<Rightarrow> uuid \<Rightarrow> RehearsalResult list sql" where
  "sql_results_FindByLaunch E lid = query (\<lambda>s.
     all_results (scanResult E) (rev (sort_key rec_recorded_at (filter (\<lambda>r. rec_launch_id r = uuidToStr E lid) (sq_results s)))))"

end
