(* ===== verification/SqlLaunchRows.thy ===== *)
theory SqlLaunchRows
  imports SqlRows
begin

text \<open>
  The rows of a launch (internal/infrastructure/storage/sqlite/launch.go): the launches table and the
  tables of committees, their members, the allowlist and the allocation files, with the statements of
  \<open>Save\<close> and the scans that put a launch together again.
\<close>

section \<open>Columns and scans\<close>

definition launch_args :: "env \<Rightarrow> Launch \<Rightarrow> launch_cols" where
  \<comment> \<open>the values bound by the insert and the update\<close>
  "launch_args E l = (let r = l_Record l in
     \<lparr>lac_id = uuidToStr E (l_ID l), lac_chain_id = r_ChainID r, lac_chain_name = r_ChainName r, lac_binary_name = r_BinaryName r,
      lac_binary_version = r_BinaryVersion r, lac_binary_sha256 = r_BinarySHA256 r, lac_repo_url = r_RepoURL r,
      lac_repo_commit = r_RepoCommit r, lac_genesis_time = nullTimeToStr E (r_GenesisTime r), lac_denom = r_Denom r,
      lac_min_self_delegation = r_MinSelfDelegation r, lac_max_commission_rate = cr_value (r_MaxCommissionRate r),
      lac_max_commission_change_rate = cr_value (r_MaxCommissionChangeRate r), lac_gentx_deadline = timeToStr E (r_GentxDeadline r),
      lac_min_validator_count = r_MinValidatorCount r, lac_launch_type = launch_type_string (l_LaunchType l),
      lac_status = status_string (l_Status l), lac_initial_genesis_sha256 = l_InitialGenesisSHA256 l,
      lac_final_genesis_sha256 = l_FinalGenesisSHA256 l, lac_monitor_rpc_url = l_MonitorRPCURL l,
      lac_created_at = timeToStr E (l_CreatedAt l), lac_updated_at = timeToStr E (l_UpdatedAt l), lac_version = l_Version l,
      lac_bech32_prefix = r_Bech32Prefix r, lac_total_supply = r_TotalSupply r,
      lac_rehearsal_service_pubkey = l_RehearsalServicePubKey l, lac_rehearsal_endpoint = l_RehearsalEndpoint l,
      lac_final_genesis_input_set_hash = l_FinalGenesisInputSetHash l\<rparr>)"

definition launch_statuses :: "Status list" where
  "launch_statuses = [StatusDraft, StatusPublished, StatusWindowOpen, StatusWindowClosed, StatusGenesisReady, StatusLaunched, StatusCancelled]"

definition scanLaunchCols :: "env \<Rightarrow> launch_cols \<Rightarrow> Launch result" where
  "scanLaunchCols E c =
     and_then (strToUUID E (lac_id c)) (\<lambda>i.
     and_then (nullStrToTime E (lac_genesis_time c)) (\<lambda>gt.
     and_then (strToTime E (lac_gentx_deadline c)) (\<lambda>gentxDL.
     and_then (strToTime E (lac_created_at c)) (\<lambda>ca.
     and_then (strToTime E (lac_updated_at c)) (\<lambda>ua.
     and_then (NewCommissionRate E (lac_max_commission_rate c)) (\<lambda>maxComm.
     and_then (NewCommissionRate E (lac_max_commission_change_rate c)) (\<lambda>maxCommChange.
     and_then (constant_of status_string launch_statuses (lac_status c)) (\<lambda>st.
     Inr \<lparr>l_ID = i,
       l_Record = \<lparr>r_ChainID = lac_chain_id c, r_ChainName = lac_chain_name c, r_Bech32Prefix = lac_bech32_prefix c,
         r_BinaryName = lac_binary_name c, r_BinaryVersion = lac_binary_version c, r_BinarySHA256 = lac_binary_sha256 c,
         r_RepoURL = lac_repo_url c, r_RepoCommit = lac_repo_commit c, r_GenesisTime = gt, r_Denom = lac_denom c,
         r_MinSelfDelegation = lac_min_self_delegation c, r_TotalSupply = lac_total_supply c, r_MaxCommissionRate = maxComm,
         r_MaxCommissionChangeRate = maxCommChange, r_GentxDeadline = gentxDL, r_MinValidatorCount = lac_min_validator_count c\<rparr>,
       l_LaunchType = parse_launch_type (lac_launch_type c), l_Allowlist = Allowlist_zero, l_Status = st, l_Committee = committee_zero,
       l_InitialGenesisSHA256 = lac_initial_genesis_sha256 c, l_FinalGenesisSHA256 = lac_final_genesis_sha256 c,
       l_FinalGenesisInputSetHash = lac_final_genesis_input_set_hash c, l_AllocationFiles = [],
       l_MonitorRPCURL = lac_monitor_rpc_url c, l_RehearsalServicePubKey = lac_rehearsal_service_pubkey c,
       l_RehearsalEndpoint = lac_rehearsal_endpoint c, l_CreatedAt = ca, l_UpdatedAt = ua, l_Version = lac_version c,
       l_approvedVotingPower = fmempty\<rparr>))))))))"

text \<open>Addresses are stored as \<open>show\<close> renders them: under the prefix of the launch when it is saved.\<close>

definition committee_args :: "env \<Rightarrow> (AccountID \<Rightarrow> string) \<Rightarrow> uuid \<Rightarrow> Committee \<Rightarrow> committee_cols" where
  "committee_args E show' lid c = \<lparr>coc_id = uuidToStr E (c_ID c), coc_launch_id = uuidToStr E lid, coc_threshold_m = c_ThresholdM c,
     coc_total_n = c_TotalN c, coc_lead_address = show' (c_LeadAddress c), coc_created_at = timeToStr E (c_CreatedAt c)\<rparr>"

definition member_args :: "env \<Rightarrow> (AccountID \<Rightarrow> string) \<Rightarrow> uuid \<Rightarrow> nat \<times> CommitteeMember \<Rightarrow> member_cols" where
  "member_args E show' cid im = (case im of (i, m) \<Rightarrow> \<lparr>cmc_committee_id = uuidToStr E cid, cmc_position = i,
     cmc_address = show' (cm_Address m), cmc_account = Hex (cm_Address m), cmc_moniker = cm_Moniker m\<rparr>)"

definition allow_args :: "env \<Rightarrow> (AccountID \<Rightarrow> string) \<Rightarrow> uuid \<Rightarrow> Member \<Rightarrow> allow_cols" where
  "allow_args E show' lid m = \<lparr>alc_launch_id = uuidToStr E lid, alc_address = show' (mem_Address m), alc_account = Hex (mem_Address m),
     alc_label = mem_Label m, alc_added_by = mem_AddedBy m,
     alc_added_at = (if \<not> time_IsZero (mem_AddedAt m) then timeToStr E (mem_AddedAt m) else [])\<rparr>"

definition afile_args :: "env \<Rightarrow> uuid \<Rightarrow> AllocationFile \<Rightarrow> afile_cols" where
  "afile_args E lid f = \<lparr>afc_launch_id = uuidToStr E lid, afc_alloc_type = af_Type f, afc_sha256 = af_SHA256 f,
     afc_status = allocation_status_string (af_Status f), afc_approved_by_proposal = map_option (uuidToStr E) (af_ApprovedByProposal f),
     afc_uploaded_at = timeToStr E (af_UploadedAt f)\<rparr>"

definition scan_committee :: "env \<Rightarrow> committee_cols \<Rightarrow> Committee result" where
  \<comment> \<open>into the zero committee of a scanned launch\<close>
  "scan_committee E c =
     and_then (strToUUID E (coc_id c)) (\<lambda>i.
     and_then (NewAccountID E (coc_lead_address c)) (\<lambda>lead.
     and_then (strToTime E (coc_created_at c)) (\<lambda>ca.
     Inr \<lparr>c_ID = i, c_Members = [], c_ThresholdM = coc_threshold_m c, c_TotalN = coc_total_n c, c_LeadAddress = lead, c_CreatedAt = ca\<rparr>)))"

definition scan_committee_member :: "env \<Rightarrow> member_cols \<Rightarrow> CommitteeMember result" where
  "scan_committee_member E c = and_then (NewAccountID E (cmc_address c)) (\<lambda>a. Inr \<lparr>cm_Address = a, cm_Moniker = cmc_moniker c\<rparr>)"

definition scan_allowlist_member :: "env \<Rightarrow> allow_cols \<Rightarrow> Member result" where
  "scan_allowlist_member E c =
     and_then (NewAccountID E (alc_address c)) (\<lambda>a.
     and_then (if alc_added_at c \<noteq> [] then strToTime E (alc_added_at c) else Inr 0) (\<lambda>t.
     Inr \<lparr>mem_Address = a, mem_Label = alc_label c, mem_AddedBy = alc_added_by c, mem_AddedAt = t\<rparr>))"

definition scan_allocation_file :: "env \<Rightarrow> afile_cols \<Rightarrow> AllocationFile result" where
  "scan_allocation_file E c =
     and_then (strToTime E (afc_uploaded_at c)) (\<lambda>ua.
     and_then (nullStrToUUID E (afc_approved_by_proposal c)) (\<lambda>approvedBy.
     and_then (constant_of allocation_status_string [AllocationPending, AllocationApproved, AllocationRejected] (afc_status c)) (\<lambda>st.
     Inr \<lparr>af_Type = afc_alloc_type c, af_SHA256 = afc_sha256 c, af_Status = st, af_ApprovedByProposal = approvedBy, af_UploadedAt = ua\<rparr>)))"

section \<open>Saving\<close>

definition exec :: "(sqldb \<Rightarrow> sqldb) \<Rightarrow> unit sql" where
  \<comment> \<open>a statement no constraint can refuse\<close>
  "exec f s = (Inr (), f s)"

definition insert_into :: "(sqldb \<Rightarrow> 'r list) \<Rightarrow> (('r list \<Rightarrow> 'r list) \<Rightarrow> sqldb \<Rightarrow> sqldb) \<Rightarrow> ('r \<Rightarrow> 'k) \<Rightarrow> (sqldb \<Rightarrow> bool) \<Rightarrow> 'r \<Rightarrow> unit sql" where
  \<comment> \<open>\<open>INSERT\<close>: refused if the primary key is taken or the row the foreign key names is missing\<close>
  "insert_into rows upd key fk row s =
     (if key row \<in> key ` set (rows s) \<or> \<not> fk s then (Inl [], s) else (Inr (), upd (\<lambda>rs. rs @ [row]) s))"

definition lac_set :: "launch_cols \<Rightarrow> launch_cols \<Rightarrow> launch_cols" where
  \<comment> \<open>\<open>UPDATE launches SET\<close>: every column but id and created_at, and version=version+1\<close>
  "lac_set old new = new\<lparr>lac_id := lac_id old, lac_created_at := lac_created_at old, lac_version := lac_version old + 1\<rparr>"

definition sql_launches_update :: "env \<Rightarrow> Launch \<Rightarrow> nat sql" where
  \<comment> \<open>\<open>WHERE id=? AND version=?\<close>, refused if another launch has the chain id; the number of rows affected\<close>
  "sql_launches_update E l s =
     (let row = launch_args E l;
          hit = (\<lambda>r. lac_id r = lac_id row \<and> lac_version r = lac_version row);
          n = length (filter hit (sq_launches s)) in
      if 0 < n \<and> list_ex (\<lambda>r. lac_id r \<noteq> lac_id row \<and> lac_chain_id r = lac_chain_id row) (sq_launches s) then (Inl [], s)
      else (Inr n, s\<lparr>sq_launches := map (\<lambda>r. if hit r then lac_set r row else r) (sq_launches s)\<rparr>))"

definition sql_launches_insert :: "env \<Rightarrow> Launch \<Rightarrow> unit sql" where
  "sql_launches_insert E l s =
     (let row = (launch_args E l)\<lparr>lac_version := 0\<rparr> in
      if list_ex (\<lambda>r. lac_id r = lac_id row \<or> lac_chain_id r = lac_chain_id row) (sq_launches s) then (Inl [], s)
      else (Inr (), s\<lparr>sq_launches := sq_launches s @ [row]\<rparr>))"

definition sql_saveCommittee :: "env \<Rightarrow> Launch \<Rightarrow> unit sql" where
  \<comment> \<open>\<open>INSERT OR REPLACE\<close> the committee, delete its members, insert them by position\<close>
  "sql_saveCommittee E l =
     (let c = l_Committee l; show' = (\<lambda>a. underPrefix E a (r_Bech32Prefix (l_Record l)));
          row = committee_args E show' (l_ID l) c in
      sql_then (\<lambda>s. if known lac_id (coc_launch_id row) (sq_launches s)
          then (Inr (), s\<lparr>sq_committees := filter (\<lambda>r. coc_id r \<noteq> coc_id row) (sq_committees s) @ [row]\<rparr>) else (Inl [], s)) (\<lambda>_.
      sql_then (exec (\<lambda>s. s\<lparr>sq_members := filter (\<lambda>r. cmc_committee_id r \<noteq> uuidToStr E (c_ID c)) (sq_members s)\<rparr>)) (\<lambda>_.
      sql_then (sql_each (insert_into sq_members sq_members_update (\<lambda>r. (cmc_committee_id r, cmc_position r))
          (\<lambda>s. known coc_id (uuidToStr E (c_ID c)) (sq_committees s)))
          (map (member_args E show' (c_ID c)) (enumerate 0 (c_Members c)))) (\<lambda>_. query (\<lambda>_. Inr ())))))"

definition sql_saveAllowlist :: "env \<Rightarrow> Launch \<Rightarrow> unit sql" where
  "sql_saveAllowlist E l =
     sql_then (exec (\<lambda>s. s\<lparr>sq_allowlist := filter (\<lambda>r. alc_launch_id r \<noteq> uuidToStr E (l_ID l)) (sq_allowlist s)\<rparr>)) (\<lambda>_.
     sql_then (sql_each (insert_into sq_allowlist sq_allowlist_update (\<lambda>r. (alc_launch_id r, alc_address r))
         (\<lambda>s. known lac_id (uuidToStr E (l_ID l)) (sq_launches s)))
         (map (allow_args E (\<lambda>a. underPrefix E a (r_Bech32Prefix (l_Record l))) (l_ID l)) (Members (l_Allowlist l)))) (\<lambda>_. query (\<lambda>_. Inr ())))"

definition sql_saveAllocationFiles :: "env \<Rightarrow> Launch \<Rightarrow> unit sql" where
  "sql_saveAllocationFiles E l =
     sql_then (exec (\<lambda>s. s\<lparr>sq_files := filter (\<lambda>r. afc_launch_id r \<noteq> uuidToStr E (l_ID l)) (sq_files s)\<rparr>)) (\<lambda>_.
     sql_then (sql_each (insert_into sq_files sq_files_update (\<lambda>r. (afc_launch_id r, afc_alloc_type r))
         (\<lambda>s. known lac_id (uuidToStr E (l_ID l)) (sq_launches s)))
         (map (afile_args E (l_ID l)) (l_AllocationFiles l))) (\<lambda>_. query (\<lambda>_. Inr ())))"

definition sql_launches_Save :: "env \<Rightarrow> Launch \<Rightarrow> unit sql" where
  "sql_launches_Save E l =
     sql_then (sql_launches_update E l) (\<lambda>n.
     sql_then (if n = 0
               then (\<lambda>s. case sql_launches_insert E l s of (Inl _, s') \<Rightarrow> (Inl [ErrConflict], s') | (Inr u, s') \<Rightarrow> (Inr u, s'))
               else query (\<lambda>_. Inr ())) (\<lambda>_.
     sql_then (sql_saveCommittee E l) (\<lambda>_.
     sql_then (sql_saveAllowlist E l) (\<lambda>_.
     sql_saveAllocationFiles E l))))"

section \<open>Loading\<close>

definition sql_loadCommittee :: "env \<Rightarrow> Launch \<Rightarrow> Launch sql" where
  \<comment> \<open>no row: the launch has no committee yet\<close>
  "sql_loadCommittee E l = query (\<lambda>s.
     case filter (\<lambda>r. coc_launch_id r = uuidToStr E (l_ID l)) (sq_committees s) of
       [] \<Rightarrow> Inr l
     | r # _ \<Rightarrow>
       and_then (scan_committee E r) (\<lambda>c.
       and_then (all_results (scan_committee_member E) (sort_key cmc_position
         (filter (\<lambda>m. cmc_committee_id m = coc_id r) (sq_members s)))) (\<lambda>ms.
       Inr (l\<lparr>l_Committee := c\<lparr>c_Members := c_Members (l_Committee l) @ ms\<rparr>\<rparr>))))"

definition sql_loadAllowlist :: "env \<Rightarrow> Launch \<Rightarrow> Launch sql" where
  "sql_loadAllowlist E l = query (\<lambda>s.
     and_then (all_results (scan_allowlist_member E) (filter (\<lambda>r. alc_launch_id r = uuidToStr E (l_ID l)) (sq_allowlist s))) (\<lambda>ms.
     Inr (l\<lparr>l_Allowlist := NewAllowlistFromMembers ms\<rparr>)))"

definition sql_loadAllocationFiles :: "env \<Rightarrow> Launch \<Rightarrow> Launch sql" where
  "sql_loadAllocationFiles E l = query (\<lambda>s.
     and_then (all_results (scan_allocation_file E) (sort_key afc_alloc_type
       (filter (\<lambda>r. afc_launch_id r = uuidToStr E (l_ID l)) (sq_files s)))) (\<lambda>fs.
     Inr (l\<lparr>l_AllocationFiles := l_AllocationFiles l @ fs\<rparr>)))"

definition sql_hydrate :: "env \<Rightarrow> Launch \<Rightarrow> Launch sql" where
  "sql_hydrate E l =
     sql_then (sql_loadCommittee E l) (\<lambda>l1.
     sql_then (sql_loadAllowlist E l1) (\<lambda>l2.
     sql_then (sql_loadVotingPower E l2) (sql_loadAllocationFiles E)))"

definition sql_launches_FindByID :: "env \<Rightarrow> uuid \<Rightarrow> Launch sql" where
  "sql_launches_FindByID E i =
     sql_then (query (\<lambda>s. query_row (scanLaunchCols E) (filter (\<lambda>r. lac_id r = uuidToStr E i) (sq_launches s)))) (sql_hydrate E)"

definition sql_launches_FindByChainID :: "env \<Rightarrow> string \<Rightarrow> Launch sql" where
  "sql_launches_FindByChainID E chainID =
     sql_then (query (\<lambda>s. query_row (scanLaunchCols E) (filter (\<lambda>r. lac_chain_id r = chainID) (sq_launches s)))) (sql_hydrate E)"

definition scan_launches :: "env \<Rightarrow> (sqldb \<Rightarrow> launch_cols list) \<Rightarrow> Launch list sql" where
  \<comment> \<open>the rows are scanned before the first of them is hydrated\<close>
  "scan_launches E rows = sql_then (query (\<lambda>s. all_results (scanLaunchCols E) (rows s))) (sql_each (sql_hydrate E))"

definition membershipFilter :: "string \<Rightarrow> sqldb \<Rightarrow> launch_cols \<Rightarrow> bool" where
  \<comment> \<open>the joins of \<open>membershipFilterFrom\<close>; \<open>DISTINCT\<close> keeps a launch once\<close>
  "membershipFilter account s r \<longleftrightarrow>
     list_ex (\<lambda>a. alc_launch_id a = lac_id r \<and> alc_account a = account) (sq_allowlist s) \<or>
     list_ex (\<lambda>c. coc_launch_id c = lac_id r \<and>
       list_ex (\<lambda>m. cmc_committee_id m = coc_id c \<and> cmc_account m = account) (sq_members s)) (sq_committees s)"

definition sql_launches_FindAll :: "env \<Rightarrow> string \<Rightarrow> int \<Rightarrow> int \<Rightarrow> (Launch list \<times> int) sql" where
  "sql_launches_FindAll E operatorAddr page perPage =
     (case NewAccountID E operatorAddr of
        Inl _ \<Rightarrow> query (\<lambda>_. Inr ([], 0))
      | Inr a \<Rightarrow>
        sql_then (scan_launches E (\<lambda>s. page_of page perPage (rev (sort_key lac_created_at
            (filter (membershipFilter (Hex a) s) (sq_launches s)))))) (\<lambda>ls.
        query (\<lambda>s. Inr (ls, int (length (filter (membershipFilter (Hex a) s) (sq_launches s)))))))"

definition sql_launches_FindByStatus :: "env \<Rightarrow> Status \<Rightarrow> Launch list sql" where
  "sql_launches_FindByStatus E st =
     scan_launches E (\<lambda>s. sort_key lac_created_at (filter (\<lambda>r. lac_status r = status_string st) (sq_launches s)))"

end
