(* ===== verification/SqlRefinement.thy ===== *)
theory SqlRefinement
  imports SqlLaunchRows GovernanceProperties
begin

text \<open>
  The tables of text rows implement the typed tables of the model: every repository operation, run on
  the rows, returns what the typed operation returns and keeps the correspondence.
\<close>

section \<open>Row codecs\<close>

text \<open>What a repository needs of a table: scanning the columns of a storable value gives the value back.\<close>

locale row_codec =
  fixes enc :: "'a \<Rightarrow> 'r" and dec :: "'r \<Rightarrow> 'a result" and ok :: "'a \<Rightarrow> bool"
  assumes dec_enc: "ok x \<Longrightarrow> dec (enc x) = Inr x"
begin

lemma scan_all: "list_all ok xs \<Longrightarrow> all_results dec (map enc xs) = Inr xs"
  by (induction xs) (auto simp: dec_enc and_then_def)

lemma filtered:
  assumes "\<And>x. x \<in> set xs \<Longrightarrow> P (enc x) = Q x"
  shows "filter P (map enc xs) = map enc (filter Q xs)"
  using assms by (induction xs) auto

lemma sorted_rows:
  assumes "\<And>x. k (enc x) = k' x"
  shows "sort_key k (map enc xs) = map enc (sort_key k' xs)"
proof -
  have "insort_key k (enc x) (map enc ys) = map enc (insort_key k' x ys)" for x ys
    by (induction ys) (simp_all add: assms)
  then show ?thesis by (induction xs) (simp_all add: sort_key_def)
qed

lemma paged: "page_of a b (map enc xs) = map enc (page_of a b xs)"
  by (simp add: page_of_def Let_def drop_map take_map)

lemma list_all_page: "list_all ok xs \<Longrightarrow> list_all ok (page_of a b xs)"
  by (auto simp: page_of_def Let_def list_all_iff dest!: in_set_takeD in_set_dropD)

lemma list_all_select: "list_all ok xs \<Longrightarrow> list_all ok (filter Q xs) \<and> list_all ok (sort_key k' (filter Q xs)) \<and>
    list_all ok (rev (sort_key k' (filter Q xs)))"
  by (auto simp: list_all_iff)

lemma first_row:
  assumes "list_all ok xs"
  shows "query_row dec (map enc xs) = row_result (find (\<lambda>_. True) xs)"
  using assms by (cases xs) (simp_all add: query_row_def row_result_def dec_enc)

lemma keyed_row:
  assumes "list_all ok xs" "\<And>x. P (enc x) = Q x"
  shows "query_row dec (filter P (map enc xs)) = row_result (find Q xs)"
  using assms by (induction xs) (auto simp: query_row_def row_result_def dec_enc)

lemma upserted:
  assumes "\<And>x. (key (enc x) = key (enc r)) = (key' x = key' r)" "\<And>x. set' (enc x) (enc r) = enc (mrg x r)"
  shows "upsert key set' (enc r) (map enc xs) = map enc (upsert key' mrg r xs)"
  using assms by (induction xs) auto

end

section \<open>Storable values\<close>

text \<open>
  Identifiers survive printing and parsing.  A value can be stored if its parts come from their own
  constructors, its times are within the years the layout can print, and its enumerations are not
  spelled like another constant.
\<close>

definition uuid_laws :: "env \<Rightarrow> bool" where
  "uuid_laws E \<longleftrightarrow> (\<forall>i. uuid_Parse E (uuid_String E i) = Some i)"

definition time_ok :: "env \<Rightarrow> time \<Rightarrow> bool" where
  "time_ok E t \<longleftrightarrow> time_ParseRFC3339 E (timeToStr E t) = Some t"

definition account_ok :: "env \<Rightarrow> AccountID \<Rightarrow> bool" where
  "account_ok E a \<longleftrightarrow> NewAccountID E (AccountID_String a) = Inr a"

definition jr_storable :: "env \<Rightarrow> JoinRequest \<Rightarrow> bool" where
  "jr_storable E jr \<longleftrightarrow> account_ok E (jr_OperatorAddress jr) \<and> NewPeerAddress (pa_value (jr_PeerAddress jr)) = Inr (jr_PeerAddress jr) \<and>
     (jr_RPCEndpoint jr = \<lparr>rpc_value = []\<rparr> \<or> NewRPCEndpoint E (rpc_value (jr_RPCEndpoint jr)) = Inr (jr_RPCEndpoint jr)) \<and>
     time_ok E (jr_SubmittedAt jr) \<and> NewSignature (sig_value (jr_OperatorSignature jr)) = Inr (jr_OperatorSignature jr) \<and>
     (jr_SubmitterAddress jr = \<lparr>acct = [], orig = []\<rparr> \<or> account_ok E (jr_SubmitterAddress jr))"

definition sig_storable :: "env \<Rightarrow> SignatureEntry \<Rightarrow> bool" where
  "sig_storable E e \<longleftrightarrow> account_ok E (se_MemberAddress e) \<and> time_ok E (se_Timestamp e) \<and>
     NewSignature (sig_value (se_Signature e)) = Inr (se_Signature e) \<and> parse_decision (decision_string (se_Decision e)) = se_Decision e"

definition prop_storable :: "env \<Rightarrow> Proposal \<Rightarrow> bool" where
  "prop_storable E p \<longleftrightarrow> account_ok E (p_ProposedBy p) \<and> time_ok E (p_ProposedAt p) \<and> time_ok E (p_TTLExpires p) \<and>
     pred_option (time_ok E) (p_ExecutedAt p) \<and> parse_action (action_string (p_ActionType p)) = p_ActionType p \<and>
     list_all (sig_storable E) (p_Signatures p)"

definition rc_storable :: "env \<Rightarrow> ReadinessConfirmation \<Rightarrow> bool" where
  "rc_storable E rc \<longleftrightarrow> account_ok E (rc_OperatorAddress rc) \<and> time_ok E (rc_ConfirmedAt rc) \<and>
     NewSignature (sig_value (rc_OperatorSignature rc)) = Inr (rc_OperatorSignature rc) \<and> pred_option (time_ok E) (rc_InvalidatedAt rc)"

definition att_storable :: "env \<Rightarrow> RehearsalAttempt \<Rightarrow> bool" where
  "att_storable E a \<longleftrightarrow> time_ok E (ra_IssuedAt a) \<and> pred_option (time_ok E) (ra_ClaimedAt a) \<and> pred_option (time_ok E) (ra_LeaseExpiresAt a)"

definition res_storable :: "env \<Rightarrow> RehearsalResult \<Rightarrow> bool" where
  "res_storable E r \<longleftrightarrow> time_ok E (rr_StartedAt r) \<and> time_ok E (rr_FinishedAt r) \<and> time_ok E (rr_RecordedAt r) \<and>
     parse_outcome (outcome_string (rr_Outcome r)) = rr_Outcome r"

definition jr_cols_of :: "env \<Rightarrow> JoinRequest \<Rightarrow> jr_cols" where
  \<comment> \<open>the columns of a stored request, whose submitter is already rendered\<close>
  "jr_cols_of E jr = (jr_args E [] jr)\<lparr>jrc_submitter_address := AccountID_String (jr_SubmitterAddress jr)\<rparr>"

definition proposal_row :: "Proposal \<Rightarrow> Proposal" where
  \<comment> \<open>a proposal as its own table has it\<close>
  "proposal_row p = p\<lparr>p_Signatures := [], p_events := []\<rparr>"

lemma account_ok_String:
  assumes "account_ok E a"
  shows "AccountID_String a \<noteq> []" "orig a = AccountID_String a"
proof -
  have "NewAccountID E t = Inr b \<Longrightarrow> orig b \<noteq> []" for t b
    by (auto simp: NewAccountID_def Let_def split: if_splits option.splits)
  then have "orig a \<noteq> []" using assms unfolding account_ok_def by blast
  then show "AccountID_String a \<noteq> []" "orig a = AccountID_String a" by (simp_all add: AccountID_String_def)
qed

text \<open>What the constructors return can be stored.\<close>

lemma dropWhile_rev_dropWhile: "dropWhile P (rev (dropWhile P (rev (dropWhile P s)))) = rev (dropWhile P (rev (dropWhile P s)))"
proof (cases "rev (dropWhile P (rev (dropWhile P s)))")
  case (Cons c t)
  have "\<exists>u. dropWhile P s = rev (dropWhile P (rev (dropWhile P s))) @ u"
    by (metis rev_append rev_rev_ident takeWhile_dropWhile_id)
  then obtain u where "dropWhile P s = c # t @ u" using Cons by auto
  then have "\<not> P c" by (metis dropWhile_eq_Cons_conv)
  then show ?thesis using Cons by simp
next
  case Nil
  show ?thesis unfolding Nil by simp
qed

lemma TrimSpace_idem: "TrimSpace (TrimSpace s) = TrimSpace s"
  unfolding TrimSpace_def by (simp add: dropWhile_rev_dropWhile)

lemma constructed_ok:
  "NewAccountID E t = Inr a \<Longrightarrow> account_ok E a"
  "NewPeerAddress t = Inr pa \<Longrightarrow> NewPeerAddress (pa_value pa) = Inr pa"
  "NewRPCEndpoint E t = Inr rpc \<Longrightarrow> NewRPCEndpoint E (rpc_value rpc) = Inr rpc"
  "NewSignature t = Inr sig \<Longrightarrow> NewSignature (sig_value sig) = Inr sig"
proof -
  assume "NewAccountID E t = Inr a"
  then have "orig a = TrimSpace t" "TrimSpace t \<noteq> []" "NewAccountID E (TrimSpace t) = Inr a"
    by (auto simp: NewAccountID_def Let_def TrimSpace_idem split: if_splits option.splits)
  then show "account_ok E a" by (simp add: account_ok_def AccountID_String_def)
next
  assume "NewPeerAddress t = Inr pa"
  moreover from this have "pa_value pa = t" by (auto simp: NewPeerAddress_def split: if_splits option.splits)
  ultimately show "NewPeerAddress (pa_value pa) = Inr pa" by (simp only:)
next
  assume "NewRPCEndpoint E t = Inr rpc"
  moreover have "(if a then Inl e else case u of None \<Rightarrow> Inl e' | Some (x, y) \<Rightarrow> if p x then Inl e1 else if q y then Inl e2 else Inr z) = Inr r \<Longrightarrow> z = r"
    for a e u e' p e1 q e2 and z r :: RPCEndpoint by (auto split: if_splits option.splits)
  from this [OF \<open>NewRPCEndpoint E t = Inr rpc\<close> [unfolded NewRPCEndpoint_def]] have "rpc_value rpc = t" by (metis RPCEndpoint.select_convs(1))
  ultimately show "NewRPCEndpoint E (rpc_value rpc) = Inr rpc" by (simp only:)
next
  assume "NewSignature t = Inr sig"
  moreover from this have "sig_value sig = t" by (auto simp: NewSignature_def split: if_splits option.splits)
  ultimately show "NewSignature (sig_value sig) = Inr sig" by (simp only:)
qed

lemma strToUUID_uuidToStr: "uuid_laws E \<Longrightarrow> strToUUID E (uuidToStr E i) = Inr i"
  by (simp add: uuid_laws_def strToUUID_def uuidToStr_def)

lemma uuidToStr_inject: "uuid_laws E \<Longrightarrow> uuidToStr E i = uuidToStr E j \<longleftrightarrow> i = j"
  unfolding uuid_laws_def uuidToStr_def by (metis option.inject)

lemma strToTime_timeToStr: "time_ok E t \<Longrightarrow> strToTime E (timeToStr E t) = Inr t"
  by (simp add: time_ok_def strToTime_def)

lemma nullStrToTime_nullTimeToStr: "pred_option (time_ok E) t \<Longrightarrow> nullStrToTime E (nullTimeToStr E t) = Inr t"
  by (cases t) (simp_all add: nullStrToTime_def nullTimeToStr_def strToTime_timeToStr and_then_def)

lemma nullStrToUUID_map: "uuid_laws E \<Longrightarrow> nullStrToUUID E (map_option (uuidToStr E) i) = Inr i"
  by (cases i) (simp_all add: nullStrToUUID_def strToUUID_uuidToStr and_then_def)

lemma statuses_known:
  "constant_of jr_status_string jr_statuses (jr_status_string s) = Inr s"
  "constant_of proposal_status_string p_statuses (proposal_status_string p) = Inr p"
  "constant_of attempt_status_string [AttemptOpen, AttemptRunning, AttemptDone] (attempt_status_string a) = Inr a"
  subgoal by (cases s) (simp_all add: constant_of_def jr_statuses_def)
  subgoal by (cases p) (simp_all add: constant_of_def p_statuses_def)
  subgoal by (cases a) (simp_all add: constant_of_def)
  done

lemma unmarshal_steps_json: "unmarshal_steps (steps_json steps) = Inr steps"
proof -
  let ?o = "\<lambda>st. JObj [(''Name'', JStr (rs_Name st)), (''Status'', JStr (rs_Status st)), (''Detail'', JStr (rs_Detail st))]"
  have "ToLower ''Name'' = ToLower ''name''" "ToLower ''Status'' = ToLower ''status''" "ToLower ''Detail'' = ToLower ''detail''"
    "distinct [ToLower ''name'', ToLower ''status'', ToLower ''detail'']" by code_simp+
  then have "decode_step (?o st) = Inr st" for st
    by (auto simp: decode_step_def json_object_def and_then_def string_field_def field_values_def dec_string_def)
  then have "all_results decode_step (map ?o steps) = Inr steps" by (induction steps) (simp_all add: and_then_def)
  moreover have "json_parse (steps_json steps) = Some (JArr (map ?o steps))"
    unfolding steps_json_def by (rule json_parse_print) (simp add: list_all_iff)
  ultimately show ?thesis by (simp add: unmarshal_steps_def dec_array_def and_then_def)
qed

lemmas columns_read = strToUUID_uuidToStr strToTime_timeToStr nullStrToTime_nullTimeToStr nullStrToUUID_map statuses_known unmarshal_steps_json

lemma endpoint_read:
  assumes "a = \<lparr>rpc_value = []\<rparr> \<or> NewRPCEndpoint E (rpc_value a) = Inr a"
  shows "(if rpc_value a \<noteq> [] then NewRPCEndpoint E (rpc_value a) else Inr \<lparr>rpc_value = []\<rparr>) = Inr a"
  using assms by (cases a) (auto simp: NewRPCEndpoint_def [of _ "[]"])

lemma submitter_read:
  assumes "a = \<lparr>acct = [], orig = []\<rparr> \<or> account_ok E a"
  shows "(if AccountID_String a \<noteq> [] then NewAccountID E (AccountID_String a) else Inr \<lparr>acct = [], orig = []\<rparr>) = Inr a"
  using assms account_ok_String(1) [of E a] by (auto simp: account_ok_def) (simp add: AccountID_String_def)

interpretation join_requests: row_codec "jr_cols_of E" "scanJoinRequest E" "\<lambda>jr. uuid_laws E \<and> jr_storable E jr" for E
proof
  fix jr assume ok: "uuid_laws E \<and> jr_storable E jr"
  then have r: "(if rpc_value (jr_RPCEndpoint jr) \<noteq> [] then NewRPCEndpoint E (rpc_value (jr_RPCEndpoint jr)) else Inr \<lparr>rpc_value = []\<rparr>) =
      Inr (jr_RPCEndpoint jr)" by (intro endpoint_read) (simp only: jr_storable_def)
  from ok have s: "(if AccountID_String (jr_SubmitterAddress jr) \<noteq> [] then NewAccountID E (AccountID_String (jr_SubmitterAddress jr))
      else Inr \<lparr>acct = [], orig = []\<rparr>) = Inr (jr_SubmitterAddress jr)" by (intro submitter_read) (simp only: jr_storable_def)
  show "scanJoinRequest E (jr_cols_of E jr) = Inr jr"
    unfolding scanJoinRequest_def jr_cols_of_def jr_args_def jr_cols.simps r s
    using ok by (simp add: jr_storable_def account_ok_def columns_read and_then_def)
qed

interpretation proposals: row_codec "\<lambda>p. prop_args E p" "scanProposal E"
    "\<lambda>p. uuid_laws E \<and> prop_storable E p \<and> p_Signatures p = [] \<and> p_events p = []" for E
proof
  fix p assume "uuid_laws E \<and> prop_storable E p \<and> p_Signatures p = [] \<and> p_events p = []"
  then show "scanProposal E (prop_args E p) = Inr p"
    by (cases p) (simp add: scanProposal_def prop_args_def prop_storable_def account_ok_def columns_read and_then_def)
qed

interpretation signatures: row_codec "sig_args E pid" "scan_signature E" "sig_storable E" for E pid
  by unfold_locales (simp add: scan_signature_def sig_args_def sig_storable_def account_ok_def columns_read and_then_def)

interpretation readiness: row_codec "rc_args E" "scanReadiness E" "\<lambda>rc. uuid_laws E \<and> rc_storable E rc" for E
  by unfold_locales (simp add: scanReadiness_def rc_args_def rc_storable_def account_ok_def columns_read and_then_def)

interpretation attempts: row_codec "att_args E" "scanAttempt E" "\<lambda>a. uuid_laws E \<and> att_storable E a" for E
  by unfold_locales (simp add: scanAttempt_def att_args_def att_storable_def columns_read and_then_def)

interpretation results: row_codec "res_args E" "scanResult E" "\<lambda>r. uuid_laws E \<and> res_storable E r" for E
  by unfold_locales (simp add: scanResult_def res_args_def res_storable_def columns_read and_then_def boolToInt_def)

section \<open>Correspondence\<close>

definition proposals_rep :: "env \<Rightarrow> prop_cols list \<Rightarrow> sig_cols list \<Rightarrow> Proposal list \<Rightarrow> bool" where
  \<comment> \<open>the signatures of a proposal are the rows of their table that refer to it, and no row refers to nothing\<close>
  "proposals_rep E rows sigs ps \<longleftrightarrow> rows = map (prop_args E) ps \<and> list_all (\<lambda>p. prop_storable E p \<and> p_events p = []) ps \<and>
     distinct (map p_ID ps) \<and>
     (\<forall>p \<in> set ps. filter (\<lambda>r. sgc_proposal_id r = uuidToStr E (p_ID p)) sigs = map (sig_args E (p_ID p)) (p_Signatures p)) \<and>
     (\<forall>r \<in> set sigs. \<exists>p \<in> set ps. sgc_proposal_id r = uuidToStr E (p_ID p))"

definition columns_storable :: "env \<Rightarrow> Launch \<Rightarrow> bool" where
  "columns_storable E l \<longleftrightarrow> pred_option (time_ok E) (r_GenesisTime (l_Record l)) \<and> time_ok E (r_GentxDeadline (l_Record l)) \<and>
     time_ok E (l_CreatedAt l) \<and> time_ok E (l_UpdatedAt l) \<and> parse_launch_type (launch_type_string (l_LaunchType l)) = l_LaunchType l \<and>
     NewCommissionRate E (cr_value (r_MaxCommissionRate (l_Record l))) = Inr (r_MaxCommissionRate (l_Record l)) \<and>
     NewCommissionRate E (cr_value (r_MaxCommissionChangeRate (l_Record l))) = Inr (r_MaxCommissionChangeRate (l_Record l))"

definition committee_storable :: "env \<Rightarrow> Committee \<Rightarrow> bool" where
  "committee_storable E c \<longleftrightarrow> account_ok E (c_LeadAddress c) \<and> time_ok E (c_CreatedAt c) \<and> list_all (\<lambda>m. account_ok E (cm_Address m)) (c_Members c)"

definition member_storable :: "env \<Rightarrow> Member \<Rightarrow> bool" where
  "member_storable E m \<longleftrightarrow> account_ok E (mem_Address m) \<and>
     (time_IsZero (mem_AddedAt m) \<or> time_ok E (mem_AddedAt m) \<and> timeToStr E (mem_AddedAt m) \<noteq> [])"

definition file_storable :: "env \<Rightarrow> AllocationFile \<Rightarrow> bool" where
  "file_storable E f \<longleftrightarrow> uuid_laws E \<and> time_ok E (af_UploadedAt f)"

definition launches_rep :: "env \<Rightarrow> launch_cols list \<Rightarrow> allow_cols list \<Rightarrow> afile_cols list \<Rightarrow> Launch list \<Rightarrow> bool" where
  \<comment> \<open>the allowlist and the files of a launch are the rows of their tables that refer to it\<close>
  "launches_rep E rows allow files ls \<longleftrightarrow> rows = map (launch_args E) ls \<and> distinct (map l_ID ls) \<and>
     (\<forall>l \<in> set ls. columns_storable E l \<and> launch_columns l = l \<and> list_all (member_storable E) (Members (l_Allowlist l)) \<and>
        list_all (file_storable E) (l_AllocationFiles l) \<and>
        filter (\<lambda>r. alc_launch_id r = uuidToStr E (l_ID l)) allow = map (allow_args E AccountID_String (l_ID l)) (Members (l_Allowlist l)) \<and>
        filter (\<lambda>r. afc_launch_id r = uuidToStr E (l_ID l)) files = map (afile_args E (l_ID l)) (l_AllocationFiles l)) \<and>
     alc_launch_id ` set allow \<union> afc_launch_id ` set files \<subseteq> uuidToStr E ` l_ID ` set ls"

definition committees_rep :: "env \<Rightarrow> committee_cols list \<Rightarrow> member_cols list \<Rightarrow> (uuid \<times> Committee) list \<Rightarrow> bool" where
  "committees_rep E rows members cs \<longleftrightarrow> rows = map (\<lambda>(lid, c). committee_args E AccountID_String lid c) cs \<and> distinct (map (c_ID \<circ> snd) cs) \<and>
     (\<forall>(lid, c) \<in> set cs. committee_storable E c \<and> filter (\<lambda>r. cmc_committee_id r = uuidToStr E (c_ID c)) members =
        map (member_args E AccountID_String (c_ID c)) (enumerate 0 (c_Members c))) \<and>
     cmc_committee_id ` set members \<subseteq> uuidToStr E ` (c_ID \<circ> snd) ` set cs"

definition represents :: "env \<Rightarrow> sqldb \<Rightarrow> db \<Rightarrow> bool" where
  "represents E s d \<longleftrightarrow>
     launches_rep E (sq_launches s) (sq_allowlist s) (sq_files s) (db_launches d) \<and>
     committees_rep E (sq_committees s) (sq_members s) (db_committees d) \<and>
     sq_join_requests s = map (jr_cols_of E) (db_joinrequests d) \<and> list_all (\<lambda>jr. uuid_laws E \<and> jr_storable E jr) (db_joinrequests d) \<and>
     proposals_rep E (sq_proposals s) (sq_signatures s) (db_proposals d) \<and>
     sq_readiness s = map (rc_args E) (db_readiness d) \<and> list_all (\<lambda>rc. uuid_laws E \<and> rc_storable E rc) (db_readiness d) \<and>
     sq_attempts s = map (att_args E) (db_attempts d) \<and> list_all (\<lambda>a. uuid_laws E \<and> att_storable E a) (db_attempts d) \<and>
     sq_results s = map (res_args E) (db_results d) \<and> list_all (\<lambda>r. uuid_laws E \<and> res_storable E r) (db_results d)"

definition refines :: "env \<Rightarrow> (db \<Rightarrow> bool) \<Rightarrow> 'a sql \<Rightarrow> 'a io \<Rightarrow> bool" where
  \<comment> \<open>as long as no statement fails, the rows answer as the typed tables do and go on representing them\<close>
  "refines E pre c m \<longleftrightarrow> (\<forall>s w. represents E s (w_db w) \<and> w_faults w = [] \<and> pre (w_db w) \<longrightarrow>
     (\<exists>d'. m w = (fst (c s), w\<lparr>w_db := d'\<rparr>) \<and> represents E (snd (c s)) d'))"

lemma execs_no_faults:
  assumes "w_faults w = []"
  shows "execs f w = (case f (w_db w) of Inl e \<Rightarrow> (Inl e, w) | Inr (x, d) \<Rightarrow> (Inr x, w\<lparr>w_db := d\<rparr>))"
proof -
  have e: "w\<lparr>w_faults := []\<rparr> = w" using assms by simp
  show ?thesis unfolding execs_def assms list.case Let_def list.sel e ..
qed

lemma no_faults:
  assumes "w_faults w = []"
  shows "reads q w = (q (w_db w), w)" "stmt g w = (Inr (), w\<lparr>w_db := g (w_db w)\<rparr>)"
  using assms by (simp_all add: reads_def stmt_def execs_no_faults)

lemma each_no_faults: "w_faults w = [] \<Longrightarrow> each (\<lambda>x. stmt (f x)) xs w = (Inr (), w\<lparr>w_db := fold f xs (w_db w)\<rparr>)"
proof (induction xs arbitrary: w)
  case (Cons x xs)
  then show ?case by (simp add: bnd_def no_faults)
qed (simp add: ret_def)

lemma refines_query:
  assumes "\<And>s d. represents E s d \<Longrightarrow> q s = r d"
  shows "refines E pre (query q) (reads r)"
  unfolding refines_def query_def
proof (intro allI impI)
  fix s and w :: world assume "represents E s (w_db w) \<and> w_faults w = [] \<and> pre (w_db w)"
  then show "\<exists>d'. reads r w = (fst (q s, s), w\<lparr>w_db := d'\<rparr>) \<and> represents E (snd (q s, s)) d'"
    using assms [of s "w_db w"] by (intro exI [of _ "w_db w"]) (simp add: no_faults)
qed

lemma representsD:
  assumes "represents E s d"
  shows "sq_launches s = map (launch_args E) (db_launches d)"
    "sq_join_requests s = map (jr_cols_of E) (db_joinrequests d)" "list_all (\<lambda>jr. uuid_laws E \<and> jr_storable E jr) (db_joinrequests d)"
    "proposals_rep E (sq_proposals s) (sq_signatures s) (db_proposals d)"
    "sq_readiness s = map (rc_args E) (db_readiness d)" "list_all (\<lambda>rc. uuid_laws E \<and> rc_storable E rc) (db_readiness d)"
    "sq_attempts s = map (att_args E) (db_attempts d)" "list_all (\<lambda>a. uuid_laws E \<and> att_storable E a) (db_attempts d)"
    "sq_results s = map (res_args E) (db_results d)" "list_all (\<lambda>r. uuid_laws E \<and> res_storable E r) (db_results d)"
  using assms by (simp_all add: represents_def launches_rep_def)

lemma launch_cols_simps [simp]:
  "lac_id (launch_args E l) = uuidToStr E (l_ID l)" "lac_version (launch_args E l) = l_Version l" "lac_chain_id (launch_args E l) = r_ChainID (l_Record l)"
  "lac_created_at (launch_args E l) = timeToStr E (l_CreatedAt l)" "lac_status (launch_args E l) = status_string (l_Status l)"
  "lac_bech32_prefix (launch_args E l) = r_Bech32Prefix (l_Record l)"
  by (simp_all add: launch_args_def Let_def)

section \<open>Join requests\<close>

lemma jr_cols_simps [simp]:
  "jrc_id (jr_cols_of E jr) = uuidToStr E (jr_ID jr)" "jrc_launch_id (jr_cols_of E jr) = uuidToStr E (jr_LaunchID jr)"
  "jrc_operator_address (jr_cols_of E jr) = AccountID_String (jr_OperatorAddress jr)"
  "jrc_consensus_pubkey (jr_cols_of E jr) = jr_ConsensusPubKey jr" "jrc_submitted_at (jr_cols_of E jr) = timeToStr E (jr_SubmittedAt jr)"
  "jrc_status (jr_cols_of E jr) = jr_status_string (jr_Status jr)" "jrc_self_delegation_amount (jr_cols_of E jr) = SelfDelegationAmount jr"
  "jrc_submitter_address (jr_cols_of E jr) = AccountID_String (jr_SubmitterAddress jr)"
  by (simp_all add: jr_cols_of_def jr_args_def)

lemma jr_status_string_inject [simp]: "jr_status_string a = jr_status_string b \<longleftrightarrow> a = b"
  by (cases a; cases b) simp_all

lemma jrc_active_cols [simp]: "jrc_active (jr_cols_of E jr) = jr_active (jr_Status jr)"
  by (cases "jr_Status jr") (simp_all add: jrc_active_def)

lemma approved_text: "jr_status_string st = ''APPROVED'' \<longleftrightarrow> st = JRApproved"
  by (cases st) simp_all

lemma launchPrefix_rows: "uuid_laws E \<Longrightarrow> represents E s d \<Longrightarrow> sql_launchPrefix E s lid = launchPrefix d lid"
proof -
  assume E: "uuid_laws E" and R: "represents E s d"
  have "row_of lac_id (uuidToStr E lid) (map (launch_args E) ls) = map_option (launch_args E) (find (\<lambda>r. l_ID r = lid) ls)" for ls
    by (induction ls) (simp_all add: row_of_def uuidToStr_inject [OF E])
  from this [of "db_launches d"] show ?thesis unfolding sql_launchPrefix_def launchPrefix_def representsD(1) [OF R]
    by (cases "find (\<lambda>r. l_ID r = lid) (db_launches d)") simp_all
qed

text \<open>A query over the requests of a launch selects, orders and scans the same requests.\<close>

lemma jr_selected:
  assumes "represents E s d" "\<And>jr. P (jr_cols_of E jr) = Q jr"
  shows "filter P (sq_join_requests s) = map (jr_cols_of E) (filter Q (db_joinrequests d))"
    and "all_results (scanJoinRequest E) (sort_key jrc_submitted_at (filter P (sq_join_requests s))) =
      Inr (by_submitted E (filter Q (db_joinrequests d)))"
    and "all_results (scanJoinRequest E) (page_of a b (rev (sort_key jrc_submitted_at (filter P (sq_join_requests s))))) =
      Inr (page_of a b (rev (by_submitted E (filter Q (db_joinrequests d)))))"
    and "query_row (scanJoinRequest E) (rev (sort_key jrc_submitted_at (filter P (sq_join_requests s)))) =
      row_result (find (\<lambda>_. True) (rev (by_submitted E (filter Q (db_joinrequests d)))))"
proof -
  show f: "filter P (sq_join_requests s) = map (jr_cols_of E) (filter Q (db_joinrequests d))"
    using assms(2) by (simp add: representsD(2) [OF assms(1)] join_requests.filtered)
  have o: "sort_key jrc_submitted_at (filter P (sq_join_requests s)) = map (jr_cols_of E) (by_submitted E (filter Q (db_joinrequests d)))"
    unfolding f by_submitted_def by (rule join_requests.sorted_rows) simp
  note ok = join_requests.list_all_select [OF representsD(3) [OF assms(1)], where Q = Q]
  show "all_results (scanJoinRequest E) (sort_key jrc_submitted_at (filter P (sq_join_requests s))) =
      Inr (by_submitted E (filter Q (db_joinrequests d)))"
    unfolding o by_submitted_def using ok by (intro join_requests.scan_all) blast
  show "all_results (scanJoinRequest E) (page_of a b (rev (sort_key jrc_submitted_at (filter P (sq_join_requests s))))) =
      Inr (page_of a b (rev (by_submitted E (filter Q (db_joinrequests d)))))"
    unfolding o rev_map join_requests.paged by_submitted_def using ok
    by (intro join_requests.scan_all join_requests.list_all_page) blast
  show "query_row (scanJoinRequest E) (rev (sort_key jrc_submitted_at (filter P (sq_join_requests s)))) =
      row_result (find (\<lambda>_. True) (rev (by_submitted E (filter Q (db_joinrequests d)))))"
    unfolding o rev_map by_submitted_def using ok by (intro join_requests.first_row) blast
qed

lemma jr_row_cols:
  assumes "jr_storable E (jr_row E d jr)"
  shows "jr_args E (launchPrefix d (jr_LaunchID jr)) jr = jr_cols_of E (jr_row E d jr)"
proof -
  let ?p = "launchPrefix d (jr_LaunchID jr)" and ?a = "jr_SubmitterAddress jr"
  have "stored_account E ?p ?a = \<lparr>acct = [], orig = []\<rparr> \<or> account_ok E (stored_account E ?p ?a)"
    using assms by (simp add: jr_storable_def jr_row_def)
  then have "AccountID_String (stored_account E ?p ?a) = underPrefix E ?a ?p"
    by (auto simp: AccountID_String_def stored_account_def dest: account_ok_String(2))
  then show ?thesis by (simp add: jr_cols_of_def jr_args_def jr_row_def SelfDelegationAmount_def)
qed

lemma jrc_conflict_cols:
  "uuid_laws E \<Longrightarrow> jrc_conflict (jr_cols_of E a) (jr_cols_of E b) = jr_conflict a b"
  by (auto simp: jrc_conflict_def jr_conflict_def uuidToStr_inject)

lemma known_map: "uuid_laws E \<Longrightarrow> (\<And>x. key (enc x) = uuidToStr E (key' x)) \<Longrightarrow>
    known key (uuidToStr E k) (map enc xs) \<longleftrightarrow> k \<in> key' ` set xs"
  by (auto simp: known_def list_ex_iff uuidToStr_inject)

lemma row_of_map: "(\<And>x. (key (enc x) = k) = (key' x = k')) \<Longrightarrow> row_of key k (map enc xs) = map_option enc (row_of key' k' xs)"
  by (induction xs) (simp_all add: row_of_def)

lemma in_upsert:
  "q \<in> set (upsert key mrg r xs) \<Longrightarrow>
     q \<in> set xs \<or> (\<exists>x \<in> set xs. key x = key r \<and> q = mrg x r) \<or> q = r \<and> key r \<notin> key ` set xs"
  by (induction xs) (auto split: if_splits)

lemma joinrequests_Save_refines:
  assumes E: "uuid_laws E"
  shows "refines E (\<lambda>d. jr_LaunchID jr \<in> l_ID ` set (db_launches d) \<and> jr_storable E (jr_row E d jr))
    (sql_joinrequests_Save E jr) (joinrequests_Save E jr)"
  unfolding refines_def
proof (intro allI impI)
  fix s and w :: world
  let ?d = "w_db w"
  assume "represents E s ?d \<and> w_faults w = [] \<and> jr_LaunchID jr \<in> l_ID ` set (db_launches ?d) \<and> jr_storable E (jr_row E ?d jr)"
  then have R: "represents E s ?d" and nf: "w_faults w = []" and l: "jr_LaunchID jr \<in> l_ID ` set (db_launches ?d)"
    and ok: "jr_storable E (jr_row E ?d jr)" by auto
  let ?r = "jr_row E ?d jr" and ?rows = "upsert jr_ID jr_merge (jr_row E ?d jr) (db_joinrequests ?d)"
  have args: "jr_args E (sql_launchPrefix E s (jr_LaunchID jr)) jr = jr_cols_of E ?r"
    unfolding launchPrefix_rows [OF E R] by (rule jr_row_cols [OF ok])
  have id: "jr_ID ?r = jr_ID jr" "jr_LaunchID ?r = jr_LaunchID jr" by (simp_all add: jr_row_def)
  have ups: "upsert jrc_id jrc_set (jr_cols_of E ?r) (sq_join_requests s) = map (jr_cols_of E) ?rows"
    unfolding representsD(2) [OF R]
    by (rule join_requests.upserted) (simp_all add: uuidToStr_inject [OF E] jrc_set_def jr_merge_def jr_cols_of_def jr_args_def SelfDelegationAmount_def)
  have fk: "known lac_id (jrc_launch_id (jr_cols_of E ?r)) (sq_launches s)"
    unfolding representsD(1) [OF R] jr_cols_simps using l id by (subst known_map [OF E]) auto
  obtain r0 where r0: "row_of jr_ID (jr_ID jr) ?rows = Some r0"
    using row_of_upsert [of jr_ID ?r jr_merge "jr_ID jr" "db_joinrequests ?d"] id by (auto simp: jr_merge_def)
  have row: "row_of jrc_id (jrc_id (jr_cols_of E ?r)) (map (jr_cols_of E) ?rows) = Some (jr_cols_of E r0)"
    using r0 row_of_map [of jrc_id "jr_cols_of E" "uuidToStr E (jr_ID jr)" jr_ID "jr_ID jr" ?rows] by (simp add: id uuidToStr_inject [OF E])
  have conf: "list_ex (jrc_conflict (jr_cols_of E r0)) (map (jr_cols_of E) ?rows) = list_ex (jr_conflict r0) ?rows"
    by (simp add: list_ex_iff jrc_conflict_cols [OF E])
  have "list_all (\<lambda>jr. uuid_laws E \<and> jr_storable E jr) ?rows"
    unfolding list_all_iff
  proof
    fix q assume q: "q \<in> set ?rows"
    have "jr_storable E (jr_merge x r)" if "jr_storable E x" for x r using that by (simp add: jr_storable_def jr_merge_def)
    with in_upsert [OF q] representsD(3) [OF R] ok E show "uuid_laws E \<and> jr_storable E q" unfolding list_all_iff by blast
  qed
  then have "represents E (s\<lparr>sq_join_requests := map (jr_cols_of E) ?rows\<rparr>) (?d\<lparr>db_joinrequests := ?rows\<rparr>)"
    using R by (simp add: represents_def)
  then show "\<exists>d'. joinrequests_Save E jr w = (fst (sql_joinrequests_Save E jr s), w\<lparr>w_db := d'\<rparr>) \<and>
      represents E (snd (sql_joinrequests_Save E jr s)) d'"
    unfolding joinrequests_Save_def execs_no_faults [OF nf] joinrequests_upsert_def sql_joinrequests_Save_def Let_def args ups row r0 option.case conf
    using fk R by (cases "list_ex (jr_conflict r0) ?rows") (auto intro: exI [of _ ?d])
qed

lemma joinrequests_queries_refine:
  assumes E: "uuid_laws E"
  shows "refines E (\<lambda>_. True) (sql_joinrequests_FindByID E jid) (joinrequests_FindByID jid)"
    and "refines E (\<lambda>_. True) (sql_joinrequests_FindByOperator E lid a) (joinrequests_FindByOperator E lid a)"
    and "refines E (\<lambda>_. True) (sql_joinrequests_FindApprovedByLaunch E lid) (joinrequests_FindApprovedByLaunch E lid)"
    and "refines E (\<lambda>_. True) (sql_joinrequests_AllByLaunch E lid) (joinrequests_AllByLaunch E lid)"
    and "refines E (\<lambda>_. True) (sql_joinrequests_CountByConsensusPubKey E lid key) (joinrequests_CountByConsensusPubKey lid key)"
    and "refines E (\<lambda>_. True) (sql_joinrequests_FindActiveByValidator E lid a) (joinrequests_FindActiveByValidator E lid a)"
proof -
  note u [simp] = uuidToStr_inject [OF E]
  show "refines E (\<lambda>_. True) (sql_joinrequests_FindByID E jid) (joinrequests_FindByID jid)"
    unfolding sql_joinrequests_FindByID_def joinrequests_FindByID_def row_of_def
    by (rule refines_query) (simp add: representsD(2) join_requests.keyed_row [OF representsD(3)])
  show "refines E (\<lambda>_. True) (sql_joinrequests_FindByOperator E lid a) (joinrequests_FindByOperator E lid a)"
    unfolding sql_joinrequests_FindByOperator_def joinrequests_FindByOperator_def by (rule refines_query, rule jr_selected(4)) simp_all
  show "refines E (\<lambda>_. True) (sql_joinrequests_FindApprovedByLaunch E lid) (joinrequests_FindApprovedByLaunch E lid)"
    unfolding sql_joinrequests_FindApprovedByLaunch_def joinrequests_FindApprovedByLaunch_def
    by (rule refines_query, rule jr_selected(2)) (simp_all add: approved_text)
  show "refines E (\<lambda>_. True) (sql_joinrequests_AllByLaunch E lid) (joinrequests_AllByLaunch E lid)"
    unfolding sql_joinrequests_AllByLaunch_def joinrequests_AllByLaunch_def by (rule refines_query, rule jr_selected(2)) simp_all
  show "refines E (\<lambda>_. True) (sql_joinrequests_CountByConsensusPubKey E lid key) (joinrequests_CountByConsensusPubKey lid key)"
    unfolding sql_joinrequests_CountByConsensusPubKey_def joinrequests_CountByConsensusPubKey_def
    by (rule refines_query) (subst jr_selected(1), assumption, auto)
  show "refines E (\<lambda>_. True) (sql_joinrequests_FindActiveByValidator E lid a) (joinrequests_FindActiveByValidator E lid a)"
    unfolding sql_joinrequests_FindActiveByValidator_def joinrequests_FindActiveByValidator_def
    by (rule refines_query, rule jr_selected(4)) simp_all
qed

lemma refines_answer:
  assumes "\<And>s w. represents E s (w_db w) \<Longrightarrow> w_faults w = [] \<Longrightarrow> m w = (fst (c s), w) \<and> snd (c s) = s"
  shows "refines E pre c m"
  unfolding refines_def
proof (intro allI impI)
  fix s and w :: world assume "represents E s (w_db w) \<and> w_faults w = [] \<and> pre (w_db w)"
  then show "\<exists>d'. m w = (fst (c s), w\<lparr>w_db := d'\<rparr>) \<and> represents E (snd (c s)) d'"
    using assms [of s w] by (intro exI [of _ "w_db w"]) simp
qed

lemma joinrequests_FindByLaunch_refines:
  assumes E: "uuid_laws E"
  shows "refines E (\<lambda>_. True) (sql_joinrequests_FindByLaunch E lid st pg pp) (joinrequests_FindByLaunch E lid st pg pp)"
proof (rule refines_answer)
  fix s and w :: world
  assume R: "represents E s (w_db w)" and nf: "w_faults w = []"
  let ?P = "\<lambda>r. jrc_launch_id r = uuidToStr E lid \<and> (case st of None \<Rightarrow> True | Some x \<Rightarrow> jrc_status r = jr_status_string x)"
  let ?Q = "\<lambda>j. jr_LaunchID j = lid \<and> (case st of None \<Rightarrow> True | Some s \<Rightarrow> jr_Status j = s)"
  have q: "?P (jr_cols_of E jr) = ?Q jr" for jr by (simp add: uuidToStr_inject [OF E] split: option.split)
  show "joinrequests_FindByLaunch E lid st pg pp w = (fst (sql_joinrequests_FindByLaunch E lid st pg pp s), w) \<and>
      snd (sql_joinrequests_FindByLaunch E lid st pg pp s) = s"
    unfolding joinrequests_FindByLaunch_def sql_joinrequests_FindByLaunch_def query_def Let_def
      jr_selected(3) [OF R, of ?P ?Q, OF q]
    unfolding jr_selected(1) [OF R, of ?P ?Q, OF q]
    by (simp add: bnd_def no_faults [OF nf] ret_def and_then_def by_submitted_def)
qed

lemma joinrequests_CountBySubmitter_refines:
  assumes E: "uuid_laws E"
  shows "refines E (\<lambda>_. True) (sql_joinrequests_CountBySubmitter E lid a) (joinrequests_CountBySubmitter E lid a)"
proof (rule refines_answer)
  fix s and w :: world
  assume R: "represents E s (w_db w)" and nf: "w_faults w = []"
  have q: "length (filter (\<lambda>r. jrc_launch_id r = uuidToStr E lid \<and> jrc_submitter_address r = t) (sq_join_requests s)) =
      length (filter (\<lambda>j. jr_LaunchID j = lid \<and> AccountID_String (jr_SubmitterAddress j) = t) (db_joinrequests (w_db w)))" for t
    by (subst jr_selected(1) [OF R]) (auto simp: uuidToStr_inject [OF E])
  show "joinrequests_CountBySubmitter E lid a w = (fst (sql_joinrequests_CountBySubmitter E lid a s), w) \<and>
      snd (sql_joinrequests_CountBySubmitter E lid a s) = s"
    unfolding joinrequests_CountBySubmitter_def sql_joinrequests_CountBySubmitter_def query_def q launchPrefix_rows [OF E R]
    by (cases "NewAccountID E a") (simp_all add: bnd_def lift_def no_faults [OF nf] and_then_def)
qed

lemma loadVotingPower_refines:
  assumes E: "uuid_laws E"
  shows "refines E (\<lambda>_. True) (sql_loadVotingPower E l) (loadVotingPower l)"
  unfolding sql_loadVotingPower_def loadVotingPower_def
proof (rule refines_query)
  fix s d assume R: "represents E s d"
  let ?f = "\<lambda>r. and_then (NewAccountID E (jrc_operator_address r)) (\<lambda>i. Inr (Hex i, jrc_self_delegation_amount r))"
  let ?js = "filter (\<lambda>j. jr_LaunchID j = l_ID l \<and> jr_Status j = JRApproved) (db_joinrequests d)"
  have "filter (\<lambda>r. jrc_launch_id r = uuidToStr E (l_ID l) \<and> jrc_status r = ''APPROVED'') (sq_join_requests s) = map (jr_cols_of E) ?js"
    by (rule jr_selected(1) [OF R]) (simp add: uuidToStr_inject [OF E] approved_text)
  moreover have "all_results ?f (map (jr_cols_of E) js) = Inr (map (\<lambda>j. (Hex (jr_OperatorAddress j), SelfDelegationAmount j)) js)"
    if "\<forall>j \<in> set js. jr_storable E j" for js
    using that by (induction js) (simp_all add: and_then_def jr_storable_def account_ok_def)
  moreover have "\<forall>j \<in> set ?js. jr_storable E j" using representsD(3) [OF R] by (auto simp: list_all_iff)
  ultimately show "and_then (all_results ?f (filter (\<lambda>r. jrc_launch_id r = uuidToStr E (l_ID l) \<and> jrc_status r = ''APPROVED'') (sq_join_requests s)))
      (\<lambda>powers. Inr (InitVotingPower l (fold (\<lambda>(k, v). fmupd k v) powers fmempty))) =
      Inr (InitVotingPower l (voting_powers (l_ID l) (db_joinrequests d)))"
    by (simp add: and_then_def voting_powers_def fold_map comp_def)
qed

section \<open>Readiness confirmations\<close>

lemma rc_cols_simps [simp]:
  "rcc_id (rc_args E rc) = uuidToStr E (rc_ID rc)" "rcc_launch_id (rc_args E rc) = uuidToStr E (rc_LaunchID rc)"
  "rcc_join_request_id (rc_args E rc) = uuidToStr E (rc_JoinRequestID rc)"
  "rcc_operator_address (rc_args E rc) = AccountID_String (rc_OperatorAddress rc)" "rcc_confirmed_at (rc_args E rc) = timeToStr E (rc_ConfirmedAt rc)"
  "rcc_invalidated_at (rc_args E rc) = nullTimeToStr E (rc_InvalidatedAt rc)"
  by (simp_all add: rc_args_def)

lemma refines_stmt:
  assumes "\<And>s d. represents E s d \<Longrightarrow> pre d \<Longrightarrow> fst (c s) = Inr () \<and> represents E (snd (c s)) (f d)"
  shows "refines E pre c (stmt f)"
  unfolding refines_def
proof (intro allI impI)
  fix s and w :: world assume "represents E s (w_db w) \<and> w_faults w = [] \<and> pre (w_db w)"
  then show "\<exists>d'. stmt f w = (fst (c s), w\<lparr>w_db := d'\<rparr>) \<and> represents E (snd (c s)) d'"
    using assms [of s "w_db w"] by (intro exI [of _ "f (w_db w)"]) (simp add: no_faults)
qed

lemma readiness_Save_refines:
  assumes E: "uuid_laws E"
  shows "refines E (\<lambda>d. rc_LaunchID rc \<in> l_ID ` set (db_launches d) \<and> rc_JoinRequestID rc \<in> jr_ID ` set (db_joinrequests d) \<and> rc_storable E rc)
    (sql_readiness_Save E rc) (readiness_Save rc)"
  unfolding readiness_Save_def
proof (rule refines_stmt)
  fix s d assume R: "represents E s d"
    and "rc_LaunchID rc \<in> l_ID ` set (db_launches d) \<and> rc_JoinRequestID rc \<in> jr_ID ` set (db_joinrequests d) \<and> rc_storable E rc"
  then have ids: "rc_LaunchID rc \<in> l_ID ` set (db_launches d)" "rc_JoinRequestID rc \<in> jr_ID ` set (db_joinrequests d)" and ok: "rc_storable E rc" by auto
  let ?rows = "upsert rc_ID rc_merge rc (db_readiness d)"
  have "known lac_id (rcc_launch_id (rc_args E rc)) (sq_launches s)" "known jrc_id (rcc_join_request_id (rc_args E rc)) (sq_join_requests s)"
    unfolding representsD(1,2) [OF R] rc_cols_simps using ids by (subst known_map [OF E]; auto)+
  moreover have "upsert rcc_id rcc_set (rc_args E rc) (sq_readiness s) = map (rc_args E) ?rows"
    unfolding representsD(5) [OF R] by (rule readiness.upserted) (simp_all add: uuidToStr_inject [OF E] rcc_set_def rc_merge_def rc_args_def)
  moreover have "list_all (\<lambda>rc. uuid_laws E \<and> rc_storable E rc) ?rows"
    using set_upsert [of rc_ID rc_merge rc "db_readiness d"] representsD(6) [OF R] ok E
    by (fastforce simp: list_all_iff rc_merge_def rc_storable_def)
  ultimately show "fst (sql_readiness_Save E rc s) = Inr () \<and> represents E (snd (sql_readiness_Save E rc s)) (d\<lparr>db_readiness := ?rows\<rparr>)"
    using R by (simp add: sql_readiness_Save_def Let_def represents_def)
qed

lemma rc_selected:
  assumes "represents E s d" "\<And>rc. P (rc_args E rc) = Q rc"
  shows "sort_key rcc_confirmed_at (filter P (sq_readiness s)) = map (rc_args E) (sort_key (\<lambda>r. timeToStr E (rc_ConfirmedAt r)) (filter Q (db_readiness d)))"
    and "list_all (\<lambda>rc. uuid_laws E \<and> rc_storable E rc) (filter Q (db_readiness d))"
proof -
  have "filter P (sq_readiness s) = map (rc_args E) (filter Q (db_readiness d))"
    using assms(2) by (simp add: representsD(5) [OF assms(1)] readiness.filtered)
  then show "sort_key rcc_confirmed_at (filter P (sq_readiness s)) = map (rc_args E) (sort_key (\<lambda>r. timeToStr E (rc_ConfirmedAt r)) (filter Q (db_readiness d)))"
    by (simp add: readiness.sorted_rows)
  show "list_all (\<lambda>rc. uuid_laws E \<and> rc_storable E rc) (filter Q (db_readiness d))"
    using representsD(6) [OF assms(1)] by (auto simp: list_all_iff)
qed

lemma readiness_queries_refine:
  assumes E: "uuid_laws E"
  shows "refines E (\<lambda>_. True) (sql_readiness_FindByLaunch E lid) (readiness_FindByLaunch E lid)"
    and "refines E (\<lambda>_. True) (sql_readiness_FindByOperator E lid a) (readiness_FindByOperator E lid a)"
proof -
  note u [simp] = uuidToStr_inject [OF E]
  show "refines E (\<lambda>_. True) (sql_readiness_FindByLaunch E lid) (readiness_FindByLaunch E lid)"
    unfolding sql_readiness_FindByLaunch_def readiness_FindByLaunch_def
  proof (rule refines_query)
    fix s d assume R: "represents E s d"
    note sel = rc_selected [OF R, of "\<lambda>r. rcc_launch_id r = uuidToStr E lid" "\<lambda>r. rc_LaunchID r = lid"]
    show "all_results (scanReadiness E) (sort_key rcc_confirmed_at (filter (\<lambda>r. rcc_launch_id r = uuidToStr E lid) (sq_readiness s))) =
      Inr (sort_key (\<lambda>r. timeToStr E (rc_ConfirmedAt r)) (filter (\<lambda>r. rc_LaunchID r = lid) (db_readiness d)))"
      using sel by (simp add: readiness.scan_all list_all_iff)
  qed
  show "refines E (\<lambda>_. True) (sql_readiness_FindByOperator E lid a) (readiness_FindByOperator E lid a)"
    unfolding sql_readiness_FindByOperator_def readiness_FindByOperator_def
  proof (rule refines_query)
    fix s d assume R: "represents E s d"
    let ?Q = "\<lambda>r. rc_LaunchID r = lid \<and> AccountID_String (rc_OperatorAddress r) = a"
    note sel = rc_selected [OF R, of "\<lambda>r. rcc_launch_id r = uuidToStr E lid \<and> rcc_operator_address r = a" ?Q]
    show "query_row (scanReadiness E) (rev (sort_key rcc_confirmed_at (filter (\<lambda>r. rcc_launch_id r = uuidToStr E lid \<and> rcc_operator_address r = a) (sq_readiness s)))) =
      row_result (find (\<lambda>_. True) (rev (sort_key (\<lambda>r. timeToStr E (rc_ConfirmedAt r)) (filter ?Q (db_readiness d)))))"
      using sel by (simp add: rev_map readiness.first_row list_all_iff)
  qed
qed

lemma InvalidateByLaunch_refines:
  assumes E: "uuid_laws E" and t: "time_ok E now"
  shows "refines E (\<lambda>_. True) (sql_InvalidateByLaunch E now lid) (InvalidateByLaunch now lid)"
  unfolding InvalidateByLaunch_def
proof (rule refines_stmt)
  fix s d assume R: "represents E s d"
  let ?g = "\<lambda>r. if rc_LaunchID r = lid \<and> rc_InvalidatedAt r = None then Invalidate r now else r"
  have "map (\<lambda>r. if rcc_launch_id r = uuidToStr E lid \<and> rcc_invalidated_at r = None then r\<lparr>rcc_invalidated_at := Some (timeToStr E now)\<rparr> else r)
      (sq_readiness s) = map (rc_args E) (map ?g (db_readiness d))"
    unfolding representsD(5) [OF R] by (auto simp: uuidToStr_inject [OF E] nullTimeToStr_def rc_args_def Invalidate_def split: option.splits)
  moreover have "list_all (\<lambda>rc. uuid_laws E \<and> rc_storable E rc) (map ?g (db_readiness d))"
    using representsD(6) [OF R] t by (auto simp: list_all_iff Invalidate_def rc_storable_def)
  ultimately show "fst (sql_InvalidateByLaunch E now lid s) = Inr () \<and>
      represents E (snd (sql_InvalidateByLaunch E now lid s)) (d\<lparr>db_readiness := map ?g (db_readiness d)\<rparr>)"
    using R by (simp add: sql_InvalidateByLaunch_def represents_def)
qed

section \<open>Rehearsals\<close>

lemma att_cols_simps [simp]:
  "atc_id (att_args E a) = uuidToStr E (ra_ID a)" "atc_launch_id (att_args E a) = uuidToStr E (ra_LaunchID a)"
  "atc_input_set_hash (att_args E a) = ra_InputSetHash a"
  by (simp_all add: att_args_def)

lemma attempts_Save_refines:
  assumes E: "uuid_laws E" and a: "att_storable E a"
  shows "refines E (\<lambda>_. True) (sql_attempts_Save E a) (attempts_Save a)"
  unfolding attempts_Save_def
proof (rule refines_stmt)
  fix s d assume R: "represents E s d"
  let ?g = "\<lambda>r. if ra_ID r = ra_ID a then r\<lparr>ra_Status := ra_Status a, ra_ClaimedAt := ra_ClaimedAt a,
      ra_LeaseExpiresAt := ra_LeaseExpiresAt a, ra_RunnerID := ra_RunnerID a\<rparr> else r"
  have "sq_attempts (snd (sql_attempts_Save E a s)) = map (att_args E) (map ?g (db_attempts d))"
    unfolding sql_attempts_Save_def by (simp add: representsD(7) [OF R] uuidToStr_inject [OF E]) (simp add: att_args_def)
  moreover have "list_all (\<lambda>a. uuid_laws E \<and> att_storable E a) (map ?g (db_attempts d))"
    using representsD(8) [OF R] a by (auto simp: list_all_iff att_storable_def)
  ultimately show "fst (sql_attempts_Save E a s) = Inr () \<and> represents E (snd (sql_attempts_Save E a s)) (attempts_update a d)"
    using R by (simp add: sql_attempts_Save_def attempts_update_def represents_def)
qed

lemma attempts_FindByID_refines:
  assumes E: "uuid_laws E"
  shows "refines E (\<lambda>_. True) (sql_attempts_FindByID E aid) (attempts_FindByID aid)"
  unfolding sql_attempts_FindByID_def attempts_FindByID_def row_of_def
  by (rule refines_query) (simp add: representsD(7) attempts.keyed_row [OF representsD(8)] uuidToStr_inject [OF E])

lemma GetOrCreate_refines:
  assumes E: "uuid_laws E" and t: "time_ok E issuedAt"
  shows "refines E (\<lambda>d. aid \<notin> ra_ID ` set (db_attempts d)) (sql_GetOrCreate E aid lid hash issuedAt) (GetOrCreate aid lid hash issuedAt)"
  unfolding refines_def
proof (intro allI impI)
  fix s and w :: world
  assume "represents E s (w_db w) \<and> w_faults w = [] \<and> aid \<notin> ra_ID ` set (db_attempts (w_db w))"
  then have R: "represents E s (w_db w)" and nf: "w_faults w = []" and new: "aid \<notin> ra_ID ` set (db_attempts (w_db w))" by auto
  let ?d = "w_db w" and ?P = "\<lambda>r. atc_launch_id r = uuidToStr E lid \<and> atc_input_set_hash r = hash"
    and ?Q = "\<lambda>a. ra_LaunchID a = lid \<and> ra_InputSetHash a = hash"
  let ?row = "\<lparr>ra_ID = aid, ra_LaunchID = lid, ra_InputSetHash = hash, ra_IssuedAt = issuedAt, ra_Status = AttemptOpen, ra_ClaimedAt = None,
      ra_LeaseExpiresAt = None, ra_RunnerID = []\<rparr>"
  define d' where "d' = attempts_insert aid lid hash issuedAt ?d"
  have q: "?P (att_args E a) = ?Q a" for a by (simp add: uuidToStr_inject [OF E])
  have ex: "list_ex ?P (sq_attempts s) = list_ex ?Q (db_attempts ?d)" by (simp add: representsD(7) [OF R] list_ex_iff uuidToStr_inject [OF E])
  have "\<not> known atc_id (uuidToStr E aid) (sq_attempts s)" using new by (simp add: representsD(7) [OF R] known_map [OF E])
  moreover have row: "\<lparr>atc_id = uuidToStr E aid, atc_launch_id = uuidToStr E lid, atc_input_set_hash = hash, atc_issued_at = timeToStr E issuedAt,
      atc_status = ''OPEN'', atc_claimed_at = None, atc_lease_expires_at = None, atc_runner_id = []\<rparr> = att_args E ?row"
    by (simp add: att_args_def nullTimeToStr_def)
  moreover have "(if list_ex ?Q (db_attempts ?d) then s else s\<lparr>sq_attempts := sq_attempts s @ [att_args E ?row]\<rparr>) =
      s\<lparr>sq_attempts := map (att_args E) (db_attempts d')\<rparr>"
    using representsD(7) [OF R] by (cases "list_ex ?Q (db_attempts ?d)") (simp_all add: d'_def attempts_insert_def)
  ultimately have c: "sql_GetOrCreate E aid lid hash issuedAt s = (let s' = s\<lparr>sq_attempts := map (att_args E) (db_attempts d')\<rparr> in
      (case filter ?P (sq_attempts s') of [] \<Rightarrow> Inl [] | r # _ \<Rightarrow> scanAttempt E r, s'))"
    unfolding sql_GetOrCreate_def Let_def row ex by simp
  have ok: "list_all (\<lambda>a. uuid_laws E \<and> att_storable E a) (db_attempts d')"
    using representsD(8) [OF R] E t by (auto simp: d'_def attempts_insert_def att_storable_def)
  have scan: "(case filter ?P (map (att_args E) as) of [] \<Rightarrow> Inl [] | r # _ \<Rightarrow> scanAttempt E r) =
      (case find ?Q as of None \<Rightarrow> Inl [] | Some a \<Rightarrow> Inr a)" if "list_all (\<lambda>a. uuid_laws E \<and> att_storable E a) as" for as
    using that by (induction as) (auto simp: uuidToStr_inject [OF E] attempts.dec_enc)
  have "represents E (s\<lparr>sq_attempts := map (att_args E) (db_attempts d')\<rparr>) d'"
    using R ok by (auto simp: represents_def d'_def attempts_insert_def)
  moreover have "GetOrCreate aid lid hash issuedAt w = (case find ?Q (db_attempts d') of None \<Rightarrow> Inl [] | Some a \<Rightarrow> Inr a, w\<lparr>w_db := d'\<rparr>)"
    by (simp add: GetOrCreate_def bnd_def no_faults nf d'_def)
  ultimately show "\<exists>d'. GetOrCreate aid lid hash issuedAt w = (fst (sql_GetOrCreate E aid lid hash issuedAt s), w\<lparr>w_db := d'\<rparr>) \<and>
      represents E (snd (sql_GetOrCreate E aid lid hash issuedAt s)) d'"
    unfolding c Let_def by (intro exI [of _ d']) (simp add: scan [OF ok])
qed

lemma results_Save_refines:
  assumes E: "uuid_laws E" and r: "res_storable E r"
  shows "refines E (\<lambda>d. rr_ID r \<notin> rr_ID ` set (db_results d)) (sql_results_Save E r) (results_Save r)"
  unfolding results_Save_def
proof (rule refines_stmt)
  fix s d assume R: "represents E s d" and new: "rr_ID r \<notin> rr_ID ` set (db_results d)"
  have sg: "list_ex (\<lambda>o'. rec_signature o' = rec_signature (res_args E r)) (sq_results s) = list_ex (\<lambda>o'. rr_Signature o' = rr_Signature r) (db_results d)"
    by (simp add: representsD(9) [OF R] list_ex_iff res_args_def)
  have "known rec_id (uuidToStr E (rr_ID r)) (map (res_args E) (db_results d)) \<longleftrightarrow> rr_ID r \<in> rr_ID ` set (db_results d)"
    by (rule known_map [OF E]) (simp add: res_args_def)
  then have "\<not> known rec_id (rec_id (res_args E r)) (sq_results s)" using new by (simp add: representsD(9) [OF R]) (simp add: res_args_def)
  then show "fst (sql_results_Save E r s) = Inr () \<and> represents E (snd (sql_results_Save E r s)) (results_insert r d)"
    using R E r unfolding sql_results_Save_def results_insert_def Let_def sg by (auto simp: represents_def)
qed

lemma results_FindByLaunch_refines:
  assumes E: "uuid_laws E"
  shows "refines E (\<lambda>_. True) (sql_results_FindByLaunch E lid) (results_FindByLaunch E lid)"
  unfolding sql_results_FindByLaunch_def results_FindByLaunch_def
proof (rule refines_query)
  fix s d assume R: "represents E s d"
  have "filter (\<lambda>r. rec_launch_id r = uuidToStr E lid) (sq_results s) = map (res_args E) (filter (\<lambda>r. rr_LaunchID r = lid) (db_results d))"
    unfolding representsD(9) [OF R] by (rule results.filtered) (simp add: res_args_def uuidToStr_inject [OF E])
  then have "rev (sort_key rec_recorded_at (filter (\<lambda>r. rec_launch_id r = uuidToStr E lid) (sq_results s))) =
      map (res_args E) (rev (sort_key (\<lambda>r. timeToStr E (rr_RecordedAt r)) (filter (\<lambda>r. rr_LaunchID r = lid) (db_results d))))"
    by (simp add: results.sorted_rows [of rec_recorded_at E "\<lambda>r. timeToStr E (rr_RecordedAt r)"] res_args_def rev_map)
  then show "all_results (scanResult E) (rev (sort_key rec_recorded_at (filter (\<lambda>r. rec_launch_id r = uuidToStr E lid) (sq_results s)))) =
      Inr (rev (sort_key (\<lambda>r. timeToStr E (rr_RecordedAt r)) (filter (\<lambda>r. rr_LaunchID r = lid) (db_results d))))"
    using results.list_all_select [OF representsD(10) [OF R]] by (simp only:) (intro results.scan_all, blast)
qed

section \<open>Proposals\<close>

lemma prop_cols_simps [simp]:
  "prc_id (prop_args E p) = uuidToStr E (p_ID p)" "prc_launch_id (prop_args E p) = uuidToStr E (p_LaunchID p)"
  "prc_proposed_at (prop_args E p) = timeToStr E (p_ProposedAt p)" "prc_status (prop_args E p) = proposal_status_string (p_Status p)"
  by (simp_all add: prop_args_def)

lemma sig_cols_simps [simp]:
  "sgc_proposal_id (sig_args E pid e) = uuidToStr E pid" "sgc_member_address (sig_args E pid e) = AccountID_String (se_MemberAddress e)"
  "sgc_signed_at (sig_args E pid e) = timeToStr E (se_Timestamp e)"
  by (simp_all add: sig_args_def)

lemma proposal_row_simps [simp]:
  "prop_args E (proposal_row p) = prop_args E p" "p_ID (proposal_row p) = p_ID p" "p_Signatures (proposal_row p) = []" "p_events (proposal_row p) = []"
  by (simp_all add: proposal_row_def prop_args_def)

lemma pending_text: "proposal_status_string st = ''PENDING_SIGNATURES'' \<longleftrightarrow> st = PStatusPendingSignatures"
  by (cases st) simp_all

lemma proposals_repD:
  assumes "proposals_rep E rows sigs ps"
  shows "rows = map (prop_args E) ps" "p \<in> set ps \<Longrightarrow> prop_storable E p" "p \<in> set ps \<Longrightarrow> p_events p = []" "distinct (map p_ID ps)"
    "p \<in> set ps \<Longrightarrow> filter (\<lambda>r. sgc_proposal_id r = uuidToStr E (p_ID p)) sigs = map (sig_args E (p_ID p)) (p_Signatures p)"
    "r \<in> set sigs \<Longrightarrow> \<exists>p \<in> set ps. sgc_proposal_id r = uuidToStr E (p_ID p)"
  using assms by (auto simp: proposals_rep_def list_all_iff)

definition loaded :: "env \<Rightarrow> Proposal \<Rightarrow> Proposal" where
  "loaded E p = p\<lparr>p_Signatures := sort_key (\<lambda>s. timeToStr E (se_Timestamp s)) (p_Signatures p)\<rparr>"

lemma sql_loadSignatures_rows:
  assumes "proposals_rep E (sq_proposals s) (sq_signatures s) ps" "p \<in> set ps"
  shows "sql_loadSignatures E (proposal_row p) s = (Inr (loaded E p), s)"
proof -
  have "list_all (sig_storable E) (p_Signatures p)" using proposals_repD(2) [OF assms] by (simp add: prop_storable_def)
  then have "list_all (sig_storable E) (sort_key (\<lambda>s. timeToStr E (se_Timestamp s)) (p_Signatures p))" by (simp add: list_all_iff)
  moreover have "sort_key sgc_signed_at (map (sig_args E (p_ID p)) (p_Signatures p)) =
      map (sig_args E (p_ID p)) (sort_key (\<lambda>s. timeToStr E (se_Timestamp s)) (p_Signatures p))"
    by (rule signatures.sorted_rows) simp
  moreover have "proposal_row p\<lparr>p_Signatures := xs\<rparr> = p\<lparr>p_Signatures := xs\<rparr>" for xs
    using proposals_repD(3) [OF assms] by (simp add: proposal_row_def)
  ultimately show ?thesis
    by (simp add: sql_loadSignatures_def query_def proposals_repD(5) [OF assms] signatures.scan_all and_then_def loaded_def)
qed

lemma scanProposalRows_rows:
  assumes E: "uuid_laws E" and P: "proposals_rep E (sq_proposals s) (sq_signatures s) ps" and qs: "set qs \<subseteq> set ps"
  shows "scanProposalRows E (map (prop_args E) qs) s = (Inr (map (loaded E) qs), s)"
proof -
  have "all_results (scanProposal E) (map (prop_args E) (map proposal_row qs)) = Inr (map proposal_row qs)"
    using E qs proposals_repD(2) [OF P] by (intro proposals.scan_all) (auto simp: list_all_iff prop_storable_def proposal_row_def)
  then have "all_results (scanProposal E) (map (prop_args E) qs) = Inr (map proposal_row qs)" by (simp add: comp_def)
  moreover have "sql_each (sql_loadSignatures E) (map proposal_row qs) s = (Inr (map (loaded E) qs), s)"
    using qs by (induction qs) (simp_all add: sql_then_def query_def sql_loadSignatures_rows [OF P])
  ultimately show ?thesis by (simp add: scanProposalRows_def sql_then_def query_def)
qed

lemma load_proposals_no_faults:
  "w_faults w = [] \<Longrightarrow> load_proposals E qs w = (Inr (map (loaded E) qs), w)"
  by (induction qs) (simp_all add: load_proposals_def bnd_def ret_def loadSignatures_def no_faults loaded_def)

lemma proposals_FindByID_refines:
  assumes E: "uuid_laws E"
  shows "refines E (\<lambda>_. True) (sql_proposals_FindByID E pid) (proposals_FindByID E pid)"
proof (rule refines_answer)
  fix s and w :: world
  assume R: "represents E s (w_db w)" and nf: "w_faults w = []"
  note P = representsD(4) [OF R]
  let ?ps = "db_proposals (w_db w)"
  have "query_row (scanProposal E) (filter (\<lambda>r. prc_id r = uuidToStr E pid) (map (prop_args E) (map proposal_row ?ps))) =
      row_result (find (\<lambda>p. p_ID p = pid) (map proposal_row ?ps))"
    using E proposals_repD(2) [OF P]
    by (intro proposals.keyed_row) (auto simp: list_all_iff prop_storable_def proposal_row_def uuidToStr_inject [OF E])
  moreover have "find (\<lambda>p. p_ID p = pid) (map proposal_row qs) = map_option proposal_row (find (\<lambda>p. p_ID p = pid) qs)" for qs
    by (induction qs) simp_all
  ultimately have q: "query_row (scanProposal E) (filter (\<lambda>r. prc_id r = uuidToStr E pid) (sq_proposals s)) =
      row_result (map_option proposal_row (row_of p_ID pid ?ps))"
    by (simp add: proposals_repD(1) [OF P] row_of_def comp_def)
  show "proposals_FindByID E pid w = (fst (sql_proposals_FindByID E pid s), w) \<and> snd (sql_proposals_FindByID E pid s) = s"
  proof (cases "row_of p_ID pid ?ps")
    case None
    then show ?thesis by (simp add: proposals_FindByID_def sql_proposals_FindByID_def sql_then_def query_def q bnd_def no_faults nf row_result_def)
  next
    case (Some p)
    then have "p \<in> set ?ps" using row_of_Some by fastforce
    with Some show ?thesis
      by (simp add: proposals_FindByID_def sql_proposals_FindByID_def sql_then_def query_def q bnd_def no_faults nf row_result_def
          sql_loadSignatures_rows [OF P] loadSignatures_def loaded_def)
  qed
qed

lemma proposals_lists_refine:
  assumes E: "uuid_laws E"
  shows "refines E (\<lambda>_. True) (sql_proposals_FindPending E) (proposals_FindPending E)"
    and "refines E (\<lambda>_. True) (sql_proposals_FindByLaunch E lid pg pp) (proposals_FindByLaunch E lid pg pp)"
proof -
  have sel: "sort_key prc_proposed_at (filter A (sq_proposals s)) =
        map (prop_args E) (sort_key (\<lambda>p. timeToStr E (p_ProposedAt p)) (filter B ps))"
      "length (filter A (sq_proposals s)) = length (filter B ps)"
    if "proposals_rep E (sq_proposals s) (sq_signatures s) ps" "\<And>p. A (prop_args E p) = B p" for A B s ps
  proof -
    have "filter A (sq_proposals s) = map (prop_args E) (filter B ps)"
      unfolding proposals_repD(1) [OF that(1)] by (rule proposals.filtered) (rule that(2))
    then show "sort_key prc_proposed_at (filter A (sq_proposals s)) = map (prop_args E) (sort_key (\<lambda>p. timeToStr E (p_ProposedAt p)) (filter B ps))"
      "length (filter A (sq_proposals s)) = length (filter B ps)" by (simp_all add: proposals.sorted_rows)
  qed
  show "refines E (\<lambda>_. True) (sql_proposals_FindPending E) (proposals_FindPending E)"
  proof (rule refines_answer)
    fix s and w :: world
    assume R: "represents E s (w_db w)" and nf: "w_faults w = []"
    note P = representsD(4) [OF R]
    let ?qs = "sort_key (\<lambda>p. timeToStr E (p_ProposedAt p)) (filter (\<lambda>p. p_Status p = PStatusPendingSignatures) (db_proposals (w_db w)))"
    note f = sel(1) [OF P, of "\<lambda>r. prc_status r = ''PENDING_SIGNATURES''" "\<lambda>p. p_Status p = PStatusPendingSignatures"]
    have "sql_proposals_FindPending E s = (Inr (map (loaded E) ?qs), s)"
      using f by (simp add: sql_proposals_FindPending_def pending_text) (intro scanProposalRows_rows [OF E P], auto)
    then show "proposals_FindPending E w = (fst (sql_proposals_FindPending E s), w) \<and> snd (sql_proposals_FindPending E s) = s"
      by (simp add: proposals_FindPending_def bnd_def no_faults nf load_proposals_no_faults)
  qed
  show "refines E (\<lambda>_. True) (sql_proposals_FindByLaunch E lid pg pp) (proposals_FindByLaunch E lid pg pp)"
  proof (rule refines_answer)
    fix s and w :: world
    assume R: "represents E s (w_db w)" and nf: "w_faults w = []"
    note P = representsD(4) [OF R]
    let ?Q = "\<lambda>p. p_LaunchID p = lid" and ?ps = "db_proposals (w_db w)"
    let ?qs = "page_of pg pp (rev (sort_key (\<lambda>p. timeToStr E (p_ProposedAt p)) (filter ?Q ?ps)))"
    note f = sel [OF P, of "\<lambda>r. prc_launch_id r = uuidToStr E lid" ?Q]
    have "set ?qs \<subseteq> set ?ps" by (auto simp: page_of_def Let_def dest!: in_set_takeD in_set_dropD split: if_splits)
    then have "sql_proposals_FindByLaunch E lid pg pp s = (Inr (map (loaded E) ?qs, int (length (filter ?Q ?ps))), s)"
      using f by (simp add: sql_proposals_FindByLaunch_def Let_def uuidToStr_inject [OF E] rev_map proposals.paged sql_then_def query_def
          scanProposalRows_rows [OF E P])
    then show "proposals_FindByLaunch E lid pg pp w = (fst (sql_proposals_FindByLaunch E lid pg pp s), w) \<and>
        snd (sql_proposals_FindByLaunch E lid pg pp s) = s"
      by (simp add: proposals_FindByLaunch_def bnd_def no_faults nf load_proposals_no_faults ret_def)
  qed
qed

lemma proposals_rep_upsert:
  assumes E: "uuid_laws E" and P: "proposals_rep E rows sigs ps" and ok: "prop_storable E p"
  shows "proposals_rep E (upsert prc_id prc_set (prop_args E p) rows) sigs (upsert p_ID p_merge (proposal_row p) ps)"
    (is "proposals_rep E ?rows sigs ?ps")
proof -
  have "upsert prc_id prc_set (prop_args E (proposal_row p)) (map (prop_args E) ps) = map (prop_args E) ?ps"
    by (rule proposals.upserted) (simp_all add: uuidToStr_inject [OF E], simp add: prc_set_def p_merge_def prop_args_def proposal_row_def)
  then have rows: "?rows = map (prop_args E) ?ps" using proposals_repD(1) [OF P] by simp
  have keys: "map p_ID ?ps = (if p_ID p \<in> p_ID ` set ps then map p_ID ps else map p_ID ps @ [p_ID p])"
    using keys_upsert [of p_ID "proposal_row p" p_merge ps] by (simp add: p_merge_def)
  have "prop_storable E q \<and> p_events q = [] \<and>
      filter (\<lambda>r. sgc_proposal_id r = uuidToStr E (p_ID q)) sigs = map (sig_args E (p_ID q)) (p_Signatures q)" if "q \<in> set ?ps" for q
    using in_upsert [OF that]
  proof (elim disjE bexE conjE)
    fix x assume "x \<in> set ps" "q = p_merge x (proposal_row p)"
    then show ?thesis using proposals_repD(2,3,5) [OF P] ok by (simp add: p_merge_def prop_storable_def proposal_row_def)
  next
    assume "q = proposal_row p" "p_ID (proposal_row p) \<notin> p_ID ` set ps"
    have "sgc_proposal_id r \<noteq> uuidToStr E (p_ID q)" if "r \<in> set sigs" for r
      using proposals_repD(6) [OF P that] \<open>q = proposal_row p\<close> \<open>p_ID (proposal_row p) \<notin> p_ID ` set ps\<close> by (auto simp: uuidToStr_inject [OF E])
    then have "filter (\<lambda>r. sgc_proposal_id r = uuidToStr E (p_ID q)) sigs = []" by (simp add: filter_empty_conv)
    then show ?thesis using \<open>q = proposal_row p\<close> ok by (simp add: prop_storable_def proposal_row_def)
  qed (use proposals_repD(2,3,5) [OF P] in simp)
  moreover have "\<exists>q \<in> set ?ps. sgc_proposal_id r = uuidToStr E (p_ID q)" if r: "r \<in> set sigs" for r
  proof -
    obtain x where "x \<in> set ps" "sgc_proposal_id r = uuidToStr E (p_ID x)" using proposals_repD(6) [OF P r] by blast
    moreover have "p_ID x \<in> set (map p_ID ?ps)" using \<open>x \<in> set ps\<close> keys by simp
    ultimately show ?thesis by auto
  qed
  moreover have "distinct (map p_ID ?ps)" using proposals_repD(4) [OF P] unfolding keys by auto
  ultimately show ?thesis using rows by (simp add: proposals_rep_def list_all_iff)
qed

lemma proposals_rep_signature:
  assumes E: "uuid_laws E" and P: "proposals_rep E (sq_proposals s) (sq_signatures s) (db_proposals d)"
    and pid: "pid \<in> p_ID ` set (db_proposals d)" and ok: "sig_storable E e"
  shows "proposals_rep E (sq_proposals (sql_insert_signature E pid e s)) (sq_signatures (sql_insert_signature E pid e s))
    (db_proposals (add_signature pid e d))"
proof -
  let ?sigs = "sq_signatures s" and ?ps = "db_proposals d"
  let ?dup = "\<lambda>p. list_ex (\<lambda>o'. AccountID_String (se_MemberAddress o') = AccountID_String (se_MemberAddress e)) (p_Signatures p)"
  let ?g = "\<lambda>p. if p_ID p = pid \<and> \<not> ?dup p then p\<lparr>p_Signatures := p_Signatures p @ [e]\<rparr> else p"
  obtain p where p: "p \<in> set ?ps" "p_ID p = pid" using pid by auto
  have uniq: "q = p" if "q \<in> set ?ps" "p_ID q = pid" for q
    using proposals_repD(4) [OF P] that p by (metis distinct_map inj_on_def)
  have "(\<exists>r \<in> set ?sigs. sgc_proposal_id r = uuidToStr E pid \<and> sgc_member_address r = a) \<longleftrightarrow>
      (\<exists>r \<in> set (filter (\<lambda>r. sgc_proposal_id r = uuidToStr E (p_ID p)) ?sigs). sgc_member_address r = a)" for a
    using p by auto
  then have ex: "list_ex (\<lambda>r. sgc_proposal_id r = sgc_proposal_id (sig_args E pid e) \<and>
      sgc_member_address r = sgc_member_address (sig_args E pid e)) ?sigs = ?dup p"
    by (simp only: list_ex_iff sig_cols_simps proposals_repD(5) [OF P p(1)]) simp
  show ?thesis
  proof (cases "?dup p")
    case True
    have "?g q = q" if "q \<in> set ?ps" for q using uniq [OF that] True by auto
    then have "map ?g ?ps = ?ps" by (rule map_idI)
    then show ?thesis using P True unfolding sql_insert_signature_def Let_def ex by (simp add: add_signature_def)
  next
    case False
    define sigs' where "sigs' = ?sigs @ [sig_args E pid e]"
    define g :: "Proposal \<Rightarrow> Proposal" where "g = ?g"
    have cols: "prop_args E (g q) = prop_args E q" "p_ID (g q) = p_ID q" for q by (simp_all add: g_def prop_args_def)
    have each: "prop_storable E (g q) \<and> p_events (g q) = [] \<and> filter (\<lambda>r. sgc_proposal_id r = uuidToStr E (p_ID (g q))) sigs' =
        map (sig_args E (p_ID (g q))) (p_Signatures (g q))" if q: "q \<in> set ?ps" for q
      using proposals_repD(2,3,5) [OF P q] ok False uniq [OF q] by (auto simp: g_def sigs'_def prop_storable_def uuidToStr_inject [OF E])
    have "\<exists>q \<in> set ?ps. sgc_proposal_id r = uuidToStr E (p_ID q)" if r: "r \<in> set sigs'" for r
      using proposals_repD(6) [OF P, of r] r p by (auto simp: sigs'_def)
    then have "proposals_rep E (map (prop_args E) ?ps) sigs' (map g ?ps)"
      using proposals_repD(4) [OF P] each by (simp add: proposals_rep_def list_all_iff cols comp_def)
    moreover have "db_proposals (add_signature pid e d) = map g ?ps" by (simp add: add_signature_def g_def)
    ultimately show ?thesis using False proposals_repD(1) [OF P] unfolding sql_insert_signature_def Let_def ex by (simp add: sigs'_def)
  qed
qed

lemma represents_proposals:
  "represents E s d \<Longrightarrow> proposals_rep E rows sigs ps \<Longrightarrow>
     represents E (s\<lparr>sq_proposals := rows, sq_signatures := sigs\<rparr>) (d\<lparr>db_proposals := ps\<rparr>)"
  by (simp add: represents_def)

lemma signatures_represented:
  assumes "uuid_laws E" "represents E s d" "pid \<in> p_ID ` set (db_proposals d)" "list_all (sig_storable E) es"
  shows "represents E (fold (sql_insert_signature E pid) es s) (fold (add_signature pid) es d)"
  using assms(2-)
proof (induction es arbitrary: s d)
  case (Cons e es)
  let ?s = "sql_insert_signature E pid e s" and ?d = "add_signature pid e d"
  have "proposals_rep E (sq_proposals ?s) (sq_signatures ?s) (db_proposals ?d)"
    using proposals_rep_signature [OF assms(1) representsD(4) [OF Cons.prems(1)] Cons.prems(2)] Cons.prems(3) by simp
  from represents_proposals [OF Cons.prems(1) this] have "represents E ?s ?d"
    by (auto simp: sql_insert_signature_def add_signature_def Let_def)
  moreover have "map p_ID (db_proposals ?d) = map p_ID (db_proposals d)" by (simp add: add_signature_def)
  then have "p_ID ` set (db_proposals ?d) = p_ID ` set (db_proposals d)" by (metis list.set_map)
  ultimately show ?case using Cons.IH [of ?s ?d] Cons.prems by simp
qed simp

lemma proposals_Save_refines:
  assumes E: "uuid_laws E" and ok: "prop_storable E p"
  shows "refines E (\<lambda>d. p_LaunchID p \<in> l_ID ` set (db_launches d)) (sql_proposals_Save E p) (proposals_Save p)"
  unfolding refines_def
proof (intro allI impI)
  fix s and w :: world
  assume "represents E s (w_db w) \<and> w_faults w = [] \<and> p_LaunchID p \<in> l_ID ` set (db_launches (w_db w))"
  then have R: "represents E s (w_db w)" and nf: "w_faults w = []" and l: "p_LaunchID p \<in> l_ID ` set (db_launches (w_db w))" by auto
  let ?ps = "upsert p_ID p_merge (proposal_row p) (db_proposals (w_db w))"
  let ?s = "s\<lparr>sq_proposals := upsert prc_id prc_set (prop_args E p) (sq_proposals s)\<rparr>" and ?d = "(w_db w)\<lparr>db_proposals := ?ps\<rparr>"
  have fk: "known lac_id (prc_launch_id (prop_args E p)) (sq_launches s)"
    unfolding representsD(1) [OF R] prop_cols_simps using l by (subst known_map [OF E]) auto
  have "represents E ?s ?d"
    using represents_proposals [OF R proposals_rep_upsert [OF E representsD(4) [OF R] ok]] by simp
  moreover have "p_ID p \<in> set (map p_ID ?ps)"
    using keys_upsert [of p_ID "proposal_row p" p_merge "db_proposals (w_db w)"] by (simp add: p_merge_def)
  ultimately have "represents E (fold (sql_insert_signature E (p_ID p)) (p_Signatures p) ?s) (fold (add_signature (p_ID p)) (p_Signatures p) ?d)"
    using ok by (intro signatures_represented [OF E]) (auto simp: prop_storable_def)
  moreover have "proposals_Save p w = (Inr (), w\<lparr>w_db := fold (add_signature (p_ID p)) (p_Signatures p) ?d\<rparr>)"
    by (simp add: proposals_Save_def bnd_def no_faults nf each_no_faults proposal_row_def)
  ultimately show "\<exists>d'. proposals_Save p w = (fst (sql_proposals_Save E p s), w\<lparr>w_db := d'\<rparr>) \<and> represents E (snd (sql_proposals_Save E p s)) d'"
    using fk by (auto simp: sql_proposals_Save_def Let_def)
qed

lemma ExpireAllPending_refines:
  assumes E: "uuid_laws E"
  shows "refines E (\<lambda>_. True) (sql_ExpireAllPending E lid) (ExpireAllPending lid)"
  unfolding ExpireAllPending_def
proof (rule refines_stmt)
  fix s d assume R: "represents E s d"
  note P = representsD(4) [OF R]
  let ?ps = "map (expire_pending lid) (db_proposals d)"
  have same: "p_ID (expire_pending lid p) = p_ID p" "p_Signatures (expire_pending lid p) = p_Signatures p" "p_events (expire_pending lid p) = p_events p"
    "prop_storable E (expire_pending lid p) = prop_storable E p" for p by (simp_all add: expire_pending_def prop_storable_def)
  have "sq_proposals (snd (sql_ExpireAllPending E lid s)) = map (prop_args E) ?ps"
    unfolding sql_ExpireAllPending_def by (simp add: proposals_repD(1) [OF P] uuidToStr_inject [OF E] pending_text expire_pending_def) (simp add: prop_args_def)
  moreover have "proposals_rep E (map (prop_args E) ?ps) (sq_signatures s) ?ps"
    using P by (simp add: proposals_rep_def list_all_iff same comp_def)
  ultimately show "fst (sql_ExpireAllPending E lid s) = Inr () \<and> represents E (snd (sql_ExpireAllPending E lid s)) (d\<lparr>db_proposals := ?ps\<rparr>)"
    using R by (simp add: sql_ExpireAllPending_def represents_def)
qed

end
