(* ===== verification/SqlLaunchRefinement.thy ===== *)
theory SqlLaunchRefinement
  imports SqlRefinement
begin

text \<open>
  The five tables of a launch implement the typed launches and committees, and with the other tables
  every repository operation on text rows implements its typed counterpart.
\<close>

section \<open>Codecs\<close>

definition scanned :: "Launch \<Rightarrow> Launch" where
  \<comment> \<open>a launch as its own table has it\<close>
  "scanned l = l\<lparr>l_Allowlist := Allowlist_zero, l_AllocationFiles := []\<rparr>"

lemma launch_statuses_known:
  "constant_of status_string launch_statuses (status_string s) = Inr s"
  "constant_of allocation_status_string [AllocationPending, AllocationApproved, AllocationRejected] (allocation_status_string a) = Inr a"
  subgoal by (cases s) (simp_all add: constant_of_def launch_statuses_def)
  subgoal by (cases a) (simp_all add: constant_of_def)
  done

lemma status_string_inject: "status_string a = status_string b \<longleftrightarrow> a = b"
  by (cases a; cases b) simp_all

lemma allow_cols_simps [simp]:
  "alc_launch_id (allow_args E sh lid m) = uuidToStr E lid" "alc_address (allow_args E sh lid m) = sh (mem_Address m)"
  "alc_account (allow_args E sh lid m) = Hex (mem_Address m)"
  by (simp_all add: allow_args_def)

lemma afile_cols_simps [simp]:
  "afc_launch_id (afile_args E lid f) = uuidToStr E lid" "afc_alloc_type (afile_args E lid f) = af_Type f"
  by (simp_all add: afile_args_def)

lemma committee_cols_simps [simp]:
  "coc_id (committee_args E sh lid c) = uuidToStr E (c_ID c)" "coc_launch_id (committee_args E sh lid c) = uuidToStr E lid"
  by (simp_all add: committee_args_def)

lemma member_cols_simps [simp]:
  "cmc_committee_id (member_args E sh cid im) = uuidToStr E cid" "cmc_position (member_args E sh cid im) = fst im"
  "cmc_account (member_args E sh cid im) = Hex (cm_Address (snd im))" "cmc_address (member_args E sh cid im) = sh (cm_Address (snd im))"
  "cmc_moniker (member_args E sh cid im) = cm_Moniker (snd im)"
  by (simp_all add: member_args_def split: prod.split)

interpretation launch_rows: row_codec "launch_args E" "scanLaunchCols E"
    "\<lambda>l. uuid_laws E \<and> columns_storable E l \<and> launch_columns l = l \<and> scanned l = l" for E
proof
  fix l assume ok: "uuid_laws E \<and> columns_storable E l \<and> launch_columns l = l \<and> scanned l = l"
  then have "l_Committee l = committee_zero" "l_approvedVotingPower l = fmempty"
    by (metis launch_columns_def Launch.select_convs(6) Launch.surjective Launch.update_convs(6,17))
      (metis ok launch_columns_def Launch.select_convs(17) Launch.surjective Launch.update_convs(6,17))
  moreover from ok have "l_Allowlist l = Allowlist_zero" "l_AllocationFiles l = []"
    by (metis scanned_def Launch.select_convs(4) Launch.surjective Launch.update_convs(4,10))
      (metis ok scanned_def Launch.select_convs(10) Launch.surjective Launch.update_convs(4,10))
  ultimately show "scanLaunchCols E (launch_args E l) = Inr l"
    using ok unfolding scanLaunchCols_def launch_args_def Let_def launch_cols.simps columns_storable_def
    by (simp add: columns_read launch_statuses_known and_then_def)
qed

interpretation allowlist_rows: row_codec "allow_args E AccountID_String lid" "scan_allowlist_member E" "member_storable E" for E lid
  by unfold_locales (auto simp: scan_allowlist_member_def allow_args_def member_storable_def account_ok_def columns_read and_then_def time_IsZero_def)

interpretation file_rows: row_codec "afile_args E lid" "scan_allocation_file E" "file_storable E" for E lid
  by unfold_locales (simp add: scan_allocation_file_def afile_args_def file_storable_def columns_read launch_statuses_known and_then_def)

lemma scan_committee_members:
  "list_all (\<lambda>m. account_ok E (cm_Address m)) ms \<Longrightarrow>
     all_results (scan_committee_member E) (map (member_args E AccountID_String cid) (enumerate n ms)) = Inr ms"
  by (induction ms arbitrary: n) (simp_all add: scan_committee_member_def account_ok_def and_then_def)

lemma sorted_by_position: "sort_key cmc_position (map (member_args E sh cid) (enumerate n ms)) = map (member_args E sh cid) (enumerate n ms)"
  by (rule sort_key_id_if_sorted) (simp add: comp_def)

section \<open>Loading a launch\<close>

lemma launches_repD:
  assumes "launches_rep E rows allow files ls"
  shows "rows = map (launch_args E) ls" "distinct (map l_ID ls)" "l \<in> set ls \<Longrightarrow> columns_storable E l" "l \<in> set ls \<Longrightarrow> launch_columns l = l"
    "l \<in> set ls \<Longrightarrow> list_all (member_storable E) (Members (l_Allowlist l))" "l \<in> set ls \<Longrightarrow> list_all (file_storable E) (l_AllocationFiles l)"
    "l \<in> set ls \<Longrightarrow> filter (\<lambda>r. alc_launch_id r = uuidToStr E (l_ID l)) allow = map (allow_args E AccountID_String (l_ID l)) (Members (l_Allowlist l))"
    "l \<in> set ls \<Longrightarrow> filter (\<lambda>r. afc_launch_id r = uuidToStr E (l_ID l)) files = map (afile_args E (l_ID l)) (l_AllocationFiles l)"
    "alc_launch_id ` set allow \<subseteq> uuidToStr E ` l_ID ` set ls" "afc_launch_id ` set files \<subseteq> uuidToStr E ` l_ID ` set ls"
  using assms by (simp_all add: launches_rep_def)

lemma committees_repD:
  assumes "committees_rep E rows members cs"
  shows "rows = map (\<lambda>(lid, c). committee_args E AccountID_String lid c) cs" "distinct (map (c_ID \<circ> snd) cs)"
    "(lid, c) \<in> set cs \<Longrightarrow> committee_storable E c"
    "(lid, c) \<in> set cs \<Longrightarrow> filter (\<lambda>r. cmc_committee_id r = uuidToStr E (c_ID c)) members =
       map (member_args E AccountID_String (c_ID c)) (enumerate 0 (c_Members c))"
    "cmc_committee_id ` set members \<subseteq> uuidToStr E ` (c_ID \<circ> snd) ` set cs"
  using assms by (auto simp: committees_rep_def)

lemma representsLD:
  assumes "represents E s d"
  shows "launches_rep E (sq_launches s) (sq_allowlist s) (sq_files s) (db_launches d)"
    "committees_rep E (sq_committees s) (sq_members s) (db_committees d)"
  using assms by (simp_all add: represents_def)

definition committee_of :: "db \<Rightarrow> Launch \<Rightarrow> Committee" where
  "committee_of d l = (case find (\<lambda>(lid, _). lid = l_ID l) (db_committees d) of None \<Rightarrow> l_Committee l | Some (_, c) \<Rightarrow> c)"

definition hydrated :: "db \<Rightarrow> Launch \<Rightarrow> Launch" where
  "hydrated d l = (InitVotingPower (l\<lparr>l_Committee := committee_of d l\<rparr>) (voting_powers (l_ID l) (db_joinrequests d)))
     \<lparr>l_AllocationFiles := sort_key af_Type (l_AllocationFiles l)\<rparr>"

lemma hydrate_no_faults: "w_faults w = [] \<Longrightarrow> hydrate l w = (Inr (hydrated (w_db w) l), w)"
  by (cases "find (\<lambda>(lid, _). lid = l_ID l) (db_committees (w_db w))")
    (auto simp: hydrate_def loadCommittee_def loadAllowlist_def loadVotingPower_def loadAllocationFiles_def bnd_def no_faults
      hydrated_def committee_of_def InitVotingPower_def)

lemma sql_loadVotingPower_rows:
  assumes "uuid_laws E" "represents E s d"
  shows "sql_loadVotingPower E l s = (Inr (InitVotingPower l (voting_powers (l_ID l) (db_joinrequests d))), s)"
proof -
  let ?w = "fresh_world\<lparr>w_db := d\<rparr>"
  have nf: "w_faults ?w = []" by (simp add: fresh_world_def)
  from loadVotingPower_refines [OF assms(1), of l, unfolded refines_def, rule_format, of s ?w] assms(2) nf
  have "fst (sql_loadVotingPower E l s) = Inr (InitVotingPower l (voting_powers (l_ID l) (db_joinrequests d)))"
    by (auto simp: loadVotingPower_def no_faults(1) [OF nf])
  then show ?thesis by (simp add: sql_loadVotingPower_def query_def)
qed

lemma sql_loadCommittee_rows:
  assumes E: "uuid_laws E" and R: "represents E s d" and l: "l_Committee l = committee_zero"
  shows "sql_loadCommittee E l s = (Inr (l\<lparr>l_Committee := committee_of d l\<rparr>), s)"
proof -
  note C = representsLD(2) [OF R]
  have f: "filter (\<lambda>r. coc_launch_id r = uuidToStr E (l_ID l)) (sq_committees s) =
      map (\<lambda>(lid, c). committee_args E AccountID_String lid c) (filter (\<lambda>(lid, _). lid = l_ID l) (db_committees d))"
    by (simp add: committees_repD(1) [OF C] filter_map comp_def case_prod_unfold uuidToStr_inject [OF E])
  have hd: "find P xs = (case filter P xs of [] \<Rightarrow> None | x # _ \<Rightarrow> Some x)" for P and xs :: "(uuid \<times> Committee) list"
    by (induction xs) auto
  show ?thesis
  proof (cases "filter (\<lambda>(lid, _). lid = l_ID l) (db_committees d)")
    case Nil
    then show ?thesis using f by (simp add: sql_loadCommittee_def query_def committee_of_def hd)
  next
    case (Cons lc rest)
    obtain lid c where lc: "lc = (lid, c)" by force
    have "(lid, c) \<in> set (filter (\<lambda>(lid, _). lid = l_ID l) (db_committees d))" unfolding Cons lc by simp
    then have "(lid, c) \<in> set (db_committees d)" by auto
    note ok = committees_repD(3,4) [OF C this]
    have "scan_committee E (committee_args E AccountID_String lid c) = Inr (c\<lparr>c_Members := []\<rparr>)"
      using ok(1) E by (simp add: scan_committee_def committee_args_def committee_storable_def account_ok_def columns_read and_then_def)
    moreover have "all_results (scan_committee_member E) (sort_key cmc_position (filter (\<lambda>m. cmc_committee_id m = uuidToStr E (c_ID c)) (sq_members s))) =
        Inr (c_Members c)"
      unfolding ok(2) sorted_by_position using ok(1) by (intro scan_committee_members) (simp add: committee_storable_def)
    ultimately show ?thesis using f Cons lc l
      by (simp add: sql_loadCommittee_def query_def and_then_def committee_of_def hd committee_zero_def)
  qed
qed

lemma allowlist_of_rows: "list_all (member_storable E) (Members al) \<Longrightarrow> NewAllowlistFromMembers (Members al) = al"
proof (rule NewAllowlistFromMembers_Members)
  assume ok: "list_all (member_storable E) (Members al)"
  have "mm_display v \<noteq> []" if "fmlookup (al_members al) k = Some v" for k v
  proof -
    have "(k, v) \<in> set (sorted_list_of_fmap (al_members al))"
      using that by (metis map_of_SomeD map_of_sorted_list)
    then have "account_ok E \<lparr>acct = k, orig = mm_display v\<rparr>"
      using ok unfolding Members_def by (force simp: list_all_iff member_storable_def)
    from account_ok_String [OF this] show ?thesis by simp
  qed
  then show "allowlist_ok al" by (simp add: allowlist_ok_def fmpred_iff)
qed

lemma sql_hydrate_rows:
  assumes E: "uuid_laws E" and R: "represents E s d" and l: "l \<in> set (db_launches d)"
  shows "sql_hydrate E (scanned l) s = (Inr (hydrated d l), s)"
proof -
  note L = representsLD(1) [OF R]
  have id: "l_ID (scanned l) = l_ID l" "l_Committee (scanned l) = l_Committee l" by (simp_all add: scanned_def)
  have "l_Committee (launch_columns l) = committee_zero" by (simp add: launch_columns_def)
  then have zero: "l_Committee (scanned l) = committee_zero" using launches_repD(4) [OF L l] id by simp
  have com: "committee_of d (scanned l) = committee_of d l" unfolding committee_of_def id ..
  have allow: "sql_loadAllowlist E k s = (Inr (k\<lparr>l_Allowlist := l_Allowlist l\<rparr>), s)" if "l_ID k = l_ID l" for k
    using that by (simp add: sql_loadAllowlist_def query_def launches_repD(7) [OF L l] allowlist_rows.scan_all [OF launches_repD(5) [OF L l]]
        and_then_def allowlist_of_rows [OF launches_repD(5) [OF L l]])
  have fs: "list_all (file_storable E) (sort_key af_Type (l_AllocationFiles l))" using launches_repD(6) [OF L l] by (simp add: list_all_iff)
  have files: "sql_loadAllocationFiles E k s = (Inr (k\<lparr>l_AllocationFiles := l_AllocationFiles k @ sort_key af_Type (l_AllocationFiles l)\<rparr>), s)"
    if "l_ID k = l_ID l" for k
    using that by (simp add: sql_loadAllocationFiles_def query_def launches_repD(8) [OF L l] file_rows.sorted_rows [of afc_alloc_type E "l_ID l" af_Type]
        file_rows.scan_all [OF fs] and_then_def)
  show ?thesis
    by (simp add: sql_hydrate_def sql_then_def sql_loadCommittee_rows [OF E R zero] id com allow sql_loadVotingPower_rows [OF E R] files
        hydrated_def InitVotingPower_def) (simp add: scanned_def)
qed


text \<open>The queries: the same launches are selected, ordered and put together.\<close>

lemma launch_columns_scanned: "launch_args E (scanned l) = launch_args E l" "columns_storable E (scanned l) = columns_storable E l"
    "launch_columns l = l \<Longrightarrow> launch_columns (scanned l) = scanned l" "scanned (scanned l) = scanned l"
proof -
  show "launch_columns (scanned l) = scanned l" if "launch_columns l = l"
  proof -
    have "launch_columns (scanned l) = scanned (launch_columns l)" by (simp add: launch_columns_def scanned_def)
    then show ?thesis using that by simp
  qed
qed (simp_all add: launch_args_def columns_storable_def scanned_def)

lemma scanned_ok:
  assumes "uuid_laws E" "launches_rep E rows allow files ls" "set qs \<subseteq> set ls"
  shows "list_all (\<lambda>l. uuid_laws E \<and> columns_storable E l \<and> launch_columns l = l \<and> scanned l = l) (map scanned qs)"
  using assms(1,3) launches_repD(3,4) [OF assms(2)] by (auto simp: list_all_iff launch_columns_scanned)

lemma scan_launches_rows:
  assumes E: "uuid_laws E" and R: "represents E s d" and qs: "set qs \<subseteq> set (db_launches d)" and rows: "rows s = map (launch_args E) qs"
  shows "scan_launches E rows s = (Inr (map (hydrated d) qs), s)"
proof -
  have "all_results (scanLaunchCols E) (map (launch_args E) (map scanned qs)) = Inr (map scanned qs)"
    by (rule launch_rows.scan_all, rule scanned_ok [OF E representsLD(1) [OF R] qs])
  then have "all_results (scanLaunchCols E) (rows s) = Inr (map scanned qs)" by (simp add: comp_def launch_columns_scanned rows)
  moreover have "sql_each (sql_hydrate E) (map scanned qs) s = (Inr (map (hydrated d) qs), s)"
    using qs by (induction qs) (simp_all add: sql_then_def query_def sql_hydrate_rows [OF E R])
  ultimately show ?thesis by (simp add: scan_launches_def sql_then_def query_def)
qed

lemma hydrate_all_no_faults:
  "w_faults w = [] \<Longrightarrow> foldr (\<lambda>r rest. bnd (hydrate r) (\<lambda>l. bnd rest (\<lambda>ls. ret (l # ls)))) rows (ret []) w = (Inr (map (hydrated (w_db w)) rows), w)"
  by (induction rows) (simp_all add: bnd_def ret_def hydrate_no_faults)

lemma launch_found:
  assumes E: "uuid_laws E" and R: "represents E s d" and P: "\<And>l. P (launch_args E l) = Q l" "\<And>l. Q (scanned l) = Q l"
  shows "sql_then (query (\<lambda>s. query_row (scanLaunchCols E) (filter P (sq_launches s)))) (sql_hydrate E) s =
    (map_sum id (hydrated d) (row_result (find Q (db_launches d))), s)"
proof -
  let ?ls = "db_launches d"
  have "query_row (scanLaunchCols E) (filter P (map (launch_args E) (map scanned ?ls))) = row_result (find Q (map scanned ?ls))"
    by (rule launch_rows.keyed_row [OF scanned_ok [OF E representsLD(1) [OF R] subset_refl]]) (rule P(1))
  moreover have "find Q (map scanned ls) = map_option scanned (find Q ls)" for ls by (induction ls) (simp_all add: P(2))
  ultimately have q: "query_row (scanLaunchCols E) (filter P (sq_launches s)) = row_result (map_option scanned (find Q ?ls))"
    by (simp add: representsD(1) [OF R] comp_def launch_columns_scanned)
  show ?thesis
  proof (cases "find Q ?ls")
    case (Some l)
    then have "l \<in> set ?ls" by (auto simp: find_Some_iff)
    with Some show ?thesis by (simp add: sql_then_def query_def q row_result_def sql_hydrate_rows [OF E R])
  qed (simp add: sql_then_def query_def q row_result_def)
qed

lemma launches_Find_refines:
  assumes E: "uuid_laws E"
  shows "refines E (\<lambda>_. True) (sql_launches_FindByID E lid) (launches_FindByID lid)"
    and "refines E (\<lambda>_. True) (sql_launches_FindByChainID E chainID) (launches_FindByChainID chainID)"
proof -
  show "refines E (\<lambda>_. True) (sql_launches_FindByID E lid) (launches_FindByID lid)"
  proof (rule refines_answer)
    fix s and w :: world
    assume R: "represents E s (w_db w)" and nf: "w_faults w = []"
    have "sql_launches_FindByID E lid s = (map_sum id (hydrated (w_db w)) (row_result (find (\<lambda>l. l_ID l = lid) (db_launches (w_db w)))), s)"
      unfolding sql_launches_FindByID_def by (rule launch_found [OF E R]) (simp_all add: uuidToStr_inject [OF E] scanned_def)
    then show "launches_FindByID lid w = (fst (sql_launches_FindByID E lid s), w) \<and> snd (sql_launches_FindByID E lid s) = s"
      by (cases "find (\<lambda>l. l_ID l = lid) (db_launches (w_db w))")
        (simp_all add: launches_FindByID_def bnd_def no_faults nf row_result_def hydrate_no_faults)
  qed
  show "refines E (\<lambda>_. True) (sql_launches_FindByChainID E chainID) (launches_FindByChainID chainID)"
  proof (rule refines_answer)
    fix s and w :: world
    assume R: "represents E s (w_db w)" and nf: "w_faults w = []"
    have "sql_launches_FindByChainID E chainID s =
        (map_sum id (hydrated (w_db w)) (row_result (find (\<lambda>l. r_ChainID (l_Record l) = chainID) (db_launches (w_db w)))), s)"
      unfolding sql_launches_FindByChainID_def by (rule launch_found [OF E R]) (simp_all add: scanned_def)
    then show "launches_FindByChainID chainID w = (fst (sql_launches_FindByChainID E chainID s), w) \<and> snd (sql_launches_FindByChainID E chainID s) = s"
      by (cases "find (\<lambda>l. r_ChainID (l_Record l) = chainID) (db_launches (w_db w))")
        (simp_all add: launches_FindByChainID_def bnd_def no_faults nf row_result_def hydrate_no_faults)
  qed
qed

lemma membershipFilter_rows:
  assumes E: "uuid_laws E" and R: "represents E s d" and l: "l \<in> set (db_launches d)"
  shows "membershipFilter account s (launch_args E l) = in_membership_filter account d l"
proof -
  note L = representsLD(1) [OF R] and C = representsLD(2) [OF R]
  have "list_ex (\<lambda>a. alc_launch_id a = uuidToStr E (l_ID l) \<and> alc_account a = account) (sq_allowlist s) \<longleftrightarrow>
      list_ex (\<lambda>a. alc_account a = account) (filter (\<lambda>r. alc_launch_id r = uuidToStr E (l_ID l)) (sq_allowlist s))" by (auto simp: list_ex_iff)
  also have "\<dots> \<longleftrightarrow> (\<exists>kv \<in> set (sorted_list_of_fmap (al_members (l_Allowlist l))). fst kv = account)"
    unfolding launches_repD(7) [OF L l] by (auto simp: list_ex_iff Members_def Hex_def split_beta)
  also have "\<dots> \<longleftrightarrow> fmlookup (al_members (l_Allowlist l)) account \<noteq> None"
    using map_of_eq_None_iff [of "sorted_list_of_fmap (al_members (l_Allowlist l))" account] by (auto simp: map_of_sorted_list)
  finally have a: "list_ex (\<lambda>a. alc_launch_id a = uuidToStr E (l_ID l) \<and> alc_account a = account) (sq_allowlist s) \<longleftrightarrow>
      fmlookup (al_members (l_Allowlist l)) account \<noteq> None" .
  have m: "list_ex (\<lambda>m. cmc_committee_id m = uuidToStr E (c_ID c) \<and> cmc_account m = account) (sq_members s) \<longleftrightarrow>
      list_ex (\<lambda>m. acct (cm_Address m) = account) (c_Members c)" if "(lid, c) \<in> set (db_committees d)" for lid c
  proof -
    have "list_ex (\<lambda>m. cmc_committee_id m = uuidToStr E (c_ID c) \<and> cmc_account m = account) (sq_members s) \<longleftrightarrow>
      list_ex (\<lambda>m. cmc_account m = account) (filter (\<lambda>r. cmc_committee_id r = uuidToStr E (c_ID c)) (sq_members s))" by (auto simp: list_ex_iff)
    also have "\<dots> \<longleftrightarrow> account \<in> (\<lambda>im. Hex (cm_Address (snd im))) ` set (enumerate 0 (c_Members c))"
      unfolding committees_repD(4) [OF C that] by (auto simp: list_ex_iff)
    also have "\<dots> \<longleftrightarrow> account \<in> (\<lambda>m. Hex (cm_Address m)) ` snd ` set (enumerate 0 (c_Members c))" by (simp only: image_image)
    also have "\<dots> \<longleftrightarrow> list_ex (\<lambda>m. acct (cm_Address m) = account) (c_Members c)"
      unfolding set_map [symmetric] map_snd_enumerate by (auto simp: list_ex_iff Hex_def)
    finally show ?thesis .
  qed
  have "list_ex (\<lambda>c. coc_launch_id c = uuidToStr E (l_ID l) \<and>
        list_ex (\<lambda>m. cmc_committee_id m = coc_id c \<and> cmc_account m = account) (sq_members s)) (map (\<lambda>(lid, c). committee_args E AccountID_String lid c) cs) =
      list_ex (\<lambda>(lid, c). lid = l_ID l \<and> list_ex (\<lambda>m. acct (cm_Address m) = account) (c_Members c)) cs" if "set cs \<subseteq> set (db_committees d)" for cs
    using that by (induction cs) (auto simp: m uuidToStr_inject [OF E])
  then show ?thesis unfolding membershipFilter_def in_membership_filter_def launch_cols_simps a committees_repD(1) [OF C] by simp
qed

lemma launches_selected:
  assumes "represents E s d" "\<And>l. l \<in> set (db_launches d) \<Longrightarrow> P (launch_args E l) = Q l"
  shows "filter P (sq_launches s) = map (launch_args E) (filter Q (db_launches d))"
    "sort_key lac_created_at (filter P (sq_launches s)) = map (launch_args E) (sort_key (\<lambda>r. timeToStr E (l_CreatedAt r)) (filter Q (db_launches d)))"
proof -
  show f: "filter P (sq_launches s) = map (launch_args E) (filter Q (db_launches d))"
    unfolding representsD(1) [OF assms(1)] by (rule launch_rows.filtered) (rule assms(2))
  show "sort_key lac_created_at (filter P (sq_launches s)) = map (launch_args E) (sort_key (\<lambda>r. timeToStr E (l_CreatedAt r)) (filter Q (db_launches d)))"
    unfolding f by (rule launch_rows.sorted_rows) simp
qed

lemma launches_lists_refine:
  assumes E: "uuid_laws E"
  shows "refines E (\<lambda>_. True) (sql_launches_FindByStatus E st) (launches_FindByStatus E st)"
    and "refines E (\<lambda>_. True) (sql_launches_FindAll E a pg pp) (launches_FindAll E a pg pp)"
proof -
  show "refines E (\<lambda>_. True) (sql_launches_FindByStatus E st) (launches_FindByStatus E st)"
  proof (rule refines_answer)
    fix s and w :: world
    assume R: "represents E s (w_db w)" and nf: "w_faults w = []"
    let ?qs = "sort_key (\<lambda>r. timeToStr E (l_CreatedAt r)) (filter (\<lambda>r. l_Status r = st) (db_launches (w_db w)))"
    have "sql_launches_FindByStatus E st s = (Inr (map (hydrated (w_db w)) ?qs), s)" unfolding sql_launches_FindByStatus_def
      by (rule scan_launches_rows [OF E R]) (auto simp: status_string_inject intro!: launches_selected(2) [OF R])
    then show "launches_FindByStatus E st w = (fst (sql_launches_FindByStatus E st s), w) \<and> snd (sql_launches_FindByStatus E st s) = s"
      by (simp add: launches_FindByStatus_def bnd_def no_faults nf hydrate_all_no_faults)
  qed
  show "refines E (\<lambda>_. True) (sql_launches_FindAll E a pg pp) (launches_FindAll E a pg pp)"
  proof (rule refines_answer)
    fix s and w :: world
    assume R: "represents E s (w_db w)" and nf: "w_faults w = []"
    show "launches_FindAll E a pg pp w = (fst (sql_launches_FindAll E a pg pp s), w) \<and> snd (sql_launches_FindAll E a pg pp s) = s"
    proof (cases "NewAccountID E a")
      case (Inr i)
      let ?Q = "in_membership_filter (Hex i) (w_db w)"
      let ?qs = "page_of pg pp (rev (sort_key (\<lambda>r. timeToStr E (l_CreatedAt r)) (filter ?Q (db_launches (w_db w)))))"
      note sel = launches_selected [OF R, of "membershipFilter (Hex i) s" ?Q, OF membershipFilter_rows [OF E R]]
      have "scan_launches E (\<lambda>s. page_of pg pp (rev (sort_key lac_created_at (filter (membershipFilter (Hex i) s) (sq_launches s))))) s =
          (Inr (map (hydrated (w_db w)) ?qs), s)"
      proof (rule scan_launches_rows [OF E R])
        show "set ?qs \<subseteq> set (db_launches (w_db w))" by (auto simp: page_of_def Let_def dest!: in_set_takeD in_set_dropD split: if_splits)
      qed (simp only: sel(2) rev_map launch_rows.paged)
      then show ?thesis using Inr sel(1)
        by (simp add: launches_FindAll_def sql_launches_FindAll_def sql_then_def query_def bnd_def ret_def no_faults nf hydrate_all_no_faults)
    qed (simp add: launches_FindAll_def sql_launches_FindAll_def query_def ret_def)
  qed
qed


section \<open>Saving a launch\<close>

text \<open>A table of the database as a field that can be read and changed; inserting fresh rows appends them.\<close>

locale sql_table =
  fixes rows :: "sqldb \<Rightarrow> 'r list" and upd :: "('r list \<Rightarrow> 'r list) \<Rightarrow> sqldb \<Rightarrow> sqldb"
  assumes rows_upd: "rows (upd f s) = f (rows s)"
    and upd_upd: "upd g (upd f s) = upd (\<lambda>rs. g (f rs)) s"
    and upd_same: "upd (\<lambda>rs. rs) s = s"
begin

lemma insert_all:
  assumes "\<And>f s. fk (upd f s) = fk s" "fk s" "distinct (map key rs)" "key ` set rs \<inter> key ` set (rows s) = {}"
  shows "sql_each (insert_into rows upd key fk) rs s = (Inr (map (\<lambda>_. ()) rs), upd (\<lambda>t. t @ rs) s)"
  using assms(2-)
proof (induction rs arbitrary: s)
  case (Cons r rs)
  let ?s = "upd (\<lambda>t. t @ [r]) s"
  have "insert_into rows upd key fk r s = (Inr (), ?s)" using Cons.prems by (simp add: insert_into_def)
  moreover have "sql_each (insert_into rows upd key fk) rs ?s = (Inr (map (\<lambda>_. ()) rs), upd (\<lambda>t. t @ rs) ?s)"
    using Cons.prems by (intro Cons.IH) (auto simp: rows_upd assms(1))
  ultimately show ?case by (simp add: sql_then_def query_def upd_upd)
qed (simp add: upd_same)

end

interpretation member_table: sql_table sq_members sq_members_update by unfold_locales simp_all
interpretation allow_table: sql_table sq_allowlist sq_allowlist_update by unfold_locales simp_all
interpretation file_table: sql_table sq_files sq_files_update by unfold_locales simp_all

lemma refines_then:
  assumes c: "refines E pre c m" and f: "\<And>x. refines E (post x) (f x) (g x)"
    and post: "\<And>w x w'. pre (w_db w) \<Longrightarrow> w_faults w = [] \<Longrightarrow> m w = (Inr x, w') \<Longrightarrow> post x (w_db w')"
  shows "refines E pre (sql_then c f) (bnd m g)"
  unfolding refines_def
proof (intro allI impI)
  fix s and w :: world assume P: "represents E s (w_db w) \<and> w_faults w = [] \<and> pre (w_db w)"
  then obtain d1 where d1: "m w = (fst (c s), w\<lparr>w_db := d1\<rparr>)" "represents E (snd (c s)) d1" using c unfolding refines_def by blast
  show "\<exists>d'. bnd m g w = (fst (sql_then c f s), w\<lparr>w_db := d'\<rparr>) \<and> represents E (snd (sql_then c f s)) d'"
  proof (cases "c s")
    case (Pair r s1)
    show ?thesis
    proof (cases r)
      case (Inl e)
      then show ?thesis using Pair d1 by (auto simp: bnd_def sql_then_def)
    next
      case (Inr x)
      then have mw: "m w = (Inr x, w\<lparr>w_db := d1\<rparr>)" using Pair d1 by simp
      have "represents E s1 (w_db (w\<lparr>w_db := d1\<rparr>)) \<and> w_faults (w\<lparr>w_db := d1\<rparr>) = [] \<and> post x (w_db (w\<lparr>w_db := d1\<rparr>))"
        using post [OF _ _ mw] P d1 Pair by simp
      from f [of x, unfolded refines_def, rule_format, OF this] show ?thesis using Pair Inr mw by (auto simp: bnd_def sql_then_def)
    qed
  qed
qed

definition stored_member :: "env \<Rightarrow> string \<Rightarrow> Member \<Rightarrow> Member" where
  "stored_member E prefix m = m\<lparr>mem_Address := stored_account E prefix (mem_Address m)\<rparr>"

definition stored_committee :: "env \<Rightarrow> string \<Rightarrow> Committee \<Rightarrow> Committee" where
  "stored_committee E prefix c = c\<lparr>c_LeadAddress := stored_account E prefix (c_LeadAddress c),
     c_Members := map (\<lambda>m. m\<lparr>cm_Address := stored_account E prefix (cm_Address m)\<rparr>) (c_Members c)\<rparr>"

definition launch_storable :: "env \<Rightarrow> Launch \<Rightarrow> bool" where
  "launch_storable E l \<longleftrightarrow> columns_storable E l \<and> committee_storable E (stored_committee E (r_Bech32Prefix (l_Record l)) (l_Committee l)) \<and>
     list_all (\<lambda>m. member_storable E (stored_member E (r_Bech32Prefix (l_Record l)) m)) (Members (l_Allowlist l)) \<and>
     list_all (file_storable E) (l_AllocationFiles l) \<and> distinct (map af_Type (l_AllocationFiles l))"

lemma distinct_keys:
  assumes "distinct (map f xs)" "\<And>x y. x \<in> set xs \<Longrightarrow> y \<in> set xs \<Longrightarrow> k (g x) = k (g y) \<Longrightarrow> f x = f y"
  shows "distinct (map k (map g xs))"
  using assms unfolding map_map distinct_map inj_on_def comp_def by blast

lemma account_ok_inject: "account_ok E a \<Longrightarrow> account_ok E b \<Longrightarrow> AccountID_String a = AccountID_String b \<Longrightarrow> a = b"
  unfolding account_ok_def by (metis sum.inject(2))

lemma rendered: "account_ok E (stored_account E p a) \<Longrightarrow> underPrefix E a p = AccountID_String (stored_account E p a)"
  using account_ok_String(2) [of E "stored_account E p a"] by (simp add: stored_account_def)

text \<open>What the statements of the typed repository leave, when none fails.\<close>

lemma on_committee_last:
  assumes "\<forall>(_, c) \<in> set cs. c_ID c \<noteq> cid" "c_ID c0 = cid"
  shows "on_committee cid f (d\<lparr>db_committees := cs @ [(lid, c0)]\<rparr>) = d\<lparr>db_committees := cs @ [(lid, f c0)]\<rparr>"
proof -
  have "map (\<lambda>(lid, c). if c_ID c = cid then (lid, f c) else (lid, c)) cs = cs"
    using assms(1) by (intro map_idI) (auto split: prod.splits)
  then show ?thesis using assms(2) by (simp add: on_committee_def)
qed

lemma saveCommittee_no_faults:
  assumes nf: "w_faults w = []"
  shows "saveCommittee E l w = (Inr (), w\<lparr>w_db := (w_db w)\<lparr>db_committees := filter (\<lambda>(_, o'). c_ID o' \<noteq> c_ID (l_Committee l)) (db_committees (w_db w)) @
    [(l_ID l, stored_committee E (r_Bech32Prefix (l_Record l)) (l_Committee l))]\<rparr>\<rparr>)"
proof -
  let ?c = "l_Committee l" and ?p = "r_Bech32Prefix (l_Record l)" and ?d = "w_db w"
  let ?cs = "filter (\<lambda>(_, o'). c_ID o' \<noteq> c_ID ?c) (db_committees ?d)"
  let ?st = "\<lambda>m. m\<lparr>cm_Address := stored_account E ?p (cm_Address m)\<rparr>"
  have out: "\<forall>(_, o') \<in> set ?cs. c_ID o' \<noteq> c_ID ?c" by auto
  define c1 where "c1 = ?c\<lparr>c_Members := (case find (\<lambda>(_, o'). c_ID o' = c_ID ?c) (db_committees ?d) of None \<Rightarrow> [] | Some (_, o') \<Rightarrow> c_Members o'),
      c_LeadAddress := stored_account E ?p (c_LeadAddress ?c)\<rparr>"
  have rep: "replace_committee E l ?d = ?d\<lparr>db_committees := ?cs @ [(l_ID l, c1)]\<rparr>" unfolding replace_committee_def Let_def c1_def ..
  have c1: "c1\<lparr>c_Members := ms\<rparr> = (stored_committee E ?p ?c)\<lparr>c_Members := ms\<rparr>" for ms by (simp add: c1_def stored_committee_def)
  have id1: "c_ID c1 = c_ID ?c" using arg_cong [OF c1 [of "[]"], of c_ID] by (simp add: stored_committee_def)
  have "fold (\<lambda>m. on_committee (c_ID ?c) (\<lambda>o'. o'\<lparr>c_Members := c_Members o' @ [?st m]\<rparr>)) ms
      (?d\<lparr>db_committees := ?cs @ [(l_ID l, c1\<lparr>c_Members := pre\<rparr>)]\<rparr>) =
      ?d\<lparr>db_committees := ?cs @ [(l_ID l, c1\<lparr>c_Members := pre @ map ?st ms\<rparr>)]\<rparr>" for ms pre
    by (induction ms arbitrary: pre) (simp_all add: on_committee_last [OF out] id1)
  from this [of "c_Members ?c" "[]"] show ?thesis
    by (simp add: saveCommittee_def Let_def bnd_def no_faults nf each_no_faults rep on_committee_last [OF out] id1 c1)
      (simp add: stored_committee_def)
qed

lemma on_launch_compose: "(\<And>r. l_ID (g r) = l_ID r) \<Longrightarrow> on_launch lid f (on_launch lid g d) = on_launch lid (\<lambda>r. f (g r)) d"
  by (simp add: on_launch_def comp_def if_distrib cong: if_cong)

lemma on_launch_fold:
  assumes "\<And>x r. l_ID (F x r) = l_ID r" "\<And>r. l_ID (g r) = l_ID r"
  shows "fold (\<lambda>x. on_launch lid (F x)) xs (on_launch lid g d) = on_launch lid (\<lambda>r. fold F xs (g r)) d"
  using assms(2)
proof (induction xs arbitrary: g)
  case (Cons x xs)
  have "fold (\<lambda>x. on_launch lid (F x)) xs (on_launch lid (\<lambda>r. F x (g r)) d) = on_launch lid (\<lambda>r. fold F xs (F x (g r))) d"
    by (rule Cons.IH) (simp add: assms(1) Cons.prems)
  then show ?case by (simp add: on_launch_compose Cons.prems)
qed simp

lemma saveAllowlist_no_faults:
  assumes nf: "w_faults w = []"
  shows "saveAllowlist E l w = (Inr (), w\<lparr>w_db := on_launch (l_ID l) (\<lambda>r. r\<lparr>l_Allowlist := NewAllowlistFromMembers
    (map (stored_member E (r_Bech32Prefix (l_Record l))) (Members (l_Allowlist l)))\<rparr>) (w_db w)\<rparr>)"
proof -
  let ?F = "\<lambda>m (r :: Launch). r\<lparr>l_Allowlist := Allowlist_AddMember (l_Allowlist r) (stored_member E (r_Bech32Prefix (l_Record l)) m)\<rparr>"
  have "fold ?F ms (r\<lparr>l_Allowlist := \<lparr>al_members = A\<rparr>\<rparr>) = r\<lparr>l_Allowlist := \<lparr>al_members = fold (\<lambda>m. fmupd (Hex (mem_Address m)) (meta_of m))
      (map (stored_member E (r_Bech32Prefix (l_Record l))) ms) A\<rparr>\<rparr>" for ms A and r :: Launch
    by (induction ms arbitrary: A) (simp_all add: Allowlist_AddMember_def)
  then have "fold ?F ms (r\<lparr>l_Allowlist := Allowlist_zero\<rparr>) = r\<lparr>l_Allowlist := NewAllowlistFromMembers
      (map (stored_member E (r_Bech32Prefix (l_Record l))) ms)\<rparr>" for ms and r :: Launch
    by (simp add: Allowlist_zero_def NewAllowlistFromMembers_def)
  then show ?thesis
    by (simp add: saveAllowlist_def bnd_def no_faults nf each_no_faults stored_member_def [symmetric] on_launch_fold)
qed

lemma saveAllocationFiles_no_faults:
  assumes nf: "w_faults w = []"
  shows "saveAllocationFiles l w = (Inr (), w\<lparr>w_db := on_launch (l_ID l) (\<lambda>r. r\<lparr>l_AllocationFiles := l_AllocationFiles l\<rparr>) (w_db w)\<rparr>)"
proof -
  have "fold (\<lambda>f r. r\<lparr>l_AllocationFiles := l_AllocationFiles r @ [f]\<rparr>) fs (r\<lparr>l_AllocationFiles := pre\<rparr>) =
      r\<lparr>l_AllocationFiles := pre @ fs\<rparr>" for fs pre and r :: Launch
    by (induction fs arbitrary: pre) simp_all
  then show ?thesis by (simp add: saveAllocationFiles_def bnd_def no_faults nf each_no_faults on_launch_fold)
qed


text \<open>The launches table.\<close>

lemma same_ids: "map l_ID xs = map l_ID ys \<Longrightarrow> l_ID ` set xs = l_ID ` set ys"
  by (metis list.set_map)

lemma launches_rep_map:
  assumes L: "launches_rep E rows allow files ls"
    and g: "\<And>r. r \<in> set ls \<Longrightarrow> l_ID (g r) = l_ID r" "\<And>r. r \<in> set ls \<Longrightarrow> columns_storable E (g r)" "\<And>r. r \<in> set ls \<Longrightarrow> launch_columns (g r) = g r"
      "\<And>r. r \<in> set ls \<Longrightarrow> list_all (member_storable E) (Members (l_Allowlist (g r)))" "\<And>r. r \<in> set ls \<Longrightarrow> list_all (file_storable E) (l_AllocationFiles (g r))"
      "\<And>r. r \<in> set ls \<Longrightarrow> filter (\<lambda>a. alc_launch_id a = uuidToStr E (l_ID r)) allow' = map (allow_args E AccountID_String (l_ID r)) (Members (l_Allowlist (g r)))"
      "\<And>r. r \<in> set ls \<Longrightarrow> filter (\<lambda>f. afc_launch_id f = uuidToStr E (l_ID r)) files' = map (afile_args E (l_ID r)) (l_AllocationFiles (g r))"
    and sub: "alc_launch_id ` set allow' \<subseteq> uuidToStr E ` l_ID ` set ls" "afc_launch_id ` set files' \<subseteq> uuidToStr E ` l_ID ` set ls"
  shows "launches_rep E (map (launch_args E) (map g ls)) allow' files' (map g ls)"
proof -
  have ids: "map l_ID (map g ls) = map l_ID ls" using g(1) by simp
  then have "l_ID ` set (map g ls) = l_ID ` set ls" by (rule same_ids)
  then have "alc_launch_id ` set allow' \<union> afc_launch_id ` set files' \<subseteq> uuidToStr E ` l_ID ` set (map g ls)" using sub by simp
  moreover have "distinct (map l_ID (map g ls))" unfolding ids by (rule launches_repD(2) [OF L])
  ultimately show ?thesis unfolding launches_rep_def using g by simp
qed

lemma list_update_map:
  assumes "distinct (map key xs)" "i < length xs" "P (xs ! i)" "\<And>x. P x \<Longrightarrow> key x = k"
  shows "xs[i := g (xs ! i)] = map (\<lambda>x. if P x then g x else x) xs"
proof (rule nth_equalityI)
  fix j assume "j < length (xs[i := g (xs ! i)])"
  then have j: "j < length xs" by simp
  have "\<not> P (xs ! j)" if "j \<noteq> i"
    using that assms(4) [OF assms(3)] assms(4) [of "xs ! j"] nth_eq_iff_index_eq [OF assms(1), of i j] j assms(2) by auto
  then show "xs[i := g (xs ! i)] ! j = map (\<lambda>x. if P x then g x else x) xs ! j" using j assms(2,3) by (cases "j = i") auto
qed simp

lemma filter_unique:
  "distinct (map key xs) \<Longrightarrow> x \<in> set xs \<Longrightarrow> P x \<Longrightarrow> (\<And>y. P y \<Longrightarrow> key y = key x) \<Longrightarrow> filter P xs = [x]"
proof (induction xs)
  case (Cons a xs)
  show ?case
  proof (cases "x \<in> set xs")
    case True
    then have "key a \<noteq> key x" using Cons.prems(1) by auto
    then have "\<not> P a" using Cons.prems(4) by blast
    moreover have "filter P xs = [x]" using Cons.prems(1) by (intro Cons.IH [OF _ True Cons.prems(3,4)]) simp_all
    ultimately show ?thesis by simp
  next
    case False
    then have "a = x" using Cons.prems(2) by simp
    then have "\<not> P y" if "y \<in> set xs" for y using Cons.prems(1) Cons.prems(4) [of y] that by (metis distinct.simps(2) image_eqI list.set_map list.simps(9))
    then show ?thesis using Cons.prems(3) \<open>a = x\<close> by (simp add: filter_empty_conv)
  qed
qed simp

lemma launches_update_refines:
  assumes E: "uuid_laws E"
  shows "refines E (\<lambda>_. launch_storable E l) (sql_launches_update E l) (execs (launches_update l))"
  unfolding refines_def
proof (intro allI impI)
  fix s and w :: world
  assume "represents E s (w_db w) \<and> w_faults w = [] \<and> launch_storable E l"
  then have R: "represents E s (w_db w)" and nf: "w_faults w = []" and ok: "columns_storable E l" by (auto simp: launch_storable_def)
  note L = representsLD(1) [OF R]
  let ?d = "w_db w" and ?ls = "db_launches (w_db w)"
  let ?P = "\<lambda>r. l_ID r = l_ID l \<and> l_Version r = l_Version l"
  let ?g = "\<lambda>r. (launch_columns l)\<lparr>l_Version := l_Version l + 1, l_CreatedAt := l_CreatedAt r, l_Allowlist := l_Allowlist r, l_AllocationFiles := l_AllocationFiles r\<rparr>"
  let ?hit = "\<lambda>r. lac_id r = lac_id (launch_args E l) \<and> lac_version r = lac_version (launch_args E l)"
  let ?ls' = "map (\<lambda>r. if ?P r then ?g r else r) ?ls"
  have hits: "filter ?hit (sq_launches s) = map (launch_args E) (filter ?P ?ls)"
    unfolding representsD(1) [OF R] by (rule launch_rows.filtered) (simp add: uuidToStr_inject [OF E])
  have other: "list_ex (\<lambda>r. lac_id r \<noteq> lac_id (launch_args E l) \<and> lac_chain_id r = lac_chain_id (launch_args E l)) (sq_launches s) =
      list_ex (\<lambda>r. l_ID r \<noteq> l_ID l \<and> r_ChainID (l_Record r) = r_ChainID (l_Record l)) ?ls"
    by (simp add: representsD(1) [OF R] list_ex_iff uuidToStr_inject [OF E])
  have "lac_set (launch_args E r) (launch_args E l) = launch_args E (?g r)" if "?P r" for r
    using that by (simp add: lac_set_def launch_args_def launch_columns_def Let_def)
  then have upd: "map (\<lambda>r. if ?hit r then lac_set r (launch_args E l) else r) (sq_launches s) = map (launch_args E) ?ls'"
    unfolding representsD(1) [OF R] by (auto simp: uuidToStr_inject [OF E])
  have c: "sql_launches_update E l s = (if filter ?P ?ls \<noteq> [] \<and> list_ex (\<lambda>r. l_ID r \<noteq> l_ID l \<and> r_ChainID (l_Record r) = r_ChainID (l_Record l)) ?ls then (Inl [], s)
      else (Inr (length (filter ?P ?ls)), s\<lparr>sq_launches := map (launch_args E) ?ls'\<rparr>))"
    unfolding sql_launches_update_def Let_def hits other upd by simp
  have "launches_rep E (map (launch_args E) ?ls') (sq_allowlist s) (sq_files s) ?ls'"
    by (rule launches_rep_map [OF L]) (use launches_repD(3-10) [OF L] ok in \<open>simp_all add: columns_storable_def launch_columns_def\<close>)
  then have R': "represents E (s\<lparr>sq_launches := map (launch_args E) ?ls'\<rparr>) (?d\<lparr>db_launches := ?ls'\<rparr>)" using R by (simp add: represents_def)
  show "\<exists>d'. execs (launches_update l) w = (fst (sql_launches_update E l s), w\<lparr>w_db := d'\<rparr>) \<and> represents E (snd (sql_launches_update E l s)) d'"
  proof (cases "find_index ?P ?ls")
    case None
    then have "\<forall>r \<in> set ?ls. \<not> ?P r" by (simp add: find_index_None)
    then have "filter ?P ?ls = []" "?ls' = ?ls" by (simp add: filter_empty_conv, intro map_idI) auto
    then show ?thesis using None R R' by (auto simp: execs_no_faults [OF nf] launches_update_def c intro!: exI [of _ ?d])
  next
    case (Some i)
    then have i: "i < length ?ls" "?P (?ls ! i)" unfolding find_index_Some by simp_all
    have l': "?ls[i := ?g (?ls ! i)] = ?ls'"
      by (rule list_update_map [OF launches_repD(2) [OF L], of _ _ "l_ID l"]) (use i in auto)
    have "filter ?P ?ls = [?ls ! i]" by (rule filter_unique [OF launches_repD(2) [OF L]]) (use i in auto)
    then show ?thesis using Some R R' unfolding execs_no_faults [OF nf] launches_update_def Let_def c
      by (cases "list_ex (\<lambda>r. l_ID r \<noteq> l_ID l \<and> r_ChainID (l_Record r) = r_ChainID (l_Record l)) ?ls") (auto simp: l' intro: exI [of _ ?d])
  qed
qed

lemma launches_rep_append:
  assumes E: "uuid_laws E" and L: "launches_rep E rows allow files ls" and new: "l_ID n \<notin> l_ID ` set ls"
    and n: "columns_storable E n" "launch_columns n = n" "l_Allowlist n = Allowlist_zero" "l_AllocationFiles n = []"
  shows "launches_rep E (map (launch_args E) (ls @ [n])) allow files (ls @ [n])"
proof -
  have "uuidToStr E (l_ID n) \<notin> uuidToStr E ` l_ID ` set ls" using new by (auto simp: uuidToStr_inject [OF E])
  then have "filter (\<lambda>r. alc_launch_id r = uuidToStr E (l_ID n)) allow = []" "filter (\<lambda>r. afc_launch_id r = uuidToStr E (l_ID n)) files = []"
    unfolding filter_empty_conv using launches_repD(9,10) [OF L] by (metis image_eqI subsetD)+
  moreover have "Members Allowlist_zero = []" by (simp add: Members_def Allowlist_zero_def sorted_list_of_fmap_def sorted_list_of_fset.rep_eq)
  moreover have "alc_launch_id ` set allow \<union> afc_launch_id ` set files \<subseteq> uuidToStr E ` l_ID ` set (ls @ [n])"
    using launches_repD(9,10) [OF L] by auto
  ultimately show ?thesis unfolding launches_rep_def using n new launches_repD(2-8) [OF L] by simp
qed

lemma launches_insert_refines:
  assumes E: "uuid_laws E"
  shows "refines E (\<lambda>_. launch_storable E l)
    (\<lambda>s. case sql_launches_insert E l s of (Inl _, s') \<Rightarrow> (Inl [ErrConflict], s') | (Inr u, s') \<Rightarrow> (Inr u, s'))
    (\<lambda>w. case execs (launches_insert l) w of (Inl _, w') \<Rightarrow> (Inl [ErrConflict], w') | (Inr u, w') \<Rightarrow> (Inr u, w'))"
  unfolding refines_def
proof (intro allI impI)
  fix s and w :: world
  assume "represents E s (w_db w) \<and> w_faults w = [] \<and> launch_storable E l"
  then have R: "represents E s (w_db w)" and nf: "w_faults w = []" and ok: "columns_storable E l" by (auto simp: launch_storable_def)
  note L = representsLD(1) [OF R]
  let ?d = "w_db w" and ?ls = "db_launches (w_db w)"
  let ?n = "(launch_columns l)\<lparr>l_Version := 0, l_Allowlist := Allowlist_zero, l_AllocationFiles := []\<rparr>"
  let ?taken = "list_ex (\<lambda>r. l_ID r = l_ID l \<or> r_ChainID (l_Record r) = r_ChainID (l_Record l)) ?ls"
  have row: "(launch_args E l)\<lparr>lac_version := 0\<rparr> = launch_args E ?n" by (simp add: launch_args_def launch_columns_def Let_def)
  have "list_ex (\<lambda>r. lac_id r = lac_id (launch_args E ?n) \<or> lac_chain_id r = lac_chain_id (launch_args E ?n)) (sq_launches s) = ?taken"
    by (simp add: representsD(1) [OF R] list_ex_iff uuidToStr_inject [OF E] launch_columns_def)
  then have c: "sql_launches_insert E l s = (if ?taken then (Inl [], s) else (Inr (), s\<lparr>sq_launches := map (launch_args E) (?ls @ [?n])\<rparr>))"
    unfolding sql_launches_insert_def Let_def row using representsD(1) [OF R] by simp
  have "launches_rep E (map (launch_args E) (?ls @ [?n])) (sq_allowlist s) (sq_files s) (?ls @ [?n])" if "\<not> ?taken"
    using that ok by (intro launches_rep_append [OF E L]) (auto simp: list_ex_iff columns_storable_def launch_columns_def)
  then have "\<not> ?taken \<Longrightarrow> represents E (s\<lparr>sq_launches := map (launch_args E) (?ls @ [?n])\<rparr>) (?d\<lparr>db_launches := ?ls @ [?n]\<rparr>)"
    using R by (simp add: represents_def)
  then show "\<exists>d'. (case execs (launches_insert l) w of (Inl _, w') \<Rightarrow> (Inl [ErrConflict], w') | (Inr u, w') \<Rightarrow> (Inr u, w')) =
      (fst (case sql_launches_insert E l s of (Inl _, s') \<Rightarrow> (Inl [ErrConflict], s') | (Inr u, s') \<Rightarrow> (Inr u, s')), w\<lparr>w_db := d'\<rparr>) \<and>
      represents E (snd (case sql_launches_insert E l s of (Inl _, s') \<Rightarrow> (Inl [ErrConflict], s') | (Inr u, s') \<Rightarrow> (Inr u, s'))) d'"
    using R unfolding execs_no_faults [OF nf] launches_insert_def c by (cases ?taken) (auto intro: exI [of _ ?d])
qed


text \<open>The committee and the lists of a launch.\<close>

lemma distinct_positions: "distinct (map (\<lambda>im. (u, fst im)) (enumerate n ms))"
proof -
  have "map (\<lambda>im. (u, fst im)) (enumerate n ms) = map (Pair u) (map fst (enumerate n ms))" by (simp only: map_map comp_def)
  then show ?thesis by (simp only: map_fst_enumerate) (simp add: distinct_map inj_on_def)
qed

lemma committees_rep_replace:
  assumes E: "uuid_laws E" and C: "committees_rep E rows ms cs" and ok: "committee_storable E c"
  shows "committees_rep E (map (\<lambda>(lid, c). committee_args E AccountID_String lid c) (filter (\<lambda>(_, o'). c_ID o' \<noteq> c_ID c) cs @ [(lid, c)]))
    (filter (\<lambda>r. cmc_committee_id r \<noteq> uuidToStr E (c_ID c)) ms @ map (member_args E AccountID_String (c_ID c)) (enumerate 0 (c_Members c)))
    (filter (\<lambda>(_, o'). c_ID o' \<noteq> c_ID c) cs @ [(lid, c)])"
proof -
  let ?cs = "filter (\<lambda>(_, o'). c_ID o' \<noteq> c_ID c) cs"
  let ?ms = "filter (\<lambda>r. cmc_committee_id r \<noteq> uuidToStr E (c_ID c)) ms @ map (member_args E AccountID_String (c_ID c)) (enumerate 0 (c_Members c))"
  have "distinct (map (c_ID \<circ> snd) ?cs)" using committees_repD(2) [OF C] by (rule distinct_map_filter)
  moreover have "c_ID c \<notin> set (map (c_ID \<circ> snd) ?cs)" by auto
  ultimately have "distinct (map (c_ID \<circ> snd) (?cs @ [(lid, c)]))" by simp
  moreover have "committee_storable E c' \<and> filter (\<lambda>r. cmc_committee_id r = uuidToStr E (c_ID c')) ?ms =
      map (member_args E AccountID_String (c_ID c')) (enumerate 0 (c_Members c'))" if "(l', c') \<in> set (?cs @ [(lid, c)])" for l' c'
  proof (cases "c' = c")
    case False
    with that have old: "(l', c') \<in> set cs" "c_ID c' \<noteq> c_ID c" by auto
    then have "filter (\<lambda>r. cmc_committee_id r = uuidToStr E (c_ID c')) ?ms = filter (\<lambda>r. cmc_committee_id r = uuidToStr E (c_ID c')) ms"
      by (auto simp: uuidToStr_inject [OF E] filter_empty_conv intro!: filter_cong)
    then show ?thesis using committees_repD(3,4) [OF C old(1)] by simp
  qed (simp add: ok filter_empty_conv)
  moreover have "cmc_committee_id ` set ?ms \<subseteq> uuidToStr E ` (c_ID \<circ> snd) ` set (?cs @ [(lid, c)])"
  proof
    fix i assume "i \<in> cmc_committee_id ` set ?ms"
    then consider "i = uuidToStr E (c_ID c)" | "i \<noteq> uuidToStr E (c_ID c)" "i \<in> cmc_committee_id ` set ms" by auto
    then show "i \<in> uuidToStr E ` (c_ID \<circ> snd) ` set (?cs @ [(lid, c)])"
    proof cases
      case 2
      then have "i \<in> uuidToStr E ` (c_ID \<circ> snd) ` set cs" using committees_repD(5) [OF C] by blast
      then obtain l' c' where "(l', c') \<in> set cs" "i = uuidToStr E (c_ID c')" by auto
      with 2 have "(l', c') \<in> set ?cs" by auto
      with \<open>i = _\<close> show ?thesis by force
    qed simp
  qed
  ultimately show ?thesis unfolding committees_rep_def by blast
qed

lemma saveCommittee_refines:
  assumes E: "uuid_laws E"
  shows "refines E (\<lambda>d. launch_storable E l \<and> l_ID l \<in> l_ID ` set (db_launches d)) (sql_saveCommittee E l) (saveCommittee E l)"
  unfolding refines_def
proof (intro allI impI)
  fix s and w :: world
  let ?p = "r_Bech32Prefix (l_Record l)" and ?c = "l_Committee l" and ?d = "w_db w"
  let ?sc = "stored_committee E ?p ?c" and ?show = "\<lambda>a. underPrefix E a ?p"
  assume "represents E s ?d \<and> w_faults w = [] \<and> launch_storable E l \<and> l_ID l \<in> l_ID ` set (db_launches ?d)"
  then have R: "represents E s ?d" and nf: "w_faults w = []" and ok: "committee_storable E ?sc" and l: "l_ID l \<in> l_ID ` set (db_launches ?d)"
    by (auto simp: launch_storable_def)
  note C = representsLD(2) [OF R]
  let ?cs = "filter (\<lambda>(_, o'). c_ID o' \<noteq> c_ID ?c) (db_committees ?d) @ [(l_ID l, ?sc)]"
  let ?ms = "filter (\<lambda>r. cmc_committee_id r \<noteq> uuidToStr E (c_ID ?c)) (sq_members s)"
  let ?new = "map (member_args E AccountID_String (c_ID ?c)) (enumerate 0 (c_Members ?sc))"
  have id: "c_ID ?sc = c_ID ?c" by (simp add: stored_committee_def)
  have row: "committee_args E ?show (l_ID l) ?c = committee_args E AccountID_String (l_ID l) ?sc"
    using ok rendered by (simp add: committee_args_def stored_committee_def committee_storable_def)
  have mem: "map (member_args E ?show (c_ID ?c)) (enumerate 0 (c_Members ?c)) = ?new"
  proof -
    have "map (member_args E ?show (c_ID ?c)) (enumerate n ms) =
        map (member_args E AccountID_String (c_ID ?c)) (enumerate n (map (\<lambda>m. m\<lparr>cm_Address := stored_account E ?p (cm_Address m)\<rparr>) ms))"
      if "\<forall>m \<in> set ms. account_ok E (stored_account E ?p (cm_Address m))" for ms n
      using that by (induction ms arbitrary: n) (simp_all add: member_args_def rendered Hex_def)
    then show ?thesis using ok by (simp add: stored_committee_def committee_storable_def list_all_iff)
  qed
  have coms: "filter (\<lambda>r. coc_id r \<noteq> uuidToStr E (c_ID ?c)) (sq_committees s) @ [committee_args E AccountID_String (l_ID l) ?sc] =
      map (\<lambda>(lid, c). committee_args E AccountID_String lid c) ?cs"
    by (simp add: committees_repD(1) [OF C] filter_map comp_def case_prod_unfold uuidToStr_inject [OF E])
  have fk: "known lac_id (uuidToStr E (l_ID l)) (sq_launches s)" unfolding representsD(1) [OF R] using l by (subst known_map [OF E]) auto
  define s1 where "s1 = s\<lparr>sq_committees := map (\<lambda>(lid, c). committee_args E AccountID_String lid c) ?cs, sq_members := ?ms\<rparr>"
  have "sql_each (insert_into sq_members sq_members_update (\<lambda>r. (cmc_committee_id r, cmc_position r))
      (\<lambda>s. known coc_id (uuidToStr E (c_ID ?c)) (sq_committees s))) ?new s1 = (Inr (map (\<lambda>_. ()) ?new), sq_members_update (\<lambda>t. t @ ?new) s1)"
  proof (rule member_table.insert_all)
    show "distinct (map (\<lambda>r. (cmc_committee_id r, cmc_position r)) ?new)"
      unfolding map_map comp_def member_cols_simps by (rule distinct_positions)
  qed (auto simp: s1_def known_def id)
  then have "sql_saveCommittee E l s = (Inr (), s1\<lparr>sq_members := ?ms @ ?new\<rparr>)"
    using fk by (simp add: sql_saveCommittee_def Let_def sql_then_def row coms mem exec_def query_def s1_def id)
  moreover have "committees_rep E (map (\<lambda>(lid, c). committee_args E AccountID_String lid c) ?cs) (?ms @ ?new) ?cs"
    using committees_rep_replace [OF E C ok] by (simp only: id)
  then have "represents E (s1\<lparr>sq_members := ?ms @ ?new\<rparr>) (?d\<lparr>db_committees := ?cs\<rparr>)" using R by (simp add: represents_def s1_def)
  ultimately show "\<exists>d'. saveCommittee E l w = (fst (sql_saveCommittee E l s), w\<lparr>w_db := d'\<rparr>) \<and> represents E (snd (sql_saveCommittee E l s)) d'"
    unfolding saveCommittee_no_faults [OF nf] by auto
qed

lemma replaced_rows:
  assumes "\<forall>r \<in> set new. key r = k"
  shows "filter (\<lambda>r. key r = k') (filter (\<lambda>r. key r \<noteq> k) rows @ new) = (if k' = k then new else filter (\<lambda>r. key r = k') rows)"
    "key ` set (filter (\<lambda>r. key r \<noteq> k) rows @ new) \<subseteq> insert k (key ` set rows)"
proof -
  show "filter (\<lambda>r. key r = k') (filter (\<lambda>r. key r \<noteq> k) rows @ new) = (if k' = k then new else filter (\<lambda>r. key r = k') rows)"
    using assms by (auto simp: filter_empty_conv filter_id_conv intro!: filter_cong)
qed (use assms in auto)

lemma launches_rep_lists:
  assumes E: "uuid_laws E" and L: "launches_rep E rows allow files ls" and lid: "lid \<in> l_ID ` set ls"
  shows "list_all (member_storable E) (Members al) \<Longrightarrow> launches_rep E rows (filter (\<lambda>r. alc_launch_id r \<noteq> uuidToStr E lid) allow @
      map (allow_args E AccountID_String lid) (Members al)) files (map (\<lambda>r. if l_ID r = lid then r\<lparr>l_Allowlist := al\<rparr> else r) ls)"
    and "list_all (file_storable E) fs \<Longrightarrow> launches_rep E rows allow (filter (\<lambda>r. afc_launch_id r \<noteq> uuidToStr E lid) files @
      map (afile_args E lid) fs) (map (\<lambda>r. if l_ID r = lid then r\<lparr>l_AllocationFiles := fs\<rparr> else r) ls)"
proof -
  have sub: "uuidToStr E lid \<in> uuidToStr E ` l_ID ` set ls" using lid by auto
  have commute: "launch_columns (r\<lparr>l_Allowlist := al\<rparr>) = (launch_columns r)\<lparr>l_Allowlist := al\<rparr>"
    "launch_columns (r\<lparr>l_AllocationFiles := fs\<rparr>) = (launch_columns r)\<lparr>l_AllocationFiles := fs\<rparr>" for r by (simp_all add: launch_columns_def)
  show "launches_rep E rows (filter (\<lambda>r. alc_launch_id r \<noteq> uuidToStr E lid) allow @ map (allow_args E AccountID_String lid) (Members al)) files
      (map (\<lambda>r. if l_ID r = lid then r\<lparr>l_Allowlist := al\<rparr> else r) ls)" (is "launches_rep E rows ?allow files (map ?g ls)")
    if ok: "list_all (member_storable E) (Members al)"
  proof -
    note rows = replaced_rows [where new = "map (allow_args E AccountID_String lid) (Members al)" and key = alc_launch_id and k = "uuidToStr E lid" and rows = allow]
    have "launches_rep E (map (launch_args E) (map ?g ls)) ?allow files (map ?g ls)"
    proof (rule launches_rep_map [OF L])
      show "alc_launch_id ` set ?allow \<subseteq> uuidToStr E ` l_ID ` set ls" using rows(2) launches_repD(9) [OF L] sub by auto
      show "filter (\<lambda>a. alc_launch_id a = uuidToStr E (l_ID r)) ?allow = map (allow_args E AccountID_String (l_ID r)) (Members (l_Allowlist (?g r)))"
        if "r \<in> set ls" for r by (subst rows(1)) (simp_all add: uuidToStr_inject [OF E] launches_repD(7) [OF L that])
    qed (use launches_repD(3-6,8,10) [OF L] ok in \<open>simp_all add: columns_storable_def commute\<close>)
    moreover have "map (launch_args E) (map ?g ls) = rows" using launches_repD(1) [OF L] by (simp add: launch_args_def)
    ultimately show ?thesis by simp
  qed
  show "launches_rep E rows allow (filter (\<lambda>r. afc_launch_id r \<noteq> uuidToStr E lid) files @ map (afile_args E lid) fs)
      (map (\<lambda>r. if l_ID r = lid then r\<lparr>l_AllocationFiles := fs\<rparr> else r) ls)" (is "launches_rep E rows allow ?files (map ?g ls)")
    if ok: "list_all (file_storable E) fs"
  proof -
    note rows = replaced_rows [where new = "map (afile_args E lid) fs" and key = afc_launch_id and k = "uuidToStr E lid" and rows = files]
    have "launches_rep E (map (launch_args E) (map ?g ls)) allow ?files (map ?g ls)"
    proof (rule launches_rep_map [OF L])
      show "afc_launch_id ` set ?files \<subseteq> uuidToStr E ` l_ID ` set ls" using rows(2) launches_repD(10) [OF L] sub by auto
      show "filter (\<lambda>a. afc_launch_id a = uuidToStr E (l_ID r)) ?files = map (afile_args E (l_ID r)) (l_AllocationFiles (?g r))"
        if "r \<in> set ls" for r by (subst rows(1)) (simp_all add: uuidToStr_inject [OF E] launches_repD(8) [OF L that])
    qed (use launches_repD(3-7,9) [OF L] ok in \<open>simp_all add: columns_storable_def commute\<close>)
    moreover have "map (launch_args E) (map ?g ls) = rows" using launches_repD(1) [OF L] by (simp add: launch_args_def)
    ultimately show ?thesis by simp
  qed
qed

lemma Members_New:
  assumes "sorted (map (\<lambda>m. acct (mem_Address m)) ms)" "distinct (map (\<lambda>m. acct (mem_Address m)) ms)" "\<forall>m \<in> set ms. orig (mem_Address m) \<noteq> []"
  shows "Members (NewAllowlistFromMembers ms) = ms"
proof -
  let ?kvs = "map (\<lambda>m. (acct (mem_Address m), meta_of m)) ms"
  let ?al = "fold (\<lambda>(k, v). fmupd k v) ?kvs fmempty"
  have keys: "map fst ?kvs = map (\<lambda>m. acct (mem_Address m)) ms" by simp
  have look: "fmlookup ?al k = map_of ?kvs k" for k
    using assms(2) by (subst fmlookup_fold_fmupd) (simp_all add: comp_def split: option.split)
  have "fset (fmdom ?al) = set (map fst ?kvs)"
    by (auto simp: fmdom.rep_eq dom_def fmlookup_dom_iff look map_of_eq_None_iff image_image)
  then have "sorted_list_of_fset (fmdom ?al) = sorted_list_of_set (set (map (\<lambda>m. acct (mem_Address m)) ms))"
    unfolding sorted_list_of_fset.rep_eq keys by simp
  also have "\<dots> = map fst ?kvs" unfolding keys by (rule sorted_list_of_set.idem_if_sorted_distinct [OF assms(1,2)])
  finally have "sorted_list_of_fset (fmdom ?al) = map fst ?kvs" .
  moreover have "map (\<lambda>kv. (fst kv, the (map_of ?kvs (fst kv)))) ?kvs = ?kvs"
  proof (rule map_idI)
    fix kv assume "kv \<in> set ?kvs"
    then have "map_of ?kvs (fst kv) = Some (snd kv)" using assms(2) unfolding keys [symmetric] by (intro map_of_is_SomeI) simp_all
    then show "(fst kv, the (map_of ?kvs (fst kv))) = kv" by simp
  qed
  ultimately have "sorted_list_of_fmap ?al = ?kvs" unfolding sorted_list_of_fmap_def look by simp
  moreover have "al_members (NewAllowlistFromMembers ms) = ?al" by (simp add: NewAllowlistFromMembers_def fold_map comp_def Hex_def)
  ultimately have "Members (NewAllowlistFromMembers ms) = map (\<lambda>m. \<lparr>mem_Address = \<lparr>acct = acct (mem_Address m), orig = mm_display (meta_of m)\<rparr>,
      mem_Label = mm_label (meta_of m), mem_AddedBy = mm_addedBy (meta_of m), mem_AddedAt = mm_addedAt (meta_of m)\<rparr>) ms"
    unfolding Members_def by simp
  also have "\<dots> = ms" using assms(3) by (intro map_idI) (simp add: meta_of_def AccountID_String_def)
  finally show ?thesis .
qed

lemma on_launch_known: "(\<And>r. l_ID (f r) = l_ID r) \<Longrightarrow> l_ID ` set (db_launches (on_launch lid f d)) = l_ID ` set (db_launches d)"
proof -
  assume "\<And>r. l_ID (f r) = l_ID r"
  then have "map l_ID (db_launches (on_launch lid f d)) = map l_ID (db_launches d)" by (simp add: on_launch_def)
  then show ?thesis by (rule same_ids)
qed

lemma saveAllowlist_refines:
  assumes E: "uuid_laws E"
  shows "refines E (\<lambda>d. launch_storable E l \<and> l_ID l \<in> l_ID ` set (db_launches d)) (sql_saveAllowlist E l) (saveAllowlist E l)"
  unfolding refines_def
proof (intro allI impI)
  fix s :: sqldb and w :: world
  let ?p = "r_Bech32Prefix (l_Record l)" and ?d = "w_db w"
  let ?ms = "map (stored_member E (r_Bech32Prefix (l_Record l))) (Members (l_Allowlist l))"
  let ?al = "NewAllowlistFromMembers ?ms" and ?rows = "map (allow_args E AccountID_String (l_ID l)) ?ms"
  let ?left = "filter (\<lambda>r. alc_launch_id r \<noteq> uuidToStr E (l_ID l)) (sq_allowlist s)"
  assume "represents E s ?d \<and> w_faults w = [] \<and> launch_storable E l \<and> l_ID l \<in> l_ID ` set (db_launches ?d)"
  then have R: "represents E s ?d" and nf: "w_faults w = []" and ok: "list_all (member_storable E) ?ms" and l: "l_ID l \<in> l_ID ` set (db_launches ?d)"
    by (auto simp: launch_storable_def list_all_iff)
  have acc: "account_ok E (mem_Address m)" if "m \<in> set ?ms" for m using ok that by (auto simp: list_all_iff member_storable_def)
  have keys: "map (\<lambda>m. acct (mem_Address m)) ?ms = sorted_list_of_fset (fmdom (al_members (l_Allowlist l)))"
    by (simp add: Members_def stored_member_def sorted_list_of_fmap_def comp_def)
  have dist: "distinct (map (\<lambda>m. acct (mem_Address m)) ?ms)" unfolding keys by (simp add: sorted_list_of_fset.rep_eq)
  have mem: "Members ?al = ?ms"
  proof (rule Members_New)
    show "sorted (map (\<lambda>m. acct (mem_Address m)) ?ms)" unfolding keys by (simp add: sorted_list_of_fset.rep_eq)
    show "\<forall>m \<in> set ?ms. orig (mem_Address m) \<noteq> []" using acc account_ok_String by metis
  qed (rule dist)
  have rows: "map (allow_args E (\<lambda>a. underPrefix E a ?p) (l_ID l)) (Members (l_Allowlist l)) = ?rows"
  proof -
    have "allow_args E (\<lambda>a. underPrefix E a ?p) (l_ID l) m = allow_args E AccountID_String (l_ID l) (stored_member E ?p m)" if "m \<in> set (Members (l_Allowlist l))" for m
    proof -
      have "account_ok E (stored_account E ?p (mem_Address m))" using acc [of "stored_member E ?p m"] that by (simp add: stored_member_def)
      from rendered [OF this] show ?thesis by (simp add: allow_args_def stored_member_def Hex_def)
    qed
    then show ?thesis by simp
  qed
  have pk: "distinct (map (\<lambda>r. (alc_launch_id r, alc_address r)) ?rows)"
  proof (rule distinct_keys [OF dist])
    fix a b assume m: "a \<in> set ?ms" "b \<in> set ?ms"
      and "(\<lambda>r. (alc_launch_id r, alc_address r)) (allow_args E AccountID_String (l_ID l) a) = (\<lambda>r. (alc_launch_id r, alc_address r)) (allow_args E AccountID_String (l_ID l) b)"
    then have "AccountID_String (mem_Address a) = AccountID_String (mem_Address b)" by (simp only: allow_cols_simps prod.inject)
    then show "acct (mem_Address a) = acct (mem_Address b)" using account_ok_inject [OF acc [OF m(1)] acc [OF m(2)]] by (simp only:)
  qed
  define s1 where "s1 = s\<lparr>sq_allowlist := ?left\<rparr>"
  have "known lac_id (uuidToStr E (l_ID l)) (sq_launches s)" unfolding representsD(1) [OF R] using l by (subst known_map [OF E]) auto
  then have "sql_each (insert_into sq_allowlist sq_allowlist_update (\<lambda>r. (alc_launch_id r, alc_address r))
      (\<lambda>s. known lac_id (uuidToStr E (l_ID l)) (sq_launches s))) ?rows s1 = (Inr (map (\<lambda>_. ()) ?rows), sq_allowlist_update (\<lambda>t. t @ ?rows) s1)"
    by (intro allow_table.insert_all pk) (auto simp: s1_def)
  then have "sql_saveAllowlist E l s = (Inr (), s\<lparr>sq_allowlist := ?left @ ?rows\<rparr>)"
    unfolding sql_saveAllowlist_def rows by (simp add: sql_then_def exec_def query_def s1_def)
  moreover have "represents E (s\<lparr>sq_allowlist := ?left @ ?rows\<rparr>) (on_launch (l_ID l) (\<lambda>r. r\<lparr>l_Allowlist := ?al\<rparr>) ?d)"
    using launches_rep_lists(1) [OF E representsLD(1) [OF R] l, of ?al] R ok unfolding mem by (simp add: represents_def on_launch_def)
  ultimately show "\<exists>d'. saveAllowlist E l w = (fst (sql_saveAllowlist E l s), w\<lparr>w_db := d'\<rparr>) \<and> represents E (snd (sql_saveAllowlist E l s)) d'"
    unfolding saveAllowlist_no_faults [OF nf] by auto
qed

lemma saveAllocationFiles_refines:
  assumes E: "uuid_laws E"
  shows "refines E (\<lambda>d. launch_storable E l \<and> l_ID l \<in> l_ID ` set (db_launches d)) (sql_saveAllocationFiles E l) (saveAllocationFiles l)"
  unfolding refines_def
proof (intro allI impI)
  fix s :: sqldb and w :: world
  let ?d = "w_db w" and ?fs = "l_AllocationFiles l"
  let ?rows = "map (afile_args E (l_ID l)) ?fs" and ?left = "filter (\<lambda>r. afc_launch_id r \<noteq> uuidToStr E (l_ID l)) (sq_files s)"
  assume "represents E s ?d \<and> w_faults w = [] \<and> launch_storable E l \<and> l_ID l \<in> l_ID ` set (db_launches ?d)"
  then have R: "represents E s ?d" and nf: "w_faults w = []" and ok: "list_all (file_storable E) ?fs" "distinct (map af_Type ?fs)"
    and l: "l_ID l \<in> l_ID ` set (db_launches ?d)" by (auto simp: launch_storable_def)
  have pk: "distinct (map (\<lambda>r. (afc_launch_id r, afc_alloc_type r)) ?rows)" using ok(2) by (simp add: distinct_map comp_def inj_on_def)
  define s1 where "s1 = s\<lparr>sq_files := ?left\<rparr>"
  have "known lac_id (uuidToStr E (l_ID l)) (sq_launches s)" unfolding representsD(1) [OF R] using l by (subst known_map [OF E]) auto
  then have "sql_each (insert_into sq_files sq_files_update (\<lambda>r. (afc_launch_id r, afc_alloc_type r))
      (\<lambda>s. known lac_id (uuidToStr E (l_ID l)) (sq_launches s))) ?rows s1 = (Inr (map (\<lambda>_. ()) ?rows), sq_files_update (\<lambda>t. t @ ?rows) s1)"
    by (intro file_table.insert_all pk) (auto simp: s1_def)
  then have "sql_saveAllocationFiles E l s = (Inr (), s\<lparr>sq_files := ?left @ ?rows\<rparr>)"
    unfolding sql_saveAllocationFiles_def by (simp add: sql_then_def exec_def query_def s1_def)
  moreover have "represents E (s\<lparr>sq_files := ?left @ ?rows\<rparr>) (on_launch (l_ID l) (\<lambda>r. r\<lparr>l_AllocationFiles := ?fs\<rparr>) ?d)"
    using launches_rep_lists(2) [OF E representsLD(1) [OF R] l ok(1)] R by (simp add: represents_def on_launch_def)
  ultimately show "\<exists>d'. saveAllocationFiles l w = (fst (sql_saveAllocationFiles E l s), w\<lparr>w_db := d'\<rparr>) \<and> represents E (snd (sql_saveAllocationFiles E l s)) d'"
    unfolding saveAllocationFiles_no_faults [OF nf] by auto
qed

lemma launch_written:
  assumes "w_faults w = []"
  shows "execs (launches_update l) w = (Inr n, w') \<Longrightarrow> n \<noteq> 0 \<Longrightarrow> l_ID l \<in> l_ID ` set (db_launches (w_db w'))"
    "execs (launches_insert l) w = (Inr u, w') \<Longrightarrow> l_ID l \<in> l_ID ` set (db_launches (w_db w'))"
proof -
  show "l_ID l \<in> l_ID ` set (db_launches (w_db w'))" if upd: "execs (launches_update l) w = (Inr n, w')" "n \<noteq> 0"
  proof -
    obtain i where i: "find_index (\<lambda>r. l_ID r = l_ID l \<and> l_Version r = l_Version l) (db_launches (w_db w)) = Some i"
      using upd by (cases "find_index (\<lambda>r. l_ID r = l_ID l \<and> l_Version r = l_Version l) (db_launches (w_db w))")
        (auto simp: execs_no_faults [OF assms] launches_update_def)
    have "l_ID l \<in> l_ID ` set ((db_launches (w_db w))[i := r])" if "l_ID r = l_ID l" for r
      using set_update_memI [OF find_index_length [OF i], of r] that by (metis image_eqI)
    then show ?thesis using upd i
      by (auto simp: execs_no_faults [OF assms] launches_update_def Let_def launch_columns_def split: if_splits)
  qed
  show "l_ID l \<in> l_ID ` set (db_launches (w_db w'))" if "execs (launches_insert l) w = (Inr u, w')"
    using that by (auto simp: execs_no_faults [OF assms] launches_insert_def launch_columns_def split: if_splits)
qed

lemma launches_Save_refines:
  assumes E: "uuid_laws E"
  shows "refines E (\<lambda>_. launch_storable E l) (sql_launches_Save E l) (launches_Save E l)"
proof -
  let ?known = "\<lambda>d. launch_storable E l \<and> l_ID l \<in> l_ID ` set (db_launches d)"
  let ?written = "\<lambda>n d. launch_storable E l \<and> (n \<noteq> (0 :: nat) \<longrightarrow> l_ID l \<in> l_ID ` set (db_launches d))"
  have lists: "refines E ?known (sql_then (sql_saveAllowlist E l) (\<lambda>_. sql_saveAllocationFiles E l)) (bnd (saveAllowlist E l) (\<lambda>_. saveAllocationFiles l))"
    by (rule refines_then [OF saveAllowlist_refines [OF E] saveAllocationFiles_refines [OF E]])
      (auto simp: saveAllowlist_no_faults on_launch_known)
  have rest: "refines E ?known (sql_then (sql_saveCommittee E l) (\<lambda>_. sql_then (sql_saveAllowlist E l) (\<lambda>_. sql_saveAllocationFiles E l)))
      (bnd (saveCommittee E l) (\<lambda>_. bnd (saveAllowlist E l) (\<lambda>_. saveAllocationFiles l)))"
    by (rule refines_then [OF saveCommittee_refines [OF E] lists]) (auto simp: saveCommittee_no_faults)
  let ?ins = "\<lambda>n. if n = 0 then (\<lambda>s. case sql_launches_insert E l s of (Inl _, s') \<Rightarrow> (Inl [ErrConflict], s') | (Inr u, s') \<Rightarrow> (Inr u, s')) else query (\<lambda>_. Inr ())"
  let ?tins = "\<lambda>n. if n = 0 then (\<lambda>w. case execs (launches_insert l) w of (Inl _, w') \<Rightarrow> (Inl [ErrConflict], w') | (Inr u, w') \<Rightarrow> (Inr u, w')) else ret ()"
  have ins: "refines E (?written n) (?ins n) (?tins n)" for n
  proof (cases "n = 0")
    case False
    then show ?thesis by (simp add: refines_answer ret_def query_def)
  qed (simp add: launches_insert_refines [OF E])
  have "refines E (?written n) (sql_then (?ins n) (\<lambda>_. sql_then (sql_saveCommittee E l) (\<lambda>_. sql_then (sql_saveAllowlist E l) (\<lambda>_. sql_saveAllocationFiles E l))))
      (bnd (?tins n) (\<lambda>_. bnd (saveCommittee E l) (\<lambda>_. bnd (saveAllowlist E l) (\<lambda>_. saveAllocationFiles l))))" for n
    by (rule refines_then [OF ins rest]) (auto simp: ret_def launch_written(2) split: if_splits prod.splits sum.splits)
  then show ?thesis unfolding sql_launches_Save_def launches_Save_def
    by (rule refines_then [OF launches_update_refines [OF E]]) (auto dest: launch_written(1))
qed

section \<open>The repositories\<close>

lemma refines_given: "(P \<Longrightarrow> refines E pre c m) \<Longrightarrow> refines E (\<lambda>d. P \<and> pre d) c m"
  by (auto simp: refines_def)

text \<open>
  C40. The tables of text rows implement the typed tables.  Whatever a repository operation on launches
  (with their committee, members list and allocation files), join requests, proposals and their
  signatures, readiness confirmations, rehearsal attempts or rehearsal results does to the typed tables,
  its statements do to rows that represent them: same result or same error, and the rows go on
  representing the tables.  The values saved must come from their constructors, the launch (and join
  request) they refer to must be stored, and fresh ids must be fresh; a saved launch has at most one
  allocation file of a type.
\<close>

theorem sql_rows_refine:
  assumes "uuid_laws E"
  shows "(\<forall>l. refines E (\<lambda>_. launch_storable E l) (sql_launches_Save E l) (launches_Save E l)) \<and>
    (\<forall>i. refines E (\<lambda>_. True) (sql_launches_FindByID E i) (launches_FindByID i)) \<and>
    (\<forall>c. refines E (\<lambda>_. True) (sql_launches_FindByChainID E c) (launches_FindByChainID c)) \<and>
    (\<forall>a pg pp. refines E (\<lambda>_. True) (sql_launches_FindAll E a pg pp) (launches_FindAll E a pg pp)) \<and>
    (\<forall>st. refines E (\<lambda>_. True) (sql_launches_FindByStatus E st) (launches_FindByStatus E st)) \<and>
    (\<forall>jr. refines E (\<lambda>d. jr_LaunchID jr \<in> l_ID ` set (db_launches d) \<and> jr_storable E (jr_row E d jr))
        (sql_joinrequests_Save E jr) (joinrequests_Save E jr)) \<and>
    (\<forall>i. refines E (\<lambda>_. True) (sql_joinrequests_FindByID E i) (joinrequests_FindByID i)) \<and>
    (\<forall>l st pg pp. refines E (\<lambda>_. True) (sql_joinrequests_FindByLaunch E l st pg pp) (joinrequests_FindByLaunch E l st pg pp)) \<and>
    (\<forall>l a. refines E (\<lambda>_. True) (sql_joinrequests_FindByOperator E l a) (joinrequests_FindByOperator E l a) \<and>
       refines E (\<lambda>_. True) (sql_joinrequests_FindActiveByValidator E l a) (joinrequests_FindActiveByValidator E l a) \<and>
       refines E (\<lambda>_. True) (sql_joinrequests_CountBySubmitter E l a) (joinrequests_CountBySubmitter E l a) \<and>
       refines E (\<lambda>_. True) (sql_joinrequests_CountByConsensusPubKey E l a) (joinrequests_CountByConsensusPubKey l a)) \<and>
    (\<forall>l. refines E (\<lambda>_. True) (sql_joinrequests_FindApprovedByLaunch E l) (joinrequests_FindApprovedByLaunch E l) \<and>
       refines E (\<lambda>_. True) (sql_joinrequests_AllByLaunch E l) (joinrequests_AllByLaunch E l)) \<and>
    (\<forall>l. refines E (\<lambda>_. True) (sql_loadVotingPower E l) (loadVotingPower l)) \<and>
    (\<forall>p. refines E (\<lambda>d. prop_storable E p \<and> p_LaunchID p \<in> l_ID ` set (db_launches d)) (sql_proposals_Save E p) (proposals_Save p)) \<and>
    (\<forall>i. refines E (\<lambda>_. True) (sql_proposals_FindByID E i) (proposals_FindByID E i)) \<and>
    (\<forall>l pg pp. refines E (\<lambda>_. True) (sql_proposals_FindByLaunch E l pg pp) (proposals_FindByLaunch E l pg pp)) \<and>
    refines E (\<lambda>_. True) (sql_proposals_FindPending E) (proposals_FindPending E) \<and>
    (\<forall>l. refines E (\<lambda>_. True) (sql_ExpireAllPending E l) (ExpireAllPending l)) \<and>
    (\<forall>rc. refines E (\<lambda>d. rc_LaunchID rc \<in> l_ID ` set (db_launches d) \<and> rc_JoinRequestID rc \<in> jr_ID ` set (db_joinrequests d) \<and> rc_storable E rc)
        (sql_readiness_Save E rc) (readiness_Save rc)) \<and>
    (\<forall>l. refines E (\<lambda>_. True) (sql_readiness_FindByLaunch E l) (readiness_FindByLaunch E l)) \<and>
    (\<forall>l a. refines E (\<lambda>_. True) (sql_readiness_FindByOperator E l a) (readiness_FindByOperator E l a)) \<and>
    (\<forall>now l. refines E (\<lambda>_. time_ok E now \<and> True) (sql_InvalidateByLaunch E now l) (InvalidateByLaunch now l)) \<and>
    (\<forall>aid l h t. refines E (\<lambda>d. time_ok E t \<and> aid \<notin> ra_ID ` set (db_attempts d)) (sql_GetOrCreate E aid l h t) (GetOrCreate aid l h t)) \<and>
    (\<forall>i. refines E (\<lambda>_. True) (sql_attempts_FindByID E i) (attempts_FindByID i)) \<and>
    (\<forall>a. refines E (\<lambda>_. att_storable E a \<and> True) (sql_attempts_Save E a) (attempts_Save a)) \<and>
    (\<forall>r. refines E (\<lambda>d. res_storable E r \<and> rr_ID r \<notin> rr_ID ` set (db_results d)) (sql_results_Save E r) (results_Save r)) \<and>
    (\<forall>l. refines E (\<lambda>_. True) (sql_results_FindByLaunch E l) (results_FindByLaunch E l))"
  using assms
  by (intro conjI allI launches_Save_refines launches_Find_refines launches_lists_refine joinrequests_Save_refines joinrequests_queries_refine joinrequests_FindByLaunch_refines joinrequests_CountBySubmitter_refines
      loadVotingPower_refines proposals_FindByID_refines proposals_lists_refine ExpireAllPending_refines readiness_Save_refines readiness_queries_refine
      attempts_FindByID_refines results_FindByLaunch_refines refines_given [OF proposals_Save_refines] refines_given [OF InvalidateByLaunch_refines]
      refines_given [OF GetOrCreate_refines] refines_given [OF attempts_Save_refines] refines_given [OF results_Save_refines])

definition rows_env :: env where
  "rows_env = example_env\<lparr>uuid_String := (\<lambda>u. replicate (unat u) CHR ''u''), uuid_Parse := (\<lambda>s. Some (of_nat (length s))),
     time_ParseRFC3339 := (\<lambda>s. Some (int (length s)))\<rparr>"

definition rows_world :: world where
  "rows_world = fresh_world\<lparr>w_db := empty_db\<rparr>"

definition rows_sql :: sqldb where
  "rows_sql = \<lparr>sq_launches = [], sq_committees = [], sq_members = [], sq_allowlist = [], sq_files = [], sq_join_requests = [], sq_proposals = [],
     sq_signatures = [], sq_readiness = [], sq_attempts = [], sq_results = []\<rparr>"

definition rows_account :: AccountID where
  "rows_account = \<lparr>acct = ''58'', orig = ''c1X''\<rparr>"

definition rows_launch :: Launch where
  "rows_launch = example_launch\<lparr>l_Allowlist := NewAllowlistFromMembers [bare_member rows_account],
     l_Committee := \<lparr>c_ID = 1, c_Members = [\<lparr>cm_Address = rows_account, cm_Moniker = ''m''\<rparr>], c_ThresholdM = 1, c_TotalN = 1,
       c_LeadAddress = rows_account, c_CreatedAt = 0\<rparr>,
     l_Record := example_record\<lparr>r_MaxCommissionRate := \<lparr>cr_value = ''0'', cr_f = Fin 0\<rparr>, r_MaxCommissionChangeRate := \<lparr>cr_value = ''0'', cr_f = Fin 0\<rparr>\<rparr>\<rparr>"

lemma rows_account_ok: "account_ok rows_env (stored_account rows_env ''cosmos'' rows_account)"
  by code_simp

lemma rows_storable: "launch_storable rows_env rows_launch"
proof -
  have t: "time_ok rows_env t" if "0 \<le> t" for t using that by (simp add: time_ok_def timeToStr_def rows_env_def example_env_def)
  have r: "NewCommissionRate rows_env ''0'' = Inr \<lparr>cr_value = ''0'', cr_f = Fin 0\<rparr>" by (simp add: NewCommissionRate_def rows_env_def example_env_def)
  have "Members (l_Allowlist rows_launch) = [bare_member rows_account]"
    unfolding rows_launch_def by simp (rule Members_New, simp_all add: bare_member_def rows_account_def)
  then show ?thesis
    by (simp add: launch_storable_def columns_storable_def committee_storable_def stored_committee_def member_storable_def stored_member_def
        time_IsZero_def bare_member_def rows_account_ok t r rows_launch_def example_launch_def example_record_def parse_launch_type_def)
qed

lemma rows_saved: "fst (launches_Save E l rows_world) = Inr ()"
  by (simp add: launches_Save_def bnd_def execs_no_faults launches_update_def launches_insert_def rows_world_def fresh_world_def empty_db_def
      saveCommittee_no_faults saveAllowlist_no_faults saveAllocationFiles_no_faults)

theorem sql_rows_refine_witness:
  "\<exists>d'. launches_Save rows_env rows_launch rows_world = (Inr (), rows_world\<lparr>w_db := d'\<rparr>) \<and>
     represents rows_env (snd (sql_launches_Save rows_env rows_launch rows_sql)) d'"
proof -
  have "uuid_laws rows_env" by (simp add: uuid_laws_def rows_env_def)
  note R = conjunct1 [OF sql_rows_refine [OF this], THEN spec, of rows_launch, unfolded refines_def, THEN spec, THEN spec, of rows_sql rows_world]
  have "represents rows_env rows_sql (w_db rows_world)"
    by (simp add: represents_def proposals_rep_def launches_rep_def committees_rep_def rows_sql_def rows_world_def fresh_world_def empty_db_def)
  moreover have "w_faults rows_world = []" by (simp add: rows_world_def fresh_world_def)
  ultimately show ?thesis using R rows_storable rows_saved [of rows_env rows_launch] by (metis fst_conv)
qed

end
