(* ===== verification/CommandLine.thy ===== *)
theory CommandLine
  imports Serve Database
begin

text \<open>
  The command line of coordd (cmd/coordd/cmd): the tree of commands, the version they report, and how
  the serving command ends.  Parsing the arguments is left to cobra: a run of the program starts here
  with the path of the command that was chosen and its flags.
\<close>

section \<open>Version (version.go)\<close>

definition shortHashLen :: nat where "shortHashLen = 7"

fun vcs_setting :: "string \<times> string \<Rightarrow> string \<times> string \<Rightarrow> string \<times> string" where
  \<comment> \<open>one turn of the loop over the build settings: the commit and the mark of a modified tree\<close>
  "vcs_setting (k, v) (commit, dirty) =
     (if k = ''vcs.revision'' then (if length v > shortHashLen then take shortHashLen v else v, dirty)
      else if k = ''vcs.modified'' then (commit, if v = ''true'' then ''-dirty'' else dirty)
      else (commit, dirty))"

definition resolvedVersion :: "string \<Rightarrow> (string \<times> string) list option \<Rightarrow> string" where
  \<comment> \<open>the version set by the linker, and what \<open>debug.ReadBuildInfo\<close> returns\<close>
  "resolvedVersion v info =
     (if v \<noteq> ''dev'' then v
      else case info of
        None \<Rightarrow> v
      | Some settings \<Rightarrow> let (commit, dirty) = fold vcs_setting settings ([], []) in
          if commit = [] then v else ''dev-'' @ commit @ dirty)"

lemma setting_branches:
  assumes "(if a then (if b then x else v, d) else if e then (c, if t then m else d) else (c, d)) = (c1, d1)"
  shows "(c1 = c \<or> b \<and> c1 = x \<or> \<not> b \<and> c1 = v) \<and> (d1 = d \<or> d1 = m)"
  using assms by (simp split: if_splits)

lemma vcs_settings_shape:
  "length c \<le> 7 \<Longrightarrow> d \<in> {[], ''-dirty''} \<Longrightarrow> fold vcs_setting ss (c, d) = (c', d') \<Longrightarrow> length c' \<le> 7 \<and> d' \<in> {[], ''-dirty''}"
proof (induction ss arbitrary: c d)
  case (Cons s ss)
  obtain k v where s: "s = (k, v)" by (cases s)
  obtain c1 d1 where st: "vcs_setting (k, v) (c, d) = (c1, d1)" by (cases "vcs_setting (k, v) (c, d)")
  note b = setting_branches [OF st [unfolded vcs_setting.simps shortHashLen_def]]
  have "length c1 \<le> 7" using b Cons.prems(1) by (elim conjE disjE) simp_all
  moreover have "d1 \<in> {[], ''-dirty''}" using b Cons.prems(2) by blast
  ultimately show ?case using Cons.IH [of c1 d1] Cons.prems(3) st by (simp only: s fold_simps)
qed simp

text \<open>A development build names at most seven characters of its commit, and a released one is never marked.\<close>

lemma resolvedVersion_shape:
  "resolvedVersion v info = v \<or>
   v = ''dev'' \<and> (\<exists>c d. resolvedVersion v info = ''dev-'' @ c @ d \<and> 0 < length c \<and> length c \<le> 7 \<and> d \<in> {[], ''-dirty''})"
proof -
  have shape: ?thesis if "v = ''dev''" "info = Some ss" "fold vcs_setting ss ([], []) = (c, d)" "c \<noteq> []" for ss c d
  proof -
    have "resolvedVersion v info = ''dev-'' @ c @ d" by (simp add: resolvedVersion_def that)
    moreover have "length c \<le> 7 \<and> d \<in> {[], ''-dirty''}" by (rule vcs_settings_shape [OF _ _ that(3)]) simp_all
    ultimately show ?thesis using that(1,4) by blast
  qed
  have "resolvedVersion v info = v" if "v \<noteq> ''dev''" using that by (simp only: resolvedVersion_def if_True not_False_eq_True)
  moreover have "resolvedVersion v None = v" by (simp add: resolvedVersion_def)
  moreover have "resolvedVersion v (Some ss) = v" if "fold vcs_setting ss ([], []) = ([], d)" for ss d by (simp add: resolvedVersion_def that)
  ultimately show ?thesis using shape by (metis option.exhaust surj_pair)
qed

section \<open>The end of the server (serve.go)\<close>

datatype serve_end =
    ServerErr bool          \<comment> \<open>the listener returned: \<open>http.ErrServerClosed\<close> or another error\<close>
  | Signalled bool          \<comment> \<open>SIGINT or SIGTERM, and whether the connections were drained within the timeout\<close>

definition shutdownTimeout :: duration where "shutdownTimeout = 30 * Second"

definition serveAndWait :: "serve_end \<Rightarrow> unit result \<times> bool" where
  \<comment> \<open>the result, and whether the background jobs were told to stop\<close>
  "serveAndWait e = (case e of
     ServerErr wasClosed \<Rightarrow> (require wasClosed [], False)
   | Signalled drained \<Rightarrow> (require drained [], True))"

section \<open>Commands (root.go)\<close>

datatype command = CmdServe | CmdMigrate | CmdKeygen | CmdVersion | CmdAuditVerify

definition newRootCmd :: "(string list \<times> command) list" where
  "newRootCmd = [([''serve''], CmdServe), ([''migrate''], CmdMigrate), ([''keygen''], CmdKeygen), ([''version''], CmdVersion),
     ([''audit'', ''verify''], CmdAuditVerify)]"

definition Execute :: "'a result \<Rightarrow> nat" where
  \<comment> \<open>the exit status of the process, from what the command returned\<close>
  "Execute r = (case r of Inl _ \<Rightarrow> 1 | Inr _ \<Rightarrow> 0)"

text \<open>A verification that finds an anomaly makes the process fail, so scripts can rely on its status.\<close>

lemma audit_verify_status:
  "Execute (runAuditVerify E C get (Some f) pk url) = 0 \<Longrightarrow>
     \<exists>pubKey. resolveAuditPubKey get pk url = Inr pubKey \<and> sr_Anomalies (fst (Scan E C pubKey f)) = []"
  by (auto simp: Execute_def runAuditVerify_def and_then_def Let_def split: sum.splits prod.splits if_splits)

end
