(* ===== verification/Spec2Isabelle.thy ===== *)
theory Spec2Isabelle
  imports LaunchProperties GovernanceProperties2 AuditProperties EventStream Findings KeyProperties ServeProperties ApiTypes VotingTermination SqlLaunchRefinement
    CommandLine
begin

text \<open>
  Verification of coordd, the coordinator of Cosmos chain launches (src/).

  \<^bold>\<open>The program.\<close>  A launch is prepared by a committee: it publishes a chain record, opens a window for
  validators, reviews their join requests, closes the window, publishes a genesis file and watches the
  chain start.  Every decision is a proposal that committee members sign until a threshold is met.  A
  handler of the HTTP API authenticates the caller and calls a service; a service loads aggregates from
  the repositories, calls their domain methods, saves them, appends to the signed audit log and publishes
  the event to the streams of watching clients.  Two background jobs expire proposals and detect the
  first block.

  \<^bold>\<open>The model.\<close>  Pure domain code is functions on records that carry the Go field names with a prefix;
  errors are lists of sentinels, the targets of \<open>errors.Is\<close>, so \<open>'a result = goerror + 'a\<close>.  Services and
  handlers are functions \<open>world \<Rightarrow> 'a result \<times> world\<close>: the world holds the database tables, the audit
  trail, the published events, the stored files and a schedule of faults, of which every statement, file
  access and audit write consumes an entry; theorems about services hold for every schedule unless they
  say otherwise.  What a handler draws from the clock and the random source is an argument.  Third-party
  packages (bech32, uuid, net/url, time formats, canonical JSON, SHA-256, Ed25519, secp256k1, JWT, viper,
  the gentx validator, DNS) are fields of records passed to the definitions, and what a theorem needs of
  them is a named predicate (\<open>audit_laws\<close>, \<open>jwt_laws\<close>, \<open>rfc3339_seconds\<close>, \<open>bech32_laws\<close>, \<open>ecdsa_laws\<close>,
  \<open>hash_laws\<close>, \<open>signing_laws\<close>) with an instance in its witness.

  \<^bold>\<open>Theories, by part of the source.\<close>
  \<^item> Prelude, Encoding, Base64, Json, JsonPrint: what the code uses of the Go library; lists, rows, results.
  \<^item> Values, Allocation, LaunchModel, VotingPower, Rounding, Committee, Lifecycle (internal/domain/launch):
    identities, the launch aggregate, committee changes, the status machine, the float64 share.
  \<^item> JoinRequest, Payload, Proposal, Rehearsal, Events, EventJson (internal/domain).
  \<^item> Store, Repositories, RehearsalRepository, FileStore (internal/infrastructure/storage): the repositories on
    typed rows.  SqlRows, SqlLaunchRows: the same statements on rows of text columns, with the scans
    (joinrequest.go, proposal.go, readiness.go, rehearsal.go, helpers.go; launch.go under storage/sqlite).
  \<^item> ServiceBase, ProposalService, LaunchService, JoinRequestService, ReadinessService, RehearsalService, Auth
    (internal/application/services, auth/jwt.go, the challenge store), Jobs (infrastructure/jobs).
  \<^item> AuditLog, AuditChain, AuditCli (infrastructure/auditlog and \<open>coordd audit verify\<close>).
  \<^item> Http, ApiJson, ApiHandlers, ApiRoutes (infrastructure/api): every handler, the middleware, the router.
  \<^item> Broker, EventStream (infrastructure/sse, api/events.go).
  \<^item> Crypto (infrastructure/crypto), SmokeSigner (cmd/smoke-signer): verification of signatures and the client
    that makes them.
  \<^item> Netutil (internal/netutil): the guard on RPC URLs, with the address and network texts of package net.
  \<^item> Database (storage/sqlite/db.go, backfill.go): migrations and the rewriting of legacy rows at start-up.
  \<^item> Config (internal/config, keygen), Serve (cmd/coordd/cmd/serve.go, the gentx validator adapter): from the
    configuration to the server record the HTTP layer runs on.  CommandLine (cmd/coordd/cmd): commands,
    version, shutdown.
  \<^item> System: requests, ticks, crashes and restarts as a step relation over the whole world.

  \<^bold>\<open>Interfaces.\<close>  Locales state what clients rely on, each interpreted on the model's own definitions:
  \<open>member_directory\<close> (the members list and the coordinator list), \<open>world_invariant\<close> (what an invariant has
  to survive for every handler to keep it), \<open>frame_relation\<close> (what a handler may leave behind), \<open>row_codec\<close>
  (scanning the columns of a storable value gives it back), \<open>sql_table\<close> (a table that rows are inserted in).

  \<^bold>\<open>What is proved.\<close>
  \<^item> LaunchProperties, DomainProperties: the launch invariant, the lifecycle, the one-third gate with its
    rounding, quorum and life of proposals, committee resizing, leases, visibility, amounts.
  \<^item> GovernanceProperties, GovernanceProperties2: authenticated governance, atomic and announced execution,
    freshness of a published genesis, unique keys and announced executions in every reachable world.
  \<^item> AuditProperties: the log reads back, tampering shows.  AuthProperties: life of a token, login, the rate
    limit, the coordinator list as a set.
  \<^item> ApiProperties: requests without a credential, safety of GET, launches hidden from a caller.
  \<^item> ApiTypes: every response has its documented status and shape.  EventStream: delivery and framing of
    events.  VotingTermination: voting on a proposal ends.
  \<^item> KeyProperties: a login proves the possession of the account's key, and the client can log in.
    Netutil: the guard as numeric intervals.  Database: migrations once and in order, the backfill keeps the
    coordinators.  ServeProperties: what a started server rests on.
  \<^item> SqlRefinement, SqlLaunchRefinement: the statements on text rows implement the typed repositories
    (\<open>uuid_laws\<close>, and values that come from their constructors).
  \<^item> Findings: behaviours that differ from the intent, as lemmas.

  \<^bold>\<open>Bounds.\<close>  Integers are \<open>64 word\<close> where the code can wrap (amounts, offsets, durations written with
  their saturation); JSON nesting recurses on fuel twice the input's length, which the round-trip proofs
  show to be enough; loops are structural recursion.

  \<^bold>\<open>Not modelled.\<close>  Error message texts, log lines, response headers and CORS; the concurrency of two
  handlers inside one database transaction (handlers are atomic with respect to each other); the SQL
  scripts; the text columns of the authentication tables, whose rows are typed; cobra's parsing of
  arguments and the listener; the scheduling of tickers.
\<close>

end
